(* ===== verification/Errors.thy ===== *)
theory Errors
  imports Main
begin

text \<open>
  The exception hierarchy: \<^verbatim>\<open>guardianmesh/core/errors.py\<close>,
  \<^verbatim>\<open>errors.py\<close> of \<^verbatim>\<open>screen\<close>, \<^verbatim>\<open>orion\<close>, \<^verbatim>\<open>aegis\<close> and
  \<^verbatim>\<open>atlas\<close>, with the builtin exceptions the modelled code can let escape.  The classes are
  grouped by the phase comments of the source, one datatype each, and \<open>gm_error\<close> is their union.
  An exception is the value of its class: the formatted message is not kept.
  \<open>base_class\<close> is the class each one inherits from, and \<open>is_instance e c\<close> is what
  \<^verbatim>\<open>isinstance(e, c)\<close>, and so \<^verbatim>\<open>except c\<close>, decides.
\<close>

datatype core_error =
    GuardianMeshError | ConfigError | StorageError | DatabaseMigrationError
  | DatabaseIntegrityError | IdentityError | InvalidIdentityError | IdentityNotFoundError
  | SecurityError | CryptoError | KeyStorageError | AuditError | PlatformError | ValidationError

datatype pairing_error =
    PairingError | InvalidStateTransitionError | PairingSessionNotFoundError
  | PairingSessionExpiredError | OTPVerificationError | OTPExpiredError
  | OTPAttemptLimitExceededError | RateLimitExceededError | ChildAuthorizationDeniedError
  | InvalidNonceError | ReplayedNonceError | ProviderNotConfiguredError
  | TrustError | TrustRevokedError | DeviceNotTrustedError

datatype telemetry_error =
    TelemetryError | TelemetryValidationError | TelemetryReplayError | TelemetrySignatureError
  | TelemetryTimestampError | TelemetryAuthenticationError | TelemetryTransportError
  | TelemetryDevicePausedError

datatype policy_error =
    PolicyError | PolicyNotFoundError | PolicyValidationError | InvalidRuleError
  | AlertError | AlertNotFoundError

datatype transport_error =
    TransportError | TransportAuthenticationError | TransportHandshakeError
  | TransportSessionExpiredError | TransportReplayError | TransportSequenceError
  | TransportConnectionClosedError | TransportTimeoutError | TransportMessageError
  | TransportPayloadError | TransportRevokedError | TransportStateError
  | TransportFramingError | TransportOversizedMessageError

datatype screen_error =
    ScreenError | ScreenAuthorizationError | ScreenAuthorizationDeniedError
  | ScreenAuthorizationExpiredError | ScreenAuthorizationNotFoundError
  | ScreenSessionError | ScreenSessionNotFoundError | ScreenSessionStateError
  | ScreenSessionExpiredError | ScreenSessionRevokedError
  | ScreenFrameError | ScreenFrameOversizedError | ScreenFrameSequenceError
  | ScreenFrameValidationError | ScreenCodecError | ScreenBackpressureError
  | ScreenProviderError | ScreenRemoteControlError

datatype orion_error =
    OrionError | OrionEventError | OrionActionError | OrionQueueError | OrionHandlerError
  | OrionReconciliationError | OrionConsentViolationError | OrionCapabilityError
  | OrionShutdownError | OrionSchedulerError

datatype aegis_error =
    AegisError | AegisPlatformUnavailableError | AegisConsentRequiredError
  | AegisConsentDeniedError | AegisConsentRevokedError | AegisProjectionError
  | AegisEncoderError | AegisImageReaderError | AegisFramePipelineError
  | AegisForegroundServiceError | AegisLifecycleError | AegisAuthorizationRequiredError
  | AegisFrameDroppedError | AegisSessionError

datatype atlas_error =
    AtlasError | AtlasIntegrityError | AtlasLifecycleError | AtlasHealthError
  | AtlasDiagnosticsError | AtlasBackupError | AtlasRecoveryError | AtlasCompatibilityError
  | AtlasCapabilityError | AtlasObservabilityError | AtlasRetentionError | AtlasSecurityError
  | AtlasReleaseError | AtlasConfigurationError | AtlasConcurrencyError

datatype builtin_error =
    PyException | PyTypeError | PyValueError | PyAttributeError | PyKeyError | PyOverflowError | PyOSError
  | PyRuntimeError | SqliteIntegrityError | SqliteOperationalError | SqliteBindingError

datatype gm_error =
    Core core_error
  | Pairing pairing_error
  | Telemetry telemetry_error
  | Policy policy_error
  | Transport transport_error
  | Screen screen_error
  | Orion orion_error
  | Aegis aegis_error
  | Atlas atlas_error
  | Builtin builtin_error

text \<open>Every class of the repository that is not listed inherits from the root class directly.\<close>

fun base_class :: "gm_error \<Rightarrow> gm_error option" where
  "base_class (Builtin PyException) = None"
| "base_class (Builtin _) = Some (Builtin PyException)"
| "base_class (Core GuardianMeshError) = Some (Builtin PyException)"
| "base_class (Core DatabaseMigrationError) = Some (Core StorageError)"
| "base_class (Core DatabaseIntegrityError) = Some (Core StorageError)"
| "base_class (Core InvalidIdentityError) = Some (Core IdentityError)"
| "base_class (Core IdentityNotFoundError) = Some (Core IdentityError)"
| "base_class (Core CryptoError) = Some (Core SecurityError)"
| "base_class (Core KeyStorageError) = Some (Core SecurityError)"
| "base_class (Core _) = Some (Core GuardianMeshError)"
| "base_class (Pairing PairingError) = Some (Core GuardianMeshError)"
| "base_class (Pairing TrustError) = Some (Core GuardianMeshError)"
| "base_class (Pairing OTPExpiredError) = Some (Pairing OTPVerificationError)"
| "base_class (Pairing OTPAttemptLimitExceededError) = Some (Pairing OTPVerificationError)"
| "base_class (Pairing ReplayedNonceError) = Some (Pairing InvalidNonceError)"
| "base_class (Pairing TrustRevokedError) = Some (Pairing TrustError)"
| "base_class (Pairing DeviceNotTrustedError) = Some (Pairing TrustError)"
| "base_class (Pairing _) = Some (Pairing PairingError)"
| "base_class (Telemetry TelemetryError) = Some (Core GuardianMeshError)"
| "base_class (Telemetry _) = Some (Telemetry TelemetryError)"
| "base_class (Policy PolicyError) = Some (Core GuardianMeshError)"
| "base_class (Policy AlertError) = Some (Core GuardianMeshError)"
| "base_class (Policy AlertNotFoundError) = Some (Policy AlertError)"
| "base_class (Policy _) = Some (Policy PolicyError)"
| "base_class (Transport TransportError) = Some (Core GuardianMeshError)"
| "base_class (Transport _) = Some (Transport TransportError)"
| "base_class (Screen ScreenError) = Some (Core GuardianMeshError)"
| "base_class (Screen ScreenAuthorizationDeniedError) = Some (Screen ScreenAuthorizationError)"
| "base_class (Screen ScreenAuthorizationExpiredError) = Some (Screen ScreenAuthorizationError)"
| "base_class (Screen ScreenAuthorizationNotFoundError) = Some (Screen ScreenAuthorizationError)"
| "base_class (Screen ScreenSessionNotFoundError) = Some (Screen ScreenSessionError)"
| "base_class (Screen ScreenSessionStateError) = Some (Screen ScreenSessionError)"
| "base_class (Screen ScreenSessionExpiredError) = Some (Screen ScreenSessionError)"
| "base_class (Screen ScreenSessionRevokedError) = Some (Screen ScreenSessionError)"
| "base_class (Screen ScreenFrameOversizedError) = Some (Screen ScreenFrameError)"
| "base_class (Screen ScreenFrameSequenceError) = Some (Screen ScreenFrameError)"
| "base_class (Screen ScreenFrameValidationError) = Some (Screen ScreenFrameError)"
| "base_class (Screen _) = Some (Screen ScreenError)"
| "base_class (Orion OrionError) = Some (Core GuardianMeshError)"
| "base_class (Orion _) = Some (Orion OrionError)"
| "base_class (Aegis AegisError) = Some (Core GuardianMeshError)"
| "base_class (Aegis _) = Some (Aegis AegisError)"
| "base_class (Atlas AtlasError) = Some (Core GuardianMeshError)"
| "base_class (Atlas _) = Some (Atlas AtlasError)"

text \<open>No chain of base classes is longer than five, so six steps reach the root.\<close>

fun is_instance_fuel :: "nat \<Rightarrow> gm_error \<Rightarrow> gm_error \<Rightarrow> bool" where
  "is_instance_fuel 0 e c = False"
| "is_instance_fuel (Suc n) e c =
     (e = c \<or> (case base_class e of None \<Rightarrow> False | Some b \<Rightarrow> is_instance_fuel n b c))"

definition is_instance :: "gm_error \<Rightarrow> gm_error \<Rightarrow> bool" where
  "is_instance e c = is_instance_fuel 6 e c"

end
