(* ===== verification/Prelude.thy ===== *)
theory Prelude
  imports Errors
begin

text \<open>
  What every component shares: the collections the proofs draw on, the reading of Python's
  strings, timestamps and dictionaries, operations that raise, the SQL tables and the audit
  trail.

  \<^item> An operation that may raise is a function of the state into \<open>(gm_error + 'a) \<times> 's\<close>:
    the result or the exception, and the state as it is afterwards in either case (Python
    keeps the mutations made before a \<^verbatim>\<open>raise\<close>).
  \<^item> Text is ASCII: \<^verbatim>\<open>upper\<close>, \<^verbatim>\<open>lower\<close> and \<^verbatim>\<open>strip\<close> are Python's on that
    range.
  \<^item> The clock is an argument: \<open>now\<close>, an instant in microseconds.
\<close>

named_theorems table_simps \<open>how the SQL tables answer after a write\<close>
named_theorems model_defs \<open>definitions of small helpers that proofs unfold freely\<close>

section \<open>Operations that raise\<close>

type_synonym ('s, 'a) outcome = "(gm_error + 'a) \<times> 's"

abbreviation raises :: "gm_error \<Rightarrow> 's \<Rightarrow> ('s, 'a) outcome" where
  "raises e s \<equiv> (Inl e, s)"

abbreviation returns :: "'a \<Rightarrow> 's \<Rightarrow> ('s, 'a) outcome" where
  "returns x s \<equiv> (Inr x, s)"

definition succeeded :: "('s, 'a) outcome \<Rightarrow> bool" where
  "succeeded r \<longleftrightarrow> (case fst r of Inl _ \<Rightarrow> False | Inr _ \<Rightarrow> True)"

lemma succeeded_simps [simp]: "\<not> succeeded (Inl e, s)" "succeeded (Inr x, s)"
  by (simp_all add: succeeded_def)

lemma snd_rethrow [simp]:
  "snd (case r of (Inl e, s) \<Rightarrow> (Inl e, s) | (Inr x, s) \<Rightarrow> (Inr (f x), s)) = snd r"
  by (cases r; cases "fst r") auto

section \<open>Timestamps\<close>

text \<open>
  A timestamp column or field is a text.  \<open>stamp\<close> is what
  \<^verbatim>\<open>datetime.fromisoformat\<close> makes of it: the empty text (falsy in Python), an aware
  datetime (an instant in microseconds), a naive one (comparing it with an aware datetime
  raises \<^verbatim>\<open>TypeError\<close>), or a text that raises \<^verbatim>\<open>ValueError\<close>.
  \<^verbatim>\<open>datetime.now(UTC).isoformat()\<close> writes \<open>Aware now\<close>.
\<close>

datatype stamp = Blank | Aware int | Naive int | Malformed string

definition second :: int where [model_defs]: "second = 1000000"

text \<open>\<^verbatim>\<open>timedelta(seconds=n)\<close> in microseconds, and \<^verbatim>\<open>(now + timedelta).isoformat()\<close>.\<close>

definition stamp_after :: "int \<Rightarrow> int \<Rightarrow> stamp" where
  [model_defs]: "stamp_after now secs = Aware (now + secs * second)"

text \<open>
  \<^verbatim>\<open>datetime.fromisoformat(s)\<close>, then a comparison or subtraction with an aware datetime:
  the instant, or the exception one of the two raises.
\<close>

fun aware_instant :: "stamp \<Rightarrow> gm_error + int" where
  "aware_instant (Aware t) = Inr t"
| "aware_instant (Naive t) = Inl (Builtin PyTypeError)"
| "aware_instant (Malformed x) = Inl (Builtin PyValueError)"
| "aware_instant Blank = Inl (Builtin PyValueError)"

section \<open>Strings\<close>

definition is_py_space :: "char \<Rightarrow> bool" where
  "is_py_space c \<longleftrightarrow> (let n = (of_char c :: nat) in (9 \<le> n \<and> n \<le> 13) \<or> (28 \<le> n \<and> n \<le> 32))"

definition py_strip :: "string \<Rightarrow> string" where
  "py_strip s = rev (dropWhile is_py_space (rev (dropWhile is_py_space s)))"

definition upper_char :: "char \<Rightarrow> char" where
  "upper_char c = (let n = (of_char c :: nat) in if 97 \<le> n \<and> n \<le> 122 then char_of (n - 32) else c)"

definition lower_char :: "char \<Rightarrow> char" where
  "lower_char c = (let n = (of_char c :: nat) in if 65 \<le> n \<and> n \<le> 90 then char_of (n + 32) else c)"

definition py_upper :: "string \<Rightarrow> string" where "py_upper s = map upper_char s"

definition py_lower :: "string \<Rightarrow> string" where "py_lower s = map lower_char s"

text \<open>\<^verbatim>\<open>sub in s\<close>.\<close>

fun py_contains :: "string \<Rightarrow> string \<Rightarrow> bool" where
  "py_contains sub [] = (sub = [])"
| "py_contains sub (c # cs) = (take (length sub) (c # cs) = sub \<or> py_contains sub cs)"

definition is_digit :: "char \<Rightarrow> bool" where
  "is_digit c \<longleftrightarrow> (let n = (of_char c :: nat) in 48 \<le> n \<and> n \<le> 57)"

text \<open>\<^verbatim>\<open>s.replace(c, "")\<close> for a text of one character.\<close>

definition remove_char :: "char \<Rightarrow> string \<Rightarrow> string" where
  "remove_char c s = filter (\<lambda>x. x \<noteq> c) s"

text \<open>\<^verbatim>\<open>bytes.fromhex\<close>: two hexadecimal digits a byte, white space allowed between bytes.\<close>

definition hex_digit :: "char \<Rightarrow> nat option" where
  "hex_digit c =
     (let n = (of_char c :: nat) in
      if 48 \<le> n \<and> n \<le> 57 then Some (n - 48)
      else if 65 \<le> n \<and> n \<le> 70 then Some (n - 55)
      else if 97 \<le> n \<and> n \<le> 102 then Some (n - 87)
      else None)"

fun from_hex :: "string \<Rightarrow> nat list option" where
  "from_hex [] = Some []"
| "from_hex [c] = (if is_py_space c then Some [] else None)"
| "from_hex (c # d # cs) =
     (if is_py_space c then from_hex (d # cs)
      else case (hex_digit c, hex_digit d) of
        (Some x, Some y) \<Rightarrow> map_option (\<lambda>r. (16 * x + y) # r) (from_hex cs)
      | _ \<Rightarrow> None)"

text \<open>\<^verbatim>\<open>cls(val.strip().upper())\<close> of a string enumeration.\<close>

definition enum_of :: "('e \<Rightarrow> string) \<Rightarrow> 'e list \<Rightarrow> string \<Rightarrow> 'e option" where
  "enum_of val members s = find (\<lambda>e. val e = py_upper (py_strip s)) members"

text \<open>A member is found by its own text when the texts are distinct, stripped and upper case.\<close>

lemma enum_of_value:
  assumes "x \<in> set xs" and "distinct (map val xs)" and "py_upper (py_strip (val x)) = val x"
  shows "enum_of val xs (val x) = Some x"
proof -
  have "find (\<lambda>e. val e = val x) xs = Some x"
    using assms(1,2) by (induction xs) (auto simp: image_iff)
  then show ?thesis by (simp add: enum_of_def assms(3))
qed

lemma py_upper_length [simp]: "length (py_upper s) = length s"
  by (simp add: py_upper_def)

lemma py_strip_Nil [simp]: "py_strip [] = []"
  by (simp add: py_strip_def)

lemma dropWhile_idem: "dropWhile P (dropWhile P xs) = dropWhile P xs"
  by (induction xs) auto

section \<open>JSON values\<close>

text \<open>Dictionaries keep their insertion order: a list of key-value pairs with distinct keys.\<close>

datatype json =
    JNull
  | JBool bool
  | JInt int
  | JStr string
  | JList "json list"
  | JObj "(string \<times> json) list"

section \<open>SQL tables\<close>

text \<open>
  A table is the list of its rows in insertion order.  \<open>key\<close> reads the primary key.
  \<open>fetch_where\<close> is \<^verbatim>\<open>SELECT ... WHERE p\<close> with \<^verbatim>\<open>fetchone\<close>,
  \<open>update_where\<close> is \<^verbatim>\<open>UPDATE ... SET f WHERE p\<close>, \<open>insert_row\<close> is
  \<^verbatim>\<open>INSERT\<close> under the primary key constraint (\<open>None\<close> is \<^verbatim>\<open>sqlite3.IntegrityError\<close>)
  and \<open>upsert_row\<close> is \<^verbatim>\<open>INSERT ... ON CONFLICT(key) DO UPDATE SET f\<close>.
\<close>

definition fetch_where :: "('r \<Rightarrow> bool) \<Rightarrow> 'r list \<Rightarrow> 'r option" where
  "fetch_where p rows = find p rows"

definition update_where :: "('r \<Rightarrow> bool) \<Rightarrow> ('r \<Rightarrow> 'r) \<Rightarrow> 'r list \<Rightarrow> 'r list" where
  "update_where p f rows = map (\<lambda>r. if p r then f r else r) rows"

definition has_key :: "('r \<Rightarrow> 'k) \<Rightarrow> 'k \<Rightarrow> 'r list \<Rightarrow> bool" where
  "has_key key k rows \<longleftrightarrow> list_ex (\<lambda>r. key r = k) rows"

definition insert_row :: "('r \<Rightarrow> 'k) \<Rightarrow> 'r \<Rightarrow> 'r list \<Rightarrow> 'r list option" where
  "insert_row key r rows = (if has_key key (key r) rows then None else Some (rows @ [r]))"

definition upsert_row :: "('r \<Rightarrow> 'k) \<Rightarrow> 'r \<Rightarrow> ('r \<Rightarrow> 'r) \<Rightarrow> 'r list \<Rightarrow> 'r list" where
  "upsert_row key r f rows =
     (if has_key key (key r) rows then update_where (\<lambda>x. key x = key r) f rows else rows @ [r])"

definition keyed :: "('r \<Rightarrow> 'k) \<Rightarrow> 'r list \<Rightarrow> bool" where
  "keyed key rows \<longleftrightarrow> distinct (map key rows)"

text \<open>\<^verbatim>\<open>LIMIT n\<close>: SQLite reads a negative limit as none.\<close>

definition sql_limit :: "int \<Rightarrow> 'a list \<Rightarrow> 'a list" where
  "sql_limit n xs = (if n < 0 then xs else take (nat n) xs)"

text \<open>\<^verbatim>\<open>ORDER BY key DESC\<close>, rows with equal keys in insertion order.\<close>

definition sort_desc :: "('r \<Rightarrow> 'k::linorder) \<Rightarrow> 'r list \<Rightarrow> 'r list" where
  "sort_desc key rows = rev (sort_key key (rev rows))"

lemma set_sort_desc [simp]: "set (sort_desc key rows) = set rows"
  by (simp add: sort_desc_def)

lemma has_key_iff [table_simps]: "has_key key k rows \<longleftrightarrow> k \<in> key ` set rows"
  by (auto simp: has_key_def list_ex_iff)

lemma fetch_where_Some:
  "fetch_where p rows = Some r \<Longrightarrow> r \<in> set rows \<and> p r"
  by (auto simp: fetch_where_def find_Some_iff)

lemma fetch_where_None:
  "fetch_where p rows = None \<longleftrightarrow> (\<forall>r \<in> set rows. \<not> p r)"
  by (auto simp: fetch_where_def find_None_iff)

lemma fetch_where_Nil [simp]: "fetch_where p [] = None"
  by (simp add: fetch_where_def)

lemma set_update_where [table_simps]:
  "set (update_where p f rows) = (\<lambda>r. if p r then f r else r) ` set rows"
  by (simp add: update_where_def)

lemma update_where_mem:
  "r \<in> set (update_where p f rows) \<Longrightarrow> \<exists>r0 \<in> set rows. r = (if p r0 then f r0 else r0)"
  by (auto simp: update_where_def)

lemma update_where_hit: "r \<in> set rows \<Longrightarrow> p r \<Longrightarrow> f r \<in> set (update_where p f rows)"
  by (force simp: update_where_def)

lemma update_where_miss: "r \<in> set rows \<Longrightarrow> \<not> p r \<Longrightarrow> r \<in> set (update_where p f rows)"
  by (force simp: update_where_def)

lemma update_where_image:
  "r \<in> set rows \<Longrightarrow> (if p r then f r else r) \<in> set (update_where p f rows)"
  by (simp add: update_where_hit update_where_miss)

lemma length_update_where [simp]: "length (update_where p f rows) = length rows"
  by (simp add: update_where_def)

text \<open>An update that keeps the key keeps the table keyed.\<close>

lemma map_key_update_where [table_simps]:
  assumes "\<And>r. p r \<Longrightarrow> key (f r) = key r"
  shows "map key (update_where p f rows) = map key rows"
  using assms by (induction rows) (auto simp: update_where_def)

lemma keyed_update_where:
  assumes "keyed key rows" and "\<And>r. p r \<Longrightarrow> key (f r) = key r"
  shows "keyed key (update_where p f rows)"
proof -
  have "map key (update_where p f rows) = map key rows"
    using assms(2) by (rule map_key_update_where)
  with assms(1) show ?thesis by (simp add: keyed_def)
qed

lemma keyed_insert_row:
  assumes "keyed key rows" and "insert_row key r rows = Some rows'"
  shows "keyed key rows'"
  using assms by (auto simp: keyed_def insert_row_def table_simps split: if_splits)

lemma set_insert_row:
  "insert_row key r rows = Some rows' \<Longrightarrow> set rows' = insert r (set rows) \<and> key r \<notin> key ` set rows"
  by (auto simp: insert_row_def table_simps split: if_splits)

lemma keyed_upsert_row:
  assumes "keyed key rows" and "\<And>x. key x = key r \<Longrightarrow> key (f x) = key x"
  shows "keyed key (upsert_row key r f rows)"
proof (cases "has_key key (key r) rows")
  case True
  with keyed_update_where[OF assms] show ?thesis by (simp add: upsert_row_def)
next
  case False
  with assms(1) show ?thesis by (auto simp: upsert_row_def keyed_def table_simps)
qed

text \<open>In a keyed table the row of a key is the one \<open>fetchone\<close> returns.\<close>

lemma fetch_keyed:
  assumes "keyed key rows" and "r \<in> set rows"
  shows "fetch_where (\<lambda>x. key x = key r) rows = Some r"
  using assms
proof (induction rows)
  case Nil
  then show ?case by simp
next
  case (Cons a rows)
  then show ?case
    by (cases "key a = key r") (auto simp: keyed_def fetch_where_def image_iff)
qed

lemma fetch_where_cong:
  "(\<And>r. r \<in> set rows \<Longrightarrow> p r = q r) \<Longrightarrow> fetch_where p rows = fetch_where q rows"
  by (induction rows) (auto simp: fetch_where_def)

lemma fetch_where_Cons [table_simps]:
  "fetch_where p (x # xs) = (if p x then Some x else fetch_where p xs)"
  by (simp add: fetch_where_def)

lemma fetch_where_append [table_simps]:
  "fetch_where p (xs @ ys) =
     (case fetch_where p xs of None \<Rightarrow> fetch_where p ys | Some r \<Rightarrow> Some r)"
  by (induction xs) (auto simp: fetch_where_def)

lemma fetch_update_where:
  assumes "\<And>r. q (if p r then f r else r) = q r"
  shows "fetch_where q (update_where p f rows) =
           map_option (\<lambda>r. if p r then f r else r) (fetch_where q rows)"
  using assms by (induction rows) (auto simp: fetch_where_def update_where_def)

lemma fetch_upsert:
  assumes "\<And>x. key (f x) = key x" and "key r = k"
  shows "fetch_where (\<lambda>x. key x = k') (upsert_row key r f rows) =
     (if k' = k then Some (case fetch_where (\<lambda>x. key x = k) rows of None \<Rightarrow> r | Some old \<Rightarrow> f old)
      else fetch_where (\<lambda>x. key x = k') rows)"
proof (cases "has_key key k rows")
  case True
  then obtain old where old: "fetch_where (\<lambda>x. key x = k) rows = Some old"
    using fetch_where_None[of "\<lambda>x. key x = k" rows]
    by (cases "fetch_where (\<lambda>x. key x = k) rows") (auto simp: table_simps)
  have up: "upsert_row key r f rows = update_where (\<lambda>x. key x = k) f rows"
    using True assms(2) by (simp add: upsert_row_def)
  have "fetch_where (\<lambda>x. key x = k') (update_where (\<lambda>x. key x = k) f rows) =
      map_option (\<lambda>x. if key x = k then f x else x) (fetch_where (\<lambda>x. key x = k') rows)"
    by (rule fetch_update_where) (simp add: assms(1))
  also have "\<dots> = (if k' = k then Some (f old) else fetch_where (\<lambda>x. key x = k') rows)"
  proof (cases "k' = k")
    case True
    with old fetch_where_Some[OF old] show ?thesis by simp
  next
    case False
    have "x \<in> set rows \<and> key x = k'" if "fetch_where (\<lambda>x. key x = k') rows = Some x" for x
      using fetch_where_Some[OF that] by simp
    with False show ?thesis by (cases "fetch_where (\<lambda>x. key x = k') rows") auto
  qed
  finally show ?thesis using up old by simp
next
  case False
  then have none: "fetch_where (\<lambda>x. key x = k) rows = None"
    unfolding fetch_where_None by (force simp: table_simps image_iff)
  with False assms(2) show ?thesis
    by (auto simp: upsert_row_def table_simps split: option.split)
qed

text \<open>A dictionary is a table whose upsert replaces the whole row.\<close>

lemma fetch_put:
  "has_key key (key r) rows \<Longrightarrow>
   fetch_where (\<lambda>x. key x = k) (update_where (\<lambda>x. key x = key r) (\<lambda>old. r) rows) =
     (if k = key r then Some r else fetch_where (\<lambda>x. key x = k) rows)"
proof (cases "k = key r")
  case False
  then show ?thesis by (induction rows) (auto simp: fetch_where_def update_where_def)
next
  case True
  assume "has_key key (key r) rows"
  with True show ?thesis by (induction rows) (auto simp: fetch_where_def update_where_def has_key_def)
qed

lemma fetch_upsert_whole:
  "fetch_where (\<lambda>x. key x = k) (upsert_row key r (\<lambda>old. r) rows) =
     (if k = key r then Some r else fetch_where (\<lambda>x. key x = k) rows)"
proof (cases "has_key key (key r) rows")
  case True
  with fetch_put[OF this, of k] show ?thesis by (simp add: upsert_row_def)
next
  case False
  then have "fetch_where (\<lambda>x. key x = key r) rows = None"
    by (auto simp: fetch_where_None has_key_iff image_iff)
  with False show ?thesis
    by (auto simp: upsert_row_def fetch_where_append fetch_where_Cons split: option.split)
qed

section \<open>The audit trail\<close>

text \<open>
  One entry per call of \<^verbatim>\<open>AuditLogger.record\<close>: the event type (the value of
  \<^verbatim>\<open>AuditEventType\<close>), the actor and the success flag.  The component models append one
  at each call; what \<^verbatim>\<open>record\<close> does with the details is the theory \<^verbatim>\<open>AuditTrail\<close>.
\<close>

record audit_call =
  ac_event :: string
  ac_actor :: "string option"
  ac_success :: bool

definition audit :: "string \<Rightarrow> string option \<Rightarrow> bool \<Rightarrow> audit_call list \<Rightarrow> audit_call list" where
  [model_defs]: "audit ev actor ok log =
     log @ [\<lparr>ac_event = ev, ac_actor = actor, ac_success = ok\<rparr>]"

end
