(* ===== verification/Interfaces.thy ===== *)
theory Interfaces
  imports Prelude "HOL-Library.Sublist"
begin

text \<open>
  The contracts that several components share, one locale each.  A component that provides the
  contract interprets the locale on its own operations; what follows from the contract alone
  is proved here once.

  \<^item> \<open>replay_guard\<close>: an operation that accepts a message at most once, by a token it carries.
    Providers: the transport session, the frame tracker, the telemetry sequence table, the
    pairing nonces.
  \<^item> \<open>bounded_fifo\<close>: a queue with a capacity and a drop counter.  Providers: the frame queue
    and the event bus.
  \<^item> \<open>lifecycle\<close>: a transition graph with terminal states.  Providers: the pairing and the
    screen session state machines.
  \<^item> \<open>trust_gate\<close> and its client \<open>trust_guarded\<close>: who may act, and a handler that does
    nothing for others.
\<close>

section \<open>At most once\<close>

primrec accepted_tokens ::
  "('s \<Rightarrow> 'm \<Rightarrow> bool \<times> 's) \<Rightarrow> ('m \<Rightarrow> 'k) \<Rightarrow> 's \<Rightarrow> 'm list \<Rightarrow> 'k list" where
  "accepted_tokens step tok s [] = []"
| "accepted_tokens step tok s (m # ms) =
     (if fst (step s m) then [tok m] else []) @ accepted_tokens step tok (snd (step s m)) ms"

primrec final_state :: "('s \<Rightarrow> 'm \<Rightarrow> bool \<times> 's) \<Rightarrow> 's \<Rightarrow> 'm list \<Rightarrow> 's" where
  "final_state step s [] = s"
| "final_state step s (m # ms) = final_state step (snd (step s m)) ms"

locale replay_guard =
  fixes step :: "'s \<Rightarrow> 'm \<Rightarrow> bool \<times> 's"
    and tok :: "'m \<Rightarrow> 'k"
    and spent :: "'s \<Rightarrow> 'k \<Rightarrow> bool"
    and inv :: "'s \<Rightarrow> bool"
  assumes step_inv: "inv s \<Longrightarrow> inv (snd (step s m))"
    and accept_fresh: "inv s \<Longrightarrow> fst (step s m) \<Longrightarrow> \<not> spent s (tok m)"
    and accept_spends: "inv s \<Longrightarrow> fst (step s m) \<Longrightarrow> spent (snd (step s m)) (tok m)"
    and spent_stays: "inv s \<Longrightarrow> spent s k \<Longrightarrow> spent (snd (step s m)) k"
begin

lemma run_inv: "inv s \<Longrightarrow> inv (final_state step s ms)"
  by (induction ms arbitrary: s) (auto simp: step_inv)

lemma run_spent: "inv s \<Longrightarrow> spent s k \<Longrightarrow> spent (final_state step s ms) k"
  by (induction ms arbitrary: s) (auto simp: step_inv spent_stays)

lemma spent_not_accepted:
  "inv s \<Longrightarrow> spent s k \<Longrightarrow> k \<notin> set (accepted_tokens step tok s ms)"
proof (induction ms arbitrary: s)
  case Nil
  then show ?case by simp
next
  case (Cons m ms)
  have "k \<notin> set (accepted_tokens step tok (snd (step s m)) ms)"
    by (rule Cons.IH) (simp_all add: Cons.prems step_inv spent_stays)
  moreover have "fst (step s m) \<Longrightarrow> tok m \<noteq> k"
    using Cons.prems accept_fresh by blast
  ultimately show ?case by auto
qed

lemma accepted_once: "inv s \<Longrightarrow> distinct (accepted_tokens step tok s ms)"
proof (induction ms arbitrary: s)
  case Nil
  then show ?case by simp
next
  case (Cons m ms)
  have inv': "inv (snd (step s m))" using Cons.prems by (rule step_inv)
  have "distinct (accepted_tokens step tok (snd (step s m)) ms)" using inv' by (rule Cons.IH)
  moreover have "fst (step s m) \<Longrightarrow>
      tok m \<notin> set (accepted_tokens step tok (snd (step s m)) ms)"
    using spent_not_accepted[OF inv' accept_spends[OF Cons.prems]] .
  ultimately show ?case by auto
qed

text \<open>Once accepted, never again, whatever arrives in between.\<close>

lemma replay_rejected:
  assumes "inv s" and "fst (step s m)" and "tok m' = tok m"
  shows "\<not> fst (step (final_state step (snd (step s m)) ms) m')"
proof
  let ?t = "final_state step (snd (step s m)) ms"
  have inv': "inv (snd (step s m))" using assms(1) by (rule step_inv)
  have "spent ?t (tok m')"
    using run_spent[OF inv' accept_spends[OF assms(1,2)]] assms(3) by simp
  moreover assume "fst (step ?t m')"
  ultimately show False using accept_fresh[OF run_inv[OF inv']] by blast
qed

end

section \<open>Bounded queues\<close>

locale bounded_fifo =
  fixes push :: "'q \<Rightarrow> 'a \<Rightarrow> 'q"
    and items :: "'q \<Rightarrow> 'a list"
    and capacity :: "'q \<Rightarrow> nat"
    and dropped :: "'q \<Rightarrow> nat"
    and usable :: "'q \<Rightarrow> bool"
  assumes push_usable: "usable q \<Longrightarrow> usable (push q x)"
    and push_capacity: "usable q \<Longrightarrow> capacity (push q x) = capacity q"
    and push_bound: "usable q \<Longrightarrow> length (items q) \<le> capacity q \<Longrightarrow>
           length (items (push q x)) \<le> capacity q"
    and push_order: "usable q \<Longrightarrow> subseq (items (push q x)) (items q @ [x])"
    and push_count: "usable q \<Longrightarrow>
           length (items (push q x)) + dropped (push q x) = length (items q) + 1 + dropped q"
begin

lemma pushes_usable: "usable q \<Longrightarrow> usable (foldl push q xs)"
  by (induction xs arbitrary: q) (auto simp: push_usable)

lemma pushes_capacity: "usable q \<Longrightarrow> capacity (foldl push q xs) = capacity q"
  by (induction xs arbitrary: q) (auto simp: push_usable push_capacity)

lemma pushes_bound:
  "usable q \<Longrightarrow> length (items q) \<le> capacity q \<Longrightarrow> length (items (foldl push q xs)) \<le> capacity q"
proof (induction xs arbitrary: q)
  case Nil
  then show ?case by simp
next
  case (Cons x xs)
  have "length (items (foldl push (push q x) xs)) \<le> capacity (push q x)"
    by (rule Cons.IH) (simp_all add: Cons.prems push_usable push_capacity push_bound)
  then show ?case using Cons.prems by (simp add: push_capacity)
qed

lemma pushes_order: "usable q \<Longrightarrow> subseq (items (foldl push q xs)) (items q @ xs)"
proof (induction xs arbitrary: q)
  case Nil
  then show ?case by simp
next
  case (Cons x xs)
  have "subseq (items (foldl push (push q x) xs)) (items (push q x) @ xs)"
    by (rule Cons.IH) (simp add: Cons.prems push_usable)
  moreover have "subseq (items (push q x) @ xs) ((items q @ [x]) @ xs)"
    using push_order[OF Cons.prems] by (rule list_emb_append_mono) simp
  ultimately show ?case by simp
qed

lemma pushes_count: "usable q \<Longrightarrow>
   length (items (foldl push q xs)) + dropped (foldl push q xs) =
   length (items q) + length xs + dropped q"
proof (induction xs arbitrary: q)
  case Nil
  then show ?case by simp
next
  case (Cons x xs)
  have "length (items (foldl push (push q x) xs)) + dropped (foldl push (push q x) xs) =
        length (items (push q x)) + length xs + dropped (push q x)"
    by (rule Cons.IH) (simp add: Cons.prems push_usable)
  then show ?case using push_count[OF Cons.prems, of x] by simp
qed

end

section \<open>Transition graphs\<close>

inductive path_of :: "('a \<Rightarrow> 'a \<Rightarrow> bool) \<Rightarrow> 'a list \<Rightarrow> bool" for R where
  single: "path_of R [s]"
| extend: "R s t \<Longrightarrow> path_of R (t # ts) \<Longrightarrow> path_of R (s # t # ts)"

inductive_cases path_of_ConsE: "path_of R (s # ts)"

locale lifecycle =
  fixes allowed :: "'st \<Rightarrow> 'st \<Rightarrow> bool"
    and terminal :: "'st \<Rightarrow> bool"
    and rank :: "'st \<Rightarrow> nat"
    and top :: nat
  assumes terminal_iff: "terminal s \<longleftrightarrow> (\<forall>t. \<not> allowed s t)"
    and rank_grows: "allowed s t \<Longrightarrow> rank s < rank t"
    and rank_top: "rank s \<le> top"
begin

lemma terminal_absorbing: "terminal s \<Longrightarrow> path_of allowed (s # ts) \<Longrightarrow> ts = []"
  by (erule path_of_ConsE) (auto simp: terminal_iff)

lemma path_ranks: "path_of allowed (s # ts) \<Longrightarrow> u \<in> set ts \<Longrightarrow> rank s < rank u"
proof (induction "s # ts" arbitrary: s ts rule: path_of.induct)
  case single
  then show ?case by simp
next
  case (extend s t ts)
  then show ?case using rank_grows by fastforce
qed

lemma no_return: "path_of allowed (s # ts) \<Longrightarrow> s \<notin> set ts"
  using path_ranks by blast

lemma path_length: "path_of allowed (s # ts) \<Longrightarrow> rank s + length ts \<le> top"
proof (induction "s # ts" arbitrary: s ts rule: path_of.induct)
  case single
  then show ?case by (simp add: rank_top)
next
  case (extend s t ts)
  then show ?case using rank_grows[of s t] by simp
qed

end

section \<open>Trust\<close>

text \<open>
  \<open>check s l r\<close> is the verification of remote \<open>r\<close> for local \<open>l\<close>; \<open>trusted\<close> is the
  relation it decides.
\<close>

locale trust_gate =
  fixes check :: "'s \<Rightarrow> 'i \<Rightarrow> 'i \<Rightarrow> gm_error + 'd"
    and trusted :: "'s \<Rightarrow> 'i \<Rightarrow> 'i \<Rightarrow> bool"
  assumes check_complete: "trusted s l r \<Longrightarrow> \<exists>d. check s l r = Inr d"
    and check_sound: "\<not> trusted s l r \<Longrightarrow>
          \<exists>e. check s l r = Inl e \<and> is_instance e (Pairing TrustError)"
begin

lemma check_iff: "trusted s l r \<longleftrightarrow> (\<exists>d. check s l r = Inr d)"
  using check_complete check_sound by (metis Inl_Inr_False)

lemma check_error: "check s l r = Inl e \<Longrightarrow> is_instance e (Pairing TrustError)"
  using check_complete check_sound by (metis Inl_Inr_False sum.inject(1))

end

text \<open>
  A handler of messages for the local party \<open>me\<close> that consults the gate: a message of a
  sender that is not trusted raises, and leaves the protected part of the state alone.
\<close>

locale trust_guarded = trust_gate check trusted
  for check :: "'t \<Rightarrow> 'i \<Rightarrow> 'i \<Rightarrow> gm_error + 'd" and trusted +
  fixes handle :: "'s \<Rightarrow> 'm \<Rightarrow> ('s, 'a) outcome"
    and sender :: "'m \<Rightarrow> 'i"
    and me :: 'i
    and gate_of :: "'s \<Rightarrow> 't"
    and protected :: "'s \<Rightarrow> 'p"
  assumes refused: "\<not> trusted (gate_of s) me (sender m) \<Longrightarrow> \<not> succeeded (handle s m)"
    and refused_frame: "\<not> trusted (gate_of s) me (sender m) \<Longrightarrow>
          protected (snd (handle s m)) = protected s"
    and gate_frame: "gate_of (snd (handle s m)) = gate_of s"
begin

lemma run_gate: "gate_of (foldl (\<lambda>s m. snd (handle s m)) s ms) = gate_of s"
  by (induction ms arbitrary: s) (auto simp: gate_frame)

text \<open>No batch of messages from senders without trust changes the protected state.\<close>

lemma untrusted_batch:
  "\<forall>m \<in> set ms. \<not> trusted (gate_of s) me (sender m) \<Longrightarrow>
   protected (foldl (\<lambda>s m. snd (handle s m)) s ms) = protected s"
  by (induction ms arbitrary: s) (auto simp: gate_frame refused_frame)

end

end
