(* ===== verification/Identity.thy ===== *)
theory Identity
  imports Prelude
begin

text \<open>
  \<^verbatim>\<open>guardianmesh/identity/models.py\<close>: the identifier format
  \<open>GM-(P|C)-XXXXXXXX\<close>, the role an identifier carries, and the \<^verbatim>\<open>Identity\<close> record
  whose constructor refuses an identifier that contradicts its role.
\<close>

datatype identity_role = PARENT | CHILD

fun role_value :: "identity_role \<Rightarrow> string" where
  "role_value PARENT = ''PARENT''"
| "role_value CHILD = ''CHILD''"

definition role_from_str :: "string \<Rightarrow> gm_error + identity_role" where
  "role_from_str s =
     (let n = py_upper (py_strip s) in
      if n = ''PARENT'' \<or> n = ''P'' then Inr PARENT
      else if n = ''CHILD'' \<or> n = ''C'' then Inr CHILD
      else Inl (Core InvalidIdentityError))"

text \<open>\<^verbatim>\<open>[0-9A-F]\<close>, and the pattern \<^verbatim>\<open>^GM-(P|C)-([0-9A-F]{8})$\<close> on a text of 13 characters.\<close>

definition is_upper_hex :: "char \<Rightarrow> bool" where
  "is_upper_hex c \<longleftrightarrow> (let n = (of_char c :: nat) in (48 \<le> n \<and> n \<le> 57) \<or> (65 \<le> n \<and> n \<le> 70))"

definition identity_regex :: "string \<Rightarrow> bool" where
  "identity_regex s \<longleftrightarrow> length s = 13 \<and> take 3 s = ''GM-'' \<and>
     (s ! 3 = CHR ''P'' \<or> s ! 3 = CHR ''C'') \<and> s ! 4 = CHR ''-'' \<and>
     list_all is_upper_hex (drop 5 s)"

text \<open>The reasons \<^verbatim>\<open>validate_identity_id\<close> gives, by the branch that gives them.\<close>

datatype id_problem = IdEmpty | IdLength nat | IdLowercase | IdFormat

definition validate_identity_id :: "string \<Rightarrow> bool \<times> id_problem option" where
  "validate_identity_id s =
     (if s = [] then (False, Some IdEmpty)
      else if length s \<noteq> 13 then (False, Some (IdLength (length s)))
      else if \<not> identity_regex s then
        (if take 3 (py_lower s) = ''gm-'' \<and> s \<noteq> py_upper s then (False, Some IdLowercase)
         else (False, Some IdFormat))
      else (True, None))"

definition valid_id :: "string \<Rightarrow> bool" where
  [model_defs]: "valid_id s \<longleftrightarrow> fst (validate_identity_id s)"

definition parse_identity_role :: "string \<Rightarrow> gm_error + identity_role" where
  "parse_identity_role s =
     (if \<not> valid_id s then Inl (Core InvalidIdentityError)
      else if s ! 3 = CHR ''P'' then Inr PARENT
      else if s ! 3 = CHR ''C'' then Inr CHILD
      else Inl (Core InvalidIdentityError))"

record identity =
  id_id :: string
  id_role :: identity_role
  id_fingerprint :: string
  id_pem :: string
  id_created_at :: stamp
  id_label :: "string option"
  id_is_active :: bool

text \<open>\<^verbatim>\<open>Identity.__post_init__\<close>: the role may arrive as a text (from the database) or as the enum.\<close>

definition identity_post_init :: "identity \<Rightarrow> string option \<Rightarrow> gm_error + identity" where
  "identity_post_init i role_text =
     (if \<not> valid_id (id_id i) then Inl (Core InvalidIdentityError)
      else case (case role_text of None \<Rightarrow> Inr (id_role i) | Some t \<Rightarrow> role_from_str t) of
        Inl e \<Rightarrow> Inl e
      | Inr r \<Rightarrow>
         (case parse_identity_role (id_id i) of
            Inl e \<Rightarrow> Inl e
          | Inr expected \<Rightarrow>
              if r \<noteq> expected then Inl (Core InvalidIdentityError)
              else Inr (i\<lparr>id_role := r\<rparr>)))"

section \<open>Properties\<close>

lemma valid_id_regex: "valid_id s \<longleftrightarrow> identity_regex s"
  by (auto simp: valid_id_def validate_identity_id_def identity_regex_def)

lemma validate_reason: "fst (validate_identity_id s) \<longleftrightarrow> snd (validate_identity_id s) = None"
  by (auto simp: validate_identity_id_def)

text \<open>
  A role is read from exactly the well-formed identifiers: \<open>GM-\<close>, one of \<open>P\<close> and \<open>C\<close>,
  a dash and eight upper-case hexadecimal digits, and the role is the one the letter names.
\<close>

theorem parse_role_iff:
  "parse_identity_role s = Inr r \<longleftrightarrow>
     (\<exists>hex. s = ''GM-'' @ [if r = PARENT then CHR ''P'' else CHR ''C'', CHR ''-''] @ hex \<and>
        length hex = 8 \<and> list_all is_upper_hex hex)"
proof
  assume "parse_identity_role s = Inr r"
  then have re: "identity_regex s"
    and letter: "s ! 3 = (if r = PARENT then CHR ''P'' else CHR ''C'')"
    by (auto simp: parse_identity_role_def valid_id_regex split: if_splits)
  have len: "3 < length s" "4 < length s" using re by (simp_all add: identity_regex_def)
  have "drop 3 s = s ! 3 # s ! 4 # drop 5 s"
    using Cons_nth_drop_Suc[OF len(1)] Cons_nth_drop_Suc[OF len(2)] by simp
  then have "s = take 3 s @ [s ! 3, s ! 4] @ drop 5 s"
    by (metis append_Cons append_Nil append_take_drop_id)
  with re letter show "\<exists>hex. s = ''GM-'' @ [if r = PARENT then CHR ''P'' else CHR ''C'', CHR ''-''] @ hex \<and>
        length hex = 8 \<and> list_all is_upper_hex hex"
    by (intro exI[of _ "drop 5 s"]) (auto simp: identity_regex_def)
next
  assume "\<exists>hex. s = ''GM-'' @ [if r = PARENT then CHR ''P'' else CHR ''C'', CHR ''-''] @ hex \<and>
        length hex = 8 \<and> list_all is_upper_hex hex"
  then show "parse_identity_role s = Inr r"
    by (cases r) (auto simp: parse_identity_role_def valid_id_regex identity_regex_def
        eval_nat_numeral)
qed

lemma parse_role_valid: "valid_id s \<Longrightarrow> \<exists>r. parse_identity_role s = Inr r"
  by (auto simp: parse_identity_role_def valid_id_regex identity_regex_def)

lemma identity_role_consistent:
  "identity_post_init i t = Inr i' \<Longrightarrow>
     parse_identity_role (id_id i') = Inr (id_role i') \<and> id_id i' = id_id i"
  by (auto simp: identity_post_init_def split: if_splits sum.splits)

end
