(* ===== verification/AuditTrail.thy ===== *)
theory AuditTrail
  imports Prelude
begin

text \<open>
  \<^verbatim>\<open>guardianmesh/storage/audit.py\<close>: the sanitizer that every audit record passes
  through, and the append-only trail.  The redaction of free text
  (\<^verbatim>\<open>core/logging.redact_sensitive_data\<close>, three regular expressions) is the parameter
  \<open>redact\<close>; nothing is assumed of it.
\<close>

definition sensitive_key_names :: "string list" where
  "sensitive_key_names =
    [''password'', ''private_key'', ''private_key_pem'', ''secret'', ''token'', ''auth_token'',
     ''otp'', ''otp_code'', ''otp_verifier'', ''verifier'', ''salt'', ''otp_salt'', ''pin'',
     ''credential'', ''key_material'', ''smtp_password'', ''sms_content'', ''email_body'',
     ''screen_content'', ''keystroke'', ''clipboard'', ''auth_nonce'', ''nonce'',
     ''trust_secret'', ''messages'', ''contacts'', ''photos'', ''files'', ''browser_history'',
     ''keyboard_input'', ''microphone'', ''camera'', ''location'', ''screen'', ''app_usage'',
     ''shared_secret'', ''session_key'', ''send_key'', ''recv_key'', ''encryption_key'',
     ''ephemeral_key'', ''symmetric_key'', ''ciphertext'', ''nonce_hex'']"

definition sensitive_key :: "string \<Rightarrow> bool" where
  "sensitive_key k \<longleftrightarrow> list_ex (\<lambda>s. py_contains s (py_lower k)) sensitive_key_names"

fun sanitize_audit_details :: "(string \<Rightarrow> string) \<Rightarrow> json \<Rightarrow> json" where
  "sanitize_audit_details redact (JObj kvs) =
     JObj (map (\<lambda>(k, v). (k, if sensitive_key k then JStr ''[REDACTED]''
                             else sanitize_audit_details redact v)) kvs)"
| "sanitize_audit_details redact (JList xs) = JList (map (sanitize_audit_details redact) xs)"
| "sanitize_audit_details redact (JStr s) = JStr (redact s)"
| "sanitize_audit_details redact v = v"

record audit_row =
  ar_id :: nat
  ar_event_type :: string
  ar_details :: json
  ar_timestamp :: stamp
  ar_actor_id :: "string option"
  ar_success :: bool

text \<open>The table \<^verbatim>\<open>audit_events\<close>: its rows and the \<^verbatim>\<open>AUTOINCREMENT\<close> counter.\<close>

record audit_table =
  at_rows :: "audit_row list"
  at_next :: nat

definition empty_audit :: audit_table where
  "empty_audit = \<lparr>at_rows = [], at_next = 1\<rparr>"

definition audit_record ::
  "(string \<Rightarrow> string) \<Rightarrow> int \<Rightarrow> string \<Rightarrow> (string \<times> json) list \<Rightarrow> string option \<Rightarrow> bool \<Rightarrow>
   audit_table \<Rightarrow> nat \<times> audit_table" where
  "audit_record redact now ev details actor ok t =
     (at_next t,
      t\<lparr>at_rows := at_rows t @
          [\<lparr>ar_id = at_next t, ar_event_type = ev,
            ar_details = sanitize_audit_details redact (JObj details),
            ar_timestamp = Aware now, ar_actor_id = actor, ar_success = ok\<rparr>],
        at_next := at_next t + 1\<rparr>)"

definition audit_get_recent :: "int \<Rightarrow> string option \<Rightarrow> audit_table \<Rightarrow> audit_row list" where
  "audit_get_recent limit ev t =
     sql_limit limit (rev (case ev of
        Some e \<Rightarrow> if e = [] then at_rows t else filter (\<lambda>r. ar_event_type r = e) (at_rows t)
      | None \<Rightarrow> at_rows t))"

text \<open>A call of \<^verbatim>\<open>record\<close>: event type, details, actor, success, at an instant.\<close>

type_synonym audit_request = "int \<times> string \<times> (string \<times> json) list \<times> string option \<times> bool"

primrec audit_run :: "(string \<Rightarrow> string) \<Rightarrow> audit_table \<Rightarrow> audit_request list \<Rightarrow> audit_table" where
  "audit_run redact t [] = t"
| "audit_run redact t (q # qs) =
     audit_run redact (case q of (now, ev, d, a, ok) \<Rightarrow>
       snd (audit_record redact now ev d a ok t)) qs"

section \<open>Properties\<close>

text \<open>At every depth, a sensitive key holds the redaction marker.\<close>

fun scrubbed :: "json \<Rightarrow> bool" where
  "scrubbed (JObj kvs) \<longleftrightarrow>
     list_all (\<lambda>(k, v). if sensitive_key k then v = JStr ''[REDACTED]'' else scrubbed v) kvs"
| "scrubbed (JList xs) \<longleftrightarrow> list_all scrubbed xs"
| "scrubbed _ \<longleftrightarrow> True"

lemma sanitize_scrubbed: "scrubbed (sanitize_audit_details redact j)"
  by (induction redact j rule: sanitize_audit_details.induct)
     (auto simp: list_all_iff)

text \<open>Redaction changes values only: the keys, their order and the shape stay.\<close>

lemma sanitize_keys:
  "\<exists>kvs'. sanitize_audit_details redact (JObj kvs) = JObj kvs' \<and> map fst kvs' = map fst kvs"
  by (auto simp: case_prod_unfold)

lemma sanitize_idem:
  assumes "\<And>s. redact (redact s) = redact s"
  shows "sanitize_audit_details redact (sanitize_audit_details redact j) =
         sanitize_audit_details redact j"
  using assms
  by (induction redact j rule: sanitize_audit_details.induct) auto

lemma audit_run_append_only:
  "\<exists>more. at_rows (audit_run redact t qs) = at_rows t @ more \<and> length more = length qs"
proof (induction qs arbitrary: t)
  case Nil
  then show ?case by simp
next
  case (Cons q qs)
  obtain now ev d a ok where q: "q = (now, ev, d, a, ok)" by (cases q)
  obtain more where "at_rows (audit_run redact (snd (audit_record redact now ev d a ok t)) qs) =
      at_rows (snd (audit_record redact now ev d a ok t)) @ more" and "length more = length qs"
    using Cons.IH by blast
  then show ?case by (simp add: q audit_record_def)
qed

lemma audit_run_next: "at_next (audit_run redact t qs) = at_next t + length qs"
  by (induction qs arbitrary: t) (auto simp: audit_record_def split: prod.splits)

lemma audit_run_scrubbed:
  "list_all (\<lambda>r. scrubbed (ar_details r)) (at_rows t) \<Longrightarrow>
   list_all (\<lambda>r. scrubbed (ar_details r)) (at_rows (audit_run redact t qs))"
proof (induction qs arbitrary: t)
  case Nil
  then show ?case by simp
next
  case (Cons q qs)
  obtain now ev d a ok where q: "q = (now, ev, d, a, ok)" by (cases q)
  have "list_all (\<lambda>r. scrubbed (ar_details r))
          (at_rows (snd (audit_record redact now ev d a ok t)))"
    using Cons.prems sanitize_scrubbed[of redact "JObj d"]
    by (simp add: audit_record_def del: sanitize_audit_details.simps scrubbed.simps)
  then show ?case by (simp add: q Cons.IH)
qed

lemma audit_run_ids:
  "map ar_id (at_rows t) = [1..<at_next t] \<Longrightarrow> 0 < at_next t \<Longrightarrow>
   map ar_id (at_rows (audit_run redact t qs)) = [1..<at_next (audit_run redact t qs)]"
  by (induction qs arbitrary: t) (auto simp: audit_record_def split: prod.splits)


end
