(* ===== verification/PairingModels.thy ===== *)
theory PairingModels
  imports Identity Interfaces
begin

text \<open>
  \<^verbatim>\<open>guardianmesh/pairing/models.py\<close>, \<^verbatim>\<open>otp.py\<close> and the tables of
  \<^verbatim>\<open>002_pairing_schema\<close>: the pairing state machine, the pairing session with its deadlines,
  one-time passcodes, and the rows of \<^verbatim>\<open>pairing_sessions\<close>,
  \<^verbatim>\<open>pairing_nonces\<close> and \<^verbatim>\<open>trusted_devices\<close>.  The free-form metadata columns
  are left out: no decision reads them.
\<close>

section \<open>The state machine\<close>

datatype pairing_state =
    PS_UNCONFIGURED | PS_INITIATED | PS_AWAITING_VERIFICATION | PS_CREATED
  | PS_VERIFICATION_PENDING | PS_VERIFIED | PS_CHILD_AUTHORIZATION_PENDING | PS_AUTHORIZED
  | PS_TRUST_ESTABLISHED | PS_PAIRED | PS_DENIED | PS_REJECTED | PS_EXPIRED | PS_CANCELLED
  | PS_REVOKED

fun VALID_TRANSITIONS :: "pairing_state \<Rightarrow> pairing_state list" where
  "VALID_TRANSITIONS PS_CREATED = [PS_VERIFICATION_PENDING, PS_CANCELLED, PS_EXPIRED]"
| "VALID_TRANSITIONS PS_VERIFICATION_PENDING = [PS_VERIFIED, PS_CANCELLED, PS_EXPIRED]"
| "VALID_TRANSITIONS PS_VERIFIED = [PS_CHILD_AUTHORIZATION_PENDING, PS_CANCELLED, PS_EXPIRED]"
| "VALID_TRANSITIONS PS_CHILD_AUTHORIZATION_PENDING =
     [PS_AUTHORIZED, PS_DENIED, PS_CANCELLED, PS_EXPIRED]"
| "VALID_TRANSITIONS PS_AUTHORIZED = [PS_TRUST_ESTABLISHED, PS_CANCELLED, PS_EXPIRED]"
| "VALID_TRANSITIONS PS_TRUST_ESTABLISHED = [PS_PAIRED, PS_REVOKED]"
| "VALID_TRANSITIONS PS_PAIRED = [PS_REVOKED]"
| "VALID_TRANSITIONS _ = []"

definition validate_state_transition ::
  "pairing_state \<Rightarrow> pairing_state \<Rightarrow> gm_error + unit" where
  "validate_state_transition current target =
     (if current = target then Inr ()
      else if target \<in> set (VALID_TRANSITIONS current) then Inr ()
      else Inl (Pairing InvalidStateTransitionError))"

section \<open>Pairing sessions\<close>

record pairing_session =
  ps_id :: string
  ps_parent :: string
  ps_method :: string
  ps_destination :: string
  ps_state :: pairing_state
  ps_child :: "string option"
  ps_created_at :: stamp
  ps_expires_at :: stamp
  ps_verified_at :: "stamp option"
  ps_authorized_at :: "stamp option"
  ps_completed_at :: "stamp option"
  ps_attempts :: int
  ps_max_attempts :: int
  ps_resends :: int
  ps_last_resend_at :: "stamp option"
  ps_otp_verifier :: "string option"
  ps_otp_salt :: "string option"
  ps_otp_expires_at :: "stamp option"
  ps_auth_nonce :: "string option"
  ps_auth_nonce_expires_at :: "stamp option"

definition transition_to ::
  "pairing_state \<Rightarrow> pairing_session \<Rightarrow> gm_error + pairing_session" where
  "transition_to target s =
     (case validate_state_transition (ps_state s) target of
        Inl e \<Rightarrow> Inl e
      | Inr _ \<Rightarrow> Inr (s\<lparr>ps_state := target\<rparr>))"

text \<open>
  The deadlines: a text that does not read as an aware datetime counts as expired
  (\<^verbatim>\<open>except Exception: return True\<close>).
\<close>

definition reached :: "int \<Rightarrow> stamp \<Rightarrow> bool" where
  [model_defs]: "reached now x = (case aware_instant x of Inl _ \<Rightarrow> True | Inr t \<Rightarrow> t \<le> now)"

definition ps_is_expired :: "int \<Rightarrow> pairing_session \<Rightarrow> bool" where
  "ps_is_expired now s = (if ps_expires_at s = Blank then False else reached now (ps_expires_at s))"

definition is_otp_expired :: "int \<Rightarrow> pairing_session \<Rightarrow> bool" where
  "is_otp_expired now s =
     (case ps_otp_expires_at s of None \<Rightarrow> True
      | Some x \<Rightarrow> if x = Blank then True else reached now x)"

definition is_auth_nonce_expired :: "int \<Rightarrow> pairing_session \<Rightarrow> bool" where
  "is_auth_nonce_expired now s =
     (case ps_auth_nonce_expires_at s of None \<Rightarrow> True
      | Some x \<Rightarrow> if x = Blank then True else reached now x)"

definition can_resend :: "int \<Rightarrow> int \<Rightarrow> pairing_session \<Rightarrow> bool \<times> int" where
  "can_resend now cooldown s =
     (case ps_last_resend_at s of
        None \<Rightarrow> (True, 0)
      | Some x \<Rightarrow>
          if x = Blank then (True, 0)
          else case aware_instant x of
            Inl _ \<Rightarrow> (True, 0)
          | Inr prev \<Rightarrow>
              let elapsed = now - prev in
              if cooldown * second \<le> elapsed then (True, 0)
              else (False, (cooldown * second - elapsed) div second))"

definition seconds_remaining :: "int \<Rightarrow> pairing_session \<Rightarrow> int" where
  "seconds_remaining now s =
     (if ps_expires_at s = Blank then 0
      else case aware_instant (ps_expires_at s) of
        Inl _ \<Rightarrow> 0
      | Inr t \<Rightarrow> if t \<le> now then 0 else (t - now) div second)"

section \<open>One-time passcodes\<close>

text \<open>\<^verbatim>\<open>f"{n:06d}"\<close> for the drawn number \<^verbatim>\<open>n < 1_000_000\<close>.\<close>

definition generate_otp_code :: "nat \<Rightarrow> string" where
  "generate_otp_code n = map (\<lambda>i. char_of (48 + (n div 10 ^ i) mod 10)) [5, 4, 3, 2, 1, 0]"

definition otp_regex :: "string \<Rightarrow> bool" where
  "otp_regex s \<longleftrightarrow> length s = 6 \<and> list_all is_digit s"

text \<open>\<^verbatim>\<open>hashlib.sha256(...).hexdigest()\<close> is the parameter \<open>sha256\<close>.\<close>

definition compute_otp_verifier ::
  "(string \<Rightarrow> string) \<Rightarrow> string \<Rightarrow> string \<Rightarrow> string \<Rightarrow> string" where
  "compute_otp_verifier sha256 session_id code salt =
     sha256 (salt @ '':'' @ session_id @ '':'' @ py_strip code)"

definition normalize_code :: "string \<Rightarrow> string" where
  "normalize_code c = py_strip (remove_char (CHR ''-'') (remove_char (CHR '' '') c))"

definition verify_otp_code ::
  "(string \<Rightarrow> string) \<Rightarrow> string \<Rightarrow> string \<Rightarrow> string option \<Rightarrow> string option \<Rightarrow> bool" where
  "verify_otp_code sha256 session_id entered salt expected =
     (case (salt, expected) of
        (Some sl, Some v) \<Rightarrow>
          sl \<noteq> [] \<and> v \<noteq> [] \<and> otp_regex (normalize_code entered) \<and>
          compute_otp_verifier sha256 session_id (normalize_code entered) sl = v
      | _ \<Rightarrow> False)"

definition validate_otp_format :: "string \<Rightarrow> gm_error + string" where
  "validate_otp_format code =
     (let cleaned = normalize_code code in
      if otp_regex cleaned then Inr cleaned else Inl (Core ValidationError))"

section \<open>Rows\<close>

datatype trust_status = TS_ACTIVE | TS_REVOKED

record trusted_device =
  td_local :: string
  td_remote :: string
  td_role :: identity_role
  td_fingerprint :: string
  td_pem :: string
  td_label :: "string option"
  td_status :: trust_status
  td_created_at :: stamp
  td_last_verified_at :: stamp
  td_version :: int
  td_session :: "string option"

definition td_is_active :: "trusted_device \<Rightarrow> bool" where
  [model_defs]: "td_is_active d \<longleftrightarrow> td_status d = TS_ACTIVE"

record nonce_row =
  nr_nonce :: string
  nr_session :: string
  nr_child :: string
  nr_created_at :: stamp
  nr_expires_at :: stamp
  nr_used :: bool

record pairing_db =
  db_trusted :: "trusted_device list"
  db_sessions :: "pairing_session list"
  db_nonces :: "nonce_row list"
  db_audit :: "audit_call list"

definition empty_db :: pairing_db where
  "empty_db = \<lparr>db_trusted = [], db_sessions = [], db_nonces = [], db_audit = []\<rparr>"

definition td_key :: "trusted_device \<Rightarrow> string \<times> string" where
  [model_defs]: "td_key d = (td_local d, td_remote d)"

definition log_audit :: "string \<Rightarrow> string option \<Rightarrow> bool \<Rightarrow> pairing_db \<Rightarrow> pairing_db" where
  [model_defs]: "log_audit ev actor ok db = db\<lparr>db_audit := audit ev actor ok (db_audit db)\<rparr>"

text \<open>
  The instant a timestamp column sorts by: the texts that \<^verbatim>\<open>isoformat\<close> writes for aware
  UTC datetimes sort as the instants do.
\<close>

fun sort_instant :: "stamp \<Rightarrow> int" where
  "sort_instant (Aware t) = t"
| "sort_instant _ = 0"

section \<open>The state machine is a lifecycle\<close>

definition pairing_step :: "pairing_state \<Rightarrow> pairing_state \<Rightarrow> bool" where
  [model_defs]: "pairing_step s t \<longleftrightarrow> t \<in> set (VALID_TRANSITIONS s)"

fun pairing_rank :: "pairing_state \<Rightarrow> nat" where
  "pairing_rank PS_CREATED = 0"
| "pairing_rank PS_VERIFICATION_PENDING = 1"
| "pairing_rank PS_VERIFIED = 2"
| "pairing_rank PS_CHILD_AUTHORIZATION_PENDING = 3"
| "pairing_rank PS_AUTHORIZED = 4"
| "pairing_rank PS_TRUST_ESTABLISHED = 5"
| "pairing_rank PS_PAIRED = 6"
| "pairing_rank _ = 7"

definition pairing_terminal :: "pairing_state \<Rightarrow> bool" where
  "pairing_terminal s \<longleftrightarrow>
     s \<in> {PS_DENIED, PS_EXPIRED, PS_CANCELLED, PS_REVOKED,
          PS_UNCONFIGURED, PS_INITIATED, PS_AWAITING_VERIFICATION, PS_REJECTED}"

interpretation pairing_life: lifecycle pairing_step pairing_terminal pairing_rank 7
proof unfold_locales
  fix s show "pairing_terminal s \<longleftrightarrow> (\<forall>t. \<not> pairing_step s t)"
    by (cases s) (auto simp: pairing_terminal_def pairing_step_def)
next
  fix s t assume "pairing_step s t"
  then show "pairing_rank s < pairing_rank t"
    by (cases s) (auto simp: pairing_step_def)
next
  fix s show "pairing_rank s \<le> 7" by (cases s) auto
qed

lemma transition_to_Inr:
  "transition_to t s = Inr s' \<Longrightarrow>
     s' = s\<lparr>ps_state := t\<rparr> \<and> (ps_state s = t \<or> pairing_step (ps_state s) t)"
  by (auto simp: transition_to_def validate_state_transition_def pairing_step_def
      split: sum.splits if_splits)

section \<open>Passcode lemmas\<close>

lemma of_char_digit: "k < 10 \<Longrightarrow> of_char (char_of (48 + k :: nat) :: char) = 48 + k"
  by simp

lemma is_digit_digit: "k < 10 \<Longrightarrow> is_digit (char_of (48 + k :: nat))"
  by (simp add: is_digit_def)

lemma generate_otp_regex: "otp_regex (generate_otp_code n)"
  by (simp add: otp_regex_def generate_otp_code_def is_digit_digit)

lemma digit_not_space: "is_digit c \<Longrightarrow> \<not> is_py_space c"
  by (auto simp: is_digit_def is_py_space_def Let_def)

lemma py_strip_digits: "list_all is_digit s \<Longrightarrow> py_strip s = s"
proof -
  assume d: "list_all is_digit s"
  have drop: "dropWhile is_py_space t = t" if "list_all is_digit t" for t
    using that by (cases t) (auto simp: digit_not_space)
  show ?thesis using d by (simp add: py_strip_def drop)
qed

lemma remove_char_digits:
  "list_all is_digit s \<Longrightarrow> \<not> is_digit c \<Longrightarrow> remove_char c s = s"
  by (auto simp: remove_char_def list_all_iff filter_id_conv)

lemma normalize_digits: "list_all is_digit s \<Longrightarrow> normalize_code s = s"
  by (simp add: normalize_code_def remove_char_digits py_strip_digits is_digit_def)

lemma normalize_otp: "otp_regex s \<Longrightarrow> normalize_code s = s"
  by (simp add: otp_regex_def normalize_digits)

text \<open>What a successful check of a code says: its six digits hash to the stored verifier.\<close>

lemma verify_otp_code_iff:
  "verify_otp_code sha sid entered salt v \<longleftrightarrow>
     (\<exists>sl h. salt = Some sl \<and> v = Some h \<and> sl \<noteq> [] \<and> h \<noteq> [] \<and>
        otp_regex (normalize_code entered) \<and>
        sha (sl @ '':'' @ sid @ '':'' @ normalize_code entered) = h)"
  by (auto simp: verify_otp_code_def compute_otp_verifier_def otp_regex_def py_strip_digits
      split: option.splits)

end
