(* ===== verification/Trust.thy ===== *)
theory Trust
  imports PairingModels
begin

text \<open>
  \<^verbatim>\<open>guardianmesh/pairing/trust.py\<close>: the registry of trusted devices and its revocation,
  and the fingerprint of \<^verbatim>\<open>guardianmesh/security/fingerprints.py\<close>.
  The \<^verbatim>\<open>cryptography\<close> package and \<^verbatim>\<open>hashlib\<close> are the fields of \<open>crypto\<close>, an
  argument of every definition that uses them; nothing is assumed of them.
\<close>

record crypto =
  load_pem :: "string \<Rightarrow> string option"
    \<comment> \<open>the raw Ed25519 public key of a PEM text; \<open>None\<close> where loading raises\<close>
  sha256_hex :: "string \<Rightarrow> string"
  sha256_b64 :: "string \<Rightarrow> string"
    \<comment> \<open>base64 of the digest, padding stripped\<close>
  ed25519_verify :: "string \<Rightarrow> nat list \<Rightarrow> string \<Rightarrow> bool"
    \<comment> \<open>raw key, signature bytes, signed text\<close>

definition compute_public_key_fingerprint :: "crypto \<Rightarrow> string \<Rightarrow> string" where
  "compute_public_key_fingerprint cr raw = ''SHA256:'' @ sha256_b64 cr raw"

definition get_trusted_device :: "pairing_db \<Rightarrow> string \<Rightarrow> string \<Rightarrow> trusted_device option" where
  "get_trusted_device db l r = fetch_where (\<lambda>d. td_key d = (l, r)) (db_trusted db)"

definition establish_trust ::
  "crypto \<Rightarrow> int \<Rightarrow> string \<Rightarrow> string \<Rightarrow> string \<Rightarrow> string option \<Rightarrow> string option \<Rightarrow>
   pairing_db \<Rightarrow> (pairing_db, trusted_device) outcome" where
  "establish_trust cr now l r pem session label db =
     (if \<not> valid_id r then raises (Core SecurityError) db
      else case parse_identity_role r of
        Inl e \<Rightarrow> raises e db
      | Inr role \<Rightarrow>
         (case load_pem cr pem of
            None \<Rightarrow> raises (Core SecurityError) db
          | Some raw \<Rightarrow>
              let row = \<lparr>td_local = l, td_remote = r, td_role = role,
                         td_fingerprint = compute_public_key_fingerprint cr raw, td_pem = pem,
                         td_label = label, td_status = TS_ACTIVE, td_created_at = Aware now,
                         td_last_verified_at = Aware now, td_version = 1, td_session = session\<rparr>;
                  on_conflict = (\<lambda>old. old\<lparr>td_fingerprint := td_fingerprint row, td_pem := pem,
                         td_label := (case label of None \<Rightarrow> td_label old | Some x \<Rightarrow> Some x),
                         td_status := TS_ACTIVE, td_last_verified_at := Aware now,
                         td_version := td_version old + 1, td_session := session\<rparr>)
              in returns row
                   (log_audit ''TRUST_ESTABLISHED'' (Some l) True
                     (db\<lparr>db_trusted := upsert_row td_key row on_conflict (db_trusted db)\<rparr>))))"

definition list_trusted_devices ::
  "pairing_db \<Rightarrow> string option \<Rightarrow> trust_status option \<Rightarrow> trusted_device list" where
  "list_trusted_devices db l st =
     sort_key (\<lambda>d. - sort_instant (td_created_at d))
       (filter (\<lambda>d. (case l of None \<Rightarrow> True | Some x \<Rightarrow> x = [] \<or> td_local d = x) \<and>
                    (case st of None \<Rightarrow> True | Some x \<Rightarrow> td_status d = x)) (db_trusted db))"

definition is_trusted :: "pairing_db \<Rightarrow> string \<Rightarrow> string \<Rightarrow> bool" where
  "is_trusted db l r =
     (case get_trusted_device db l r of None \<Rightarrow> False | Some d \<Rightarrow> td_is_active d)"

definition verify_device_trust_or_raise ::
  "pairing_db \<Rightarrow> string \<Rightarrow> string \<Rightarrow> gm_error + trusted_device" where
  "verify_device_trust_or_raise db l r =
     (case get_trusted_device db l r of
        None \<Rightarrow> Inl (Pairing DeviceNotTrustedError)
      | Some d \<Rightarrow> if td_status d = TS_REVOKED then Inl (Pairing TrustRevokedError) else Inr d)"

text \<open>
  The \<^verbatim>\<open>WHERE\<close> of the second update of \<^verbatim>\<open>revoke_trust\<close>, as SQL reads it:
  \<^verbatim>\<open>AND\<close> binds tighter than \<^verbatim>\<open>OR\<close>, so the state guard belongs to the
  second disjunct only.
\<close>

definition revoke_where :: "string \<Rightarrow> string \<Rightarrow> pairing_session \<Rightarrow> bool" where
  "revoke_where l r s \<longleftrightarrow>
     (ps_parent s = l \<and> ps_child s = Some r) \<or>
     (ps_parent s = r \<and> ps_child s = Some l \<and>
        ps_state s \<notin> {PS_DENIED, PS_EXPIRED, PS_CANCELLED, PS_REVOKED})"

definition revoke_trust ::
  "int \<Rightarrow> string \<Rightarrow> string \<Rightarrow> string option \<Rightarrow> pairing_db \<Rightarrow> (pairing_db, bool) outcome" where
  "revoke_trust now l r actor db =
     (case get_trusted_device db l r of
        None \<Rightarrow> raises (Pairing DeviceNotTrustedError) db
      | Some d \<Rightarrow>
          returns True
            (log_audit ''TRUST_REVOKED''
               (case actor of None \<Rightarrow> Some l | Some a \<Rightarrow> if a = [] then Some l else Some a) True
               (db\<lparr>db_trusted := update_where (\<lambda>x. td_key x = (l, r))
                      (\<lambda>x. x\<lparr>td_status := TS_REVOKED, td_last_verified_at := Aware now\<rparr>)
                      (db_trusted db),
                   db_sessions := update_where (revoke_where l r)
                      (\<lambda>s. s\<lparr>ps_state := PS_REVOKED\<rparr>) (db_sessions db)\<rparr>)))"

definition rename_trusted_device ::
  "string \<Rightarrow> string \<Rightarrow> string \<Rightarrow> pairing_db \<Rightarrow> (pairing_db, bool) outcome" where
  "rename_trusted_device l r new_label db =
     (case get_trusted_device db l r of
        None \<Rightarrow> raises (Pairing DeviceNotTrustedError) db
      | Some d \<Rightarrow>
          returns True
            (db\<lparr>db_trusted := update_where (\<lambda>x. td_key x = (l, r))
                  (\<lambda>x. x\<lparr>td_label := Some (py_strip new_label)\<rparr>) (db_trusted db)\<rparr>))"

section \<open>Facts\<close>

lemma get_trusted_device_key:
  "get_trusted_device db l r = Some d \<Longrightarrow> d \<in> set (db_trusted db) \<and> td_local d = l \<and> td_remote d = r"
  by (auto simp: get_trusted_device_def td_key_def dest!: fetch_where_Some)

lemma get_trusted_device_frame:
  "db_trusted db' = db_trusted db \<Longrightarrow> get_trusted_device db' l r = get_trusted_device db l r"
  by (simp add: get_trusted_device_def)

lemma is_trusted_frame: "db_trusted db' = db_trusted db \<Longrightarrow> is_trusted db' l r = is_trusted db l r"
  by (simp add: is_trusted_def get_trusted_device_def)

lemma log_audit_tables [simp]:
  "db_trusted (log_audit e a k db) = db_trusted db"
  "db_sessions (log_audit e a k db) = db_sessions db"
  "db_nonces (log_audit e a k db) = db_nonces db"
  by (simp_all add: log_audit_def)

text \<open>What each write does to the table, and that it keeps the primary key.\<close>

lemma keyed_establish:
  assumes "keyed td_key (db_trusted db)"
  shows "keyed td_key (db_trusted (snd (establish_trust cr now l r pem session label db)))"
proof -
  have "keyed td_key (upsert_row td_key row f (db_trusted db))"
    if "\<And>x. td_key (f x) = td_key x" for row f
    using assms that by (rule keyed_upsert_row)
  then show ?thesis
    using assms by (simp add: establish_trust_def Let_def td_key_def split: sum.split option.split)
qed

lemma keyed_revoke:
  assumes "keyed td_key (db_trusted db)"
  shows "keyed td_key (db_trusted (snd (revoke_trust now l r actor db)))"
  using assms
  by (auto simp: revoke_trust_def td_key_def split: option.splits intro!: keyed_update_where)

lemma keyed_rename:
  assumes "keyed td_key (db_trusted db)"
  shows "keyed td_key (db_trusted (snd (rename_trusted_device l r n db)))"
  using assms
  by (auto simp: rename_trusted_device_def td_key_def split: option.splits
      intro!: keyed_update_where)

lemma get_after_update:
  assumes "\<And>x. td_key (f x) = td_key x"
  shows "get_trusted_device (db\<lparr>db_trusted := update_where (\<lambda>x. td_key x = (l, r)) f (db_trusted db)\<rparr>) l' r' =
     map_option (\<lambda>d. if (l', r') = (l, r) then f d else d) (get_trusted_device db l' r')"
proof -
  have "get_trusted_device (db\<lparr>db_trusted := update_where (\<lambda>x. td_key x = (l, r)) f (db_trusted db)\<rparr>) l' r' =
      map_option (\<lambda>d. if td_key d = (l, r) then f d else d) (get_trusted_device db l' r')"
    using assms by (simp add: get_trusted_device_def fetch_update_where)
  also have "\<dots> = map_option (\<lambda>d. if (l', r') = (l, r) then f d else d) (get_trusted_device db l' r')"
    by (rule option.map_cong) (auto simp: td_key_def dest: get_trusted_device_key)
  finally show ?thesis .
qed

lemma is_trusted_iff_verify:
  "is_trusted db l r \<longleftrightarrow> (\<exists>d. verify_device_trust_or_raise db l r = Inr d)"
  by (auto simp: is_trusted_def verify_device_trust_or_raise_def td_is_active_def
      split: option.splits) (metis trust_status.exhaust)+

interpretation trust: trust_gate verify_device_trust_or_raise is_trusted
proof unfold_locales
  fix s l r assume "is_trusted s l r"
  then show "\<exists>d. verify_device_trust_or_raise s l r = Inr d" by (simp add: is_trusted_iff_verify)
next
  fix s l r assume "\<not> is_trusted s l r"
  then show "\<exists>e. verify_device_trust_or_raise s l r = Inl e \<and> is_instance e (Pairing TrustError)"
    by (auto simp: is_trusted_def verify_device_trust_or_raise_def td_is_active_def is_instance_def
        eval_nat_numeral split: option.splits) (metis trust_status.exhaust)+
qed

end
