(* ===== verification/Authorization.thy ===== *)
theory Authorization
  imports Trust
begin

text \<open>
  \<^verbatim>\<open>guardianmesh/pairing/authorization.py\<close>: challenge nonces, the signed decision of the
  child and its verification.
\<close>

definition build_auth_challenge_payload ::
  "string \<Rightarrow> string \<Rightarrow> string \<Rightarrow> string \<Rightarrow> string \<Rightarrow> string" where
  "build_auth_challenge_payload sid parent child nonce decision =
     ''GM-AUTH-V1:'' @ sid @ '':'' @ parent @ '':'' @ child @ '':'' @ nonce @ '':'' @ decision"

record child_decision =
  cd_decision :: string
  cd_session :: string
  cd_parent :: string
  cd_child :: string
  cd_nonce :: string
  cd_pem :: string
  cd_signature_hex :: string
  cd_timestamp :: stamp

definition is_approved :: "child_decision \<Rightarrow> bool" where
  "is_approved d \<longleftrightarrow> py_upper (cd_decision d) = ''APPROVE''"

text \<open>\<^verbatim>\<open>bytes.hex()\<close>.\<close>

definition hex_char :: "nat \<Rightarrow> char" where
  "hex_char n = (if n < 10 then char_of (48 + n) else char_of (87 + n))"

definition to_hex :: "nat list \<Rightarrow> string" where
  "to_hex bs = concat (map (\<lambda>b. [hex_char (b div 16), hex_char (b mod 16)]) bs)"

text \<open>
  \<open>sign\<close> is \<^verbatim>\<open>private_key.sign\<close> and \<open>pem\<close> the PEM of the matching public key.
\<close>

definition create_signed_child_decision ::
  "(string \<Rightarrow> nat list) \<Rightarrow> string \<Rightarrow> int \<Rightarrow> string \<Rightarrow> string \<Rightarrow> string \<Rightarrow> string \<Rightarrow> bool \<Rightarrow>
   child_decision" where
  "create_signed_child_decision sign pem now sid parent child nonce approve =
     (let decision = (if approve then ''APPROVE'' else ''DENY'') in
      \<lparr>cd_decision = decision, cd_session = sid, cd_parent = parent, cd_child = child,
       cd_nonce = nonce, cd_pem = pem,
       cd_signature_hex =
         to_hex (sign (build_auth_challenge_payload sid parent child nonce decision)),
       cd_timestamp = Aware now\<rparr>)"

definition verify_child_decision_signature :: "crypto \<Rightarrow> child_decision \<Rightarrow> bool" where
  "verify_child_decision_signature cr d =
     (case load_pem cr (cd_pem d) of
        None \<Rightarrow> False
      | Some raw \<Rightarrow>
         (case from_hex (cd_signature_hex d) of
            None \<Rightarrow> False
          | Some sg \<Rightarrow> ed25519_verify cr raw sg
              (build_auth_challenge_payload (cd_session d) (cd_parent d) (cd_child d)
                 (cd_nonce d) (cd_decision d))))"

definition register_nonce ::
  "int \<Rightarrow> string \<Rightarrow> string \<Rightarrow> string \<Rightarrow> int \<Rightarrow> nonce_row list \<Rightarrow> nonce_row list option" where
  "register_nonce now nonce sid child lifetime rows =
     insert_row nr_nonce
       \<lparr>nr_nonce = nonce, nr_session = sid, nr_child = child, nr_created_at = Aware now,
        nr_expires_at = stamp_after now lifetime, nr_used = False\<rparr> rows"

text \<open>The child identity is an argument that the query does not use, as in the source.\<close>

definition validate_and_consume_nonce ::
  "int \<Rightarrow> string \<Rightarrow> string \<Rightarrow> string \<Rightarrow> pairing_db \<Rightarrow> (pairing_db, unit) outcome" where
  "validate_and_consume_nonce now nonce sid child db =
     (case fetch_where (\<lambda>r. nr_nonce r = nonce \<and> nr_session r = sid) (db_nonces db) of
        None \<Rightarrow> raises (Pairing InvalidNonceError) db
      | Some row \<Rightarrow>
          if nr_used row then raises (Pairing ReplayedNonceError) db
          else if reached now (nr_expires_at row) then raises (Pairing InvalidNonceError) db
          else returns ()
            (db\<lparr>db_nonces := update_where (\<lambda>r. nr_nonce r = nonce) (\<lambda>r. r\<lparr>nr_used := True\<rparr>)
                  (db_nonces db)\<rparr>))"

section \<open>Nonces are consumed at most once\<close>

type_synonym nonce_use = "int \<times> string \<times> string \<times> string"

definition consume_step :: "pairing_db \<Rightarrow> nonce_use \<Rightarrow> bool \<times> pairing_db" where
  "consume_step db u =
     (case u of (now, nonce, sid, child) \<Rightarrow>
        (succeeded (validate_and_consume_nonce now nonce sid child db),
         snd (validate_and_consume_nonce now nonce sid child db)))"

definition nonce_token :: "nonce_use \<Rightarrow> string" where
  [model_defs]: "nonce_token u = fst (snd u)"

definition nonce_spent :: "pairing_db \<Rightarrow> string \<Rightarrow> bool" where
  "nonce_spent db n \<longleftrightarrow> (\<exists>r \<in> set (db_nonces db). nr_nonce r = n \<and> nr_used r)"

lemma consume_cases:
  fixes db :: pairing_db and now n sid child
  defines "r \<equiv> validate_and_consume_nonce now n sid child db"
  shows "(succeeded r \<and> snd r = db\<lparr>db_nonces := update_where (\<lambda>r. nr_nonce r = n)
         (\<lambda>r. r\<lparr>nr_used := True\<rparr>) (db_nonces db)\<rparr> \<and>
      (\<exists>row \<in> set (db_nonces db). nr_nonce row = n \<and> nr_session row = sid \<and> \<not> nr_used row \<and>
         \<not> reached now (nr_expires_at row))) \<or>
     (\<not> succeeded r \<and> snd r = db)"
proof (cases "fetch_where (\<lambda>r. nr_nonce r = n \<and> nr_session r = sid) (db_nonces db)")
  case None
  then show ?thesis by (simp add: r_def validate_and_consume_nonce_def)
next
  case (Some row)
  then show ?thesis
    using fetch_where_Some[OF Some] by (auto simp: r_def validate_and_consume_nonce_def)
qed

lemma keyed_same: "keyed key rows \<Longrightarrow> r \<in> set rows \<Longrightarrow> r' \<in> set rows \<Longrightarrow> key r = key r' \<Longrightarrow> r = r'"
  by (metis fetch_keyed option.inject)

lemma spent_by_update:
  assumes "row \<in> set (db_nonces db)"
  shows "nonce_spent (db\<lparr>db_nonces := update_where (\<lambda>r. nr_nonce r = nr_nonce row)
           (\<lambda>r. r\<lparr>nr_used := True\<rparr>) (db_nonces db)\<rparr>) (nr_nonce row)"
  unfolding nonce_spent_def
  by (rule bexI[of _ "row\<lparr>nr_used := True\<rparr>"]) (simp_all add: update_where_hit assms)

lemma spent_kept:
  assumes "nonce_spent db k"
  shows "nonce_spent (db\<lparr>db_nonces := update_where (\<lambda>r. nr_nonce r = n)
           (\<lambda>r. r\<lparr>nr_used := True\<rparr>) (db_nonces db)\<rparr>) k"
proof -
  obtain row where row: "row \<in> set (db_nonces db)" "nr_nonce row = k" "nr_used row"
    using assms by (auto simp: nonce_spent_def)
  show ?thesis
  proof (cases "k = n")
    case True
    with spent_by_update[OF row(1)] row(2) show ?thesis by simp
  next
    case False
    with row show ?thesis by (auto simp: nonce_spent_def intro!: bexI[of _ row] update_where_miss)
  qed
qed

interpretation nonce_guard:
  replay_guard consume_step nonce_token nonce_spent "\<lambda>db. keyed nr_nonce (db_nonces db)"
proof unfold_locales
  fix db :: pairing_db and u :: nonce_use
  assume inv: "keyed nr_nonce (db_nonces db)"
  obtain now n sid child where u: "u = (now, n, sid, child)" by (cases u)
  note cases = consume_cases[of now n sid child db]
  show "keyed nr_nonce (db_nonces (snd (consume_step db u)))"
    using cases inv by (auto simp: consume_step_def u intro!: keyed_update_where)
  show "\<not> nonce_spent db (nonce_token u)" if "fst (consume_step db u)"
    using cases that inv
    by (auto simp: consume_step_def u nonce_spent_def nonce_token_def dest: keyed_same)
  show "nonce_spent (snd (consume_step db u)) (nonce_token u)" if "fst (consume_step db u)"
    using cases that by (auto simp: consume_step_def u nonce_token_def spent_by_update)
  show "nonce_spent (snd (consume_step db u)) k" if "nonce_spent db k" for k
    using cases that by (auto simp: consume_step_def u spent_kept)
qed

section \<open>Signed decisions\<close>

lemma hex_digit_char: "n < 16 \<Longrightarrow> hex_digit (hex_char n) = Some n \<and> \<not> is_py_space (hex_char n)"
  by (auto simp: hex_digit_def hex_char_def is_py_space_def Let_def)

lemma from_hex_to_hex: "list_all (\<lambda>b. b < 256) bs \<Longrightarrow> from_hex (to_hex bs) = Some bs"
proof (induction bs)
  case Nil
  then show ?case by (simp add: to_hex_def)
next
  case (Cons b bs)
  have "b div 16 < 16" "b mod 16 < 16" using Cons.prems by auto
  with Cons show ?case by (simp add: to_hex_def hex_digit_char)
qed

end
