(* ===== verification/PairingManager.thy ===== *)
theory PairingManager
  imports Authorization
begin

text \<open>
  \<^verbatim>\<open>guardianmesh/pairing/manager.py\<close>: the pairing workflow.  Random draws (session
  tokens, the passcode number, the salt, the nonce) are arguments; \<open>now\<close> is the clock, read
  once per operation; \<open>smtp\<close> is the mail delivery of \<^verbatim>\<open>EmailDeliveryProvider\<close>
  (\<open>None\<close> where it returns, the exception where it raises).
\<close>

record pairing_config =
  otp_expiration_seconds :: int
  session_expiration_seconds :: int
  otp_resend_cooldown_seconds :: int
  max_otp_attempts :: int
  nonce_expiration_seconds :: int

section \<open>Delivery providers\<close>

datatype provider = EmailDelivery | SmsDelivery | DemoDelivery

definition get_delivery_provider :: "string \<Rightarrow> gm_error + provider" where
  "get_delivery_provider m =
     (let n = py_upper (py_strip m) in
      if n \<in> {''EMAIL'', ''MAIL'', ''1''} then Inr EmailDelivery
      else if n \<in> {''SMS'', ''PHONE'', ''2''} then Inr SmsDelivery
      else if n \<in> {''DEMO'', ''LOCAL'', ''3''} then Inr DemoDelivery
      else Inl (Core ValidationError))"

type_synonym mailer = "string \<Rightarrow> string \<Rightarrow> gm_error option"

fun send_verification_code :: "mailer \<Rightarrow> provider \<Rightarrow> string \<Rightarrow> string \<Rightarrow> gm_error option" where
  "send_verification_code smtp EmailDelivery dest code = smtp dest code"
| "send_verification_code smtp SmsDelivery dest code = Some (Pairing ProviderNotConfiguredError)"
| "send_verification_code smtp DemoDelivery dest code = None"

section \<open>Sessions in the database\<close>

definition get_session :: "pairing_db \<Rightarrow> string \<Rightarrow> pairing_session option" where
  "get_session db sid = fetch_where (\<lambda>s. ps_id s = sid) (db_sessions db)"

definition get_session_or_raise :: "pairing_db \<Rightarrow> string \<Rightarrow> gm_error + pairing_session" where
  "get_session_or_raise db sid =
     (case get_session db sid of
        None \<Rightarrow> Inl (Pairing PairingSessionNotFoundError) | Some s \<Rightarrow> Inr s)"

text \<open>The columns \<^verbatim>\<open>_update_session_db\<close> writes.\<close>

definition write_session :: "pairing_session \<Rightarrow> pairing_session \<Rightarrow> pairing_session" where
  "write_session s r =
     r\<lparr>ps_state := ps_state s, ps_child := ps_child s, ps_verified_at := ps_verified_at s,
       ps_authorized_at := ps_authorized_at s, ps_completed_at := ps_completed_at s,
       ps_attempts := ps_attempts s, ps_resends := ps_resends s,
       ps_last_resend_at := ps_last_resend_at s, ps_otp_verifier := ps_otp_verifier s,
       ps_otp_salt := ps_otp_salt s, ps_otp_expires_at := ps_otp_expires_at s,
       ps_auth_nonce := ps_auth_nonce s, ps_auth_nonce_expires_at := ps_auth_nonce_expires_at s\<rparr>"

definition update_session_db :: "pairing_session \<Rightarrow> pairing_db \<Rightarrow> pairing_db" where
  "update_session_db s db =
     db\<lparr>db_sessions := update_where (\<lambda>r. ps_id r = ps_id s) (write_session s) (db_sessions db)\<rparr>"

definition list_sessions ::
  "pairing_db \<Rightarrow> string option \<Rightarrow> pairing_state option \<Rightarrow> pairing_session list" where
  "list_sessions db parent st =
     sort_key (\<lambda>s. - sort_instant (ps_created_at s))
       (filter (\<lambda>s. (case parent of None \<Rightarrow> True | Some x \<Rightarrow> x = [] \<or> ps_parent s = x) \<and>
                    (case st of None \<Rightarrow> True | Some x \<Rightarrow> ps_state s = x)) (db_sessions db))"

text \<open>Ten draws of six hexadecimal digits; if all are taken, one of eight, unchecked.\<close>

fun generate_session_id :: "pairing_db \<Rightarrow> string list \<Rightarrow> string \<Rightarrow> string" where
  "generate_session_id db [] fallback = ''PAIR-'' @ fallback"
| "generate_session_id db (t # ts) fallback =
     (case get_session db (''PAIR-'' @ t) of
        None \<Rightarrow> ''PAIR-'' @ t
      | Some _ \<Rightarrow> generate_session_id db ts fallback)"

section \<open>Creating a session\<close>

definition check_create_ids :: "string \<Rightarrow> string option \<Rightarrow> gm_error option" where
  "check_create_ids parent child =
     (if \<not> valid_id parent then Some (Core ValidationError)
      else if parse_identity_role parent \<noteq> Inr PARENT then Some (Core ValidationError)
      else case child of
        None \<Rightarrow> None
      | Some c \<Rightarrow>
          if c = [] then None
          else if \<not> valid_id c then Some (Core ValidationError)
          else if parse_identity_role c \<noteq> Inr CHILD then Some (Core ValidationError)
          else None)"

text \<open>The insert meets the primary key and \<^verbatim>\<open>CHECK(verification_method IN ...)\<close>.\<close>

definition insert_session :: "pairing_session \<Rightarrow> pairing_db \<Rightarrow> pairing_db option" where
  "insert_session s db =
     (if ps_method s \<notin> {''EMAIL'', ''SMS'', ''DEMO''} then None
      else map_option (\<lambda>rows. db\<lparr>db_sessions := rows\<rparr>) (insert_row ps_id s (db_sessions db)))"

definition new_session ::
  "crypto \<Rightarrow> pairing_config \<Rightarrow> int \<Rightarrow> string \<Rightarrow> string \<Rightarrow> string \<Rightarrow> string \<Rightarrow> string \<Rightarrow> string \<Rightarrow>
   string option \<Rightarrow> pairing_session" where
  "new_session cr cfg now sid otp salt parent norm_method dest child =
     \<lparr>ps_id = sid, ps_parent = parent, ps_method = norm_method, ps_destination = py_strip dest,
      ps_state = PS_CREATED, ps_child = child, ps_created_at = Aware now,
      ps_expires_at = stamp_after now (session_expiration_seconds cfg),
      ps_verified_at = None, ps_authorized_at = None, ps_completed_at = None,
      ps_attempts = 0, ps_max_attempts = max_otp_attempts cfg, ps_resends = 0,
      ps_last_resend_at = Some (Aware now),
      ps_otp_verifier = Some (compute_otp_verifier (sha256_hex cr) sid otp salt),
      ps_otp_salt = Some salt,
      ps_otp_expires_at = Some (stamp_after now (otp_expiration_seconds cfg)),
      ps_auth_nonce = None, ps_auth_nonce_expires_at = None\<rparr>"

text \<open>
  The dispatch inside the \<^verbatim>\<open>try\<close>: any exception cancels the session and is raised
  again.
\<close>

definition dispatch_otp ::
  "mailer \<Rightarrow> provider \<Rightarrow> string \<Rightarrow> pairing_session \<Rightarrow> pairing_db \<Rightarrow>
   (pairing_db, pairing_session) outcome" where
  "dispatch_otp smtp prov otp s db =
     (case send_verification_code smtp prov (ps_destination s) otp of
        Some e \<Rightarrow> raises e (update_session_db (s\<lparr>ps_state := PS_CANCELLED\<rparr>) db)
      | None \<Rightarrow>
         (case transition_to PS_VERIFICATION_PENDING s of
            Inl e \<Rightarrow> raises e (update_session_db (s\<lparr>ps_state := PS_CANCELLED\<rparr>) db)
          | Inr s' \<Rightarrow>
              returns s'
                (log_audit ''PAIRING_CREATED'' (Some (ps_parent s)) True
                  (log_audit ''OTP_DELIVERED'' (Some (ps_parent s)) True
                    (update_session_db s' db)))))"

definition create_session ::
  "crypto \<Rightarrow> pairing_config \<Rightarrow> mailer \<Rightarrow> int \<Rightarrow> string list \<Rightarrow> string \<Rightarrow> nat \<Rightarrow> string \<Rightarrow>
   string \<Rightarrow> string \<Rightarrow> string \<Rightarrow> string option \<Rightarrow> pairing_db \<Rightarrow>
   (pairing_db, pairing_session \<times> string option) outcome" where
  "create_session cr cfg smtp now tokens fallback number salt parent verif_method dest child db =
     (case check_create_ids parent child of
        Some e \<Rightarrow> raises e db
      | None \<Rightarrow>
         (let norm = py_upper (py_strip verif_method) in
          case get_delivery_provider norm of
            Inl e \<Rightarrow> raises e db
          | Inr prov \<Rightarrow>
             (let sid = generate_session_id db tokens fallback;
                  otp = generate_otp_code number;
                  s = new_session cr cfg now sid otp salt parent norm dest child
              in case insert_session s db of
                   None \<Rightarrow> raises (Builtin SqliteIntegrityError) db
                 | Some db1 \<Rightarrow>
                    (case dispatch_otp smtp prov otp s
                            (log_audit ''OTP_DELIVERY_STARTED'' (Some parent) True db1) of
                       (Inl e, db2) \<Rightarrow> raises e db2
                     | (Inr s', db2) \<Rightarrow>
                         returns (s', if norm = ''DEMO'' then Some otp else None) db2))))"

section \<open>Resending and verifying the passcode\<close>

definition resend_otp ::
  "crypto \<Rightarrow> pairing_config \<Rightarrow> mailer \<Rightarrow> int \<Rightarrow> nat \<Rightarrow> string \<Rightarrow> string \<Rightarrow> pairing_db \<Rightarrow>
   (pairing_db, pairing_session \<times> string option) outcome" where
  "resend_otp cr cfg smtp now number salt sid db =
     (case get_session_or_raise db sid of
        Inl e \<Rightarrow> raises e db
      | Inr s \<Rightarrow>
          if ps_is_expired now s then
            (case transition_to PS_EXPIRED s of
               Inl e \<Rightarrow> raises e db
             | Inr s' \<Rightarrow> raises (Pairing PairingSessionExpiredError) (update_session_db s' db))
          else if ps_state s \<notin> {PS_CREATED, PS_VERIFICATION_PENDING} then
            raises (Pairing InvalidStateTransitionError) db
          else if \<not> fst (can_resend now (otp_resend_cooldown_seconds cfg) s) then
            raises (Pairing RateLimitExceededError) db
          else
            (let otp = generate_otp_code number;
                 s' = s\<lparr>ps_otp_verifier := Some (compute_otp_verifier (sha256_hex cr) sid otp salt),
                        ps_otp_salt := Some salt,
                        ps_otp_expires_at := Some (stamp_after now (otp_expiration_seconds cfg)),
                        ps_resends := ps_resends s + 1, ps_last_resend_at := Some (Aware now),
                        ps_state := PS_VERIFICATION_PENDING\<rparr>
             in case get_delivery_provider (ps_method s) of
                  Inl e \<Rightarrow> raises e db
                | Inr prov \<Rightarrow>
                   (case send_verification_code smtp prov (ps_destination s) otp of
                      Some e \<Rightarrow> raises e db
                    | None \<Rightarrow>
                        returns (s', if ps_method s = ''DEMO'' then Some otp else None)
                          (log_audit ''OTP_DELIVERED'' (Some (ps_parent s)) True
                            (update_session_db s' db)))))"

text \<open>A wrong code: counted, and the last one allowed ends the session.\<close>

definition reject_code ::
  "pairing_session \<Rightarrow> pairing_db \<Rightarrow> (pairing_db, pairing_session) outcome" where
  "reject_code s db =
     (let s1 = s\<lparr>ps_attempts := ps_attempts s + 1\<rparr> in
      if ps_max_attempts s1 \<le> ps_attempts s1 then
        raises (Pairing OTPAttemptLimitExceededError)
          (log_audit ''OTP_REJECTED'' (Some (ps_parent s)) False
            (update_session_db (s1\<lparr>ps_state := PS_EXPIRED\<rparr>) db))
      else
        raises (Pairing OTPVerificationError)
          (log_audit ''OTP_REJECTED'' (Some (ps_parent s)) False (update_session_db s1 db)))"

text \<open>The right code: the verifier and its salt are cleared at once.\<close>

definition accept_code ::
  "int \<Rightarrow> pairing_session \<Rightarrow> pairing_db \<Rightarrow> (pairing_db, pairing_session) outcome" where
  "accept_code now s db =
     (let s1 = s\<lparr>ps_verified_at := Some (Aware now), ps_otp_verifier := None, ps_otp_salt := None\<rparr> in
      case transition_to PS_VERIFIED s1 of
        Inl e \<Rightarrow> raises e db
      | Inr s2 \<Rightarrow>
         (case transition_to PS_CHILD_AUTHORIZATION_PENDING s2 of
            Inl e \<Rightarrow> raises e db
          | Inr s3 \<Rightarrow>
              returns s3
                (log_audit ''OTP_VERIFIED'' (Some (ps_parent s)) True (update_session_db s3 db))))"

definition verify_otp ::
  "crypto \<Rightarrow> int \<Rightarrow> string \<Rightarrow> string \<Rightarrow> pairing_db \<Rightarrow> (pairing_db, pairing_session) outcome" where
  "verify_otp cr now sid entered db =
     (case get_session_or_raise db sid of
        Inl e \<Rightarrow> raises e db
      | Inr s \<Rightarrow>
          if ps_is_expired now s then
            raises (Pairing PairingSessionExpiredError)
              (log_audit ''PAIRING_EXPIRED'' (Some (ps_parent s)) False
                (update_session_db (s\<lparr>ps_state := PS_EXPIRED\<rparr>) db))
          else if ps_state s \<noteq> PS_VERIFICATION_PENDING then
            raises (Pairing InvalidStateTransitionError) db
          else if ps_max_attempts s \<le> ps_attempts s then
            raises (Pairing OTPAttemptLimitExceededError)
              (log_audit ''OTP_REJECTED'' (Some (ps_parent s)) False
                (update_session_db (s\<lparr>ps_state := PS_EXPIRED\<rparr>) db))
          else if is_otp_expired now s then
            raises (Pairing OTPExpiredError)
              (log_audit ''OTP_REJECTED'' (Some (ps_parent s)) False
                (update_session_db (s\<lparr>ps_attempts := ps_attempts s + 1\<rparr>) db))
          else
            (case validate_otp_format entered of
               Inl e \<Rightarrow> raises e db
             | Inr code \<Rightarrow>
                 if \<not> verify_otp_code (sha256_hex cr) (ps_id s) code (ps_otp_salt s)
                        (ps_otp_verifier s)
                 then reject_code s db
                 else accept_code now s db))"

section \<open>The child's authorization\<close>

definition create_authorization_challenge ::
  "pairing_config \<Rightarrow> int \<Rightarrow> string \<Rightarrow> string \<Rightarrow> string \<Rightarrow> pairing_db \<Rightarrow>
   (pairing_db, string) outcome" where
  "create_authorization_challenge cfg now nonce sid child db =
     (case get_session_or_raise db sid of
        Inl e \<Rightarrow> raises e db
      | Inr s \<Rightarrow>
          if ps_is_expired now s then
            raises (Pairing PairingSessionExpiredError)
              (update_session_db (s\<lparr>ps_state := PS_EXPIRED\<rparr>) db)
          else if ps_state s \<noteq> PS_CHILD_AUTHORIZATION_PENDING then
            raises (Pairing InvalidStateTransitionError) db
          else if \<not> valid_id child then raises (Core ValidationError) db
          else
            (case register_nonce now nonce sid child (nonce_expiration_seconds cfg) (db_nonces db) of
               None \<Rightarrow> raises (Builtin SqliteIntegrityError) db
             | Some rows \<Rightarrow>
                 returns nonce
                   (log_audit ''CHILD_AUTHORIZATION_REQUESTED'' (Some (ps_parent s)) True
                     (db\<lparr>db_nonces := rows,
                         db_sessions := update_where (\<lambda>r. ps_id r = sid)
                           (\<lambda>r. r\<lparr>ps_child := Some child, ps_auth_nonce := Some nonce,
                                  ps_auth_nonce_expires_at :=
                                    Some (stamp_after now (nonce_expiration_seconds cfg))\<rparr>)
                           (db_sessions db)\<rparr>))))"

definition deny_pairing ::
  "child_decision \<Rightarrow> pairing_session \<Rightarrow> pairing_db \<Rightarrow> (pairing_db, trusted_device) outcome" where
  "deny_pairing d s db =
     (case transition_to PS_DENIED s of
        Inl e \<Rightarrow> raises e db
      | Inr s' \<Rightarrow>
          raises (Pairing ChildAuthorizationDeniedError)
            (log_audit ''CHILD_DENIED'' (Some (cd_child d)) True (update_session_db s' db)))"

definition approve_pairing ::
  "crypto \<Rightarrow> int \<Rightarrow> child_decision \<Rightarrow> string option \<Rightarrow> pairing_session \<Rightarrow> pairing_db \<Rightarrow>
   (pairing_db, trusted_device) outcome" where
  "approve_pairing cr now d label s db =
     (case transition_to PS_AUTHORIZED s of
        Inl e \<Rightarrow> raises e db
      | Inr s1 \<Rightarrow>
         (case transition_to PS_TRUST_ESTABLISHED s1 of
            Inl e \<Rightarrow> raises e db
          | Inr s2 \<Rightarrow>
             (case transition_to PS_PAIRED s2 of
                Inl e \<Rightarrow> raises e db
              | Inr s3 \<Rightarrow>
                 (let s4 = s3\<lparr>ps_completed_at := Some (Aware now)\<rparr>;
                      name = (case label of None \<Rightarrow> ''Child Device''
                              | Some x \<Rightarrow> if x = [] then ''Child Device'' else x)
                  in establish_trust cr now (ps_parent s4) (cd_child d) (cd_pem d)
                       (Some (ps_id s4)) (Some name)
                       (log_audit ''CHILD_APPROVED'' (Some (cd_child d)) True
                         (update_session_db s4 db))))))"

definition submit_child_authorization ::
  "crypto \<Rightarrow> int \<Rightarrow> string \<Rightarrow> child_decision \<Rightarrow> string option \<Rightarrow> pairing_db \<Rightarrow>
   (pairing_db, trusted_device) outcome" where
  "submit_child_authorization cr now sid d label db =
     (case get_session_or_raise db sid of
        Inl e \<Rightarrow> raises e db
      | Inr s \<Rightarrow>
          if ps_is_expired now s then
            raises (Pairing PairingSessionExpiredError)
              (update_session_db (s\<lparr>ps_state := PS_EXPIRED\<rparr>) db)
          else if ps_state s \<noteq> PS_CHILD_AUTHORIZATION_PENDING then
            raises (Pairing InvalidStateTransitionError) db
          else
            (case validate_and_consume_nonce now (cd_nonce d) sid (cd_child d) db of
               (Inl e, db1) \<Rightarrow> raises e db1
             | (Inr _, db1) \<Rightarrow>
                 if \<not> verify_child_decision_signature cr d then raises (Core SecurityError) db1
                 else
                   (let s1 = s\<lparr>ps_child := Some (cd_child d), ps_authorized_at := Some (Aware now)\<rparr>
                    in if \<not> is_approved d then deny_pairing d s1 db1
                       else approve_pairing cr now d label s1 db1)))"

definition cancel_session :: "string \<Rightarrow> pairing_db \<Rightarrow> (pairing_db, bool) outcome" where
  "cancel_session sid db =
     (case get_session_or_raise db sid of
        Inl e \<Rightarrow> raises e db
      | Inr s \<Rightarrow>
          if ps_state s \<in> {PS_DENIED, PS_EXPIRED, PS_CANCELLED, PS_REVOKED} then returns False db
          else returns True
            (log_audit ''PAIRING_CANCELLED'' (Some (ps_parent s)) True
              (update_session_db (s\<lparr>ps_state := PS_CANCELLED\<rparr>) db)))"

end
