(* ===== verification/PairingInvariant.thy ===== *)
theory PairingInvariant
  imports PairingManager
begin

text \<open>
  The consent invariant of the pairing database: what every sequence of pairing operations
  keeps.  A session past the passcode has been verified and holds no passcode verifier, a
  paired one has been authorized, and every trust record points back to such a session of
  the same parent, with a consumed challenge nonce.  Each write of the database has one lemma;
  the operations compose them.
\<close>

definition good_session :: "pairing_session \<Rightarrow> bool" where
  "good_session s \<longleftrightarrow>
     (ps_state s \<in> {PS_CHILD_AUTHORIZATION_PENDING, PS_PAIRED} \<longrightarrow> ps_verified_at s \<noteq> None) \<and>
     (ps_verified_at s \<noteq> None \<longrightarrow>
        ps_otp_verifier s = None \<and> ps_state s \<notin> {PS_CREATED, PS_VERIFICATION_PENDING}) \<and>
     (ps_authorized_at s \<noteq> None \<longrightarrow> ps_verified_at s \<noteq> None) \<and>
     (ps_state s = PS_PAIRED \<longrightarrow> ps_authorized_at s \<noteq> None)"

definition evidence :: "trusted_device \<Rightarrow> pairing_db \<Rightarrow> bool" where
  "evidence d db \<longleftrightarrow>
     (\<exists>s \<in> set (db_sessions db). td_session d = Some (ps_id s) \<and> ps_parent s = td_local d \<and>
        ps_verified_at s \<noteq> None \<and> ps_authorized_at s \<noteq> None) \<and>
     (\<exists>n \<in> set (db_nonces db). td_session d = Some (nr_session n) \<and> nr_used n)"

lemma evidenceI:
  assumes "s \<in> set (db_sessions db)" and "td_session d = Some (ps_id s)"
    and "ps_parent s = td_local d" and "ps_verified_at s \<noteq> None" and "ps_authorized_at s \<noteq> None"
    and "n \<in> set (db_nonces db)" and "nr_session n = ps_id s" and "nr_used n"
  shows "evidence d db"
  unfolding evidence_def using assms by metis

lemma evidenceE:
  assumes "evidence d db"
  obtains s n where "s \<in> set (db_sessions db)" and "td_session d = Some (ps_id s)"
    and "ps_parent s = td_local d" and "ps_verified_at s \<noteq> None" and "ps_authorized_at s \<noteq> None"
    and "n \<in> set (db_nonces db)" and "nr_session n = ps_id s" and "nr_used n"
  using assms unfolding evidence_def by (metis option.inject)

definition consent_inv :: "pairing_db \<Rightarrow> bool" where
  "consent_inv db \<longleftrightarrow>
     keyed td_key (db_trusted db) \<and> keyed ps_id (db_sessions db) \<and> keyed nr_nonce (db_nonces db) \<and>
     (\<forall>s \<in> set (db_sessions db). good_session s) \<and>
     (\<forall>d \<in> set (db_trusted db). evidence d db)"

section \<open>Session writes\<close>

text \<open>What the columns that \<^verbatim>\<open>_update_session_db\<close> leaves alone, and consent stays given.\<close>

definition session_grows :: "pairing_session \<Rightarrow> pairing_session \<Rightarrow> bool" where
  "session_grows s s' \<longleftrightarrow>
     ps_id s' = ps_id s \<and> ps_parent s' = ps_parent s \<and> ps_method s' = ps_method s \<and>
     ps_destination s' = ps_destination s \<and> ps_created_at s' = ps_created_at s \<and>
     ps_expires_at s' = ps_expires_at s \<and> ps_max_attempts s' = ps_max_attempts s \<and>
     (ps_verified_at s \<noteq> None \<longrightarrow> ps_verified_at s' \<noteq> None) \<and>
     (ps_authorized_at s \<noteq> None \<longrightarrow> ps_authorized_at s' \<noteq> None)"

lemma write_session_exact: "session_grows s s' \<Longrightarrow> write_session s' s = s'"
  by (cases s, cases s') (auto simp: write_session_def session_grows_def)

lemma get_session_mem:
  "get_session db sid = Some s \<Longrightarrow> s \<in> set (db_sessions db) \<and> ps_id s = sid"
  unfolding get_session_def by (drule fetch_where_Some) simp

lemma get_session_or_raise_Inr [simp]:
  "get_session_or_raise db sid = Inr s \<longleftrightarrow> get_session db sid = Some s"
  by (simp add: get_session_or_raise_def split: option.split)

lemma get_session_log [simp]: "get_session (log_audit e a k db) sid = get_session db sid"
  by (simp add: get_session_def)

lemma update_session_tables [simp]:
  "db_trusted (update_session_db s db) = db_trusted db"
  "db_nonces (update_session_db s db) = db_nonces db"
  by (simp_all add: update_session_db_def)

lemma sessions_after_update:
  assumes "keyed ps_id (db_sessions db)" and "get_session db sid = Some s" and "session_grows s s'"
  shows "db_sessions (update_session_db s' db) =
           update_where (\<lambda>r. ps_id r = sid) (\<lambda>_. s') (db_sessions db)"
proof -
  have s: "s \<in> set (db_sessions db)" "ps_id s = sid" using get_session_mem[OF assms(2)] by auto
  have "ps_id s' = sid" using assms(3) s(2) by (simp add: session_grows_def)
  moreover have "write_session s' r = s'" if "r \<in> set (db_sessions db)" "ps_id r = sid" for r
    using keyed_same[OF assms(1) that(1) s(1)] that(2) s(2) write_session_exact[OF assms(3)] by simp
  ultimately show ?thesis by (simp add: update_session_db_def update_where_def)
qed

lemma get_session_after_update:
  assumes "keyed ps_id (db_sessions db)" and "get_session db sid = Some s" and "session_grows s s'"
  shows "get_session (update_session_db s' db) sid' =
           (if sid' = sid then Some s' else get_session db sid')"
proof -
  have id': "ps_id s' = sid"
    using assms(3) get_session_mem[OF assms(2)] by (simp add: session_grows_def)
  have "get_session (update_session_db s' db) sid' =
        map_option (\<lambda>r. if ps_id r = sid then s' else r) (get_session db sid')"
    unfolding get_session_def sessions_after_update[OF assms]
    using id' by (subst fetch_update_where) auto
  also have "\<dots> = (if sid' = sid then Some s' else get_session db sid')"
  proof (cases "get_session db sid'")
    case None
    with assms(2) show ?thesis by auto
  next
    case (Some r)
    with get_session_mem[OF Some] show ?thesis by auto
  qed
  finally show ?thesis .
qed

lemma keyed_sessions_update:
  assumes "keyed ps_id (db_sessions db)" and "get_session db sid = Some s" and "session_grows s s'"
  shows "keyed ps_id (db_sessions (update_session_db s' db))"
  unfolding sessions_after_update[OF assms]
  using assms get_session_mem[OF assms(2)]
  by (auto simp: session_grows_def intro!: keyed_update_where)

lemma evidence_update:
  assumes "keyed ps_id (db_sessions db)" and "get_session db sid = Some s" and "session_grows s s'"
    and "evidence d db"
  shows "evidence d (update_session_db s' db)"
  using assms(4)
proof (rule evidenceE)
  fix r n
  assume r: "r \<in> set (db_sessions db)" "td_session d = Some (ps_id r)" "ps_parent r = td_local d"
      "ps_verified_at r \<noteq> None" "ps_authorized_at r \<noteq> None"
    and n: "n \<in> set (db_nonces db)" "nr_session n = ps_id r" "nr_used n"
  let ?r = "if ps_id r = sid then s' else r"
  have "?r \<in> set (db_sessions (update_session_db s' db))"
    unfolding sessions_after_update[OF assms(1-3)] using r(1) by (rule update_where_image)
  moreover have "session_grows r ?r"
  proof (cases "ps_id r = sid")
    case True
    then have "r = s" using keyed_same[OF assms(1) r(1)] get_session_mem[OF assms(2)] by auto
    with assms(3) True show ?thesis by simp
  qed (simp add: session_grows_def)
  ultimately show ?thesis
    using r n by (intro evidenceI[of ?r _ _ n]) (auto simp: session_grows_def)
qed

lemma inv_log [simp]: "consent_inv (log_audit e a k db) \<longleftrightarrow> consent_inv db"
  by (simp add: consent_inv_def evidence_def)

lemma inv_session_write:
  assumes "consent_inv db" and "get_session db sid = Some s" and "session_grows s s'"
    and "good_session s'"
  shows "consent_inv (update_session_db s' db)"
proof -
  have k: "keyed ps_id (db_sessions db)" using assms(1) by (simp add: consent_inv_def)
  have "\<forall>x \<in> set (db_sessions (update_session_db s' db)). good_session x"
    unfolding sessions_after_update[OF k assms(2,3)]
    using assms(1,4) by (auto simp: consent_inv_def dest!: update_where_mem)
  moreover have "\<forall>d \<in> set (db_trusted db). evidence d (update_session_db s' db)"
    using assms(1) evidence_update[OF k assms(2,3)] by (auto simp: consent_inv_def)
  ultimately show ?thesis
    using assms(1) keyed_sessions_update[OF k assms(2,3)] by (simp add: consent_inv_def)
qed

lemma inv_good: "consent_inv db \<Longrightarrow> get_session db sid = Some s \<Longrightarrow> good_session s"
  by (auto simp: consent_inv_def dest: get_session_mem)

section \<open>The other writes\<close>

lemma evidence_mono:
  assumes "evidence d db" and "set (db_sessions db) \<subseteq> set (db_sessions db')"
    and "set (db_nonces db) \<subseteq> set (db_nonces db')"
  shows "evidence d db'"
  using assms by (auto simp: evidence_def)

lemma inv_insert_session:
  assumes "consent_inv db" and "insert_session s db = Some db'" and "good_session s"
  shows "consent_inv db' \<and> db_trusted db' = db_trusted db"
proof -
  obtain rows where rows: "insert_row ps_id s (db_sessions db) = Some rows"
      and db': "db' = db\<lparr>db_sessions := rows\<rparr>"
    using assms(2) by (auto simp: insert_session_def split: if_splits)
  have "keyed ps_id rows" using assms(1) rows keyed_insert_row by (auto simp: consent_inv_def)
  moreover have "set rows = insert s (set (db_sessions db))" using set_insert_row[OF rows] by simp
  ultimately show ?thesis
    using assms(1,3) db' by (auto simp: consent_inv_def intro: evidence_mono)
qed

lemma get_inserted_session:
  assumes "insert_session s db = Some db'"
  shows "get_session db' (ps_id s) = Some s"
proof -
  have fresh: "ps_id s \<notin> ps_id ` set (db_sessions db)" and
    db': "db' = db\<lparr>db_sessions := db_sessions db @ [s]\<rparr>"
    using assms by (auto simp: insert_session_def insert_row_def has_key_iff split: if_splits)
  have "fetch_where (\<lambda>x. ps_id x = ps_id s) (db_sessions db) = None"
    unfolding fetch_where_None using fresh by (force simp: image_iff)
  then show ?thesis by (simp add: db' get_session_def table_simps)
qed

lemma inv_register_nonce:
  assumes "consent_inv db" and "register_nonce now n sid child life (db_nonces db) = Some rows"
  shows "consent_inv (db\<lparr>db_nonces := rows\<rparr>)"
proof -
  have k: "keyed nr_nonce (db_nonces db)" using assms(1) by (simp add: consent_inv_def)
  note ins = assms(2)[unfolded register_nonce_def]
  have "keyed nr_nonce rows" by (rule keyed_insert_row[OF k ins])
  moreover have sub: "set (db_nonces db) \<subseteq> set rows" using set_insert_row[OF ins] by (simp add: subset_insertI)
  moreover have "evidence d (db\<lparr>db_nonces := rows\<rparr>)" if "evidence d db" for d
    by (rule evidence_mono[OF that]) (simp_all add: sub)
  ultimately show ?thesis using assms(1) by (simp add: consent_inv_def)
qed

lemma evidence_consume:
  assumes "evidence d db"
  shows "evidence d (db\<lparr>db_nonces := update_where (\<lambda>r. nr_nonce r = n)
           (\<lambda>r. r\<lparr>nr_used := True\<rparr>) (db_nonces db)\<rparr>)"
  using assms
proof (rule evidenceE)
  fix s r
  assume s: "s \<in> set (db_sessions db)" "td_session d = Some (ps_id s)" "ps_parent s = td_local d"
      "ps_verified_at s \<noteq> None" "ps_authorized_at s \<noteq> None"
    and r: "r \<in> set (db_nonces db)" "nr_session r = ps_id s" "nr_used r"
  let ?r = "if nr_nonce r = n then r\<lparr>nr_used := True\<rparr> else r"
  have "?r \<in> set (update_where (\<lambda>r. nr_nonce r = n) (\<lambda>r. r\<lparr>nr_used := True\<rparr>) (db_nonces db))"
    using r(1) by (rule update_where_image)
  then show ?thesis using s r by (intro evidenceI[of s _ _ ?r]) simp_all
qed

lemma inv_consume:
  assumes "consent_inv db"
  shows "consent_inv (snd (validate_and_consume_nonce now n sid child db))"
proof -
  have "keyed nr_nonce (db_nonces (snd (validate_and_consume_nonce now n sid child db)))"
    using nonce_guard.step_inv[of db "(now, n, sid, child)"] assms
    by (simp add: consent_inv_def consume_step_def)
  with assms consume_cases[of now n sid child db] evidence_consume[of _ db n] show ?thesis
    by (auto simp: consent_inv_def)
qed

lemma inv_trusted_update:
  assumes "consent_inv db" and "\<And>x. td_key (f x) = td_key x" and "\<And>x. td_session (f x) = td_session x"
  shows "consent_inv (db\<lparr>db_trusted := update_where p f (db_trusted db)\<rparr>)"
proof -
  have "keyed td_key (update_where p f (db_trusted db))"
    using assms by (auto simp: consent_inv_def intro!: keyed_update_where)
  moreover have "evidence (f d) db" if "evidence d db" for d
  proof -
    have "td_local (f d) = td_local d" using assms(2)[of d] by (simp add: td_key_def)
    then show ?thesis using that by (simp add: evidence_def assms(3))
  qed
  ultimately show ?thesis
    using assms(1) by (auto simp: consent_inv_def evidence_def dest!: update_where_mem)
qed

lemma good_revoked: "good_session s \<Longrightarrow> good_session (s\<lparr>ps_state := PS_REVOKED\<rparr>)"
  by (simp add: good_session_def)

lemma inv_revoke_sessions:
  assumes "consent_inv db"
  shows "consent_inv (db\<lparr>db_sessions := update_where p (\<lambda>s. s\<lparr>ps_state := PS_REVOKED\<rparr>) (db_sessions db)\<rparr>)"
    (is "consent_inv ?db'")
proof -
  have "keyed ps_id (db_sessions ?db')"
    using assms by (auto simp: consent_inv_def intro!: keyed_update_where)
  moreover have "good_session s" if "s \<in> set (db_sessions ?db')" for s
    using that assms by (auto simp: consent_inv_def good_revoked dest!: update_where_mem)
  moreover have "evidence d ?db'" if "evidence d db" for d
    using that
  proof (rule evidenceE)
    fix r n
    assume r: "r \<in> set (db_sessions db)" "td_session d = Some (ps_id r)" "ps_parent r = td_local d"
        "ps_verified_at r \<noteq> None" "ps_authorized_at r \<noteq> None"
      and n: "n \<in> set (db_nonces db)" "nr_session n = ps_id r" "nr_used n"
    let ?r = "if p r then r\<lparr>ps_state := PS_REVOKED\<rparr> else r"
    have "?r \<in> set (db_sessions ?db')" using r(1) by (simp add: update_where_image)
    then show ?thesis using r n by (intro evidenceI[of ?r _ _ n]) simp_all
  qed
  ultimately show ?thesis using assms by (simp add: consent_inv_def)
qed

end
