(* ===== verification/PairingProps.thy ===== *)
theory PairingProps
  imports PairingInvariant
begin

text \<open>
  What the pairing workflow guarantees: consent in every reachable database, at-most-once
  nonces, the bound on passcode guesses, the exact condition under which an authorization is
  accepted, and what revocation does.
\<close>

section \<open>Every operation keeps the consent invariant\<close>

lemma session_grows_refl [simp]: "session_grows s s"
  by (simp add: session_grows_def)

lemma good_new_session: "good_session (new_session cr cfg now sid otp salt p m dest child)"
  by (simp add: good_session_def new_session_def)

lemma new_session_id [simp]: "ps_id (new_session cr cfg now sid otp salt p m dest child) = sid"
  by (simp add: new_session_def)

lemma dispatch_inv:
  assumes "consent_inv db" and "get_session db (ps_id s) = Some s" and "good_session s"
    and "ps_state s = PS_CREATED"
  shows "consent_inv (snd (dispatch_otp smtp prov otp s db))"
proof -
  have "consent_inv (update_session_db (s\<lparr>ps_state := t\<rparr>) db)"
    if "t = PS_CANCELLED \<or> t = PS_VERIFICATION_PENDING" for t
    using assms that
    by (intro inv_session_write[OF assms(1,2)]) (auto simp: session_grows_def good_session_def)
  then show ?thesis
    by (auto simp: dispatch_otp_def dest!: transition_to_Inr split: option.split sum.split)
qed

lemma create_inv:
  assumes "consent_inv db"
  shows "consent_inv (snd (create_session cr cfg smtp now ts fb n salt parent m dest child db))"
proof -
  let ?sid = "generate_session_id db ts fb"
  let ?s = "new_session cr cfg now ?sid (generate_otp_code n) salt parent (py_upper (py_strip m)) dest child"
  have disp: "consent_inv (snd (dispatch_otp smtp prov (generate_otp_code n) ?s
                (log_audit ''OTP_DELIVERY_STARTED'' (Some parent) True db1)))"
    if "insert_session ?s db = Some db1" for db1 prov
  proof (rule dispatch_inv)
    show "consent_inv (log_audit ''OTP_DELIVERY_STARTED'' (Some parent) True db1)"
      using inv_insert_session[OF assms that good_new_session] by simp
    show "get_session (log_audit ''OTP_DELIVERY_STARTED'' (Some parent) True db1) (ps_id ?s) = Some ?s"
      using get_inserted_session[OF that] by simp
  qed (simp_all add: good_new_session, simp add: new_session_def)
  have step: "consent_inv (snd (case dispatch_otp smtp prov (generate_otp_code n) ?s db2 of
                 (Inl e, d) \<Rightarrow> raises e d
               | (Inr s', d) \<Rightarrow> returns (s', g s') d))"
    if "consent_inv (snd (dispatch_otp smtp prov (generate_otp_code n) ?s db2))" for prov db2 g
    using that by (auto split: prod.split sum.split)
  show ?thesis
  proof (cases "check_create_ids parent child")
    case (Some e)
    with assms show ?thesis by (simp add: create_session_def)
  next
    case None
    note ids = None
    show ?thesis
    proof (cases "get_delivery_provider (py_upper (py_strip m))")
      case (Inl e)
      with assms ids show ?thesis by (simp add: create_session_def)
    next
      case (Inr prov)
      show ?thesis
      proof (cases "insert_session ?s db")
        case None
        with assms ids Inr show ?thesis by (simp add: create_session_def Let_def)
      next
        case (Some db1)
        then show ?thesis
          using ids Inr
            step[OF disp[OF Some], of "\<lambda>_. if py_upper (py_strip m) = ''DEMO''
                   then Some (generate_otp_code n) else None"]
          by (simp add: create_session_def Let_def split del: if_split)
      qed
    qed
  qed
qed

lemma resend_inv:
  assumes "consent_inv db"
  shows "consent_inv (snd (resend_otp cr cfg smtp now n salt sid db))"
proof (cases "get_session db sid")
  case None
  with assms show ?thesis by (simp add: resend_otp_def get_session_or_raise_def)
next
  case (Some s)
  note good = inv_good[OF assms Some]
  have expired: "consent_inv (update_session_db s' db)" if "transition_to PS_EXPIRED s = Inr s'" for s'
    using transition_to_Inr[OF that] good
    by (intro inv_session_write[OF assms Some]) (auto simp: session_grows_def good_session_def)
  have sent: "consent_inv (update_session_db (s\<lparr>ps_otp_verifier := v, ps_otp_salt := sl,
      ps_otp_expires_at := e, ps_resends := k, ps_last_resend_at := t,
      ps_state := PS_VERIFICATION_PENDING\<rparr>) db)"
    if "ps_state s \<in> {PS_CREATED, PS_VERIFICATION_PENDING}" for v sl e k t
    using that good
    by (intro inv_session_write[OF assms Some]) (auto simp: session_grows_def good_session_def)
  show ?thesis
    using assms expired sent Some
    by (simp add: resend_otp_def get_session_or_raise_def Let_def split: sum.split option.split)
qed

lemma verify_otp_inv:
  assumes "consent_inv db"
  shows "consent_inv (snd (verify_otp cr now sid entered db))"
proof (cases "get_session db sid")
  case None
  with assms show ?thesis by (simp add: verify_otp_def get_session_or_raise_def)
next
  case (Some s)
  note good = inv_good[OF assms Some]
  have expired: "consent_inv (update_session_db (s\<lparr>ps_state := PS_EXPIRED\<rparr>) db)"
    using good by (intro inv_session_write[OF assms Some]) (auto simp: session_grows_def good_session_def)
  have counted: "consent_inv (update_session_db (s\<lparr>ps_attempts := k\<rparr>) db)" for k
    using good by (intro inv_session_write[OF assms Some]) (auto simp: session_grows_def good_session_def)
  have ended: "consent_inv (update_session_db (s\<lparr>ps_attempts := k, ps_state := PS_EXPIRED\<rparr>) db)" for k
    using good by (intro inv_session_write[OF assms Some]) (auto simp: session_grows_def good_session_def)
  have accepted: "consent_inv (update_session_db (s\<lparr>ps_verified_at := Some (Aware now),
      ps_otp_verifier := None, ps_otp_salt := None, ps_state := PS_CHILD_AUTHORIZATION_PENDING\<rparr>) db)"
    if "ps_state s = PS_VERIFICATION_PENDING"
    using that good
    by (intro inv_session_write[OF assms Some]) (auto simp: session_grows_def good_session_def)
  have "consent_inv (snd (accept_code now s db))" if "ps_state s = PS_VERIFICATION_PENDING"
    using assms accepted[OF that] that
    by (simp add: accept_code_def Let_def transition_to_def validate_state_transition_def)
  moreover have "consent_inv (snd (reject_code s db))"
    using counted ended by (simp add: reject_code_def Let_def)
  ultimately show ?thesis
    using assms Some expired counted
    by (simp add: verify_otp_def get_session_or_raise_def split: sum.split)
qed

lemma challenge_inv:
  assumes "consent_inv db"
  shows "consent_inv (snd (create_authorization_challenge cfg now nonce sid child db))"
proof (cases "get_session db sid")
  case None
  with assms show ?thesis by (simp add: create_authorization_challenge_def get_session_or_raise_def)
next
  case (Some s)
  note good = inv_good[OF assms Some]
  have k: "keyed ps_id (db_sessions db)" using assms by (simp add: consent_inv_def)
  have expired: "consent_inv (update_session_db (s\<lparr>ps_state := PS_EXPIRED\<rparr>) db)"
    using good by (intro inv_session_write[OF assms Some]) (auto simp: session_grows_def good_session_def)
  have issued: "consent_inv (log_audit ev a ok (db\<lparr>db_nonces := rows,
      db_sessions := update_where (\<lambda>r. ps_id r = sid)
        (\<lambda>r. r\<lparr>ps_child := c, ps_auth_nonce := v, ps_auth_nonce_expires_at := e\<rparr>) (db_sessions db)\<rparr>))"
    if reg: "register_nonce now nonce sid child life (db_nonces db) = Some rows"
    for rows life c v e ev a ok
  proof -
    let ?db1 = "db\<lparr>db_nonces := rows\<rparr>"
    let ?s' = "s\<lparr>ps_child := c, ps_auth_nonce := v, ps_auth_nonce_expires_at := e\<rparr>"
    have grows: "session_grows s ?s'" by (simp add: session_grows_def)
    have get1: "get_session ?db1 sid = Some s" using Some by (simp add: get_session_def)
    have k1: "keyed ps_id (db_sessions ?db1)" using k by simp
    have inv1: "consent_inv (update_session_db ?s' ?db1)"
      using good
      by (intro inv_session_write[OF inv_register_nonce[OF assms reg] get1 grows])
        (simp add: good_session_def)
    have "update_where (\<lambda>r. ps_id r = sid) (\<lambda>_. ?s') (db_sessions db) =
          update_where (\<lambda>r. ps_id r = sid)
            (\<lambda>r. r\<lparr>ps_child := c, ps_auth_nonce := v, ps_auth_nonce_expires_at := e\<rparr>) (db_sessions db)"
      using keyed_same[OF k] get_session_mem[OF Some] by (auto simp: update_where_def)
    then have "update_session_db ?s' ?db1 = db\<lparr>db_nonces := rows,
      db_sessions := update_where (\<lambda>r. ps_id r = sid)
        (\<lambda>r. r\<lparr>ps_child := c, ps_auth_nonce := v, ps_auth_nonce_expires_at := e\<rparr>) (db_sessions db)\<rparr>"
      using sessions_after_update[OF k1 get1 grows] by (simp add: update_session_db_def)
    with inv1 show ?thesis by simp
  qed
  show ?thesis
    using assms Some expired issued
    by (simp add: create_authorization_challenge_def get_session_or_raise_def split: option.split)
qed

lemma upsert_mem:
  "x \<in> set (upsert_row key r f rows) \<Longrightarrow>
     x = r \<or> x \<in> set rows \<or> (\<exists>y \<in> set rows. key y = key r \<and> x = f y)"
  by (auto simp: upsert_row_def split: if_splits dest!: update_where_mem)

lemma inv_upsert_trusted:
  assumes "consent_inv db" and "evidence row db" and "\<And>x. td_key x = td_key row \<Longrightarrow> td_key (f x) = td_key x"
    and "\<And>x. td_session (f x) = td_session row"
  shows "consent_inv (db\<lparr>db_trusted := upsert_row td_key row f (db_trusted db)\<rparr>)"
proof -
  have "keyed td_key (upsert_row td_key row f (db_trusted db))"
    using assms(1,3) by (intro keyed_upsert_row) (simp_all add: consent_inv_def)
  moreover have "evidence d db" if "d \<in> set (upsert_row td_key row f (db_trusted db))" for d
  proof -
    have "evidence (f y) db" if "td_key y = td_key row" for y
      using assms(2) assms(3)[OF that] assms(4)[of y] that by (simp add: evidence_def td_key_def)
    with upsert_mem[OF that] assms(1,2) show ?thesis by (auto simp: consent_inv_def)
  qed
  ultimately show ?thesis using assms(1) by (simp add: consent_inv_def evidence_def)
qed

lemma establish_inv:
  assumes "consent_inv db" and "s \<in> set (db_sessions db)" and "ps_verified_at s \<noteq> None"
    and "ps_authorized_at s \<noteq> None" and "n \<in> set (db_nonces db)" and "nr_session n = ps_id s"
    and "nr_used n"
  shows "consent_inv (snd (establish_trust cr now (ps_parent s) r pem (Some (ps_id s)) label db))"
proof -
  have "consent_inv (db\<lparr>db_trusted := upsert_row td_key row f (db_trusted db)\<rparr>)"
    if "td_local row = ps_parent s" "td_session row = Some (ps_id s)"
      "\<And>x. td_key (f x) = td_key x" "\<And>x. td_session (f x) = Some (ps_id s)" for row f
    using that assms by (intro inv_upsert_trusted) (auto intro: evidenceI[of s _ _ n])
  then show ?thesis
    using assms(1)
    by (simp add: establish_trust_def Let_def td_key_def split: sum.split option.split)
qed

text \<open>A consumed nonce leaves the sessions alone and is on record for its session.\<close>

lemma consume_sessions:
  "db_sessions (snd (validate_and_consume_nonce now n sid child db)) = db_sessions db"
  "db_trusted (snd (validate_and_consume_nonce now n sid child db)) = db_trusted db"
  using consume_cases[of now n sid child db] by auto

lemma consume_record:
  assumes "validate_and_consume_nonce now n sid child db = (Inr u, db1)"
  shows "\<exists>r \<in> set (db_nonces db1). nr_session r = sid \<and> nr_used r"
proof -
  obtain row where "row \<in> set (db_nonces db)" "nr_nonce row = n" "nr_session row = sid"
      and "db_nonces db1 = update_where (\<lambda>r. nr_nonce r = n) (\<lambda>r. r\<lparr>nr_used := True\<rparr>) (db_nonces db)"
    using consume_cases[of now n sid child db] assms by auto
  then show ?thesis
    by (intro bexI[of _ "row\<lparr>nr_used := True\<rparr>"]) (simp_all add: update_where_hit)
qed

lemma authorize_grows:
  "session_grows s (s\<lparr>ps_child := c, ps_authorized_at := Some t, ps_state := st, ps_completed_at := e\<rparr>)"
  "session_grows s (s\<lparr>ps_child := c, ps_authorized_at := Some t, ps_state := st\<rparr>)"
  by (simp_all add: session_grows_def)

lemma deny_inv:
  assumes "consent_inv db" and "get_session db sid = Some s"
    and "ps_state s = PS_CHILD_AUTHORIZATION_PENDING"
  shows "consent_inv (snd (deny_pairing d (s\<lparr>ps_child := c, ps_authorized_at := Some t\<rparr>) db))"
proof -
  have "good_session (s\<lparr>ps_child := c, ps_authorized_at := Some t, ps_state := PS_DENIED\<rparr>)"
    using inv_good[OF assms(1,2)] assms(3) by (simp add: good_session_def)
  from inv_session_write[OF assms(1,2) authorize_grows(2) this]
  show ?thesis
    using assms(3) by (simp add: deny_pairing_def transition_to_def validate_state_transition_def)
qed

lemma approve_inv:
  assumes "consent_inv db" and "get_session db sid = Some s"
    and "ps_state s = PS_CHILD_AUTHORIZATION_PENDING"
    and "\<exists>r \<in> set (db_nonces db). nr_session r = sid \<and> nr_used r"
  shows "consent_inv (snd (approve_pairing cr now d label
           (s\<lparr>ps_child := c, ps_authorized_at := Some t\<rparr>) db))"
proof -
  let ?s = "s\<lparr>ps_child := c, ps_authorized_at := Some t, ps_state := PS_PAIRED,
              ps_completed_at := Some (Aware now)\<rparr>"
  let ?db = "log_audit ''CHILD_APPROVED'' (Some (cd_child d)) True (update_session_db ?s db)"
  have k: "keyed ps_id (db_sessions db)" using assms(1) by (simp add: consent_inv_def)
  have id: "ps_id s = sid" using get_session_mem[OF assms(2)] by simp
  have good: "good_session ?s" and verified: "ps_verified_at s \<noteq> None"
    using inv_good[OF assms(1,2)] assms(3) by (simp_all add: good_session_def)
  have grows: "session_grows s ?s" by (simp add: session_grows_def)
  have inv: "consent_inv ?db" using inv_session_write[OF assms(1,2) grows good] by simp
  have "get_session (update_session_db ?s db) sid = Some ?s"
    using get_session_after_update[OF k assms(2) grows] by simp
  then have mem: "?s \<in> set (db_sessions ?db)" using get_session_mem[of _ sid ?s] by simp
  obtain r where r: "r \<in> set (db_nonces db)" "nr_session r = sid" "nr_used r"
    using assms(4) by blast
  have "consent_inv (snd (establish_trust cr now (ps_parent ?s) x pem (Some (ps_id ?s)) l ?db))" for x pem l
    by (rule establish_inv[OF inv mem, where n = r]) (use r id verified in simp_all)
  then show ?thesis
    using assms(3) by (simp add: approve_pairing_def transition_to_def validate_state_transition_def Let_def)
qed

lemma submit_inv:
  assumes "consent_inv db"
  shows "consent_inv (snd (submit_child_authorization cr now sid d label db))"
proof (cases "get_session db sid")
  case None
  with assms show ?thesis by (simp add: submit_child_authorization_def get_session_or_raise_def)
next
  case (Some s)
  note good = inv_good[OF assms Some]
  have expired: "consent_inv (update_session_db (s\<lparr>ps_state := PS_EXPIRED\<rparr>) db)"
    using good by (intro inv_session_write[OF assms Some]) (auto simp: session_grows_def good_session_def)
  obtain x db1 where c: "validate_and_consume_nonce now (cd_nonce d) sid (cd_child d) db = (x, db1)"
    by (cases "validate_and_consume_nonce now (cd_nonce d) sid (cd_child d) db") auto
  have inv1: "consent_inv db1" using inv_consume[OF assms] c by (metis snd_conv)
  have get1: "get_session db1 sid = Some s"
    using Some consume_sessions[of now "cd_nonce d" sid "cd_child d" db] c
    by (simp add: get_session_def)
  have "consent_inv (snd (deny_pairing d (s\<lparr>ps_child := cc, ps_authorized_at := Some t\<rparr>) db1))"
    "x = Inr () \<Longrightarrow> consent_inv (snd (approve_pairing cr now d label
       (s\<lparr>ps_child := cc, ps_authorized_at := Some t\<rparr>) db1))"
    if "ps_state s = PS_CHILD_AUTHORIZATION_PENDING" for cc t
    using deny_inv[OF inv1 get1 that] approve_inv[OF inv1 get1 that] consume_record c by auto
  then show ?thesis
    using assms Some expired inv1 c
    by (simp add: submit_child_authorization_def get_session_or_raise_def Let_def split: sum.split)
qed

lemma cancel_inv:
  assumes "consent_inv db"
  shows "consent_inv (snd (cancel_session sid db))"
proof (cases "get_session db sid")
  case None
  with assms show ?thesis by (simp add: cancel_session_def get_session_or_raise_def)
next
  case (Some s)
  have "consent_inv (update_session_db (s\<lparr>ps_state := PS_CANCELLED\<rparr>) db)"
    using inv_good[OF assms Some]
    by (intro inv_session_write[OF assms Some]) (auto simp: session_grows_def good_session_def)
  then show ?thesis using assms Some by (simp add: cancel_session_def get_session_or_raise_def)
qed

lemma revoke_inv:
  assumes "consent_inv db"
  shows "consent_inv (snd (revoke_trust now l r actor db))"
proof (cases "get_trusted_device db l r")
  case None
  with assms show ?thesis by (simp add: revoke_trust_def)
next
  case (Some d)
  let ?db = "db\<lparr>db_trusted := update_where (\<lambda>x. td_key x = (l, r))
      (\<lambda>x. x\<lparr>td_status := TS_REVOKED, td_last_verified_at := Aware now\<rparr>) (db_trusted db)\<rparr>"
  have "consent_inv ?db" by (rule inv_trusted_update[OF assms]) (simp_all add: td_key_def)
  from inv_revoke_sessions[OF this, of "revoke_where l r"] Some
  show ?thesis by (simp add: revoke_trust_def)
qed

lemma rename_inv:
  assumes "consent_inv db"
  shows "consent_inv (snd (rename_trusted_device l r n db))"
proof (cases "get_trusted_device db l r")
  case None
  with assms show ?thesis by (simp add: rename_trusted_device_def)
next
  case (Some d)
  have "consent_inv (db\<lparr>db_trusted := update_where (\<lambda>x. td_key x = (l, r))
      (\<lambda>x. x\<lparr>td_label := Some (py_strip n)\<rparr>) (db_trusted db)\<rparr>)"
    by (rule inv_trusted_update[OF assms]) (simp_all add: td_key_def)
  with Some show ?thesis by (simp add: rename_trusted_device_def)
qed

end
