(* ===== verification/PairingRuns.thy ===== *)
theory PairingRuns
  imports PairingProps
begin

text \<open>
  Sequences of pairing operations: the calls a client of \<^verbatim>\<open>PairingManager\<close> and
  \<^verbatim>\<open>TrustManager\<close> can make, as values, the databases they can reach from the empty one,
  and what holds of all of them.
\<close>

record pairing_env =
  pe_crypto :: crypto
  pe_config :: pairing_config
  pe_mailer :: mailer

text \<open>One constructor per public operation; the arguments are the caller's, the clock and the
  random draws.\<close>

datatype pairing_action =
    Create int "string list" string nat string string string string "string option"
  | Resend int nat string string
  | Verify int string string
  | Challenge int string string string
  | Submit int string child_decision "string option"
  | Cancel string
  | Revoke int string string "string option"
  | Rename string string string

definition error_of :: "('s, 'a) outcome \<Rightarrow> gm_error option \<times> 's" where
  [model_defs]: "error_of r = (case fst r of Inl e \<Rightarrow> Some e | Inr _ \<Rightarrow> None, snd r)"

text \<open>The exception of the call, if it raises, and the database after it.\<close>

fun pairing_exec ::
  "pairing_env \<Rightarrow> pairing_action \<Rightarrow> pairing_db \<Rightarrow> gm_error option \<times> pairing_db" where
  "pairing_exec env (Create now ts fb n salt parent m dest child) db =
     error_of (create_session (pe_crypto env) (pe_config env) (pe_mailer env)
                 now ts fb n salt parent m dest child db)"
| "pairing_exec env (Resend now n salt sid) db =
     error_of (resend_otp (pe_crypto env) (pe_config env) (pe_mailer env) now n salt sid db)"
| "pairing_exec env (Verify now sid code) db =
     error_of (verify_otp (pe_crypto env) now sid code db)"
| "pairing_exec env (Challenge now nonce sid child) db =
     error_of (create_authorization_challenge (pe_config env) now nonce sid child db)"
| "pairing_exec env (Submit now sid d label) db =
     error_of (submit_child_authorization (pe_crypto env) now sid d label db)"
| "pairing_exec env (Cancel sid) db = error_of (cancel_session sid db)"
| "pairing_exec env (Revoke now l r actor) db = error_of (revoke_trust now l r actor db)"
| "pairing_exec env (Rename l r label) db = error_of (rename_trusted_device l r label db)"

inductive pairing_reach :: "pairing_env \<Rightarrow> pairing_db \<Rightarrow> bool" for env :: pairing_env where
  reach_empty: "pairing_reach env empty_db"
| reach_step: "pairing_reach env db \<Longrightarrow> pairing_reach env (snd (pairing_exec env a db))"

primrec pairing_run :: "pairing_env \<Rightarrow> pairing_action list \<Rightarrow> pairing_db \<Rightarrow> pairing_db" where
  "pairing_run env [] db = db"
| "pairing_run env (a # as) db = pairing_run env as (snd (pairing_exec env a db))"

lemma reach_run: "pairing_reach env db \<Longrightarrow> pairing_reach env (pairing_run env as db)"
  by (induction as arbitrary: db) (auto intro: pairing_reach.intros)

lemma snd_error_of [simp]: "snd (error_of r) = snd r"
  by (simp add: error_of_def)

lemmas operation_inv =
  create_inv resend_inv verify_otp_inv challenge_inv submit_inv cancel_inv revoke_inv rename_inv

lemma exec_inv: "consent_inv db \<Longrightarrow> consent_inv (snd (pairing_exec env a db))"
  by (cases a) (simp_all add: operation_inv)

lemma empty_inv: "consent_inv empty_db"
  by (simp add: consent_inv_def empty_db_def keyed_def)

lemma reach_inv: "pairing_reach env db \<Longrightarrow> consent_inv db"
  by (induction rule: pairing_reach.induct) (simp_all add: empty_inv exec_inv)

section \<open>What one operation does to one session\<close>

text \<open>
  A session is never deleted, and each operation either leaves it, rewrites its status columns,
  or revokes it.
\<close>

definition guess_budget :: "pairing_session \<Rightarrow> nat" where
  "guess_budget s =
     (if ps_state s \<in> {PS_CREATED, PS_VERIFICATION_PENDING}
      then max 1 (nat (ps_max_attempts s - ps_attempts s)) else 0)"

definition session_follows :: "string \<Rightarrow> pairing_db \<Rightarrow> pairing_db \<Rightarrow> nat \<Rightarrow> bool" where
  "session_follows sid db db' spent \<longleftrightarrow>
     (\<forall>s. get_session db sid = Some s \<longrightarrow>
        (\<exists>s'. get_session db' sid = Some s' \<and> guess_budget s' + spent \<le> guess_budget s))"

lemma follows_refl: "session_follows sid db db 0"
  by (simp add: session_follows_def)

lemma follows_same:
  "db_sessions db' = db_sessions db \<Longrightarrow> session_follows sid db db' 0"
  by (simp add: session_follows_def get_session_def)

lemma follows_trans:
  "session_follows sid db db' 0 \<Longrightarrow> session_follows sid db' db'' n \<Longrightarrow> session_follows sid db db'' n"
  unfolding session_follows_def by (meson add_leD1 le_trans add.right_neutral)

lemma follows_log [simp]:
  "session_follows sid db (log_audit e a k db') n \<longleftrightarrow> session_follows sid db db' n"
  by (simp add: session_follows_def)

lemma follows_write:
  assumes "keyed ps_id (db_sessions db)" and "get_session db sid = Some s"
    and "session_grows s s'" and "guess_budget s' + n \<le> guess_budget s"
  shows "session_follows k db (update_session_db s' db) (if k = sid then n else 0)"
  using assms get_session_after_update[OF assms(1-3)] by (auto simp: session_follows_def)

lemma follows_write_other:
  assumes "keyed ps_id (db_sessions db)" and "get_session db sid' = Some s"
    and "session_grows s s'" and "guess_budget s' \<le> guess_budget s"
  shows "session_follows sid db (update_session_db s' db) 0"
  using assms get_session_after_update[OF assms(1-3)] by (auto simp: session_follows_def)

lemma follows_update:
  assumes "\<And>s. ps_id (f s) = ps_id s" and "\<And>s. guess_budget (f s) \<le> guess_budget s"
  shows "session_follows sid db (db\<lparr>db_sessions := update_where p f (db_sessions db)\<rparr>) 0"
  using assms by (auto simp: session_follows_def get_session_def fetch_update_where)

lemma follows_insert:
  assumes "insert_session s db = Some db'"
  shows "session_follows sid db db' 0"
  using assms
  by (auto simp: insert_session_def insert_row_def session_follows_def get_session_def table_simps
      split: if_splits)

lemma inv_keyed: "consent_inv db \<Longrightarrow> keyed ps_id (db_sessions db)"
  by (simp add: consent_inv_def)

lemma dispatch_follows:
  assumes "keyed ps_id (db_sessions db)" and "get_session db (ps_id s) = Some s"
    and "ps_state s = PS_CREATED"
  shows "session_follows sid db (snd (dispatch_otp smtp prov otp s db)) 0"
proof -
  have "session_follows sid db (update_session_db (s\<lparr>ps_state := t\<rparr>) db) 0"
    if "t = PS_CANCELLED \<or> t = PS_VERIFICATION_PENDING" for t
    using assms that
    by (intro follows_write_other[OF assms(1,2)]) (auto simp: session_grows_def guess_budget_def)
  then show ?thesis
    by (auto simp: dispatch_otp_def dest!: transition_to_Inr split: option.split sum.split)
qed

lemma create_follows:
  assumes "keyed ps_id (db_sessions db)"
  shows "session_follows k db (snd (create_session cr cfg smtp now ts fb n salt parent m dest child db)) 0"
proof -
  let ?sid = "generate_session_id db ts fb"
  let ?otp = "generate_otp_code n"
  let ?s = "new_session cr cfg now ?sid ?otp salt parent (py_upper (py_strip m)) dest child"
  have disp: "session_follows k db (snd (dispatch_otp smtp prov ?otp ?s
                (log_audit ''OTP_DELIVERY_STARTED'' (Some parent) True db1))) 0"
    if ins: "insert_session ?s db = Some db1" for db1 prov
  proof (rule follows_trans)
    show "session_follows k db (log_audit ''OTP_DELIVERY_STARTED'' (Some parent) True db1) 0"
      using follows_insert[OF ins] by simp
    have "keyed ps_id (db_sessions db1)"
      using ins assms
      by (auto simp: insert_session_def intro: keyed_insert_row split: if_splits)
    then show "session_follows k (log_audit ''OTP_DELIVERY_STARTED'' (Some parent) True db1)
          (snd (dispatch_otp smtp prov ?otp ?s (log_audit ''OTP_DELIVERY_STARTED'' (Some parent) True db1))) 0"
      using get_inserted_session[OF ins] by (intro dispatch_follows) (simp_all add: new_session_def)
  qed
  show ?thesis
  proof (cases "check_create_ids parent child")
    case (Some e)
    then show ?thesis by (simp add: create_session_def follows_refl)
  next
    case ids: None
    show ?thesis
    proof (cases "get_delivery_provider (py_upper (py_strip m))")
      case (Inl e)
      with ids show ?thesis by (simp add: create_session_def follows_refl)
    next
      case prov: (Inr prov)
      show ?thesis
      proof (cases "insert_session ?s db")
        case None
        with ids prov show ?thesis by (simp add: create_session_def Let_def follows_refl)
      next
        case (Some db1)
        obtain x db2 where x: "dispatch_otp smtp prov ?otp ?s
            (log_audit ''OTP_DELIVERY_STARTED'' (Some parent) True db1) = (x, db2)" by (rule prod.exhaust)
        have "session_follows k db db2 0" using disp[OF Some, of prov] x by simp
        with ids prov Some x show ?thesis
          by (cases x) (simp_all add: create_session_def Let_def split del: if_split)
      qed
    qed
  qed
qed

lemma resend_follows:
  assumes "keyed ps_id (db_sessions db)"
  shows "session_follows k db (snd (resend_otp cr cfg smtp now n salt sid db)) 0"
proof (cases "get_session db sid")
  case None
  then show ?thesis by (simp add: resend_otp_def get_session_or_raise_def follows_refl)
next
  case (Some s)
  have expired: "session_follows k db (update_session_db s' db) 0" if "transition_to PS_EXPIRED s = Inr s'" for s'
    using transition_to_Inr[OF that]
    by (intro follows_write_other[OF assms Some]) (auto simp: session_grows_def guess_budget_def)
  have sent: "session_follows k db (update_session_db (s\<lparr>ps_otp_verifier := v, ps_otp_salt := sl,
      ps_otp_expires_at := e, ps_resends := j, ps_last_resend_at := t,
      ps_state := PS_VERIFICATION_PENDING\<rparr>) db) 0"
    if "ps_state s \<in> {PS_CREATED, PS_VERIFICATION_PENDING}" for v sl e j t
    using that
    by (intro follows_write_other[OF assms Some]) (auto simp: session_grows_def guess_budget_def)
  show ?thesis
    using expired sent Some
    by (simp add: resend_otp_def get_session_or_raise_def follows_refl Let_def split: sum.split option.split)
qed

text \<open>The calls of \<^verbatim>\<open>verify_otp\<close> that tell the caller whether the code was right, or end
  the session for too many attempts.\<close>

definition guess_answered :: "gm_error option \<Rightarrow> bool" where
  "guess_answered e \<longleftrightarrow>
     e \<in> {None, Some (Pairing OTPVerificationError), Some (Pairing OTPAttemptLimitExceededError)}"

definition guess_cost :: "(pairing_db, 'a) outcome \<Rightarrow> nat" where
  "guess_cost r = (if guess_answered (fst (error_of r)) then 1 else 0)"

lemma guess_cost_simps [simp]:
  "guess_cost (Inr x, db) = 1"
  "guess_cost (Inl (Pairing OTPVerificationError), db) = 1"
  "guess_cost (Inl (Pairing OTPAttemptLimitExceededError), db) = 1"
  "guess_cost (Inl (Pairing PairingSessionExpiredError), db) = 0"
  "guess_cost (Inl (Pairing InvalidStateTransitionError), db) = 0"
  "guess_cost (Inl (Pairing OTPExpiredError), db) = 0"
  by (simp_all add: guess_cost_def guess_answered_def error_of_def)

lemma reject_follows:
  assumes "keyed ps_id (db_sessions db)" and "get_session db sid = Some s"
    and "ps_state s = PS_VERIFICATION_PENDING"
  shows "session_follows k db (snd (reject_code s db))
           (if k = sid then guess_cost (reject_code s db) else 0)"
proof -
  have "session_follows k db (update_session_db (s\<lparr>ps_attempts := ps_attempts s + 1\<rparr>) db)
      (if k = sid then 1 else 0)"
    if "\<not> ps_max_attempts s \<le> ps_attempts s + 1"
    using that assms(3)
    by (intro follows_write[OF assms(1,2)]) (auto simp: session_grows_def guess_budget_def)
  moreover have "session_follows k db
      (update_session_db (s\<lparr>ps_attempts := ps_attempts s + 1, ps_state := PS_EXPIRED\<rparr>) db)
      (if k = sid then 1 else 0)"
    using assms(3)
    by (intro follows_write[OF assms(1,2)]) (auto simp: session_grows_def guess_budget_def)
  ultimately show ?thesis by (cases "k = sid") (simp_all add: reject_code_def Let_def)
qed

lemma accept_follows:
  assumes "keyed ps_id (db_sessions db)" and "get_session db sid = Some s"
    and "ps_state s = PS_VERIFICATION_PENDING"
  shows "session_follows k db (snd (accept_code now s db))
           (if k = sid then guess_cost (accept_code now s db) else 0)"
proof -
  have "session_follows k db (update_session_db (s\<lparr>ps_verified_at := Some (Aware now),
      ps_otp_verifier := None, ps_otp_salt := None, ps_state := PS_CHILD_AUTHORIZATION_PENDING\<rparr>) db)
      (if k = sid then 1 else 0)"
    using assms(3)
    by (intro follows_write[OF assms(1,2)]) (auto simp: session_grows_def guess_budget_def)
  with assms(3) show ?thesis
    by (cases "k = sid")
      (simp_all add: accept_code_def Let_def transition_to_def validate_state_transition_def)
qed

lemma guess_cost_raised:
  "guess_cost (Inl (Core e), db) = 0" "guess_cost (Inl (Pairing PairingSessionNotFoundError), db) = 0"
  by (simp_all add: guess_cost_def guess_answered_def error_of_def)

lemma verify_follows:
  assumes "keyed ps_id (db_sessions db)"
  shows "session_follows k db (snd (verify_otp cr now sid code db))
           (if k = sid then guess_cost (verify_otp cr now sid code db) else 0)"
proof (cases "get_session db sid")
  case None
  then show ?thesis by (simp add: verify_otp_def get_session_or_raise_def follows_refl guess_cost_raised)
next
  case (Some s)
  have ended: "session_follows k db (update_session_db (s\<lparr>ps_state := PS_EXPIRED\<rparr>) db) 0"
    by (intro follows_write_other[OF assms Some]) (auto simp: session_grows_def guess_budget_def)
  have capped: "session_follows k db (update_session_db (s\<lparr>ps_state := PS_EXPIRED\<rparr>) db)
      (if k = sid then 1 else 0)" if "ps_state s = PS_VERIFICATION_PENDING"
    using that
    by (intro follows_write[OF assms Some]) (auto simp: session_grows_def guess_budget_def)
  have counted: "session_follows k db (update_session_db (s\<lparr>ps_attempts := ps_attempts s + 1\<rparr>) db) 0"
    by (intro follows_write_other[OF assms Some]) (auto simp: session_grows_def guess_budget_def)
  have checked: "validate_otp_format code = Inl e \<Longrightarrow> \<exists>x. e = Core x" for e
    by (auto simp: validate_otp_format_def Let_def split: if_splits)
  show ?thesis
    using Some ended capped counted reject_follows[OF assms Some, of k]
      accept_follows[OF assms Some, of k now]
    by (cases "k = sid") (auto simp: verify_otp_def get_session_or_raise_def follows_refl guess_cost_raised
        dest!: checked split: sum.split)
qed

lemma challenge_follows:
  assumes "keyed ps_id (db_sessions db)"
  shows "session_follows k db (snd (create_authorization_challenge cfg now nonce sid child db)) 0"
proof (cases "get_session db sid")
  case None
  then show ?thesis
    by (simp add: create_authorization_challenge_def get_session_or_raise_def follows_refl)
next
  case (Some s)
  have ended: "session_follows k db (update_session_db (s\<lparr>ps_state := PS_EXPIRED\<rparr>) db) 0"
    by (intro follows_write_other[OF assms Some]) (auto simp: session_grows_def guess_budget_def)
  have "session_follows k db (db\<lparr>db_nonces := rows, db_sessions := update_where p
      (\<lambda>r. r\<lparr>ps_child := c, ps_auth_nonce := v, ps_auth_nonce_expires_at := e\<rparr>) (db_sessions db)\<rparr>) 0"
    for rows p c v e
    by (rule follows_trans[OF follows_update[of "\<lambda>r. r\<lparr>ps_child := c, ps_auth_nonce := v,
            ps_auth_nonce_expires_at := e\<rparr>" k db p] follows_same])
      (simp_all add: guess_budget_def)
  with Some ended show ?thesis
    by (simp add: create_authorization_challenge_def get_session_or_raise_def follows_refl split: option.split)
qed

lemma establish_sessions [simp]:
  "db_sessions (snd (establish_trust cr now l r pem session label db)) = db_sessions db"
  by (simp add: establish_trust_def Let_def split: sum.split option.split)

lemma submit_follows:
  assumes "keyed ps_id (db_sessions db)"
  shows "session_follows k db (snd (submit_child_authorization cr now sid d label db)) 0"
proof (cases "get_session db sid")
  case None
  then show ?thesis
    by (simp add: submit_child_authorization_def get_session_or_raise_def follows_refl)
next
  case (Some s)
  have ended: "session_follows k db (update_session_db (s\<lparr>ps_state := PS_EXPIRED\<rparr>) db) 0"
    by (intro follows_write_other[OF assms Some]) (auto simp: session_grows_def guess_budget_def)
  obtain x db1 where c: "validate_and_consume_nonce now (cd_nonce d) sid (cd_child d) db = (x, db1)"
    by (rule prod.exhaust)
  have same: "db_sessions db1 = db_sessions db"
    using consume_sessions[of now "cd_nonce d" sid "cd_child d" db] c by simp
  then have k1: "keyed ps_id (db_sessions db1)" and get1: "get_session db1 sid = Some s"
    using assms Some by (simp_all add: get_session_def)
  have f1: "session_follows k db db1 0" using same by (rule follows_same)
  have wrote: "session_follows k db (update_session_db s' db1) 0"
    if "session_grows s s'" "guess_budget s' \<le> guess_budget s" for s'
    using follows_trans[OF f1 follows_write_other[OF k1 get1 that]] .
  let ?s = "s\<lparr>ps_child := Some (cd_child d), ps_authorized_at := Some (Aware now)\<rparr>"
  have deny: "session_follows k db (snd (deny_pairing d ?s db1)) 0"
    using f1 wrote[of "?s\<lparr>ps_state := PS_DENIED\<rparr>"]
    by (auto simp: deny_pairing_def session_grows_def guess_budget_def dest!: transition_to_Inr
        split: sum.split)
  have established: "session_follows k db (snd (establish_trust cr now l r pem z lb
      (log_audit e a ok (update_session_db (?s\<lparr>ps_state := PS_PAIRED,
         ps_completed_at := Some (Aware now)\<rparr>) db1)))) 0" for l r pem z lb e a ok
    by (rule follows_trans[OF wrote follows_same]) (simp_all add: session_grows_def guess_budget_def)
  have approve: "session_follows k db (snd (approve_pairing cr now d label ?s db1)) 0"
    if "ps_state s = PS_CHILD_AUTHORIZATION_PENDING"
    using that established
    by (simp add: approve_pairing_def Let_def transition_to_def validate_state_transition_def)
  show ?thesis
    using Some c ended f1 deny approve
    by (simp add: submit_child_authorization_def get_session_or_raise_def follows_refl Let_def split: sum.split)
qed

lemma cancel_follows:
  assumes "keyed ps_id (db_sessions db)"
  shows "session_follows k db (snd (cancel_session sid db)) 0"
proof (cases "get_session db sid")
  case None
  then show ?thesis by (simp add: cancel_session_def get_session_or_raise_def follows_refl)
next
  case (Some s)
  have "session_follows k db (update_session_db (s\<lparr>ps_state := PS_CANCELLED\<rparr>) db) 0"
    by (intro follows_write_other[OF assms Some]) (auto simp: session_grows_def guess_budget_def)
  with Some show ?thesis by (simp add: cancel_session_def get_session_or_raise_def follows_refl)
qed

lemma revoke_follows: "session_follows k db (snd (revoke_trust now l r actor db)) 0"
proof -
  have "session_follows k db (db\<lparr>db_trusted := t, db_sessions := update_where p
      (\<lambda>s. s\<lparr>ps_state := PS_REVOKED\<rparr>) (db_sessions db)\<rparr>) 0" for t p
    by (rule follows_trans[OF follows_update[of "\<lambda>s. s\<lparr>ps_state := PS_REVOKED\<rparr>" k db p] follows_same])
      (simp_all add: guess_budget_def)
  then show ?thesis by (simp add: revoke_trust_def follows_refl split: option.split)
qed

lemma rename_follows: "session_follows k db (snd (rename_trusted_device l r n db)) 0"
  by (simp add: rename_trusted_device_def session_follows_def get_session_def split: option.split)

section \<open>Sequences of calls\<close>

text \<open>How many of the \<^verbatim>\<open>verify_otp\<close> calls on \<open>sid\<close> were answered.\<close>

fun answered_guesses :: "pairing_env \<Rightarrow> string \<Rightarrow> pairing_action list \<Rightarrow> pairing_db \<Rightarrow> nat" where
  "answered_guesses env sid [] db = 0"
| "answered_guesses env sid (a # as) db =
     (case a of
        Verify now k code \<Rightarrow> if k = sid \<and> guess_answered (fst (pairing_exec env a db)) then 1 else 0
      | _ \<Rightarrow> 0) + answered_guesses env sid as (snd (pairing_exec env a db))"

lemma exec_follows:
  assumes "consent_inv db"
  shows "session_follows sid db (snd (pairing_exec env a db))
     (case a of
        Verify now k code \<Rightarrow> if k = sid \<and> guess_answered (fst (pairing_exec env a db)) then 1 else 0
      | _ \<Rightarrow> 0)"
proof (cases a)
  case (Verify now k code)
  with verify_follows[OF inv_keyed[OF assms], of sid "pe_crypto env" now k code]
  show ?thesis by (cases "k = sid") (simp_all add: guess_cost_def)
qed (simp_all add: create_follows resend_follows challenge_follows submit_follows cancel_follows
      revoke_follows rename_follows inv_keyed[OF assms])

lemma guesses_bounded:
  assumes "consent_inv db" and "get_session db sid = Some s"
  shows "answered_guesses env sid as db \<le> guess_budget s"
  using assms
proof (induction as arbitrary: db s)
  case Nil
  then show ?case by simp
next
  case (Cons a as)
  obtain s' where s': "get_session (snd (pairing_exec env a db)) sid = Some s'"
    "guess_budget s' + (case a of
        Verify now k code \<Rightarrow> if k = sid \<and> guess_answered (fst (pairing_exec env a db)) then 1 else 0
      | _ \<Rightarrow> 0) \<le> guess_budget s"
    using exec_follows[OF Cons.prems(1), of sid env a] Cons.prems(2) by (auto simp: session_follows_def)
  have "answered_guesses env sid as (snd (pairing_exec env a db)) \<le> guess_budget s'"
    by (rule Cons.IH[OF exec_inv[OF Cons.prems(1)] s'(1)])
  with s'(2) show ?case by simp
qed

end
