(* ===== verification/PairingNonces.thy ===== *)
theory PairingNonces
  imports PairingRuns
begin

text \<open>
  The challenge nonces along a run: no operation brings a consumed nonce back, so the approvals
  and denials that a run accepts carry distinct nonces.  The whole workflow is a
  \<open>replay_guard\<close>.
\<close>

section \<open>What the operations do to the nonce table\<close>

lemma dispatch_nonces: "db_nonces (snd (dispatch_otp smtp prov otp s db)) = db_nonces db"
  by (simp add: dispatch_otp_def split: option.split sum.split)

lemma insert_nonces: "insert_session s db = Some db' \<Longrightarrow> db_nonces db' = db_nonces db"
  by (auto simp: insert_session_def split: if_splits)

lemma create_nonces:
  "db_nonces (snd (create_session cr cfg smtp now ts fb n salt parent m dest child db)) = db_nonces db"
proof -
  let ?norm = "py_upper (py_strip m)"
  let ?otp = "generate_otp_code n"
  let ?s = "new_session cr cfg now (generate_session_id db ts fb) ?otp salt parent ?norm dest child"
  show ?thesis
  proof (cases "check_create_ids parent child")
    case (Some e)
    then show ?thesis by (simp add: create_session_def)
  next
    case ids: None
    show ?thesis
    proof (cases "get_delivery_provider ?norm")
      case (Inl e)
      with ids show ?thesis by (simp add: create_session_def)
    next
      case prov: (Inr prov)
      show ?thesis
      proof (cases "insert_session ?s db")
        case None
        with ids prov show ?thesis by (simp add: create_session_def Let_def)
      next
        case (Some db1)
        obtain x db2 where x: "dispatch_otp smtp prov ?otp ?s
            (log_audit ''OTP_DELIVERY_STARTED'' (Some parent) True db1) = (x, db2)" by (rule prod.exhaust)
        have "db_nonces db2 = db_nonces db"
          using dispatch_nonces[of smtp prov ?otp ?s "log_audit ''OTP_DELIVERY_STARTED'' (Some parent) True db1"]
            x insert_nonces[OF Some] by simp
        with ids prov Some x show ?thesis
          by (cases x) (simp_all add: create_session_def Let_def split del: if_split)
      qed
    qed
  qed
qed

lemma resend_nonces: "db_nonces (snd (resend_otp cr cfg smtp now n salt sid db)) = db_nonces db"
  by (simp add: resend_otp_def Let_def split: option.split sum.split)

lemma verify_nonces: "db_nonces (snd (verify_otp cr now sid code db)) = db_nonces db"
  by (simp add: verify_otp_def reject_code_def accept_code_def Let_def split: sum.split)

lemma cancel_nonces: "db_nonces (snd (cancel_session sid db)) = db_nonces db"
  by (simp add: cancel_session_def split: sum.split)

lemma revoke_nonces: "db_nonces (snd (revoke_trust now l r actor db)) = db_nonces db"
  by (simp add: revoke_trust_def split: option.split)

lemma rename_nonces: "db_nonces (snd (rename_trusted_device l r n db)) = db_nonces db"
  by (simp add: rename_trusted_device_def split: option.split)

lemma establish_nonces [simp]:
  "db_nonces (snd (establish_trust cr now l r pem session label db)) = db_nonces db"
  by (simp add: establish_trust_def Let_def split: sum.split option.split)

lemma decide_nonces:
  "db_nonces (snd (deny_pairing d s db)) = db_nonces db"
  "db_nonces (snd (approve_pairing cr now d label s db)) = db_nonces db"
  by (simp_all add: deny_pairing_def approve_pairing_def Let_def split: sum.split)

lemma challenge_nonces:
  "set (db_nonces db) \<subseteq> set (db_nonces (snd (create_authorization_challenge cfg now nonce sid child db)))"
  by (auto simp: create_authorization_challenge_def register_nonce_def
      dest!: set_insert_row split: sum.split option.split)

text \<open>A submission consumes its nonce in whatever way it ends afterwards, or leaves the table.\<close>

lemma submit_nonces:
  "db_nonces (snd (submit_child_authorization cr now sid d label db)) = db_nonces db \<or>
   db_nonces (snd (submit_child_authorization cr now sid d label db)) =
     db_nonces (snd (consume_step db (now, cd_nonce d, sid, cd_child d)))"
proof -
  obtain x db1 where c: "validate_and_consume_nonce now (cd_nonce d) sid (cd_child d) db = (x, db1)"
    by (rule prod.exhaust)
  then show ?thesis
    by (simp add: submit_child_authorization_def consume_step_def Let_def decide_nonces split: sum.split)
qed

lemma submit_consumes:
  assumes "succeeded (submit_child_authorization cr now sid d label db)"
  shows "fst (consume_step db (now, cd_nonce d, sid, cd_child d))" and
    "db_nonces (snd (submit_child_authorization cr now sid d label db)) =
     db_nonces (snd (consume_step db (now, cd_nonce d, sid, cd_child d)))"
proof -
  obtain x db1 where c: "validate_and_consume_nonce now (cd_nonce d) sid (cd_child d) db = (x, db1)"
    by (rule prod.exhaust)
  show "fst (consume_step db (now, cd_nonce d, sid, cd_child d))"
    using assms c
    by (simp add: submit_child_authorization_def consume_step_def split: sum.splits if_splits)
  show "db_nonces (snd (submit_child_authorization cr now sid d label db)) =
     db_nonces (snd (consume_step db (now, cd_nonce d, sid, cd_child d)))"
    using assms c
    by (cases "get_session db sid"; cases x)
      (simp_all add: submit_child_authorization_def get_session_or_raise_def consume_step_def Let_def
        decide_nonces split: if_split_asm)
qed

section \<open>The workflow as a replay guard\<close>

fun submit_token :: "pairing_action \<Rightarrow> string" where
  "submit_token (Submit now sid d label) = cd_nonce d"
| "submit_token a = []"

definition submit_step :: "pairing_env \<Rightarrow> pairing_db \<Rightarrow> pairing_action \<Rightarrow> bool \<times> pairing_db" where
  "submit_step env db a =
     ((case a of Submit _ _ _ _ \<Rightarrow> fst (pairing_exec env a db) = None | _ \<Rightarrow> False),
      snd (pairing_exec env a db))"

lemma error_None [simp]: "fst (error_of r) = None \<longleftrightarrow> succeeded r"
  by (simp add: error_of_def succeeded_def split: sum.split)

lemma spent_subset:
  "nonce_spent db k \<Longrightarrow> set (db_nonces db) \<subseteq> set (db_nonces db') \<Longrightarrow> nonce_spent db' k"
  by (auto simp: nonce_spent_def)

lemma spent_same: "db_nonces db' = db_nonces db \<Longrightarrow> nonce_spent db' k = nonce_spent db k"
  by (simp add: nonce_spent_def)

lemma exec_keeps_spent:
  assumes "consent_inv db" and "nonce_spent db k"
  shows "nonce_spent (snd (pairing_exec env a db)) k"
proof (cases a)
  case (Challenge now nonce sid child)
  with spent_subset[OF assms(2) challenge_nonces] show ?thesis by simp
next
  case (Submit now sid d label)
  have "nonce_spent (snd (consume_step db (now, cd_nonce d, sid, cd_child d))) k"
    using assms by (intro nonce_guard.spent_stays) (simp_all add: consent_inv_def)
  with Submit submit_nonces[of "pe_crypto env" now sid d label db] assms(2) show ?thesis
    by (auto simp: nonce_spent_def)
qed (use assms(2) in \<open>simp_all add: nonce_spent_def create_nonces resend_nonces verify_nonces
      cancel_nonces revoke_nonces rename_nonces\<close>)

interpretation approval_guard: replay_guard "submit_step env" submit_token nonce_spent consent_inv
  for env
proof unfold_locales
  fix db a assume inv: "consent_inv db"
  show "consent_inv (snd (submit_step env db a))" using exec_inv[OF inv] by (simp add: submit_step_def)
  show "nonce_spent (snd (submit_step env db a)) k" if "nonce_spent db k" for k
    using exec_keeps_spent[OF inv that] by (simp add: submit_step_def)
  have k: "keyed nr_nonce (db_nonces db)" using inv by (simp add: consent_inv_def)
  show "\<not> nonce_spent db (submit_token a)" if ok: "fst (submit_step env db a)"
  proof (cases a)
    case (Submit now sid d label)
    with ok have "fst (consume_step db (now, cd_nonce d, sid, cd_child d))"
      using submit_consumes(1)[of "pe_crypto env" now sid d label db] by (simp add: submit_step_def)
    from nonce_guard.accept_fresh[OF k this] Submit show ?thesis by (simp add: nonce_token_def)
  qed (use ok in \<open>simp_all add: submit_step_def\<close>)
  show "nonce_spent (snd (submit_step env db a)) (submit_token a)" if ok: "fst (submit_step env db a)"
  proof (cases a)
    case (Submit now sid d label)
    with ok have s: "succeeded (submit_child_authorization (pe_crypto env) now sid d label db)"
      by (simp add: submit_step_def)
    from nonce_guard.accept_spends[OF k submit_consumes(1)[OF s]] submit_consumes(2)[OF s] Submit
    show ?thesis by (simp add: nonce_token_def submit_step_def nonce_spent_def)
  qed (use ok in \<open>simp_all add: submit_step_def\<close>)
qed

end
