(* ===== verification/PairingClaims.thy ===== *)
theory PairingClaims
  imports PairingNonces
begin

text \<open>
  The properties of the pairing workflow and of the trust registry, over the operations of the
  preceding theories, and a small run of the workflow on which they are applied.
\<close>

section \<open>A run of the workflow\<close>

definition demo_env :: pairing_env where
  "demo_env =
     \<lparr>pe_crypto = \<lparr>load_pem = Some, sha256_hex = (\<lambda>x. x), sha256_b64 = (\<lambda>x. x),
                    ed25519_verify = (\<lambda>k s t. s = [1])\<rparr>,
      pe_config = \<lparr>otp_expiration_seconds = 300, session_expiration_seconds = 900,
                   otp_resend_cooldown_seconds = 60, max_otp_attempts = 5,
                   nonce_expiration_seconds = 120\<rparr>,
      pe_mailer = (\<lambda>d c. None)\<rparr>"

definition demo_decision :: child_decision where
  "demo_decision =
     \<lparr>cd_decision = ''APPROVE'', cd_session = ''PAIR-A'', cd_parent = ''GM-P-00000001'',
      cd_child = ''GM-C-00000002'', cd_nonce = ''N'', cd_pem = ''K'', cd_signature_hex = ''01'',
      cd_timestamp = Aware 0\<rparr>"

definition demo_start :: "pairing_action list" where
  "demo_start = [Create 0 [''A''] ''B'' 123456 ''S'' ''GM-P-00000001'' ''DEMO'' [] None]"

definition demo_actions :: "pairing_action list" where
  "demo_actions = demo_start @
     [Verify 1 ''PAIR-A'' ''123456'',
      Challenge 2 ''N'' ''PAIR-A'' ''GM-C-00000002'',
      Submit 3 ''PAIR-A'' demo_decision None]"

definition demo_db :: pairing_db where
  "demo_db = pairing_run demo_env demo_actions empty_db"

lemmas text_eval =
  py_strip_def py_upper_def upper_char_def is_py_space_def char_of_def is_digit_def
  remove_char_def valid_id_regex identity_regex_def is_upper_hex_def parse_identity_role_def
  hex_digit_def otp_regex_def

lemmas table_eval =
  insert_row_def has_key_def upsert_row_def update_where_def table_simps log_audit_def audit_def
  get_session_def write_session_def update_session_db_def get_session_or_raise_def td_key_def

lemmas pairing_eval =
  create_session_def check_create_ids_def get_delivery_provider_def new_session_def
  insert_session_def dispatch_otp_def transition_to_def
  validate_state_transition_def compute_otp_verifier_def stamp_after_def second_def
  error_of_def verify_otp_def ps_is_expired_def is_otp_expired_def reached_def
  validate_otp_format_def normalize_code_def verify_otp_code_def accept_code_def
  create_authorization_challenge_def register_nonce_def submit_child_authorization_def
  validate_and_consume_nonce_def verify_child_decision_signature_def approve_pairing_def
  is_approved_def establish_trust_def Let_def

lemma demo_code: "generate_otp_code 123456 = ''123456''"
proof -
  have "generate_otp_code 123456 = map char_of [49, 50, 51, 52, 53, 54 :: nat]"
    by (simp add: generate_otp_code_def)
  then show ?thesis by (simp add: char_of_def bit_0)
qed

lemma demo_pending:
  "\<exists>s. get_session (pairing_run demo_env demo_start empty_db) ''PAIR-A'' = Some s \<and>
       ps_max_attempts s = 5 \<and> ps_attempts s = 0 \<and> ps_state s = PS_VERIFICATION_PENDING"
  by (simp add: demo_start_def demo_env_def empty_db_def text_eval table_eval pairing_eval demo_code)

lemma demo_trusted:
  "map td_key (db_trusted demo_db) = [(''GM-P-00000001'', ''GM-C-00000002'')]"
  "map td_status (db_trusted demo_db) = [TS_ACTIVE]"
  by (simp_all add: demo_db_def demo_actions_def demo_start_def demo_env_def demo_decision_def empty_db_def
      text_eval table_eval pairing_eval demo_code)

section \<open>Consent\<close>


lemma demo_reach: "pairing_reach demo_env demo_db"
  unfolding demo_db_def by (intro reach_run reach_empty)




text \<open>
  C3: along any sequence of calls from a reachable database, the nonces of the decisions that
  \<^verbatim>\<open>submit_child_authorization\<close> accepts are pairwise distinct: a signed decision is used
  at most once, whatever session it is replayed on.
\<close>

theorem decision_nonces_distinct:
  assumes "pairing_reach env db"
  shows "distinct (accepted_tokens (submit_step env) submit_token db as)"
  by (rule approval_guard.accepted_once[OF reach_inv[OF assms]])

lemma decision_nonces_distinct_witness:
  "distinct (accepted_tokens (submit_step demo_env) submit_token empty_db
     (demo_actions @ demo_actions))"
  by (rule decision_nonces_distinct[OF reach_empty])

section \<open>When the operations succeed\<close>

lemma approve_succeeds:
  assumes "ps_state s = PS_CHILD_AUTHORIZATION_PENDING"
  shows "succeeded (approve_pairing cr now d label s db) \<longleftrightarrow>
           valid_id (cd_child d) \<and> load_pem cr (cd_pem d) \<noteq> None"
  using assms parse_role_valid[of "cd_child d"]
  by (auto simp: approve_pairing_def transition_to_def validate_state_transition_def
      establish_trust_def Let_def split: sum.splits option.splits)

text \<open>
  C4: a submitted decision is accepted exactly when its session exists, has not expired and
  waits for the child, its nonce was issued for that session, is unused and not expired, its
  signature verifies under the key it carries, it approves, and the identity it names is well
  formed.  The session and parent named inside the decision, and the child the nonce was issued
  for, play no part.
\<close>

theorem submit_succeeds_iff:
  "succeeded (submit_child_authorization cr now sid d label db) \<longleftrightarrow>
     (\<exists>s row. get_session db sid = Some s \<and> \<not> ps_is_expired now s \<and>
        ps_state s = PS_CHILD_AUTHORIZATION_PENDING \<and>
        fetch_where (\<lambda>r. nr_nonce r = cd_nonce d \<and> nr_session r = sid) (db_nonces db) = Some row \<and>
        \<not> nr_used row \<and> \<not> reached now (nr_expires_at row) \<and>
        verify_child_decision_signature cr d \<and> is_approved d \<and> valid_id (cd_child d))"
proof (cases "get_session db sid")
  case None
  then show ?thesis by (simp add: submit_child_authorization_def get_session_or_raise_def)
next
  case (Some s)
  have denied: "\<not> succeeded (deny_pairing d s' db')" for s' db'
    by (simp add: deny_pairing_def split: sum.split)
  have loaded: "load_pem cr (cd_pem d) \<noteq> None" if "verify_child_decision_signature cr d"
    using that by (auto simp: verify_child_decision_signature_def split: option.splits)
  show ?thesis
    using Some approve_succeeds denied loaded
    by (cases "fetch_where (\<lambda>r. nr_nonce r = cd_nonce d \<and> nr_session r = sid) (db_nonces db)")
      (auto simp: submit_child_authorization_def get_session_or_raise_def
        validate_and_consume_nonce_def Let_def)
qed

text \<open>
  A passcode is accepted exactly when its session waits for it, neither the session nor the
  passcode has expired, attempts are left, and the six digits hash with the session's salt to
  the stored verifier.
\<close>

theorem verify_otp_succeeds_iff:
  "succeeded (verify_otp cr now sid entered db) \<longleftrightarrow>
     (\<exists>s salt. get_session db sid = Some s \<and> \<not> ps_is_expired now s \<and>
        ps_state s = PS_VERIFICATION_PENDING \<and> ps_attempts s < ps_max_attempts s \<and>
        \<not> is_otp_expired now s \<and> otp_regex (normalize_code entered) \<and>
        ps_otp_salt s = Some salt \<and> salt \<noteq> [] \<and>
        ps_otp_verifier s = Some (sha256_hex cr (salt @ '':'' @ sid @ '':'' @ normalize_code entered)) \<and>
        ps_otp_verifier s \<noteq> Some [])"
proof (cases "get_session db sid")
  case None
  then show ?thesis by (simp add: verify_otp_def get_session_or_raise_def)
next
  case (Some s)
  have id: "ps_id s = sid" using get_session_mem[OF Some] by simp
  have rejected: "\<not> succeeded (reject_code s db)" by (simp add: reject_code_def Let_def)
  have accepted: "succeeded (accept_code now s db)" if "ps_state s = PS_VERIFICATION_PENDING"
    using that by (simp add: accept_code_def Let_def transition_to_def validate_state_transition_def)
  show ?thesis
    using Some id rejected accepted
    by (auto simp: verify_otp_def get_session_or_raise_def validate_otp_format_def Let_def
        verify_otp_code_iff normalize_otp not_le)
qed

text \<open>
  A passcode is good for one acceptance: after \<^verbatim>\<open>verify_otp\<close> has returned, no later call
  on the session is answered, resends and all.
\<close>

theorem otp_single_use:
  assumes "pairing_reach env db" and "succeeded (verify_otp (pe_crypto env) now sid code db)"
  shows "answered_guesses env sid as (snd (verify_otp (pe_crypto env) now sid code db)) = 0"
proof -
  let ?db = "snd (verify_otp (pe_crypto env) now sid code db)"
  have inv: "consent_inv db" by (rule reach_inv[OF assms(1)])
  obtain s where s: "get_session db sid = Some s" "ps_state s = PS_VERIFICATION_PENDING"
    using assms(2) verify_otp_succeeds_iff by blast
  have "?db = snd (accept_code now s db)"
    using assms(2) s
    by (auto simp: verify_otp_def get_session_or_raise_def reject_code_def Let_def
        split: sum.splits if_splits)
  then have db: "?db = log_audit ''OTP_VERIFIED'' (Some (ps_parent s)) True
      (update_session_db (s\<lparr>ps_verified_at := Some (Aware now), ps_otp_verifier := None,
        ps_otp_salt := None, ps_state := PS_CHILD_AUTHORIZATION_PENDING\<rparr>) db)"
    using s(2) by (simp add: accept_code_def Let_def transition_to_def validate_state_transition_def)
  have "get_session ?db sid = Some (s\<lparr>ps_verified_at := Some (Aware now), ps_otp_verifier := None,
        ps_otp_salt := None, ps_state := PS_CHILD_AUTHORIZATION_PENDING\<rparr>)"
    unfolding db
    using get_session_after_update[OF inv_keyed[OF inv] s(1),
      where s' = "s\<lparr>ps_verified_at := Some (Aware now), ps_otp_verifier := None,
        ps_otp_salt := None, ps_state := PS_CHILD_AUTHORIZATION_PENDING\<rparr>" and sid' = sid]
    by (simp add: session_grows_def)
  from guesses_bounded[OF verify_otp_inv[OF inv] this, of env as] show ?thesis
    by (simp add: guess_budget_def)
qed

lemma demo_verified:
  "succeeded (verify_otp (pe_crypto demo_env) 1 ''PAIR-A'' ''123456''
     (pairing_run demo_env demo_start empty_db))"
  by (simp add: demo_start_def demo_env_def empty_db_def text_eval table_eval pairing_eval demo_code)

lemma otp_single_use_witness:
  "answered_guesses demo_env ''PAIR-A''
     [Resend 100 1 ''T'' ''PAIR-A'', Verify 101 ''PAIR-A'' ''123456'']
     (snd (verify_otp (pe_crypto demo_env) 1 ''PAIR-A'' ''123456''
       (pairing_run demo_env demo_start empty_db))) = 0"
  by (rule otp_single_use[OF reach_run[OF reach_empty] demo_verified])

section \<open>Signed decisions\<close>

text \<open>
  What \<^verbatim>\<open>create_signed_child_decision\<close> produces,
  \<^verbatim>\<open>verify_child_decision_signature\<close> accepts, and it reads back as the decision that was
  signed; the hypotheses say that the PEM loads to the key the signatures are checked with, that
  the library's verification accepts the library's signatures, and that a signature is bytes.
\<close>

theorem signed_decision_roundtrip:
  assumes "load_pem cr pem = Some raw" and "\<And>t. ed25519_verify cr raw (sign t) t"
    and "\<And>t. list_all (\<lambda>b. b < 256) (sign t)"
  shows "verify_child_decision_signature cr
           (create_signed_child_decision sign pem now sid parent child nonce approve) \<and>
         is_approved (create_signed_child_decision sign pem now sid parent child nonce approve) = approve"
  using assms
  by (simp add: verify_child_decision_signature_def create_signed_child_decision_def Let_def
      from_hex_to_hex is_approved_def py_upper_def upper_char_def)

lemma signed_decision_roundtrip_witness:
  "verify_child_decision_signature
     \<lparr>load_pem = Some, sha256_hex = (\<lambda>x. x), sha256_b64 = (\<lambda>x. x),
      ed25519_verify = (\<lambda>k s t. s = [length t mod 256])\<rparr>
     (create_signed_child_decision (\<lambda>t. [length t mod 256]) ''K'' 0 ''PAIR-A'' ''P'' ''C'' ''N'' True)"
  by (rule signed_decision_roundtrip[where raw = "''K''", THEN conjunct1]) simp_all

lemma colon_split:
  assumes "CHR '':'' \<notin> set a" and "CHR '':'' \<notin> set b" and "a @ CHR '':'' # x = b @ CHR '':'' # y"
  shows "a = b \<and> x = y"
  using assms
proof (induction a arbitrary: b)
  case Nil
  then show ?case by (cases b) auto
next
  case (Cons c a)
  then show ?case by (cases b) auto
qed

text \<open>
  The signed text determines the decision: two payloads over identifiers without a colon are
  equal only if session, parent, child, nonce and decision all are, so a signature for one
  decision is never one for another.
\<close>

theorem challenge_payload_injective:
  assumes "list_all (\<lambda>s. CHR '':'' \<notin> set s) [sid, parent, child, nonce]"
    and "list_all (\<lambda>s. CHR '':'' \<notin> set s) [sid', parent', child', nonce']"
    and "build_auth_challenge_payload sid parent child nonce decision =
         build_auth_challenge_payload sid' parent' child' nonce' decision'"
  shows "(sid, parent, child, nonce, decision) = (sid', parent', child', nonce', decision')"
proof -
  have eq: "sid @ CHR '':'' # parent @ CHR '':'' # child @ CHR '':'' # nonce @ CHR '':'' # decision =
      sid' @ CHR '':'' # parent' @ CHR '':'' # child' @ CHR '':'' # nonce' @ CHR '':'' # decision'"
    using assms(3) by (simp add: build_auth_challenge_payload_def)
  have "sid = sid'" and eq1: "parent @ CHR '':'' # child @ CHR '':'' # nonce @ CHR '':'' # decision =
      parent' @ CHR '':'' # child' @ CHR '':'' # nonce' @ CHR '':'' # decision'"
    using colon_split[OF _ _ eq] assms(1,2) by auto
  moreover have "parent = parent'" and eq2: "child @ CHR '':'' # nonce @ CHR '':'' # decision =
      child' @ CHR '':'' # nonce' @ CHR '':'' # decision'"
    using colon_split[OF _ _ eq1] assms(1,2) by auto
  moreover have "child = child'" and eq3: "nonce @ CHR '':'' # decision = nonce' @ CHR '':'' # decision'"
    using colon_split[OF _ _ eq2] assms(1,2) by auto
  moreover have "nonce = nonce' \<and> decision = decision'"
    using colon_split[OF _ _ eq3] assms(1,2) by auto
  ultimately show ?thesis by simp
qed

lemma challenge_payload_injective_witness:
  "(''PAIR-A'', ''P'', ''C'', ''N'', ''DENY'') = (''PAIR-A'', ''P'', ''C'', ''N'', ''DENY'')"
  by (rule challenge_payload_injective) simp_all

section \<open>The trust registry\<close>

text \<open>The relation the registry stands for.\<close>

definition trusted_pairs :: "pairing_db \<Rightarrow> (string \<times> string) set" where
  "trusted_pairs db = {(l, r). is_trusted db l r}"

lemma get_after_upsert:
  assumes "\<And>x. td_key (f x) = td_key x" and "td_key row = (l, r)"
  shows "get_trusted_device (db\<lparr>db_trusted := upsert_row td_key row f (db_trusted db)\<rparr>) l' r' =
     (if (l', r') = (l, r)
      then Some (case get_trusted_device db l r of None \<Rightarrow> row | Some old \<Rightarrow> f old)
      else get_trusted_device db l' r')"
proof -
  have "(l', r') = (l, r) \<longleftrightarrow> l' = l \<and> r' = r" by simp
  then show ?thesis
    using fetch_upsert[of td_key f row "(l, r)" "(l', r')" "db_trusted db", OF assms]
    by (simp add: get_trusted_device_def)
qed

lemma get_trusted_log [simp]: "get_trusted_device (log_audit e a k db) l r = get_trusted_device db l r"
  by (simp add: get_trusted_device_def)

lemma establish_get:
  assumes "succeeded (establish_trust cr now l r pem session label db)"
  shows "\<exists>d. get_trusted_device (snd (establish_trust cr now l r pem session label db)) l' r' =
     (if (l', r') = (l, r) then Some d else get_trusted_device db l' r') \<and> td_status d = TS_ACTIVE \<and>
     td_version d = (case get_trusted_device db l r of None \<Rightarrow> 1 | Some old \<Rightarrow> td_version old + 1)"
  using assms
proof -
  obtain role raw where ok: "valid_id r" "parse_identity_role r = Inr role" "load_pem cr pem = Some raw"
    using assms by (auto simp: establish_trust_def split: if_splits sum.splits option.splits)
  define row where "row = \<lparr>td_local = l, td_remote = r, td_role = role,
      td_fingerprint = compute_public_key_fingerprint cr raw, td_pem = pem, td_label = label,
      td_status = TS_ACTIVE, td_created_at = Aware now, td_last_verified_at = Aware now,
      td_version = 1, td_session = session\<rparr>"
  define f :: "trusted_device \<Rightarrow> trusted_device" where "f = (\<lambda>old. old\<lparr>td_fingerprint := td_fingerprint row, td_pem := pem,
      td_label := (case label of None \<Rightarrow> td_label old | Some x \<Rightarrow> Some x),
      td_status := TS_ACTIVE, td_last_verified_at := Aware now,
      td_version := td_version old + 1, td_session := session\<rparr>)"
  have key: "td_key (f x) = td_key x" "td_key row = (l, r)" for x by (simp_all add: f_def row_def td_key_def)
  have "get_trusted_device (snd (establish_trust cr now l r pem session label db)) l' r' =
      get_trusted_device (db\<lparr>db_trusted := upsert_row td_key row f (db_trusted db)\<rparr>) l' r'" for l' r'
    using ok by (simp add: establish_trust_def Let_def row_def f_def)
  then show ?thesis
    unfolding get_after_upsert[where f = f and row = row, OF key]
    by (intro exI[of _ "case get_trusted_device db l r of None \<Rightarrow> row | Some old \<Rightarrow> f old"])
      (simp add: f_def row_def split: option.split)
qed

lemma get_unaffected:
  "get_trusted_device db l r = None \<Longrightarrow>
     get_trusted_device db l' r' =
       map_option (\<lambda>d. if (l', r') = (l, r) then f d else d) (get_trusted_device db l' r')"
  by (cases "(l', r') = (l, r)"; cases "get_trusted_device db l' r'") auto

lemma get_trusted_sessions [simp]:
  "get_trusted_device (db\<lparr>db_trusted := t, db_sessions := x\<rparr>) l r =
     get_trusted_device (db\<lparr>db_trusted := t\<rparr>) l r"
  by (simp add: get_trusted_device_def)

lemma key_kept:
  "td_key (x\<lparr>td_status := u, td_last_verified_at := t\<rparr>) = td_key x"
  "td_key (x\<lparr>td_label := v\<rparr>) = td_key x"
  by (simp_all add: td_key_def)

lemma revoke_get:
  "get_trusted_device (snd (revoke_trust now l r actor db)) l' r' =
     map_option (\<lambda>d. if (l', r') = (l, r)
        then d\<lparr>td_status := TS_REVOKED, td_last_verified_at := Aware now\<rparr> else d)
       (get_trusted_device db l' r')"
proof (cases "get_trusted_device db l r")
  case None
  from get_unaffected[OF this] None show ?thesis by (simp add: revoke_trust_def)
next
  case (Some d)
  then show ?thesis by (simp add: revoke_trust_def get_after_update key_kept)
qed

lemma rename_get:
  "get_trusted_device (snd (rename_trusted_device l r n db)) l' r' =
     map_option (\<lambda>d. if (l', r') = (l, r) then d\<lparr>td_label := Some (py_strip n)\<rparr> else d)
       (get_trusted_device db l' r')"
proof (cases "get_trusted_device db l r")
  case None
  from get_unaffected[OF this] None show ?thesis by (simp add: rename_trusted_device_def)
next
  case (Some d)
  then show ?thesis by (simp add: rename_trusted_device_def get_after_update key_kept)
qed

text \<open>
  C5: the registry implements a set of trusted pairs: establishing trust inserts the pair where
  it succeeds and changes nothing where it raises, revoking deletes it, renaming keeps the set.
\<close>

theorem trust_registry_refines:
  "trusted_pairs (snd (establish_trust cr now l r pem session label db)) =
     (if succeeded (establish_trust cr now l r pem session label db)
      then insert (l, r) (trusted_pairs db) else trusted_pairs db) \<and>
   trusted_pairs (snd (revoke_trust now l r actor db)) = trusted_pairs db - {(l, r)} \<and>
   trusted_pairs (snd (rename_trusted_device l r new_label db)) = trusted_pairs db"
proof (intro conjI)
  show "trusted_pairs (snd (establish_trust cr now l r pem session label db)) =
     (if succeeded (establish_trust cr now l r pem session label db)
      then insert (l, r) (trusted_pairs db) else trusted_pairs db)"
  proof (cases "succeeded (establish_trust cr now l r pem session label db)")
    case True
    have "is_trusted (snd (establish_trust cr now l r pem session label db)) l' r' \<longleftrightarrow>
        (l', r') = (l, r) \<or> is_trusted db l' r'" for l' r'
      using establish_get[OF True, of l' r']
      by (cases "(l', r') = (l, r)") (auto simp: is_trusted_def td_is_active_def)
    with True show ?thesis by (auto simp: trusted_pairs_def)
  next
    case False
    then have "snd (establish_trust cr now l r pem session label db) = db"
      by (auto simp: establish_trust_def Let_def split: sum.splits option.splits)
    with False show ?thesis by simp
  qed
  show "trusted_pairs (snd (revoke_trust now l r actor db)) = trusted_pairs db - {(l, r)}"
    by (auto simp: trusted_pairs_def is_trusted_def revoke_get td_is_active_def
        split: option.splits if_splits)
  show "trusted_pairs (snd (rename_trusted_device l r new_label db)) = trusted_pairs db"
    by (auto simp: trusted_pairs_def is_trusted_def rename_get td_is_active_def
        split: option.splits if_splits)
qed

lemma created_session:
  fixes cr cfg t0 ts fb n salt parent m dest child db
  defines "s0 \<equiv> new_session cr cfg t0 (generate_session_id db ts fb) (generate_otp_code n) salt parent
                  (py_upper (py_strip m)) dest child"
  assumes "keyed ps_id (db_sessions db)"
    and "create_session cr cfg smtp t0 ts fb n salt parent m dest child db = (Inr (s, Some code), db1)"
  shows "code = generate_otp_code n \<and> s = s0\<lparr>ps_state := PS_VERIFICATION_PENDING\<rparr> \<and>
         get_session db1 (generate_session_id db ts fb) = Some s"
proof -
  let ?norm = "py_upper (py_strip m)"
  let ?sid = "generate_session_id db ts fb"
  let ?otp = "generate_otp_code n"
  have ids: "check_create_ids parent child = None"
    using assms(3) by (cases "check_create_ids parent child") (simp_all add: create_session_def)
  obtain prov where prov: "get_delivery_provider ?norm = Inr prov"
    using assms(3) ids by (cases "get_delivery_provider ?norm") (simp_all add: create_session_def)
  obtain db0 where ins: "insert_session s0 db = Some db0"
    using assms(3) ids prov unfolding s0_def
    by (cases "insert_session (new_session cr cfg t0 ?sid ?otp salt parent ?norm dest child) db")
      (simp_all add: create_session_def Let_def)
  obtain x db2 where x: "dispatch_otp smtp prov ?otp s0
        (log_audit ''OTP_DELIVERY_STARTED'' (Some parent) True db0) = (x, db2)" by (rule prod.exhaust)
  have "x = Inr s \<and> db2 = db1 \<and> code = ?otp"
    using assms(3) ids prov ins x unfolding s0_def
    by (cases x; cases "?norm = ''DEMO''") (simp_all add: create_session_def Let_def)
  then have disp: "dispatch_otp smtp prov ?otp s0
        (log_audit ''OTP_DELIVERY_STARTED'' (Some parent) True db0) = (Inr s, db1)"
    and code: "code = ?otp" using x by simp_all
  let ?s = "s0\<lparr>ps_state := PS_VERIFICATION_PENDING\<rparr>"
  have k: "keyed ps_id (db_sessions db0)"
    using ins assms(2) by (auto simp: insert_session_def intro: keyed_insert_row split: if_splits)
  have s: "s = ?s" and db1: "db1 = log_audit ''PAIRING_CREATED'' (Some (ps_parent s0)) True
      (log_audit ''OTP_DELIVERED'' (Some (ps_parent s0)) True
        (update_session_db ?s (log_audit ''OTP_DELIVERY_STARTED'' (Some parent) True db0)))"
    using disp by (auto simp: dispatch_otp_def dest!: transition_to_Inr split: option.splits sum.splits)
  have "ps_id s0 = ?sid" by (simp add: s0_def)
  then have "get_session db0 ?sid = Some s0" using get_inserted_session[OF ins] by simp
  then have "get_session (update_session_db ?s (log_audit e1 a1 x1 db0)) ?sid = Some ?s" for e1 a1 x1
    using get_session_after_update[of "log_audit e1 a1 x1 db0" ?sid s0 ?s ?sid] k
    by (simp add: session_grows_def)
  with s db1 code show ?thesis by auto
qed

text \<open>
  On the clock, a passcode delivered by \<^verbatim>\<open>create_session\<close> in demo mode is accepted by
  \<^verbatim>\<open>verify_otp\<close> while neither it nor the session has expired.
\<close>

theorem created_code_verifies:
  assumes "pairing_reach env db"
    and "create_session cr cfg smtp t0 ts fb n salt parent m dest child db = (Inr (s, Some code), db1)"
    and "salt \<noteq> []" and "\<And>x. sha256_hex cr x \<noteq> []" and "0 < max_otp_attempts cfg"
    and "now < t0 + otp_expiration_seconds cfg * second"
    and "now < t0 + session_expiration_seconds cfg * second"
  shows "succeeded (verify_otp cr now (ps_id s) code db1)"
proof -
  let ?sid = "generate_session_id db ts fb"
  let ?otp = "generate_otp_code n"
  let ?s = "new_session cr cfg t0 ?sid ?otp salt parent (py_upper (py_strip m)) dest child"
  note created = created_session[OF inv_keyed[OF reach_inv[OF assms(1)]] assms(2)]
  have code: "code = ?otp" and s: "s = ?s\<lparr>ps_state := PS_VERIFICATION_PENDING\<rparr>"
    and get: "get_session db1 ?sid = Some s" using created by simp_all
  have norm: "otp_regex (normalize_code ?otp)" "normalize_code ?otp = ?otp" "py_strip ?otp = ?otp"
    using generate_otp_regex[of n] normalize_otp[OF generate_otp_regex, of n] py_strip_digits[of ?otp]
    by (simp_all add: otp_regex_def)
  have id: "ps_id s = ?sid" by (simp add: s)
  show ?thesis
    unfolding verify_otp_succeeds_iff id code
    by (rule exI[of _ s], rule exI[of _ salt], use get assms(3-7) norm in
      \<open>simp add: s new_session_def ps_is_expired_def is_otp_expired_def reached_def stamp_after_def
        compute_otp_verifier_def\<close>)
qed

definition demo_salted :: crypto where
  "demo_salted = \<lparr>load_pem = Some, sha256_hex = (\<lambda>x. ''h'' @ x), sha256_b64 = (\<lambda>x. x),
     ed25519_verify = (\<lambda>k s t. True)\<rparr>"

lemma created_code_verifies_witness:
  "\<exists>s db1. create_session demo_salted (pe_config demo_env) (pe_mailer demo_env)
     0 [''A''] ''B'' 123456 ''S'' ''GM-P-00000001'' ''DEMO'' [] None empty_db =
       (Inr (s, Some ''123456''), db1) \<and>
     succeeded (verify_otp demo_salted 299999999 (ps_id s) ''123456'' db1)"
proof -
  obtain s db1 where c: "create_session demo_salted (pe_config demo_env) (pe_mailer demo_env)
     0 [''A''] ''B'' 123456 ''S'' ''GM-P-00000001'' ''DEMO'' [] None empty_db =
       (Inr (s, Some ''123456''), db1)"
    by (simp add: demo_env_def demo_salted_def empty_db_def text_eval table_eval pairing_eval demo_code)
  have "succeeded (verify_otp demo_salted 299999999 (ps_id s) ''123456'' db1)"
    by (rule created_code_verifies[OF reach_empty c])
      (simp_all add: demo_salted_def demo_env_def second_def)
  with c show ?thesis by blast
qed

section \<open>Where the code departs from its documentation\<close>

text \<open>
  Revoking a pair rewrites the sessions that had already ended: a session of the parent with
  that child that was denied, expired or cancelled becomes REVOKED, although the statement
  excludes ended sessions (the exclusion binds to the reversed pair only).
\<close>

theorem revoke_rewrites_ended_sessions:
  "get_session (snd (revoke_trust now l r actor db)) sid =
     map_option (\<lambda>s. if get_trusted_device db l r \<noteq> None \<and>
          (ps_parent s = l \<and> ps_child s = Some r \<or>
           ps_parent s = r \<and> ps_child s = Some l \<and>
             ps_state s \<notin> {PS_DENIED, PS_EXPIRED, PS_CANCELLED, PS_REVOKED})
        then s\<lparr>ps_state := PS_REVOKED\<rparr> else s) (get_session db sid)"
proof (cases "get_trusted_device db l r")
  case None
  then show ?thesis by (simp add: revoke_trust_def option.map_ident)
next
  case (Some d)
  then show ?thesis
    by (simp add: revoke_trust_def get_session_def fetch_update_where revoke_where_def)
qed

text \<open>
  \<^verbatim>\<open>cancel_session\<close> cancels a completed pairing, which the transition table does not
  allow, and the device it trusted stays trusted.
\<close>

theorem cancel_after_pairing_keeps_trust:
  "\<exists>s. get_session demo_db ''PAIR-A'' = Some s \<and> ps_state s = PS_PAIRED \<and>
     \<not> pairing_step PS_PAIRED PS_CANCELLED \<and>
     (\<exists>s'. get_session (snd (cancel_session ''PAIR-A'' demo_db)) ''PAIR-A'' = Some s' \<and>
        ps_state s' = PS_CANCELLED) \<and>
     is_trusted (snd (cancel_session ''PAIR-A'' demo_db)) ''GM-P-00000001'' ''GM-C-00000002''"
  by (simp add: demo_db_def demo_actions_def demo_start_def demo_env_def demo_decision_def empty_db_def
      text_eval table_eval pairing_eval demo_code cancel_session_def pairing_step_def is_trusted_def
      get_trusted_device_def td_is_active_def)

definition demo_other :: child_decision where
  "demo_other = demo_decision\<lparr>cd_session := ''PAIR-Z'', cd_parent := ''GM-P-00000009'',
     cd_child := ''GM-C-00000003''\<rparr>"

text \<open>
  A decision that names another session and another parent, signed for a child the challenge
  was not addressed to, is accepted, and that other child becomes trusted.
\<close>

theorem other_child_accepted:
  "map td_key (db_trusted (pairing_run demo_env (demo_start @
      [Verify 1 ''PAIR-A'' ''123456'', Challenge 2 ''N'' ''PAIR-A'' ''GM-C-00000002'',
       Submit 3 ''PAIR-A'' demo_other None]) empty_db)) = [(''GM-P-00000001'', ''GM-C-00000003'')]"
  by (simp add: demo_start_def demo_env_def demo_other_def demo_decision_def empty_db_def
      text_eval table_eval pairing_eval demo_code)

end
