(* ===== verification/JsonText.thy ===== *)
theory JsonText
  imports Prelude "HOL-Library.Char_ord" "HOL-Library.List_Lexorder" "HOL-Library.Multiset"
begin

text \<open>
  JSON values as Python texts: \<^verbatim>\<open>str\<close> and \<^verbatim>\<open>repr\<close> of a decoded value, and the
  canonical encoding \<^verbatim>\<open>json.dumps(v, sort_keys=True, separators=(",", ":"))\<close> that the
  signed messages use.  Text is ASCII, and floating-point numbers do not occur.
\<close>

section \<open>Numbers\<close>

fun nat_digits :: "nat \<Rightarrow> string" where
  "nat_digits n =
     (if n < 10 then [char_of (48 + n)] else nat_digits (n div 10) @ [char_of (48 + n mod 10)])"

declare nat_digits.simps [simp del]

definition int_str :: "int \<Rightarrow> string" where
  "int_str i = (if i < 0 then CHR ''-'' # nat_digits (nat (- i)) else nat_digits (nat i))"

fun join_with :: "string \<Rightarrow> string list \<Rightarrow> string" where
  "join_with sep [] = []"
| "join_with sep [x] = x"
| "join_with sep (x # y # ys) = x @ sep @ join_with sep (y # ys)"

text \<open>Two lower-case hexadecimal digits.\<close>

definition hex2 :: "nat \<Rightarrow> string" where
  "hex2 n = (let h = (\<lambda>k. char_of (if k < 10 then 48 + k else 87 + k)) in [h (n div 16), h (n mod 16)])"

section \<open>Python's str and repr\<close>

definition repr_char :: "char \<Rightarrow> char \<Rightarrow> string" where
  "repr_char q c =
     (let n = (of_char c :: nat) in
      if c = q \<or> n = 92 then [CHR 0x5C, c]
      else if n = 10 then [CHR 0x5C, CHR ''n'']
      else if n = 13 then [CHR 0x5C, CHR ''r'']
      else if n = 9 then [CHR 0x5C, CHR ''t'']
      else if n < 32 \<or> n = 127 then [CHR 0x5C, CHR ''x''] @ hex2 n
      else [c])"

definition repr_str :: "string \<Rightarrow> string" where
  "repr_str s =
     (let q = (if CHR 0x27 \<in> set s \<and> CHR 0x22 \<notin> set s then CHR 0x22 else CHR 0x27)
      in [q] @ concat (map (repr_char q) s) @ [q])"

fun py_repr :: "json \<Rightarrow> string" where
  "py_repr JNull = ''None''"
| "py_repr (JBool b) = (if b then ''True'' else ''False'')"
| "py_repr (JInt i) = int_str i"
| "py_repr (JStr s) = repr_str s"
| "py_repr (JList xs) = ''['' @ join_with '', '' (map py_repr xs) @ '']''"
| "py_repr (JObj kvs) =
     ''{'' @ join_with '', '' (map (\<lambda>(k, v). repr_str k @ '': '' @ py_repr v) kvs) @ ''}''"

definition py_str :: "json \<Rightarrow> string" where
  "py_str v = (case v of JStr s \<Rightarrow> s | _ \<Rightarrow> py_repr v)"

text \<open>\<^verbatim>\<open>bool(v)\<close>.\<close>

fun py_truthy :: "json \<Rightarrow> bool" where
  "py_truthy JNull = False"
| "py_truthy (JBool b) = b"
| "py_truthy (JInt i) = (i \<noteq> 0)"
| "py_truthy (JStr s) = (s \<noteq> [])"
| "py_truthy (JList xs) = (xs \<noteq> [])"
| "py_truthy (JObj kvs) = (kvs \<noteq> [])"

section \<open>Encoding\<close>

text \<open>\<^verbatim>\<open>ensure_ascii\<close>: every character outside the printable ASCII range is escaped.\<close>

definition json_char :: "char \<Rightarrow> string" where
  "json_char c =
     (let n = (of_char c :: nat) in
      if n = 34 \<or> n = 92 then [CHR 0x5C, c]
      else if n = 10 then [CHR 0x5C, CHR ''n'']
      else if n = 13 then [CHR 0x5C, CHR ''r'']
      else if n = 9 then [CHR 0x5C, CHR ''t'']
      else if n = 8 then [CHR 0x5C, CHR ''b'']
      else if n = 12 then [CHR 0x5C, CHR ''f'']
      else if n < 32 \<or> 126 < n then [CHR 0x5C, CHR ''u'', CHR ''0'', CHR ''0''] @ hex2 n
      else [c])"

definition json_str :: "string \<Rightarrow> string" where
  "json_str s = [CHR 0x22] @ concat (map json_char s) @ [CHR 0x22]"

text \<open>
  \<^verbatim>\<open>json.dumps(v, sort_keys=True, separators=(i, k))\<close>.  The default separators put a
  blank after the comma and the colon, the canonical encoding has none.
\<close>

fun json_text :: "string \<Rightarrow> string \<Rightarrow> json \<Rightarrow> string" where
  "json_text i k JNull = ''null''"
| "json_text i k (JBool b) = (if b then ''true'' else ''false'')"
| "json_text i k (JInt n) = int_str n"
| "json_text i k (JStr s) = json_str s"
| "json_text i k (JList xs) = ''['' @ join_with i (map (json_text i k) xs) @ '']''"
| "json_text i k (JObj kvs) =
     ''{'' @ join_with i
        (map (\<lambda>(x, t). json_str x @ k @ t)
          (sort_key fst (map (\<lambda>(x, v). (x, json_text i k v)) kvs))) @ ''}''"

definition json_dumps :: "json \<Rightarrow> string" where
  "json_dumps v = json_text '','' '':'' v"

definition json_dumps_spaced :: "json \<Rightarrow> string" where
  "json_dumps_spaced v = json_text '', '' '': '' v"

text \<open>\<^verbatim>\<open>json.dumps(v)\<close>: default separators, keys in insertion order.\<close>

fun json_dumps_plain :: "json \<Rightarrow> string" where
  "json_dumps_plain JNull = ''null''"
| "json_dumps_plain (JBool b) = (if b then ''true'' else ''false'')"
| "json_dumps_plain (JInt n) = int_str n"
| "json_dumps_plain (JStr s) = json_str s"
| "json_dumps_plain (JList xs) = ''['' @ join_with '', '' (map json_dumps_plain xs) @ '']''"
| "json_dumps_plain (JObj kvs) =
     ''{'' @ join_with '', '' (map (\<lambda>(x, v). json_str x @ '': '' @ json_dumps_plain v) kvs) @ ''}''"

text \<open>The order in which an object's keys were inserted does not show.\<close>

lemma json_text_permute:
  assumes "mset kvs = mset kvs'" and "distinct (map fst kvs)"
  shows "json_text i k (JObj kvs) = json_text i k (JObj kvs')"
proof -
  let ?f = "\<lambda>(x, v). (x, json_text i k v)"
  have fst: "map fst (map ?f xs) = map fst xs" for xs :: "(string \<times> json) list"
    by (induction xs) auto
  have "distinct (map fst (map ?f kvs))" unfolding fst by (rule assms(2))
  then have inj: "inj_on fst (set (map ?f kvs))" unfolding distinct_map by (rule conjunct2)
  have "mset (map ?f kvs) = mset (map ?f kvs')" using assms(1) by (simp add: mset_map)
  then have "sort_key fst (map ?f kvs) = sort_key fst (map ?f kvs')"
    using inj by (intro sort_key_inj_key_eq) simp_all
  then show ?thesis by simp
qed

section \<open>Decoding\<close>

text \<open>
  \<^verbatim>\<open>json.loads\<close>: \<open>None\<close> is \<^verbatim>\<open>JSONDecodeError\<close>.  A number with a fraction or an exponent and
  an escape beyond Latin-1 do not occur in the model and count as malformed, and there is no
  recursion limit.  A repeated key keeps its first place and its last value.
\<close>

definition is_json_space :: "char \<Rightarrow> bool" where
  "is_json_space c \<longleftrightarrow> c \<in> {CHR 0x20, CHR 0x09, CHR 0x0A, CHR 0x0D}"

abbreviation skip_space :: "string \<Rightarrow> string" where
  "skip_space s \<equiv> dropWhile is_json_space s"

definition unescape :: "char \<Rightarrow> char option" where
  "unescape c =
     (if c = CHR 0x22 \<or> c = CHR 0x5C \<or> c = CHR ''/'' then Some c
      else if c = CHR ''n'' then Some (CHR 0x0A)
      else if c = CHR ''r'' then Some (CHR 0x0D)
      else if c = CHR ''t'' then Some (CHR 0x09)
      else if c = CHR ''b'' then Some (CHR 0x08)
      else if c = CHR ''f'' then Some (CHR 0x0C)
      else None)"

definition hex_value4 :: "char \<Rightarrow> char \<Rightarrow> char \<Rightarrow> char \<Rightarrow> nat option" where
  "hex_value4 a b c d =
     (case (hex_digit a, hex_digit b, hex_digit c, hex_digit d) of
        (Some w, Some x, Some y, Some z) \<Rightarrow> Some (4096 * w + 256 * x + 16 * y + z)
      | _ \<Rightarrow> None)"

fun scan_string :: "string \<Rightarrow> (string \<times> string) option" where
  "scan_string [] = None"
| "scan_string (c # cs) =
     (if c = CHR 0x22 then Some ([], cs)
      else if c = CHR 0x5C then
        (case cs of
           [] \<Rightarrow> None
         | e # es \<Rightarrow>
             if e = CHR ''u'' then
               (case es of
                  w # x # y # z # r \<Rightarrow>
                    (case hex_value4 w x y z of
                       None \<Rightarrow> None
                     | Some n \<Rightarrow>
                         if 256 \<le> n then None
                         else map_option (apfst ((#) (char_of n))) (scan_string r))
                | _ \<Rightarrow> None)
             else (case unescape e of
                 None \<Rightarrow> None
               | Some x \<Rightarrow> map_option (apfst ((#) x)) (scan_string es)))
      else if (of_char c :: nat) < 32 then None
      else map_option (apfst ((#) c)) (scan_string cs))"

definition digits_value :: "string \<Rightarrow> nat" where
  "digits_value ds = foldl (\<lambda>a c. 10 * a + (of_char c - 48)) 0 ds"

text \<open>\<^verbatim>\<open>-?(0|[1-9][0-9]*)\<close>, and no fraction or exponent after it.\<close>

definition scan_digits :: "string \<Rightarrow> (nat \<times> string) option" where
  "scan_digits s =
     (case s of
        [] \<Rightarrow> None
      | c # cs \<Rightarrow>
          if c = CHR ''0'' then Some (0, cs)
          else if is_digit c then Some (digits_value (takeWhile is_digit s), dropWhile is_digit s)
          else None)"

definition ends_number :: "string \<Rightarrow> bool" where
  "ends_number s \<longleftrightarrow> (case s of [] \<Rightarrow> True | c # _ \<Rightarrow> c \<notin> {CHR ''.'', CHR ''e'', CHR ''E''})"

definition scan_number :: "string \<Rightarrow> (json \<times> string) option" where
  "scan_number s =
     (let neg = (s \<noteq> [] \<and> hd s = CHR ''-'') in
      case scan_digits (if neg then tl s else s) of
        None \<Rightarrow> None
      | Some (n, r) \<Rightarrow>
          if ends_number r then Some (JInt (if neg then - int n else int n), r) else None)"

definition scan_literal :: "string \<Rightarrow> (json \<times> string) option" where
  "scan_literal s =
     (if take 4 s = ''null'' then Some (JNull, drop 4 s)
      else if take 4 s = ''true'' then Some (JBool True, drop 4 s)
      else if take 5 s = ''false'' then Some (JBool False, drop 5 s)
      else scan_number s)"

fun assoc_put :: "'k \<Rightarrow> 'v \<Rightarrow> ('k \<times> 'v) list \<Rightarrow> ('k \<times> 'v) list" where
  "assoc_put k v [] = [(k, v)]"
| "assoc_put k v ((k', v') # kvs) = (if k' = k then (k, v) # kvs else (k', v') # assoc_put k v kvs)"

text \<open>\<^verbatim>\<open>dict(pairs)\<close>.\<close>

definition py_dict :: "('k \<times> 'v) list \<Rightarrow> ('k \<times> 'v) list" where
  "py_dict kvs = foldl (\<lambda>d (k, v). assoc_put k v d) [] kvs"

text \<open>The fuel bounds the nesting and the number of members; the length of the text is enough.\<close>

fun scan_value :: "nat \<Rightarrow> string \<Rightarrow> (json \<times> string) option"
  and scan_items :: "nat \<Rightarrow> string \<Rightarrow> (json list \<times> string) option"
  and scan_members :: "nat \<Rightarrow> string \<Rightarrow> ((string \<times> json) list \<times> string) option" where
  "scan_value 0 s = None"
| "scan_value (Suc n) s =
     (case s of
        [] \<Rightarrow> None
      | c # cs \<Rightarrow>
          if c = CHR 0x22 then map_option (apfst JStr) (scan_string cs)
          else if c = CHR ''['' then
            (case skip_space cs of
               [] \<Rightarrow> None
             | d # ds \<Rightarrow>
                 if d = CHR '']'' then Some (JList [], ds)
                 else map_option (apfst JList) (scan_items n (d # ds)))
          else if c = CHR ''{'' then
            (case skip_space cs of
               [] \<Rightarrow> None
             | d # ds \<Rightarrow>
                 if d = CHR ''}'' then Some (JObj [], ds)
                 else map_option (apfst (\<lambda>m. JObj (py_dict m))) (scan_members n (d # ds)))
          else scan_literal s)"
| "scan_items 0 s = None"
| "scan_items (Suc n) s =
     (case scan_value n s of
        None \<Rightarrow> None
      | Some (v, r) \<Rightarrow>
          (case skip_space r of
             [] \<Rightarrow> None
           | d # ds \<Rightarrow>
               if d = CHR '']'' then Some ([v], ds)
               else if d = CHR '','' then map_option (apfst ((#) v)) (scan_items n (skip_space ds))
               else None))"
| "scan_members 0 s = None"
| "scan_members (Suc n) s =
     (case s of
        [] \<Rightarrow> None
      | c # cs \<Rightarrow>
          if c \<noteq> CHR 0x22 then None
          else case scan_string cs of
            None \<Rightarrow> None
          | Some (k, r) \<Rightarrow>
              (case skip_space r of
                 [] \<Rightarrow> None
               | d # ds \<Rightarrow>
                   if d \<noteq> CHR '':'' then None
                   else case scan_value n (skip_space ds) of
                     None \<Rightarrow> None
                   | Some (v, r') \<Rightarrow>
                       (case skip_space r' of
                          [] \<Rightarrow> None
                        | e # es \<Rightarrow>
                            if e = CHR ''}'' then Some ([(k, v)], es)
                            else if e = CHR '','' then
                              map_option (apfst ((#) (k, v))) (scan_members n (skip_space es))
                            else None)))"

definition json_loads :: "string \<Rightarrow> json option" where
  "json_loads s =
     (case scan_value (Suc (length s)) (skip_space s) of
        None \<Rightarrow> None
      | Some (v, r) \<Rightarrow> if skip_space r = [] then Some v else None)"

end
