(* ===== verification/TelemetryModels.thy ===== *)
theory TelemetryModels
  imports JsonText Authorization
begin

text \<open>
  \<^verbatim>\<open>guardianmesh/telemetry/models.py\<close>: the privacy allowlist, health snapshots, signed
  envelopes and the health summary.
\<close>

section \<open>The allowlist\<close>

definition allowed_health_fields :: "string list" where
  "allowed_health_fields =
     [''battery_percent'', ''charging'', ''storage_total_bytes'', ''storage_free_bytes'',
      ''uptime_seconds'', ''connectivity'', ''platform'', ''agent_version'']"

definition forbidden_fields :: "string list" where
  "forbidden_fields =
     [''messages'', ''sms'', ''contacts'', ''photos'', ''files'', ''browser_history'', ''clipboard'',
      ''keyboard_input'', ''keystroke'', ''microphone'', ''camera'', ''location'', ''gps'', ''screen'',
      ''app_usage'', ''notifications'', ''passwords'']"

datatype connectivity_state = CS_ONLINE | CS_DEGRADED | CS_OFFLINE | CS_UNKNOWN
datatype health_state = HS_ONLINE | HS_DEGRADED | HS_OFFLINE | HS_UNKNOWN

fun connectivity_value :: "connectivity_state \<Rightarrow> string" where
  "connectivity_value CS_ONLINE = ''ONLINE''"
| "connectivity_value CS_DEGRADED = ''DEGRADED''"
| "connectivity_value CS_OFFLINE = ''OFFLINE''"
| "connectivity_value CS_UNKNOWN = ''UNKNOWN''"

definition connectivity_from_str :: "string \<Rightarrow> connectivity_state" where
  "connectivity_from_str s =
     (let n = py_upper (py_strip s) in
      if n = ''ONLINE'' then CS_ONLINE else if n = ''DEGRADED'' then CS_DEGRADED
      else if n = ''OFFLINE'' then CS_OFFLINE else CS_UNKNOWN)"

text \<open>
  \<^verbatim>\<open>isinstance(v, int)\<close>: a \<^verbatim>\<open>bool\<close> is an \<^verbatim>\<open>int\<close>.  A field passes when it is absent,
  \<^verbatim>\<open>None\<close>, or an integer in its range.
\<close>

fun py_int :: "json \<Rightarrow> int option" where
  "py_int (JInt i) = Some i"
| "py_int (JBool b) = Some (if b then 1 else 0)"
| "py_int _ = None"

definition int_field_ok :: "(int \<Rightarrow> bool) \<Rightarrow> json option \<Rightarrow> bool" where
  "int_field_ok ok v =
     (case v of None \<Rightarrow> True
      | Some x \<Rightarrow> x = JNull \<or> (case py_int x of None \<Rightarrow> False | Some i \<Rightarrow> ok i))"

definition validate_health_payload :: "json \<Rightarrow> gm_error option" where
  "validate_health_payload p =
     (case p of
        JObj kvs \<Rightarrow>
          if list_ex (\<lambda>k. k \<in> set forbidden_fields) (map fst kvs) then
            Some (Telemetry TelemetryValidationError)
          else if list_ex (\<lambda>k. k \<notin> set allowed_health_fields) (map fst kvs) then
            Some (Telemetry TelemetryValidationError)
          else if \<not> int_field_ok (\<lambda>i. 0 \<le> i \<and> i \<le> 100) (map_of kvs ''battery_percent'') then
            Some (Telemetry TelemetryValidationError)
          else if \<not> int_field_ok (\<lambda>i. 0 \<le> i) (map_of kvs ''storage_free_bytes'') then
            Some (Telemetry TelemetryValidationError)
          else if \<not> int_field_ok (\<lambda>i. 0 \<le> i) (map_of kvs ''storage_total_bytes'') then
            Some (Telemetry TelemetryValidationError)
          else if \<not> int_field_ok (\<lambda>i. 0 \<le> i) (map_of kvs ''uptime_seconds'') then
            Some (Telemetry TelemetryValidationError)
          else None
      | _ \<Rightarrow> Some (Telemetry TelemetryValidationError))"

section \<open>Snapshots\<close>

text \<open>The metric fields are not checked by the dataclass: they hold what Python puts there.\<close>

record health_snapshot =
  hs_device :: string
  hs_captured :: stamp
  hs_battery :: json
  hs_charging :: json
  hs_total :: json
  hs_free :: json
  hs_uptime :: json
  hs_connectivity :: connectivity_state
  hs_platform :: json
  hs_version :: string

definition to_payload_dict :: "health_snapshot \<Rightarrow> gm_error + json" where
  "to_payload_dict s =
     (let d = JObj [(''battery_percent'', hs_battery s), (''charging'', hs_charging s),
                    (''storage_total_bytes'', hs_total s), (''storage_free_bytes'', hs_free s),
                    (''uptime_seconds'', hs_uptime s),
                    (''connectivity'', JStr (connectivity_value (hs_connectivity s))),
                    (''platform'', hs_platform s), (''agent_version'', JStr (hs_version s))]
      in case validate_health_payload d of Some e \<Rightarrow> Inl e | None \<Rightarrow> Inr d)"

definition get_or :: "json \<Rightarrow> (string \<times> json) list \<Rightarrow> string \<Rightarrow> json" where
  [model_defs]: "get_or d kvs k = (case map_of kvs k of None \<Rightarrow> d | Some v \<Rightarrow> v)"

definition from_payload_dict :: "string \<Rightarrow> json \<Rightarrow> stamp \<Rightarrow> gm_error + health_snapshot" where
  "from_payload_dict dev p captured =
     (case validate_health_payload p of
        Some e \<Rightarrow> Inl e
      | None \<Rightarrow>
         (case p of
            JObj kvs \<Rightarrow>
              Inr \<lparr>hs_device = dev, hs_captured = captured,
                   hs_battery = get_or JNull kvs ''battery_percent'',
                   hs_charging = get_or JNull kvs ''charging'',
                   hs_total = get_or JNull kvs ''storage_total_bytes'',
                   hs_free = get_or JNull kvs ''storage_free_bytes'',
                   hs_uptime = get_or JNull kvs ''uptime_seconds'',
                   hs_connectivity =
                     connectivity_from_str (py_str (get_or (JStr ''UNKNOWN'') kvs ''connectivity'')),
                   hs_platform = get_or JNull kvs ''platform'',
                   hs_version = py_str (get_or (JStr ''0.3.0'') kvs ''agent_version'')\<rparr>
          | _ \<Rightarrow> Inl (Telemetry TelemetryValidationError)))"

section \<open>Envelopes\<close>

record envelope =
  te_device :: string
  te_sequence :: int
  te_payload :: json
  te_captured :: stamp
  te_version :: json
  te_signature :: "string option"

definition envelope_post_init :: "envelope \<Rightarrow> gm_error + envelope" where
  "envelope_post_init e =
     (case validate_health_payload (te_payload e) of
        Some x \<Rightarrow> Inl x
      | None \<Rightarrow> if te_sequence e < 1 then Inl (Telemetry TelemetryValidationError) else Inr e)"

text \<open>\<open>iso_text\<close> is the text a timestamp stands for.\<close>

definition canonical_bytes :: "(stamp \<Rightarrow> string) \<Rightarrow> envelope \<Rightarrow> string" where
  "canonical_bytes iso_text e =
     json_dumps (JObj [(''captured_at'', JStr (iso_text (te_captured e))), (''device_id'', JStr (te_device e)),
                       (''payload'', te_payload e), (''protocol_version'', te_version e),
                       (''sequence'', JInt (te_sequence e))])"

definition envelope_sign :: "(stamp \<Rightarrow> string) \<Rightarrow> (string \<Rightarrow> nat list) \<Rightarrow> envelope \<Rightarrow> envelope" where
  "envelope_sign iso_text sign e =
     e\<lparr>te_signature := Some (to_hex (sign (canonical_bytes iso_text e)))\<rparr>"

definition envelope_verify_signature ::
  "crypto \<Rightarrow> (stamp \<Rightarrow> string) \<Rightarrow> envelope \<Rightarrow> string \<Rightarrow> bool" where
  "envelope_verify_signature cr iso_text e pem =
     (case te_signature e of
        None \<Rightarrow> False
      | Some hex \<Rightarrow>
          hex \<noteq> [] \<and>
          (case load_pem cr pem of
             None \<Rightarrow> False
           | Some raw \<Rightarrow>
              (case from_hex hex of
                 None \<Rightarrow> False
               | Some sg \<Rightarrow> ed25519_verify cr raw sg (canonical_bytes iso_text e))))"

section \<open>The health summary\<close>

record health_summary =
  hm_device :: string
  hm_state :: health_state
  hm_last_heartbeat :: stamp
  hm_battery :: "int option"
  hm_charging :: "bool option"
  hm_free :: "int option"
  hm_total :: "int option"
  hm_uptime :: "int option"
  hm_connectivity :: connectivity_state
  hm_platform :: "string option"
  hm_version :: string
  hm_sequence :: int
  hm_paused :: bool
  hm_seen_ago :: "int option"

section \<open>Facts\<close>

lemma valid_payload_obj:
  "validate_health_payload p = None \<Longrightarrow> \<exists>kvs. p = JObj kvs \<and> fst ` set kvs \<subseteq> set allowed_health_fields"
  by (auto simp: validate_health_payload_def list_ex_iff split: json.splits if_splits)

lemma forbidden_not_allowed: "set forbidden_fields \<inter> set allowed_health_fields = {}"
  by (simp add: forbidden_fields_def allowed_health_fields_def)

lemma connectivity_from_value [simp]: "connectivity_from_str (connectivity_value c) = c"
  by (cases c) (simp_all add: connectivity_from_str_def py_strip_def py_upper_def upper_char_def is_py_space_def)

text \<open>
  What \<^verbatim>\<open>to_payload_dict\<close> produces, \<^verbatim>\<open>from_payload_dict\<close> reads back as the same
  snapshot.
\<close>

theorem snapshot_roundtrip:
  assumes "to_payload_dict s = Inr p"
  shows "from_payload_dict (hs_device s) p (hs_captured s) = Inr s"
  using assms
  by (auto simp: to_payload_dict_def from_payload_dict_def get_or_def Let_def py_str_def split: option.splits)

lemma snapshot_roundtrip_witness:
  "from_payload_dict ''D'' (JObj [(''battery_percent'', JInt 80), (''charging'', JBool True),
       (''storage_total_bytes'', JInt 100), (''storage_free_bytes'', JInt 50), (''uptime_seconds'', JNull),
       (''connectivity'', JStr ''DEGRADED''), (''platform'', JStr ''android''), (''agent_version'', JStr ''1'')])
     (Aware 5) =
   Inr \<lparr>hs_device = ''D'', hs_captured = Aware 5, hs_battery = JInt 80, hs_charging = JBool True,
        hs_total = JInt 100, hs_free = JInt 50, hs_uptime = JNull, hs_connectivity = CS_DEGRADED,
        hs_platform = JStr ''android'', hs_version = ''1''\<rparr>"
  using snapshot_roundtrip[of "\<lparr>hs_device = ''D'', hs_captured = Aware 5, hs_battery = JInt 80,
        hs_charging = JBool True, hs_total = JInt 100, hs_free = JInt 50, hs_uptime = JNull,
        hs_connectivity = CS_DEGRADED, hs_platform = JStr ''android'', hs_version = ''1''\<rparr>"]
  by (simp add: to_payload_dict_def validate_health_payload_def forbidden_fields_def
      allowed_health_fields_def int_field_ok_def Let_def)


end
