(* ===== verification/Policy.thy ===== *)
theory Policy
  imports Complex_Main TelemetryModels
begin

text \<open>
  \<^verbatim>\<open>guardianmesh/policy\<close>: rules and their evaluation, the policies of a device, and the
  alerts they raise.  A \<^verbatim>\<open>float\<close> is the rational it stands for; \<open>rnd\<close>, an argument of the
  evaluator, is the rounding of a result to the nearest \<^verbatim>\<open>float\<close>, of which nothing is
  assumed.
\<close>

section \<open>Models\<close>

datatype rule_type =
  LOW_BATTERY | LOW_STORAGE | OFFLINE | DEGRADED_CONNECTION | HEARTBEAT_DELAYED | HEALTH_UNKNOWN

fun rule_type_value :: "rule_type \<Rightarrow> string" where
  "rule_type_value LOW_BATTERY = ''LOW_BATTERY''"
| "rule_type_value LOW_STORAGE = ''LOW_STORAGE''"
| "rule_type_value OFFLINE = ''OFFLINE''"
| "rule_type_value DEGRADED_CONNECTION = ''DEGRADED_CONNECTION''"
| "rule_type_value HEARTBEAT_DELAYED = ''HEARTBEAT_DELAYED''"
| "rule_type_value HEALTH_UNKNOWN = ''HEALTH_UNKNOWN''"

text \<open>\<^verbatim>\<open>from_str\<close>: an unknown rule is refused, an unknown severity or status has a default.\<close>

definition rule_type_from_str :: "string \<Rightarrow> gm_error + rule_type" where
  "rule_type_from_str s =
     (case enum_of rule_type_value
        [LOW_BATTERY, LOW_STORAGE, OFFLINE, DEGRADED_CONNECTION, HEARTBEAT_DELAYED, HEALTH_UNKNOWN] s of
        Some r \<Rightarrow> Inr r | None \<Rightarrow> Inl (Policy InvalidRuleError))"

datatype alert_severity = SEV_INFO | SEV_WARNING | SEV_CRITICAL
datatype alert_status = AL_ACTIVE | AL_ACKNOWLEDGED | AL_RESOLVED | AL_DISMISSED

record policy_rule =
  ru_type :: rule_type
  ru_enabled :: bool
  ru_threshold :: "rat option"
  ru_duration :: "int option"
  ru_severity :: alert_severity

text \<open>\<^verbatim>\<open>PolicyRule.__post_init__\<close>: defaults and ranges.\<close>

definition rule_post_init :: "policy_rule \<Rightarrow> gm_error + policy_rule" where
  "rule_post_init r =
     (let ranged = (\<lambda>d. let t = (case ru_threshold r of None \<Rightarrow> d | Some x \<Rightarrow> x) in
          if 1 \<le> t \<and> t \<le> 99 then Inr (r\<lparr>ru_threshold := Some t\<rparr>)
          else Inl (Policy InvalidRuleError))
      in if ru_type r = LOW_BATTERY then ranged 20
         else if ru_type r = LOW_STORAGE then ranged 10
         else if ru_type r \<in> {OFFLINE, DEGRADED_CONNECTION, HEARTBEAT_DELAYED} then
           (case ru_duration r of
              None \<Rightarrow> Inr r
            | Some d \<Rightarrow> if d \<le> 0 then Inl (Policy InvalidRuleError) else Inr r)
         else Inr r)"

text \<open>The message of a triggered rule, by the branch that builds it and the numbers it shows.\<close>

datatype alert_message =
    BatteryLow int rat
  | StorageLow rat int rat
  | DeviceOffline
  | ConnectionDegraded
  | HeartbeatDelayed int int
  | HealthUnknown
  | RemoteMessage string
    \<comment> \<open>the text of an alert that arrives over the transport\<close>

record alert =
  al_id :: string
  al_device :: string
  al_policy :: string
  al_rule :: rule_type
  al_severity :: alert_severity
  al_message :: alert_message
  al_status :: alert_status
  al_dedup :: string
  al_trigger :: "string option"
  al_created :: stamp
  al_last_seen :: stamp
  al_acknowledged :: "stamp option"
  al_resolved :: "stamp option"
  al_dismissed :: "stamp option"

section \<open>The evaluator\<close>

definition evaluate_rule ::
  "(rat \<Rightarrow> rat) \<Rightarrow> policy_rule \<Rightarrow> health_summary \<Rightarrow> (alert_message \<times> alert_severity) option" where
  "evaluate_rule rnd r s =
     (if \<not> ru_enabled r then None
      else case ru_type r of
        LOW_BATTERY \<Rightarrow>
          (case hm_battery s of
             None \<Rightarrow> None
           | Some b \<Rightarrow>
               let t = (case ru_threshold r of Some x \<Rightarrow> x | None \<Rightarrow> 20) in
               if of_int b < t then Some (BatteryLow b t, ru_severity r) else None)
      | LOW_STORAGE \<Rightarrow>
          (case (hm_free s, hm_total s) of
             (Some fr, Some tot) \<Rightarrow>
               if tot \<le> 0 then None
               else
                 let t = (case ru_threshold r of Some x \<Rightarrow> x | None \<Rightarrow> 10);
                     pct = rnd (rnd (of_int fr / of_int tot) * 100)
                 in if pct < t then Some (StorageLow pct fr t, ru_severity r) else None
           | _ \<Rightarrow> None)
      | OFFLINE \<Rightarrow>
          if hm_state s = HS_OFFLINE \<or> hm_connectivity s = CS_OFFLINE
          then Some (DeviceOffline, ru_severity r) else None
      | DEGRADED_CONNECTION \<Rightarrow>
          if hm_state s = HS_DEGRADED \<or> hm_connectivity s = CS_DEGRADED
          then Some (ConnectionDegraded, ru_severity r) else None
      | HEARTBEAT_DELAYED \<Rightarrow>
          (case hm_seen_ago s of
             None \<Rightarrow> None
           | Some ago \<Rightarrow>
               let limit = (case ru_duration r of Some d \<Rightarrow> d | None \<Rightarrow> 60) in
               if limit < ago then Some (HeartbeatDelayed ago limit, ru_severity r) else None)
      | HEALTH_UNKNOWN \<Rightarrow>
          if hm_state s = HS_UNKNOWN then Some (HealthUnknown, ru_severity r) else None)"

section \<open>The tables\<close>

record policy_row =
  po_id :: string
  po_device :: string
  po_name :: string
  po_enabled :: bool
  po_created :: stamp
  po_updated :: stamp

record policy_db =
  pd_policies :: "policy_row list"
  pd_rules :: "(string \<times> policy_rule) list"
    \<comment> \<open>\<^verbatim>\<open>policy_rules\<close>: the policy's id and the rule, in insertion order\<close>
  pd_alerts :: "alert list"
  pd_audit :: "audit_call list"

definition empty_policy_db :: policy_db where
  "empty_policy_db = \<lparr>pd_policies = [], pd_rules = [], pd_alerts = [], pd_audit = []\<rparr>"

definition policy_audit :: "string \<Rightarrow> string option \<Rightarrow> policy_db \<Rightarrow> policy_db" where
  [model_defs]: "policy_audit ev actor db = db\<lparr>pd_audit := audit ev actor True (pd_audit db)\<rparr>"

text \<open>\<^verbatim>\<open>ORDER BY created_at DESC LIMIT 1\<close> among the rows that match.\<close>

definition newest_where :: "('r \<Rightarrow> stamp) \<Rightarrow> ('r \<Rightarrow> bool) \<Rightarrow> 'r list \<Rightarrow> 'r option" where
  "newest_where stamp_of p rows =
     (case sort_key (\<lambda>r. - sort_instant (stamp_of r)) (filter p rows) of [] \<Rightarrow> None | r # _ \<Rightarrow> Some r)"

text \<open>A draw of random identifiers: up to ten short tokens, and the long one of the fallback.\<close>

type_synonym draw = "string list \<times> string"

fun fresh_id :: "string \<Rightarrow> ('r \<Rightarrow> string) \<Rightarrow> 'r list \<Rightarrow> draw \<Rightarrow> string" where
  "fresh_id pre key rows ([], fallback) = pre @ fallback"
| "fresh_id pre key rows (t # ts, fallback) =
     (if has_key key (pre @ t) rows then fresh_id pre key rows (ts, fallback) else pre @ t)"

section \<open>Alerts\<close>

definition dedup_key :: "string \<Rightarrow> string \<Rightarrow> rule_type \<Rightarrow> string" where
  "dedup_key dev pol rt = dev @ '':'' @ pol @ '':'' @ rule_type_value rt"

definition alert_open :: "alert \<Rightarrow> bool" where
  [model_defs]: "alert_open a \<longleftrightarrow> al_status a \<in> {AL_ACTIVE, AL_ACKNOWLEDGED}"

definition get_alert :: "policy_db \<Rightarrow> string \<Rightarrow> alert option" where
  "get_alert db aid = fetch_where (\<lambda>a. al_id a = aid) (pd_alerts db)"

definition find_open :: "policy_db \<Rightarrow> string \<Rightarrow> alert option" where
  "find_open db key = newest_where al_created (\<lambda>a. al_dedup a = key \<and> alert_open a) (pd_alerts db)"

definition update_alert :: "string \<Rightarrow> (alert \<Rightarrow> alert) \<Rightarrow> policy_db \<Rightarrow> policy_db" where
  [model_defs]: "update_alert aid f db = db\<lparr>pd_alerts := update_where (\<lambda>a. al_id a = aid) f (pd_alerts db)\<rparr>"

definition create_or_update_alert ::
  "int \<Rightarrow> draw \<Rightarrow> string \<Rightarrow> string \<Rightarrow> rule_type \<Rightarrow> alert_severity \<Rightarrow> alert_message \<Rightarrow>
   string option \<Rightarrow> policy_db \<Rightarrow> (policy_db, alert) outcome" where
  "create_or_update_alert now d dev pol rt sev msg trig db =
     (let key = dedup_key dev pol rt in
      case find_open db key of
        Some row \<Rightarrow>
          (let db1 = update_alert (al_id row)
                 (\<lambda>a. a\<lparr>al_last_seen := Aware now, al_message := msg, al_trigger := trig,
                        al_severity := sev\<rparr>) db
           in case get_alert db1 (al_id row) of
                Some a \<Rightarrow> returns a db1
              | None \<Rightarrow> returns (row\<lparr>al_device := dev, al_policy := pol, al_rule := rt,
                    al_severity := sev, al_message := msg, al_dedup := key, al_trigger := trig,
                    al_last_seen := Aware now, al_acknowledged := None, al_resolved := None,
                    al_dismissed := None\<rparr>) db1)
      | None \<Rightarrow>
          (let a = \<lparr>al_id = fresh_id ''ALT-'' al_id (pd_alerts db) d, al_device = dev, al_policy = pol,
                    al_rule = rt, al_severity = sev, al_message = msg, al_status = AL_ACTIVE,
                    al_dedup = key, al_trigger = trig, al_created = Aware now,
                    al_last_seen = Aware now, al_acknowledged = None, al_resolved = None,
                    al_dismissed = None\<rparr>
           in case insert_row al_id a (pd_alerts db) of
                None \<Rightarrow> raises (Core StorageError) db
              | Some rows \<Rightarrow>
                  returns a (policy_audit ''ALERT_CREATED'' (Some dev) (db\<lparr>pd_alerts := rows\<rparr>))))"

definition auto_resolve_alert ::
  "int \<Rightarrow> string \<Rightarrow> string \<Rightarrow> rule_type \<Rightarrow> policy_db \<Rightarrow> alert option \<times> policy_db" where
  "auto_resolve_alert now dev pol rt db =
     (case find_open db (dedup_key dev pol rt) of
        None \<Rightarrow> (None, db)
      | Some row \<Rightarrow>
          (let db1 = policy_audit ''ALERT_RESOLVED'' (Some dev)
                 (update_alert (al_id row)
                   (\<lambda>a. a\<lparr>al_status := AL_RESOLVED, al_resolved := Some (Aware now)\<rparr>) db)
           in (get_alert db1 (al_id row), db1)))"

text \<open>\<^verbatim>\<open>actor_id or alert.device_id\<close>.\<close>

definition actor_or :: "string option \<Rightarrow> string \<Rightarrow> string option" where
  [model_defs]: "actor_or actor d =
     (case actor of None \<Rightarrow> Some d | Some a \<Rightarrow> if a = [] then Some d else Some a)"

definition acknowledge_alert ::
  "int \<Rightarrow> string \<Rightarrow> string option \<Rightarrow> policy_db \<Rightarrow> (policy_db, bool) outcome" where
  "acknowledge_alert now aid actor db =
     (case get_alert db aid of
        None \<Rightarrow> raises (Policy AlertNotFoundError) db
      | Some a \<Rightarrow>
          if al_status a \<noteq> AL_ACTIVE then returns False db
          else returns True
            (policy_audit ''ALERT_ACKNOWLEDGED'' (actor_or actor (al_device a))
              (update_alert aid
                (\<lambda>x. x\<lparr>al_status := AL_ACKNOWLEDGED, al_acknowledged := Some (Aware now)\<rparr>) db)))"

definition dismiss_alert ::
  "int \<Rightarrow> string \<Rightarrow> string option \<Rightarrow> policy_db \<Rightarrow> (policy_db, bool) outcome" where
  "dismiss_alert now aid actor db =
     (case get_alert db aid of
        None \<Rightarrow> raises (Policy AlertNotFoundError) db
      | Some a \<Rightarrow>
          if al_status a \<in> {AL_DISMISSED, AL_RESOLVED} then returns False db
          else returns True
            (policy_audit ''ALERT_DISMISSED'' (actor_or actor (al_device a))
              (update_alert aid
                (\<lambda>x. x\<lparr>al_status := AL_DISMISSED, al_dismissed := Some (Aware now)\<rparr>) db)))"

definition resolve_alert ::
  "int \<Rightarrow> string \<Rightarrow> string option \<Rightarrow> policy_db \<Rightarrow> (policy_db, bool) outcome" where
  "resolve_alert now aid actor db =
     (case get_alert db aid of
        None \<Rightarrow> raises (Policy AlertNotFoundError) db
      | Some a \<Rightarrow>
          if al_status a = AL_RESOLVED then returns False db
          else returns True
            (policy_audit ''ALERT_RESOLVED'' (actor_or actor (al_device a))
              (update_alert aid
                (\<lambda>x. x\<lparr>al_status := AL_RESOLVED, al_resolved := Some (Aware now)\<rparr>) db)))"

fun severity_value :: "alert_severity \<Rightarrow> string" where
  "severity_value SEV_INFO = ''INFO''"
| "severity_value SEV_WARNING = ''WARNING''"
| "severity_value SEV_CRITICAL = ''CRITICAL''"

fun alert_status_value :: "alert_status \<Rightarrow> string" where
  "alert_status_value AL_ACTIVE = ''ACTIVE''"
| "alert_status_value AL_ACKNOWLEDGED = ''ACKNOWLEDGED''"
| "alert_status_value AL_RESOLVED = ''RESOLVED''"
| "alert_status_value AL_DISMISSED = ''DISMISSED''"

definition severity_from_str :: "string \<Rightarrow> alert_severity" where
  "severity_from_str s =
     (case enum_of severity_value [SEV_INFO, SEV_WARNING, SEV_CRITICAL] s of Some v \<Rightarrow> v | None \<Rightarrow> SEV_WARNING)"

definition status_from_str :: "string \<Rightarrow> alert_status" where
  "status_from_str s =
     (case enum_of alert_status_value [AL_ACTIVE, AL_ACKNOWLEDGED, AL_RESOLVED, AL_DISMISSED] s of
        Some v \<Rightarrow> v | None \<Rightarrow> AL_ACTIVE)"

text \<open>A filter that is \<^verbatim>\<open>None\<close> or empty does not apply; \<^verbatim>\<open>today\<close> starts at midnight UTC.\<close>

definition matches :: "(string \<Rightarrow> bool) \<Rightarrow> string option \<Rightarrow> bool" where
  [model_defs]: "matches p f = (case f of None \<Rightarrow> True | Some x \<Rightarrow> x = [] \<or> p x)"

definition day :: int where [model_defs]: "day = 86400 * second"

definition list_alerts ::
  "int \<Rightarrow> string option \<Rightarrow> string option \<Rightarrow> string option \<Rightarrow> bool \<Rightarrow> int \<Rightarrow> policy_db \<Rightarrow> alert list" where
  "list_alerts now dev sev stat today limit db =
     sql_limit limit
       (sort_key (\<lambda>a. - sort_instant (al_created a))
         (filter (\<lambda>a. matches (\<lambda>x. al_device a = x) dev \<and>
                      matches (\<lambda>x. severity_value (al_severity a) = py_upper x) sev \<and>
                      matches (\<lambda>x. alert_status_value (al_status a) = py_upper x) stat \<and>
                      (today \<longrightarrow> (now div day) * day \<le> sort_instant (al_created a))) (pd_alerts db)))"

definition get_active_alerts ::
  "int \<Rightarrow> string option \<Rightarrow> string option \<Rightarrow> policy_db \<Rightarrow> alert list" where
  "get_active_alerts now dev sev db = list_alerts now dev sev (Some ''ACTIVE'') False 100 db"

text \<open>The cutoff is \<^verbatim>\<open>retention_days or config.alert_retention_days\<close> days before the clock.\<close>

definition cleanup_alert_retention :: "int \<Rightarrow> int \<Rightarrow> int option \<Rightarrow> policy_db \<Rightarrow> nat \<times> policy_db" where
  "cleanup_alert_retention now cfg_days retention db =
     (let days = (case retention of None \<Rightarrow> cfg_days | Some d \<Rightarrow> if d = 0 then cfg_days else d);
          old = (\<lambda>a. al_status a \<in> {AL_RESOLVED, AL_DISMISSED} \<and>
                      sort_instant (al_created a) < now - days * day)
      in (length (filter old (pd_alerts db)),
          policy_audit ''ALERT_CLEANUP'' None (db\<lparr>pd_alerts := filter (\<lambda>a. \<not> old a) (pd_alerts db)\<rparr>)))"

section \<open>The engine\<close>

record policy_config =
  default_battery_threshold :: int
  default_storage_threshold :: int
  default_offline_duration_seconds :: int
  default_degraded_duration_seconds :: int
  policy_evaluation_enabled :: bool

text \<open>A list of results: the values, or the first exception.\<close>

fun collect :: "(gm_error + 'a) list \<Rightarrow> gm_error + 'a list" where
  "collect [] = Inr []"
| "collect (Inl e # rs) = Inl e"
| "collect (Inr x # rs) = (case collect rs of Inl e \<Rightarrow> Inl e | Inr xs \<Rightarrow> Inr (x # xs))"

definition plain_rule :: "rule_type \<Rightarrow> rat option \<Rightarrow> int option \<Rightarrow> alert_severity \<Rightarrow> policy_rule" where
  "plain_rule rt thr dur sev =
     \<lparr>ru_type = rt, ru_enabled = True, ru_threshold = thr, ru_duration = dur, ru_severity = sev\<rparr>"

definition get_default_rules :: "policy_config \<Rightarrow> gm_error + policy_rule list" where
  "get_default_rules cfg = collect (map rule_post_init
     [plain_rule LOW_BATTERY (Some (of_int (default_battery_threshold cfg))) None SEV_WARNING,
      plain_rule LOW_STORAGE (Some (of_int (default_storage_threshold cfg))) None SEV_WARNING,
      plain_rule HEARTBEAT_DELAYED None (Some (default_degraded_duration_seconds cfg)) SEV_WARNING,
      plain_rule OFFLINE None (Some (default_offline_duration_seconds cfg)) SEV_CRITICAL,
      plain_rule DEGRADED_CONNECTION None None SEV_WARNING])"

record policy =
  pl_id :: string
  pl_device :: string
  pl_name :: string
  pl_enabled :: bool
  pl_rules :: "policy_rule list"
  pl_created :: stamp
  pl_updated :: stamp

definition create_policy ::
  "policy_config \<Rightarrow> int \<Rightarrow> draw \<Rightarrow> string \<Rightarrow> string \<Rightarrow> policy_rule list option \<Rightarrow> bool \<Rightarrow> policy_db \<Rightarrow>
   (policy_db, policy) outcome" where
  "create_policy cfg now d dev name rules enabled db =
     (if \<not> valid_id dev then raises (Core ValidationError) db
      else
        (let pid = fresh_id ''POL-'' po_id (pd_policies db) d in
         case (case rules of Some rs \<Rightarrow> Inr rs | None \<Rightarrow> get_default_rules cfg) of
           Inl e \<Rightarrow> raises e db
         | Inr rs \<Rightarrow>
            (case insert_row po_id
                 \<lparr>po_id = pid, po_device = dev, po_name = py_strip name, po_enabled = enabled,
                  po_created = Aware now, po_updated = Aware now\<rparr> (pd_policies db) of
               None \<Rightarrow> raises (Builtin SqliteIntegrityError) db
             | Some rows \<Rightarrow>
                 returns
                   \<lparr>pl_id = pid, pl_device = dev, pl_name = py_strip name, pl_enabled = enabled,
                    pl_rules = rs, pl_created = Aware now, pl_updated = Aware now\<rparr>
                   (policy_audit ''POLICY_CREATED'' (Some dev)
                     (db\<lparr>pd_policies := rows, pd_rules := pd_rules db @ map (Pair pid) rs\<rparr>)))))"

text \<open>The rules are read back through the dataclass, whose checks may raise.\<close>

definition get_policy :: "policy_db \<Rightarrow> string \<Rightarrow> gm_error + policy option" where
  "get_policy db pid =
     (case fetch_where (\<lambda>p. po_id p = pid) (pd_policies db) of
        None \<Rightarrow> Inr None
      | Some p \<Rightarrow>
         (case collect (map (\<lambda>r. rule_post_init (snd r)) (filter (\<lambda>r. fst r = pid) (pd_rules db))) of
            Inl e \<Rightarrow> Inl e
          | Inr rs \<Rightarrow>
              Inr (Some \<lparr>pl_id = po_id p, pl_device = po_device p, pl_name = po_name p,
                         pl_enabled = po_enabled p, pl_rules = rs, pl_created = po_created p,
                         pl_updated = po_updated p\<rparr>)))"

definition get_device_policy :: "policy_db \<Rightarrow> string \<Rightarrow> gm_error + policy option" where
  "get_device_policy db dev =
     (case newest_where po_created (\<lambda>p. po_device p = dev) (pd_policies db) of
        None \<Rightarrow> Inr None | Some p \<Rightarrow> get_policy db (po_id p))"

definition ensure_default_policy ::
  "policy_config \<Rightarrow> int \<Rightarrow> draw \<Rightarrow> string \<Rightarrow> policy_db \<Rightarrow> (policy_db, policy) outcome" where
  "ensure_default_policy cfg now d dev db =
     (case get_device_policy db dev of
        Inl e \<Rightarrow> raises e db
      | Inr (Some p) \<Rightarrow> returns p db
      | Inr None \<Rightarrow> create_policy cfg now d dev ''Default Health Policy'' None True db)"

definition list_policies :: "policy_db \<Rightarrow> string option \<Rightarrow> gm_error + policy list" where
  "list_policies db dev =
     (case collect (map (\<lambda>p. get_policy db (po_id p))
             (sort_key (\<lambda>p. - sort_instant (po_created p))
               (filter (\<lambda>p. case dev of None \<Rightarrow> True | Some x \<Rightarrow> x = [] \<or> po_device p = x) (pd_policies db)))) of
        Inl e \<Rightarrow> Inl e
      | Inr ps \<Rightarrow> Inr (List.map_filter id ps))"

definition set_policy_enabled ::
  "bool \<Rightarrow> int \<Rightarrow> string \<Rightarrow> policy_db \<Rightarrow> (policy_db, bool) outcome" where
  "set_policy_enabled flag now pid db =
     (if \<not> has_key po_id pid (pd_policies db) then raises (Policy PolicyNotFoundError) db
      else returns True
        (policy_audit (if flag then ''POLICY_ENABLED'' else ''POLICY_DISABLED'') None
          (db\<lparr>pd_policies := update_where (\<lambda>p. po_id p = pid)
                (\<lambda>p. p\<lparr>po_enabled := flag, po_updated := Aware now\<rparr>) (pd_policies db)\<rparr>)))"

definition enable_policy :: "int \<Rightarrow> string \<Rightarrow> policy_db \<Rightarrow> (policy_db, bool) outcome" where
  "enable_policy = set_policy_enabled True"

definition disable_policy :: "int \<Rightarrow> string \<Rightarrow> policy_db \<Rightarrow> (policy_db, bool) outcome" where
  "disable_policy = set_policy_enabled False"

text \<open>The exception rolls the transaction back.\<close>

definition delete_policy :: "string \<Rightarrow> policy_db \<Rightarrow> (policy_db, bool) outcome" where
  "delete_policy pid db =
     (if \<not> has_key po_id pid (pd_policies db) then raises (Policy PolicyNotFoundError) db
      else returns True
        (policy_audit ''POLICY_DELETED'' None
          (db\<lparr>pd_rules := filter (\<lambda>r. fst r \<noteq> pid) (pd_rules db),
              pd_policies := filter (\<lambda>p. po_id p \<noteq> pid) (pd_policies db)\<rparr>)))"

text \<open>One turn of the loop over the rules; \<open>draws i\<close> are the random identifiers of turn \<open>i\<close>.\<close>

definition apply_rule ::
  "(rat \<Rightarrow> rat) \<Rightarrow> int \<Rightarrow> draw \<Rightarrow> string \<Rightarrow> health_summary \<Rightarrow> policy_rule \<Rightarrow> policy_db \<Rightarrow>
   (policy_db, alert option) outcome" where
  "apply_rule rnd now d pid s r db =
     (case evaluate_rule rnd r s of
        Some (msg, sev) \<Rightarrow>
          (case create_or_update_alert now d (hm_device s) pid (ru_type r) sev msg
                  (if ru_type r = LOW_BATTERY
                   then Some (case hm_battery s of None \<Rightarrow> ''None'' | Some b \<Rightarrow> int_str b) else None) db of
             (Inl e, db') \<Rightarrow> raises e db'
           | (Inr a, db') \<Rightarrow> returns (Some a) db')
      | None \<Rightarrow> returns None (snd (auto_resolve_alert now (hm_device s) pid (ru_type r) db)))"

fun apply_rules ::
  "(rat \<Rightarrow> rat) \<Rightarrow> int \<Rightarrow> (nat \<Rightarrow> draw) \<Rightarrow> string \<Rightarrow> health_summary \<Rightarrow> nat \<Rightarrow> policy_rule list \<Rightarrow>
   policy_db \<Rightarrow> (policy_db, alert list) outcome" where
  "apply_rules rnd now draws pid s i [] db = returns [] db"
| "apply_rules rnd now draws pid s i (r # rs) db =
     (case apply_rule rnd now (draws i) pid s r db of
        (Inl e, db') \<Rightarrow> raises e db'
      | (Inr oa, db') \<Rightarrow>
         (case apply_rules rnd now draws pid s (Suc i) rs db' of
            (Inl e, db'') \<Rightarrow> raises e db''
          | (Inr as, db'') \<Rightarrow> returns ((case oa of None \<Rightarrow> [] | Some a \<Rightarrow> [a]) @ as) db''))"

definition evaluate_device_health ::
  "(rat \<Rightarrow> rat) \<Rightarrow> policy_config \<Rightarrow> int \<Rightarrow> draw \<Rightarrow> (nat \<Rightarrow> draw) \<Rightarrow> pairing_db \<Rightarrow> health_summary \<Rightarrow>
   string \<Rightarrow> policy_db \<Rightarrow> (policy_db, alert list) outcome" where
  "evaluate_device_health rnd cfg now d draws trust s me db =
     (if \<not> is_trusted trust me (hm_device s) then returns [] db
      else case ensure_default_policy cfg now d (hm_device s) db of
        (Inl e, db') \<Rightarrow> raises e db'
      | (Inr p, db') \<Rightarrow>
          if \<not> pl_enabled p \<or> \<not> policy_evaluation_enabled cfg then returns [] db'
          else apply_rules rnd now draws (pl_id p) s 0 (pl_rules p) db')"

end
