(* ===== verification/PolicyProps.thy ===== *)
theory PolicyProps
  imports Policy Interfaces
begin

text \<open>
  What the policy engine guarantees: alerts are deduplicated, their status only moves forward,
  an evaluation leaves exactly the triggered rules with an open alert, and a created policy is
  read back as it was created.
\<close>

section \<open>The alert lifecycle\<close>

definition alert_step :: "alert_status \<Rightarrow> alert_status \<Rightarrow> bool" where
  [model_defs]: "alert_step s t \<longleftrightarrow>
     (s = AL_ACTIVE \<and> t \<noteq> AL_ACTIVE) \<or>
     (s = AL_ACKNOWLEDGED \<and> t \<in> {AL_RESOLVED, AL_DISMISSED}) \<or>
     (s = AL_DISMISSED \<and> t = AL_RESOLVED)"

fun alert_rank :: "alert_status \<Rightarrow> nat" where
  "alert_rank AL_ACTIVE = 0"
| "alert_rank AL_ACKNOWLEDGED = 1"
| "alert_rank AL_DISMISSED = 2"
| "alert_rank AL_RESOLVED = 3"

interpretation alert_life: lifecycle alert_step "\<lambda>s. s = AL_RESOLVED" alert_rank 3
proof unfold_locales
  fix s show "s = AL_RESOLVED \<longleftrightarrow> (\<forall>t. \<not> alert_step s t)" by (cases s) (auto simp: alert_step_def)
next
  fix s t assume "alert_step s t"
  then show "alert_rank s < alert_rank t" by (cases s; cases t) (auto simp: alert_step_def)
next
  fix s show "alert_rank s \<le> 3" by (cases s) auto
qed

section \<open>The invariant of the alert table\<close>

definition open_keys :: "alert list \<Rightarrow> string list" where
  "open_keys as = map al_dedup (filter alert_open as)"

definition alerts_inv :: "policy_db \<Rightarrow> bool" where
  "alerts_inv db \<longleftrightarrow> keyed al_id (pd_alerts db) \<and> distinct (open_keys (pd_alerts db))"

text \<open>The rules belong to policies, and each policy has one row.\<close>

definition rules_inv :: "policy_db \<Rightarrow> bool" where
  "rules_inv db \<longleftrightarrow> keyed po_id (pd_policies db) \<and> fst ` set (pd_rules db) \<subseteq> po_id ` set (pd_policies db)"

lemma newest_None: "newest_where stamp_of p rows = None \<longleftrightarrow> (\<forall>r \<in> set rows. \<not> p r)"
proof -
  have "set (sort_key (\<lambda>r. - sort_instant (stamp_of r)) (filter p rows)) = set (filter p rows)" by simp
  then show ?thesis
    unfolding newest_where_def
    by (cases "sort_key (\<lambda>r. - sort_instant (stamp_of r)) (filter p rows)") auto
qed

lemma newest_Some: "newest_where stamp_of p rows = Some r \<Longrightarrow> r \<in> set rows \<and> p r"
proof -
  assume r: "newest_where stamp_of p rows = Some r"
  have "set (sort_key (\<lambda>r. - sort_instant (stamp_of r)) (filter p rows)) = set (filter p rows)" by simp
  with r show ?thesis
    unfolding newest_where_def
    by (cases "sort_key (\<lambda>r. - sort_instant (stamp_of r)) (filter p rows)") auto
qed

lemma find_open_iff: "find_open db key \<noteq> None \<longleftrightarrow> key \<in> set (open_keys (pd_alerts db))"
  using newest_None[of al_created "\<lambda>a. al_dedup a = key \<and> alert_open a" "pd_alerts db"]
  by (force simp: find_open_def open_keys_def)

lemma find_open_Some:
  "find_open db key = Some a \<Longrightarrow> a \<in> set (pd_alerts db) \<and> al_dedup a = key \<and> alert_open a"
  unfolding find_open_def by (drule newest_Some) simp

text \<open>
  An update of one alert that keeps its id and key, and does not open a closed one, keeps the
  invariant; what it does to the open keys depends on whether it closes the alert.
\<close>

lemma open_keys_update_same:
  assumes "\<And>a. al_dedup (f a) = al_dedup a" and "\<And>a. alert_open (f a) = alert_open a"
  shows "open_keys (update_where p f as) = open_keys as"
  using assms by (induction as) (auto simp: open_keys_def update_where_def)

lemma open_keys_update_close:
  assumes "keyed al_id as" and "a \<in> set as" and "alert_open a" and "distinct (open_keys as)"
    and "\<And>x. \<not> alert_open (f x)"
  shows "open_keys (update_where (\<lambda>x. al_id x = al_id a) f as) = removeAll (al_dedup a) (open_keys as)"
  using assms
proof (induction as)
  case Nil
  then show ?case by simp
next
  case (Cons x xs)
  show ?case
  proof (cases "al_id x = al_id a")
    case True
    then have xa: "x = a" using Cons.prems keyed_same by (metis list.set_intros(1))
    have rest: "update_where (\<lambda>x. al_id x = al_id a) f xs = xs"
    proof -
      have "al_id y \<noteq> al_id a" if "y \<in> set xs" for y
        using Cons.prems(1) xa that by (auto simp: keyed_def rev_image_eqI)
      then show ?thesis by (simp add: update_where_def map_idI)
    qed
    have "al_dedup a \<notin> set (open_keys xs)" using Cons.prems(3,4) xa by (simp add: open_keys_def)
    with xa rest Cons.prems(3,5) show ?thesis
      by (simp add: open_keys_def update_where_def)
  next
    case False
    then have mem: "a \<in> set xs" using Cons.prems(2) by auto
    have IH: "open_keys (update_where (\<lambda>x. al_id x = al_id a) f xs) = removeAll (al_dedup a) (open_keys xs)"
      using Cons mem by (auto simp: keyed_def open_keys_def split: if_splits)
    have "al_dedup x \<noteq> al_dedup a" if "alert_open x"
      using Cons.prems(3,4) mem that by (auto simp: open_keys_def)
    with IH False show ?thesis by (auto simp: open_keys_def update_where_def)
  qed
qed

lemma open_keys_subset:
  assumes "\<And>a. al_dedup (f a) = al_dedup a" and "\<And>a. alert_open (f a) \<Longrightarrow> alert_open a"
    and "distinct (open_keys as)"
  shows "distinct (open_keys (update_where p f as)) \<and>
         set (open_keys (update_where p f as)) \<subseteq> set (open_keys as)"
  using assms by (induction as) (auto simp: open_keys_def update_where_def)

lemma alerts_inv_update:
  assumes "alerts_inv db" and "\<And>a. al_id (f a) = al_id a" and "\<And>a. al_dedup (f a) = al_dedup a"
    and "\<And>a. alert_open (f a) \<Longrightarrow> alert_open a"
  shows "alerts_inv (update_alert aid f db)"
  using assms open_keys_subset[of f "pd_alerts db", OF assms(3,4)]
  by (simp add: alerts_inv_def update_alert_def keyed_update_where)

lemma alerts_inv_audit [simp]: "alerts_inv (policy_audit e a db) \<longleftrightarrow> alerts_inv db"
  by (simp add: alerts_inv_def policy_audit_def)

lemma policy_audit_tables [simp]:
  "pd_alerts (policy_audit e a db) = pd_alerts db" "pd_rules (policy_audit e a db) = pd_rules db"
  "pd_policies (policy_audit e a db) = pd_policies db"
  by (simp_all add: policy_audit_def)

section \<open>Every operation keeps it\<close>

lemma get_alert_mem: "get_alert db aid = Some a \<Longrightarrow> a \<in> set (pd_alerts db) \<and> al_id a = aid"
  unfolding get_alert_def by (drule fetch_where_Some) simp

text \<open>After raising an alert its key is open, and no other key has changed.\<close>

lemma raise_alert:
  assumes "alerts_inv db" and "create_or_update_alert now d dev pol rt sev msg trig db = (r, db')"
  shows "alerts_inv db' \<and>
     (case r of Inl _ \<Rightarrow> db' = db
      | Inr _ \<Rightarrow> set (open_keys (pd_alerts db')) = insert (dedup_key dev pol rt) (set (open_keys (pd_alerts db))))"
proof (cases "find_open db (dedup_key dev pol rt)")
  case (Some row)
  let ?f = "\<lambda>a. a\<lparr>al_last_seen := Aware now, al_message := msg, al_trigger := trig, al_severity := sev\<rparr>"
  have "db' = update_alert (al_id row) ?f db \<and> (\<exists>x. r = Inr x)"
    using assms(2) Some by (auto simp: create_or_update_alert_def Let_def split: option.splits)
  moreover have "alerts_inv (update_alert (al_id row) ?f db)"
    by (rule alerts_inv_update[OF assms(1)]) (simp_all add: alert_open_def)
  moreover have "open_keys (pd_alerts (update_alert (al_id row) ?f db)) = open_keys (pd_alerts db)"
    using open_keys_update_same[of ?f] by (simp add: update_alert_def alert_open_def)
  moreover have "dedup_key dev pol rt \<in> set (open_keys (pd_alerts db))"
    using Some find_open_iff[of db "dedup_key dev pol rt"] by simp
  ultimately show ?thesis by (auto split: sum.split)
next
  case None
  then have fresh: "dedup_key dev pol rt \<notin> set (open_keys (pd_alerts db))"
    using find_open_iff[of db "dedup_key dev pol rt"] by simp
  define a where "a = \<lparr>al_id = fresh_id ''ALT-'' al_id (pd_alerts db) d, al_device = dev, al_policy = pol,
      al_rule = rt, al_severity = sev, al_message = msg, al_status = AL_ACTIVE,
      al_dedup = dedup_key dev pol rt, al_trigger = trig, al_created = Aware now,
      al_last_seen = Aware now, al_acknowledged = None, al_resolved = None, al_dismissed = None\<rparr>"
  have eq: "create_or_update_alert now d dev pol rt sev msg trig db =
      (case insert_row al_id a (pd_alerts db) of None \<Rightarrow> raises (Core StorageError) db
       | Some rows \<Rightarrow> returns a (policy_audit ''ALERT_CREATED'' (Some dev) (db\<lparr>pd_alerts := rows\<rparr>)))"
    unfolding a_def using None by (simp add: create_or_update_alert_def Let_def)
  show ?thesis
  proof (cases "insert_row al_id a (pd_alerts db)")
    case None
    with eq assms show ?thesis by auto
  next
    case (Some rows)
    have rows: "rows = pd_alerts db @ [a]" using Some by (simp add: insert_row_def split: if_splits)
    have "keyed al_id rows" using assms(1) Some keyed_insert_row by (auto simp: alerts_inv_def)
    moreover have "open_keys rows = open_keys (pd_alerts db) @ [dedup_key dev pol rt]"
      by (simp add: rows open_keys_def a_def alert_open_def)
    ultimately have "alerts_inv db' \<and> (\<exists>x. r = Inr x) \<and>
        set (open_keys (pd_alerts db')) = insert (dedup_key dev pol rt) (set (open_keys (pd_alerts db)))"
      using eq assms Some fresh by (auto simp: alerts_inv_def)
    then show ?thesis by (auto split: sum.split)
  qed
qed

lemma resolve_open:
  assumes "alerts_inv db"
  shows "alerts_inv (snd (auto_resolve_alert now dev pol rt db)) \<and>
     set (open_keys (pd_alerts (snd (auto_resolve_alert now dev pol rt db)))) =
       set (open_keys (pd_alerts db)) - {dedup_key dev pol rt}"
proof (cases "find_open db (dedup_key dev pol rt)")
  case None
  then show ?thesis
    using assms find_open_iff[of db "dedup_key dev pol rt"] by (simp add: auto_resolve_alert_def)
next
  case (Some row)
  let ?f = "\<lambda>a. a\<lparr>al_status := AL_RESOLVED, al_resolved := Some (Aware now)\<rparr>"
  note row = find_open_Some[OF Some]
  have "alerts_inv (update_alert (al_id row) ?f db)"
    by (rule alerts_inv_update[OF assms]) (simp_all add: alert_open_def)
  moreover have "open_keys (pd_alerts (update_alert (al_id row) ?f db)) =
      removeAll (dedup_key dev pol rt) (open_keys (pd_alerts db))"
    using open_keys_update_close[of "pd_alerts db" row ?f] row assms
    by (simp add: alerts_inv_def update_alert_def alert_open_def)
  ultimately show ?thesis
    using Some by (simp add: auto_resolve_alert_def Let_def)
qed

lemma decide_alert_inv:
  assumes "alerts_inv db"
  shows "alerts_inv (snd (acknowledge_alert now aid actor db))"
    and "alerts_inv (snd (dismiss_alert now aid actor db))"
    and "alerts_inv (snd (resolve_alert now aid actor db))"
proof -
  show "alerts_inv (snd (dismiss_alert now aid actor db))"
    using alerts_inv_update[OF assms, of "\<lambda>x. x\<lparr>al_status := AL_DISMISSED, al_dismissed := Some (Aware now)\<rparr>" aid] assms
    by (simp add: dismiss_alert_def alert_open_def split: option.split)
  show "alerts_inv (snd (resolve_alert now aid actor db))"
    using alerts_inv_update[OF assms, of "\<lambda>x. x\<lparr>al_status := AL_RESOLVED, al_resolved := Some (Aware now)\<rparr>" aid] assms
    by (simp add: resolve_alert_def alert_open_def split: option.split)
  show "alerts_inv (snd (acknowledge_alert now aid actor db))"
  proof (cases "get_alert db aid")
    case None
    with assms show ?thesis by (simp add: acknowledge_alert_def)
  next
    case (Some a)
    let ?f = "\<lambda>x. if al_status x = AL_ACTIVE
        then x\<lparr>al_status := AL_ACKNOWLEDGED, al_acknowledged := Some (Aware now)\<rparr> else x"
    have same: "update_where (\<lambda>x. al_id x = aid)
          (\<lambda>x. x\<lparr>al_status := AL_ACKNOWLEDGED, al_acknowledged := Some (Aware now)\<rparr>) (pd_alerts db) =
        update_where (\<lambda>x. al_id x = aid) ?f (pd_alerts db)" if "al_status a = AL_ACTIVE"
      using that keyed_same[of al_id "pd_alerts db" _ a] get_alert_mem[OF Some] assms
      by (auto simp: update_where_def alerts_inv_def)
    have "alerts_inv (update_alert aid ?f db)"
      by (rule alerts_inv_update[OF assms]) (simp_all add: alert_open_def split: if_split_asm)
    with Some same assms show ?thesis by (simp add: acknowledge_alert_def update_alert_def)
  qed
qed

lemma cleanup_inv:
  assumes "alerts_inv db"
  shows "alerts_inv (snd (cleanup_alert_retention now cfg_days ret db))"
proof -
  have "distinct (map al_dedup (filter q (filter alert_open (pd_alerts db))))" for q
    using assms by (simp add: alerts_inv_def open_keys_def distinct_map_filter del: filter_filter)
  moreover have "filter alert_open (filter q (pd_alerts db)) = filter q (filter alert_open (pd_alerts db))" for q
    by (simp add: conj_commute)
  ultimately have "keyed al_id (filter q (pd_alerts db)) \<and> distinct (open_keys (filter q (pd_alerts db)))" for q
    using assms by (auto simp: alerts_inv_def keyed_def open_keys_def intro: distinct_map_filter)
  then show ?thesis by (simp add: cleanup_alert_retention_def Let_def alerts_inv_def)
qed

lemma apply_rule_inv:
  assumes "alerts_inv db" and "apply_rule rnd now d pid s r db = (x, db')"
  shows "alerts_inv db' \<and>
     (case x of Inl _ \<Rightarrow> True
      | Inr _ \<Rightarrow> set (open_keys (pd_alerts db')) =
          (if evaluate_rule rnd r s = None
           then set (open_keys (pd_alerts db)) - {dedup_key (hm_device s) pid (ru_type r)}
           else insert (dedup_key (hm_device s) pid (ru_type r)) (set (open_keys (pd_alerts db)))))"
proof (cases "evaluate_rule rnd r s")
  case None
  then have "x = Inr None \<and> db' = snd (auto_resolve_alert now (hm_device s) pid (ru_type r) db)"
    using assms(2) by (simp add: apply_rule_def)
  with None resolve_open[OF assms(1), of now "hm_device s" pid "ru_type r"] show ?thesis by simp
next
  case (Some p)
  obtain msg sev where p: "p = (msg, sev)" by (cases p)
  let ?trig = "if ru_type r = LOW_BATTERY
      then Some (case hm_battery s of None \<Rightarrow> ''None'' | Some b \<Rightarrow> int_str b) else None"
  obtain y db1 where y: "create_or_update_alert now d (hm_device s) pid (ru_type r) sev msg ?trig db = (y, db1)"
    by (rule prod.exhaust)
  note raised = raise_alert[OF assms(1) y]
  show ?thesis
  proof (cases y)
    case (Inl e)
    then have "x = Inl e \<and> db' = db1"
      using assms(2) Some p y by (simp add: apply_rule_def split del: if_split)
    with raised show ?thesis by simp
  next
    case (Inr a)
    then have "x = Inr (Some a) \<and> db' = db1"
      using assms(2) Some p y by (simp add: apply_rule_def split del: if_split)
    with raised Inr Some show ?thesis by simp
  qed
qed

lemma apply_rules_inv:
  "alerts_inv db \<Longrightarrow> alerts_inv (snd (apply_rules rnd now draws pid s i rs db))"
proof (induction rs arbitrary: i db)
  case Nil
  then show ?case by simp
next
  case (Cons r rs)
  obtain x db1 where x: "apply_rule rnd now (draws i) pid s r db = (x, db1)" by (rule prod.exhaust)
  obtain y db2 where y: "apply_rules rnd now draws pid s (Suc i) rs db1 = (y, db2)" by (rule prod.exhaust)
  have "alerts_inv db1" using apply_rule_inv[OF Cons.prems x] by simp
  from Cons.IH[OF this, of "Suc i"] this x y show ?case by (simp split: sum.split)
qed

lemma create_policy_alerts:
  "pd_alerts (snd (create_policy cfg now d dev name rules en db)) = pd_alerts db"
  by (simp add: create_policy_def Let_def split: sum.split option.split)

lemma alerts_inv_same: "pd_alerts db' = pd_alerts db \<Longrightarrow> alerts_inv db' = alerts_inv db"
  by (simp add: alerts_inv_def)

lemma ensure_policy_alerts:
  "pd_alerts (snd (ensure_default_policy cfg now d dev db)) = pd_alerts db"
  by (simp add: ensure_default_policy_def create_policy_alerts split: sum.split option.split)

lemma evaluate_inv:
  assumes "alerts_inv db"
  shows "alerts_inv (snd (evaluate_device_health rnd cfg now d draws trust s me db))"
proof -
  obtain x db1 where x: "ensure_default_policy cfg now d (hm_device s) db = (x, db1)" by (rule prod.exhaust)
  have "alerts_inv db1"
    using alerts_inv_same[OF ensure_policy_alerts, of cfg now d "hm_device s" db] assms x by simp
  with assms x apply_rules_inv[OF this] show ?thesis
    by (simp add: evaluate_device_health_def split: sum.split)
qed

section \<open>Runs\<close>

datatype policy_action =
    PCreate int draw string string "policy_rule list option" bool
  | PSet bool int string
  | PDelete string
  | PEvaluate int draw "nat \<Rightarrow> draw" pairing_db health_summary string
  | PAcknowledge int string "string option"
  | PDismiss int string "string option"
  | PResolve int string "string option"
  | PCleanup int int "int option"

fun policy_exec :: "(rat \<Rightarrow> rat) \<Rightarrow> policy_config \<Rightarrow> policy_action \<Rightarrow> policy_db \<Rightarrow> policy_db" where
  "policy_exec rnd cfg (PCreate now d dev name rules en) db =
     snd (create_policy cfg now d dev name rules en db)"
| "policy_exec rnd cfg (PSet flag now pid) db =
     snd ((if flag then enable_policy else disable_policy) now pid db)"
| "policy_exec rnd cfg (PDelete pid) db = snd (delete_policy pid db)"
| "policy_exec rnd cfg (PEvaluate now d draws trust s me) db =
     snd (evaluate_device_health rnd cfg now d draws trust s me db)"
| "policy_exec rnd cfg (PAcknowledge now aid actor) db = snd (acknowledge_alert now aid actor db)"
| "policy_exec rnd cfg (PDismiss now aid actor) db = snd (dismiss_alert now aid actor db)"
| "policy_exec rnd cfg (PResolve now aid actor) db = snd (resolve_alert now aid actor db)"
| "policy_exec rnd cfg (PCleanup now cfg_days ret) db = snd (cleanup_alert_retention now cfg_days ret db)"

definition policy_run :: "(rat \<Rightarrow> rat) \<Rightarrow> policy_config \<Rightarrow> policy_action list \<Rightarrow> policy_db" where
  "policy_run rnd cfg as = foldl (\<lambda>db a. policy_exec rnd cfg a db) empty_policy_db as"

lemma exec_alerts_inv: "alerts_inv db \<Longrightarrow> alerts_inv (policy_exec rnd cfg a db)"
proof (cases a)
  case (PSet flag now pid)
  assume "alerts_inv db"
  with PSet show ?thesis
    by (simp add: enable_policy_def disable_policy_def set_policy_enabled_def alerts_inv_def)
next
  case (PDelete pid)
  assume "alerts_inv db"
  with PDelete show ?thesis by (simp add: delete_policy_def alerts_inv_def)
qed (simp_all add: evaluate_inv decide_alert_inv cleanup_inv alerts_inv_same[OF create_policy_alerts])

lemma policy_run_inv: "alerts_inv (policy_run rnd cfg as)"
proof -
  have "alerts_inv (foldl (\<lambda>db a. policy_exec rnd cfg a db) db as)" if "alerts_inv db" for db
    using that by (induction as arbitrary: db) (simp_all add: exec_alerts_inv)
  then show ?thesis
    by (simp add: policy_run_def alerts_inv_def empty_policy_db_def keyed_def open_keys_def)
qed

text \<open>
  C10: alerts are deduplicated: whatever policies are created, switched and deleted, whatever
  summaries are evaluated and alerts acknowledged, dismissed, resolved or cleaned up, in any
  order, there is at most one open alert for each device, policy and rule, and each identifier
  names one alert.
\<close>

theorem alerts_deduplicated:
  "distinct (map al_dedup (filter alert_open (pd_alerts (policy_run rnd cfg as)))) \<and>
   distinct (map al_id (pd_alerts (policy_run rnd cfg as)))"
  using policy_run_inv[of rnd cfg as] by (simp add: alerts_inv_def open_keys_def keyed_def)

lemma rule_type_value_inj: "rule_type_value a = rule_type_value b \<longleftrightarrow> a = b"
  by (cases a; cases b) simp_all

lemma dedup_key_inj: "dedup_key dev pid a = dedup_key dev pid b \<longleftrightarrow> a = b"
  by (simp add: dedup_key_def rule_type_value_inj)

lemma apply_rules_open:
  assumes "alerts_inv db" and "distinct (map ru_type rs)"
    and "apply_rules rnd now draws pid s i rs db = (Inr as, db')"
  shows "dedup_key (hm_device s) pid t \<in> set (open_keys (pd_alerts db')) \<longleftrightarrow>
     (case find (\<lambda>r. ru_type r = t) rs of
        None \<Rightarrow> dedup_key (hm_device s) pid t \<in> set (open_keys (pd_alerts db))
      | Some r \<Rightarrow> evaluate_rule rnd r s \<noteq> None)"
  using assms
proof (induction rs arbitrary: i db as)
  case Nil
  then show ?case by simp
next
  case (Cons r rs)
  obtain x db1 where x: "apply_rule rnd now (draws i) pid s r db = (Inr x, db1)"
    using Cons.prems(3) by (auto split: prod.splits sum.splits)
  obtain ys where y: "apply_rules rnd now draws pid s (Suc i) rs db1 = (Inr ys, db')"
    using Cons.prems(3) x by (auto split: prod.splits sum.splits)
  note step = apply_rule_inv[OF Cons.prems(1) x]
  have IH: "dedup_key (hm_device s) pid t \<in> set (open_keys (pd_alerts db')) \<longleftrightarrow>
     (case find (\<lambda>r. ru_type r = t) rs of
        None \<Rightarrow> dedup_key (hm_device s) pid t \<in> set (open_keys (pd_alerts db1))
      | Some r \<Rightarrow> evaluate_rule rnd r s \<noteq> None)"
    using Cons.IH[of db1, OF _ _ y] Cons.prems(2) step by simp
  show ?case
  proof (cases "ru_type r = t")
    case True
    then have "find (\<lambda>r. ru_type r = t) rs = None"
      using Cons.prems(2) by (auto simp: find_None_iff image_iff)
    with True IH step show ?thesis by (auto split: if_splits)
  next
    case False
    with IH step show ?thesis
      by (auto simp: dedup_key_inj split: option.splits if_splits)
  qed
qed


section \<open>Alert statuses only move forward\<close>

definition status_follows :: "alert_status \<Rightarrow> alert_status \<Rightarrow> bool" where
  [model_defs]: "status_follows s t \<longleftrightarrow> s = t \<or> alert_step s t"

lemma status_follows_trans: "status_follows s t \<Longrightarrow> status_follows t u \<Longrightarrow> status_follows s u"
  by (cases s; cases t; cases u) (auto simp: status_follows_def alert_step_def)

definition alerts_follow :: "policy_db \<Rightarrow> policy_db \<Rightarrow> bool" where
  "alerts_follow db db' \<longleftrightarrow>
     (\<forall>aid a. get_alert db aid = Some a \<longrightarrow>
        (\<exists>a'. get_alert db' aid = Some a' \<and> status_follows (al_status a) (al_status a')))"

lemma alerts_follow_trans: "alerts_follow db db' \<Longrightarrow> alerts_follow db' db'' \<Longrightarrow> alerts_follow db db''"
  unfolding alerts_follow_def by (meson status_follows_trans)

lemma alerts_follow_same: "pd_alerts db' = pd_alerts db \<Longrightarrow> alerts_follow db db'"
  by (auto simp: alerts_follow_def get_alert_def status_follows_def)

lemma alerts_follow_audit [simp]: "alerts_follow db (policy_audit e a db') \<longleftrightarrow> alerts_follow db db'"
  by (simp add: alerts_follow_def get_alert_def)

lemma alerts_follow_update:
  assumes "\<And>a. al_id (f a) = al_id a"
    and "\<And>a. get_alert db aid = Some a \<Longrightarrow> status_follows (al_status a) (al_status (f a))"
  shows "alerts_follow db (update_alert aid f db)"
proof -
  have get: "get_alert (update_alert aid f db) k = map_option (\<lambda>a. if al_id a = aid then f a else a) (get_alert db k)" for k
    using assms(1) by (simp add: get_alert_def update_alert_def fetch_update_where)
  show ?thesis
    using assms(2) get_alert_mem[of db] by (auto simp: alerts_follow_def get status_follows_def)
qed

lemma raise_follows: "alerts_follow db (snd (create_or_update_alert now d dev pol rt sev msg trig db))"
proof (cases "find_open db (dedup_key dev pol rt)")
  case None
  have "alerts_follow db (db\<lparr>pd_alerts := rows\<rparr>)" if "insert_row al_id a (pd_alerts db) = Some rows" for a rows
    using that
    by (auto simp: alerts_follow_def get_alert_def insert_row_def table_simps status_follows_def split: if_splits)
  with None show ?thesis
    by (simp add: create_or_update_alert_def Let_def alerts_follow_same split: option.split)
next
  case (Some row)
  have "alerts_follow db (update_alert (al_id row) (\<lambda>a. a\<lparr>al_last_seen := Aware now, al_message := msg,
      al_trigger := trig, al_severity := sev\<rparr>) db)"
    by (rule alerts_follow_update) (simp_all add: status_follows_def)
  with Some show ?thesis by (simp add: create_or_update_alert_def Let_def split: option.split)
qed

lemma resolve_follows:
  assumes "alerts_inv db"
  shows "alerts_follow db (snd (auto_resolve_alert now dev pol rt db))"
proof (cases "find_open db (dedup_key dev pol rt)")
  case None
  then show ?thesis by (simp add: auto_resolve_alert_def alerts_follow_same)
next
  case (Some row)
  note row = find_open_Some[OF Some]
  have "status_follows (al_status a) AL_RESOLVED" if "get_alert db (al_id row) = Some a" for a
    by (cases "al_status a") (simp_all add: status_follows_def alert_step_def)
  then have "alerts_follow db (update_alert (al_id row) (\<lambda>a. a\<lparr>al_status := AL_RESOLVED, al_resolved := Some (Aware now)\<rparr>) db)"
    by (intro alerts_follow_update) simp_all
  with Some show ?thesis by (simp add: auto_resolve_alert_def Let_def)
qed

lemma apply_rule_follows:
  "alerts_inv db \<Longrightarrow> alerts_follow db (snd (apply_rule rnd now d pid s r db))"
  using raise_follows resolve_follows by (simp add: apply_rule_def split: option.split)

lemma apply_rules_follow:
  "alerts_inv db \<Longrightarrow> alerts_follow db (snd (apply_rules rnd now draws pid s i rs db))"
proof (induction rs arbitrary: i db)
  case Nil
  then show ?case by (simp add: alerts_follow_same)
next
  case (Cons r rs)
  obtain x db1 where x: "apply_rule rnd now (draws i) pid s r db = (x, db1)" by (rule prod.exhaust)
  obtain y db2 where y: "apply_rules rnd now draws pid s (Suc i) rs db1 = (y, db2)" by (rule prod.exhaust)
  have one: "alerts_follow db db1" using apply_rule_follows[OF Cons.prems, of rnd now "draws i" pid s r] x by simp
  have "alerts_inv db1" using apply_rule_inv[OF Cons.prems x] by simp
  from alerts_follow_trans[OF one Cons.IH[OF this, of "Suc i"]] one x y show ?case
    by (simp split: sum.split)
qed

lemma evaluate_follows:
  assumes "alerts_inv db"
  shows "alerts_follow db (snd (evaluate_device_health rnd cfg now d draws trust s me db))"
proof -
  obtain x db1 where x: "ensure_default_policy cfg now d (hm_device s) db = (x, db1)" by (rule prod.exhaust)
  have same: "pd_alerts db1 = pd_alerts db"
    using ensure_policy_alerts[of cfg now d "hm_device s" db] x by simp
  have "alerts_inv db1" using alerts_inv_same[OF same] assms by simp
  then have rules: "alerts_follow db (snd (apply_rules rnd now draws pid s 0 rs db1))" for pid rs
    using alerts_follow_trans[OF alerts_follow_same[OF same] apply_rules_follow] by blast
  have "alerts_follow db db" "alerts_follow db db1" using same by (simp_all add: alerts_follow_same)
  with rules x show ?thesis by (cases x) (simp_all add: evaluate_device_health_def)
qed

lemma decide_follows:
  "alerts_follow db (snd (acknowledge_alert now aid actor db))"
  "alerts_follow db (snd (dismiss_alert now aid actor db))"
  "alerts_follow db (snd (resolve_alert now aid actor db))"
proof -
  have dis: "status_follows st AL_DISMISSED" if "st \<noteq> AL_RESOLVED" for st
    using that by (cases st) (simp_all add: status_follows_def alert_step_def)
  have res: "status_follows st AL_RESOLVED" for st by (cases st) (simp_all add: status_follows_def alert_step_def)
  show "alerts_follow db (snd (acknowledge_alert now aid actor db))"
    by (auto simp: acknowledge_alert_def alerts_follow_same status_follows_def alert_step_def
        intro!: alerts_follow_update split: option.split)
  show "alerts_follow db (snd (dismiss_alert now aid actor db))"
    using dis by (auto simp: dismiss_alert_def alerts_follow_same intro!: alerts_follow_update split: option.split)
  show "alerts_follow db (snd (resolve_alert now aid actor db))"
    using res by (auto simp: resolve_alert_def alerts_follow_same intro!: alerts_follow_update split: option.split)
qed

lemma policy_ops_follow:
  "alerts_follow db (snd (create_policy cfg now d dev name rules en db))"
  "alerts_follow db (snd (set_policy_enabled flag now pid db))"
  "alerts_follow db (snd (delete_policy pid db))"
  by (simp_all add: alerts_follow_same create_policy_alerts set_policy_enabled_def delete_policy_def)

lemma exec_alerts_follow:
  "alerts_inv db \<Longrightarrow> (\<exists>now d ret. act = PCleanup now d ret) \<or> alerts_follow db (policy_exec rnd cfg act db)"
  by (cases act) (simp_all add: evaluate_follows decide_follows policy_ops_follow enable_policy_def disable_policy_def)

lemma cleanup_get:
  assumes "alerts_inv db" and "get_alert db aid = Some a"
  shows "case get_alert (snd (cleanup_alert_retention now d ret db)) aid of
           None \<Rightarrow> \<not> alert_open a | Some a' \<Rightarrow> a' = a"
proof (cases "get_alert (snd (cleanup_alert_retention now d ret db)) aid")
  case None
  have mem: "a \<in> set (pd_alerts db)" "al_id a = aid" using get_alert_mem[OF assms(2)] by auto
  have "\<forall>x \<in> set (pd_alerts (snd (cleanup_alert_retention now d ret db))). al_id x \<noteq> aid"
    using None by (simp add: get_alert_def fetch_where_None)
  with mem have "\<not> alert_open a" by (auto simp: cleanup_alert_retention_def Let_def alert_open_def)
  with None show ?thesis by simp
next
  case (Some a')
  have "a' \<in> set (pd_alerts db)" "al_id a' = aid"
    using get_alert_mem[OF Some] by (auto simp: cleanup_alert_retention_def Let_def)
  then have "a' = a"
    using get_alert_mem[OF assms(2)] assms(1) keyed_same[of al_id "pd_alerts db" a' a]
    by (simp add: alerts_inv_def)
  with Some show ?thesis by simp
qed

text \<open>
  No operation moves an alert back: an acknowledged alert does not become active again, and
  a dismissed or resolved one stays closed; only \<^verbatim>\<open>cleanup_alert_retention\<close> removes alerts,
  and only closed ones.
\<close>

theorem alert_status_forward:
  assumes "get_alert (policy_run rnd cfg acts) aid = Some a"
  shows "case get_alert (policy_exec rnd cfg act (policy_run rnd cfg acts)) aid of
           None \<Rightarrow> \<not> alert_open a \<and> (\<exists>now d ret. act = PCleanup now d ret)
         | Some a' \<Rightarrow> al_status a' = al_status a \<or> alert_step (al_status a) (al_status a')"
  using exec_alerts_follow[OF policy_run_inv, where act = act]
proof
  assume "\<exists>now d ret. act = PCleanup now d ret"
  then obtain now d ret where act: "act = PCleanup now d ret" by blast
  show ?thesis
    using cleanup_get[OF policy_run_inv assms, of now d ret] by (auto simp: act split: option.splits)
next
  assume "alerts_follow (policy_run rnd cfg acts) (policy_exec rnd cfg act (policy_run rnd cfg acts))"
  then obtain a' where "get_alert (policy_exec rnd cfg act (policy_run rnd cfg acts)) aid = Some a'"
    "status_follows (al_status a) (al_status a')"
    using assms unfolding alerts_follow_def by blast
  then show ?thesis by (auto simp: status_follows_def)
qed

section \<open>Policies are read back as created\<close>

definition same_policies :: "policy_db \<Rightarrow> policy_db \<Rightarrow> bool" where
  [model_defs]: "same_policies db db' \<longleftrightarrow> pd_policies db' = pd_policies db \<and> pd_rules db' = pd_rules db"

lemma same_policies_rules: "same_policies db db' \<Longrightarrow> rules_inv db \<Longrightarrow> rules_inv db'"
  by (simp add: same_policies_def rules_inv_def)

lemma same_policies_alerts:
  "same_policies db (snd (create_or_update_alert now d dev pol rt sev msg trig db))"
  "same_policies db (snd (auto_resolve_alert now dev pol rt db))"
  "same_policies db (snd (acknowledge_alert now aid actor db))"
  "same_policies db (snd (dismiss_alert now aid actor db))"
  "same_policies db (snd (resolve_alert now aid actor db))"
  "same_policies db (snd (cleanup_alert_retention now cfg_days ret db))"
  by (simp_all add: same_policies_def create_or_update_alert_def auto_resolve_alert_def
      acknowledge_alert_def dismiss_alert_def resolve_alert_def cleanup_alert_retention_def
      update_alert_def Let_def split: option.split)

lemma same_policies_trans: "same_policies db db' \<Longrightarrow> same_policies db' db'' \<Longrightarrow> same_policies db db''"
  by (simp add: same_policies_def)

lemma same_policies_rule: "same_policies db (snd (apply_rule rnd now d pid s r db))"
  by (simp add: apply_rule_def same_policies_alerts split: option.split)

lemma same_policies_evaluation: "same_policies db (snd (apply_rules rnd now draws pid s i rs db))"
proof (induction rs arbitrary: i db)
  case Nil
  then show ?case by (simp add: same_policies_def)
next
  case (Cons r rs)
  obtain x db1 where x: "apply_rule rnd now (draws i) pid s r db = (x, db1)" by (rule prod.exhaust)
  obtain y db2 where y: "apply_rules rnd now draws pid s (Suc i) rs db1 = (y, db2)" by (rule prod.exhaust)
  have one: "same_policies db db1" using same_policies_rule[of db rnd now "draws i" pid s r] x by simp
  have "same_policies db1 db2" using Cons.IH[of db1 "Suc i"] y by simp
  from same_policies_trans[OF one this] one x y show ?case by (cases x; cases y) simp_all
qed

lemma create_policy_rules:
  assumes "rules_inv db"
  shows "rules_inv (snd (create_policy cfg now d dev name rules en db))"
proof -
  have "rules_inv (policy_audit e a (db\<lparr>pd_policies := rows, pd_rules := pd_rules db @ map (Pair (po_id p)) rs\<rparr>))"
    if "insert_row po_id p (pd_policies db) = Some rows" for e a rows p rs
    using assms that keyed_insert_row[OF _ that] set_insert_row[OF that] by (auto simp: rules_inv_def)
  from this[of "\<lparr>po_id = fresh_id ''POL-'' po_id (pd_policies db) d, po_device = dev,
      po_name = py_strip name, po_enabled = en, po_created = Aware now, po_updated = Aware now\<rparr>"] assms
  show ?thesis by (simp add: create_policy_def Let_def split: sum.split option.split)
qed

lemma set_policy_rules: "rules_inv db \<Longrightarrow> rules_inv (snd (set_policy_enabled flag now pid db))"
proof -
  assume inv: "rules_inv db"
  let ?f = "\<lambda>p. p\<lparr>po_enabled := flag, po_updated := Aware now\<rparr>"
  have ids: "map po_id (update_where q ?f rows) = map po_id rows" for q and rows :: "policy_row list"
    by (rule map_key_update_where) simp
  have "po_id ` set (update_where q ?f rows) = po_id ` set rows" for q and rows :: "policy_row list"
    using arg_cong[OF ids, of set] by simp
  with inv ids show ?thesis
    by (simp add: set_policy_enabled_def rules_inv_def keyed_def)
qed

lemma delete_policy_rules: "rules_inv db \<Longrightarrow> rules_inv (snd (delete_policy pid db))"
  by (auto simp: delete_policy_def rules_inv_def keyed_def distinct_map_filter)

lemma evaluate_rules:
  assumes "rules_inv db"
  shows "rules_inv (snd (evaluate_device_health rnd cfg now d draws trust s me db))"
proof -
  obtain x db1 where x: "ensure_default_policy cfg now d (hm_device s) db = (x, db1)" by (rule prod.exhaust)
  have "rules_inv (snd (ensure_default_policy cfg now d (hm_device s) db))"
    using assms create_policy_rules by (simp add: ensure_default_policy_def split: sum.split option.split)
  then have "rules_inv db1" using x by simp
  with same_policies_rules[OF same_policies_evaluation] assms x show ?thesis
    by (cases x) (simp_all add: evaluate_device_health_def)
qed

lemma policy_run_rules: "rules_inv (policy_run rnd cfg as)"
proof -
  have step: "rules_inv (policy_exec rnd cfg a db)" if "rules_inv db" for a db
    using that same_policies_rules[OF same_policies_alerts(3)] same_policies_rules[OF same_policies_alerts(4)]
      same_policies_rules[OF same_policies_alerts(5)] same_policies_rules[OF same_policies_alerts(6)]
    by (cases a) (simp_all add: create_policy_rules evaluate_rules delete_policy_rules set_policy_rules
        enable_policy_def disable_policy_def)
  have "rules_inv (foldl (\<lambda>db a. policy_exec rnd cfg a db) db as)" if "rules_inv db" for db
    using that by (induction as arbitrary: db) (simp_all add: step)
  then show ?thesis by (simp add: policy_run_def rules_inv_def empty_policy_db_def keyed_def)
qed

lemma collect_valid: "list_all (\<lambda>r. f r = Inr r) rs \<Longrightarrow> collect (map f rs) = Inr rs"
  by (induction rs) auto

text \<open>
  A policy that \<^verbatim>\<open>create_policy\<close> returns is what \<^verbatim>\<open>get_policy\<close> reads back, rules in
  order, whatever happened before; the rules given are ones the dataclass has checked.
\<close>

theorem created_policy_reads_back:
  assumes "create_policy cfg now d dev name rules en (policy_run rnd cfg acts) = (Inr p, db')"
    and "list_all (\<lambda>r. rule_post_init r = Inr r) (pl_rules p)"
  shows "get_policy db' (pl_id p) = Inr (Some p)"
proof -
  let ?db = "policy_run rnd cfg acts"
  define pid where "pid = fresh_id ''POL-'' po_id (pd_policies ?db) d"
  define row where "row = \<lparr>po_id = pid, po_device = dev, po_name = py_strip name, po_enabled = en,
      po_created = Aware now, po_updated = Aware now\<rparr>"
  obtain rs where rs: "(case rules of Some rs \<Rightarrow> Inr rs | None \<Rightarrow> get_default_rules cfg) = Inr rs"
    using assms(1) by (auto simp: create_policy_def Let_def split: if_splits sum.splits)
  obtain rows where ins: "insert_row po_id row (pd_policies ?db) = Some rows"
    using assms(1) rs
    by (auto simp: create_policy_def Let_def row_def pid_def split: if_splits option.splits)
  have p: "p = \<lparr>pl_id = pid, pl_device = dev, pl_name = py_strip name, pl_enabled = en, pl_rules = rs,
      pl_created = Aware now, pl_updated = Aware now\<rparr>"
    and db': "pd_policies db' = rows" "pd_rules db' = pd_rules ?db @ map (Pair pid) rs"
    using assms(1) rs ins
    by (auto simp: create_policy_def Let_def row_def pid_def split: if_splits)
  have rows: "rows = pd_policies ?db @ [row]" and fresh: "pid \<notin> po_id ` set (pd_policies ?db)"
    using ins by (auto simp: insert_row_def table_simps row_def split: if_splits)
  have "fetch_where (\<lambda>q. po_id q = pid) (pd_policies ?db) = None"
    unfolding fetch_where_None using fresh by auto
  then have row: "fetch_where (\<lambda>q. po_id q = pid) rows = Some row"
    by (simp add: rows table_simps row_def)
  have "filter (\<lambda>r. fst r = pid) (pd_rules ?db) = []"
    using fresh policy_run_rules[of rnd cfg acts] by (auto simp: rules_inv_def filter_empty_conv)
  then have "filter (\<lambda>r. fst r = pid) (pd_rules db') = map (Pair pid) rs"
    by (simp add: db'(2) filter_map comp_def)
  then have "collect (map (\<lambda>r. rule_post_init (snd r)) (filter (\<lambda>r. fst r = pid) (pd_rules db'))) = Inr rs"
    using collect_valid[of rule_post_init rs] assms(2) by (simp add: p comp_def)
  with row show ?thesis by (simp add: get_policy_def db'(1) p row_def)
qed

section \<open>A run of the engine\<close>

definition sentinel_config :: policy_config where
  "sentinel_config =
     \<lparr>default_battery_threshold = 20, default_storage_threshold = 10,
      default_offline_duration_seconds = 120, default_degraded_duration_seconds = 60,
      policy_evaluation_enabled = True\<rparr>"

definition sentinel_trust :: pairing_db where
  "sentinel_trust = empty_db\<lparr>db_trusted :=
     [\<lparr>td_local = ''P'', td_remote = ''GM-C-00000002'', td_role = CHILD, td_fingerprint = [], td_pem = ''K'',
       td_label = None, td_status = TS_ACTIVE, td_created_at = Aware 0, td_last_verified_at = Aware 0,
       td_version = 1, td_session = None\<rparr>]\<rparr>"

definition sentinel_summary :: health_summary where
  "sentinel_summary =
     \<lparr>hm_device = ''GM-C-00000002'', hm_state = HS_ONLINE, hm_last_heartbeat = Aware 0, hm_battery = Some 7,
      hm_charging = None, hm_free = None, hm_total = None, hm_uptime = None,
      hm_connectivity = CS_ONLINE, hm_platform = None, hm_version = ''1'', hm_sequence = 1,
      hm_paused = False, hm_seen_ago = None\<rparr>"

definition sentinel_actions :: "policy_action list" where
  "sentinel_actions =
     [PEvaluate 5 ([''A''], ''B'') (\<lambda>i. ([''A''], ''B'')) sentinel_trust sentinel_summary ''P'']"

lemmas sentinel_defs =
  policy_run_def sentinel_actions_def sentinel_config_def sentinel_trust_def sentinel_summary_def
  empty_policy_db_def empty_db_def evaluate_device_health_def is_trusted_def get_trusted_device_def
  td_key_def td_is_active_def ensure_default_policy_def get_device_policy_def newest_where_def
  create_policy_def valid_id_regex identity_regex_def is_upper_hex_def get_default_rules_def
  plain_rule_def rule_post_init_def insert_row_def has_key_def policy_audit_def apply_rule_def
  evaluate_rule_def create_or_update_alert_def find_open_def dedup_key_def auto_resolve_alert_def
  update_alert_def get_alert_def fetch_where_def update_where_def alert_open_def Let_def

lemma sentinel_alert:
  "map al_status (pd_alerts (policy_run id sentinel_config sentinel_actions)) = [AL_ACTIVE] \<and>
   map al_id (pd_alerts (policy_run id sentinel_config sentinel_actions)) = [''ALT-A'']"
  by (simp add: sentinel_defs)

lemma sentinel_get:
  "\<exists>a. get_alert (policy_run id sentinel_config sentinel_actions) ''ALT-A'' = Some a \<and> al_status a = AL_ACTIVE"
proof -
  obtain a where "pd_alerts (policy_run id sentinel_config sentinel_actions) = [a]"
    "al_status a = AL_ACTIVE" "al_id a = ''ALT-A''" using sentinel_alert by auto
  then show ?thesis by (simp add: get_alert_def table_simps)
qed

lemma alert_status_forward_witness:
  "\<exists>a. get_alert (policy_run id sentinel_config sentinel_actions) ''ALT-A'' = Some a \<and>
     (case get_alert (policy_exec id sentinel_config (PDismiss 9 ''ALT-A'' None)
             (policy_run id sentinel_config sentinel_actions)) ''ALT-A'' of
        None \<Rightarrow> False | Some a' \<Rightarrow> al_status a' = al_status a \<or> alert_step (al_status a) (al_status a'))"
proof -
  obtain a where a: "get_alert (policy_run id sentinel_config sentinel_actions) ''ALT-A'' = Some a"
    using sentinel_get by blast
  from alert_status_forward[OF a, of "PDismiss 9 ''ALT-A'' None"] a show ?thesis
    by (auto split: option.splits)
qed


lemma created_policy_reads_back_witness:
  "\<exists>p db'. create_policy sentinel_config 1 ([''A''], ''B'') ''GM-C-00000002'' ''Night'' None True
       (policy_run id sentinel_config []) = (Inr p, db') \<and>
     get_policy db' (pl_id p) = Inr (Some p) \<and> length (pl_rules p) = 5"
proof -
  obtain p db' where p: "create_policy sentinel_config 1 ([''A''], ''B'') ''GM-C-00000002'' ''Night'' None True
       (policy_run id sentinel_config []) = (Inr p, db')"
    and rs: "list_all (\<lambda>r. rule_post_init r = Inr r) (pl_rules p)" "length (pl_rules p) = 5"
    by (simp add: sentinel_defs)
  from p rs created_policy_reads_back[OF p rs(1)] show ?thesis by blast
qed

end
