(* ===== verification/JsonRoundtrip.thy ===== *)
theory JsonRoundtrip
  imports JsonText
begin

text \<open>
  Decoding what was encoded: \<^verbatim>\<open>json.loads(json.dumps(v, sort_keys=True))\<close> is \<open>v\<close> with the
  keys of its dictionaries in order, with the default separators and with the compact ones;
  so the canonical encoding is injective up to that order.
\<close>

section \<open>Characters and strings\<close>

lemma char_code: "c = char_of n \<longleftrightarrow> of_char c = (n mod 256 :: nat)"
  by (metis char_of_char of_char_of)

lemma hex2_digits:
  assumes "n < 256"
  shows "\<exists>a b. hex2 n = [a, b] \<and> hex_digit a = Some (n div 16) \<and> hex_digit b = Some (n mod 16)"
proof -
  have digit: "hex_digit (char_of (if m < 10 then 48 + m else 87 + m)) = Some m" if "m < 16" for m :: nat
    using that by (cases "m < 10") (simp_all add: hex_digit_def)
  have "n div 16 < 16" "n mod 16 < 16" using assms by auto
  then show ?thesis using digit by (auto simp: hex2_def Let_def simp del: of_char_of)
qed

lemma char_eq_code: "c = d \<longleftrightarrow> (of_char c :: nat) = of_char d"
  by (metis char_of_char)

lemma code_chars:
  "(c = CHR 0x22) = (of_char c = (34 :: nat))" "(c = CHR 0x5C) = (of_char c = (92 :: nat))"
  "(c = CHR 0x0A) = (of_char c = (10 :: nat))" "(c = CHR 0x0D) = (of_char c = (13 :: nat))"
  "(c = CHR 0x09) = (of_char c = (9 :: nat))" "(c = CHR 0x08) = (of_char c = (8 :: nat))"
  "(c = CHR 0x0C) = (of_char c = (12 :: nat))" "(c = CHR ''u'') = (of_char c = (117 :: nat))"
  unfolding char_eq_code[of c] by simp_all

lemma scan_json_char:
  "scan_string (json_char c @ t) = map_option (apfst ((#) c)) (scan_string t)"
proof -
  let ?n = "of_char c :: nat"
  consider "?n = 34 \<or> ?n = 92" | "?n = 10" | "?n = 13" | "?n = 9" | "?n = 8" | "?n = 12"
    | "?n \<notin> {8, 9, 10, 12, 13}" "?n < 32 \<or> 126 < ?n" | "32 \<le> ?n" "?n \<le> 126" "?n \<noteq> 34" "?n \<noteq> 92"
    by fastforce
  then show ?thesis
  proof cases
    case 7
    obtain a b where h: "hex2 ?n = [a, b]" "hex_digit a = Some (?n div 16)" "hex_digit b = Some (?n mod 16)"
      using hex2_digits[of ?n] by auto
    have "hex_digit (CHR ''0'') = Some 0" by (simp add: hex_digit_def)
    with h have v: "hex_value4 (CHR ''0'') (CHR ''0'') a b = Some ?n" by (simp add: hex_value4_def)
    have "json_char c = CHR 0x5C # CHR ''u'' # CHR ''0'' # CHR ''0'' # [a, b]" if "?n \<noteq> 34 \<and> ?n \<noteq> 92"
      using 7 h(1) that by (auto simp: json_char_def Let_def)
    moreover have "?n \<noteq> 34 \<and> ?n \<noteq> 92" using 7(2) by auto
    moreover have "\<not> 256 \<le> ?n" by (simp add: not_le)
    ultimately show ?thesis using v by simp
  next
    case 2
    then have "c = CHR 0x0A" unfolding code_chars .
    then show ?thesis by (simp add: json_char_def unescape_def)
  next
    case 3
    then have "c = CHR 0x0D" unfolding code_chars .
    then show ?thesis by (simp add: json_char_def unescape_def)
  next
    case 4
    then have "c = CHR 0x09" unfolding code_chars .
    then show ?thesis by (simp add: json_char_def unescape_def)
  next
    case 5
    then have "c = CHR 0x08" unfolding code_chars .
    then show ?thesis by (simp add: json_char_def unescape_def)
  next
    case 6
    then have "c = CHR 0x0C" unfolding code_chars .
    then show ?thesis by (simp add: json_char_def unescape_def)
  qed (auto simp: json_char_def Let_def unescape_def code_chars)
qed

lemma scan_json_str: "scan_string (concat (map json_char s) @ CHR 0x22 # r) = Some (s, r)"
  by (induction s) (simp_all add: scan_json_char)

section \<open>Numbers\<close>

lemma nat_digits_is_digit: "c \<in> set (nat_digits n) \<Longrightarrow> is_digit c"
  by (induction n rule: nat_digits.induct)
    (subst (asm) (2) nat_digits.simps, auto simp: is_digit_def Let_def split: if_splits)

lemma nat_digits_head: "\<exists>c cs. nat_digits n = c # cs \<and> is_digit c \<and> (c = CHR ''0'' \<longrightarrow> n = 0 \<and> cs = [])"
proof (induction n rule: nat_digits.induct)
  case (1 n)
  have zero: "CHR ''0'' = char_of (48 :: nat)" by (simp add: char_of_def bit_0)
  show ?case
  proof (cases "n < 10")
    case True
    then show ?thesis
      by (subst nat_digits.simps) (simp add: is_digit_def Let_def zero char_code)
  next
    case False
    with 1 obtain c cs where "nat_digits (n div 10) = c # cs" "is_digit c" "c = CHR ''0'' \<longrightarrow> n div 10 = 0"
      by blast
    with False show ?thesis by (subst nat_digits.simps) auto
  qed
qed

lemma digits_value_snoc: "digits_value (ds @ [c]) = 10 * digits_value ds + (of_char c - 48)"
  by (simp add: digits_value_def)

lemma digits_value_nat_digits: "digits_value (nat_digits n) = n"
proof (induction n rule: nat_digits.induct)
  case (1 n)
  show ?case
  proof (cases "n < 10")
    case True
    then show ?thesis by (subst nat_digits.simps) (simp add: digits_value_def)
  next
    case False
    with 1 have IH: "digits_value (nat_digits (n div 10)) = n div 10" by simp
    have "digits_value (nat_digits (n div 10) @ [char_of (48 + n mod 10)]) =
        10 * (n div 10) + (of_char (char_of (48 + n mod 10) :: char) - 48)"
      by (simp only: digits_value_snoc IH)
    also have "(of_char (char_of (48 + n mod 10) :: char) - 48 :: nat) = n mod 10"
      by simp
    finally have "digits_value (nat_digits (n div 10) @ [char_of (48 + n mod 10)]) = n" by simp
    with False show ?thesis by (subst nat_digits.simps) simp
  qed
qed

text \<open>What may follow a value: nothing that would prolong a number.\<close>

definition delimited :: "string \<Rightarrow> bool" where
  "delimited r \<longleftrightarrow> (case r of [] \<Rightarrow> True | c # _ \<Rightarrow> \<not> is_digit c \<and> c \<notin> {CHR ''.'', CHR ''e'', CHR ''E''})"

lemma delimited_ends: "delimited r \<Longrightarrow> ends_number r"
  by (cases r) (auto simp: delimited_def ends_number_def)

lemma scan_digits_nat_digits:
  assumes "delimited r"
  shows "scan_digits (nat_digits n @ r) = Some (n, r)"
proof -
  obtain c cs where c: "nat_digits n = c # cs" "is_digit c" "c = CHR ''0'' \<longrightarrow> n = 0 \<and> cs = []"
    using nat_digits_head by blast
  have stop: "takeWhile is_digit r = []" "dropWhile is_digit r = r"
    using assms by (cases r; simp add: delimited_def)+
  have all: "takeWhile is_digit (nat_digits n @ r) = nat_digits n" "dropWhile is_digit (nat_digits n @ r) = r"
    using nat_digits_is_digit stop by (simp_all add: takeWhile_append2 dropWhile_append2)
  show ?thesis
  proof (cases "c = CHR ''0''")
    case True
    with c show ?thesis by (simp add: scan_digits_def)
  next
    case False
    have "scan_digits (nat_digits n @ r) =
        Some (digits_value (takeWhile is_digit (nat_digits n @ r)), dropWhile is_digit (nat_digits n @ r))"
      using c False by (simp add: scan_digits_def)
    then show ?thesis unfolding all digits_value_nat_digits .
  qed
qed

lemma scan_int_str:
  assumes "delimited r"
  shows "scan_number (int_str i @ r) = Some (JInt i, r)"
proof (cases "i < 0")
  case True
  with scan_digits_nat_digits[OF assms] delimited_ends[OF assms] show ?thesis
    by (simp add: scan_number_def int_str_def)
next
  case False
  obtain c cs where c: "nat_digits (nat i) = c # cs" "is_digit c" using nat_digits_head by blast
  then have "c \<noteq> CHR ''-''" by (auto simp: is_digit_def)
  with c False scan_digits_nat_digits[OF assms, of "nat i"] delimited_ends[OF assms] show ?thesis
    by (simp add: scan_number_def int_str_def)
qed

section \<open>Values\<close>

text \<open>
  A Python dictionary has distinct keys; \<open>canon\<close> puts them in order, as \<^verbatim>\<open>sort_keys\<close> does.
\<close>

fun json_ok :: "json \<Rightarrow> bool" where
  "json_ok (JList xs) = list_all json_ok xs"
| "json_ok (JObj kvs) = (distinct (map fst kvs) \<and> list_all (\<lambda>(k, v). json_ok v) kvs)"
| "json_ok _ = True"

fun canon :: "json \<Rightarrow> json" where
  "canon (JList xs) = JList (map canon xs)"
| "canon (JObj kvs) = JObj (sort_key fst (map (\<lambda>(k, v). (k, canon v)) kvs))"
| "canon v = v"

lemma sort_key_map_snd:
  "sort_key fst (map (\<lambda>(k, v). (k, g v)) kvs) = map (\<lambda>(k, v). (k, g v)) (sort_key fst kvs)"
proof (induction kvs)
  case Nil
  then show ?case by simp
next
  case (Cons p kvs)
  have "insort_key fst (fst p, g (snd p)) (map (\<lambda>(k, v). (k, g v)) xs) =
      map (\<lambda>(k, v). (k, g v)) (insort_key fst p xs)" for xs
    by (induction xs; cases p) auto
  with Cons show ?case by (cases p) auto
qed

lemma assoc_put_new: "k \<notin> fst ` set kvs \<Longrightarrow> assoc_put k v kvs = kvs @ [(k, v)]"
  by (induction kvs) auto

lemma py_dict_distinct: "distinct (map fst kvs) \<Longrightarrow> py_dict kvs = kvs"
proof (induction kvs rule: rev_induct)
  case Nil
  then show ?case by (simp add: py_dict_def)
next
  case (snoc p kvs)
  then show ?case by (cases p) (auto simp: py_dict_def assoc_put_new)
qed

text \<open>The separators: a comma or a colon, and maybe a blank.\<close>

definition separators :: "string \<Rightarrow> string \<Rightarrow> bool" where
  "separators i k \<longleftrightarrow> (i = '','' \<or> i = '', '') \<and> (k = '':'' \<or> k = '': '')"

definition starts_value :: "string \<Rightarrow> bool" where
  "starts_value s \<longleftrightarrow> (\<exists>c cs. s = c # cs \<and> \<not> is_json_space c \<and> c \<noteq> CHR '']'' \<and> c \<noteq> CHR ''}'')"

lemma starts_valueI [intro]:
  "\<not> is_json_space c \<Longrightarrow> c \<noteq> CHR '']'' \<Longrightarrow> c \<noteq> CHR ''}'' \<Longrightarrow> starts_value (c # cs)"
  by (auto simp: starts_value_def)

lemma digit_starts: "is_digit c \<Longrightarrow> starts_value (c # cs)"
  by (rule starts_valueI) (auto simp: is_digit_def is_json_space_def Let_def)

lemma int_str_starts: "starts_value (int_str i)"
proof (cases "i < 0")
  case True
  then show ?thesis by (auto simp: int_str_def is_json_space_def)
next
  case False
  obtain c cs where "nat_digits (nat i) = c # cs" "is_digit c" using nat_digits_head by blast
  with False show ?thesis by (simp add: int_str_def digit_starts)
qed

lemma json_text_starts: "starts_value (json_text i k v)"
  by (cases v) (auto simp: is_json_space_def json_str_def int_str_starts)

lemma skip_starts: "starts_value s \<Longrightarrow> skip_space (s @ r) = s @ r"
  by (auto simp: starts_value_def)

lemma skip_separator:
  assumes "starts_value s"
  shows "separators i k \<Longrightarrow> \<exists>t. i @ s @ r = CHR '','' # t \<and> skip_space t = s @ r"
    and "separators i k \<Longrightarrow> \<exists>t. k @ s @ r = CHR '':'' # t \<and> skip_space t = s @ r"
  using skip_starts[OF assms, of r] by (auto simp: separators_def is_json_space_def)

lemma delimited_separator: "separators i k \<Longrightarrow> delimited (i @ s)"
  by (auto simp: separators_def delimited_def is_digit_def)

lemma join_with_Cons: "ys \<noteq> [] \<Longrightarrow> join_with i (y # ys) = y @ i @ join_with i ys"
  by (cases ys) auto

lemma join_starts:
  assumes "xs \<noteq> []" and "\<And>x. starts_value (f x)"
  shows "starts_value (join_with i (map f xs))"
proof -
  obtain x ys where xs: "xs = x # ys" using assms(1) by (cases xs) auto
  obtain c cs where "f x = c # cs" "starts_value (c # t)" for t
    using assms(2)[of x] by (auto simp: starts_value_def)
  with xs show ?thesis by (cases ys) simp_all
qed

lemma scan_literal_number:
  assumes "starts_value s" and "\<And>c cs. s = c # cs \<Longrightarrow> is_digit c \<or> c = CHR ''-''"
  shows "scan_literal (s @ r) = scan_number (s @ r)"
  using assms by (auto simp: starts_value_def scan_literal_def is_digit_def)

lemma scan_value_int:
  assumes "delimited r"
  shows "scan_value (Suc n) (int_str i @ r) = Some (JInt i, r)"
proof -
  obtain c cs where c: "int_str i = c # cs" "is_digit c \<or> c = CHR ''-''"
    using nat_digits_head[of "nat i"] by (cases "i < 0") (auto simp: int_str_def)
  then have "scan_literal (int_str i @ r) = scan_number (int_str i @ r)"
    using int_str_starts[of i] by (intro scan_literal_number) simp_all
  with c scan_int_str[OF assms, of i] show ?thesis by (auto simp: is_digit_def)
qed

section \<open>The round trip\<close>

lemma scan_items_text:
  assumes sep: "separators i k" and "xs \<noteq> []"
    and IH: "\<And>x n r. x \<in> set xs \<Longrightarrow> delimited r \<Longrightarrow> length (json_text i k x) \<le> n \<Longrightarrow>
        scan_value n (json_text i k x @ r) = Some (canon x, r)"
    and "length (join_with i (map (json_text i k) xs)) < n"
  shows "scan_items n (join_with i (map (json_text i k) xs) @ CHR '']'' # r) = Some (map canon xs, r)"
  using assms(2-)
proof (induction xs arbitrary: n)
  case Nil
  then show ?case by simp
next
  case (Cons x xs)
  obtain m where m: "n = Suc m" using Cons.prems(3) by (cases n) auto
  show ?case
  proof (cases "xs = []")
    case True
    have "delimited (CHR '']'' # r)" by (simp add: delimited_def is_digit_def)
    with Cons.prems(2)[of x "CHR '']'' # r" m] Cons.prems(3) True m show ?thesis
      by (simp add: is_json_space_def)
  next
    case False
    let ?rest = "join_with i (map (json_text i k) xs)"
    have len: "length (json_text i k x) \<le> m" "length ?rest < m"
      using Cons.prems(3) m False sep by (auto simp: join_with_Cons separators_def)
    have "starts_value ?rest"
      using False json_text_starts by (rule join_starts)
    from skip_separator(1)[OF this sep, of "CHR '']'' # r"] obtain t where
      t: "i @ ?rest @ CHR '']'' # r = CHR '','' # t" "skip_space t = ?rest @ CHR '']'' # r" by blast
    have "scan_value m (json_text i k x @ CHR '','' # t) = Some (canon x, CHR '','' # t)"
      using Cons.prems(2)[OF _ delimited_separator[OF sep] len(1)] t(1)[symmetric] by simp
    moreover have "scan_items m (?rest @ CHR '']'' # r) = Some (map canon xs, r)"
      by (rule Cons.IH) (use False len Cons.prems(2) in auto)
    ultimately show ?thesis using t m False by (simp add: join_with_Cons is_json_space_def)
  qed
qed

lemma scan_members_text:
  assumes sep: "separators i k" and "ps \<noteq> []"
    and IH: "\<And>x v n r. (x, v) \<in> set ps \<Longrightarrow> delimited r \<Longrightarrow> length (json_text i k v) \<le> n \<Longrightarrow>
        scan_value n (json_text i k v @ r) = Some (canon v, r)"
    and "length (join_with i (map (\<lambda>(x, v). json_str x @ k @ json_text i k v) ps)) < n"
  shows "scan_members n (join_with i (map (\<lambda>(x, v). json_str x @ k @ json_text i k v) ps) @ CHR ''}'' # r) =
      Some (map (\<lambda>(x, v). (x, canon v)) ps, r)"
  using assms(2-)
proof (induction ps arbitrary: n)
  case Nil
  then show ?case by simp
next
  case (Cons p ps)
  obtain x v where p: "p = (x, v)" by (cases p)
  obtain m where m: "n = Suc m" using Cons.prems(3) by (cases n) auto
  have member: "scan_members n (json_str x @ k @ json_text i k v @ s) =
      (case skip_space s of
         [] \<Rightarrow> None
       | e # es \<Rightarrow>
           if e = CHR ''}'' then Some ([(x, canon v)], es)
           else if e = CHR '','' then map_option (apfst ((#) (x, canon v))) (scan_members m (skip_space es))
           else None)" if s: "delimited s" and len: "length (json_text i k v) \<le> m" for s
  proof -
    from skip_separator(2)[OF json_text_starts sep, of i k v s] obtain t where
      t: "k @ json_text i k v @ s = CHR '':'' # t" "skip_space t = json_text i k v @ s" by blast
    have "scan_value m (json_text i k v @ s) = Some (canon v, s)"
      using Cons.prems(2)[of x v s m] p s len by simp
    with t m show ?thesis by (simp add: json_str_def scan_json_str is_json_space_def)
  qed
  show ?case
  proof (cases "ps = []")
    case True
    have "delimited (CHR ''}'' # r)" by (simp add: delimited_def is_digit_def)
    from member[OF this] Cons.prems(3) True p m show ?thesis
      by (simp add: is_json_space_def)
  next
    case False
    let ?rest = "join_with i (map (\<lambda>(x, v). json_str x @ k @ json_text i k v) ps)"
    have len: "length (json_text i k v) \<le> m" "length ?rest < m"
      using Cons.prems(3) m p False sep by (auto simp: join_with_Cons separators_def)
    have "starts_value ?rest"
      using False by (rule join_starts) (auto simp: json_str_def is_json_space_def)
    from skip_separator(1)[OF this sep, of "CHR ''}'' # r"] obtain t where
      t: "i @ ?rest @ CHR ''}'' # r = CHR '','' # t" "skip_space t = ?rest @ CHR ''}'' # r" by blast
    have "delimited (CHR '','' # t)" using delimited_separator[OF sep] t(1)[symmetric] by simp
    from member[OF this len(1)] have "scan_members n (json_str x @ k @ json_text i k v @ CHR '','' # t) =
        map_option (apfst ((#) (x, canon v))) (scan_members m (?rest @ CHR ''}'' # r))"
      using t(2) by (simp add: is_json_space_def)
    moreover have "scan_members m (?rest @ CHR ''}'' # r) = Some (map (\<lambda>(x, v). (x, canon v)) ps, r)"
      by (rule Cons.IH) (use False len Cons.prems(2) in auto)
    ultimately show ?thesis using t(1) p False by (simp add: join_with_Cons)
  qed
qed

lemma scan_json_text:
  assumes "separators i k"
  shows "json_ok v \<Longrightarrow> delimited r \<Longrightarrow> length (json_text i k v) \<le> n \<Longrightarrow>
    scan_value n (json_text i k v @ r) = Some (canon v, r)"
proof (induction v arbitrary: n r)
  case JNull
  then obtain m where "n = Suc m" by (cases n) auto
  then show ?case by (simp add: scan_literal_def)
next
  case (JBool b)
  then obtain m where "n = Suc m" by (cases n) (auto split: if_splits)
  then show ?case by (simp add: scan_literal_def)
next
  case (JInt x)
  then obtain m where "n = Suc m" using int_str_starts[of x] by (cases n) (auto simp: starts_value_def)
  with JInt scan_value_int show ?case by simp
next
  case (JStr s)
  then obtain m where "n = Suc m" by (cases n) (auto simp: json_str_def)
  then show ?case by (simp add: json_str_def scan_json_str)
next
  case (JList xs)
  let ?t = "join_with i (map (json_text i k) xs)"
  from JList.prems(3) obtain m where m: "n = Suc m" "length ?t < m"
    by (cases n) auto
  show ?case
  proof (cases "xs = []")
    case True
    with m show ?thesis by (simp add: is_json_space_def)
  next
    case False
    have "scan_items m (?t @ CHR '']'' # r) = Some (map canon xs, r)"
      by (rule scan_items_text[OF assms False _ m(2)])
        (use JList.IH JList.prems(1) in \<open>auto simp: list_all_iff\<close>)
    moreover have "starts_value ?t"
      using False json_text_starts by (rule join_starts)
    then obtain c cs where "?t @ CHR '']'' # r = c # cs" "\<not> is_json_space c" "c \<noteq> CHR '']''"
      by (auto simp: starts_value_def)
    ultimately show ?thesis using m(1) by simp
  qed
next
  case (JObj kvs)
  let ?ps = "sort_key fst kvs"
  let ?t = "join_with i (map (\<lambda>(x, v). json_str x @ k @ json_text i k v) ?ps)"
  have enc: "json_text i k (JObj kvs) = CHR ''{'' # ?t @ [CHR ''}'']"
    by (simp add: sort_key_map_snd comp_def case_prod_unfold[abs_def])
      (simp only: split_def sort_key_map_snd[unfolded split_def] map_map comp_def fst_conv snd_conv)
  from JObj.prems(3) obtain m where m: "n = Suc m" "length ?t < m"
    unfolding enc by (cases n) auto
  show ?case
  proof (cases "kvs = []")
    case True
    with m show ?thesis by (simp add: is_json_space_def)
  next
    case False
    then have "?ps \<noteq> []" using set_sort[of fst kvs] by force
    have "scan_members m (?t @ CHR ''}'' # r) = Some (map (\<lambda>(x, v). (x, canon v)) ?ps, r)"
      by (rule scan_members_text[OF assms \<open>?ps \<noteq> []\<close> _ m(2)])
        (use JObj.IH JObj.prems(1) in \<open>fastforce simp: list_all_iff\<close>)
    moreover have "starts_value ?t"
      using \<open>?ps \<noteq> []\<close> by (rule join_starts) (auto simp: json_str_def is_json_space_def)
    then obtain c cs where "?t @ CHR ''}'' # r = c # cs" "\<not> is_json_space c" "c \<noteq> CHR ''}''"
      by (auto simp: starts_value_def)
    moreover have "py_dict (map (\<lambda>(x, v). (x, canon v)) ?ps) = map (\<lambda>(x, v). (x, canon v)) ?ps"
    proof (rule py_dict_distinct)
      have "mset (map fst ?ps) = mset (map fst kvs)" by simp
      then have "distinct (map fst ?ps)" using JObj.prems(1) mset_eq_imp_distinct_iff by fastforce
      then show "distinct (map fst (map (\<lambda>(x, v). (x, canon v)) ?ps))" by (simp add: split_def comp_def)
    qed
    ultimately show ?thesis using m(1) unfolding enc by (simp add: sort_key_map_snd)
  qed
qed

theorem json_roundtrip:
  assumes "separators i k" and "json_ok v"
  shows "json_loads (json_text i k v) = Some (canon v)"
proof -
  have "scan_value (Suc (length (json_text i k v))) (json_text i k v @ []) = Some (canon v, [])"
    by (rule scan_json_text[OF assms]) (simp_all add: delimited_def)
  with skip_starts[OF json_text_starts, of i k v "[]"] show ?thesis by (simp add: json_loads_def)
qed

lemma json_dumps_loads:
  assumes "json_ok v"
  shows "json_loads (json_dumps v) = Some (canon v)" and "json_loads (json_dumps_spaced v) = Some (canon v)"
  using json_roundtrip[OF _ assms] by (simp_all add: json_dumps_def json_dumps_spaced_def separators_def)

text \<open>A lookup does not see the order of the keys.\<close>

lemma map_of_canon:
  assumes "distinct (map fst kvs)"
  shows "map_of (sort_key fst (map (\<lambda>(x, v). (x, canon v)) kvs)) k = map_option canon (map_of kvs k)"
proof -
  let ?ps = "map (\<lambda>(x, v). (x, canon v)) kvs"
  have fst: "map fst ?ps = map fst kvs" by (simp add: split_def comp_def)
  have "mset (map fst (sort_key fst ?ps)) = mset (map fst ?ps)" by (simp only: mset_map mset_sort)
  then have "distinct (map fst (sort_key fst ?ps))" using assms fst mset_eq_imp_distinct_iff by metis
  then have "map_of (sort_key fst ?ps) = map_of ?ps"
    using assms unfolding fst[symmetric] by (intro map_of_inject_set[THEN iffD2]) (simp_all only: set_sort)
  moreover have "map_of ?ps k = map_option canon (map_of kvs k)" by (induction kvs) auto
  ultimately show ?thesis by simp
qed

end
