(* ===== verification/TransportModels.thy ===== *)
theory TransportModels
  imports JsonRoundtrip TelemetryModels
begin

text \<open>
  \<^verbatim>\<open>guardianmesh/transport/models.py\<close>: message types, connection states, the message
  envelope with its validation, the encrypted frame, and the peer and session views.

  Timestamps of messages are texts here; \<open>read_iso\<close> stands for
  \<^verbatim>\<open>datetime.fromisoformat\<close>.  \<open>fresh\<close> is the identifier the default factory draws.
\<close>

definition protocol_version :: string where "protocol_version = ''1.0''"

datatype message_type =
    HELLO | SESSION_INIT | SESSION_ACK | HEARTBEAT | TELEMETRY | ALERT | POLICY_SYNC
  | DEVICE_STATUS | PING | PONG | REKEY | GOODBYE | ERROR
  | SCREEN_VIEW_REQUEST | SCREEN_VIEW_APPROVAL | SCREEN_VIEW_DENIAL | SCREEN_SESSION_START
  | SCREEN_FRAME | SCREEN_SESSION_STOP | SCREEN_SESSION_EXPIRED

fun message_value :: "message_type \<Rightarrow> string" where
  "message_value HELLO = ''HELLO''"
| "message_value SESSION_INIT = ''SESSION_INIT''"
| "message_value SESSION_ACK = ''SESSION_ACK''"
| "message_value HEARTBEAT = ''HEARTBEAT''"
| "message_value TELEMETRY = ''TELEMETRY''"
| "message_value ALERT = ''ALERT''"
| "message_value POLICY_SYNC = ''POLICY_SYNC''"
| "message_value DEVICE_STATUS = ''DEVICE_STATUS''"
| "message_value PING = ''PING''"
| "message_value PONG = ''PONG''"
| "message_value REKEY = ''REKEY''"
| "message_value GOODBYE = ''GOODBYE''"
| "message_value ERROR = ''ERROR''"
| "message_value SCREEN_VIEW_REQUEST = ''SCREEN_VIEW_REQUEST''"
| "message_value SCREEN_VIEW_APPROVAL = ''SCREEN_VIEW_APPROVAL''"
| "message_value SCREEN_VIEW_DENIAL = ''SCREEN_VIEW_DENIAL''"
| "message_value SCREEN_SESSION_START = ''SCREEN_SESSION_START''"
| "message_value SCREEN_FRAME = ''SCREEN_FRAME''"
| "message_value SCREEN_SESSION_STOP = ''SCREEN_SESSION_STOP''"
| "message_value SCREEN_SESSION_EXPIRED = ''SCREEN_SESSION_EXPIRED''"

definition all_message_types :: "message_type list" where
  "all_message_types =
     [HELLO, SESSION_INIT, SESSION_ACK, HEARTBEAT, TELEMETRY, ALERT, POLICY_SYNC, DEVICE_STATUS,
      PING, PONG, REKEY, GOODBYE, ERROR, SCREEN_VIEW_REQUEST, SCREEN_VIEW_APPROVAL,
      SCREEN_VIEW_DENIAL, SCREEN_SESSION_START, SCREEN_FRAME, SCREEN_SESSION_STOP,
      SCREEN_SESSION_EXPIRED]"

definition message_from_str :: "string \<Rightarrow> gm_error + message_type" where
  "message_from_str s =
     (case enum_of message_value all_message_types s of
        Some t \<Rightarrow> Inr t
      | None \<Rightarrow> Inl (Transport TransportMessageError))"

datatype connection_state =
    DISCONNECTED | CONNECTING | AUTHENTICATING | CONNECTED | DEGRADED | RECONNECTING
  | REVOKED_CONN | FAILED | EXPIRED_CONN

fun connection_value :: "connection_state \<Rightarrow> string" where
  "connection_value DISCONNECTED = ''DISCONNECTED''"
| "connection_value CONNECTING = ''CONNECTING''"
| "connection_value AUTHENTICATING = ''AUTHENTICATING''"
| "connection_value CONNECTED = ''CONNECTED''"
| "connection_value DEGRADED = ''DEGRADED''"
| "connection_value RECONNECTING = ''RECONNECTING''"
| "connection_value REVOKED_CONN = ''REVOKED''"
| "connection_value FAILED = ''FAILED''"
| "connection_value EXPIRED_CONN = ''EXPIRED''"

definition connection_from_str :: "string \<Rightarrow> connection_state" where
  "connection_from_str s =
     (case enum_of connection_value
        [DISCONNECTED, CONNECTING, AUTHENTICATING, CONNECTED, DEGRADED, RECONNECTING, REVOKED_CONN,
         FAILED, EXPIRED_CONN] s of
        Some c \<Rightarrow> c | None \<Rightarrow> DISCONNECTED)"

datatype transport_type = LOCAL | NETWORK | MEMORY | RELAY

fun transport_value :: "transport_type \<Rightarrow> string" where
  "transport_value LOCAL = ''LOCAL''"
| "transport_value NETWORK = ''NETWORK''"
| "transport_value MEMORY = ''MEMORY''"
| "transport_value RELAY = ''RELAY''"

definition transport_from_str :: "string \<Rightarrow> transport_type" where
  "transport_from_str s =
     (case enum_of transport_value [LOCAL, NETWORK, MEMORY, RELAY] s of Some t \<Rightarrow> t | None \<Rightarrow> LOCAL)"

section \<open>Envelopes\<close>

text \<open>
  \<^verbatim>\<open>from_dict\<close> keeps a message type that is not a text as it is; every later use of its
  \<^verbatim>\<open>.value\<close> then raises \<^verbatim>\<open>AttributeError\<close>.
\<close>

datatype type_field = Typed message_type | Untyped json

fun type_value :: "type_field \<Rightarrow> gm_error + string" where
  "type_value (Typed t) = Inr (message_value t)"
| "type_value (Untyped j) = Inl (Builtin PyAttributeError)"

record transport_envelope =
  en_version :: string
  en_message_id :: string
  en_session_id :: string
  en_sender :: string
  en_recipient :: string
  en_type :: type_field
  en_sequence :: int
  en_created :: string
  en_expires :: string
  en_payload :: "(string \<times> json) list"
  en_auth :: "(string \<times> json) list"

definition header_fields :: "transport_envelope \<Rightarrow> string \<Rightarrow> (string \<times> json) list" where
  "header_fields e ty =
     [(''protocol_version'', JStr (en_version e)), (''message_id'', JStr (en_message_id e)),
      (''session_id'', JStr (en_session_id e)), (''sender_id'', JStr (en_sender e)),
      (''recipient_id'', JStr (en_recipient e)), (''message_type'', JStr ty),
      (''sequence'', JInt (en_sequence e)), (''created_at'', JStr (en_created e)),
      (''expires_at'', JStr (en_expires e))]"

definition header_dict :: "transport_envelope \<Rightarrow> gm_error + json" where
  "header_dict e = map_sum id (\<lambda>ty. JObj (header_fields e ty)) (type_value (en_type e))"

definition envelope_to_dict :: "transport_envelope \<Rightarrow> gm_error + json" where
  "envelope_to_dict e =
     map_sum id (\<lambda>ty. JObj (header_fields e ty @
         [(''payload'', JObj (en_payload e)), (''authentication'', JObj (en_auth e))]))
       (type_value (en_type e))"

text \<open>The canonical text is ASCII: one byte a character.\<close>

definition to_canonical_json :: "transport_envelope \<Rightarrow> gm_error + string" where
  "to_canonical_json e = map_sum id json_dumps (envelope_to_dict e)"

text \<open>\<^verbatim>\<open>int(x)\<close> of a decoded value: digits may be grouped by single underscores.\<close>

fun digit_groups :: "string \<Rightarrow> bool" where
  "digit_groups [] = False"
| "digit_groups [c] = is_digit c"
| "digit_groups (c # d # cs) =
     (is_digit c \<and> (if d = CHR ''_'' then digit_groups cs else digit_groups (d # cs)))"

definition int_of_text :: "string \<Rightarrow> gm_error + int" where
  "int_of_text s =
     (let t = py_strip s;
          signed = (t \<noteq> [] \<and> (hd t = CHR ''-'' \<or> hd t = CHR ''+''));
          ds = (if signed then tl t else t);
          n = int (digits_value (remove_char (CHR ''_'') ds))
      in if digit_groups ds then Inr (if signed \<and> hd t = CHR ''-'' then - n else n)
         else Inl (Builtin PyValueError))"

fun int_of_json :: "json \<Rightarrow> gm_error + int" where
  "int_of_json (JInt i) = Inr i"
| "int_of_json (JBool b) = Inr (if b then 1 else 0)"
| "int_of_json (JStr s) = int_of_text s"
| "int_of_json _ = Inl (Builtin PyTypeError)"

definition dict_or_empty :: "json option \<Rightarrow> (string \<times> json) list" where
  "dict_or_empty v = (case v of Some (JObj kvs) \<Rightarrow> kvs | _ \<Rightarrow> [])"

definition has_fields :: "string list \<Rightarrow> (string \<times> json) list \<Rightarrow> bool" where
  "has_fields fs kvs = list_all (\<lambda>f. map_of kvs f \<noteq> None) fs"

definition str_field :: "(string \<times> json) list \<Rightarrow> string \<Rightarrow> string" where
  [model_defs]: "str_field kvs k = py_str (get_or (JStr []) kvs k)"

definition envelope_from_dict :: "json \<Rightarrow> gm_error + transport_envelope" where
  "envelope_from_dict d =
     (case d of
        JObj kvs \<Rightarrow>
          if \<not> has_fields [''protocol_version'', ''message_id'', ''sender_id'', ''recipient_id'',
                ''message_type'', ''sequence'', ''created_at'', ''expires_at''] kvs then
            Inl (Transport TransportMessageError)
          else
            (case (case get_or JNull kvs ''message_type'' of
                     JStr s \<Rightarrow> map_sum id Typed (message_from_str s)
                   | raw \<Rightarrow> Inr (Untyped raw)) of
               Inl e \<Rightarrow> Inl e
             | Inr ty \<Rightarrow>
                (case int_of_json (get_or JNull kvs ''sequence'') of
                   Inl e \<Rightarrow> Inl e
                 | Inr n \<Rightarrow>
                     Inr \<lparr>en_version = str_field kvs ''protocol_version'',
                          en_message_id = str_field kvs ''message_id'',
                          en_session_id = str_field kvs ''session_id'',
                          en_sender = str_field kvs ''sender_id'',
                          en_recipient = str_field kvs ''recipient_id'', en_type = ty,
                          en_sequence = n, en_created = str_field kvs ''created_at'',
                          en_expires = str_field kvs ''expires_at'',
                          en_payload = dict_or_empty (map_of kvs ''payload''),
                          en_auth = dict_or_empty (map_of kvs ''authentication'')\<rparr>))
      | _ \<Rightarrow> Inl (Transport TransportMessageError))"

definition envelope_from_json :: "string \<Rightarrow> gm_error + transport_envelope" where
  "envelope_from_json s =
     (case json_loads s of None \<Rightarrow> Inl (Transport TransportMessageError) | Some d \<Rightarrow> envelope_from_dict d)"

section \<open>Validation\<close>

definition forbidden_transport_fields :: "string list" where
  "forbidden_transport_fields =
     [''messages'', ''sms'', ''sms_messages'', ''contacts'', ''contacts_list'', ''photos'', ''files'',
      ''browser_history'', ''keyboard_input'', ''keystrokes'', ''clipboard'', ''clipboard_data'',
      ''microphone'', ''mic_stream'', ''camera'', ''camera_stream'', ''location'',
      ''location_history'', ''gps'', ''screen'', ''screen_stream'', ''app_usage'', ''notifications'',
      ''passwords'', ''command'', ''shell'', ''exec'', ''eval'']"

definition validate_payload_safety :: "json \<Rightarrow> gm_error option" where
  "validate_payload_safety p =
     (case p of
        JObj kvs \<Rightarrow>
          if list_ex (\<lambda>(k, v). py_lower k \<in> set forbidden_transport_fields) kvs then
            Some (Transport TransportPayloadError)
          else None
      | _ \<Rightarrow> Some (Transport TransportPayloadError))"

text \<open>\<^verbatim>\<open>a < b\<close> of two datetimes: both aware or both naive.\<close>

fun stamp_less :: "stamp \<Rightarrow> stamp \<Rightarrow> gm_error + bool" where
  "stamp_less (Aware a) (Aware b) = Inr (a < b)"
| "stamp_less (Naive a) (Naive b) = Inr (a < b)"
| "stamp_less (Aware a) (Naive b) = Inl (Builtin PyTypeError)"
| "stamp_less (Naive a) (Aware b) = Inl (Builtin PyTypeError)"
| "stamp_less _ _ = Inl (Builtin PyValueError)"

definition check_timestamps :: "(string \<Rightarrow> stamp) \<Rightarrow> transport_envelope \<Rightarrow> gm_error option" where
  "check_timestamps read_iso e =
     (case stamp_less (read_iso (en_expires e)) (read_iso (en_created e)) of
        Inl x \<Rightarrow> Some (if x = Builtin PyValueError then Transport TransportMessageError else x)
      | Inr early \<Rightarrow> if early then Some (Transport TransportMessageError) else None)"

fun allowed_name :: "message_type + string \<Rightarrow> string" where
  "allowed_name (Inl t) = message_value t"
| "allowed_name (Inr s) = py_upper s"

text \<open>The result is the exception, if any.\<close>

definition envelope_validate ::
  "(string \<Rightarrow> stamp) \<Rightarrow> nat \<Rightarrow> (message_type + string) list \<Rightarrow> transport_envelope \<Rightarrow> gm_error option" where
  "envelope_validate read_iso max_size allowed e =
     (let bad = Some (Transport TransportMessageError) in
      if en_version e \<noteq> protocol_version then bad
      else if en_message_id e = [] \<or> 64 < length (en_message_id e) then bad
      else if \<not> valid_id (en_sender e) then bad
      else if \<not> valid_id (en_recipient e) then bad
      else case (if allowed = [] then None
                 else case type_value (en_type e) of
                   Inl x \<Rightarrow> Some x
                 | Inr v \<Rightarrow> if v \<notin> set (map allowed_name allowed) then bad else None) of
        Some x \<Rightarrow> Some x
      | None \<Rightarrow>
          if en_sequence e < 0 then bad
          else case check_timestamps read_iso e of
            Some x \<Rightarrow> Some x
          | None \<Rightarrow>
             (case to_canonical_json e of
                Inl x \<Rightarrow> Some x
              | Inr txt \<Rightarrow>
                  if max_size < length txt then Some (Transport TransportOversizedMessageError)
                  else validate_payload_safety (JObj (en_payload e))))"

section \<open>Encrypted frames\<close>

record encrypted_frame =
  ef_version :: string
  ef_session_id :: string
  ef_sequence :: int
  ef_sender :: string
  ef_recipient :: string
  ef_type :: string
  ef_nonce_hex :: string
  ef_ciphertext_hex :: string
  ef_created :: string
  ef_expires :: string

definition frame_to_dict :: "encrypted_frame \<Rightarrow> json" where
  "frame_to_dict f =
     JObj [(''protocol_version'', JStr (ef_version f)), (''session_id'', JStr (ef_session_id f)),
           (''sequence'', JInt (ef_sequence f)), (''sender_id'', JStr (ef_sender f)),
           (''recipient_id'', JStr (ef_recipient f)), (''message_type'', JStr (ef_type f)),
           (''nonce_hex'', JStr (ef_nonce_hex f)), (''ciphertext_hex'', JStr (ef_ciphertext_hex f)),
           (''created_at'', JStr (ef_created f)), (''expires_at'', JStr (ef_expires f))]"

definition frame_to_canonical_json :: "encrypted_frame \<Rightarrow> string" where
  "frame_to_canonical_json f = json_dumps (frame_to_dict f)"

definition frame_from_dict :: "json \<Rightarrow> gm_error + encrypted_frame" where
  "frame_from_dict d =
     (case d of
        JObj kvs \<Rightarrow>
          if \<not> has_fields [''protocol_version'', ''session_id'', ''sequence'', ''sender_id'',
                ''recipient_id'', ''nonce_hex'', ''ciphertext_hex''] kvs then
            Inl (Transport TransportMessageError)
          else
            (case int_of_json (get_or JNull kvs ''sequence'') of
               Inl e \<Rightarrow> Inl e
             | Inr n \<Rightarrow>
                 Inr \<lparr>ef_version = str_field kvs ''protocol_version'',
                      ef_session_id = str_field kvs ''session_id'', ef_sequence = n,
                      ef_sender = str_field kvs ''sender_id'',
                      ef_recipient = str_field kvs ''recipient_id'',
                      ef_type = py_str (get_or (JStr ''ENCRYPTED'') kvs ''message_type''),
                      ef_nonce_hex = str_field kvs ''nonce_hex'',
                      ef_ciphertext_hex = str_field kvs ''ciphertext_hex'',
                      ef_created = str_field kvs ''created_at'',
                      ef_expires = str_field kvs ''expires_at''\<rparr>)
      | _ \<Rightarrow> Inl (Transport TransportMessageError))"

definition frame_from_json :: "string \<Rightarrow> gm_error + encrypted_frame" where
  "frame_from_json s =
     (case json_loads s of None \<Rightarrow> Inl (Transport TransportMessageError) | Some d \<Rightarrow> frame_from_dict d)"

section \<open>Facts\<close>

lemma message_from_value [simp]: "message_from_str (message_value t) = Inr t"
  by (cases t) (simp_all add: message_from_str_def enum_of_def all_message_types_def py_strip_def
      py_upper_def upper_char_def is_py_space_def)

lemma connection_from_value [simp]: "connection_from_str (connection_value c) = c"
  by (cases c) (simp_all add: connection_from_str_def enum_of_def py_strip_def py_upper_def
      upper_char_def is_py_space_def)

lemma transport_from_value [simp]: "transport_from_str (transport_value t) = t"
  by (cases t) (simp_all add: transport_from_str_def enum_of_def py_strip_def py_upper_def
      upper_char_def is_py_space_def)

text \<open>A frame survives the wire.\<close>

lemma frame_json_roundtrip: "frame_from_json (frame_to_canonical_json f) = Inr f"
proof -
  obtain kvs where kvs: "frame_to_dict f = JObj kvs" "distinct (map fst kvs)"
    by (simp add: frame_to_dict_def)
  have ok: "json_ok (frame_to_dict f)" by (simp add: frame_to_dict_def)
  have "json_loads (frame_to_canonical_json f) =
      Some (JObj (sort_key fst (map (\<lambda>(x, v). (x, canon v)) kvs)))"
    using json_dumps_loads(1)[OF ok] by (simp add: frame_to_canonical_json_def kvs)
  then show ?thesis using kvs(1)
    by (auto simp: frame_from_json_def frame_from_dict_def has_fields_def get_or_def str_field_def
        map_of_canon[OF kvs(2)] frame_to_dict_def py_str_def)
qed

text \<open>
  An envelope written as canonical JSON is read back as it was, up to the order of the
  keys of its payload and its authentication data.
\<close>

theorem envelope_json_roundtrip:
  assumes "to_canonical_json e = Inr txt"
    and "json_ok (JObj (en_payload e))" and "json_ok (JObj (en_auth e))"
  shows "\<exists>p a. envelope_from_json txt = Inr (e\<lparr>en_payload := p, en_auth := a\<rparr>) \<and>
           JObj p = canon (JObj (en_payload e)) \<and> JObj a = canon (JObj (en_auth e))"
proof -
  obtain t where t: "en_type e = Typed t"
    using assms(1) by (cases "en_type e") (auto simp: to_canonical_json_def envelope_to_dict_def)
  let ?kvs = "header_fields e (message_value t) @
      [(''payload'', JObj (en_payload e)), (''authentication'', JObj (en_auth e))]"
  have out: "txt = json_dumps (JObj ?kvs)"
    using assms(1) t by (simp add: to_canonical_json_def envelope_to_dict_def)
  have dist: "distinct (map fst ?kvs)" by (simp add: header_fields_def)
  have "json_ok (JObj ?kvs)" using assms(2,3) dist by (simp add: header_fields_def)
  from json_dumps_loads(1)[OF this] have "json_loads txt =
      Some (JObj (sort_key fst (map (\<lambda>(x, v). (x, canon v)) ?kvs)))" by (simp add: out)
  then show ?thesis using t
    by (cases e) (simp add: envelope_from_json_def envelope_from_dict_def has_fields_def get_or_def
        str_field_def map_of_canon[OF dist] header_fields_def py_str_def dict_or_empty_def)
qed

lemma envelope_json_roundtrip_witness:
  "let e = \<lparr>en_version = ''1.0'', en_message_id = ''M1'', en_session_id = [], en_sender = ''GM-P-00000001'',
      en_recipient = ''GM-C-00000002'', en_type = Typed PING, en_sequence = 1, en_created = ''1'',
      en_expires = ''5'', en_payload = [(''x'', JInt 3)], en_auth = []\<rparr> in
   \<exists>out p a. to_canonical_json e = Inr out \<and> envelope_from_json out = Inr (e\<lparr>en_payload := p, en_auth := a\<rparr>)"
proof -
  define e where "e = \<lparr>en_version = ''1.0'', en_message_id = ''M1'', en_session_id = [],
      en_sender = ''GM-P-00000001'', en_recipient = ''GM-C-00000002'', en_type = Typed PING,
      en_sequence = 1, en_created = ''1'', en_expires = ''5'', en_payload = [(''x'', JInt 3)], en_auth = []\<rparr>"
  obtain out where out: "to_canonical_json e = Inr out"
    by (simp add: to_canonical_json_def envelope_to_dict_def e_def)
  have "json_ok (JObj (en_payload e))" "json_ok (JObj (en_auth e))" by (simp_all add: e_def)
  from envelope_json_roundtrip[OF out this] out show ?thesis unfolding e_def[symmetric] Let_def by blast
qed

end
