(* ===== verification/TransportCrypto.thy ===== *)
theory TransportCrypto
  imports TransportModels
begin

text \<open>
  \<^verbatim>\<open>guardianmesh/transport/crypto.py\<close>: session keys, nonces, the AEAD envelope and the
  signed handshake messages.  The primitives are those of the package
  \<^verbatim>\<open>cryptography\<close>, fields of \<open>primitives\<close>: X25519 on raw keys, HKDF-SHA256 with 68 bytes of
  output, AES-GCM (\<open>None\<close> is an exception; an opened text that is not UTF-8 counts as
  \<open>None\<close>).  Bytes are numbers below 256.
\<close>

record primitives =
  x_public :: "nat list \<Rightarrow> nat list"
  x_parse :: "nat list \<Rightarrow> nat list option"
  x_exchange :: "nat list \<Rightarrow> nat list \<Rightarrow> nat list option"
  hkdf :: "nat list \<Rightarrow> string \<Rightarrow> string \<Rightarrow> nat list"
  seal :: "nat list \<Rightarrow> nat list \<Rightarrow> string \<Rightarrow> string \<Rightarrow> nat list option"
  unseal :: "nat list \<Rightarrow> nat list \<Rightarrow> nat list \<Rightarrow> string \<Rightarrow> string option"

definition hkdf_info_prefix :: string where
  "hkdf_info_prefix = ''GuardianMesh-Nexus-v0.6-AES-GCM-256''"

definition ephemeral_public_from_bytes :: "primitives \<Rightarrow> nat list \<Rightarrow> gm_error + nat list" where
  "ephemeral_public_from_bytes pr raw =
     (if length raw \<noteq> 32 then Inl (Core CryptoError)
      else case x_parse pr raw of None \<Rightarrow> Inl (Core CryptoError) | Some k \<Rightarrow> Inr k)"

text \<open>The key to send with, the key to receive with, the nonce salt.\<close>

definition derive_session_keys ::
  "primitives \<Rightarrow> nat list \<Rightarrow> string \<Rightarrow> bool \<Rightarrow> string \<Rightarrow> nat list \<times> nat list \<times> nat list" where
  "derive_session_keys pr shared salt is_initiator info =
     (let derived = hkdf pr shared salt info;
          client_key = take 32 derived;
          server_key = take 32 (drop 32 derived);
          session_salt = take 4 (drop 64 derived)
      in if is_initiator then (client_key, server_key, session_salt)
         else (server_key, client_key, session_salt))"

text \<open>\<^verbatim>\<open>struct.pack("!Q", n)\<close>: \<open>None\<close> is \<^verbatim>\<open>struct.error\<close>.\<close>

definition pack_u64 :: "int \<Rightarrow> nat list option" where
  "pack_u64 n =
     (if 0 \<le> n \<and> n < 2 ^ 64 then Some (map (\<lambda>i. nat n div 256 ^ i mod 256) [7, 6, 5, 4, 3, 2, 1, 0])
      else None)"

definition construct_nonce :: "nat list \<Rightarrow> int \<Rightarrow> nat list option" where
  "construct_nonce salt sequence =
     (let salt4 = (if length salt \<noteq> 4 then take 4 (salt @ [0, 0, 0, 0]) else salt)
      in map_option (\<lambda>q. salt4 @ q) (pack_u64 sequence))"

definition associated_data ::
  "string \<Rightarrow> string \<Rightarrow> int \<Rightarrow> string \<Rightarrow> string \<Rightarrow> string \<Rightarrow> string \<Rightarrow> string \<Rightarrow> string" where
  "associated_data version sid n sender recipient ty created expires =
     join_with '':'' [version, sid, int_str n, sender, recipient, ty, created, expires]"

definition plaintext_of :: "transport_envelope \<Rightarrow> string \<Rightarrow> string" where
  "plaintext_of e ty =
     json_dumps_spaced (JObj [(''message_id'', JStr (en_message_id e)), (''message_type'', JStr ty),
       (''payload'', JObj (en_payload e)), (''authentication'', JObj (en_auth e))])"

definition encrypt_envelope_payload ::
  "primitives \<Rightarrow> nat list \<Rightarrow> nat list \<Rightarrow> transport_envelope \<Rightarrow> gm_error + encrypted_frame" where
  "encrypt_envelope_payload pr send_key salt e =
     (case (construct_nonce salt (en_sequence e), type_value (en_type e)) of
        (Some nonce, Inr ty) \<Rightarrow>
          (case seal pr send_key nonce (plaintext_of e ty)
                  (associated_data (en_version e) (en_session_id e) (en_sequence e) (en_sender e)
                     (en_recipient e) ty (en_created e) (en_expires e)) of
             None \<Rightarrow> Inl (Core CryptoError)
           | Some ciphertext \<Rightarrow>
               Inr \<lparr>ef_version = en_version e, ef_session_id = en_session_id e,
                    ef_sequence = en_sequence e, ef_sender = en_sender e,
                    ef_recipient = en_recipient e, ef_type = ty, ef_nonce_hex = to_hex nonce,
                    ef_ciphertext_hex = to_hex ciphertext, ef_created = en_created e,
                    ef_expires = en_expires e\<rparr>)
      | _ \<Rightarrow> Inl (Core CryptoError))"

text \<open>
  The opened text as an envelope.  \<open>fresh\<close> is the identifier
  \<^verbatim>\<open>generate_message_id()\<close> offers as a default.
\<close>

definition opened_envelope :: "string \<Rightarrow> encrypted_frame \<Rightarrow> string \<Rightarrow> transport_envelope option" where
  "opened_envelope fresh f txt =
     (case json_loads txt of
        Some (JObj kvs) \<Rightarrow>
          (case get_or (JStr (ef_type f)) kvs ''message_type'' of
             JStr ty \<Rightarrow>
               (case message_from_str ty of
                  Inl _ \<Rightarrow> None
                | Inr t \<Rightarrow>
                    Some \<lparr>en_version = ef_version f,
                          en_message_id = py_str (get_or (JStr fresh) kvs ''message_id''),
                          en_session_id = ef_session_id f, en_sender = ef_sender f,
                          en_recipient = ef_recipient f, en_type = Typed t,
                          en_sequence = ef_sequence f, en_created = ef_created f,
                          en_expires = ef_expires f,
                          en_payload = dict_or_empty (map_of kvs ''payload''),
                          en_auth = dict_or_empty (map_of kvs ''authentication'')\<rparr>)
           | _ \<Rightarrow> None)
      | _ \<Rightarrow> None)"

text \<open>Whatever goes wrong is reported as \<^verbatim>\<open>TransportAuthenticationError\<close>.\<close>

definition decrypt_frame_payload ::
  "primitives \<Rightarrow> string \<Rightarrow> nat list \<Rightarrow> nat list \<Rightarrow> encrypted_frame \<Rightarrow> gm_error + transport_envelope" where
  "decrypt_frame_payload pr fresh recv_key salt f =
     (let failed = Inl (Transport TransportAuthenticationError) in
      case (construct_nonce salt (ef_sequence f), from_hex (ef_nonce_hex f)) of
        (Some expected, Some actual) \<Rightarrow>
          if actual \<noteq> expected then failed
          else
            (case from_hex (ef_ciphertext_hex f) of
               None \<Rightarrow> failed
             | Some ciphertext \<Rightarrow>
                (case unseal pr recv_key actual ciphertext
                        (associated_data (ef_version f) (ef_session_id f) (ef_sequence f) (ef_sender f)
                           (ef_recipient f) (ef_type f) (ef_created f) (ef_expires f)) of
                   None \<Rightarrow> failed
                 | Some txt \<Rightarrow>
                    (case opened_envelope fresh f txt of None \<Rightarrow> failed | Some e \<Rightarrow> Inr e)))
      | _ \<Rightarrow> failed)"

section \<open>The handshake\<close>

type_synonym hex_text = string
type_synonym iso_text = string

definition init_proof ::
  "string \<Rightarrow> string \<Rightarrow> hex_text \<Rightarrow> string \<Rightarrow> iso_text \<Rightarrow> iso_text \<Rightarrow> string" where
  "init_proof sender recipient eph_hex client_nonce created expires =
     join_with '':'' [''GM-INIT'', sender, recipient, eph_hex, client_nonce, created, expires]"

definition ack_proof ::
  "string \<Rightarrow> string \<Rightarrow> string \<Rightarrow> hex_text \<Rightarrow> hex_text \<Rightarrow> string \<Rightarrow> string \<Rightarrow>
   iso_text \<Rightarrow> iso_text \<Rightarrow> string" where
  "ack_proof sender recipient sid eph_hex client_eph_hex client_nonce server_nonce created expires =
     join_with '':'' [''GM-ACK'', sender, recipient, sid, eph_hex, client_eph_hex, client_nonce,
       server_nonce, created, expires]"

text \<open>\<open>sign\<close> is the signature with the sender's identity key; \<open>eph\<close> the raw ephemeral key.\<close>

definition create_session_init ::
  "(int \<Rightarrow> string) \<Rightarrow> (string \<Rightarrow> nat list) \<Rightarrow> int \<Rightarrow> int \<Rightarrow> string \<Rightarrow> string \<Rightarrow> string \<Rightarrow> string \<Rightarrow>
   nat list \<Rightarrow> transport_envelope" where
  "create_session_init write_iso sign now ttl msg_id client_nonce sender recipient eph =
     (let created = write_iso now; expires = write_iso (now + ttl * second) in
      \<lparr>en_version = ''1.0'', en_message_id = msg_id, en_session_id = [], en_sender = sender,
       en_recipient = recipient, en_type = Typed SESSION_INIT, en_sequence = 0,
       en_created = created, en_expires = expires,
       en_payload = [(''ephemeral_pub_hex'', JStr (to_hex eph)), (''client_nonce'', JStr client_nonce)],
       en_auth = [(''signature_hex'', JStr (to_hex (sign
          (init_proof sender recipient (to_hex eph) client_nonce created expires))))]\<rparr>)"

definition create_session_ack ::
  "(int \<Rightarrow> string) \<Rightarrow> (string \<Rightarrow> nat list) \<Rightarrow> int \<Rightarrow> int \<Rightarrow> string \<Rightarrow> string \<Rightarrow> string \<Rightarrow> string \<Rightarrow>
   string \<Rightarrow> nat list \<Rightarrow> nat list \<Rightarrow> string \<Rightarrow> transport_envelope" where
  "create_session_ack write_iso sign now ttl msg_id server_nonce sender recipient sid eph client_eph
     client_nonce =
     (let created = write_iso now; expires = write_iso (now + ttl * second) in
      \<lparr>en_version = ''1.0'', en_message_id = msg_id, en_session_id = sid, en_sender = sender,
       en_recipient = recipient, en_type = Typed SESSION_ACK, en_sequence = 0,
       en_created = created, en_expires = expires,
       en_payload = [(''session_id'', JStr sid), (''ephemeral_pub_hex'', JStr (to_hex eph)),
         (''server_nonce'', JStr server_nonce)],
       en_auth = [(''signature_hex'', JStr (to_hex (sign
          (ack_proof sender recipient sid (to_hex eph) (to_hex client_eph) client_nonce server_nonce
             created expires))))]\<rparr>)"

text \<open>\<^verbatim>\<open>bytes.fromhex(v)\<close> of a decoded value.\<close>

definition json_hex :: "json \<Rightarrow> nat list option" where
  [model_defs]: "json_hex v = (case v of JStr s \<Rightarrow> from_hex s | _ \<Rightarrow> None)"

definition signature_ok :: "crypto \<Rightarrow> string \<Rightarrow> nat list \<Rightarrow> string \<Rightarrow> bool" where
  [model_defs]: "signature_ok cr pem sg msg =
     (case load_pem cr pem of None \<Rightarrow> False | Some raw \<Rightarrow> ed25519_verify cr raw sg msg)"

definition expect_type :: "message_type \<Rightarrow> transport_envelope \<Rightarrow> gm_error option" where
  "expect_type t e =
     (if en_type e = Typed t then None
      else case type_value (en_type e) of
        Inl x \<Rightarrow> Some x | Inr _ \<Rightarrow> Some (Transport TransportHandshakeError))"

definition parse_ephemeral :: "primitives \<Rightarrow> json \<Rightarrow> nat list option" where
  "parse_ephemeral pr v =
     (case json_hex v of
        None \<Rightarrow> None
      | Some raw \<Rightarrow> (case ephemeral_public_from_bytes pr raw of Inl _ \<Rightarrow> None | Inr k \<Rightarrow> Some k))"

definition verify_session_init ::
  "primitives \<Rightarrow> crypto \<Rightarrow> transport_envelope \<Rightarrow> string \<Rightarrow> gm_error + (nat list \<times> string)" where
  "verify_session_init pr cr e pem =
     (case expect_type SESSION_INIT e of
        Some x \<Rightarrow> Inl x
      | None \<Rightarrow>
         (let eph_hex = get_or JNull (en_payload e) ''ephemeral_pub_hex'';
              client_nonce = get_or JNull (en_payload e) ''client_nonce'';
              sig_hex = get_or JNull (en_auth e) ''signature_hex''
          in if \<not> py_truthy eph_hex \<or> \<not> py_truthy client_nonce \<or> \<not> py_truthy sig_hex then
               Inl (Transport TransportHandshakeError)
             else case (parse_ephemeral pr eph_hex, json_hex sig_hex) of
               (Some eph, Some sg) \<Rightarrow>
                 if signature_ok cr pem sg (init_proof (en_sender e) (en_recipient e) (py_str eph_hex)
                      (py_str client_nonce) (en_created e) (en_expires e))
                 then Inr (eph, py_str client_nonce)
                 else Inl (Transport TransportAuthenticationError)
             | _ \<Rightarrow> Inl (Transport TransportHandshakeError)))"

definition verify_session_ack ::
  "primitives \<Rightarrow> crypto \<Rightarrow> transport_envelope \<Rightarrow> string \<Rightarrow> nat list \<Rightarrow> string \<Rightarrow>
   gm_error + (nat list \<times> string \<times> string)" where
  "verify_session_ack pr cr e pem client_eph client_nonce =
     (case expect_type SESSION_ACK e of
        Some x \<Rightarrow> Inl x
      | None \<Rightarrow>
         (let named = get_or JNull (en_payload e) ''session_id'';
              sid = (if py_truthy named then named else JStr (en_session_id e));
              eph_hex = get_or JNull (en_payload e) ''ephemeral_pub_hex'';
              server_nonce = get_or JNull (en_payload e) ''server_nonce'';
              sig_hex = get_or JNull (en_auth e) ''signature_hex''
          in if \<not> py_truthy sid \<or> \<not> py_truthy eph_hex \<or> \<not> py_truthy server_nonce \<or> \<not> py_truthy sig_hex then
               Inl (Transport TransportHandshakeError)
             else case (parse_ephemeral pr eph_hex, json_hex sig_hex) of
               (Some eph, Some sg) \<Rightarrow>
                 if signature_ok cr pem sg (ack_proof (en_sender e) (en_recipient e) (py_str sid)
                      (py_str eph_hex) (to_hex client_eph) client_nonce (py_str server_nonce)
                      (en_created e) (en_expires e))
                 then Inr (eph, py_str sid, py_str server_nonce)
                 else Inl (Transport TransportAuthenticationError)
             | _ \<Rightarrow> Inl (Transport TransportHandshakeError)))"

section \<open>Facts\<close>

text \<open>What the model asks of the AEAD: what was sealed opens again, and ciphertexts are bytes.\<close>

definition aead_correct :: "primitives \<Rightarrow> bool" where
  "aead_correct pr \<longleftrightarrow>
     (\<forall>k n p ad c. seal pr k n p ad = Some c \<longrightarrow> unseal pr k n c ad = Some p \<and> list_all (\<lambda>b. b < 256) c)"

lemma pack_u64_bytes: "pack_u64 n = Some q \<Longrightarrow> list_all (\<lambda>b. b < 256) q \<and> length q = 8"
  by (auto simp: pack_u64_def split: if_splits)

lemma big_endian_value:
  "foldl (\<lambda>a b. 256 * a + b) a (map (\<lambda>i. x div 256 ^ i mod 256) (rev [0..<n])) =
   a * 256 ^ n + x mod (256 ^ n :: nat)"
proof (induction n arbitrary: a)
  case 0
  then show ?case by simp
next
  case (Suc n)
  have "x mod (256 ^ n * 256) = 256 ^ n * (x div 256 ^ n mod 256) + x mod 256 ^ n"
    by (rule mod_mult2_eq)
  with Suc show ?case by (simp add: algebra_simps)
qed

lemma pack_u64_inject:
  assumes "pack_u64 m = Some q" and "pack_u64 n = Some q"
  shows "m = n"
proof -
  have val: "foldl (\<lambda>a b. 256 * a + b) 0 q = nat k \<and> 0 \<le> k" if "pack_u64 k = Some q" for k
  proof -
    from that have q: "q = map (\<lambda>i. nat k div 256 ^ i mod 256) [7, 6, 5, 4, 3, 2, 1, 0]"
      and k: "0 \<le> k" "k < 2 ^ 64"
      unfolding pack_u64_def by (simp_all split: if_splits)
    have "[7, 6, 5, 4, 3, 2, 1, 0] = rev [0..<8]" by (simp add: upt_rec)
    then have "foldl (\<lambda>a b. 256 * a + b) 0 q = nat k mod 256 ^ 8"
      using big_endian_value[of 0 "nat k" 8] q by simp
    also have "nat k < 256 ^ 8" using k by (simp add: nat_less_iff)
    then have "nat k mod 256 ^ 8 = nat k" by (rule mod_less)
    finally show ?thesis using k(1) by simp
  qed
  from val[OF assms(1)] val[OF assms(2)] show ?thesis by (metis eq_nat_nat_iff)
qed

text \<open>One salt, two sequence numbers: two nonces.\<close>

lemma construct_nonce_inject:
  assumes "construct_nonce salt m = Some x" and "construct_nonce salt n = Some x"
  shows "m = n"
  using assms pack_u64_inject by (auto simp: construct_nonce_def Let_def split: if_splits)

lemma construct_nonce_bytes:
  assumes "construct_nonce salt n = Some x" and "list_all (\<lambda>b. b < 256) salt"
  shows "list_all (\<lambda>b. b < 256) x" and "length x = 12"
proof -
  let ?s = "if length salt \<noteq> 4 then take 4 (salt @ [0, 0, 0, 0]) else salt"
  have "set (take 4 (salt @ [0, 0, 0, 0])) \<subseteq> set salt \<union> {0}"
    using set_take_subset[of 4 "salt @ [0, 0, 0, 0]"] by auto
  then have "list_all (\<lambda>b. b < 256) ?s" using assms(2) by (auto simp: list_all_iff)
  moreover have "length ?s = 4" by (simp del: take_append)
  moreover obtain q where "pack_u64 n = Some q" "x = ?s @ q"
    using assms(1) by (auto simp: construct_nonce_def Let_def)
  ultimately show "list_all (\<lambda>b. b < 256) x" and "length x = 12"
    using pack_u64_bytes[of n q] by simp_all
qed

lemma get_or_dict: "map_of kvs k = Some v \<Longrightarrow> get_or d kvs k = v"
  by (simp add: get_or_def)

text \<open>What one side seals the other opens, under the same key and salt.\<close>

lemma decrypt_encrypt:
  assumes "encrypt_envelope_payload pr key salt e = Inr f"
    and "aead_correct pr" and "list_all (\<lambda>b. b < 256) salt"
    and "json_ok (JObj (en_payload e))" and "json_ok (JObj (en_auth e))"
  shows "\<exists>p a. decrypt_frame_payload pr fresh key salt f = Inr (e\<lparr>en_payload := p, en_auth := a\<rparr>) \<and>
           JObj p = canon (JObj (en_payload e)) \<and> JObj a = canon (JObj (en_auth e))"
proof -
  from assms(1) obtain nonce ty c where parts: "construct_nonce salt (en_sequence e) = Some nonce"
    "type_value (en_type e) = Inr ty"
    "seal pr key nonce (plaintext_of e ty)
       (associated_data (en_version e) (en_session_id e) (en_sequence e) (en_sender e)
          (en_recipient e) ty (en_created e) (en_expires e)) = Some c"
    and f: "f = \<lparr>ef_version = en_version e, ef_session_id = en_session_id e,
                    ef_sequence = en_sequence e, ef_sender = en_sender e,
                    ef_recipient = en_recipient e, ef_type = ty, ef_nonce_hex = to_hex nonce,
                    ef_ciphertext_hex = to_hex c, ef_created = en_created e,
                    ef_expires = en_expires e\<rparr>"
    by (auto simp: encrypt_envelope_payload_def split: option.splits sum.splits)
  obtain t where t: "en_type e = Typed t" "ty = message_value t"
    using parts(2) by (cases "en_type e") auto
  have opens: "unseal pr key nonce c (associated_data (en_version e) (en_session_id e)
      (en_sequence e) (en_sender e) (en_recipient e) ty (en_created e) (en_expires e)) =
        Some (plaintext_of e ty)" and bytes: "list_all (\<lambda>b. b < 256) c"
    using assms(2) parts(3) by (auto simp: aead_correct_def)
  have hex: "from_hex (to_hex nonce) = Some nonce" "from_hex (to_hex c) = Some c"
    using from_hex_to_hex construct_nonce_bytes(1)[OF parts(1) assms(3)] bytes by blast+
  let ?kvs = "[(''message_id'', JStr (en_message_id e)), (''message_type'', JStr ty),
       (''payload'', JObj (en_payload e)), (''authentication'', JObj (en_auth e))]"
  have dist: "distinct (map fst ?kvs)" by simp
  have "json_ok (JObj ?kvs)" using assms(4,5) by simp
  from json_dumps_loads(2)[OF this] have loads: "json_loads (plaintext_of e ty) =
      Some (JObj (sort_key fst (map (\<lambda>(x, v). (x, canon v)) ?kvs)))" by (simp add: plaintext_of_def)
  have "\<exists>p a. opened_envelope fresh f (plaintext_of e ty) = Some (e\<lparr>en_payload := p, en_auth := a\<rparr>) \<and>
      JObj p = canon (JObj (en_payload e)) \<and> JObj a = canon (JObj (en_auth e))"
    unfolding opened_envelope_def loads
    using t by (cases e) (simp add: get_or_def map_of_canon[OF dist] py_str_def dict_or_empty_def f)
  then show ?thesis using parts(1) opens hex
    by (auto simp: decrypt_frame_payload_def f)
qed

text \<open>Both ends derive the same keys, crosswise.\<close>

lemma keys_cross:
  assumes "derive_session_keys pr sh salt True info = (s, r, x)"
  shows "derive_session_keys pr sh salt False info = (r, s, x)"
  using assms by (auto simp: derive_session_keys_def Let_def)

end
