(* ===== verification/TransportSession.thy ===== *)
theory TransportSession
  imports Complex_Main TransportCrypto Interfaces
begin

text \<open>
  \<^verbatim>\<open>guardianmesh/transport/session.py\<close>, \<^verbatim>\<open>heartbeat.py\<close> and \<^verbatim>\<open>reconnect.py\<close>: an
  established session with its keys, sequence numbers and replay window, and the liveness
  bookkeeping around it.  The sets of seen sequence numbers and message identifiers are lists;
  the session's lock makes each operation atomic.
\<close>

text \<open>\<^verbatim>\<open>last_error\<close>: a constant text, or one that quotes an exception.\<close>

datatype reason = Reason string | Because string gm_error

record tsession =
  ss_id :: string
  ss_local :: string
  ss_remote :: string
  ss_send_key :: "nat list option"
  ss_recv_key :: "nat list option"
  ss_salt :: "nat list"
  ss_transport :: transport_type
  ss_state :: connection_state
  ss_created :: string
  ss_established :: "string option"
  ss_expires :: string
  ss_closed :: "string option"
  ss_heartbeat :: "string option"
  ss_reconnects :: int
  ss_error :: "reason option"
  ss_metadata :: "(string \<times> json) list"
  ss_outbound :: int
  ss_inbound :: int
  ss_window :: int
  ss_seen :: "int list"
  ss_ids :: "string list"
  ss_id_set :: "string list"

text \<open>The calendar: \<^verbatim>\<open>fromisoformat\<close> and \<^verbatim>\<open>isoformat\<close> of an aware UTC datetime.\<close>

record calendar =
  read_iso :: "string \<Rightarrow> stamp"
  write_iso :: "int \<Rightarrow> string"

text \<open>
  \<^verbatim>\<open>TransportSession(...)\<close> as the servers and clients call it: keys, salt, medium, state
  and deadline given, a window of 128 and the other arguments at their defaults.
\<close>

definition new_transport_session ::
  "calendar \<Rightarrow> int \<Rightarrow> string \<Rightarrow> string \<Rightarrow> string \<Rightarrow> nat list \<times> nat list \<times> nat list \<Rightarrow>
   transport_type \<Rightarrow> connection_state \<Rightarrow> string \<Rightarrow> tsession" where
  "new_transport_session cal now sid local remote keys medium st expires =
     \<lparr>ss_id = sid, ss_local = local, ss_remote = remote,
      ss_send_key = Some (fst keys), ss_recv_key = Some (fst (snd keys)), ss_salt = snd (snd keys),
      ss_transport = medium, ss_state = st, ss_created = write_iso cal now,
      ss_established = None,
      ss_expires = (if expires = [] then write_iso cal (now + 3600 * second) else expires),
      ss_closed = None, ss_heartbeat = Some (write_iso cal now), ss_reconnects = 0,
      ss_error = None, ss_metadata = [], ss_outbound = 0, ss_inbound = 0, ss_window = 128,
      ss_seen = [], ss_ids = [], ss_id_set = []\<rparr>"

definition session_expired :: "calendar \<Rightarrow> int \<Rightarrow> tsession \<Rightarrow> bool" where
  "session_expired cal now s =
     (if ss_expires s = [] then False
      else case aware_instant (read_iso cal (ss_expires s)) of Inl _ \<Rightarrow> True | Inr t \<Rightarrow> t < now)"

definition session_active :: "calendar \<Rightarrow> int \<Rightarrow> tsession \<Rightarrow> bool" where
  "session_active cal now s \<longleftrightarrow> ss_state s = CONNECTED \<and> \<not> session_expired cal now s"

definition next_outbound_sequence :: "tsession \<Rightarrow> int \<times> tsession" where
  "next_outbound_sequence s = (ss_outbound s + 1, s\<lparr>ss_outbound := ss_outbound s + 1\<rparr>)"

section \<open>Replay defence\<close>

text \<open>\<^verbatim>\<open>deque(maxlen=1000)\<close>.\<close>

definition id_cache_size :: nat where "id_cache_size = 1000"

definition remember_id :: "string \<Rightarrow> tsession \<Rightarrow> tsession" where
  "remember_id m s =
     (let s1 = (if length (ss_ids s) = id_cache_size
                then s\<lparr>ss_ids := tl (ss_ids s), ss_id_set := remove1 (hd (ss_ids s)) (ss_id_set s)\<rparr>
                else s)
      in s1\<lparr>ss_ids := ss_ids s1 @ [m], ss_id_set := List.insert m (ss_id_set s1)\<rparr>)"

definition advance_window :: "int \<Rightarrow> tsession \<Rightarrow> tsession" where
  "advance_window n s =
     (let inb = (if ss_inbound s < n then n else ss_inbound s);
          cutoff = max 0 (inb - ss_window s)
      in s\<lparr>ss_inbound := inb,
           ss_seen := filter (\<lambda>x. cutoff \<le> x) (List.insert n (ss_seen s))\<rparr>)"

definition validate_and_advance_inbound ::
  "calendar \<Rightarrow> int \<Rightarrow> int \<Rightarrow> string \<Rightarrow> tsession \<Rightarrow> (tsession, unit) outcome" where
  "validate_and_advance_inbound cal now n m s =
     (if session_expired cal now s then
        raises (Transport TransportSessionExpiredError) (s\<lparr>ss_state := EXPIRED_CONN\<rparr>)
      else if n \<le> 0 then raises (Transport TransportSequenceError) s
      else if m \<in> set (ss_id_set s) then raises (Transport TransportReplayError) s
      else if n \<in> set (ss_seen s) then raises (Transport TransportReplayError) s
      else if n < max 1 (ss_inbound s - ss_window s) then raises (Transport TransportReplayError) s
      else returns () ((advance_window n (remember_id m s))\<lparr>ss_heartbeat := Some (write_iso cal now)\<rparr>))"

section \<open>Sending and receiving\<close>

definition no_key :: "nat list option \<Rightarrow> bool" where
  "no_key k \<longleftrightarrow> (case k of None \<Rightarrow> True | Some b \<Rightarrow> b = [])"

definition encrypt_envelope ::
  "primitives \<Rightarrow> calendar \<Rightarrow> int \<Rightarrow> transport_envelope \<Rightarrow> tsession \<Rightarrow> (tsession, encrypted_frame) outcome" where
  "encrypt_envelope pr cal now e s =
     (if no_key (ss_send_key s) then raises (Transport TransportConnectionClosedError) s
      else if session_expired cal now s then
        raises (Transport TransportSessionExpiredError) (s\<lparr>ss_state := EXPIRED_CONN\<rparr>)
      else
        (let (n, s1) = next_outbound_sequence s;
             e1 = e\<lparr>en_session_id := ss_id s, en_sequence := n\<rparr>
         in case envelope_validate (read_iso cal) 65536 [] e1 of
              Some x \<Rightarrow> raises x s1
            | None \<Rightarrow> (encrypt_envelope_payload pr (the (ss_send_key s)) (ss_salt s) e1, s1)))"

definition decrypt_frame ::
  "primitives \<Rightarrow> calendar \<Rightarrow> int \<Rightarrow> string \<Rightarrow> encrypted_frame \<Rightarrow> tsession \<Rightarrow> (tsession, transport_envelope) outcome" where
  "decrypt_frame pr cal now fresh f s =
     (if no_key (ss_recv_key s) then raises (Transport TransportConnectionClosedError) s
      else if session_expired cal now s then
        raises (Transport TransportSessionExpiredError) (s\<lparr>ss_state := EXPIRED_CONN\<rparr>)
      else if ef_session_id f \<noteq> ss_id s then raises (Transport TransportSequenceError) s
      else case decrypt_frame_payload pr fresh (the (ss_recv_key s)) (ss_salt s) f of
        Inl x \<Rightarrow> raises x s
      | Inr e \<Rightarrow>
         (case validate_and_advance_inbound cal now (en_sequence e) (en_message_id e) s of
            (Inl x, s1) \<Rightarrow> raises x s1
          | (Inr _, s1) \<Rightarrow> returns e s1))"

definition touch_heartbeat :: "calendar \<Rightarrow> int \<Rightarrow> tsession \<Rightarrow> tsession" where
  "touch_heartbeat cal now s = s\<lparr>ss_heartbeat := Some (write_iso cal now)\<rparr>"

definition close_session :: "calendar \<Rightarrow> int \<Rightarrow> reason \<Rightarrow> tsession \<Rightarrow> tsession" where
  "close_session cal now why s =
     s\<lparr>ss_state := DISCONNECTED, ss_closed := Some (write_iso cal now), ss_error := Some why,
       ss_send_key := None, ss_recv_key := None, ss_salt := []\<rparr>"

section \<open>Heartbeats\<close>

record heartbeat_config =
  hc_interval :: int
  hc_timeout :: int

definition default_heartbeat :: heartbeat_config where
  "default_heartbeat = \<lparr>hc_interval = 15, hc_timeout = 45\<rparr>"

definition liveness_envelope ::
  "heartbeat_config \<Rightarrow> calendar \<Rightarrow> int \<Rightarrow> string \<Rightarrow> string \<Rightarrow> string \<Rightarrow> message_type \<Rightarrow>
   (string \<times> json) list \<Rightarrow> tsession \<Rightarrow> transport_envelope \<times> tsession" where
  "liveness_envelope hc cal now msg_id local remote t payload s =
     (let (n, s1) = next_outbound_sequence s in
      (\<lparr>en_version = ''1.0'', en_message_id = msg_id, en_session_id = ss_id s, en_sender = local,
        en_recipient = remote, en_type = Typed t, en_sequence = n, en_created = write_iso cal now,
        en_expires = write_iso cal (now + hc_timeout hc * second), en_payload = payload, en_auth = []\<rparr>,
       s1))"

definition create_heartbeat ::
  "heartbeat_config \<Rightarrow> calendar \<Rightarrow> int \<Rightarrow> string \<Rightarrow> string \<Rightarrow> string \<Rightarrow> (string \<times> json) list \<Rightarrow>
   tsession \<Rightarrow> transport_envelope \<times> tsession" where
  "create_heartbeat hc cal now msg_id local remote meta s =
     liveness_envelope hc cal now msg_id local remote HEARTBEAT
       [(''timestamp'', JStr (write_iso cal now)), (''meta'', JObj meta)] s"

definition create_ping ::
  "heartbeat_config \<Rightarrow> calendar \<Rightarrow> int \<Rightarrow> string \<Rightarrow> string \<Rightarrow> string \<Rightarrow> tsession \<Rightarrow>
   transport_envelope \<times> tsession" where
  "create_ping hc cal now msg_id local remote s =
     liveness_envelope hc cal now msg_id local remote PING [(''sent_at'', JStr (write_iso cal now))] s"

definition create_pong ::
  "heartbeat_config \<Rightarrow> calendar \<Rightarrow> int \<Rightarrow> string \<Rightarrow> string \<Rightarrow> string \<Rightarrow> string \<Rightarrow> tsession \<Rightarrow>
   transport_envelope \<times> tsession" where
  "create_pong hc cal now msg_id local remote ping_id s =
     liveness_envelope hc cal now msg_id local remote PONG
       [(''ping_id'', JStr ping_id), (''responded_at'', JStr (write_iso cal now))] s"

text \<open>A threshold of 0 is falsy, so the default timeout replaces it.\<close>

definition is_heartbeat_overdue ::
  "heartbeat_config \<Rightarrow> (string \<Rightarrow> stamp) \<Rightarrow> int \<Rightarrow> string option \<Rightarrow> int option \<Rightarrow> bool" where
  "is_heartbeat_overdue hc rd now last_seen threshold =
     (case last_seen of
        None \<Rightarrow> True
      | Some txt \<Rightarrow>
          if txt = [] then True
          else case aware_instant (rd txt) of
            Inl _ \<Rightarrow> True
          | Inr t \<Rightarrow>
              (case threshold of None \<Rightarrow> hc_timeout hc | Some k \<Rightarrow> if k = 0 then hc_timeout hc else k) * second
                < now - t)"

definition evaluate_peer_state ::
  "heartbeat_config \<Rightarrow> (string \<Rightarrow> stamp) \<Rightarrow> int \<Rightarrow> connection_state \<Rightarrow> string option \<Rightarrow> connection_state" where
  "evaluate_peer_state hc rd now st last_seen =
     (if st = DISCONNECTED \<or> st = REVOKED_CONN \<or> st = FAILED then st
      else if is_heartbeat_overdue hc rd now last_seen (Some (hc_timeout hc * 2)) then DISCONNECTED
      else if is_heartbeat_overdue hc rd now last_seen (Some (hc_timeout hc)) then DEGRADED
      else CONNECTED)"

section \<open>Reconnecting\<close>

text \<open>
  Delays are rationals; \<open>round2\<close> is Python's \<^verbatim>\<open>round(x, 2)\<close> and \<open>jitter\<close> the number
  \<^verbatim>\<open>random.uniform(0, 0.5 * delay)\<close> draws.
\<close>

record reconnect_config =
  rc_initial :: rat
  rc_max :: rat
  rc_factor :: rat
  rc_retries :: int
  rc_jitter :: bool

definition get_delay :: "reconnect_config \<Rightarrow> (rat \<Rightarrow> rat) \<Rightarrow> (rat \<Rightarrow> rat) \<Rightarrow> int \<Rightarrow> rat" where
  "get_delay rc round2 jitter attempt =
     (if attempt \<le> 0 then rc_initial rc
      else let delay = min (rc_max rc) (rc_initial rc * rc_factor rc ^ nat (max 0 (attempt - 1)));
               delay = (if rc_jitter rc then delay + jitter delay else delay)
           in round2 delay)"

definition can_retry :: "reconnect_config \<Rightarrow> int \<Rightarrow> bool" where
  "can_retry rc attempt \<longleftrightarrow> attempt \<le> rc_retries rc"

type_synonym attempts = "string \<Rightarrow> int option"

definition get_attempt_count :: "string \<Rightarrow> attempts \<Rightarrow> int" where
  "get_attempt_count d a = (case a d of None \<Rightarrow> 0 | Some n \<Rightarrow> n)"

definition record_attempt :: "string \<Rightarrow> attempts \<Rightarrow> int \<times> attempts" where
  "record_attempt d a = (get_attempt_count d a + 1, a(d \<mapsto> get_attempt_count d a + 1))"

definition reset_attempts :: "string \<Rightarrow> attempts \<Rightarrow> attempts" where
  "reset_attempts d a = a(d := None)"

end
