(* ===== verification/TransportRegistry.thy ===== *)
theory TransportRegistry
  imports TransportSession
begin

text \<open>
  \<^verbatim>\<open>guardianmesh/transport/registry.py\<close> and the tables of migration 6: sessions, peers,
  message metadata and sequence numbers.  Timestamp columns are texts; \<open>now\<close> is the text of
  the clock.  The state and medium columns hold the values of their enumerations.
\<close>

record session_row =
  sr_id :: string
  sr_local :: string
  sr_remote :: string
  sr_state :: connection_state
  sr_type :: transport_type
  sr_created :: string
  sr_established :: "string option"
  sr_heartbeat :: "string option"
  sr_expires :: string
  sr_closed :: "string option"
  sr_reconnects :: int
  sr_error :: "reason option"
  sr_metadata :: string

record peer_row =
  pr_device :: string
  pr_role :: string
  pr_state :: connection_state
  pr_session :: "string option"
  pr_seen :: "string option"
  pr_sync :: "string option"
  pr_heartbeat :: "string option"
  pr_reconnects :: int
  pr_endpoint :: "string option"
  pr_metadata :: string
  pr_updated :: string

record message_row =
  mr_id :: string
  mr_session :: string
  mr_sender :: string
  mr_recipient :: string
  mr_type :: string
  mr_sequence :: int
  mr_direction :: string
  mr_created :: string
  mr_status :: string
  mr_reason :: "reason option"
  mr_digest :: "string option"

record sequence_row =
  qr_session :: string
  qr_device :: string
  qr_inbound :: int
  qr_outbound :: int
  qr_updated :: string

record transport_tables =
  tt_sessions :: "session_row list"
  tt_peers :: "peer_row list"
  tt_messages :: "message_row list"
  tt_sequences :: "sequence_row list"

text \<open>\<^verbatim>\<open>coalesce(a, b)\<close>, and Python's \<^verbatim>\<open>a or b\<close> on an optional text.\<close>

definition coalesce :: "'a option \<Rightarrow> 'a option \<Rightarrow> 'a option" where
  [simp]: "coalesce a b = (case a of None \<Rightarrow> b | Some x \<Rightarrow> Some x)"

definition text_or :: "string option \<Rightarrow> string \<Rightarrow> string" where
  "text_or a b = (case a of None \<Rightarrow> b | Some x \<Rightarrow> if x = [] then b else x)"

section \<open>Sessions\<close>

definition record_session :: "string \<Rightarrow> tsession \<Rightarrow> transport_tables \<Rightarrow> transport_tables" where
  "record_session now s tt =
     (let row = \<lparr>sr_id = ss_id s, sr_local = ss_local s, sr_remote = ss_remote s,
                 sr_state = ss_state s, sr_type = ss_transport s, sr_created = ss_created s,
                 sr_established = ss_established s,
                 sr_heartbeat = Some (text_or (ss_heartbeat s) now), sr_expires = ss_expires s,
                 sr_closed = ss_closed s, sr_reconnects = ss_reconnects s, sr_error = ss_error s,
                 sr_metadata = json_dumps_plain (JObj (ss_metadata s))\<rparr>
      in tt\<lparr>tt_sessions := upsert_row sr_id row
           (\<lambda>old. old\<lparr>sr_state := sr_state row,
              sr_established := coalesce (sr_established row) (sr_established old),
              sr_heartbeat := coalesce (sr_heartbeat row) (sr_heartbeat old),
              sr_closed := sr_closed row, sr_reconnects := sr_reconnects row,
              sr_error := sr_error row, sr_metadata := sr_metadata row\<rparr>) (tt_sessions tt)\<rparr>)"

definition terminal_connection :: "connection_state \<Rightarrow> bool" where
  "terminal_connection c \<longleftrightarrow> c \<in> {DISCONNECTED, FAILED, EXPIRED_CONN, REVOKED_CONN}"

definition update_session_state ::
  "string \<Rightarrow> string \<Rightarrow> connection_state \<Rightarrow> reason option \<Rightarrow> transport_tables \<Rightarrow> transport_tables" where
  "update_session_state now sid st err tt =
     (let closed = (if terminal_connection st then Some now else None) in
      tt\<lparr>tt_sessions := update_where (\<lambda>r. sr_id r = sid)
           (\<lambda>r. r\<lparr>sr_state := st, sr_error := coalesce err (sr_error r),
                  sr_closed := coalesce closed (sr_closed r)\<rparr>) (tt_sessions tt)\<rparr>)"

text \<open>
  \<^verbatim>\<open>SessionInfo.from_dict(dict(row))\<close>.  The row has no sequence columns, so both numbers
  default to 0, and its metadata column is a text, not a dictionary, so it reads as empty.
\<close>

record session_info =
  si_id :: string
  si_local :: string
  si_remote :: string
  si_state :: connection_state
  si_type :: transport_type
  si_created :: string
  si_established :: "string option"
  si_expires :: string
  si_closed :: "string option"
  si_heartbeat :: "string option"
  si_reconnects :: int
  si_error :: "reason option"
  si_inbound :: int
  si_outbound :: int
  si_metadata :: "(string \<times> json) list"

definition dict_metadata :: "json option \<Rightarrow> (string \<times> json) list" where
  "dict_metadata v = (case v of Some (JObj kvs) \<Rightarrow> kvs | _ \<Rightarrow> [])"

definition session_info_of_row :: "session_row \<Rightarrow> session_info" where
  "session_info_of_row r =
     \<lparr>si_id = sr_id r, si_local = sr_local r, si_remote = sr_remote r,
      si_state = connection_from_str (connection_value (sr_state r)),
      si_type = transport_from_str (transport_value (sr_type r)), si_created = sr_created r,
      si_established = sr_established r, si_expires = sr_expires r, si_closed = sr_closed r,
      si_heartbeat = sr_heartbeat r, si_reconnects = sr_reconnects r, si_error = sr_error r,
      si_inbound = 0, si_outbound = 0, si_metadata = dict_metadata (Some (JStr (sr_metadata r)))\<rparr>"

text \<open>\<^verbatim>\<open>TransportSession.to_info\<close>: the live view.\<close>

definition to_info :: "tsession \<Rightarrow> session_info" where
  "to_info s =
     \<lparr>si_id = ss_id s, si_local = ss_local s, si_remote = ss_remote s, si_state = ss_state s,
      si_type = ss_transport s, si_created = ss_created s, si_established = ss_established s,
      si_expires = ss_expires s, si_closed = ss_closed s, si_heartbeat = ss_heartbeat s,
      si_reconnects = ss_reconnects s, si_error = ss_error s, si_inbound = ss_inbound s,
      si_outbound = ss_outbound s, si_metadata = ss_metadata s\<rparr>"

definition get_transport_session :: "transport_tables \<Rightarrow> string \<Rightarrow> session_info option" where
  "get_transport_session tt sid = map_option session_info_of_row (fetch_where (\<lambda>r. sr_id r = sid) (tt_sessions tt))"

definition list_transport_sessions ::
  "string option \<Rightarrow> string option \<Rightarrow> int \<Rightarrow> transport_tables \<Rightarrow> session_info list" where
  "list_transport_sessions device state limit tt =
     map session_info_of_row
       (sql_limit limit
         (sort_desc sr_created
           (filter (\<lambda>r. (case device of None \<Rightarrow> True | Some d \<Rightarrow> d = [] \<or> sr_local r = d \<or> sr_remote r = d) \<and>
                        (case state of None \<Rightarrow> True
                         | Some x \<Rightarrow> x = [] \<or> connection_value (sr_state r) = py_upper x))
             (tt_sessions tt))))"

definition get_active_session_for_peer ::
  "string \<Rightarrow> string \<Rightarrow> transport_tables \<Rightarrow> session_info option" where
  "get_active_session_for_peer local remote tt =
     (case sort_desc sr_created
             (filter (\<lambda>r. sr_local r = local \<and> sr_remote r = remote \<and> sr_state r = CONNECTED)
               (tt_sessions tt)) of
        [] \<Rightarrow> None
      | r # _ \<Rightarrow> Some (session_info_of_row r))"

section \<open>Peers\<close>

text \<open>A peer with the columns a statement leaves out at their defaults.\<close>

definition blank_peer :: "string \<Rightarrow> connection_state \<Rightarrow> string \<Rightarrow> peer_row" where
  "blank_peer device st now =
     \<lparr>pr_device = device, pr_role = ''CHILD'', pr_state = st, pr_session = None, pr_seen = None,
      pr_sync = None, pr_heartbeat = None, pr_reconnects = 0, pr_endpoint = None,
      pr_metadata = ''{}'', pr_updated = now\<rparr>"

text \<open>\<^verbatim>\<open>PeerInfo\<close>.\<close>

record peer_info =
  pi_device :: string
  pi_role :: string
  pi_state :: connection_state
  pi_session :: "string option"
  pi_seen :: "string option"
  pi_sync :: "string option"
  pi_heartbeat :: "string option"
  pi_reconnects :: int
  pi_endpoint :: "string option"
  pi_type :: transport_type
  pi_metadata :: "(string \<times> json) list"
  pi_updated :: string

text \<open>The role column is checked; \<^verbatim>\<open>transport_peers\<close> has no column for the medium.\<close>

definition record_peer :: "string \<Rightarrow> peer_info \<Rightarrow> transport_tables \<Rightarrow> (transport_tables, unit) outcome" where
  "record_peer now p tt =
     (if pi_role p \<noteq> ''PARENT'' \<and> pi_role p \<noteq> ''CHILD'' then raises (Builtin SqliteIntegrityError) tt
      else
        (let row = \<lparr>pr_device = pi_device p, pr_role = pi_role p, pr_state = pi_state p,
                    pr_session = pi_session p, pr_seen = Some (text_or (pi_seen p) now),
                    pr_sync = pi_sync p, pr_heartbeat = pi_heartbeat p, pr_reconnects = pi_reconnects p,
                    pr_endpoint = pi_endpoint p, pr_metadata = json_dumps_plain (JObj (pi_metadata p)),
                    pr_updated = now\<rparr>
         in returns ()
           (tt\<lparr>tt_peers := upsert_row pr_device row
              (\<lambda>old. old\<lparr>pr_role := pr_role row, pr_state := pr_state row,
                 pr_session := coalesce (pr_session row) (pr_session old),
                 pr_seen := coalesce (pr_seen row) (pr_seen old),
                 pr_sync := coalesce (pr_sync row) (pr_sync old),
                 pr_heartbeat := coalesce (pr_heartbeat row) (pr_heartbeat old),
                 pr_reconnects := pr_reconnects row,
                 pr_endpoint := coalesce (pr_endpoint row) (pr_endpoint old),
                 pr_metadata := pr_metadata row, pr_updated := now\<rparr>) (tt_peers tt)\<rparr>)))"

text \<open>\<^verbatim>\<open>PeerInfo.from_dict(dict(row))\<close>: the medium defaults to LOCAL, the metadata to none.\<close>

definition peer_info_of_row :: "peer_row \<Rightarrow> peer_info" where
  "peer_info_of_row r =
     \<lparr>pi_device = pr_device r, pi_role = pr_role r,
      pi_state = connection_from_str (connection_value (pr_state r)), pi_session = pr_session r,
      pi_seen = pr_seen r, pi_sync = pr_sync r, pi_heartbeat = pr_heartbeat r,
      pi_reconnects = pr_reconnects r, pi_endpoint = pr_endpoint r,
      pi_type = transport_from_str ''LOCAL'', pi_metadata = dict_metadata (Some (JStr (pr_metadata r))),
      pi_updated = pr_updated r\<rparr>"

definition get_peer :: "transport_tables \<Rightarrow> string \<Rightarrow> peer_info option" where
  "get_peer tt d = map_option peer_info_of_row (fetch_where (\<lambda>r. pr_device r = d) (tt_peers tt))"

definition list_peers :: "string option \<Rightarrow> transport_tables \<Rightarrow> peer_info list" where
  "list_peers state tt =
     map peer_info_of_row
       (sort_desc pr_updated
         (filter (\<lambda>r. case state of None \<Rightarrow> True
                      | Some x \<Rightarrow> x = [] \<or> connection_value (pr_state r) = py_upper x) (tt_peers tt)))"

definition update_peer_state ::
  "string \<Rightarrow> string \<Rightarrow> connection_state \<Rightarrow> string option \<Rightarrow> string option \<Rightarrow> transport_tables \<Rightarrow>
   transport_tables" where
  "update_peer_state now d st sid ep tt =
     tt\<lparr>tt_peers := upsert_row pr_device
        ((blank_peer d st now)\<lparr>pr_session := sid, pr_endpoint := ep\<rparr>)
        (\<lambda>old. old\<lparr>pr_state := st, pr_session := coalesce sid (pr_session old),
                   pr_endpoint := coalesce ep (pr_endpoint old), pr_updated := now\<rparr>) (tt_peers tt)\<rparr>"

definition record_peer_heartbeat ::
  "string \<Rightarrow> string \<Rightarrow> string option \<Rightarrow> transport_tables \<Rightarrow> transport_tables" where
  "record_peer_heartbeat now d sid tt =
     tt\<lparr>tt_peers := upsert_row pr_device
        ((blank_peer d CONNECTED now)\<lparr>pr_session := sid, pr_seen := Some now, pr_heartbeat := Some now\<rparr>)
        (\<lambda>old. old\<lparr>pr_state := CONNECTED, pr_session := coalesce sid (pr_session old),
                   pr_seen := Some now, pr_heartbeat := Some now, pr_updated := now\<rparr>) (tt_peers tt)\<rparr>"

definition record_peer_sync :: "string \<Rightarrow> string \<Rightarrow> transport_tables \<Rightarrow> transport_tables" where
  "record_peer_sync now d tt =
     tt\<lparr>tt_peers := update_where (\<lambda>r. pr_device r = d)
        (\<lambda>r. r\<lparr>pr_sync := Some now, pr_seen := Some now, pr_updated := now\<rparr>) (tt_peers tt)\<rparr>"

definition increment_peer_reconnect :: "string \<Rightarrow> string \<Rightarrow> transport_tables \<Rightarrow> int \<times> transport_tables" where
  "increment_peer_reconnect now d tt =
     (let tt1 = tt\<lparr>tt_peers := upsert_row pr_device
            ((blank_peer d RECONNECTING now)\<lparr>pr_reconnects := 1\<rparr>)
            (\<lambda>old. old\<lparr>pr_reconnects := pr_reconnects old + 1, pr_state := RECONNECTING,
                       pr_updated := now\<rparr>) (tt_peers tt)\<rparr>
      in (case get_peer tt1 d of None \<Rightarrow> 1 | Some p \<Rightarrow> pi_reconnects p, tt1))"

definition reset_peer_reconnect :: "string \<Rightarrow> transport_tables \<Rightarrow> transport_tables" where
  "reset_peer_reconnect d tt =
     tt\<lparr>tt_peers := update_where (\<lambda>r. pr_device r = d) (\<lambda>r. r\<lparr>pr_reconnects := 0\<rparr>) (tt_peers tt)\<rparr>"

section \<open>Messages\<close>

text \<open>
  What a caller passes to \<^verbatim>\<open>record_message\<close>; \<open>fresh\<close> is the identifier drawn when none is
  given, and the digest is SHA-256 of the payload's sorted JSON text.
\<close>

record message_record =
  rm_session :: string
  rm_sender :: string
  rm_recipient :: string
  rm_type :: string
  rm_sequence :: int
  rm_direction :: string
  rm_status :: string
  rm_reason :: "reason option"
  rm_payload :: "(string \<times> json) list"
  rm_message_id :: "string option"

definition record_message ::
  "(string \<Rightarrow> string) \<Rightarrow> string \<Rightarrow> string \<Rightarrow> message_record \<Rightarrow> transport_tables \<Rightarrow>
   (transport_tables, unit) outcome" where
  "record_message sha256 now fresh m tt =
     (let direction = py_upper (rm_direction m);
          row = \<lparr>mr_id = text_or (rm_message_id m) fresh, mr_session = rm_session m,
                 mr_sender = rm_sender m, mr_recipient = rm_recipient m, mr_type = rm_type m,
                 mr_sequence = rm_sequence m, mr_direction = direction, mr_created = now,
                 mr_status = py_upper (rm_status m), mr_reason = rm_reason m,
                 mr_digest = (if rm_payload m = [] then None
                              else Some (sha256 (json_dumps_spaced (JObj (rm_payload m)))))\<rparr>
      in if \<not> (- (2 ^ 63) \<le> rm_sequence m \<and> rm_sequence m < 2 ^ 63) then raises (Builtin PyOverflowError) tt
         else if direction \<noteq> ''INBOUND'' \<and> direction \<noteq> ''OUTBOUND'' then
           raises (Builtin SqliteIntegrityError) tt
         else returns ()
           (tt\<lparr>tt_messages := upsert_row mr_id row
              (\<lambda>old. old\<lparr>mr_status := mr_status row, mr_reason := mr_reason row\<rparr>) (tt_messages tt)\<rparr>))"

definition list_messages ::
  "string option \<Rightarrow> string option \<Rightarrow> int \<Rightarrow> transport_tables \<Rightarrow> message_row list" where
  "list_messages device session limit tt =
     sql_limit limit
       (sort_desc mr_created
         (filter (\<lambda>r. (case device of None \<Rightarrow> True | Some d \<Rightarrow> d = [] \<or> mr_sender r = d \<or> mr_recipient r = d) \<and>
                      (case session of None \<Rightarrow> True | Some x \<Rightarrow> x = [] \<or> mr_session r = x)) (tt_messages tt)))"

section \<open>Sequence numbers\<close>

definition qr_key :: "sequence_row \<Rightarrow> string \<times> string" where
  [model_defs]: "qr_key r = (qr_session r, qr_device r)"

definition update_sequences ::
  "string \<Rightarrow> string \<Rightarrow> string \<Rightarrow> int \<Rightarrow> int \<Rightarrow> transport_tables \<Rightarrow> transport_tables" where
  "update_sequences now sid d inb outb tt =
     tt\<lparr>tt_sequences := upsert_row qr_key
        \<lparr>qr_session = sid, qr_device = d, qr_inbound = inb, qr_outbound = outb, qr_updated = now\<rparr>
        (\<lambda>old. old\<lparr>qr_inbound := max inb (qr_inbound old), qr_outbound := max outb (qr_outbound old),
                   qr_updated := now\<rparr>) (tt_sequences tt)\<rparr>"

definition get_sequences :: "string \<Rightarrow> string \<Rightarrow> transport_tables \<Rightarrow> int \<times> int" where
  "get_sequences sid d tt =
     (case fetch_where (\<lambda>r. qr_key r = (sid, d)) (tt_sequences tt) of
        None \<Rightarrow> (0, 0) | Some r \<Rightarrow> (qr_inbound r, qr_outbound r))"

section \<open>Facts\<close>

lemma sequences_after_update:
  "get_sequences sid' d' (update_sequences now sid d i j tt) =
     (if (sid', d') = (sid, d) then
        (case fetch_where (\<lambda>r. qr_key r = (sid, d)) (tt_sequences tt) of
           None \<Rightarrow> (i, j)
         | Some r \<Rightarrow> (max i (qr_inbound r), max j (qr_outbound r)))
      else get_sequences sid' d' tt)"
proof -
  let ?row = "\<lparr>qr_session = sid, qr_device = d, qr_inbound = i, qr_outbound = j, qr_updated = now\<rparr>"
  let ?f = "\<lambda>old. old\<lparr>qr_inbound := max i (qr_inbound old), qr_outbound := max j (qr_outbound old),
      qr_updated := now\<rparr>"
  have "fetch_where (\<lambda>r. qr_key r = (sid', d')) (upsert_row qr_key ?row ?f (tt_sequences tt)) =
      (if (sid', d') = (sid, d) then
         Some (case fetch_where (\<lambda>r. qr_key r = (sid, d)) (tt_sequences tt) of None \<Rightarrow> ?row | Some old \<Rightarrow> ?f old)
       else fetch_where (\<lambda>r. qr_key r = (sid', d')) (tt_sequences tt))"
    by (rule fetch_upsert) (simp_all add: qr_key_def)
  then show ?thesis by (simp add: get_sequences_def update_sequences_def split: option.split)
qed

lemma keyed_tables:
  "keyed sr_id (tt_sessions tt) \<Longrightarrow> keyed sr_id (tt_sessions (record_session now s tt))"
  "keyed pr_device (tt_peers tt) \<Longrightarrow> keyed pr_device (tt_peers (update_peer_state now d st sid ep tt))"
  "keyed pr_device (tt_peers tt) \<Longrightarrow> keyed pr_device (tt_peers (record_peer_heartbeat now d sid tt))"
  by (auto simp: record_session_def update_peer_state_def record_peer_heartbeat_def blank_peer_def Let_def
      intro!: keyed_upsert_row)

lemma get_peer_after_state:
  "get_peer (update_peer_state now d st sid ep tt) d \<noteq> None \<and>
   pi_state (the (get_peer (update_peer_state now d st sid ep tt) d)) = st"
  by (auto simp: get_peer_def update_peer_state_def fetch_upsert blank_peer_def peer_info_of_row_def
      split: option.split)

text \<open>
  The session read back from the registry loses its sequence numbers and its metadata.
\<close>

lemma session_reads_back:
  assumes "\<not> has_key sr_id (ss_id s) (tt_sessions tt)"
  shows "get_transport_session (record_session now s tt) (ss_id s) =
    Some ((to_info s)\<lparr>si_heartbeat := Some (text_or (ss_heartbeat s) now), si_inbound := 0,
           si_outbound := 0, si_metadata := []\<rparr>)"
proof -
  have "fetch_where (\<lambda>r. sr_id r = ss_id s) (tt_sessions tt) = None"
    using assms by (force simp: fetch_where_None has_key_iff)
  then show ?thesis using assms
    by (simp add: get_transport_session_def record_session_def Let_def upsert_row_def fetch_where_append
        fetch_where_Cons session_info_of_row_def to_info_def dict_metadata_def)
qed

end
