(* ===== verification/Telemetry.thy ===== *)
theory Telemetry
  imports Policy Interfaces
begin

text \<open>
  \<^verbatim>\<open>guardianmesh/telemetry/sequence.py\<close> and \<^verbatim>\<open>guardianmesh/telemetry/processor.py\<close>:
  per-device sequence numbers and the processing of signed health envelopes, down to the policy
  evaluation each accepted envelope triggers.
\<close>

section \<open>Sequence numbers\<close>

record seq_row =
  sq_device :: string
  sq_out :: int
  sq_in :: int
  sq_updated :: stamp

definition get_next_outgoing_sequence :: "int \<Rightarrow> string \<Rightarrow> seq_row list \<Rightarrow> int \<times> seq_row list" where
  "get_next_outgoing_sequence now dev rows =
     (let rows' = upsert_row sq_device
            \<lparr>sq_device = dev, sq_out = 1, sq_in = 0, sq_updated = Aware now\<rparr>
            (\<lambda>r. r\<lparr>sq_out := sq_out r + 1, sq_updated := Aware now\<rparr>) rows
      in (case fetch_where (\<lambda>r. sq_device r = dev) rows' of None \<Rightarrow> 1 | Some r \<Rightarrow> sq_out r, rows'))"

definition get_last_incoming_sequence :: "string \<Rightarrow> seq_row list \<Rightarrow> int" where
  "get_last_incoming_sequence dev rows =
     (case fetch_where (\<lambda>r. sq_device r = dev) rows of None \<Rightarrow> 0 | Some r \<Rightarrow> sq_in r)"

text \<open>An integer outside 64 bits cannot be bound to a statement.\<close>

definition sql_int :: "int \<Rightarrow> bool" where
  [model_defs]: "sql_int i \<longleftrightarrow> - (2 ^ 63) \<le> i \<and> i < 2 ^ 63"

definition validate_and_advance_incoming_sequence ::
  "int \<Rightarrow> string \<Rightarrow> int \<Rightarrow> seq_row list \<Rightarrow> (seq_row list, unit) outcome" where
  "validate_and_advance_incoming_sequence now dev sq rows =
     (if sq \<le> get_last_incoming_sequence dev rows then raises (Telemetry TelemetryReplayError) rows
      else if \<not> sql_int sq then raises (Builtin PyOverflowError) rows
      else returns ()
        (upsert_row sq_device
           \<lparr>sq_device = dev, sq_out = 0, sq_in = sq, sq_updated = Aware now\<rparr>
           (\<lambda>r. r\<lparr>sq_in := sq, sq_updated := Aware now\<rparr>) rows))"

section \<open>The tables\<close>

record health_row =
  hr_device :: string
  hr_state :: health_state
  hr_last :: stamp
  hr_sequence :: int
  hr_battery :: "int option"
  hr_charging :: "bool option"
  hr_total :: "int option"
  hr_free :: "int option"
  hr_uptime :: "int option"
  hr_connectivity :: connectivity_state
  hr_platform :: "string option"
  hr_version :: string
  hr_paused :: bool
  hr_updated :: stamp

record event_row =
  ev_id :: nat
  ev_device :: string
  ev_sequence :: int
  ev_captured :: stamp
  ev_state :: health_state
  ev_battery :: "int option"
  ev_charging :: "bool option"
  ev_free :: "int option"
  ev_total :: "int option"
  ev_uptime :: "int option"
  ev_connectivity :: connectivity_state
  ev_created :: stamp

record telemetry_db =
  tb_trust :: pairing_db
  tb_policy :: policy_db
  tb_sequences :: "seq_row list"
  tb_health :: "health_row list"
  tb_events :: "event_row list"
  tb_next_event :: nat
  tb_audit :: "audit_call list"

definition tele_audit :: "string \<Rightarrow> string option \<Rightarrow> bool \<Rightarrow> telemetry_db \<Rightarrow> telemetry_db" where
  [model_defs]: "tele_audit ev actor ok db = db\<lparr>tb_audit := audit ev actor ok (tb_audit db)\<rparr>"

record telemetry_config =
  timestamp_skew_tolerance_seconds :: int
  telemetry_retention_days :: int
  health_degraded_threshold_seconds :: int
  health_offline_threshold_seconds :: int

text \<open>What the processor is built with: the libraries and the configuration.\<close>

record telemetry_env =
  tv_crypto :: crypto
  tv_iso :: "stamp \<Rightarrow> string"
  tv_round :: "rat \<Rightarrow> rat"
  tv_config :: telemetry_config
  tv_policy :: policy_config

section \<open>The steps of an envelope\<close>

text \<open>
  Skew and retention; whatever \<^verbatim>\<open>fromisoformat\<close> or the comparison raises becomes a
  timestamp error.
\<close>

definition check_timestamp :: "telemetry_config \<Rightarrow> int \<Rightarrow> stamp \<Rightarrow> gm_error option" where
  "check_timestamp cfg now captured =
     (case aware_instant captured of
        Inl _ \<Rightarrow> Some (Telemetry TelemetryTimestampError)
      | Inr t \<Rightarrow>
          if now + timestamp_skew_tolerance_seconds cfg * second < t then
            Some (Telemetry TelemetryTimestampError)
          else if t < now - telemetry_retention_days cfg * day then
            Some (Telemetry TelemetryTimestampError)
          else None)"

definition age_state :: "telemetry_config \<Rightarrow> int \<Rightarrow> stamp \<Rightarrow> health_state" where
  "age_state cfg now captured =
     (case aware_instant captured of
        Inl _ \<Rightarrow> HS_UNKNOWN
      | Inr t \<Rightarrow>
          if now - t \<le> health_degraded_threshold_seconds cfg * second then HS_ONLINE
          else if now - t \<le> health_offline_threshold_seconds cfg * second then HS_DEGRADED
          else HS_OFFLINE)"

text \<open>\<^verbatim>\<open>connectivity_val.upper()\<close> on a truthy value that is not a text raises.\<close>

definition derive_health_state ::
  "telemetry_config \<Rightarrow> int \<Rightarrow> stamp \<Rightarrow> json \<Rightarrow> gm_error + health_state" where
  "derive_health_state cfg now captured conn =
     (if \<not> py_truthy conn then Inr (age_state cfg now captured)
      else case conn of
        JStr s \<Rightarrow> if py_upper s = ''OFFLINE'' then Inr HS_OFFLINE else Inr (age_state cfg now captured)
      | _ \<Rightarrow> Inl (Builtin PyAttributeError))"

text \<open>
  Binding a JSON value to an \<^verbatim>\<open>INTEGER\<close> or a \<^verbatim>\<open>TEXT\<close> column: booleans are stored as 0
  and 1, numbers as their text in a text column, lists and dictionaries cannot be bound.
\<close>

fun bind_integer :: "json \<Rightarrow> gm_error + int option" where
  "bind_integer JNull = Inr None"
| "bind_integer (JBool b) = Inr (Some (if b then 1 else 0))"
| "bind_integer (JInt i) = (if sql_int i then Inr (Some i) else Inl (Builtin PyOverflowError))"
| "bind_integer _ = Inl (Builtin SqliteBindingError)"

fun bind_text :: "json \<Rightarrow> gm_error + string option" where
  "bind_text JNull = Inr None"
| "bind_text (JStr s) = Inr (Some s)"
| "bind_text (JBool b) = Inr (Some (if b then ''1'' else ''0''))"
| "bind_text (JInt i) = (if sql_int i then Inr (Some (int_str i)) else Inl (Builtin PyOverflowError))"
| "bind_text _ = Inl (Builtin SqliteBindingError)"

text \<open>\<^verbatim>\<open>CHECK(connectivity IN ('ONLINE', 'DEGRADED', 'OFFLINE', 'UNKNOWN'))\<close>.\<close>

definition connectivity_column :: "string \<Rightarrow> gm_error + connectivity_state" where
  "connectivity_column s =
     (if s = ''ONLINE'' then Inr CS_ONLINE else if s = ''DEGRADED'' then Inr CS_DEGRADED
      else if s = ''OFFLINE'' then Inr CS_OFFLINE else if s = ''UNKNOWN'' then Inr CS_UNKNOWN
      else Inl (Builtin SqliteIntegrityError))"

definition charging_column :: "json \<Rightarrow> bool option" where
  "charging_column v = (case v of JBool b \<Rightarrow> Some b | _ \<Rightarrow> None)"

text \<open>The row that the snapshot becomes, the parameters bound in order, or what binding raises.\<close>

definition snapshot_row ::
  "int \<Rightarrow> envelope \<Rightarrow> (string \<times> json) list \<Rightarrow> health_state \<Rightarrow> gm_error + health_row" where
  "snapshot_row now e kvs hs =
     (case bind_integer (get_or JNull kvs ''battery_percent'') of Inl x \<Rightarrow> Inl x | Inr battery \<Rightarrow>
      case bind_integer (get_or JNull kvs ''storage_total_bytes'') of Inl x \<Rightarrow> Inl x | Inr tot \<Rightarrow>
      case bind_integer (get_or JNull kvs ''storage_free_bytes'') of Inl x \<Rightarrow> Inl x | Inr fr \<Rightarrow>
      case bind_integer (get_or JNull kvs ''uptime_seconds'') of Inl x \<Rightarrow> Inl x | Inr uptime \<Rightarrow>
      case bind_text (get_or JNull kvs ''platform'') of Inl x \<Rightarrow> Inl x | Inr platform \<Rightarrow>
      case connectivity_column (py_str (get_or (JStr ''ONLINE'') kvs ''connectivity'')) of
        Inl x \<Rightarrow> Inl x
      | Inr conn \<Rightarrow>
          Inr \<lparr>hr_device = te_device e, hr_state = hs, hr_last = te_captured e,
               hr_sequence = te_sequence e, hr_battery = battery,
               hr_charging = charging_column (get_or JNull kvs ''charging''), hr_total = tot,
               hr_free = fr, hr_uptime = uptime, hr_connectivity = conn, hr_platform = platform,
               hr_version = py_str (get_or (JStr ''0.3.0'') kvs ''agent_version''),
               hr_paused = False, hr_updated = Aware now\<rparr>)"

text \<open>The two statements of the transaction.\<close>

definition store_snapshot :: "int \<Rightarrow> health_row \<Rightarrow> telemetry_db \<Rightarrow> telemetry_db" where
  "store_snapshot now r db =
     db\<lparr>tb_health := upsert_row hr_device r (\<lambda>old. r\<lparr>hr_paused := hr_paused old\<rparr>) (tb_health db),
        tb_events := tb_events db @
          [\<lparr>ev_id = tb_next_event db, ev_device = hr_device r, ev_sequence = hr_sequence r,
            ev_captured = hr_last r, ev_state = hr_state r, ev_battery = hr_battery r,
            ev_charging = hr_charging r, ev_free = hr_free r, ev_total = hr_total r,
            ev_uptime = hr_uptime r, ev_connectivity = hr_connectivity r, ev_created = Aware now\<rparr>],
        tb_next_event := tb_next_event db + 1\<rparr>"

section \<open>Queries\<close>

definition get_device_health :: "int \<Rightarrow> string \<Rightarrow> telemetry_db \<Rightarrow> health_summary option" where
  "get_device_health now dev db =
     (case fetch_where (\<lambda>r. hr_device r = dev) (tb_health db) of
        None \<Rightarrow> None
      | Some r \<Rightarrow>
          Some \<lparr>hm_device = hr_device r, hm_state = hr_state r, hm_last_heartbeat = hr_last r,
                hm_battery = hr_battery r, hm_charging = hr_charging r, hm_free = hr_free r,
                hm_total = hr_total r, hm_uptime = hr_uptime r, hm_connectivity = hr_connectivity r,
                hm_platform = hr_platform r, hm_version = hr_version r, hm_sequence = hr_sequence r,
                hm_paused = hr_paused r,
                hm_seen_ago = (case aware_instant (hr_last r) of
                                 Inl _ \<Rightarrow> None | Inr t \<Rightarrow> Some (max 0 ((now - t) div second)))\<rparr>)"

definition get_health_history ::
  "string \<Rightarrow> int \<Rightarrow> int option \<Rightarrow> telemetry_db \<Rightarrow> event_row list" where
  "get_health_history dev limit since db =
     sql_limit limit
       (sort_key (\<lambda>r. - sort_instant (ev_captured r))
         (filter (\<lambda>r. ev_device r = dev \<and>
            (case since of None \<Rightarrow> True | Some t \<Rightarrow> t \<le> sort_instant (ev_captured r))) (tb_events db)))"

definition is_device_paused :: "string \<Rightarrow> telemetry_db \<Rightarrow> bool" where
  "is_device_paused dev db =
     (case fetch_where (\<lambda>r. hr_device r = dev) (tb_health db) of None \<Rightarrow> False | Some r \<Rightarrow> hr_paused r)"

section \<open>The processor\<close>

text \<open>
  A summary that is all defaults, for \<^verbatim>\<open>get_device_health(...) or DeviceHealthSummary(...)\<close>.
\<close>

definition default_summary :: "string \<Rightarrow> health_summary" where
  "default_summary dev =
     \<lparr>hm_device = dev, hm_state = HS_UNKNOWN, hm_last_heartbeat = Blank, hm_battery = None,
      hm_charging = None, hm_free = None, hm_total = None, hm_uptime = None,
      hm_connectivity = CS_UNKNOWN, hm_platform = None, hm_version = ''0.3.0'', hm_sequence = 0,
      hm_paused = False, hm_seen_ago = None\<rparr>"

text \<open>After the transaction: the audit entry, the summary, and the policies (exceptions are dropped).\<close>

definition accept_snapshot ::
  "telemetry_env \<Rightarrow> int \<Rightarrow> draw \<Rightarrow> (nat \<Rightarrow> draw) \<Rightarrow> string \<Rightarrow> health_row \<Rightarrow> telemetry_db \<Rightarrow>
   (telemetry_db, health_summary) outcome" where
  "accept_snapshot env now d draws me r db =
     (let db1 = tele_audit ''TELEMETRY_ACCEPTED'' (Some me) True (store_snapshot now r db);
          s = (case get_device_health now (hr_device r) db1 of
                 Some s \<Rightarrow> s | None \<Rightarrow> default_summary (hr_device r))
      in returns s
           (if policy_evaluation_enabled (tv_policy env) then
              db1\<lparr>tb_policy := snd (evaluate_device_health (tv_round env) (tv_policy env) now d draws
                                   (tb_trust db1) s me (tb_policy db1))\<rparr>
            else db1))"

definition payload_items :: "json \<Rightarrow> (string \<times> json) list" where
  "payload_items p = (case p of JObj kvs \<Rightarrow> kvs | _ \<Rightarrow> [])"

text \<open>From the sequence check on: the number is consumed before anything is stored.\<close>

definition sequence_and_store ::
  "telemetry_env \<Rightarrow> int \<Rightarrow> draw \<Rightarrow> (nat \<Rightarrow> draw) \<Rightarrow> string \<Rightarrow> envelope \<Rightarrow> telemetry_db \<Rightarrow>
   (telemetry_db, health_summary) outcome" where
  "sequence_and_store env now d draws me e db =
     (case validate_and_advance_incoming_sequence now (te_device e) (te_sequence e) (tb_sequences db) of
        (Inl x, _) \<Rightarrow>
          raises x
            (if x = Telemetry TelemetryReplayError
             then tele_audit ''TELEMETRY_REPLAY_REJECTED'' (Some me) False db else db)
      | (Inr _, rows) \<Rightarrow>
         (let db1 = db\<lparr>tb_sequences := rows\<rparr>; kvs = payload_items (te_payload e) in
          case derive_health_state (tv_config env) now (te_captured e) (get_or JNull kvs ''connectivity'') of
            Inl x \<Rightarrow> raises x db1
          | Inr hs \<Rightarrow>
             (case snapshot_row now e kvs hs of
                Inl x \<Rightarrow> raises x db1
              | Inr r \<Rightarrow> accept_snapshot env now d draws me r db1)))"

definition process_envelope ::
  "telemetry_env \<Rightarrow> int \<Rightarrow> draw \<Rightarrow> (nat \<Rightarrow> draw) \<Rightarrow> string \<Rightarrow> envelope \<Rightarrow> telemetry_db \<Rightarrow>
   (telemetry_db, health_summary) outcome" where
  "process_envelope env now d draws me e db =
     (case validate_health_payload (te_payload e) of
        Some x \<Rightarrow> raises x db
      | None \<Rightarrow>
         (case verify_device_trust_or_raise (tb_trust db) me (te_device e) of
            Inl _ \<Rightarrow>
              raises (Telemetry TelemetryAuthenticationError)
                (tele_audit ''TELEMETRY_REJECTED'' (Some me) False db)
          | Inr td \<Rightarrow>
              if \<not> envelope_verify_signature (tv_crypto env) (tv_iso env) e (td_pem td) then
                raises (Telemetry TelemetrySignatureError)
                  (tele_audit ''TELEMETRY_SIGNATURE_REJECTED'' (Some me) False db)
              else case check_timestamp (tv_config env) now (te_captured e) of
                Some x \<Rightarrow> raises x db
              | None \<Rightarrow>
                  if is_device_paused (te_device e) db then
                    raises (Telemetry TelemetryDevicePausedError) db
                  else sequence_and_store env now d draws me e db))"

section \<open>Pausing and retention\<close>

definition pause_device :: "int \<Rightarrow> string \<Rightarrow> telemetry_db \<Rightarrow> telemetry_db" where
  "pause_device now dev db =
     tele_audit ''TELEMETRY_PAUSED'' (Some dev) True
       (db\<lparr>tb_health := upsert_row hr_device
            \<lparr>hr_device = dev, hr_state = HS_UNKNOWN, hr_last = Aware now, hr_sequence = 0,
             hr_battery = None, hr_charging = None, hr_total = None, hr_free = None,
             hr_uptime = None, hr_connectivity = CS_UNKNOWN, hr_platform = None,
             hr_version = ''0.3.0'', hr_paused = True, hr_updated = Aware now\<rparr>
            (\<lambda>r. r\<lparr>hr_paused := True, hr_updated := Aware now\<rparr>) (tb_health db)\<rparr>)"

definition resume_device :: "int \<Rightarrow> string \<Rightarrow> telemetry_db \<Rightarrow> telemetry_db" where
  "resume_device now dev db =
     tele_audit ''TELEMETRY_RESUMED'' (Some dev) True
       (db\<lparr>tb_health := update_where (\<lambda>r. hr_device r = dev)
            (\<lambda>r. r\<lparr>hr_paused := False, hr_updated := Aware now\<rparr>) (tb_health db)\<rparr>)"

definition cleanup_retention ::
  "telemetry_config \<Rightarrow> int \<Rightarrow> int option \<Rightarrow> telemetry_db \<Rightarrow> nat \<times> telemetry_db" where
  "cleanup_retention cfg now retention db =
     (let days = (case retention of None \<Rightarrow> telemetry_retention_days cfg
                  | Some d \<Rightarrow> if d = 0 then telemetry_retention_days cfg else d);
          old = (\<lambda>r. sort_instant (ev_captured r) < now - days * day)
      in (length (filter old (tb_events db)),
          tele_audit ''TELEMETRY_CLEANUP'' None True
            (db\<lparr>tb_events := filter (\<lambda>r. \<not> old r) (tb_events db)\<rparr>)))"

end
