(* ===== verification/Router.thy ===== *)
theory Router
  imports TransportRegistry Telemetry
begin

text \<open>
  \<^verbatim>\<open>guardianmesh/transport/router.py\<close>: what happens to a decrypted envelope, from the
  recipient and trust checks to the telemetry, alert and liveness handlers.

  The state is the session the envelope came in on, the registry, the audit entries, and the
  telemetry database with the trust registry and the alerts in it.  Handlers a caller
  registered are functions of the environment.
\<close>

record router_state =
  rs_tel :: telemetry_db
  rs_reg :: transport_tables
  rs_audit :: "audit_call list"
  rs_session :: tsession

datatype route_result =
    Delivered string
  | NoProcessor
  | TelemetryResult health_summary
  | AlertResult alert
  | HeartbeatAck
  | PongReply transport_envelope
  | PongReceived
  | StatusRecorded
  | Disconnected
  | ErrorLogged
  | PolicySynced
  | CustomResult json

text \<open>The clock and the random identifiers one call draws.\<close>

record tick =
  tk_now :: int
  tk_draw :: draw
  tk_draws :: "nat \<Rightarrow> draw"
  tk_fresh :: string
  tk_reply :: string

record router_env =
  rv_local :: string
  rv_calendar :: calendar
  rv_sha256 :: "string \<Rightarrow> string"
  rv_processor :: "telemetry_env option"
  rv_handlers :: "string \<Rightarrow> (tick \<Rightarrow> transport_envelope \<Rightarrow> router_state \<Rightarrow>
                    (router_state, route_result) outcome) option"

definition clock_text :: "router_env \<Rightarrow> tick \<Rightarrow> string" where
  [model_defs]: "clock_text env tk = write_iso (rv_calendar env) (tk_now tk)"

definition router_audit :: "router_env \<Rightarrow> string \<Rightarrow> bool \<Rightarrow> router_state \<Rightarrow> router_state" where
  [model_defs]: "router_audit env ev ok st = st\<lparr>rs_audit := audit ev (Some (rv_local env)) ok (rs_audit st)\<rparr>"

section \<open>Rejection\<close>

definition record_rejection ::
  "router_env \<Rightarrow> tick \<Rightarrow> string \<Rightarrow> transport_envelope \<Rightarrow> reason \<Rightarrow> router_state \<Rightarrow> (router_state, unit) outcome" where
  "record_rejection env tk ty e why st =
     (case record_message (rv_sha256 env) (clock_text env tk) (tk_fresh tk)
             \<lparr>rm_session = ss_id (rs_session st), rm_sender = en_sender e, rm_recipient = rv_local env,
              rm_type = ty, rm_sequence = en_sequence e, rm_direction = ''INBOUND'',
              rm_status = ''REJECTED'', rm_reason = Some why, rm_payload = [], rm_message_id = None\<rparr>
             (rs_reg st) of
        (Inl x, _) \<Rightarrow> raises x st
      | (Inr _, tt) \<Rightarrow>
          returns () (router_audit env ''TRANSPORT_MESSAGE_REJECTED'' False (st\<lparr>rs_reg := tt\<rparr>)))"

definition reject ::
  "router_env \<Rightarrow> tick \<Rightarrow> string \<Rightarrow> transport_envelope \<Rightarrow> reason \<Rightarrow> gm_error \<Rightarrow> router_state \<Rightarrow>
   (router_state, route_result) outcome" where
  "reject env tk ty e why err st =
     (case record_rejection env tk ty e why st of
        (Inl x, st1) \<Rightarrow> raises x st1
      | (Inr _, st1) \<Rightarrow> raises err st1)"

text \<open>A sender without trust ends the session, in memory and in the registry.\<close>

definition revoke_channel :: "router_env \<Rightarrow> tick \<Rightarrow> string \<Rightarrow> gm_error \<Rightarrow> router_state \<Rightarrow> router_state" where
  "revoke_channel env tk sender x st =
     (let now = clock_text env tk; s = rs_session st in
      router_audit env ''TRANSPORT_REVOKED'' False
        (st\<lparr>rs_session := close_session (rv_calendar env) (tk_now tk) (Because ''Trust revoked: '' x) s,
            rs_reg := update_peer_state now sender REVOKED_CONN None None
              (update_session_state now (ss_id s) REVOKED_CONN (Some (Because [] x)) (rs_reg st))\<rparr>))"

section \<open>The handlers\<close>

text \<open>
  \<^verbatim>\<open>TelemetryEnvelope.from_dict\<close>.  An identifier or a timestamp that is not a text is
  read as its \<^verbatim>\<open>str\<close>: it names no trusted device, and no instant.
\<close>

definition text_signature :: "json option \<Rightarrow> string option" where
  "text_signature v = (case v of Some (JStr s) \<Rightarrow> Some s | _ \<Rightarrow> None)"

definition telemetry_from_dict ::
  "(string \<Rightarrow> stamp) \<Rightarrow> (string \<times> json) list \<Rightarrow> gm_error + envelope" where
  "telemetry_from_dict rd kvs =
     (let p = get_or (JObj []) kvs ''payload'' in
      case validate_health_payload p of
        Some x \<Rightarrow> Inl x
      | None \<Rightarrow>
         (case (map_of kvs ''device_id'', map_of kvs ''sequence'') of
            (Some dev, Some sq) \<Rightarrow>
              (case int_of_json sq of
                 Inl x \<Rightarrow> Inl x
               | Inr n \<Rightarrow>
                   envelope_post_init
                     \<lparr>te_device = py_str dev, te_sequence = n, te_payload = p,
                      te_captured = rd (py_str (get_or (JStr []) kvs ''captured_at'')),
                      te_version = get_or (JStr ''1.0'') kvs ''protocol_version'',
                      te_signature = text_signature (map_of kvs ''signature'')\<rparr>)
          | _ \<Rightarrow> Inl (Builtin PyKeyError)))"

definition telemetry_of_message ::
  "(string \<Rightarrow> stamp) \<Rightarrow> transport_envelope \<Rightarrow> gm_error + envelope" where
  "telemetry_of_message rd e =
     (if map_of (en_payload e) ''device_id'' \<noteq> None \<and> map_of (en_payload e) ''payload'' \<noteq> None then
        telemetry_from_dict rd (en_payload e)
      else
        envelope_post_init
          \<lparr>te_device = en_sender e, te_sequence = en_sequence e, te_payload = JObj (en_payload e),
           te_captured = rd (en_created e), te_version = JStr ''1.0'',
           te_signature = text_signature (Some (get_or (JStr []) (en_auth e) ''signature_hex''))\<rparr>)"

definition sync_peer :: "router_env \<Rightarrow> tick \<Rightarrow> string \<Rightarrow> router_state \<Rightarrow> router_state" where
  [model_defs]: "sync_peer env tk d st = st\<lparr>rs_reg := record_peer_sync (clock_text env tk) d (rs_reg st)\<rparr>"

definition handle_telemetry ::
  "router_env \<Rightarrow> tick \<Rightarrow> transport_envelope \<Rightarrow> router_state \<Rightarrow> (router_state, route_result) outcome" where
  "handle_telemetry env tk e st =
     (case rv_processor env of
        None \<Rightarrow> returns NoProcessor st
      | Some tv \<Rightarrow>
         (case telemetry_of_message (read_iso (rv_calendar env)) e of
            Inl x \<Rightarrow> raises x st
          | Inr te \<Rightarrow>
             (case process_envelope tv (tk_now tk) (tk_draw tk) (tk_draws tk) (rv_local env) te (rs_tel st) of
                (Inl x, t) \<Rightarrow> raises x (st\<lparr>rs_tel := t\<rparr>)
              | (Inr s, t) \<Rightarrow> returns (TelemetryResult s) (sync_peer env tk (en_sender e) (st\<lparr>rs_tel := t\<rparr>)))))"

text \<open>
  A text column: \<^verbatim>\<open>NOT NULL\<close> refuses \<^verbatim>\<open>None\<close>.  The policy's id goes through
  this column too; the deduplication key holds its \<^verbatim>\<open>str\<close>, which is the stored text for a
  text and for a number.
\<close>

definition required_text :: "json \<Rightarrow> gm_error + string" where
  "required_text v =
     (case bind_text v of
        Inl x \<Rightarrow> Inl x
      | Inr None \<Rightarrow> Inl (Builtin SqliteIntegrityError)
      | Inr (Some s) \<Rightarrow> Inr s)"

definition enum_text :: "json \<Rightarrow> gm_error + string" where
  [model_defs]: "enum_text v = (case v of JStr s \<Rightarrow> Inr s | _ \<Rightarrow> Inl (Builtin PyAttributeError))"

definition handle_alert ::
  "router_env \<Rightarrow> tick \<Rightarrow> transport_envelope \<Rightarrow> router_state \<Rightarrow> (router_state, route_result) outcome" where
  "handle_alert env tk e st =
     (let p = en_payload e in
      case enum_text (get_or (JStr ''LOW_BATTERY'') p ''rule_type'') of Inl x \<Rightarrow> raises x st | Inr rt_text \<Rightarrow>
      case rule_type_from_str rt_text of Inl x \<Rightarrow> raises x st | Inr rt \<Rightarrow>
      case enum_text (get_or (JStr ''WARNING'') p ''severity'') of Inl x \<Rightarrow> raises x st | Inr sev \<Rightarrow>
      case required_text (get_or (JStr ''REMOTE-POLICY'') p ''policy_id'') of Inl x \<Rightarrow> raises x st | Inr pol \<Rightarrow>
      case required_text (get_or (JStr ''Remote alert triggered'') p ''message'') of
        Inl x \<Rightarrow> raises x st
      | Inr msg \<Rightarrow>
      case bind_text (get_or JNull p ''trigger_value'') of Inl x \<Rightarrow> raises x st | Inr trig \<Rightarrow>
      case create_or_update_alert (tk_now tk) (tk_draw tk) (en_sender e) pol rt (severity_from_str sev)
             (RemoteMessage msg) trig (tb_policy (rs_tel st)) of
        (Inl x, db) \<Rightarrow> raises x (st\<lparr>rs_tel := (rs_tel st)\<lparr>tb_policy := db\<rparr>\<rparr>)
      | (Inr a, db) \<Rightarrow> returns (AlertResult a) (st\<lparr>rs_tel := (rs_tel st)\<lparr>tb_policy := db\<rparr>\<rparr>))"

definition touch :: "router_env \<Rightarrow> tick \<Rightarrow> router_state \<Rightarrow> router_state" where
  [model_defs]: "touch env tk st = st\<lparr>rs_session := touch_heartbeat (rv_calendar env) (tk_now tk) (rs_session st)\<rparr>"

definition note_heartbeat :: "router_env \<Rightarrow> tick \<Rightarrow> string \<Rightarrow> router_state \<Rightarrow> router_state" where
  [model_defs]: "note_heartbeat env tk d st =
     st\<lparr>rs_reg := record_peer_heartbeat (clock_text env tk) d (Some (ss_id (rs_session st))) (rs_reg st)\<rparr>"

definition handle_heartbeat :: "router_env \<Rightarrow> tick \<Rightarrow> transport_envelope \<Rightarrow> router_state \<Rightarrow> (router_state, route_result) outcome" where
  "handle_heartbeat env tk e st = returns HeartbeatAck (note_heartbeat env tk (en_sender e) (touch env tk st))"

definition handle_ping :: "router_env \<Rightarrow> tick \<Rightarrow> transport_envelope \<Rightarrow> router_state \<Rightarrow> (router_state, route_result) outcome" where
  "handle_ping env tk e st =
     (let st1 = touch env tk st;
          (pong, s) = create_pong default_heartbeat (rv_calendar env) (tk_now tk) (tk_reply tk)
                        (rv_local env) (en_sender e) (en_message_id e) (rs_session st1)
      in returns (PongReply pong) (st1\<lparr>rs_session := s\<rparr>))"

definition handle_pong :: "router_env \<Rightarrow> tick \<Rightarrow> transport_envelope \<Rightarrow> router_state \<Rightarrow> (router_state, route_result) outcome" where
  "handle_pong env tk e st = returns PongReceived (note_heartbeat env tk (en_sender e) (touch env tk st))"

definition handle_device_status :: "router_env \<Rightarrow> tick \<Rightarrow> transport_envelope \<Rightarrow> router_state \<Rightarrow> (router_state, route_result) outcome" where
  "handle_device_status env tk e st = returns StatusRecorded (sync_peer env tk (en_sender e) st)"

definition handle_goodbye :: "router_env \<Rightarrow> tick \<Rightarrow> router_state \<Rightarrow> (router_state, route_result) outcome" where
  "handle_goodbye env tk st =
     (let now = clock_text env tk;
          s = close_session (rv_calendar env) (tk_now tk) (Reason ''Received GOODBYE from peer'') (rs_session st)
      in returns Disconnected
        (router_audit env ''TRANSPORT_DISCONNECTED'' True
          (st\<lparr>rs_session := s,
              rs_reg := update_peer_state now (ss_remote s) DISCONNECTED None None
                (update_session_state now (ss_id s) DISCONNECTED None (rs_reg st))\<rparr>)))"

definition handle_error :: "router_env \<Rightarrow> router_state \<Rightarrow> (router_state, route_result) outcome" where
  "handle_error env st = returns ErrorLogged (router_audit env ''TRANSPORT_ERROR'' False st)"

definition handle_policy_sync :: "router_env \<Rightarrow> tick \<Rightarrow> transport_envelope \<Rightarrow> router_state \<Rightarrow> (router_state, route_result) outcome" where
  "handle_policy_sync env tk e st = returns PolicySynced (sync_peer env tk (en_sender e) st)"

section \<open>Routing\<close>

definition dispatch ::
  "router_env \<Rightarrow> tick \<Rightarrow> string \<Rightarrow> transport_envelope \<Rightarrow> router_state \<Rightarrow> (router_state, route_result) outcome" where
  "dispatch env tk ty e st =
     (case rv_handlers env ty of
        Some h \<Rightarrow> h tk e st
      | None \<Rightarrow>
         (if ty = ''TELEMETRY'' then handle_telemetry env tk e st
          else if ty = ''ALERT'' then handle_alert env tk e st
          else if ty = ''HEARTBEAT'' then handle_heartbeat env tk e st
          else if ty = ''PING'' then handle_ping env tk e st
          else if ty = ''PONG'' then handle_pong env tk e st
          else if ty = ''DEVICE_STATUS'' then handle_device_status env tk e st
          else if ty = ''GOODBYE'' then handle_goodbye env tk st
          else if ty = ''ERROR'' then handle_error env st
          else if ty = ''POLICY_SYNC'' then handle_policy_sync env tk e st
          else returns (Delivered ty) st))"

definition accept_message ::
  "router_env \<Rightarrow> tick \<Rightarrow> string \<Rightarrow> transport_envelope \<Rightarrow> router_state \<Rightarrow> (router_state, route_result) outcome" where
  "accept_message env tk ty e st =
     (case record_message (rv_sha256 env) (clock_text env tk) (tk_fresh tk)
             \<lparr>rm_session = ss_id (rs_session st), rm_sender = en_sender e, rm_recipient = en_recipient e,
              rm_type = ty, rm_sequence = en_sequence e, rm_direction = ''INBOUND'',
              rm_status = ''ACCEPTED'', rm_reason = None, rm_payload = en_payload e,
              rm_message_id = Some (en_message_id e)\<rparr>
             (rs_reg st) of
        (Inl x, _) \<Rightarrow> raises x st
      | (Inr _, tt) \<Rightarrow>
          dispatch env tk ty e
            (router_audit env ''TRANSPORT_MESSAGE_ACCEPTED'' True
              (note_heartbeat env tk (en_sender e) (st\<lparr>rs_reg := tt\<rparr>))))"

definition route ::
  "router_env \<Rightarrow> tick \<Rightarrow> transport_envelope \<Rightarrow> router_state \<Rightarrow> (router_state, route_result) outcome" where
  "route env tk e st =
     (case type_value (en_type e) of
        Inl x \<Rightarrow> raises x st
      | Inr ty \<Rightarrow>
          if en_recipient e \<noteq> rv_local env then
            reject env tk ty e (Reason ''Recipient mismatch'') (Transport TransportMessageError) st
          else
            (case verify_device_trust_or_raise (tb_trust (rs_tel st)) (rv_local env) (en_sender e) of
               Inl x \<Rightarrow>
                 reject env tk ty e (Because [] x) (Transport TransportRevokedError)
                   (revoke_channel env tk (en_sender e) x st)
             | Inr _ \<Rightarrow>
                (case aware_instant (read_iso (rv_calendar env) (en_expires e)) of
                   Inl x \<Rightarrow>
                     if x = Builtin PyValueError then
                       reject env tk ty e (Reason ''Corrupted timestamp format'')
                         (Transport TransportMessageError) st
                     else raises x st
                 | Inr t \<Rightarrow>
                     if t < tk_now tk then
                       reject env tk ty e (Reason ''Envelope expired'')
                         (Transport TransportSessionExpiredError) st
                     else accept_message env tk ty e st)))"

end
