(* ===== verification/Framing.thy ===== *)
theory Framing
  imports Prelude "HOL-Library.Word"
begin

text \<open>
  \<^verbatim>\<open>guardianmesh/transport/framing.py\<close>: the 4-byte big-endian length prefix, the
  socket reader that loops over \<^verbatim>\<open>recv\<close>, and the asyncio reader.

  A connection is the list of what its reads will meet: bytes that arrive together, a
  timeout, or an \<^verbatim>\<open>OSError\<close>.  An empty arrival, or the end of the list, is the end of
  file.  A writer hands its bytes to the peer's list.
\<close>

type_synonym byte = "8 word"

datatype sock_event = Arrives "byte list" | Timed_Out | Broken

type_synonym connection = "sock_event list"

text \<open>\<^verbatim>\<open>struct.pack("!I", n)\<close> for \<open>n < 2 ^ 32\<close>, and \<^verbatim>\<open>struct.unpack\<close>.\<close>

definition pack_u32 :: "nat \<Rightarrow> byte list" where
  "pack_u32 n = [word_of_nat (n div 16777216), word_of_nat (n div 65536), word_of_nat (n div 256), word_of_nat n]"

definition unpack_u32 :: "byte list \<Rightarrow> nat" where
  "unpack_u32 bs = foldl (\<lambda>a b. 256 * a + unat b) 0 bs"

definition header_size :: nat where [simp]: "header_size = 4"

definition default_max_frame_size :: nat where "default_max_frame_size = 65536"

text \<open>A length the header cannot hold is a \<^verbatim>\<open>struct.error\<close>, which derives from Exception.\<close>

definition encode_frame :: "byte list \<Rightarrow> nat \<Rightarrow> gm_error + byte list" where
  "encode_frame data max_size =
     (if max_size < length data then Inl (Transport TransportOversizedMessageError)
      else if 2 ^ 32 \<le> length data then Inl (Builtin PyException)
      else Inr (pack_u32 (length data) @ data))"

section \<open>The socket\<close>

text \<open>\<^verbatim>\<open>sock.recv(n)\<close>: at most \<open>n\<close> of the bytes at hand, or an exception.\<close>

datatype recv_result = Got "byte list" | Recv_Timeout | Recv_Error

fun recv :: "nat \<Rightarrow> connection \<Rightarrow> recv_result \<times> connection" where
  "recv n [] = (Got [], [])"
| "recv n (Arrives bs # es) =
     (if bs = [] then (Got [], Arrives bs # es)
      else if length bs \<le> n then (Got bs, es)
      else (Got (take n bs), Arrives (drop n bs) # es))"
| "recv n (Timed_Out # es) = (Recv_Timeout, es)"
| "recv n (Broken # es) = (Recv_Error, Broken # es)"

lemma recv_length: "recv n es = (Got bs, es') \<Longrightarrow> length bs \<le> n"
  by (induction n es rule: recv.induct) (auto split: if_splits)

function read_loop :: "nat \<Rightarrow> byte list \<Rightarrow> connection \<Rightarrow> (gm_error + byte list) \<times> connection" where
  "read_loop num buf es =
     (if num \<le> length buf then (Inr buf, es)
      else case recv (num - length buf) es of
        (Got chunk, es') \<Rightarrow>
          if chunk = [] then
            (if buf = [] then (Inl (Transport TransportConnectionClosedError), es')
             else (Inl (Transport TransportFramingError), es'))
          else read_loop num (buf @ chunk) es'
      | (Recv_Timeout, es') \<Rightarrow> (Inl (Transport TransportTimeoutError), es')
      | (Recv_Error, es') \<Rightarrow> (Inl (Transport TransportConnectionClosedError), es'))"
  by pat_completeness auto
termination
  by (relation "measure (\<lambda>(num, buf, es). num - length buf)")
    (auto simp: diff_less_mono2 neq_Nil_conv)

declare read_loop.simps [simp del]

definition read_exact :: "nat \<Rightarrow> connection \<Rightarrow> (gm_error + byte list) \<times> connection" where
  "read_exact num es = read_loop num [] es"

definition read_frame :: "nat \<Rightarrow> connection \<Rightarrow> (gm_error + byte list) \<times> connection" where
  "read_frame max_size es =
     (case read_exact header_size es of
        (Inl e, es1) \<Rightarrow> (Inl e, es1)
      | (Inr header, es1) \<Rightarrow>
          (let len = unpack_u32 header in
           if max_size < len then (Inl (Transport TransportOversizedMessageError), es1)
           else if len = 0 then (Inr [], es1)
           else read_exact len es1))"

text \<open>\<^verbatim>\<open>write_frame\<close> and \<^verbatim>\<open>async_write_frame\<close>: \<open>alive\<close> says whether the socket takes the bytes.\<close>

definition write_frame :: "bool \<Rightarrow> byte list \<Rightarrow> nat \<Rightarrow> connection \<Rightarrow> (connection, unit) outcome" where
  "write_frame alive data max_size peer =
     (case encode_frame data max_size of
        Inl e \<Rightarrow> raises e peer
      | Inr framed \<Rightarrow>
          if alive then returns () (peer @ [Arrives framed])
          else raises (Transport TransportConnectionClosedError) peer)"

section \<open>asyncio\<close>

text \<open>
  \<^verbatim>\<open>StreamReader.readexactly\<close> on a reader: the bytes buffered so far and what will
  still arrive.  A read that times out leaves the buffer; the end of the file hands the
  partial bytes out with the exception.
\<close>

type_synonym stream_reader = "byte list \<times> connection"

datatype read_result = Exactly "byte list" | Incomplete "byte list" | Read_Timeout | Read_Error

fun readexactly_from :: "nat \<Rightarrow> byte list \<Rightarrow> connection \<Rightarrow> read_result \<times> stream_reader" where
  "readexactly_from n buf [] =
     (if n \<le> length buf then (Exactly (take n buf), (drop n buf, [])) else (Incomplete buf, ([], [])))"
| "readexactly_from n buf (e # es) =
     (if n \<le> length buf then (Exactly (take n buf), (drop n buf, e # es))
      else case e of
        Arrives bs \<Rightarrow>
          if bs = [] then (Incomplete buf, ([], e # es)) else readexactly_from n (buf @ bs) es
      | Timed_Out \<Rightarrow> (Read_Timeout, (buf, es))
      | Broken \<Rightarrow> (Read_Error, ([], e # es)))"

definition readexactly :: "nat \<Rightarrow> stream_reader \<Rightarrow> read_result \<times> stream_reader" where
  "readexactly n r = readexactly_from n (fst r) (snd r)"

definition async_read_frame :: "nat \<Rightarrow> stream_reader \<Rightarrow> (gm_error + byte list) \<times> stream_reader" where
  "async_read_frame max_size r =
     (case readexactly header_size r of
        (Incomplete partial, r1) \<Rightarrow>
          (if partial = [] then (Inl (Transport TransportConnectionClosedError), r1)
           else (Inl (Transport TransportFramingError), r1))
      | (Read_Timeout, r1) \<Rightarrow> (Inl (Transport TransportTimeoutError), r1)
      | (Read_Error, r1) \<Rightarrow> (Inl (Builtin PyOSError), r1)
      | (Exactly header, r1) \<Rightarrow>
          (let len = unpack_u32 header in
           if max_size < len then (Inl (Transport TransportOversizedMessageError), r1)
           else if len = 0 then (Inr [], r1)
           else (case readexactly len r1 of
               (Exactly body, r2) \<Rightarrow> (Inr body, r2)
             | (Incomplete partial, r2) \<Rightarrow> (Inl (Transport TransportFramingError), r2)
             | (Read_Timeout, r2) \<Rightarrow> (Inl (Transport TransportTimeoutError), r2)
             | (Read_Error, r2) \<Rightarrow> (Inl (Builtin PyOSError), r2))))"

section \<open>The header\<close>

lemma pack_u32_length [simp]: "length (pack_u32 n) = 4"
  by (simp add: pack_u32_def)

lemma pack_u32_not_Nil [simp]: "pack_u32 n \<noteq> []"
  by (simp add: pack_u32_def)

lemma unpack_pack_u32:
  assumes "n < 2 ^ 32"
  shows "unpack_u32 (pack_u32 n) = n"
proof -
  have small: "n div 16777216 < 256" using assms by (simp add: less_mult_imp_div_less)
  have d2: "n div 65536 = n div 256 div 256" and d3: "n div 16777216 = n div 65536 div 256"
    by (simp_all add: div_mult2_eq [symmetric])
  have "unpack_u32 (pack_u32 n) =
      256 * (256 * (256 * (n div 16777216) + n div 65536 mod 256) + n div 256 mod 256) + n mod 256"
    using small by (simp add: unpack_u32_def pack_u32_def unat_of_nat)
  also have "256 * (n div 16777216) + n div 65536 mod 256 = n div 65536"
    unfolding d3 by (rule mult_div_mod_eq)
  also have "256 * (n div 65536) + n div 256 mod 256 = n div 256"
    unfolding d2 by (rule mult_div_mod_eq)
  also have "256 * (n div 256) + n mod 256 = n" by (rule mult_div_mod_eq)
  finally show ?thesis .
qed

section \<open>Reading from a stream of bytes\<close>

text \<open>A connection on which bytes keep arriving until the peer closes it.\<close>

definition quiet :: "connection \<Rightarrow> bool" where
  "quiet es = list_all (\<lambda>e. case e of Arrives bs \<Rightarrow> bs \<noteq> [] | _ \<Rightarrow> False) es"

primrec arriving :: "sock_event \<Rightarrow> byte list" where
  "arriving (Arrives bs) = bs"
| "arriving Timed_Out = []"
| "arriving Broken = []"

definition stream_of :: "connection \<Rightarrow> byte list" where
  "stream_of es = concat (map arriving es)"

lemma quiet_Cons [simp]: "quiet (e # es) \<longleftrightarrow> (\<exists>bs. e = Arrives bs \<and> bs \<noteq> []) \<and> quiet es"
  by (cases e) (auto simp: quiet_def)

lemma quiet_Nil [simp]: "quiet []"
  by (simp add: quiet_def)

lemma stream_of_simps [simp]: "stream_of [] = []" "stream_of (e # es) = arriving e @ stream_of es"
  by (simp_all add: stream_of_def)

lemma quiet_stream_Nil: "quiet es \<Longrightarrow> stream_of es = [] \<longleftrightarrow> es = []"
  by (cases es) auto

lemma recv_quiet:
  assumes "quiet es" and "0 < n" and "recv n es = (r, es')"
  shows "\<exists>bs. r = Got bs \<and> quiet es' \<and> stream_of es = bs @ stream_of es' \<and>
              (bs = [] \<longleftrightarrow> stream_of es = []) \<and> length bs \<le> n"
  using assms by (cases es) (auto split: if_splits)

text \<open>The loop takes exactly the bytes it was asked for, however they were cut up.\<close>

lemma read_loop_quiet:
  assumes "quiet es"
  shows "\<exists>es'. quiet es' \<and> read_loop num buf es =
      (if num \<le> length buf then (Inr buf, es)
       else if num \<le> length buf + length (stream_of es) then
         (Inr (buf @ take (num - length buf) (stream_of es)), es')
       else if buf = [] \<and> stream_of es = [] then (Inl (Transport TransportConnectionClosedError), es')
       else (Inl (Transport TransportFramingError), es')) \<and>
      (length buf < num \<longrightarrow> stream_of es' = drop (num - length buf) (stream_of es))"
  using assms
proof (induction num buf es rule: read_loop.induct)
  case (1 num buf es)
  show ?case
  proof (cases "num \<le> length buf")
    case True
    with 1(2) show ?thesis by (subst read_loop.simps) auto
  next
    case False
    obtain r es1 where r: "recv (num - length buf) es = (r, es1)" by (cases "recv (num - length buf) es")
    have "0 < num - length buf" using False by simp
    from recv_quiet[OF 1(2) this r] obtain bs where bs: "r = Got bs" "quiet es1"
      "stream_of es = bs @ stream_of es1" "bs = [] \<longleftrightarrow> stream_of es = []" "length bs \<le> num - length buf"
      by blast
    show ?thesis
    proof (cases "bs = []")
      case True
      with bs r False show ?thesis
        by (subst read_loop.simps) (auto intro!: exI[of _ es1])
    next
      case False
      with 1(1)[OF \<open>\<not> num \<le> length buf\<close> r[symmetric] bs(1) False bs(2)]
      obtain es' where IH: "quiet es'" "read_loop num (buf @ bs) es1 =
          (if num \<le> length (buf @ bs) then (Inr (buf @ bs), es1)
           else if num \<le> length (buf @ bs) + length (stream_of es1) then
             (Inr ((buf @ bs) @ take (num - length (buf @ bs)) (stream_of es1)), es')
           else if buf @ bs = [] \<and> stream_of es1 = [] then (Inl (Transport TransportConnectionClosedError), es')
           else (Inl (Transport TransportFramingError), es'))"
        "length (buf @ bs) < num \<longrightarrow> stream_of es' = drop (num - length (buf @ bs)) (stream_of es1)"
        by blast
      have unfold: "read_loop num buf es = read_loop num (buf @ bs) es1"
        using \<open>\<not> num \<le> length buf\<close> r bs(1) False by (subst read_loop.simps) simp
      show ?thesis
      proof (cases "num \<le> length (buf @ bs)")
        case True
        with bs(5) have len: "length bs = num - length buf" by simp
        with True \<open>\<not> num \<le> length buf\<close> unfold IH(2) bs(2,3) show ?thesis
          by (intro exI[of _ es1]) simp
      next
        case shorter: False
        with unfold IH bs(3,5) \<open>\<not> num \<le> length buf\<close> False show ?thesis
          by (intro exI[of _ es']) auto
      qed
    qed
  qed
qed

lemma read_exact_quiet:
  assumes "quiet es" and "0 < num"
  shows "\<exists>es'. quiet es' \<and> stream_of es' = drop num (stream_of es) \<and> read_exact num es =
      (if num \<le> length (stream_of es) then (Inr (take num (stream_of es)), es')
       else if stream_of es = [] then (Inl (Transport TransportConnectionClosedError), es')
       else (Inl (Transport TransportFramingError), es'))"
  using read_loop_quiet[OF assms(1), of num "[]"] assms(2) by (auto simp: read_exact_def)

lemma readexactly_quiet:
  assumes "quiet es"
  shows "\<exists>buf' es'. quiet es' \<and> readexactly_from num buf es =
      (if num \<le> length (buf @ stream_of es) then (Exactly (take num (buf @ stream_of es)), (buf', es'))
       else (Incomplete (buf @ stream_of es), (buf', es'))) \<and>
      buf' @ stream_of es' = drop num (buf @ stream_of es)"
  using assms
proof (induction es arbitrary: buf)
  case Nil
  then show ?case by auto
next
  case (Cons e es)
  then obtain bs where e: "e = Arrives bs" "bs \<noteq> []" "quiet es" by auto
  show ?case
  proof (cases "num \<le> length buf")
    case True
    with e show ?thesis by (intro exI[of _ "drop num buf"] exI[of _ "e # es"]) simp
  next
    case False
    obtain buf' es' where IH: "quiet es'" "readexactly_from num (buf @ bs) es =
        (if num \<le> length ((buf @ bs) @ stream_of es) then
           (Exactly (take num ((buf @ bs) @ stream_of es)), (buf', es'))
         else (Incomplete ((buf @ bs) @ stream_of es), (buf', es')))"
      "buf' @ stream_of es' = drop num ((buf @ bs) @ stream_of es)"
      using Cons.IH[OF e(3), of "buf @ bs"] by blast
    from False e have "readexactly_from num buf (e # es) = readexactly_from num (buf @ bs) es" by simp
    moreover have "(buf @ bs) @ stream_of es = buf @ stream_of (e # es)" using e by simp
    ultimately show ?thesis using IH by metis
  qed
qed

text \<open>What both readers make of a stream: the reference definition.\<close>

definition frame_at :: "nat \<Rightarrow> byte list \<Rightarrow> (gm_error + byte list) \<times> byte list" where
  "frame_at max_size bs =
     (if bs = [] then (Inl (Transport TransportConnectionClosedError), [])
      else if length bs < 4 then (Inl (Transport TransportFramingError), [])
      else let len = unpack_u32 (take 4 bs); body = drop 4 bs in
           if max_size < len then (Inl (Transport TransportOversizedMessageError), body)
           else if length body < len then (Inl (Transport TransportFramingError), [])
           else (Inr (take len body), drop len body))"

lemma read_frame_quiet:
  assumes "quiet es"
  shows "\<exists>es'. quiet es' \<and> stream_of es' = snd (frame_at m (stream_of es)) \<and>
    read_frame m es =
      ((if 4 \<le> length (stream_of es) \<and> length (stream_of es) = 4 \<and>
           fst (frame_at m (stream_of es)) = Inl (Transport TransportFramingError)
        then Inl (Transport TransportConnectionClosedError)
        else fst (frame_at m (stream_of es))), es')"
proof -
  let ?s = "stream_of es"
  obtain es1 where es1: "quiet es1" "stream_of es1 = drop 4 ?s" "read_exact 4 es =
      (if 4 \<le> length ?s then (Inr (take 4 ?s), es1)
       else if ?s = [] then (Inl (Transport TransportConnectionClosedError), es1)
       else (Inl (Transport TransportFramingError), es1))"
    using read_exact_quiet[OF assms, of 4] by auto
  show ?thesis
  proof (cases "4 \<le> length ?s")
    case False
    with es1 show ?thesis by (intro exI[of _ es1]) (auto simp: read_frame_def frame_at_def)
  next
    case True
    let ?len = "unpack_u32 (take 4 ?s)"
    have header: "read_frame m es =
        (if m < ?len then (Inl (Transport TransportOversizedMessageError), es1)
         else if ?len = 0 then (Inr [], es1) else read_exact ?len es1)"
      using True es1(3) by (simp add: read_frame_def Let_def)
    show ?thesis
    proof (cases "m < ?len \<or> ?len = 0")
      case stop: True
      with True es1(1,2) header show ?thesis
        by (intro exI[of _ es1]) (auto simp: frame_at_def Let_def)
    next
      case False
      then have "0 < ?len" by simp
      from read_exact_quiet[OF es1(1) this] obtain es2 where "quiet es2"
        "stream_of es2 = drop ?len (stream_of es1)" "read_exact ?len es1 =
          (if ?len \<le> length (stream_of es1) then (Inr (take ?len (stream_of es1)), es2)
           else if stream_of es1 = [] then (Inl (Transport TransportConnectionClosedError), es2)
           else (Inl (Transport TransportFramingError), es2))"
        by blast
      with True False es1(2) header show ?thesis
        by (intro exI[of _ es2]) (auto simp: frame_at_def Let_def)
    qed
  qed
qed

lemma async_read_frame_quiet:
  assumes "quiet (snd r)"
  defines "bs \<equiv> fst r @ stream_of (snd r)"
  shows "fst (async_read_frame m r) = fst (frame_at m bs)"
proof -
  obtain b1 es1 where r1: "quiet es1" "readexactly 4 r =
      (if 4 \<le> length bs then (Exactly (take 4 bs), (b1, es1)) else (Incomplete bs, (b1, es1)))"
      "b1 @ stream_of es1 = drop 4 bs"
    using readexactly_quiet[OF assms(1), of 4 "fst r"] unfolding readexactly_def bs_def by blast
  show ?thesis
  proof (cases "4 \<le> length bs")
    case False
    with r1 show ?thesis by (auto simp: async_read_frame_def frame_at_def)
  next
    case True
    let ?len = "unpack_u32 (take 4 bs)"
    obtain b2 es2 where "readexactly ?len (b1, es1) =
        (if ?len \<le> length (drop 4 bs) then (Exactly (take ?len (drop 4 bs)), (b2, es2))
         else (Incomplete (drop 4 bs), (b2, es2)))"
      using readexactly_quiet[OF r1(1), of ?len b1] unfolding r1(3) readexactly_def by auto
    with True r1 show ?thesis by (auto simp: async_read_frame_def frame_at_def Let_def)
  qed
qed

section \<open>Reading until the peer closes\<close>

text \<open>
  The receiving side reads one frame after the other and stops at the first exception
  (\<^verbatim>\<open>_handle_client\<close> leaves its loop on \<^verbatim>\<open>TransportConnectionClosedError\<close> and its
  \<^verbatim>\<open>try\<close> block on every other one).
\<close>

definition pending :: "connection \<Rightarrow> nat" where
  "pending es = length (stream_of es) + length es"

lemma recv_pending: "recv n es = (r, es') \<Longrightarrow> pending es' + length (case r of Got bs \<Rightarrow> bs | _ \<Rightarrow> []) \<le> pending es"
  by (induction n es rule: recv.induct) (auto simp: pending_def split: if_splits)

lemma read_loop_pending:
  "read_loop num buf es = (r, es') \<Longrightarrow>
   pending es' + (case r of Inr bs \<Rightarrow> length bs - length buf | Inl e \<Rightarrow> 0) \<le> pending es \<and>
   (case r of Inr bs \<Rightarrow> num \<le> length bs \<and> (length buf \<le> num \<longrightarrow> length bs = num) | Inl e \<Rightarrow> True)"
proof (induction num buf es arbitrary: r es' rule: read_loop.induct)
  case (1 num buf es)
  show ?case
  proof (cases "num \<le> length buf")
    case True
    with 1(2) show ?thesis by (subst (asm) read_loop.simps) auto
  next
    case False
    obtain c es1 where c: "recv (num - length buf) es = (c, es1)" by (cases "recv (num - length buf) es")
    have p: "pending es1 + length (case c of Got bs \<Rightarrow> bs | _ \<Rightarrow> []) \<le> pending es"
      using recv_pending[OF c] .
    show ?thesis
    proof (cases "\<exists>x xs. c = Got (x # xs)")
      case True
      then obtain chunk where chunk: "c = Got chunk" "chunk \<noteq> []" by blast
      have len: "length chunk \<le> num - length buf" using recv_length c chunk(1) by blast
      have "read_loop num (buf @ chunk) es1 = (r, es')"
        using 1(2) False c chunk by (subst (asm) read_loop.simps) simp
      from 1(1)[OF False c[symmetric] chunk this] p len chunk False show ?thesis
        by (auto split: sum.splits)
    next
      case stop: False
      with 1(2) False c p show ?thesis
        by (subst (asm) read_loop.simps) (auto simp: neq_Nil_conv split: recv_result.splits if_splits)
    qed
  qed
qed

lemma read_exact_pending:
  "read_exact num es = (Inr bs, es') \<Longrightarrow> pending es' + num \<le> pending es \<and> length bs = num"
  "read_exact num es = (Inl e, es') \<Longrightarrow> pending es' \<le> pending es"
  using read_loop_pending[of num "[]" es] by (fastforce simp: read_exact_def)+

lemma read_frame_pending:
  assumes "read_frame m es = (Inr bs, es')"
  shows "pending es' + 4 + length bs \<le> pending es" and "length bs \<le> m"
proof -
  obtain r es1 where r: "read_exact 4 es = (r, es1)" by (cases "read_exact 4 es")
  with assms obtain h where h: "r = Inr h" by (cases r) (auto simp: read_frame_def)
  have p: "pending es1 + 4 \<le> pending es" using read_exact_pending(1)[OF r[unfolded h]] by simp
  let ?len = "unpack_u32 h"
  have rest: "(if m < ?len then (Inl (Transport TransportOversizedMessageError), es1)
      else if ?len = 0 then (Inr [], es1) else read_exact ?len es1) = (Inr bs, es')"
    using assms r h by (simp add: read_frame_def Let_def)
  show "pending es' + 4 + length bs \<le> pending es" and "length bs \<le> m"
    using rest p read_exact_pending(1)[of ?len es1 bs es'] by (auto split: if_splits)
qed

function frames_until_error :: "nat \<Rightarrow> connection \<Rightarrow> byte list list \<times> gm_error" where
  "frames_until_error m es =
     (case read_frame m es of
        (Inl e, es') \<Rightarrow> ([], e)
      | (Inr bs, es') \<Rightarrow> (let (fs, e) = frames_until_error m es' in (bs # fs, e)))"
  by pat_completeness auto
termination
proof (relation "measure (pending \<circ> snd)")
  fix m es r es' bs
  assume "(r, es') = read_frame m es" and "r = Inr bs"
  then show "((m, es'), m, es) \<in> measure (pending \<circ> snd)"
    using read_frame_pending(1)[of m es bs es'] by simp
qed simp

declare frames_until_error.simps [simp del]

lemma encode_frame_parts:
  assumes "encode_frame data m = Inr bs"
  shows "bs = pack_u32 (length data) @ data" and "length data \<le> m" and "length data < 2 ^ 32"
  using assms by (auto simp: encode_frame_def split: if_splits)

lemma frame_at_encoded:
  assumes "encode_frame data m = Inr bs"
  shows "frame_at m (bs @ rest) = (Inr data, rest)"
proof -
  note parts = encode_frame_parts[OF assms]
  have "bs @ rest = pack_u32 (length data) @ (data @ rest)" using parts(1) by simp
  then have "take 4 (bs @ rest) = pack_u32 (length data)" "drop 4 (bs @ rest) = data @ rest"
    "4 \<le> length (bs @ rest)" by simp_all
  with unpack_pack_u32[OF parts(3)] parts(1,2) show ?thesis by (auto simp: frame_at_def Let_def)
qed

lemma read_frame_encoded:
  assumes "quiet es" and "stream_of es = bs @ rest" and "encode_frame data m = Inr bs"
  shows "\<exists>es'. quiet es' \<and> stream_of es' = rest \<and> read_frame m es = (Inr data, es')"
  using read_frame_quiet[OF assms(1), of m] unfolding assms(2) frame_at_encoded[OF assms(3)] by auto

text \<open>
  C17: payloads framed by \<^verbatim>\<open>encode_frame\<close> and sent over a stream come out as they went in,
  in their order and each in one piece, however the network cuts the stream up; then the
  reader reports the closed connection.
\<close>

theorem framed_stream_roundtrip:
  assumes "list_all2 (\<lambda>p f. encode_frame p m = Inr f) payloads framed"
    and "quiet es" and "stream_of es = concat framed"
  shows "frames_until_error m es = (payloads, Transport TransportConnectionClosedError)"
  using assms
proof (induction payloads framed arbitrary: es rule: list_all2_induct)
  case Nil
  then have "es = []" by (simp add: quiet_stream_Nil)
  then have "read_frame m es = (Inl (Transport TransportConnectionClosedError), [])"
    by (simp add: read_frame_def read_exact_def read_loop.simps)
  then show ?case by (simp add: frames_until_error.simps)
next
  case (Cons p ps f fs)
  from Cons(5) have stream: "stream_of es = f @ concat fs" by simp
  from read_frame_encoded[OF Cons(4) stream Cons(1)] obtain es' where
    "quiet es'" "stream_of es' = concat fs" "read_frame m es = (Inr p, es')" by blast
  with Cons(3) show ?case by (simp add: frames_until_error.simps)
qed

lemma framed_stream_roundtrip_witness:
  "frames_until_error 65536 [Arrives [0, 0], Arrives [0, 2, 7], Arrives [8, 0, 0, 0, 0]] =
     ([[7, 8], []], Transport TransportConnectionClosedError)"
  using framed_stream_roundtrip[of 65536 "[[7, 8], []]" "[[0, 0, 0, 2, 7, 8], [0, 0, 0, 0]]"
      "[Arrives [0, 0], Arrives [0, 2, 7], Arrives [8, 0, 0, 0, 0]]"]
  by (simp add: encode_frame_def pack_u32_def)

text \<open>
  C18: on a connection that only delivers bytes, the blocking and the asyncio reader give the
  same frame or the same exception; they differ in one case, a stream that ends right after
  the header of a non-empty frame.
\<close>

theorem readers_agree:
  assumes "quiet es"
  shows "fst (async_read_frame m ([], es)) = fst (read_frame m es) \<or>
     (length (stream_of es) = 4 \<and>
      0 < unpack_u32 (stream_of es) \<and> unpack_u32 (stream_of es) \<le> m \<and>
      fst (read_frame m es) = Inl (Transport TransportConnectionClosedError) \<and>
      fst (async_read_frame m ([], es)) = Inl (Transport TransportFramingError))"
proof -
  have async: "fst (async_read_frame m ([], es)) = fst (frame_at m (stream_of es))"
    using async_read_frame_quiet[of "([], es)" m] assms by simp
  from read_frame_quiet[OF assms, of m] have sync: "fst (read_frame m es) =
      (if 4 \<le> length (stream_of es) \<and> length (stream_of es) = 4 \<and>
           fst (frame_at m (stream_of es)) = Inl (Transport TransportFramingError)
        then Inl (Transport TransportConnectionClosedError) else fst (frame_at m (stream_of es)))"
    by auto
  show ?thesis unfolding async sync by (auto simp: frame_at_def Let_def split: if_splits)
qed

lemma readers_agree_witness:
  "fst (async_read_frame 10 ([], [Arrives [0, 0, 0, 1], Arrives [9]])) =
   fst (read_frame 10 [Arrives [0, 0, 0, 1], Arrives [9]])"
  using readers_agree[of "[Arrives [0, 0, 0, 1], Arrives [9]]" 10] by simp

text \<open>
  A timeout inside a header: the blocking reader drops the bytes it had, so that the next call
  takes the middle of a frame for a header; the asyncio reader resumes where it was.
\<close>

lemma timeout_drops_partial_header:
  assumes "p \<noteq> []" and "length p < 4" and "quiet es"
  shows "read_frame m (Arrives p # Timed_Out # es) = (Inl (Transport TransportTimeoutError), es)"
    and "async_read_frame m ([], Arrives p # Timed_Out # es) = (Inl (Transport TransportTimeoutError), (p, es))"
    and "fst (async_read_frame m (p, es)) = fst (frame_at m (p @ stream_of es))"
  using assms async_read_frame_quiet[of "(p, es)" m]
  by (simp_all add: read_frame_def read_exact_def read_loop.simps async_read_frame_def readexactly_def)

lemma timeout_reads_payload_as_header:
  "read_frame 65536 (snd (read_frame 65536
     [Arrives [0, 0], Timed_Out, Arrives [0, 6, 0, 0, 0, 1, 42, 0], Arrives [0]])) = (Inl (Transport TransportOversizedMessageError),
       [Arrives [0, 1, 42, 0], Arrives [0]])"
  by (simp add: read_frame_def read_exact_def read_loop.simps unpack_u32_def)

text \<open>Whatever arrives, no frame exceeds the limit, and the loop ends.\<close>

lemma frames_bounded:
  "frames_until_error m es = (fs, e) \<Longrightarrow>
   (\<forall>f \<in> set fs. length f \<le> m) \<and> sum_list (map (\<lambda>f. 4 + length f) fs) \<le> pending es"
proof (induction m es arbitrary: fs e rule: frames_until_error.induct)
  case (1 m es)
  obtain r es' where r: "read_frame m es = (r, es')" by (cases "read_frame m es")
  show ?case
  proof (cases r)
    case (Inl x)
    with 1(2) r show ?thesis by (subst (asm) frames_until_error.simps) auto
  next
    case (Inr bs)
    obtain fs' e' where rec: "frames_until_error m es' = (fs', e')" by (cases "frames_until_error m es'")
    with 1(2) r Inr have "fs = bs # fs'" by (subst (asm) frames_until_error.simps) auto
    with 1(1)[OF r[symmetric] Inr rec] read_frame_pending[of m es bs es'] r Inr show ?thesis by auto
  qed
qed

end
