(* ===== verification/TransportEnds.thy ===== *)
theory TransportEnds
  imports Router Framing
begin

text \<open>
  \<^verbatim>\<open>guardianmesh/transport/server.py\<close> and \<^verbatim>\<open>client.py\<close>: the two ends of a connection.
  The handshake, the in-memory server and client with their inbox, and the socket server's
  loop over framed messages.  Threads are not modelled: a call is one step, and the running
  flag does not change during a loop.
\<close>

text \<open>What an end is built with: its identity key, the libraries, and the router.\<close>

record endpoint =
  ep_sign :: "string \<Rightarrow> nat list"
  ep_crypto :: crypto
  ep_prims :: primitives
  ep_router :: router_env

text \<open>The random values of a handshake: session, ephemeral secret, nonce and message identifier.\<close>

record handshake_draw =
  hd_session :: string
  hd_secret :: "nat list"
  hd_nonce :: string
  hd_message :: string

abbreviation ep_local :: "endpoint \<Rightarrow> string" where "ep_local ep \<equiv> rv_local (ep_router ep)"
abbreviation ep_calendar :: "endpoint \<Rightarrow> calendar" where "ep_calendar ep \<equiv> rv_calendar (ep_router ep)"

section \<open>The pieces of a handshake\<close>

definition session_keys ::
  "endpoint \<Rightarrow> nat list \<Rightarrow> nat list \<Rightarrow> string \<Rightarrow> string \<Rightarrow> bool \<Rightarrow>
   gm_error + (nat list \<times> nat list \<times> nat list)" where
  "session_keys ep secret peer client_nonce server_nonce initiator =
     (case x_exchange (ep_prims ep) secret peer of
        None \<Rightarrow> Inl (Builtin PyValueError)
      | Some shared \<Rightarrow>
          Inr (derive_session_keys (ep_prims ep) shared (client_nonce @ '':'' @ server_nonce)
                 initiator hkdf_info_prefix))"

definition answer_init ::
  "endpoint \<Rightarrow> handshake_draw \<Rightarrow> int \<Rightarrow> transport_envelope \<Rightarrow> nat list \<Rightarrow> string \<Rightarrow> transport_envelope" where
  "answer_init ep dr now init client_eph client_nonce =
     create_session_ack (write_iso (ep_calendar ep)) (ep_sign ep) now 3600 (hd_message dr) (hd_nonce dr)
       (ep_local ep) (en_sender init) (hd_session dr) (x_public (ep_prims ep) (hd_secret dr))
       client_eph client_nonce"

definition register_session ::
  "endpoint \<Rightarrow> int \<Rightarrow> tsession \<Rightarrow> identity_role \<Rightarrow> string option \<Rightarrow> transport_tables \<Rightarrow>
   (transport_tables, unit) outcome" where
  "register_session ep now s role address tt =
     record_peer (write_iso (ep_calendar ep) now)
       \<lparr>pi_device = ss_remote s, pi_role = role_value role, pi_state = CONNECTED,
        pi_session = Some (ss_id s), pi_seen = None, pi_sync = None, pi_heartbeat = None,
        pi_reconnects = 0, pi_endpoint = address, pi_type = ss_transport s, pi_metadata = [],
        pi_updated = write_iso (ep_calendar ep) now\<rparr>
       (record_session (write_iso (ep_calendar ep) now) s tt)"

section \<open>The in-memory server\<close>

record server_state =
  sv_tel :: telemetry_db
  sv_reg :: transport_tables
  sv_audit :: "audit_call list"
  sv_sessions :: "(string \<times> tsession) list"
  sv_inbox :: "encrypted_frame list"
  sv_running :: bool

definition server_audit :: "endpoint \<Rightarrow> string \<Rightarrow> bool \<Rightarrow> server_state \<Rightarrow> server_state" where
  [model_defs]: "server_audit ep ev ok sv = sv\<lparr>sv_audit := audit ev (Some (ep_local ep)) ok (sv_audit sv)\<rparr>"

definition handle_handshake_init ::
  "endpoint \<Rightarrow> handshake_draw \<Rightarrow> int \<Rightarrow> transport_envelope \<Rightarrow> server_state \<Rightarrow>
   (server_state, transport_envelope) outcome" where
  "handle_handshake_init ep dr now init sv =
     (case verify_device_trust_or_raise (tb_trust (sv_tel sv)) (ep_local ep) (en_sender init) of
        Inl x \<Rightarrow> raises (Transport TransportRevokedError) (server_audit ep ''TRANSPORT_REVOKED'' False sv)
      | Inr td \<Rightarrow>
         (case verify_session_init (ep_prims ep) (ep_crypto ep) init (td_pem td) of
            Inl x \<Rightarrow> raises x sv
          | Inr (client_eph, client_nonce) \<Rightarrow>
             (let ack = answer_init ep dr now init client_eph client_nonce in
              case session_keys ep (hd_secret dr) client_eph client_nonce (hd_nonce dr) False of
                Inl x \<Rightarrow> raises x sv
              | Inr keys \<Rightarrow>
                 (let s = new_transport_session (ep_calendar ep) now (hd_session dr) (ep_local ep) (en_sender init)
                            keys MEMORY CONNECTED (en_expires ack);
                      sv1 = sv\<lparr>sv_sessions := assoc_put (hd_session dr) s (sv_sessions sv)\<rparr>
                  in case register_session ep now s (td_role td) None (sv_reg sv1) of
                       (Inl x, tt) \<Rightarrow> raises x (sv1\<lparr>sv_reg := tt\<rparr>)
                     | (Inr _, tt) \<Rightarrow>
                         returns ack (server_audit ep ''TRANSPORT_AUTHENTICATED'' True (sv1\<lparr>sv_reg := tt\<rparr>))))))"

definition server_stop :: "endpoint \<Rightarrow> int \<Rightarrow> server_state \<Rightarrow> server_state" where
  "server_stop ep now sv =
     sv\<lparr>sv_running := False, sv_sessions := [],
        sv_reg := fold (\<lambda>(k, s). update_session_state (write_iso (ep_calendar ep) now) (ss_id s) DISCONNECTED None)
                    (sv_sessions sv) (sv_reg sv)\<rparr>"

definition router_view :: "server_state \<Rightarrow> tsession \<Rightarrow> router_state" where
  "router_view sv s = \<lparr>rs_tel = sv_tel sv, rs_reg = sv_reg sv, rs_audit = sv_audit sv, rs_session = s\<rparr>"

definition absorb :: "string \<Rightarrow> router_state \<Rightarrow> server_state \<Rightarrow> server_state" where
  "absorb sid st sv =
     sv\<lparr>sv_tel := rs_tel st, sv_reg := rs_reg st, sv_audit := rs_audit st,
        sv_sessions := assoc_put sid (rs_session st) (sv_sessions sv)\<rparr>"

text \<open>
  Decrypt and route.  The clock of \<^verbatim>\<open>tk\<close> is read throughout; \<open>fresh\<close> is the identifier a
  message without one would get.
\<close>

definition process_frame ::
  "endpoint \<Rightarrow> tick \<Rightarrow> string \<Rightarrow> encrypted_frame \<Rightarrow> router_state \<Rightarrow> (router_state, route_result) outcome" where
  "process_frame ep tk fresh f st =
     (case decrypt_frame (ep_prims ep) (ep_calendar ep) (tk_now tk) fresh f (rs_session st) of
        (Inl x, s) \<Rightarrow> raises x (st\<lparr>rs_session := s\<rparr>)
      | (Inr e, s) \<Rightarrow> route (ep_router ep) tk e (st\<lparr>rs_session := s\<rparr>))"

definition process_next_frame ::
  "endpoint \<Rightarrow> tick \<Rightarrow> string \<Rightarrow> server_state \<Rightarrow> (server_state, route_result option) outcome" where
  "process_next_frame ep tk fresh sv =
     (case sv_inbox sv of
        [] \<Rightarrow> returns None sv
      | f # fs \<Rightarrow>
         (let sv1 = sv\<lparr>sv_inbox := fs\<rparr>; sid = ef_session_id f in
          case map_of (sv_sessions sv1) sid of
            None \<Rightarrow> raises (Transport TransportConnectionClosedError) sv1
          | Some s \<Rightarrow>
              if \<not> session_active (ep_calendar ep) (tk_now tk) s then
                raises (Transport TransportConnectionClosedError) sv1
              else
                (case process_frame ep tk fresh f (router_view sv1 s) of
                   (Inl x, st) \<Rightarrow> raises x (absorb sid st sv1)
                 | (Inr r, st) \<Rightarrow> returns (Some r) (absorb sid st sv1))))"

text \<open>
  \<^verbatim>\<open>process_all_pending\<close>: each call takes one frame off the inbox, so as many calls as there
  are frames empty it; the first exception propagates.
\<close>

fun process_pending ::
  "endpoint \<Rightarrow> (nat \<Rightarrow> tick) \<Rightarrow> string \<Rightarrow> nat \<Rightarrow> server_state \<Rightarrow> (server_state, route_result list) outcome" where
  "process_pending ep tks fresh 0 sv = returns [] sv"
| "process_pending ep tks fresh (Suc n) sv =
     (case process_next_frame ep (tks n) fresh sv of
        (Inl x, sv1) \<Rightarrow> raises x sv1
      | (Inr r, sv1) \<Rightarrow>
         (case process_pending ep tks fresh n sv1 of
            (Inl x, sv2) \<Rightarrow> raises x sv2
          | (Inr rs, sv2) \<Rightarrow> returns ((case r of None \<Rightarrow> [] | Some y \<Rightarrow> [y]) @ rs) sv2))"

definition process_all_pending ::
  "endpoint \<Rightarrow> (nat \<Rightarrow> tick) \<Rightarrow> string \<Rightarrow> server_state \<Rightarrow> (server_state, route_result list) outcome" where
  "process_all_pending ep tks fresh sv = process_pending ep tks fresh (length (sv_inbox sv)) sv"

section \<open>The in-memory client\<close>

record client_state =
  cl_trust :: pairing_db
  cl_reg :: transport_tables
  cl_audit :: "audit_call list"
  cl_session :: "tsession option"
  cl_inbox :: "encrypted_frame list"
  cl_attached :: bool
  cl_attempts :: attempts

definition client_audit :: "endpoint \<Rightarrow> string \<Rightarrow> bool \<Rightarrow> client_state \<Rightarrow> client_state" where
  [model_defs]: "client_audit ep ev ok cl = cl\<lparr>cl_audit := audit ev (Some (ep_local ep)) ok (cl_audit cl)\<rparr>"

definition client_init :: "endpoint \<Rightarrow> handshake_draw \<Rightarrow> int \<Rightarrow> string \<Rightarrow> transport_envelope" where
  "client_init ep dr now remote =
     create_session_init (write_iso (ep_calendar ep)) (ep_sign ep) now 3600 (hd_message dr) (hd_nonce dr)
       (ep_local ep) remote (x_public (ep_prims ep) (hd_secret dr))"

text \<open>Steps 4 to 6 of \<^verbatim>\<open>connect\<close>: check the answer, derive the keys, keep the session.\<close>

definition finish_connect ::
  "endpoint \<Rightarrow> handshake_draw \<Rightarrow> int \<Rightarrow> trusted_device \<Rightarrow> transport_type \<Rightarrow> string option \<Rightarrow>
   transport_envelope \<Rightarrow> client_state \<Rightarrow> (client_state, tsession) outcome" where
  "finish_connect ep dr now td medium address ack cl =
     (case verify_session_ack (ep_prims ep) (ep_crypto ep) ack (td_pem td)
             (x_public (ep_prims ep) (hd_secret dr)) (hd_nonce dr) of
        Inl x \<Rightarrow> raises x cl
      | Inr (server_eph, sid, server_nonce) \<Rightarrow>
         (case session_keys ep (hd_secret dr) server_eph (hd_nonce dr) server_nonce True of
            Inl x \<Rightarrow> raises x cl
          | Inr keys \<Rightarrow>
             (let s = new_transport_session (ep_calendar ep) now sid (ep_local ep) (td_remote td) keys medium
                        CONNECTED (en_expires ack);
                  cl1 = cl\<lparr>cl_session := Some s\<rparr>
              in case register_session ep now s (td_role td) address (cl_reg cl1) of
                   (Inl x, tt) \<Rightarrow> raises x (cl1\<lparr>cl_reg := tt\<rparr>)
                 | (Inr _, tt) \<Rightarrow>
                     returns s
                       (client_audit ep ''TRANSPORT_SESSION_CREATED'' True
                         (cl1\<lparr>cl_reg := tt, cl_attempts := reset_attempts (td_remote td) (cl_attempts cl1)\<rparr>)))))"

definition client_connect ::
  "endpoint \<Rightarrow> endpoint \<Rightarrow> handshake_draw \<Rightarrow> handshake_draw \<Rightarrow> int \<Rightarrow> string \<Rightarrow>
   client_state \<times> server_state \<Rightarrow> (client_state \<times> server_state, tsession) outcome" where
  "client_connect cep sep cdr sdr now remote cs =
     (case cs of (cl, sv) \<Rightarrow>
        case verify_device_trust_or_raise (cl_trust cl) (ep_local cep) remote of
          Inl x \<Rightarrow> raises (Transport TransportRevokedError) (client_audit cep ''TRANSPORT_REVOKED'' False cl, sv)
        | Inr td \<Rightarrow>
            if \<not> cl_attached cl then raises (Transport TransportError) (cl, sv)
            else
              (case handle_handshake_init sep sdr now (client_init cep cdr now remote) sv of
                 (Inl x, sv1) \<Rightarrow> raises x (cl, sv1)
               | (Inr ack, sv1) \<Rightarrow>
                  (case finish_connect cep cdr now td MEMORY None ack cl of
                     (Inl x, cl1) \<Rightarrow> raises x (cl1, sv1)
                   | (Inr s, cl1) \<Rightarrow> returns s (cl1, sv1))))"

definition client_send ::
  "endpoint \<Rightarrow> int \<Rightarrow> transport_envelope \<Rightarrow> client_state \<times> server_state \<Rightarrow>
   (client_state \<times> server_state, bool) outcome" where
  "client_send ep now e cs =
     (case cs of (cl, sv) \<Rightarrow>
        case cl_session cl of
          None \<Rightarrow> raises (Transport TransportConnectionClosedError) cs
        | Some s \<Rightarrow>
            if \<not> session_active (ep_calendar ep) now s \<or> \<not> cl_attached cl then
              raises (Transport TransportConnectionClosedError) cs
            else
              (case encrypt_envelope (ep_prims ep) (ep_calendar ep) now e s of
                 (Inl x, s1) \<Rightarrow> raises x (cl\<lparr>cl_session := Some s1\<rparr>, sv)
               | (Inr f, s1) \<Rightarrow>
                   returns True (cl\<lparr>cl_session := Some s1\<rparr>, sv\<lparr>sv_inbox := sv_inbox sv @ [f]\<rparr>)))"

definition client_receive ::
  "endpoint \<Rightarrow> int \<Rightarrow> string \<Rightarrow> client_state \<Rightarrow> (client_state, transport_envelope option) outcome" where
  "client_receive ep now fresh cl =
     (case cl_session cl of
        None \<Rightarrow> returns None cl
      | Some s \<Rightarrow>
          if \<not> session_active (ep_calendar ep) now s then returns None cl
          else
            (case cl_inbox cl of
               [] \<Rightarrow> returns None cl
             | f # fs \<Rightarrow>
                (case decrypt_frame (ep_prims ep) (ep_calendar ep) now fresh f s of
                   (Inl x, s1) \<Rightarrow> raises x (cl\<lparr>cl_inbox := fs, cl_session := Some s1\<rparr>)
                 | (Inr e, s1) \<Rightarrow> returns (Some e) (cl\<lparr>cl_inbox := fs, cl_session := Some s1\<rparr>))))"

definition client_disconnect :: "endpoint \<Rightarrow> int \<Rightarrow> client_state \<Rightarrow> client_state" where
  "client_disconnect ep now cl =
     (case cl_session cl of
        None \<Rightarrow> cl
      | Some s \<Rightarrow>
         (let t = write_iso (ep_calendar ep) now in
          client_audit ep ''TRANSPORT_DISCONNECTED'' True
            (cl\<lparr>cl_session := None,
                cl_reg := update_peer_state t (ss_remote s) DISCONNECTED None None
                  (update_session_state t (ss_id s) DISCONNECTED None (cl_reg cl))\<rparr>)))"

section \<open>The socket server\<close>

text \<open>\<^verbatim>\<open>bytes.decode("utf-8")\<close> of ASCII bytes; others count as undecodable.\<close>

definition decode_ascii :: "byte list \<Rightarrow> gm_error + string" where
  "decode_ascii bs =
     (if list_all (\<lambda>b. unat b < 128) bs then Inr (map (\<lambda>b. char_of (unat b)) bs)
      else Inl (Builtin PyValueError))"

definition encode_ascii :: "string \<Rightarrow> byte list" where
  "encode_ascii s = map (\<lambda>c. word_of_nat (of_char c)) s"

text \<open>
  One round of the loop: a frame off the socket, routed; a reply goes back over the session.
  \<open>alive\<close> says whether the socket still takes bytes.
\<close>

definition serve_frame ::
  "endpoint \<Rightarrow> tick \<Rightarrow> string \<Rightarrow> bool \<Rightarrow> byte list \<Rightarrow> router_state \<Rightarrow> (router_state, connection) outcome" where
  "serve_frame ep tk fresh alive bs st =
     (case decode_ascii bs of Inl x \<Rightarrow> raises x st | Inr txt \<Rightarrow>
      case frame_from_json txt of Inl x \<Rightarrow> raises x st | Inr f \<Rightarrow>
      case process_frame ep tk fresh f st of
        (Inl x, st1) \<Rightarrow> raises x st1
      | (Inr (PongReply e), st1) \<Rightarrow>
         (case encrypt_envelope (ep_prims ep) (ep_calendar ep) (tk_now tk) e (rs_session st1) of
            (Inl x, s) \<Rightarrow> raises x (st1\<lparr>rs_session := s\<rparr>)
          | (Inr rf, s) \<Rightarrow>
             (case write_frame alive (encode_ascii (frame_to_canonical_json rf)) default_max_frame_size [] of
                (Inl x, _) \<Rightarrow> raises x (st1\<lparr>rs_session := s\<rparr>)
              | (Inr _, sent) \<Rightarrow> returns sent (st1\<lparr>rs_session := s\<rparr>)))
      | (Inr r, st1) \<Rightarrow> returns [] st1)"

text \<open>
  The loop ends when the session is no longer active, when the peer closed, or with the
  exception that ends the connection.  \<^verbatim>\<open>TransportTimeoutError\<close> is not a
  \<^verbatim>\<open>TimeoutError\<close>: the clause that would continue never applies.
\<close>

function serve_loop ::
  "endpoint \<Rightarrow> (nat \<Rightarrow> tick) \<Rightarrow> string \<Rightarrow> bool \<Rightarrow> nat \<Rightarrow> connection \<Rightarrow> router_state \<Rightarrow>
   (gm_error option \<times> connection) \<times> router_state" where
  "serve_loop ep tks fresh alive i es st =
     (if \<not> session_active (ep_calendar ep) (tk_now (tks i)) (rs_session st) then ((None, []), st)
      else
        (case read_frame default_max_frame_size es of
           (Inl x, _) \<Rightarrow>
             ((if x = Transport TransportConnectionClosedError then None else Some x, []), st)
         | (Inr bs, es') \<Rightarrow>
            (case serve_frame ep (tks i) fresh alive bs st of
               (Inl x, st1) \<Rightarrow>
                 ((if x = Transport TransportConnectionClosedError then None else Some x, []), st1)
             | (Inr sent, st1) \<Rightarrow>
                (case serve_loop ep tks fresh alive (Suc i) es' st1 of
                   ((x, later), st2) \<Rightarrow> ((x, sent @ later), st2)))))"
  by pat_completeness auto
termination
proof (relation "measure (\<lambda>(ep, tks, fresh, alive, i, es, st). pending es)")
  fix ep tks fresh alive i es st x y bs
  assume "(x, y) = read_frame default_max_frame_size es" and "x = Inr bs"
  then show "((ep, tks, fresh, alive, Suc i, y, st'), ep, tks, fresh, alive, i, es, st)
      \<in> measure (\<lambda>(ep, tks, fresh, alive, i, es, st). pending es)" for st'
    using read_frame_pending(1)[of default_max_frame_size es bs y] by simp
qed simp

declare serve_loop.simps [simp del]

text \<open>
  The end of \<^verbatim>\<open>_handle_client\<close>: an exception closes the session, and in every case the
  registry is told that session and peer are disconnected.
\<close>

definition finish_client ::
  "endpoint \<Rightarrow> int \<Rightarrow> gm_error option \<Rightarrow> router_state \<Rightarrow> router_state" where
  "finish_client ep now failure st =
     (let st1 = (case failure of
                   None \<Rightarrow> st
                 | Some x \<Rightarrow> st\<lparr>rs_session := close_session (ep_calendar ep) now (Because [] x) (rs_session st)\<rparr>);
          t = write_iso (ep_calendar ep) now; s = rs_session st1
      in st1\<lparr>rs_reg := update_peer_state t (ss_remote s) DISCONNECTED None None
               (update_session_state t (ss_id s) DISCONNECTED None (rs_reg st1))\<rparr>)"

text \<open>The handshake over the socket: the acknowledgement is written before the keys are derived.\<close>

definition socket_handshake ::
  "endpoint \<Rightarrow> handshake_draw \<Rightarrow> int \<Rightarrow> bool \<Rightarrow> connection \<Rightarrow> server_state \<Rightarrow>
   ((gm_error + tsession) \<times> connection \<times> connection) \<times> server_state" where
  "socket_handshake ep dr now alive es sv =
     (case read_frame default_max_frame_size es of
        (Inl x, es1) \<Rightarrow> ((Inl x, [], es1), sv)
      | (Inr bs, es1) \<Rightarrow>
      case decode_ascii bs of Inl x \<Rightarrow> ((Inl x, [], es1), sv) | Inr txt \<Rightarrow>
      case envelope_from_json txt of Inl x \<Rightarrow> ((Inl x, [], es1), sv) | Inr init \<Rightarrow>
      case verify_device_trust_or_raise (tb_trust (sv_tel sv)) (ep_local ep) (en_sender init) of
        Inl x \<Rightarrow> ((Inl x, [], es1), sv)
      | Inr td \<Rightarrow>
      case verify_session_init (ep_prims ep) (ep_crypto ep) init (td_pem td) of
        Inl x \<Rightarrow> ((Inl x, [], es1), sv)
      | Inr (client_eph, client_nonce) \<Rightarrow>
         (let ack = answer_init ep dr now init client_eph client_nonce in
          case to_canonical_json ack of Inl x \<Rightarrow> ((Inl x, [], es1), sv) | Inr ack_text \<Rightarrow>
          case write_frame alive (encode_ascii ack_text) default_max_frame_size [] of
            (Inl x, _) \<Rightarrow> ((Inl x, [], es1), sv)
          | (Inr _, sent) \<Rightarrow>
             (case session_keys ep (hd_secret dr) client_eph client_nonce (hd_nonce dr) False of
                Inl x \<Rightarrow> ((Inl x, sent, es1), sv)
              | Inr keys \<Rightarrow>
                 (let s = new_transport_session (ep_calendar ep) now (hd_session dr) (ep_local ep) (en_sender init)
                            keys LOCAL CONNECTED (en_expires ack);
                      sv1 = sv\<lparr>sv_sessions := assoc_put (hd_session dr) s (sv_sessions sv)\<rparr>
                  in case register_session ep now s (td_role td) None (sv_reg sv1) of
                       (Inl x, tt) \<Rightarrow> ((Inl x, sent, es1), sv1\<lparr>sv_reg := tt\<rparr>)
                     | (Inr _, tt) \<Rightarrow> ((Inr s, sent, es1), sv1\<lparr>sv_reg := tt\<rparr>)))))"

definition handle_client ::
  "endpoint \<Rightarrow> handshake_draw \<Rightarrow> (nat \<Rightarrow> tick) \<Rightarrow> string \<Rightarrow> bool \<Rightarrow> connection \<Rightarrow> server_state \<Rightarrow>
   connection \<times> server_state" where
  "handle_client ep dr tks fresh alive es sv =
     (case socket_handshake ep dr (tk_now (tks 0)) alive es sv of
        ((Inl x, sent, _), sv1) \<Rightarrow> (sent, sv1)
      | ((Inr s, sent, es1), sv1) \<Rightarrow>
         (case serve_loop ep tks fresh alive 1 es1 (router_view sv1 s) of
            ((failure, replies), st) \<Rightarrow>
              (sent @ replies,
               absorb (ss_id s) (finish_client ep (tk_now (tks 0)) failure st) sv1)))"

section \<open>The socket client\<close>

text \<open>Any exception of a read is dropped: \<^verbatim>\<open>None\<close>, and the bytes read so far are gone.\<close>

definition socket_receive ::
  "endpoint \<Rightarrow> int \<Rightarrow> string \<Rightarrow> connection \<Rightarrow> tsession \<Rightarrow> transport_envelope option \<times> connection \<times> tsession" where
  "socket_receive ep now fresh es s =
     (case read_frame default_max_frame_size es of
        (Inl x, es1) \<Rightarrow> (None, es1, s)
      | (Inr bs, es1) \<Rightarrow>
         (case decode_ascii bs of Inl x \<Rightarrow> (None, es1, s) | Inr txt \<Rightarrow>
          case frame_from_json txt of Inl x \<Rightarrow> (None, es1, s) | Inr f \<Rightarrow>
          case decrypt_frame (ep_prims ep) (ep_calendar ep) now fresh f s of
            (Inl x, s1) \<Rightarrow> (None, es1, s1)
          | (Inr e, s1) \<Rightarrow> (Some e, es1, s1)))"

definition socket_send ::
  "endpoint \<Rightarrow> int \<Rightarrow> bool \<Rightarrow> transport_envelope \<Rightarrow> connection \<Rightarrow> tsession \<Rightarrow>
   (connection \<times> tsession, bool) outcome" where
  "socket_send ep now alive e out s =
     (case encrypt_envelope (ep_prims ep) (ep_calendar ep) now e s of
        (Inl x, s1) \<Rightarrow> raises x (out, s1)
      | (Inr f, s1) \<Rightarrow>
         (case write_frame alive (encode_ascii (frame_to_canonical_json f)) default_max_frame_size out of
            (Inl x, out1) \<Rightarrow> raises x (out1, s1)
          | (Inr _, out1) \<Rightarrow> returns True (out1, s1)))"

end
