(* ===== verification/TelemetryProps.thy ===== *)
theory TelemetryProps
  imports Telemetry
begin

text \<open>
  What the telemetry processor guarantees: who gets in, each sequence number at most once,
  nothing stored for a refused envelope, and what the tables hold in every reachable state.
\<close>

section \<open>Sequence numbers\<close>

lemma advance_last:
  assumes "validate_and_advance_incoming_sequence now dev sq rows = (Inr u, rows')"
  shows "get_last_incoming_sequence dev' rows' =
           (if dev' = dev then sq else get_last_incoming_sequence dev' rows) \<and>
         get_last_incoming_sequence dev rows < sq"
proof -
  let ?r = "\<lparr>sq_device = dev, sq_out = 0, sq_in = sq, sq_updated = Aware now\<rparr>"
  let ?f = "\<lambda>r. r\<lparr>sq_in := sq, sq_updated := Aware now\<rparr>"
  have rows': "rows' = upsert_row sq_device ?r ?f rows" and less: "get_last_incoming_sequence dev rows < sq"
    using assms by (auto simp: validate_and_advance_incoming_sequence_def split: if_splits)
  have "fetch_where (\<lambda>x. sq_device x = dev') rows' =
     (if dev' = dev then Some (case fetch_where (\<lambda>x. sq_device x = dev) rows of None \<Rightarrow> ?r | Some old \<Rightarrow> ?f old)
      else fetch_where (\<lambda>x. sq_device x = dev') rows)"
    unfolding rows' by (rule fetch_upsert) simp_all
  with less show ?thesis
    by (auto simp: get_last_incoming_sequence_def split: option.split)
qed

lemma advance_fails:
  "validate_and_advance_incoming_sequence now dev sq rows = (Inl x, rows') \<Longrightarrow> rows' = rows"
  by (auto simp: validate_and_advance_incoming_sequence_def split: if_splits)

lemma advance_last_le:
  "get_last_incoming_sequence dev' rows \<le>
     get_last_incoming_sequence dev' (snd (validate_and_advance_incoming_sequence now dev sq rows))"
proof (cases "validate_and_advance_incoming_sequence now dev sq rows")
  case (Pair x rows')
  then show ?thesis
    using advance_fails[of now dev sq rows] advance_last[of now dev sq rows _ rows' dev'] by (cases x) auto
qed

section \<open>What an envelope does to the tables\<close>

text \<open>Storing: the tables that the transaction writes.\<close>

lemma accept_snapshot_tables:
  "tb_trust (snd (accept_snapshot env now d draws me r db)) = tb_trust db"
  "tb_sequences (snd (accept_snapshot env now d draws me r db)) = tb_sequences db"
  "tb_health (snd (accept_snapshot env now d draws me r db)) = tb_health (store_snapshot now r db)"
  "tb_events (snd (accept_snapshot env now d draws me r db)) = tb_events (store_snapshot now r db)"
  "succeeded (accept_snapshot env now d draws me r db)"
  by (simp_all add: accept_snapshot_def Let_def tele_audit_def store_snapshot_def)

text \<open>
  The three ways \<open>sequence_and_store\<close> ends: the number is refused; it is consumed and nothing
  is stored; it is consumed and the row is stored.
\<close>

lemma sequence_and_store_cases:
  fixes env now d draws me e db
  defines "adv \<equiv> validate_and_advance_incoming_sequence now (te_device e) (te_sequence e) (tb_sequences db)"
    and "res \<equiv> sequence_and_store env now d draws me e db"
    and "hs \<equiv> derive_health_state (tv_config env) now (te_captured e)
                (get_or JNull (payload_items (te_payload e)) ''connectivity'')"
  obtains (refused) x rows where "adv = (Inl x, rows)" "\<not> succeeded res"
      "tb_sequences (snd res) = tb_sequences db" "tb_health (snd res) = tb_health db"
      "tb_events (snd res) = tb_events db" "tb_policy (snd res) = tb_policy db"
      "tb_trust (snd res) = tb_trust db"
  | (burnt) rows where "adv = (Inr (), rows)" "\<not> succeeded res"
      "snd res = db\<lparr>tb_sequences := rows\<rparr>"
      "(\<exists>x. hs = Inl x) \<or> (\<exists>s x. hs = Inr s \<and> snapshot_row now e (payload_items (te_payload e)) s = Inl x)"
  | (stored) rows s r where "adv = (Inr (), rows)" "succeeded res" "hs = Inr s"
      "snapshot_row now e (payload_items (te_payload e)) s = Inr r"
      "res = accept_snapshot env now d draws me r (db\<lparr>tb_sequences := rows\<rparr>)"
proof (cases adv)
  case (Pair a rows)
  show thesis
  proof (cases a)
    case (Inl x)
    show thesis
      by (rule refused[of x rows])
        (use Pair Inl in \<open>simp_all add: adv_def res_def sequence_and_store_def tele_audit_def\<close>)
  next
    case (Inr u)
    note adv = Pair[unfolded adv_def] Inr
    show thesis
    proof (cases hs)
      case (Inl x)
      show thesis
        by (rule burnt[of rows])
          (use Pair Inr Inl adv in \<open>simp_all add: res_def hs_def sequence_and_store_def Let_def\<close>)
    next
      case (Inr s)
      show thesis
      proof (cases "snapshot_row now e (payload_items (te_payload e)) s")
        case (Inl x)
        show thesis
          by (rule burnt[of rows])
            (use Pair Inr Inl adv in \<open>simp_all add: res_def hs_def sequence_and_store_def Let_def\<close>)
      next
        case row: (Inr r)
        have "res = accept_snapshot env now d draws me r (db\<lparr>tb_sequences := rows\<rparr>)"
          using Inr row adv by (simp add: res_def hs_def sequence_and_store_def Let_def)
        with Pair Inr row adv show thesis
          by (intro stored[of rows s r]) (simp_all add: accept_snapshot_tables)
      qed
    qed
  qed
qed

text \<open>An envelope that passes the checks reaches the sequence step; any other changes only the audit.\<close>

definition envelope_admitted :: "telemetry_env \<Rightarrow> int \<Rightarrow> string \<Rightarrow> envelope \<Rightarrow> telemetry_db \<Rightarrow> bool" where
  "envelope_admitted env now me e db \<longleftrightarrow>
     validate_health_payload (te_payload e) = None \<and>
     (\<exists>td. verify_device_trust_or_raise (tb_trust db) me (te_device e) = Inr td \<and>
        envelope_verify_signature (tv_crypto env) (tv_iso env) e (td_pem td)) \<and>
     check_timestamp (tv_config env) now (te_captured e) = None \<and>
     \<not> is_device_paused (te_device e) db"

lemma process_admitted:
  assumes "envelope_admitted env now me e db"
  shows "process_envelope env now d draws me e db = sequence_and_store env now d draws me e db"
  using assms by (auto simp: envelope_admitted_def process_envelope_def)

lemma process_refused:
  assumes "\<not> envelope_admitted env now me e db"
  shows "\<not> succeeded (process_envelope env now d draws me e db) \<and>
     (\<exists>log. snd (process_envelope env now d draws me e db) = db\<lparr>tb_audit := log\<rparr>)"
proof -
  have same: "\<exists>log. db = db\<lparr>tb_audit := log\<rparr>" by (rule exI[of _ "tb_audit db"]) simp
  show ?thesis
    using assms same
    by (auto simp: envelope_admitted_def process_envelope_def tele_audit_def split: option.split sum.split)
qed

section \<open>The processor as a replay guard and behind the trust gate\<close>

record delivery =
  dl_now :: int
  dl_draw :: draw
  dl_draws :: "nat \<Rightarrow> draw"
  dl_envelope :: envelope

definition deliver ::
  "telemetry_env \<Rightarrow> string \<Rightarrow> telemetry_db \<Rightarrow> delivery \<Rightarrow> (telemetry_db, health_summary) outcome" where
  "deliver env me db m =
     process_envelope env (dl_now m) (dl_draw m) (dl_draws m) me (dl_envelope m) db"

definition deliver_step :: "telemetry_env \<Rightarrow> string \<Rightarrow> telemetry_db \<Rightarrow> delivery \<Rightarrow> bool \<times> telemetry_db" where
  "deliver_step env me db m = (succeeded (deliver env me db m), snd (deliver env me db m))"

definition envelope_token :: "delivery \<Rightarrow> string \<times> int" where
  [model_defs]: "envelope_token m = (te_device (dl_envelope m), te_sequence (dl_envelope m))"

definition sequence_spent :: "telemetry_db \<Rightarrow> string \<times> int \<Rightarrow> bool" where
  [model_defs]: "sequence_spent db k \<longleftrightarrow> snd k \<le> get_last_incoming_sequence (fst k) (tb_sequences db)"

text \<open>Either the sequence table is left alone or the envelope's number is now the last one.\<close>

lemma deliver_sequences:
  fixes env me db m
  defines "db' \<equiv> snd (deliver env me db m)" and "e \<equiv> dl_envelope m"
  shows "(tb_sequences db' = tb_sequences db \<and> \<not> succeeded (deliver env me db m)) \<or>
     (\<exists>rows. validate_and_advance_incoming_sequence (dl_now m) (te_device e) (te_sequence e)
        (tb_sequences db) = (Inr (), rows) \<and> tb_sequences db' = rows)"
proof (cases "envelope_admitted env (dl_now m) me e db")
  case False
  from process_refused[OF this, of "dl_draw m" "dl_draws m"] show ?thesis
    by (auto simp: db'_def e_def deliver_def)
next
  case True
  have eq: "deliver env me db m = sequence_and_store env (dl_now m) (dl_draw m) (dl_draws m) me e db"
    using process_admitted[OF True] by (simp add: deliver_def e_def)
  show ?thesis
    unfolding db'_def eq
    by (cases rule: sequence_and_store_cases[of "dl_now m" e db env "dl_draw m" "dl_draws m" me])
      (auto simp: accept_snapshot_tables)
qed

interpretation envelope_guard:
  replay_guard "deliver_step env me" envelope_token sequence_spent "\<lambda>_. True" for env me
proof unfold_locales
  fix db m and k :: "string \<times> int"
  note cases = deliver_sequences[of env me db m]
  show "\<not> sequence_spent db (envelope_token m)" if "fst (deliver_step env me db m)"
    using cases that advance_last
    by (fastforce simp: deliver_step_def sequence_spent_def envelope_token_def)
  show "sequence_spent (snd (deliver_step env me db m)) (envelope_token m)" if "fst (deliver_step env me db m)"
    using cases that advance_last
    by (fastforce simp: deliver_step_def sequence_spent_def envelope_token_def)
  show "sequence_spent (snd (deliver_step env me db m)) k" if "sequence_spent db k"
    using cases that advance_last_le[of "fst k" "tb_sequences db" "dl_now m" "te_device (dl_envelope m)" "te_sequence (dl_envelope m)"]
    by (auto simp: deliver_step_def sequence_spent_def)
qed simp

text \<open>What the trust gate protects.\<close>

definition telemetry_tables ::
  "telemetry_db \<Rightarrow> seq_row list \<times> health_row list \<times> event_row list \<times> policy_db" where
  "telemetry_tables db = (tb_sequences db, tb_health db, tb_events db, tb_policy db)"

lemma deliver_trust: "tb_trust (snd (deliver env me db m)) = tb_trust db"
proof (cases "envelope_admitted env (dl_now m) me (dl_envelope m) db")
  case False
  from process_refused[OF this, of "dl_draw m" "dl_draws m"] show ?thesis by (auto simp: deliver_def)
next
  case True
  have eq: "deliver env me db m =
      sequence_and_store env (dl_now m) (dl_draw m) (dl_draws m) me (dl_envelope m) db"
    using process_admitted[OF True] by (simp add: deliver_def)
  show ?thesis
    unfolding eq
    by (cases rule: sequence_and_store_cases[of "dl_now m" "dl_envelope m" db env "dl_draw m" "dl_draws m" me])
      (auto simp: accept_snapshot_tables)
qed

interpretation envelope_gate:
  trust_guarded verify_device_trust_or_raise is_trusted "deliver env me"
    "\<lambda>m. te_device (dl_envelope m)" me tb_trust telemetry_tables for env me
proof unfold_locales
  fix db m
  show "tb_trust (snd (deliver env me db m)) = tb_trust db" by (rule deliver_trust)
  assume "\<not> is_trusted (tb_trust db) me (te_device (dl_envelope m))"
  then have "\<not> envelope_admitted env (dl_now m) me (dl_envelope m) db"
    by (auto simp: envelope_admitted_def is_trusted_iff_verify)
  from process_refused[OF this, of "dl_draw m" "dl_draws m"]
  show "\<not> succeeded (deliver env me db m)"
    and "telemetry_tables (snd (deliver env me db m)) = telemetry_tables db"
    by (auto simp: deliver_def telemetry_tables_def)
qed

text \<open>
  C7: of any batch of envelopes, in any order and with any duplicates, the ones accepted carry
  pairwise distinct pairs of device and sequence number.
\<close>

theorem telemetry_no_replay:
  "distinct (accepted_tokens (deliver_step env me) envelope_token db ms)"
  by (rule envelope_guard.accepted_once) simp

text \<open>
  A batch of envelopes from devices without trust changes no table: no sequence number is
  consumed, no health row, event or alert is written.
\<close>

theorem untrusted_telemetry_stores_nothing:
  assumes "\<forall>m \<in> set ms. \<not> is_trusted (tb_trust db) me (te_device (dl_envelope m))"
  shows "telemetry_tables (foldl (\<lambda>db m. snd (deliver env me db m)) db ms) = telemetry_tables db"
  by (rule envelope_gate.untrusted_batch[OF assms])

text \<open>
  C8: an envelope is accepted exactly when its payload is valid, its device is trusted, its
  signature verifies under the key on record, its timestamp is within skew and retention, the
  device is not paused, its sequence number is new and its values can be stored.
\<close>

theorem envelope_accepted_iff:
  "succeeded (process_envelope env now d draws me e db) \<longleftrightarrow>
     envelope_admitted env now me e db \<and>
     get_last_incoming_sequence (te_device e) (tb_sequences db) < te_sequence e \<and> sql_int (te_sequence e) \<and>
     (\<exists>s r. derive_health_state (tv_config env) now (te_captured e)
               (get_or JNull (payload_items (te_payload e)) ''connectivity'') = Inr s \<and>
            snapshot_row now e (payload_items (te_payload e)) s = Inr r)"
proof (cases "envelope_admitted env now me e db")
  case False
  with process_refused[OF False] show ?thesis by simp
next
  case True
  have adv: "(\<exists>rows. validate_and_advance_incoming_sequence now (te_device e) (te_sequence e)
      (tb_sequences db) = (Inr (), rows)) \<longleftrightarrow>
      get_last_incoming_sequence (te_device e) (tb_sequences db) < te_sequence e \<and> sql_int (te_sequence e)"
    by (auto simp: validate_and_advance_incoming_sequence_def)
  show ?thesis
    unfolding process_admitted[OF True]
    by (cases rule: sequence_and_store_cases[of now e db env d draws me])
      (use True adv in auto)
qed

section \<open>What the tables hold\<close>

inductive telemetry_reach :: "telemetry_env \<Rightarrow> telemetry_db \<Rightarrow> bool" for env :: telemetry_env where
  tele_start: "telemetry_reach env
     \<lparr>tb_trust = t, tb_policy = p, tb_sequences = [], tb_health = [], tb_events = [],
      tb_next_event = 1, tb_audit = []\<rparr>"
| tele_deliver: "telemetry_reach env db \<Longrightarrow> telemetry_reach env (snd (deliver env me db m))"
| tele_pause: "telemetry_reach env db \<Longrightarrow> telemetry_reach env (pause_device now dev db)"
| tele_resume: "telemetry_reach env db \<Longrightarrow> telemetry_reach env (resume_device now dev db)"
| tele_cleanup: "telemetry_reach env db \<Longrightarrow>
     telemetry_reach env (snd (cleanup_retention (tv_config env) now ret db))"
| tele_trust: "telemetry_reach env db \<Longrightarrow> telemetry_reach env (db\<lparr>tb_trust := t\<rparr>)"

definition metrics_ok :: "int option \<Rightarrow> int option list \<Rightarrow> bool" where
  "metrics_ok battery sizes \<longleftrightarrow>
     (case battery of None \<Rightarrow> True | Some b \<Rightarrow> 0 \<le> b \<and> b \<le> 100) \<and>
     list_all (\<lambda>x. case x of None \<Rightarrow> True | Some i \<Rightarrow> 0 \<le> i) sizes"

definition device_events :: "string \<Rightarrow> telemetry_db \<Rightarrow> event_row list" where
  [model_defs]: "device_events dev db = filter (\<lambda>r. ev_device r = dev) (tb_events db)"

definition telemetry_inv :: "telemetry_db \<Rightarrow> bool" where
  "telemetry_inv db \<longleftrightarrow>
     keyed hr_device (tb_health db) \<and>
     (\<forall>r \<in> set (tb_health db). metrics_ok (hr_battery r) [hr_free r, hr_total r, hr_uptime r]) \<and>
     (\<forall>r \<in> set (tb_events db). metrics_ok (ev_battery r) [ev_free r, ev_total r, ev_uptime r] \<and>
        ev_sequence r \<le> get_last_incoming_sequence (ev_device r) (tb_sequences db)) \<and>
     (\<forall>dev. sorted_wrt (<) (map ev_sequence (device_events dev db)))"

lemma field_bound:
  assumes "int_field_ok ok (map_of kvs k)" and "bind_integer (get_or JNull kvs k) = Inr v"
  shows "case v of None \<Rightarrow> True | Some i \<Rightarrow> ok i"
  using assms
  by (cases "get_or JNull kvs k") (auto simp: int_field_ok_def get_or_def split: option.splits if_splits)

lemma snapshot_row_ok:
  assumes "validate_health_payload p = None" and "snapshot_row now e (payload_items p) hs = Inr r"
  shows "metrics_ok (hr_battery r) [hr_free r, hr_total r, hr_uptime r] \<and>
         hr_device r = te_device e \<and> hr_sequence r = te_sequence e"
proof -
  obtain kvs where p: "p = JObj kvs" and ok:
    "int_field_ok (\<lambda>i. 0 \<le> i \<and> i \<le> 100) (map_of kvs ''battery_percent'')"
    "int_field_ok (\<lambda>i. 0 \<le> i) (map_of kvs ''storage_free_bytes'')"
    "int_field_ok (\<lambda>i. 0 \<le> i) (map_of kvs ''storage_total_bytes'')"
    "int_field_ok (\<lambda>i. 0 \<le> i) (map_of kvs ''uptime_seconds'')"
    using assms(1) by (cases p) (auto simp: validate_health_payload_def split: if_splits)
  note b = field_bound[OF ok(1)] field_bound[OF ok(2)] field_bound[OF ok(3)] field_bound[OF ok(4)]
  show ?thesis
    using assms(2) b
    by (auto simp: snapshot_row_def p payload_items_def metrics_ok_def split: sum.splits)
qed

lemma store_inv:
  assumes "telemetry_inv db" and "metrics_ok (hr_battery r) [hr_free r, hr_total r, hr_uptime r]"
    and "\<And>dev. get_last_incoming_sequence dev (tb_sequences db) \<le> get_last_incoming_sequence dev rows"
    and "get_last_incoming_sequence (hr_device r) (tb_sequences db) < hr_sequence r"
    and "get_last_incoming_sequence (hr_device r) rows = hr_sequence r"
  shows "telemetry_inv (store_snapshot now r (db\<lparr>tb_sequences := rows\<rparr>))"
proof -
  let ?db = "store_snapshot now r (db\<lparr>tb_sequences := rows\<rparr>)"
  have "keyed hr_device (tb_health ?db)"
    using assms(1) by (simp add: store_snapshot_def telemetry_inv_def keyed_upsert_row)
  moreover have "metrics_ok (hr_battery x) [hr_free x, hr_total x, hr_uptime x]" if "x \<in> set (tb_health ?db)" for x
    using that assms(1,2)
    by (auto simp: store_snapshot_def telemetry_inv_def upsert_row_def split: if_splits dest!: update_where_mem)
  moreover have "metrics_ok (ev_battery x) [ev_free x, ev_total x, ev_uptime x] \<and>
      ev_sequence x \<le> get_last_incoming_sequence (ev_device x) rows" if "x \<in> set (tb_events ?db)" for x
    using that assms(1,2,3,5) by (auto simp: store_snapshot_def telemetry_inv_def intro: order_trans)
  moreover have "sorted_wrt (<) (map ev_sequence (device_events dev ?db))" for dev
    using assms(1,4)
    by (auto simp: store_snapshot_def telemetry_inv_def device_events_def sorted_wrt_append intro: le_less_trans)
  ultimately show ?thesis by (simp add: telemetry_inv_def store_snapshot_def)
qed

lemma telemetry_inv_mono:
  assumes "telemetry_inv db" and "tb_health db' = tb_health db" and "tb_events db' = tb_events db"
    and "\<And>dev. get_last_incoming_sequence dev (tb_sequences db) \<le> get_last_incoming_sequence dev (tb_sequences db')"
  shows "telemetry_inv db'"
  using assms by (auto simp: telemetry_inv_def device_events_def intro: order_trans)

lemma deliver_inv:
  assumes "telemetry_inv db"
  shows "telemetry_inv (snd (deliver env me db m))"
proof (cases "envelope_admitted env (dl_now m) me (dl_envelope m) db")
  case False
  from process_refused[OF this, of "dl_draw m" "dl_draws m"] obtain log
    where "snd (deliver env me db m) = db\<lparr>tb_audit := log\<rparr>" by (auto simp: deliver_def)
  then show ?thesis using assms by (simp add: telemetry_inv_def device_events_def)
next
  case True
  let ?e = "dl_envelope m"
  have eq: "deliver env me db m = sequence_and_store env (dl_now m) (dl_draw m) (dl_draws m) me ?e db"
    using process_admitted[OF True] by (simp add: deliver_def)
  have grow: "get_last_incoming_sequence dev (tb_sequences db) \<le> get_last_incoming_sequence dev rows"
    if "validate_and_advance_incoming_sequence (dl_now m) (te_device ?e) (te_sequence ?e) (tb_sequences db) = (Inr (), rows)"
    for dev rows
    using advance_last_le[of dev "tb_sequences db" "dl_now m" "te_device ?e" "te_sequence ?e"] that by simp
  show ?thesis
    unfolding eq
  proof (cases rule: sequence_and_store_cases[of "dl_now m" ?e db env "dl_draw m" "dl_draws m" me])
    case (refused x rows)
    then show "telemetry_inv (snd (sequence_and_store env (dl_now m) (dl_draw m) (dl_draws m) me ?e db))"
      by (intro telemetry_inv_mono[OF assms]) simp_all
  next
    case (burnt rows)
    then show "telemetry_inv (snd (sequence_and_store env (dl_now m) (dl_draw m) (dl_draws m) me ?e db))"
      using grow by (intro telemetry_inv_mono[OF assms]) simp_all
  next
    case (stored rows s r)
    have r: "metrics_ok (hr_battery r) [hr_free r, hr_total r, hr_uptime r]"
      "hr_device r = te_device ?e" "hr_sequence r = te_sequence ?e"
      using snapshot_row_ok[OF _ stored(4)] True by (auto simp: envelope_admitted_def)
    have "telemetry_inv (store_snapshot (dl_now m) r (db\<lparr>tb_sequences := rows\<rparr>))"
      using store_inv[OF assms r(1), of rows] grow[OF stored(1)] advance_last[OF stored(1)] r by simp
    then show "telemetry_inv (snd (sequence_and_store env (dl_now m) (dl_draw m) (dl_draws m) me ?e db))"
      unfolding stored(5)
      by (rule telemetry_inv_mono) (simp_all add: accept_snapshot_tables store_snapshot_def)
  qed
qed

lemma reach_telemetry_inv: "telemetry_reach env db \<Longrightarrow> telemetry_inv db"
proof (induction rule: telemetry_reach.induct)
  case (tele_start t p)
  then show ?case by (simp add: telemetry_inv_def keyed_def device_events_def)
next
  case (tele_deliver db me m)
  then show ?case by (simp add: deliver_inv)
next
  case (tele_pause db now dev)
  then show ?case
    by (auto simp: pause_device_def tele_audit_def telemetry_inv_def device_events_def metrics_ok_def
        upsert_row_def keyed_update_where table_simps keyed_def
        split: if_splits dest!: update_where_mem intro: keyed_update_where[unfolded keyed_def])
next
  case (tele_resume db now dev)
  then show ?case
    by (auto simp: resume_device_def tele_audit_def telemetry_inv_def device_events_def
        dest!: update_where_mem intro!: keyed_update_where)
next
  case (tele_cleanup db now ret)
  have "sorted_wrt (<) (map ev_sequence (filter (\<lambda>r. ev_device r = dev) (filter q (tb_events db))))" for dev q
  proof -
    have "filter (\<lambda>r. ev_device r = dev) (filter q (tb_events db)) =
        filter q (filter (\<lambda>r. ev_device r = dev) (tb_events db))" by (simp add: conj_commute)
    then show ?thesis
      using tele_cleanup(2)
      by (simp only: telemetry_inv_def device_events_def sorted_wrt_map) (simp only: sorted_wrt_filter)
  qed
  then show ?case
    using tele_cleanup(2)
    by (auto simp: cleanup_retention_def Let_def tele_audit_def telemetry_inv_def device_events_def)
next
  case (tele_trust db t)
  then show ?case by (simp add: telemetry_inv_def device_events_def)
qed

text \<open>
  C9: in every reachable state the event log of each device is strictly increasing in sequence
  number, none exceeds the last number accepted, and every stored battery level lies between 0
  and 100 with sizes and uptime non-negative.
\<close>

theorem telemetry_log_ordered:
  assumes "telemetry_reach env db"
  shows "sorted_wrt (<) (map ev_sequence (filter (\<lambda>r. ev_device r = dev) (tb_events db))) \<and>
     list_all (\<lambda>r. ev_sequence r \<le> get_last_incoming_sequence (ev_device r) (tb_sequences db) \<and>
        metrics_ok (ev_battery r) [ev_free r, ev_total r, ev_uptime r]) (tb_events db) \<and>
     list_all (\<lambda>r. metrics_ok (hr_battery r) [hr_free r, hr_total r, hr_uptime r]) (tb_health db)"
  using reach_telemetry_inv[OF assms]
  by (simp add: telemetry_inv_def device_events_def list_all_iff)

text \<open>
  An envelope that is not accepted leaves the health rows, the events, the policies and the
  trust registry as they were; of the sequence table it can at most have consumed its own number.
\<close>

theorem failed_envelope_stores_nothing:
  assumes "\<not> succeeded (process_envelope env now d draws me e db)"
  shows "tb_health (snd (process_envelope env now d draws me e db)) = tb_health db \<and>
     tb_events (snd (process_envelope env now d draws me e db)) = tb_events db \<and>
     tb_policy (snd (process_envelope env now d draws me e db)) = tb_policy db \<and>
     tb_trust (snd (process_envelope env now d draws me e db)) = tb_trust db \<and>
     get_last_incoming_sequence dev (tb_sequences (snd (process_envelope env now d draws me e db))) \<in>
       {get_last_incoming_sequence dev (tb_sequences db), te_sequence e}"
proof (cases "envelope_admitted env now me e db")
  case False
  from process_refused[OF this, of d draws] show ?thesis by auto
next
  case True
  show ?thesis
    using assms unfolding process_admitted[OF True]
    by (cases rule: sequence_and_store_cases[of now e db env d draws me])
      (use advance_last in auto)
qed

section \<open>A delivery\<close>

definition demo_tele_env :: telemetry_env where
  "demo_tele_env =
     \<lparr>tv_crypto = \<lparr>load_pem = Some, sha256_hex = id, sha256_b64 = id, ed25519_verify = (\<lambda>k s t. s = [1])\<rparr>,
      tv_iso = (\<lambda>_. ''T''), tv_round = id,
      tv_config = \<lparr>timestamp_skew_tolerance_seconds = 120, telemetry_retention_days = 7,
                   health_degraded_threshold_seconds = 60, health_offline_threshold_seconds = 120\<rparr>,
      tv_policy = \<lparr>default_battery_threshold = 20, default_storage_threshold = 10,
                   default_offline_duration_seconds = 120, default_degraded_duration_seconds = 60,
                   policy_evaluation_enabled = False\<rparr>\<rparr>"

definition demo_tele_db :: telemetry_db where
  "demo_tele_db =
     \<lparr>tb_trust = empty_db\<lparr>db_trusted :=
        [\<lparr>td_local = ''P'', td_remote = ''D'', td_role = CHILD, td_fingerprint = [], td_pem = ''K'',
          td_label = None, td_status = TS_ACTIVE, td_created_at = Aware 0, td_last_verified_at = Aware 0,
          td_version = 1, td_session = None\<rparr>]\<rparr>,
      tb_policy = empty_policy_db, tb_sequences = [], tb_health = [], tb_events = [],
      tb_next_event = 1, tb_audit = []\<rparr>"

definition demo_delivery :: "string \<Rightarrow> int \<Rightarrow> delivery" where
  "demo_delivery conn n =
     \<lparr>dl_now = 10, dl_draw = ([], ''A''), dl_draws = (\<lambda>_. ([], ''A'')),
      dl_envelope = \<lparr>te_device = ''D'', te_sequence = n,
        te_payload = JObj [(''battery_percent'', JInt 80), (''connectivity'', JStr conn)],
        te_captured = Aware 5, te_version = JStr ''1.0'', te_signature = Some ''01''\<rparr>\<rparr>"

lemmas delivery_eval =
  demo_tele_env_def demo_tele_db_def demo_delivery_def deliver_def process_envelope_def
  validate_health_payload_def forbidden_fields_def allowed_health_fields_def int_field_ok_def
  verify_device_trust_or_raise_def get_trusted_device_def td_key_def envelope_verify_signature_def
  hex_digit_def check_timestamp_def is_device_paused_def sequence_and_store_def
  validate_and_advance_incoming_sequence_def get_last_incoming_sequence_def sql_int_def
  derive_health_state_def age_state_def payload_items_def get_or_def snapshot_row_def
  connectivity_column_def charging_column_def py_str_def py_upper_def upper_char_def
  accept_snapshot_def store_snapshot_def upsert_row_def has_key_def fetch_where_def
  second_def day_def empty_db_def is_py_space_def tele_audit_def audit_def get_device_health_def Let_def

lemma demo_stored:
  "map ev_sequence (tb_events (snd (deliver demo_tele_env ''P'' demo_tele_db (demo_delivery ''ONLINE'' 3)))) = [3]"
  by (simp add: delivery_eval)

lemma untrusted_telemetry_stores_nothing_witness:
  "telemetry_tables (foldl (\<lambda>db m. snd (deliver demo_tele_env ''Q'' db m)) demo_tele_db
       [demo_delivery ''ONLINE'' 3, demo_delivery ''ONLINE'' 4]) = telemetry_tables demo_tele_db"
  by (rule untrusted_telemetry_stores_nothing)
    (simp add: is_trusted_def get_trusted_device_def demo_tele_db_def td_key_def fetch_where_def)

lemma telemetry_log_ordered_witness:
  "map ev_sequence (tb_events (snd (deliver demo_tele_env ''P'' demo_tele_db (demo_delivery ''ONLINE'' 3)))) = [3] \<and>
   sorted_wrt (<) (map ev_sequence (filter (\<lambda>r. ev_device r = ''D'')
     (tb_events (snd (deliver demo_tele_env ''P'' demo_tele_db (demo_delivery ''ONLINE'' 3))))))"
proof -
  have "telemetry_reach demo_tele_env demo_tele_db" unfolding demo_tele_db_def by (rule tele_start)
  from telemetry_log_ordered[OF tele_deliver[OF this]] demo_stored show ?thesis by blast
qed

text \<open>
  The sequence number is consumed before the values are stored: an envelope whose
  connectivity text the column refuses raises from the database, stores nothing, and makes the
  device's corrected envelope under the same number a replay.
\<close>

theorem refused_values_consume_sequence:
  "fst (deliver demo_tele_env ''P'' demo_tele_db (demo_delivery ''online'' 3)) =
     Inl (Builtin SqliteIntegrityError) \<and>
   tb_events (snd (deliver demo_tele_env ''P'' demo_tele_db (demo_delivery ''online'' 3))) = [] \<and>
   fst (deliver demo_tele_env ''P'' (snd (deliver demo_tele_env ''P'' demo_tele_db (demo_delivery ''online'' 3)))
          (demo_delivery ''ONLINE'' 3)) = Inl (Telemetry TelemetryReplayError)"
  by (simp add: delivery_eval)

lemma failed_envelope_stores_nothing_witness:
  "tb_events (snd (process_envelope demo_tele_env 10 ([], ''A'') (\<lambda>_. ([], ''A'')) ''P''
     (dl_envelope (demo_delivery ''online'' 3)) demo_tele_db)) = tb_events demo_tele_db"
proof -
  have "fst (deliver demo_tele_env ''P'' demo_tele_db (demo_delivery ''online'' 3)) =
      Inl (Builtin SqliteIntegrityError)" by (simp add: delivery_eval)
  then have "\<not> succeeded (process_envelope demo_tele_env 10 ([], ''A'') (\<lambda>_. ([], ''A'')) ''P''
     (dl_envelope (demo_delivery ''online'' 3)) demo_tele_db)"
    by (simp add: deliver_def demo_delivery_def succeeded_def)
  from failed_envelope_stores_nothing[OF this] show ?thesis by blast
qed

end
