(* ===== verification/TransportSessionProps.thy ===== *)
theory TransportSessionProps
  imports TransportSession
begin

text \<open>
  What a session guarantees: no frame is accepted twice, the replay memory is bounded, no
  nonce is used twice under a key, and what one side sends in order the other side receives.
\<close>

section \<open>The replay window\<close>

definition session_ok :: "tsession \<Rightarrow> bool" where
  "session_ok s \<longleftrightarrow> 0 \<le> ss_window s \<and> 0 \<le> ss_inbound s \<and> distinct (ss_seen s) \<and>
     (\<forall>x \<in> set (ss_seen s). max 0 (ss_inbound s - ss_window s) \<le> x \<and> x \<le> ss_inbound s) \<and>
     distinct (ss_ids s) \<and> length (ss_ids s) \<le> id_cache_size \<and>
     distinct (ss_id_set s) \<and> set (ss_id_set s) = set (ss_ids s)"

definition spent_sequence :: "tsession \<Rightarrow> int \<Rightarrow> bool" where
  "spent_sequence s n \<longleftrightarrow> n \<in> set (ss_seen s) \<or> n < max 1 (ss_inbound s - ss_window s)"

text \<open>The part of a session the replay defence reads.\<close>

definition same_window :: "tsession \<Rightarrow> tsession \<Rightarrow> bool" where
  "same_window s t \<longleftrightarrow> ss_window t = ss_window s \<and> ss_inbound t = ss_inbound s \<and>
     ss_seen t = ss_seen s \<and> ss_ids t = ss_ids s \<and> ss_id_set t = ss_id_set s"

lemma same_window_refl [simp]: "same_window s s"
  by (simp add: same_window_def)

lemma same_window_ok: "same_window s t \<Longrightarrow> session_ok t = session_ok s"
  by (simp add: same_window_def session_ok_def)

lemma same_window_spent: "same_window s t \<Longrightarrow> spent_sequence t = spent_sequence s"
  by (simp add: same_window_def spent_sequence_def fun_eq_iff)

lemma remember_id_simps [simp]:
  "ss_window (remember_id m s) = ss_window s" "ss_inbound (remember_id m s) = ss_inbound s"
  "ss_seen (remember_id m s) = ss_seen s"
  by (simp_all add: remember_id_def Let_def)

lemma advance_window_simps [simp]:
  "ss_window (advance_window n s) = ss_window s" "ss_ids (advance_window n s) = ss_ids s"
  "ss_id_set (advance_window n s) = ss_id_set s"
  "ss_inbound (advance_window n s) = max n (ss_inbound s)"
  by (simp_all add: advance_window_def Let_def max_def)

lemma window_frame [simp]:
  "ss_id (remember_id m s) = ss_id s" "ss_id (advance_window n s) = ss_id s"
  "ss_recv_key (remember_id m s) = ss_recv_key s" "ss_recv_key (advance_window n s) = ss_recv_key s"
  "ss_salt (remember_id m s) = ss_salt s" "ss_salt (advance_window n s) = ss_salt s"
  "ss_expires (remember_id m s) = ss_expires s" "ss_expires (advance_window n s) = ss_expires s"
  by (simp_all add: remember_id_def advance_window_def Let_def)

lemma advance_window_seen:
  "set (ss_seen (advance_window n s)) =
     {x \<in> insert n (set (ss_seen s)). max 0 (max n (ss_inbound s) - ss_window s) \<le> x}"
  by (auto simp: advance_window_def Let_def max_def)

lemma remember_id_ok:
  assumes "session_ok s" and "m \<notin> set (ss_id_set s)"
  shows "distinct (ss_ids (remember_id m s)) \<and> length (ss_ids (remember_id m s)) \<le> id_cache_size \<and>
    distinct (ss_id_set (remember_id m s)) \<and> set (ss_id_set (remember_id m s)) = set (ss_ids (remember_id m s))"
proof (cases "length (ss_ids s) = id_cache_size")
  case True
  then obtain old ids where ids: "ss_ids s = old # ids"
    by (cases "ss_ids s") (auto simp: id_cache_size_def)
  with assms have "set (remove1 old (ss_id_set s)) = set ids" "distinct (remove1 old (ss_id_set s))"
    by (auto simp: session_ok_def set_remove1_eq)
  with assms True ids show ?thesis
    by (auto simp: remember_id_def Let_def session_ok_def distinct_insert)
next
  case False
  with assms show ?thesis
    by (auto simp: remember_id_def Let_def session_ok_def distinct_insert)
qed

lemma inbound_cases:
  assumes "validate_and_advance_inbound cal now n m s = (r, s')"
  obtains (refused) x where "r = Inl x" "same_window s s'"
  | (accepted) "r = Inr ()" "0 < n" "m \<notin> set (ss_id_set s)" "\<not> spent_sequence s n"
      "s' = (advance_window n (remember_id m s))\<lparr>ss_heartbeat := Some (write_iso cal now)\<rparr>"
  using assms
  by (auto simp: validate_and_advance_inbound_def spent_sequence_def same_window_def split: if_splits)

lemma accepted_ok:
  assumes "session_ok s" and "m \<notin> set (ss_id_set s)" and "0 < n" and "\<not> spent_sequence s n"
  shows "session_ok ((advance_window n (remember_id m s))\<lparr>ss_heartbeat := h\<rparr>)"
proof -
  have "distinct (ss_seen (advance_window n (remember_id m s)))"
    using assms(1) by (simp add: advance_window_def Let_def session_ok_def distinct_insert)
  moreover have "\<forall>x \<in> set (ss_seen (advance_window n (remember_id m s))).
      max 0 (max n (ss_inbound s) - ss_window s) \<le> x \<and> x \<le> max n (ss_inbound s)"
    using assms(1) by (auto simp: advance_window_seen session_ok_def)
  ultimately show ?thesis
    using assms remember_id_ok[OF assms(1,2)] by (simp add: session_ok_def)
qed

lemma inbound_ok:
  "session_ok s \<Longrightarrow> validate_and_advance_inbound cal now n m s = (r, s') \<Longrightarrow> session_ok s'"
  by (erule inbound_cases) (auto simp: same_window_ok accepted_ok)

lemma inbound_spends:
  assumes "session_ok s" and "validate_and_advance_inbound cal now n m s = (Inr u, s')"
  shows "\<not> spent_sequence s n" and "spent_sequence s' n"
  using assms(2)
  by (cases rule: inbound_cases; use assms(1) in
      \<open>auto simp: spent_sequence_def advance_window_seen session_ok_def max_def split: if_splits\<close>)+

lemma inbound_keeps_spent:
  assumes "validate_and_advance_inbound cal now n m s = (r, s')" and "spent_sequence s k"
  shows "spent_sequence s' k"
  using assms(1)
proof (cases rule: inbound_cases)
  case refused
  with assms(2) show ?thesis by (simp add: same_window_spent)
next
  case accepted
  with assms(2) show ?thesis
    by (auto simp: spent_sequence_def advance_window_seen max_def split: if_splits)
qed

section \<open>Frames are accepted once\<close>

lemma decrypted_sequence:
  assumes "decrypt_frame_payload pr fresh k salt f = Inr e"
  shows "en_sequence e = ef_sequence f"
  using assms
  by (auto simp: decrypt_frame_payload_def opened_envelope_def Let_def
      split: option.splits if_splits json.splits sum.splits)

lemma decrypt_frame_cases:
  assumes "decrypt_frame pr cal now fresh f s = (r, s')"
  obtains (refused) x where "r = Inl x" "same_window s s'"
  | (checked) e :: transport_envelope and x where "validate_and_advance_inbound cal now (ef_sequence f) (en_message_id e) s = (Inl x, s')"
      "r = Inl x"
  | (accepted) e :: transport_envelope where "validate_and_advance_inbound cal now (ef_sequence f) (en_message_id e) s = (Inr (), s')"
      "r = Inr e"
proof (cases "no_key (ss_recv_key s) \<or> session_expired cal now s \<or> ef_session_id f \<noteq> ss_id s")
  case True
  then obtain x where "r = Inl x" "same_window s s'"
    using assms by (auto simp: decrypt_frame_def same_window_def split: if_splits)
  then show ?thesis by (rule refused)
next
  case False
  show ?thesis
  proof (cases "decrypt_frame_payload pr fresh (the (ss_recv_key s)) (ss_salt s) f")
    case (Inl x)
    with assms False show ?thesis by (intro refused[of x]) (auto simp: decrypt_frame_def)
  next
    case (Inr e)
    obtain v t where v: "validate_and_advance_inbound cal now (ef_sequence f) (en_message_id e) s = (v, t)"
      by (cases "validate_and_advance_inbound cal now (ef_sequence f) (en_message_id e) s")
    have r: "decrypt_frame pr cal now fresh f s = (case (v, t) of (Inl x, t) \<Rightarrow> (Inl x, t) | (Inr _, t) \<Rightarrow> (Inr e, t))"
      using False Inr v decrypted_sequence[OF Inr] by (simp add: decrypt_frame_def)
    show ?thesis
    proof (cases v)
      case (Inl x)
      with r assms v show ?thesis by (intro checked[of e x]) simp_all
    next
      case (Inr u)
      with r assms v show ?thesis by (intro accepted[of e]) simp_all
    qed
  qed
qed

text \<open>What arrives: the time, the identifier the default factory would draw, and the frame.\<close>

type_synonym arrival = "int \<times> string \<times> encrypted_frame"

definition receive :: "primitives \<Rightarrow> calendar \<Rightarrow> tsession \<Rightarrow> arrival \<Rightarrow> bool \<times> tsession" where
  "receive pr cal s a =
     (case a of (now, fresh, f) \<Rightarrow>
        let r = decrypt_frame pr cal now fresh f s in (succeeded r, snd r))"

definition arrival_sequence :: "arrival \<Rightarrow> int" where
  [simp]: "arrival_sequence a = ef_sequence (snd (snd a))"

interpretation frame_guard: replay_guard "receive pr cal" arrival_sequence spent_sequence session_ok
proof
  fix s :: tsession and a :: arrival and k :: int
  obtain now fresh f where a: "a = (now, fresh, f)" by (cases a)
  obtain r s' where r: "decrypt_frame pr cal now fresh f s = (r, s')"
    by (cases "decrypt_frame pr cal now fresh f s")
  have rec: "receive pr cal s a = (succeeded (r, s'), s')" using r a by (simp add: receive_def Let_def)
  show "session_ok s \<Longrightarrow> session_ok (snd (receive pr cal s a))"
    using r unfolding rec by (auto elim!: decrypt_frame_cases simp: same_window_ok intro: inbound_ok)
  show "session_ok s \<Longrightarrow> fst (receive pr cal s a) \<Longrightarrow> \<not> spent_sequence s (arrival_sequence a)"
    using r a unfolding rec by (auto elim!: decrypt_frame_cases simp: inbound_spends)
  show "session_ok s \<Longrightarrow> fst (receive pr cal s a) \<Longrightarrow>
      spent_sequence (snd (receive pr cal s a)) (arrival_sequence a)"
    using r a unfolding rec by (auto elim!: decrypt_frame_cases simp: inbound_spends)
  show "session_ok s \<Longrightarrow> spent_sequence s k \<Longrightarrow> spent_sequence (snd (receive pr cal s a)) k"
    using r unfolding rec by (auto elim!: decrypt_frame_cases simp: same_window_spent intro: inbound_keeps_spent)
qed

lemma new_transport_session_ok: "session_ok (new_transport_session cal now sid l r keys medium st expires)"
  by (simp add: session_ok_def new_transport_session_def)

text \<open>
  C15: whatever frames arrive at a new session, in whatever order and however often, the
  sequence numbers of those it decrypts and accepts are pairwise distinct.
\<close>

theorem frames_decrypted_once:
  "distinct (accepted_tokens (receive pr cal) arrival_sequence
     (new_transport_session c0 t0 sid l r keys medium st expires) arrivals)"
  by (rule frame_guard.accepted_once[OF new_transport_session_ok])

text \<open>
  After any arrivals a session remembers at most 129 sequence numbers, all inside the
  window, and at most 1000 message identifiers, each once.
\<close>

theorem replay_memory_bounded:
  "let s = final_state (receive pr cal) (new_transport_session c0 t0 sid l r keys medium st expires) arrivals in
   set (ss_seen s) \<subseteq> {ss_inbound s - 128 .. ss_inbound s} \<and> distinct (ss_seen s) \<and>
   length (ss_seen s) \<le> 129 \<and> distinct (ss_id_set s) \<and> length (ss_id_set s) \<le> 1000"
proof -
  define s where "s = final_state (receive pr cal)
    (new_transport_session c0 t0 sid l r keys medium st expires) arrivals"
  have ok: "session_ok s" unfolding s_def by (rule frame_guard.run_inv[OF new_transport_session_ok])
  have w: "ss_window (snd (receive pr cal t a)) = ss_window t" for t a
    by (cases a) (auto simp: receive_def decrypt_frame_def validate_and_advance_inbound_def Let_def
        split: sum.splits prod.splits if_splits)
  have "ss_window (final_state (receive pr cal) t as) = ss_window t" for t as
    by (induction as arbitrary: t) (simp_all add: w)
  then have win: "ss_window s = 128" unfolding s_def by (simp add: new_transport_session_def)
  have sub: "set (ss_seen s) \<subseteq> {ss_inbound s - 128 .. ss_inbound s}" and dist: "distinct (ss_seen s)"
    using ok win by (auto simp: session_ok_def)
  have "length (ss_seen s) \<le> card {ss_inbound s - 128 .. ss_inbound s}"
    using card_mono[OF _ sub] distinct_card[OF dist] by simp
  moreover have "length (ss_id_set s) \<le> 1000"
  proof -
    have "length (ss_id_set s) = card (set (ss_ids s))"
      using ok distinct_card[of "ss_id_set s"] by (simp add: session_ok_def)
    also have "\<dots> \<le> 1000" using ok card_length[of "ss_ids s"] by (simp add: session_ok_def id_cache_size_def)
    finally show ?thesis .
  qed
  ultimately show ?thesis using sub dist ok unfolding s_def[symmetric] by (simp add: session_ok_def)
qed

section \<open>Nonces\<close>

text \<open>
  The calls on a session: what a client sends, what arrives, the heartbeat messages that take
  a sequence number of their own, and closing.
\<close>

datatype session_op =
    Send int transport_envelope
  | Receive int string encrypted_frame
  | Draw
  | Touch int
  | Close int reason

fun session_step ::
  "primitives \<Rightarrow> calendar \<Rightarrow> session_op \<Rightarrow> tsession \<Rightarrow> encrypted_frame list \<times> tsession" where
  "session_step pr cal (Send now e) s =
     (case encrypt_envelope pr cal now e s of (Inl _, t) \<Rightarrow> ([], t) | (Inr f, t) \<Rightarrow> ([f], t))"
| "session_step pr cal (Receive now fresh f) s = ([], snd (decrypt_frame pr cal now fresh f s))"
| "session_step pr cal Draw s = ([], snd (next_outbound_sequence s))"
| "session_step pr cal (Touch now) s = ([], touch_heartbeat cal now s)"
| "session_step pr cal (Close now why) s = ([], close_session cal now why s)"

text \<open>The frames a session emits.\<close>

fun emitted :: "primitives \<Rightarrow> calendar \<Rightarrow> tsession \<Rightarrow> session_op list \<Rightarrow> encrypted_frame list" where
  "emitted pr cal s [] = []"
| "emitted pr cal s (x # xs) =
     fst (session_step pr cal x s) @ emitted pr cal (snd (session_step pr cal x s)) xs"

lemma inbound_frame:
  assumes "validate_and_advance_inbound cal now n m s = (r, s')"
  shows "ss_outbound s' = ss_outbound s \<and> ss_salt s' = ss_salt s \<and> ss_send_key s' = ss_send_key s \<and>
    ss_id s' = ss_id s"
  using assms
  by (auto simp: validate_and_advance_inbound_def advance_window_def remember_id_def Let_def
      split: if_splits)

lemma decrypt_frame_frame:
  assumes "decrypt_frame pr cal now fresh f s = (r, s')"
  shows "ss_outbound s' = ss_outbound s \<and> ss_salt s' = ss_salt s \<and> ss_send_key s' = ss_send_key s \<and>
    ss_id s' = ss_id s"
proof (cases "no_key (ss_recv_key s) \<or> session_expired cal now s \<or> ef_session_id f \<noteq> ss_id s")
  case True
  with assms show ?thesis by (auto simp: decrypt_frame_def split: if_splits)
next
  case False
  show ?thesis
  proof (cases "decrypt_frame_payload pr fresh (the (ss_recv_key s)) (ss_salt s) f")
    case (Inl x)
    with assms False show ?thesis by (auto simp: decrypt_frame_def)
  next
    case (Inr e)
    obtain v t where v: "validate_and_advance_inbound cal now (en_sequence e) (en_message_id e) s = (v, t)"
      by (cases "validate_and_advance_inbound cal now (en_sequence e) (en_message_id e) s")
    then have "s' = t" using assms False Inr by (cases v) (auto simp: decrypt_frame_def)
    with inbound_frame[OF v] show ?thesis by simp
  qed
qed

lemma encrypt_envelope_frame:
  assumes "encrypt_envelope pr cal now e s = (r, s')"
  shows "ss_outbound s \<le> ss_outbound s' \<and> ss_salt s' = ss_salt s \<and> ss_send_key s' = ss_send_key s \<and>
    (\<forall>f. r = Inr f \<longrightarrow>
      (\<exists>x. construct_nonce (ss_salt s) (ss_outbound s + 1) = Some x \<and> ef_nonce_hex f = to_hex x) \<and>
      ss_outbound s' = ss_outbound s + 1 \<and> ss_send_key s \<noteq> None \<and> ef_sequence f = ss_outbound s + 1)"
  using assms
  by (auto simp: encrypt_envelope_def next_outbound_sequence_def Let_def encrypt_envelope_payload_def
      no_key_def split: if_splits option.splits sum.splits)

lemma emitted_nonces:
  assumes "list_all (\<lambda>b. b < 256) salt"
    and "ss_send_key s \<noteq> None \<Longrightarrow> ss_salt s = salt"
  shows "\<exists>ns. sorted_wrt (<) ns \<and> (\<forall>n \<in> set ns. ss_outbound s < n) \<and>
    list_all2 (\<lambda>f n. ef_sequence f = n \<and> (\<exists>x. construct_nonce salt n = Some x \<and> ef_nonce_hex f = to_hex x))
      (emitted pr cal s ops) ns"
  using assms
proof (induction ops arbitrary: s)
  case Nil
  then show ?case by (auto intro: exI[of _ "[]"])
next
  case (Cons x ops)
  let ?t = "snd (session_step pr cal x s)"
  let ?Q = "\<lambda>f n. ef_sequence f = n \<and> (\<exists>x. construct_nonce salt n = Some x \<and> ef_nonce_hex f = to_hex x)"
  have keep: "(ss_send_key ?t \<noteq> None \<longrightarrow> ss_salt ?t = salt) \<and> ss_outbound s \<le> ss_outbound ?t \<and>
      (fst (session_step pr cal x s) = [] \<or>
       (\<exists>f. fst (session_step pr cal x s) = [f] \<and> ?Q f (ss_outbound s + 1) \<and> ss_outbound ?t = ss_outbound s + 1))"
  proof (cases x)
    case (Send now e)
    obtain r t where r: "encrypt_envelope pr cal now e s = (r, t)" by (cases "encrypt_envelope pr cal now e s")
    with encrypt_envelope_frame[OF r] Cons.prems(2) Send show ?thesis by (cases r) auto
  next
    case (Receive now fresh f)
    obtain r t where r: "decrypt_frame pr cal now fresh f s = (r, t)" by (cases "decrypt_frame pr cal now fresh f s")
    with decrypt_frame_frame[OF r] Cons.prems(2) Receive show ?thesis by auto
  qed (use Cons.prems(2) in \<open>auto simp: next_outbound_sequence_def touch_heartbeat_def close_session_def\<close>)
  then obtain ns where ns: "sorted_wrt (<) ns" "\<forall>n \<in> set ns. ss_outbound ?t < n"
      "list_all2 ?Q (emitted pr cal ?t ops) ns"
    using Cons.IH[of ?t] Cons.prems(1) by blast
  from keep consider "fst (session_step pr cal x s) = []" "ss_outbound s \<le> ss_outbound ?t"
    | f where "fst (session_step pr cal x s) = [f]" "?Q f (ss_outbound s + 1)" "ss_outbound ?t = ss_outbound s + 1"
    by blast
  then show ?case
  proof cases
    case 1
    with ns show ?thesis by (intro exI[of _ ns]) auto
  next
    case 2
    with ns show ?thesis by (intro exI[of _ "(ss_outbound s + 1) # ns"]) auto
  qed
qed

lemma to_hex_inject:
  assumes "to_hex a = to_hex b" and "list_all (\<lambda>b. b < 256) a" and "list_all (\<lambda>b. b < 256) b"
  shows "a = b"
  using assms from_hex_to_hex by (metis option.inject)

text \<open>
  C16: whatever is called on a session, no two frames it emits carry the same sequence number
  or the same nonce: no nonce is used twice under its key.
\<close>

theorem nonces_unique:
  assumes "list_all (\<lambda>b. b < 256) (snd (snd keys))"
  shows "distinct (map ef_nonce_hex (emitted pr cal (new_transport_session c0 t0 sid l r keys medium st expires) ops)) \<and>
    sorted_wrt (<) (map ef_sequence (emitted pr cal (new_transport_session c0 t0 sid l r keys medium st expires) ops))"
proof -
  let ?salt = "snd (snd keys)"
  let ?s = "new_transport_session c0 t0 sid l r keys medium st expires"
  obtain ns where ns: "sorted_wrt (<) ns"
    and all: "list_all2 (\<lambda>f n. ef_sequence f = n \<and>
      (\<exists>x. construct_nonce ?salt n = Some x \<and> ef_nonce_hex f = to_hex x)) (emitted pr cal ?s ops) ns"
    using emitted_nonces[OF assms, of ?s pr cal ops] by (auto simp: new_transport_session_def)
  have "map ef_sequence (emitted pr cal ?s ops) = ns"
    using all by (induction rule: list_all2_induct) auto
  moreover have hex: "map ef_nonce_hex (emitted pr cal ?s ops) = map (\<lambda>n. to_hex (the (construct_nonce ?salt n))) ns"
    using all by (induction rule: list_all2_induct) auto
  moreover have "inj_on (\<lambda>n. to_hex (the (construct_nonce ?salt n))) (set ns)"
  proof (rule inj_onI)
    fix m n assume mn: "m \<in> set ns" "n \<in> set ns"
      and eq: "to_hex (the (construct_nonce ?salt m)) = to_hex (the (construct_nonce ?salt n))"
    have some: "\<exists>x. construct_nonce ?salt k = Some x" if "k \<in> set ns" for k
      using all that by (auto simp: list_all2_conv_all_nth in_set_conv_nth)
    obtain x y where xy: "construct_nonce ?salt m = Some x" "construct_nonce ?salt n = Some y"
      using some mn by blast
    with eq have "x = y"
      using construct_nonce_bytes(1)[OF _ assms] to_hex_inject by (metis option.sel)
    with xy show "m = n" using construct_nonce_inject by blast
  qed
  ultimately show ?thesis using ns by (simp add: distinct_map strict_sorted_iff)
qed

section \<open>Delivery\<close>

fun send_all ::
  "primitives \<Rightarrow> calendar \<Rightarrow> int \<Rightarrow> transport_envelope list \<Rightarrow> tsession \<Rightarrow>
   (gm_error + encrypted_frame) list \<times> tsession" where
  "send_all pr cal now [] s = ([], s)"
| "send_all pr cal now (e # es) s =
     (let (x, s1) = encrypt_envelope pr cal now e s; (xs, s2) = send_all pr cal now es s1 in (x # xs, s2))"

fun receive_all ::
  "primitives \<Rightarrow> calendar \<Rightarrow> int \<Rightarrow> string \<Rightarrow> encrypted_frame list \<Rightarrow> tsession \<Rightarrow>
   (gm_error + transport_envelope) list \<times> tsession" where
  "receive_all pr cal now fresh [] s = ([], s)"
| "receive_all pr cal now fresh (f # fs) s =
     (let (x, s1) = decrypt_frame pr cal now fresh f s; (xs, s2) = receive_all pr cal now fresh fs s1
      in (x # xs, s2))"

text \<open>An envelope as the receiver sees it: the keys of its dictionaries in order.\<close>

definition canon_members :: "(string \<times> json) list \<Rightarrow> (string \<times> json) list" where
  "canon_members kvs = sort_key fst (map (\<lambda>(k, v). (k, canon v)) kvs)"

definition canon_envelope :: "transport_envelope \<Rightarrow> transport_envelope" where
  "canon_envelope e = e\<lparr>en_payload := canon_members (en_payload e), en_auth := canon_members (en_auth e)\<rparr>"

fun stamped :: "string \<Rightarrow> int \<Rightarrow> transport_envelope list \<Rightarrow> transport_envelope list" where
  "stamped sid n [] = []"
| "stamped sid n (e # es) =
     canon_envelope (e\<lparr>en_session_id := sid, en_sequence := n\<rparr>) # stamped sid (n + 1) es"

text \<open>The sender's end and the receiver's end of one session.\<close>

definition linked :: "tsession \<Rightarrow> tsession \<Rightarrow> bool" where
  "linked s r \<longleftrightarrow> ss_id s = ss_id r \<and> ss_send_key s = ss_recv_key r \<and> ss_salt s = ss_salt r \<and>
     list_all (\<lambda>b. b < 256) (ss_salt s) \<and> session_ok r \<and> ss_inbound r \<le> ss_outbound s"

definition plain_data :: "transport_envelope \<Rightarrow> bool" where
  "plain_data e \<longleftrightarrow> json_ok (JObj (en_payload e)) \<and> json_ok (JObj (en_auth e))"

lemma decrypt_encrypt_canon:
  assumes "encrypt_envelope_payload pr key salt e = Inr f"
    and "aead_correct pr" and "list_all (\<lambda>b. b < 256) salt" and "plain_data e"
  shows "decrypt_frame_payload pr fresh key salt f = Inr (canon_envelope e)"
  using decrypt_encrypt[OF assms(1-3), of fresh] assms(4)
  by (auto simp: plain_data_def canon_envelope_def canon_members_def)

lemma encrypted_session:
  assumes "encrypt_envelope_payload pr key salt e = Inr f"
  shows "ef_session_id f = en_session_id e"
  using assms by (auto simp: encrypt_envelope_payload_def split: option.splits sum.splits)

lemma encrypt_envelope_success:
  assumes "encrypt_envelope pr cal now e s = (Inr f, s')"
  shows "\<not> no_key (ss_send_key s)"
    and "encrypt_envelope_payload pr (the (ss_send_key s)) (ss_salt s)
           (e\<lparr>en_session_id := ss_id s, en_sequence := ss_outbound s + 1\<rparr>) = Inr f"
    and "s' = s\<lparr>ss_outbound := ss_outbound s + 1\<rparr>"
  using assms by (auto simp: encrypt_envelope_def next_outbound_sequence_def Let_def split: if_splits option.splits)

lemma deliver_one:
  assumes link: "linked s r" and aead: "aead_correct pr" and plain: "plain_data e"
    and sent: "encrypt_envelope pr cal now e s = (Inr f, s')"
    and alive: "\<not> session_expired cal now' r" and fresh_id: "en_message_id e \<notin> set (ss_id_set r)"
  shows "\<exists>r'. decrypt_frame pr cal now' fresh f r =
        (Inr (canon_envelope (e\<lparr>en_session_id := ss_id s, en_sequence := ss_outbound s + 1\<rparr>)), r') \<and>
      linked s' r' \<and> session_expired cal now' r' = session_expired cal now' r \<and>
      set (ss_id_set r') \<subseteq> insert (en_message_id e) (set (ss_id_set r))"
proof -
  let ?n = "ss_outbound s + 1"
  let ?e = "e\<lparr>en_session_id := ss_id s, en_sequence := ?n\<rparr>"
  note sent' = encrypt_envelope_success[OF sent]
  have "plain_data ?e" using plain by (simp add: plain_data_def)
  with sent'(2) link aead
  have dec: "decrypt_frame_payload pr fresh (the (ss_recv_key r)) (ss_salt r) f = Inr (canon_envelope ?e)"
    by (intro decrypt_encrypt_canon) (auto simp: linked_def)
  have ok: "session_ok r" and pos: "0 < ?n" and new: "\<not> spent_sequence r ?n"
    using link by (auto simp: linked_def session_ok_def spent_sequence_def)
  let ?r' = "(advance_window ?n (remember_id (en_message_id e) r))\<lparr>ss_heartbeat := Some (write_iso cal now')\<rparr>"
  have val: "validate_and_advance_inbound cal now' ?n (en_message_id e) r = (Inr (), ?r')"
    using alive pos fresh_id new
    by (simp add: validate_and_advance_inbound_def spent_sequence_def)
  have "decrypt_frame pr cal now' fresh f r = (Inr (canon_envelope ?e), ?r')"
    using dec val alive sent'(1) encrypted_session[OF sent'(2)] link
    by (simp add: decrypt_frame_def linked_def canon_envelope_def)
  moreover have "session_ok ?r'" using accepted_ok[OF ok fresh_id pos new] .
  moreover have "set (ss_id_set ?r') \<subseteq> insert (en_message_id e) (set (ss_id_set r))"
    using set_remove1_subset[of "hd (ss_ids r)" "ss_id_set r"]
    by (auto simp: remember_id_def Let_def)
  moreover have "linked s' ?r'"
    using link sent'(3) calculation(2)
    by (auto simp: linked_def)
  moreover have "session_expired cal now' ?r' = session_expired cal now' r"
    by (simp add: session_expired_def)
  ultimately show ?thesis by blast
qed

text \<open>
  C14: whatever a peer managed to send over a session, the other end receives when the frames
  arrive in order: every message, once, in the order sent, with consecutive sequence numbers.
\<close>

theorem in_order_delivery:
  assumes "linked s r" and "aead_correct pr" and "list_all plain_data es"
    and "send_all pr cal now es s = (map Inr fs, s')"
    and "\<not> session_expired cal now' r"
    and "distinct (map en_message_id es)" and "set (map en_message_id es) \<inter> set (ss_id_set r) = {}"
  shows "fst (receive_all pr cal now' fresh fs r) = map Inr (stamped (ss_id s) (ss_outbound s + 1) es)"
  using assms
proof (induction es arbitrary: s r fs)
  case Nil
  then show ?case by simp
next
  case (Cons e es)
  obtain x s1 where x: "encrypt_envelope pr cal now e s = (x, s1)" by (cases "encrypt_envelope pr cal now e s")
  obtain xs s2 where xs: "send_all pr cal now es s1 = (xs, s2)" by (cases "send_all pr cal now es s1")
  from Cons.prems(4) x xs obtain f fs' where fs: "fs = f # fs'" "x = Inr f" "xs = map Inr fs'" "s2 = s'"
    by (cases fs) auto
  from deliver_one[OF Cons.prems(1,2) _ x[unfolded fs(2)] Cons.prems(5), of fresh] Cons.prems(3,7)
  obtain r' where r': "decrypt_frame pr cal now' fresh f r =
        (Inr (canon_envelope (e\<lparr>en_session_id := ss_id s, en_sequence := ss_outbound s + 1\<rparr>)), r')"
      "linked s1 r'" "session_expired cal now' r' = session_expired cal now' r"
      "set (ss_id_set r') \<subseteq> insert (en_message_id e) (set (ss_id_set r))"
    by auto
  have disj: "set (map en_message_id es) \<inter> set (ss_id_set r') = {}"
  proof -
    have "en_message_id e \<notin> set (map en_message_id es)"
      and "set (map en_message_id es) \<inter> set (ss_id_set r) = {}"
      using Cons.prems(6,7) by auto
    with r'(4) show ?thesis by blast
  qed
  have s1: "s1 = s\<lparr>ss_outbound := ss_outbound s + 1\<rparr>"
    using encrypt_envelope_success(3)[OF x[unfolded fs(2)]] .
  have "fst (receive_all pr cal now' fresh fs' r') = map Inr (stamped (ss_id s1) (ss_outbound s1 + 1) es)"
    by (rule Cons.IH[OF r'(2) Cons.prems(2)])
      (use Cons.prems(3,5,6) xs fs r'(3) disj in simp_all)
  then show ?case using r'(1) fs(1) s1 by (simp add: split_def Let_def)
qed

text \<open>
  The liveness messages draw a sequence number, and \<^verbatim>\<open>encrypt_envelope\<close> draws another one: the
  frame does not carry the number the envelope was created with.
\<close>

lemma liveness_draws_twice:
  assumes "create_pong hc cal now msg l r ping s = (e, s1)"
    and "encrypt_envelope pr cal now e s1 = (Inr f, s2)"
  shows "en_sequence e = ss_outbound s + 1" and "ef_sequence f = ss_outbound s + 2"
  using assms(1) encrypt_envelope_frame[OF assms(2)]
  by (auto simp: create_pong_def liveness_envelope_def next_outbound_sequence_def)

text \<open>A closed session sends and receives nothing.\<close>

lemma closed_session_refuses:
  "encrypt_envelope pr cal now e (close_session cal' t why s) =
     raises (Transport TransportConnectionClosedError) (close_session cal' t why s)"
  "decrypt_frame pr cal now fresh f (close_session cal' t why s) =
     raises (Transport TransportConnectionClosedError) (close_session cal' t why s)"
  by (simp_all add: encrypt_envelope_def decrypt_frame_def close_session_def no_key_def)

text \<open>Without news a peer only loses standing.\<close>

lemma overdue_later:
  "now \<le> now' \<Longrightarrow> is_heartbeat_overdue hc rd now l k \<Longrightarrow> is_heartbeat_overdue hc rd now' l k"
  by (auto simp: is_heartbeat_overdue_def split: option.splits sum.splits if_splits)

lemma delay_bounded:
  assumes "\<not> rc_jitter rc" and "0 < attempt" and "\<And>x. round2 x \<le> x + 1 / 200"
  shows "get_delay rc round2 j attempt \<le> rc_max rc + 1 / 200"
  using assms(1,2) assms(3)[of "min (rc_max rc) (rc_initial rc * rc_factor rc ^ nat (max 0 (attempt - 1)))"]
  by (auto simp: get_delay_def Let_def)

section \<open>Examples\<close>

text \<open>Instances of the parameters: an AEAD without secrecy, and timestamps written as numbers.\<close>

definition sample_primitives :: primitives where
  "sample_primitives =
     \<lparr>x_public = id, x_parse = Some, x_exchange = (\<lambda>a b. Some (map2 (\<lambda>x y. (x + y) mod 256) a b)),
      hkdf = (\<lambda>s salt info. replicate 68 7),
      seal = (\<lambda>k n p ad. Some (map of_char p)), unseal = (\<lambda>k n c ad. Some (map char_of c))\<rparr>"

definition sample_calendar :: calendar where
  "sample_calendar =
     \<lparr>read_iso = (\<lambda>s. case int_of_text s of Inr n \<Rightarrow> Aware n | Inl _ \<Rightarrow> Malformed s), write_iso = int_str\<rparr>"

definition sample_session :: "string \<Rightarrow> string \<Rightarrow> tsession" where
  "sample_session a b = new_transport_session sample_calendar 0 ''S1'' a b ([7], [7], [0, 0, 0, 1]) MEMORY CONNECTED ''9''"

definition sample_envelope :: transport_envelope where
  "sample_envelope =
     \<lparr>en_version = ''1.0'', en_message_id = ''M1'', en_session_id = [], en_sender = ''GM-P-00000001'',
      en_recipient = ''GM-C-00000002'', en_type = Typed PING, en_sequence = 1, en_created = ''1'',
      en_expires = ''5'', en_payload = [(''x'', JInt 3)], en_auth = []\<rparr>"

lemmas sample_text_simps = int_of_text_def py_strip_def is_py_space_def is_digit_def digits_value_def
  remove_char_def int_str_def nat_digits.simps

lemma sample_aead: "aead_correct sample_primitives"
  by (auto simp: aead_correct_def sample_primitives_def list_all_iff map_idI)

lemma sample_linked: "linked (sample_session a b) (sample_session b a)"
  by (simp add: linked_def sample_session_def new_transport_session_def session_ok_def)

lemma sample_alive: "\<not> session_expired sample_calendar 3 (sample_session a b)"
  by (simp add: session_expired_def sample_session_def new_transport_session_def sample_calendar_def sample_text_simps)

lemma sample_valid:
  "envelope_validate (read_iso sample_calendar) 65536 []
     (sample_envelope\<lparr>en_session_id := ''S1'', en_sequence := 1\<rparr>) = None"
proof -
  have "check_timestamps (read_iso sample_calendar)
     (sample_envelope\<lparr>en_session_id := ''S1'', en_sequence := 1\<rparr>) = None"
    by (simp add: check_timestamps_def sample_envelope_def sample_calendar_def sample_text_simps)
  moreover obtain out where "to_canonical_json (sample_envelope\<lparr>en_session_id := ''S1'', en_sequence := 1\<rparr>) = Inr out"
      "length out \<le> 65536"
    by (simp add: to_canonical_json_def envelope_to_dict_def header_fields_def sample_envelope_def
        json_dumps_def json_str_def json_char_def Let_def sample_text_simps)
  ultimately show ?thesis
    by (simp add: envelope_validate_def Let_def protocol_version_def valid_id_def validate_identity_id_def
        identity_regex_def is_upper_hex_def validate_payload_safety_def forbidden_transport_fields_def
        py_lower_def lower_char_def sample_envelope_def)
qed

lemma sample_sent:
  "\<exists>f s'. encrypt_envelope sample_primitives sample_calendar 2 sample_envelope (sample_session a b) = (Inr f, s')"
proof -
  have "\<not> session_expired sample_calendar 2 (sample_session a b)"
    by (simp add: session_expired_def sample_session_def new_transport_session_def sample_calendar_def sample_text_simps)
  moreover have "\<exists>f. encrypt_envelope_payload sample_primitives [7] [0, 0, 0, 1]
      (sample_envelope\<lparr>en_session_id := ''S1'', en_sequence := 1\<rparr>) = Inr f"
    by (simp add: encrypt_envelope_payload_def construct_nonce_def pack_u64_def sample_primitives_def
        sample_envelope_def)
  ultimately show ?thesis using sample_valid
    by (auto simp: encrypt_envelope_def no_key_def next_outbound_sequence_def Let_def
        sample_session_def new_transport_session_def)
qed

lemma in_order_delivery_witness:
  "\<exists>fs s'. send_all sample_primitives sample_calendar 2 [sample_envelope] (sample_session ''A'' ''B'') =
      (map Inr fs, s') \<and> length fs = 1 \<and>
    fst (receive_all sample_primitives sample_calendar 3 ''M2'' fs (sample_session ''B'' ''A'')) =
      map Inr (stamped ''S1'' 1 [sample_envelope])"
proof -
  obtain f s' where f: "encrypt_envelope sample_primitives sample_calendar 2 sample_envelope
      (sample_session ''A'' ''B'') = (Inr f, s')" using sample_sent by blast
  then have send: "send_all sample_primitives sample_calendar 2 [sample_envelope] (sample_session ''A'' ''B'') =
      (map Inr [f], s')" by simp
  have plain: "list_all plain_data [sample_envelope]" by (simp add: plain_data_def sample_envelope_def)
  have ids: "distinct (map en_message_id [sample_envelope])"
      "set (map en_message_id [sample_envelope]) \<inter> set (ss_id_set (sample_session ''B'' ''A'')) = {}"
    by (simp_all add: sample_session_def new_transport_session_def)
  have "ss_id (sample_session ''A'' ''B'') = ''S1''" "ss_outbound (sample_session ''A'' ''B'') = 0"
    by (simp_all add: sample_session_def new_transport_session_def)
  with in_order_delivery[OF sample_linked sample_aead plain send sample_alive ids]
  have "fst (receive_all sample_primitives sample_calendar 3 ''M2'' [f] (sample_session ''B'' ''A'')) =
      map Inr (stamped ''S1'' 1 [sample_envelope])" by simp
  with send show ?thesis by (intro exI[of _ "[f]"] exI[of _ s']) simp
qed

lemma nonces_unique_witness:
  "distinct (map ef_nonce_hex (emitted sample_primitives sample_calendar
     (new_transport_session sample_calendar 0 ''S1'' ''A'' ''B'' ([7], [7], [0, 0, 0, 1]) MEMORY CONNECTED ''9'')
     [Send 2 sample_envelope, Draw, Send 3 sample_envelope]))"
  using nonces_unique[of "([7], [7], [0, 0, 0, 1])" sample_primitives sample_calendar sample_calendar 0
      "''S1''" "''A''" "''B''" MEMORY CONNECTED "''9''" "[Send 2 sample_envelope, Draw, Send 3 sample_envelope]"]
  by simp

end
