(* ===== verification/RouterProps.thy ===== *)
theory RouterProps
  imports Router TelemetryProps TransportSessionProps
begin

text \<open>
  What the router guarantees: messages of senders without trust change none of the tables the
  rest of the program reads and end the session; which messages reach a handler; and what the
  checks do not cover, the peer a session belongs to.
\<close>

section \<open>Rejections\<close>

lemma record_message_frame:
  assumes "record_message sha now fresh m tt = (r, tt')"
  shows "tt_sessions tt' = tt_sessions tt" and "tt_peers tt' = tt_peers tt"
  using assms by (auto simp: record_message_def Let_def split: if_splits)

lemma reject_result:
  obtains x st' where "reject env tk ty e why err st = (Inl x, st')" "rs_tel st' = rs_tel st"
    "rs_session st' = rs_session st" "tt_sessions (rs_reg st') = tt_sessions (rs_reg st)"
    "tt_peers (rs_reg st') = tt_peers (rs_reg st)"
proof -
  let ?m = "\<lparr>rm_session = ss_id (rs_session st), rm_sender = en_sender e, rm_recipient = rv_local env,
              rm_type = ty, rm_sequence = en_sequence e, rm_direction = ''INBOUND'',
              rm_status = ''REJECTED'', rm_reason = Some why, rm_payload = [], rm_message_id = None\<rparr>"
  obtain r tt where r: "record_message (rv_sha256 env) (clock_text env tk) (tk_fresh tk) ?m (rs_reg st) = (r, tt)"
    by (cases "record_message (rv_sha256 env) (clock_text env tk) (tk_fresh tk) ?m (rs_reg st)")
  show ?thesis
  proof (cases r)
    case (Inl x)
    with r show ?thesis by (intro that[of x st]) (simp_all add: reject_def record_rejection_def)
  next
    case (Inr u)
    with r record_message_frame[OF r] show ?thesis
      by (intro that[of err "router_audit env ''TRANSPORT_MESSAGE_REJECTED'' False (st\<lparr>rs_reg := tt\<rparr>)"])
        (simp_all add: reject_def record_rejection_def router_audit_def)
  qed
qed

lemma reject_fails: "\<not> succeeded (reject env tk ty e why err st)"
  by (rule reject_result[of env tk ty e why err st]) simp

lemma reject_frame:
  "rs_tel (snd (reject env tk ty e why err st)) = rs_tel st"
  "rs_session (snd (reject env tk ty e why err st)) = rs_session st"
  "tt_sessions (rs_reg (snd (reject env tk ty e why err st))) = tt_sessions (rs_reg st)"
  "tt_peers (rs_reg (snd (reject env tk ty e why err st))) = tt_peers (rs_reg st)"
  by (rule reject_result[of env tk ty e why err st]; simp)+

lemma record_rejection_in_range:
  assumes "- (2 ^ 63) \<le> en_sequence e" and "en_sequence e < 2 ^ 63"
  shows "fst (reject env tk ty e why err st) = Inl err"
  using assms
  by (simp add: reject_def record_rejection_def record_message_def Let_def py_upper_def upper_char_def)

lemma revoke_channel_frame [simp]:
  "rs_tel (revoke_channel env tk d x st) = rs_tel st"
  "rs_session (revoke_channel env tk d x st) =
     close_session (rv_calendar env) (tk_now tk) (Because ''Trust revoked: '' x) (rs_session st)"
  by (simp_all add: revoke_channel_def router_audit_def Let_def)

text \<open>Where a message that is addressed to this device and whose sender is trusted goes.\<close>

definition admitted :: "router_env \<Rightarrow> tick \<Rightarrow> transport_envelope \<Rightarrow> router_state \<Rightarrow> bool" where
  "admitted env tk e st \<longleftrightarrow> en_recipient e = rv_local env \<and>
     is_trusted (tb_trust (rs_tel st)) (rv_local env) (en_sender e) \<and>
     (\<exists>t. aware_instant (read_iso (rv_calendar env) (en_expires e)) = Inr t \<and> tk_now tk \<le> t)"

lemma route_admitted:
  assumes "type_value (en_type e) = Inr ty" and "admitted env tk e st"
  shows "route env tk e st = accept_message env tk ty e st"
  using assms by (auto simp: route_def admitted_def is_trusted_iff_verify)

lemma route_refused:
  assumes "\<not> (\<exists>ty. type_value (en_type e) = Inr ty) \<or> \<not> admitted env tk e st"
  shows "\<not> succeeded (route env tk e st) \<and> rs_tel (snd (route env tk e st)) = rs_tel st"
proof (cases "type_value (en_type e)")
  case (Inl x)
  then show ?thesis by (simp add: route_def)
next
  case (Inr ty)
  with assms have na: "\<not> admitted env tk e st" by simp
  show ?thesis
  proof (cases "en_recipient e = rv_local env")
    case False
    with Inr show ?thesis by (simp add: route_def reject_fails reject_frame)
  next
    case rec: True
    show ?thesis
    proof (cases "verify_device_trust_or_raise (tb_trust (rs_tel st)) (rv_local env) (en_sender e)")
      case (Inl x)
      with Inr rec show ?thesis by (simp add: route_def reject_fails reject_frame)
    next
      case ok: (Inr d)
      then have "is_trusted (tb_trust (rs_tel st)) (rv_local env) (en_sender e)"
        by (auto simp: is_trusted_iff_verify)
      with na rec Inr ok show ?thesis
        by (auto simp: route_def admitted_def reject_fails reject_frame split: sum.splits)
    qed
  qed
qed

section \<open>Senders without trust\<close>

definition plain_env :: "router_env \<Rightarrow> router_env" where
  "plain_env env = env\<lparr>rv_handlers := (\<lambda>_. None)\<rparr>"

lemma plain_env_simps [simp]:
  "rv_local (plain_env env) = rv_local env" "rv_calendar (plain_env env) = rv_calendar env"
  "rv_processor (plain_env env) = rv_processor env" "rv_sha256 (plain_env env) = rv_sha256 env"
  "rv_handlers (plain_env env) ty = None"
  by (simp_all add: plain_env_def)

lemma process_trust: "tb_trust (snd (process_envelope env now d draws me e db)) = tb_trust db"
  using deliver_trust[of env me db "\<lparr>dl_now = now, dl_draw = d, dl_draws = draws, dl_envelope = e\<rparr>"]
  by (simp add: deliver_def)

lemma handler_trust:
  "tb_trust (rs_tel (snd (handle_telemetry env tk e st))) = tb_trust (rs_tel st)"
  "tb_trust (rs_tel (snd (handle_alert env tk e st))) = tb_trust (rs_tel st)"
proof -
  show "tb_trust (rs_tel (snd (handle_telemetry env tk e st))) = tb_trust (rs_tel st)"
  proof (cases "rv_processor env")
    case None
    then show ?thesis by (simp add: handle_telemetry_def)
  next
    case (Some tv)
    show ?thesis
    proof (cases "telemetry_of_message (read_iso (rv_calendar env)) e")
      case (Inl x)
      with Some show ?thesis by (simp add: handle_telemetry_def)
    next
      case (Inr te)
      obtain r t where r: "process_envelope tv (tk_now tk) (tk_draw tk) (tk_draws tk) (rv_local env) te
          (rs_tel st) = (r, t)"
        by (cases "process_envelope tv (tk_now tk) (tk_draw tk) (tk_draws tk) (rv_local env) te (rs_tel st)")
      with process_trust[of tv "tk_now tk" "tk_draw tk" "tk_draws tk" "rv_local env" te "rs_tel st"]
      have "tb_trust t = tb_trust (rs_tel st)" by simp
      with Some Inr r show ?thesis by (cases r) (simp_all add: handle_telemetry_def sync_peer_def)
    qed
  qed
  show "tb_trust (rs_tel (snd (handle_alert env tk e st))) = tb_trust (rs_tel st)"
    by (simp add: handle_alert_def Let_def split: sum.split prod.split)
qed

lemma dispatch_trust:
  "rv_handlers env ty = None \<Longrightarrow> tb_trust (rs_tel (snd (dispatch env tk ty e st))) = tb_trust (rs_tel st)"
  by (simp add: dispatch_def handler_trust handle_heartbeat_def handle_ping_def handle_pong_def
      handle_device_status_def handle_goodbye_def handle_error_def handle_policy_sync_def
      touch_def note_heartbeat_def sync_peer_def router_audit_def Let_def split_def)

lemma route_trust:
  assumes "\<And>ty. rv_handlers env ty = None"
  shows "tb_trust (rs_tel (snd (route env tk e st))) = tb_trust (rs_tel st)"
proof (cases "(\<exists>ty. type_value (en_type e) = Inr ty) \<and> admitted env tk e st")
  case False
  then show ?thesis using route_refused[of e env tk st] by auto
next
  case True
  then obtain ty where ty: "type_value (en_type e) = Inr ty" by blast
  have "tb_trust (rs_tel (snd (accept_message env tk ty e st))) = tb_trust (rs_tel st)"
    by (auto simp: accept_message_def dispatch_trust[OF assms] router_audit_def note_heartbeat_def
        split: prod.split sum.split)
  then show ?thesis using route_admitted[OF ty] True by simp
qed

interpretation message_gate:
  trust_guarded verify_device_trust_or_raise is_trusted "\<lambda>st m. route (plain_env env) (fst m) (snd m) st"
    "\<lambda>m. en_sender (snd m)" "rv_local env" "\<lambda>st. tb_trust (rs_tel st)" rs_tel for env
proof unfold_locales
  fix st :: router_state and m :: "tick \<times> transport_envelope"
  show "tb_trust (rs_tel (snd (route (plain_env env) (fst m) (snd m) st))) = tb_trust (rs_tel st)"
    by (rule route_trust) simp
  assume "\<not> is_trusted (tb_trust (rs_tel st)) (rv_local env) (en_sender (snd m))"
  then have "\<not> admitted (plain_env env) (fst m) (snd m) st" by (simp add: admitted_def)
  with route_refused[of "snd m" "plain_env env" "fst m" st]
  show "\<not> succeeded (route (plain_env env) (fst m) (snd m) st)"
    and "rs_tel (snd (route (plain_env env) (fst m) (snd m) st)) = rs_tel st" by auto
qed

text \<open>
  C19: no batch of transport messages from senders without trust changes health data, alerts,
  policies, telemetry sequence numbers or the trust registry, whatever their types.
\<close>

theorem untrusted_messages_change_nothing:
  assumes "\<forall>m \<in> set ms. \<not> is_trusted (tb_trust (rs_tel st)) (rv_local env) (en_sender (snd m))"
  shows "rs_tel (foldl (\<lambda>st m. snd (route (plain_env env) (fst m) (snd m) st)) st ms) = rs_tel st"
  by (rule message_gate.untrusted_batch[OF assms])

text \<open>
  C20: a message of a sender whose trust is gone, addressed to this device, ends the session: it
  raises \<^verbatim>\<open>TransportRevokedError\<close>, the registry shows session and peer as REVOKED, and
  nothing can be sent or received on the session any more.
\<close>

theorem revocation_ends_session:
  assumes "type_value (en_type e) = Inr ty" and "en_recipient e = rv_local env"
    and "\<not> is_trusted (tb_trust (rs_tel st)) (rv_local env) (en_sender e)"
    and "- (2 ^ 63) \<le> en_sequence e" and "en_sequence e < 2 ^ 63"
    and "route env tk e st = (r, st')"
  shows "r = Inl (Transport TransportRevokedError) \<and>
    fst (encrypt_envelope pr cal now e' (rs_session st')) = Inl (Transport TransportConnectionClosedError) \<and>
    fst (decrypt_frame pr cal now fresh f (rs_session st')) = Inl (Transport TransportConnectionClosedError) \<and>
    pi_state (the (get_peer (rs_reg st') (en_sender e))) = REVOKED_CONN \<and>
    map_option si_state (get_transport_session (rs_reg st') (ss_id (rs_session st))) =
      map_option (\<lambda>_. REVOKED_CONN) (get_transport_session (rs_reg st) (ss_id (rs_session st)))"
proof -
  obtain x where x: "verify_device_trust_or_raise (tb_trust (rs_tel st)) (rv_local env) (en_sender e) = Inl x"
    using assms(3) is_trusted_iff_verify by (meson sum.exhaust)
  let ?c = "revoke_channel env tk (en_sender e) x st"
  have st': "(r, st') = reject env tk ty e (Because [] x) (Transport TransportRevokedError) ?c"
    using assms(1,2,6) x by (simp add: route_def)
  have r: "r = Inl (Transport TransportRevokedError)"
    using record_rejection_in_range[OF assms(4,5), of env tk ty "Because [] x" _ ?c] st' by (metis fst_conv)
  have sess: "rs_session st' =
      close_session (rv_calendar env) (tk_now tk) (Because ''Trust revoked: '' x) (rs_session st)"
    using reject_frame(2)[of env tk ty e "Because [] x" "Transport TransportRevokedError" ?c] st'
    by (metis revoke_channel_frame(2) snd_conv)
  have tables: "tt_peers (rs_reg st') = tt_peers (rs_reg ?c)" "tt_sessions (rs_reg st') = tt_sessions (rs_reg ?c)"
    using reject_frame(3,4)[of env tk ty e "Because [] x" "Transport TransportRevokedError" ?c] st'
    by (metis snd_conv)+
  let ?now = "clock_text env tk"
  let ?u = "update_session_state ?now (ss_id (rs_session st)) REVOKED_CONN (Some (Because [] x)) (rs_reg st)"
  have peer: "get_peer (rs_reg st') (en_sender e) =
      get_peer (update_peer_state ?now (en_sender e) REVOKED_CONN None None ?u) (en_sender e)"
    using tables(1) by (simp add: get_peer_def revoke_channel_def router_audit_def Let_def)
  have "tt_sessions (rs_reg st') = tt_sessions ?u"
    using tables(2) by (simp add: revoke_channel_def router_audit_def update_peer_state_def Let_def)
  then have "get_transport_session (rs_reg st') (ss_id (rs_session st)) = get_transport_session ?u (ss_id (rs_session st))"
    by (simp add: get_transport_session_def)
  moreover have "map_option si_state (get_transport_session ?u (ss_id (rs_session st))) =
      map_option (\<lambda>_. REVOKED_CONN) (get_transport_session (rs_reg st) (ss_id (rs_session st)))"
    unfolding get_transport_session_def update_session_state_def Let_def
    by (simp add: fetch_update_where option.map_comp comp_def session_info_of_row_def)
      (auto simp: session_info_of_row_def dest!: fetch_where_Some split: option.split
        intro!: map_option_cong)
  ultimately show ?thesis
    using r sess peer get_peer_after_state[of ?now "en_sender e" REVOKED_CONN None None ?u]
      closed_session_refuses by simp
qed

section \<open>Which messages reach a handler\<close>

definition message_of :: "router_env \<Rightarrow> string \<Rightarrow> transport_envelope \<Rightarrow> router_state \<Rightarrow> message_record" where
  "message_of env ty e st =
     \<lparr>rm_session = ss_id (rs_session st), rm_sender = en_sender e, rm_recipient = en_recipient e,
      rm_type = ty, rm_sequence = en_sequence e, rm_direction = ''INBOUND'',
      rm_status = ''ACCEPTED'', rm_reason = None, rm_payload = en_payload e,
      rm_message_id = Some (en_message_id e)\<rparr>"

definition logged_state :: "router_env \<Rightarrow> tick \<Rightarrow> string \<Rightarrow> transport_envelope \<Rightarrow> router_state \<Rightarrow> router_state" where
  "logged_state env tk ty e st =
     router_audit env ''TRANSPORT_MESSAGE_ACCEPTED'' True
       (note_heartbeat env tk (en_sender e)
         (st\<lparr>rs_reg := snd (record_message (rv_sha256 env) (clock_text env tk) (tk_fresh tk)
            (message_of env ty e st) (rs_reg st))\<rparr>))"

lemma accept_message_cases:
  "accept_message env tk ty e st =
     (if - (2 ^ 63) \<le> en_sequence e \<and> en_sequence e < 2 ^ 63 then
        dispatch env tk ty e (logged_state env tk ty e st)
      else raises (Builtin PyOverflowError) st)"
proof (cases "- (2 ^ 63) \<le> en_sequence e \<and> en_sequence e < 2 ^ 63")
  case False
  then show ?thesis by (auto simp: accept_message_def record_message_def Let_def)
next
  case True
  then obtain tt where "record_message (rv_sha256 env) (clock_text env tk) (tk_fresh tk)
      (message_of env ty e st) (rs_reg st) = (Inr (), tt)"
    by (simp add: record_message_def message_of_def Let_def py_upper_def upper_char_def)
  with True show ?thesis
    by (simp add: accept_message_def logged_state_def message_of_def)
qed

text \<open>
  C21: routing succeeds exactly when the message has a known type, is addressed to this device,
  comes from a trusted sender, has not expired, carries a sequence number the database can
  hold, and its handler succeeds on the state in which it has been logged as accepted.
\<close>

theorem routed_iff:
  "succeeded (route env tk e st) \<longleftrightarrow>
     (\<exists>ty. type_value (en_type e) = Inr ty \<and> admitted env tk e st \<and>
        - (2 ^ 63) \<le> en_sequence e \<and> en_sequence e < 2 ^ 63 \<and>
        succeeded (dispatch env tk ty e (logged_state env tk ty e st)))"
proof (cases "(\<exists>ty. type_value (en_type e) = Inr ty) \<and> admitted env tk e st")
  case False
  then show ?thesis using route_refused[of e env tk st] by auto
next
  case True
  then obtain ty where "type_value (en_type e) = Inr ty" by blast
  with True route_admitted[of e ty env tk st] accept_message_cases[of env tk ty e st] show ?thesis
    by auto
qed

section \<open>What the router does not check\<close>

definition with_remote :: "string \<Rightarrow> router_state \<Rightarrow> router_state" where
  "with_remote x st = st\<lparr>rs_session := (rs_session st)\<lparr>ss_remote := x\<rparr>\<rparr>"

lemma with_remote_simps [simp]:
  "rs_tel (with_remote x st) = rs_tel st" "rs_reg (with_remote x st) = rs_reg st"
  "rs_audit (with_remote x st) = rs_audit st" "ss_id (rs_session (with_remote x st)) = ss_id (rs_session st)"
  "ss_outbound (rs_session (with_remote x st)) = ss_outbound (rs_session st)"
  by (simp_all add: with_remote_def)

lemma logged_with_remote: "logged_state env tk ty e (with_remote x st) = with_remote x (logged_state env tk ty e st)"
  by (simp add: logged_state_def message_of_def router_audit_def note_heartbeat_def)
    (simp add: with_remote_def)

lemma dispatch_with_remote:
  assumes "rv_handlers env ty = None"
  shows "fst (dispatch env tk ty e (with_remote x st)) = fst (dispatch env tk ty e st)"
proof -
  have tel: "fst (handle_telemetry env tk e (with_remote x st)) = fst (handle_telemetry env tk e st)"
    by (simp add: handle_telemetry_def split: option.split sum.split prod.split)
  have alert: "fst (handle_alert env tk e (with_remote x st)) = fst (handle_alert env tk e st)"
    by (simp add: handle_alert_def Let_def split: sum.split prod.split)
  have ping: "fst (handle_ping env tk e (with_remote x st)) = fst (handle_ping env tk e st)"
    by (simp add: handle_ping_def touch_def touch_heartbeat_def create_pong_def liveness_envelope_def
        next_outbound_sequence_def Let_def with_remote_def)
  show ?thesis
    using assms by (simp add: dispatch_def tel alert ping handle_heartbeat_def handle_pong_def
        handle_device_status_def handle_goodbye_def handle_error_def handle_policy_sync_def Let_def)
qed

lemma reject_with_remote:
  "fst (reject env tk ty e why err (with_remote x st)) = fst (reject env tk ty e why err st)"
  by (simp add: reject_def record_rejection_def split: prod.split sum.split)

lemma revoke_with_remote:
  "revoke_channel env tk d y (with_remote x st) = with_remote x (revoke_channel env tk d y st)"
  by (simp add: revoke_channel_def router_audit_def close_session_def Let_def) (simp add: with_remote_def)

text \<open>
  The outcome of routing does not depend on which peer the session was established with:
  the sender an envelope names is checked against the trust registry only, so a trusted peer may
  send messages, and raise alerts, in the name of any other trusted device.
\<close>

theorem sender_not_bound_to_session:
  "fst (route (plain_env env) tk e (with_remote x st)) = fst (route (plain_env env) tk e st)"
proof (cases "type_value (en_type e)")
  case (Inl y)
  then show ?thesis by (simp add: route_def)
next
  case (Inr ty)
  have acc: "fst (accept_message (plain_env env) tk ty e (with_remote x st)) =
      fst (accept_message (plain_env env) tk ty e st)"
    by (simp add: accept_message_cases logged_with_remote dispatch_with_remote)
  show ?thesis using Inr
    by (simp add: route_def acc reject_with_remote revoke_with_remote split: sum.split)
qed

section \<open>Examples\<close>

definition sample_trust :: "string \<Rightarrow> trusted_device" where
  "sample_trust d =
     \<lparr>td_local = ''P'', td_remote = d, td_role = CHILD, td_fingerprint = [], td_pem = ''K'',
      td_label = None, td_status = TS_ACTIVE, td_created_at = Aware 0, td_last_verified_at = Aware 0,
      td_version = 1, td_session = None\<rparr>"

definition sample_router_state :: router_state where
  "sample_router_state =
     \<lparr>rs_tel = demo_tele_db\<lparr>tb_trust := empty_db\<lparr>db_trusted := [sample_trust ''A'', sample_trust ''B'']\<rparr>\<rparr>,
      rs_reg = \<lparr>tt_sessions = [], tt_peers = [], tt_messages = [], tt_sequences = []\<rparr>,
      rs_audit = [], rs_session = sample_session ''P'' ''B''\<rparr>"

definition sample_router_env :: router_env where
  "sample_router_env =
     \<lparr>rv_local = ''P'', rv_calendar = sample_calendar, rv_sha256 = id, rv_processor = Some demo_tele_env,
      rv_handlers = (\<lambda>_. None)\<rparr>"

definition sample_tick :: tick where
  "sample_tick = \<lparr>tk_now = 3, tk_draw = ([], ''1''), tk_draws = (\<lambda>_. ([], ''2'')), tk_fresh = ''M8'', tk_reply = ''M9''\<rparr>"

definition sample_alert :: "string \<Rightarrow> transport_envelope" where
  "sample_alert d =
     \<lparr>en_version = ''1.0'', en_message_id = ''M1'', en_session_id = ''S1'', en_sender = d,
      en_recipient = ''P'', en_type = Typed ALERT, en_sequence = 1, en_created = ''1'',
      en_expires = ''5'', en_payload = [], en_auth = []\<rparr>"

lemmas sample_route_simps =
  sample_router_state_def sample_router_env_def sample_tick_def sample_alert_def sample_trust_def
  sample_calendar_def sample_text_simps route_def verify_device_trust_or_raise_def
  get_trusted_device_def td_key_def fetch_where_def empty_db_def demo_tele_db_def

text \<open>The session is with B, the envelope names A, and the alert is filed under A.\<close>

lemma alert_in_another_name:
  "ss_remote (rs_session sample_router_state) = ''B'' \<and>
   (\<exists>a. fst (route sample_router_env sample_tick (sample_alert ''A'') sample_router_state) = Inr (AlertResult a) \<and>
      al_device a = ''A'')"
  by (simp add: sample_route_simps sample_session_def new_transport_session_def accept_message_def record_message_def
      clock_text_def py_upper_def upper_char_def Let_def upsert_row_def has_key_def dispatch_def
      handle_alert_def get_or_def enum_text_def rule_type_from_str_def enum_of_def required_text_def
      create_or_update_alert_def dedup_key_def find_open_def newest_where_def empty_policy_db_def
      router_audit_def note_heartbeat_def insert_row_def record_peer_heartbeat_def)

lemma untrusted_messages_change_nothing_witness:
  "rs_tel (foldl (\<lambda>st m. snd (route (plain_env sample_router_env) (fst m) (snd m) st)) sample_router_state
     [(sample_tick, sample_alert ''C''), (sample_tick, sample_alert ''D'')]) = rs_tel sample_router_state"
  by (rule untrusted_messages_change_nothing)
    (simp add: is_trusted_def get_trusted_device_def td_key_def fetch_where_def sample_alert_def
      sample_router_state_def sample_router_env_def sample_trust_def empty_db_def)

lemma revocation_ends_session_witness:
  "fst (encrypt_envelope sample_primitives sample_calendar 4 sample_envelope
     (rs_session (snd (route sample_router_env sample_tick (sample_alert ''C'') sample_router_state)))) =
   Inl (Transport TransportConnectionClosedError)"
proof -
  obtain r st' where r: "route sample_router_env sample_tick (sample_alert ''C'') sample_router_state = (r, st')"
    by (cases "route sample_router_env sample_tick (sample_alert ''C'') sample_router_state")
  have "\<not> is_trusted (tb_trust (rs_tel sample_router_state)) (rv_local sample_router_env)
      (en_sender (sample_alert ''C''))"
    by (simp add: is_trusted_def get_trusted_device_def td_key_def fetch_where_def sample_alert_def
      sample_router_state_def sample_router_env_def sample_trust_def empty_db_def)
  from revocation_ends_session[OF _ _ this _ _ r, of "''ALERT''"] r show ?thesis
    by (simp add: sample_alert_def sample_router_env_def)
qed

end
