(* ===== verification/TransportEndsProps.thy ===== *)
theory TransportEndsProps
  imports TransportEnds RouterProps
begin

text \<open>
  The two ends together: a handshake between devices that trust each other ends with matching
  sessions, what the client sends the server processes, and what the handshake and the end of a
  connection do not check.
\<close>

section \<open>The handshake\<close>

lemma register_session_succeeds:
  "\<exists>tt'. register_session ep now s role a tt = (Inr (), tt')"
  by (cases role) (simp_all add: register_session_def record_peer_def Let_def)

lemma to_hex_not_Nil: "bs \<noteq> [] \<Longrightarrow> to_hex bs \<noteq> []"
  by (cases bs) (simp_all add: to_hex_def)

text \<open>
  What the handshake asks of the libraries, for two ephemeral secrets: both ends compute the
  same shared secret, a public key is 32 bytes that parse as themselves, derived bytes are bytes.
\<close>

definition exchange_ok :: "primitives \<Rightarrow> nat list \<Rightarrow> nat list \<Rightarrow> bool" where
  "exchange_ok pr a b \<longleftrightarrow>
     (\<exists>sh. x_exchange pr a (x_public pr b) = Some sh \<and> x_exchange pr b (x_public pr a) = Some sh \<and>
        (\<forall>salt info. list_all (\<lambda>n. n < 256) (hkdf pr sh salt info) \<and> length (hkdf pr sh salt info) = 68)) \<and>
     (\<forall>k \<in> {a, b}. length (x_public pr k) = 32 \<and> list_all (\<lambda>n. n < 256) (x_public pr k) \<and>
        x_parse pr (x_public pr k) = Some (x_public pr k))"

definition signs_for :: "crypto \<Rightarrow> string \<Rightarrow> (string \<Rightarrow> nat list) \<Rightarrow> bool" where
  "signs_for cr pem sign \<longleftrightarrow>
     (\<forall>m. signature_ok cr pem (sign m) m \<and> sign m \<noteq> [] \<and> list_all (\<lambda>n. n < 256) (sign m))"

lemma parse_public:
  assumes "exchange_ok pr a b" and "k \<in> {a, b}"
  shows "parse_ephemeral pr (JStr (to_hex (x_public pr k))) = Some (x_public pr k)"
    and "to_hex (x_public pr k) \<noteq> []"
proof -
  have k: "length (x_public pr k) = 32" "list_all (\<lambda>n. n < 256) (x_public pr k)"
    "x_parse pr (x_public pr k) = Some (x_public pr k)"
    using assms by (auto simp: exchange_ok_def)
  then show "parse_ephemeral pr (JStr (to_hex (x_public pr k))) = Some (x_public pr k)"
    by (simp add: parse_ephemeral_def json_hex_def from_hex_to_hex ephemeral_public_from_bytes_def)
  have "x_public pr k \<noteq> []" using k(1) by auto
  then show "to_hex (x_public pr k) \<noteq> []" by (rule to_hex_not_Nil)
qed

lemma init_verifies:
  assumes "exchange_ok (ep_prims cep) a b" and "a = hd_secret cdr" and "hd_nonce cdr \<noteq> []"
    and "signs_for cr pem (ep_sign cep)"
  shows "verify_session_init (ep_prims cep) cr (client_init cep cdr now remote) pem =
     Inr (x_public (ep_prims cep) (hd_secret cdr), hd_nonce cdr)"
  using assms parse_public[OF assms(1), of a] to_hex_not_Nil
  by (simp add: verify_session_init_def client_init_def create_session_init_def expect_type_def Let_def
      get_or_def json_hex_def py_str_def signs_for_def from_hex_to_hex)

lemma ack_verifies:
  assumes "exchange_ok (ep_prims sep) a b" and "b = hd_secret sdr" and "hd_nonce sdr \<noteq> []"
    and "hd_session sdr \<noteq> []" and "signs_for cr pem (ep_sign sep)"
  shows "verify_session_ack (ep_prims sep) cr (answer_init sep sdr now init eph nonce) pem eph nonce =
     Inr (x_public (ep_prims sep) (hd_secret sdr), hd_session sdr, hd_nonce sdr)"
  using assms parse_public[OF assms(1), of b] to_hex_not_Nil
  by (simp add: verify_session_ack_def answer_init_def create_session_ack_def expect_type_def Let_def
      get_or_def json_hex_def py_str_def signs_for_def from_hex_to_hex)

lemma linked_new_sessions:
  assumes "list_all (\<lambda>n. n < 256) z"
  shows "linked (new_transport_session c t sid a b (k1, k2, z) m st x) (new_transport_session c' t' sid b a (k2, k1, z) m' st' x')"
  using assms new_transport_session_ok[of c' t' sid b a "(k2, k1, z)" m' st' x']
  by (simp add: linked_def) (simp add: new_transport_session_def)

lemma assoc_put_get [simp]: "map_of (assoc_put k v kvs) k = Some v"
  by (induction k v kvs rule: assoc_put.induct) auto

text \<open>
  C13: when two devices trust each other's keys, \<^verbatim>\<open>connect\<close> succeeds, and the client and the
  server end up with the two ends of one session: the same identifier and salt, each sending
  with the key the other receives with.
\<close>

theorem handshake_agrees:
  assumes trust: "verify_device_trust_or_raise (cl_trust cl) (ep_local cep) (ep_local sep) = Inr server"
      "verify_device_trust_or_raise (tb_trust (sv_tel sv)) (ep_local sep) (ep_local cep) = Inr client"
    and keys: "signs_for (ep_crypto sep) (td_pem client) (ep_sign cep)"
      "signs_for (ep_crypto cep) (td_pem server) (ep_sign sep)"
    and libs: "ep_prims cep = ep_prims sep" "exchange_ok (ep_prims sep) (hd_secret cdr) (hd_secret sdr)"
    and drawn: "hd_nonce cdr \<noteq> []" "hd_nonce sdr \<noteq> []" "hd_session sdr \<noteq> []"
    and attached: "cl_attached cl"
  shows "\<exists>cs ss cl' sv'. client_connect cep sep cdr sdr now (ep_local sep) (cl, sv) = (Inr cs, (cl', sv')) \<and>
    cl_session cl' = Some cs \<and> map_of (sv_sessions sv') (ss_id cs) = Some ss \<and>
    linked cs ss \<and> linked ss cs \<and> ss_remote cs = ep_local sep \<and> ss_remote ss = ep_local cep"
proof -
  let ?pr = "ep_prims sep" and ?init = "client_init cep cdr now (ep_local sep)"
  let ?ca = "x_public ?pr (hd_secret cdr)" and ?sa = "x_public ?pr (hd_secret sdr)"
  let ?ack = "answer_init sep sdr now ?init ?ca (hd_nonce cdr)"
  obtain sh where sh: "x_exchange ?pr (hd_secret cdr) ?sa = Some sh" "x_exchange ?pr (hd_secret sdr) ?ca = Some sh"
    "\<And>salt info. list_all (\<lambda>n. n < 256) (hkdf ?pr sh salt info)"
    using libs(2) by (auto simp: exchange_ok_def)
  let ?salt = "hd_nonce cdr @ '':'' @ hd_nonce sdr"
  obtain k1 k2 z where k: "derive_session_keys ?pr sh ?salt True hkdf_info_prefix = (k1, k2, z)"
    by (cases "derive_session_keys ?pr sh ?salt True hkdf_info_prefix")
  have z: "list_all (\<lambda>n. n < 256) z"
    using k sh(3)[of ?salt hkdf_info_prefix]
    by (auto simp: derive_session_keys_def Let_def list_all_iff dest!: in_set_takeD in_set_dropD)
  have ckeys: "session_keys cep (hd_secret cdr) ?sa (hd_nonce cdr) (hd_nonce sdr) True = Inr (k1, k2, z)"
    using sh(1) k libs(1) by (simp add: session_keys_def)
  have skeys: "session_keys sep (hd_secret sdr) ?ca (hd_nonce cdr) (hd_nonce sdr) False = Inr (k2, k1, z)"
    using sh(2) keys_cross[OF k] by (simp add: session_keys_def)
  have remote: "td_remote server = ep_local sep"
    using trust(1) get_trusted_device_key[of "cl_trust cl" "ep_local cep" "ep_local sep"]
    by (auto simp: verify_device_trust_or_raise_def split: option.splits if_splits)
  have sender: "en_sender ?init = ep_local cep" by (simp add: client_init_def create_session_init_def Let_def)
  have init: "verify_session_init ?pr (ep_crypto sep) ?init (td_pem client) = Inr (?ca, hd_nonce cdr)"
    using init_verifies[of cep "hd_secret cdr" "hd_secret sdr" cdr "ep_crypto sep" "td_pem client" now "ep_local sep"]
      libs drawn(1) keys(1) by simp
  let ?ss = "new_transport_session (ep_calendar sep) now (hd_session sdr) (ep_local sep) (ep_local cep) (k2, k1, z)
      MEMORY CONNECTED (en_expires ?ack)"
  let ?cs = "new_transport_session (ep_calendar cep) now (hd_session sdr) (ep_local cep) (ep_local sep) (k1, k2, z)
      MEMORY CONNECTED (en_expires ?ack)"
  obtain stt where "register_session sep now ?ss (td_role client) None (sv_reg sv) = (Inr (), stt)"
    using register_session_succeeds by blast
  then obtain sv' where sv': "handle_handshake_init sep sdr now ?init sv = (Inr ?ack, sv')"
    "sv_sessions sv' = assoc_put (hd_session sdr) ?ss (sv_sessions sv)"
    using trust(2) init skeys sender
    by (auto simp: handle_handshake_init_def Let_def server_audit_def)
  have ack: "verify_session_ack ?pr (ep_crypto cep) ?ack (td_pem server) ?ca (hd_nonce cdr) =
      Inr (?sa, hd_session sdr, hd_nonce sdr)"
    using ack_verifies[OF libs(2) refl drawn(2,3) keys(2)] .
  obtain ctt where "register_session cep now ?cs (td_role server) None (cl_reg cl) = (Inr (), ctt)"
    using register_session_succeeds by blast
  then obtain cl' where cl': "finish_connect cep cdr now server MEMORY None ?ack cl = (Inr ?cs, cl')"
    "cl_session cl' = Some ?cs"
    using ack ckeys remote libs(1) by (auto simp: finish_connect_def Let_def client_audit_def)
  have "client_connect cep sep cdr sdr now (ep_local sep) (cl, sv) = (Inr ?cs, (cl', sv'))"
    using trust(1) attached sv'(1) cl'(1) by (simp add: client_connect_def)
  moreover have "linked ?cs ?ss" "linked ?ss ?cs" using z by (simp_all add: linked_new_sessions)
  moreover have "ss_id ?cs = hd_session sdr" "ss_remote ?cs = ep_local sep" "ss_remote ?ss = ep_local cep"
    by (simp_all add: new_transport_session_def)
  ultimately show ?thesis using cl'(2) sv'(2) by fastforce
qed

text \<open>
  A SESSION_INIT that a server once accepted is accepted again by any server that trusts its
  sender, at any time: neither the recipient it names nor its expiry is checked, and its nonce is
  not remembered.
\<close>

theorem session_init_replayable:
  assumes "succeeded (handle_handshake_init ep dr now init sv)"
    and "verify_device_trust_or_raise (tb_trust (sv_tel sv)) (ep_local ep) (en_sender init) = Inr td"
    and "verify_device_trust_or_raise (tb_trust (sv_tel sv')) (ep_local ep') (en_sender init) = Inr td'"
    and "td_pem td' = td_pem td" and "ep_prims ep' = ep_prims ep" and "ep_crypto ep' = ep_crypto ep"
    and "\<And>k. x_exchange (ep_prims ep) (hd_secret dr') k \<noteq> None"
  shows "succeeded (handle_handshake_init ep' dr' later init sv')"
proof -
  obtain eph nonce where v: "verify_session_init (ep_prims ep) (ep_crypto ep) init (td_pem td) = Inr (eph, nonce)"
    using assms(1,2) by (auto simp: handle_handshake_init_def split: sum.splits)
  obtain sh where "x_exchange (ep_prims ep') (hd_secret dr') eph = Some sh"
    using assms(5) assms(7)[of eph] by auto
  then obtain ks where ks: "session_keys ep' (hd_secret dr') eph nonce (hd_nonce dr') False = Inr ks"
    by (simp only: session_keys_def option.case)
  let ?s = "new_transport_session (ep_calendar ep') later (hd_session dr') (ep_local ep') (en_sender init) ks MEMORY
      CONNECTED (en_expires (answer_init ep' dr' later init eph nonce))"
  obtain tt where "register_session ep' later ?s (td_role td') None (sv_reg sv') = (Inr (), tt)"
    using register_session_succeeds by blast
  with v ks assms(3-6) show ?thesis by (simp add: handle_handshake_init_def Let_def)
qed

section \<open>The end of a connection\<close>

text \<open>
  However a connection ended, the registry shows its peer as DISCONNECTED: also when the router
  had just recorded it as REVOKED.
\<close>

lemma finish_client_disconnects:
  "pi_state (the (get_peer (rs_reg (finish_client ep now failure st)) (ss_remote (rs_session st)))) = DISCONNECTED"
proof -
  have "ss_remote (rs_session (case failure of None \<Rightarrow> st
      | Some x \<Rightarrow> st\<lparr>rs_session := close_session (ep_calendar ep) now (Because [] x) (rs_session st)\<rparr>)) =
      ss_remote (rs_session st)"
    by (cases failure) (simp_all add: close_session_def)
  then show ?thesis by (simp add: finish_client_def Let_def get_peer_after_state)
qed

text \<open>The inbox: one call a frame empties it unless a frame raises.\<close>

lemma process_next_inbox:
  "sv_inbox (snd (process_next_frame ep tk fresh sv)) = tl (sv_inbox sv)"
  by (auto simp: process_next_frame_def absorb_def Let_def split: list.split option.split prod.split sum.split)

lemma process_pending_inbox:
  "process_pending ep tks fresh n sv = (Inr rs, sv') \<Longrightarrow> sv_inbox sv' = drop n (sv_inbox sv)"
proof (induction n arbitrary: sv rs)
  case 0
  then show ?case by simp
next
  case (Suc n)
  obtain r sv1 where r: "process_next_frame ep (tks n) fresh sv = (r, sv1)"
    by (cases "process_next_frame ep (tks n) fresh sv")
  with Suc.prems obtain y rs' where "r = Inr y" "process_pending ep tks fresh n sv1 = (Inr rs', sv')"
    by (auto split: sum.splits prod.splits)
  moreover have "sv_inbox sv1 = tl (sv_inbox sv)" using process_next_inbox[of ep "tks n" fresh sv] r by simp
  ultimately show ?case using Suc.IH[of sv1 rs'] by (simp add: drop_Suc)
qed

section \<open>Examples\<close>

definition sample_endpoint :: "string \<Rightarrow> endpoint" where
  "sample_endpoint me =
     \<lparr>ep_sign = (\<lambda>m. [1]), ep_crypto = tv_crypto demo_tele_env, ep_prims = sample_primitives,
      ep_router = sample_router_env\<lparr>rv_local := me\<rparr>\<rparr>"

definition sample_draw :: "nat \<Rightarrow> handshake_draw" where
  "sample_draw n = \<lparr>hd_session = ''S7'', hd_secret = replicate 32 n, hd_nonce = ''N'', hd_message = ''M''\<rparr>"

definition sample_client :: client_state where
  "sample_client =
     \<lparr>cl_trust = empty_db\<lparr>db_trusted := [(sample_trust ''P'')\<lparr>td_local := ''A''\<rparr>]\<rparr>,
      cl_reg = \<lparr>tt_sessions = [], tt_peers = [], tt_messages = [], tt_sequences = []\<rparr>, cl_audit = [],
      cl_session = None, cl_inbox = [], cl_attached = True, cl_attempts = (\<lambda>_. None)\<rparr>"

definition sample_server :: server_state where
  "sample_server =
     \<lparr>sv_tel = rs_tel sample_router_state, sv_reg = rs_reg sample_router_state, sv_audit = [],
      sv_sessions = [], sv_inbox = [], sv_running = True\<rparr>"

lemma sample_exchange: "exchange_ok sample_primitives (replicate 32 3) (replicate 32 5)"
  by (simp add: exchange_ok_def sample_primitives_def list_all_iff zip_replicate)

lemma sample_signs: "signs_for (ep_crypto (sample_endpoint a)) ''K'' (ep_sign (sample_endpoint b))"
  by (simp add: signs_for_def signature_ok_def sample_endpoint_def demo_tele_env_def)

lemma sample_trusted:
  "verify_device_trust_or_raise (cl_trust sample_client) ''A'' ''P'' = Inr ((sample_trust ''P'')\<lparr>td_local := ''A''\<rparr>)"
  "verify_device_trust_or_raise (tb_trust (sv_tel sample_server)) ''P'' ''A'' = Inr (sample_trust ''A'')"
  by (simp_all add: verify_device_trust_or_raise_def get_trusted_device_def td_key_def fetch_where_def
      sample_client_def sample_server_def sample_router_state_def sample_trust_def empty_db_def)

lemma handshake_agrees_witness:
  "\<exists>cs ss cl sv. client_connect (sample_endpoint ''A'') (sample_endpoint ''P'') (sample_draw 3) (sample_draw 5) 2 ''P''
     (sample_client, sample_server) = (Inr cs, (cl, sv)) \<and> map_of (sv_sessions sv) (ss_id cs) = Some ss \<and> linked cs ss"
proof -
  have locals: "ep_local (sample_endpoint x) = x" "ep_prims (sample_endpoint x) = sample_primitives" for x
    by (simp_all add: sample_endpoint_def)
  have draws: "hd_nonce (sample_draw n) \<noteq> []" "hd_session (sample_draw n) \<noteq> []"
      "hd_secret (sample_draw n) = replicate 32 n" for n
    by (simp_all add: sample_draw_def)
  have pem: "td_pem (sample_trust d) = ''K''" "td_pem ((sample_trust d)\<lparr>td_local := l\<rparr>) = ''K''" for d l
    by (simp_all add: sample_trust_def)
  have att: "cl_attached sample_client" by (simp add: sample_client_def)
  have trust: "verify_device_trust_or_raise (cl_trust sample_client) (ep_local (sample_endpoint ''A''))
        (ep_local (sample_endpoint ''P'')) = Inr ((sample_trust ''P'')\<lparr>td_local := ''A''\<rparr>)"
      "verify_device_trust_or_raise (tb_trust (sv_tel sample_server)) (ep_local (sample_endpoint ''P''))
        (ep_local (sample_endpoint ''A'')) = Inr (sample_trust ''A'')"
    unfolding locals by (rule sample_trusted)+
  have signs: "signs_for (ep_crypto (sample_endpoint ''P'')) (td_pem (sample_trust ''A'')) (ep_sign (sample_endpoint ''A''))"
      "signs_for (ep_crypto (sample_endpoint ''A'')) (td_pem ((sample_trust ''P'')\<lparr>td_local := ''A''\<rparr>))
        (ep_sign (sample_endpoint ''P''))"
    unfolding pem by (rule sample_signs)+
  have prims: "ep_prims (sample_endpoint ''A'') = ep_prims (sample_endpoint ''P'')"
      "exchange_ok (ep_prims (sample_endpoint ''P'')) (hd_secret (sample_draw 3)) (hd_secret (sample_draw 5))"
    unfolding locals draws by (rule refl sample_exchange)+
  from handshake_agrees[OF trust signs prims draws(1) draws(1) draws(2) att, of 2]
  show ?thesis unfolding locals by blast
qed

lemma session_init_replayable_witness:
  "succeeded (handle_handshake_init (sample_endpoint ''P'') (sample_draw 5) 9000000000
     (client_init (sample_endpoint ''A'') (sample_draw 3) 2 ''X'') sample_server)"
proof -
  let ?init = "client_init (sample_endpoint ''A'') (sample_draw 3) 2 ''X''"
  have sender: "en_sender ?init = ''A''"
    by (simp add: client_init_def create_session_init_def sample_endpoint_def Let_def)
  have loc: "ep_local (sample_endpoint ''P'') = ''P''" "ep_prims (sample_endpoint x) = sample_primitives" for x
    by (simp_all add: sample_endpoint_def)
  have pem: "td_pem (sample_trust ''A'') = ''K''" by (simp add: sample_trust_def)
  have total: "x_exchange sample_primitives s k \<noteq> None" for s k by (simp add: sample_primitives_def)
  have ex: "exchange_ok (ep_prims (sample_endpoint ''A'')) (hd_secret (sample_draw 3)) (replicate 32 5)"
    unfolding loc(2) sample_draw_def handshake_draw.select_convs by (rule sample_exchange)
  have non: "hd_nonce (sample_draw 3) \<noteq> []" by (simp add: sample_draw_def)
  have v: "verify_session_init sample_primitives (ep_crypto (sample_endpoint ''P'')) ?init ''K'' =
      Inr (x_public sample_primitives (hd_secret (sample_draw 3)), hd_nonce (sample_draw 3))"
    using init_verifies[OF ex refl non sample_signs] unfolding loc(2) .
  obtain sh where sh: "x_exchange sample_primitives (hd_secret (sample_draw 5))
      (x_public sample_primitives (hd_secret (sample_draw 3))) = Some sh"
    using total by blast
  obtain ks where ks: "session_keys (sample_endpoint ''P'') (hd_secret (sample_draw 5))
      (x_public sample_primitives (hd_secret (sample_draw 3))) (hd_nonce (sample_draw 3)) (hd_nonce (sample_draw 5)) False = Inr ks"
    unfolding session_keys_def loc(2) sh option.case by blast
  let ?s = "new_transport_session (ep_calendar (sample_endpoint ''P'')) 2 (hd_session (sample_draw 5)) ''P'' ''A'' ks MEMORY
      CONNECTED (en_expires (answer_init (sample_endpoint ''P'') (sample_draw 5) 2 ?init
        (x_public sample_primitives (hd_secret (sample_draw 3))) (hd_nonce (sample_draw 3))))"
  obtain tt where "register_session (sample_endpoint ''P'') 2 ?s (td_role (sample_trust ''A'')) None (sv_reg sample_server) = (Inr (), tt)"
    using register_session_succeeds by blast
  then have first: "succeeded (handle_handshake_init (sample_endpoint ''P'') (sample_draw 5) 2 ?init sample_server)"
    using v ks loc sender pem sample_trusted(2) by (simp add: handle_handshake_init_def Let_def)
  show ?thesis
    by (rule session_init_replayable[OF first])
      (use sample_trusted(2) sender loc total in simp_all)
qed

end
