(* ===== verification/ScreenModels.thy ===== *)
theory ScreenModels
  imports TransportModels Authorization Interfaces
begin

text \<open>
  \<^verbatim>\<open>guardianmesh/screen/models.py\<close>: the states of a screen session and their
  transition graph, the authorization record, the session record, the frame with its JSON
  form and validation, and the bounded frame queue.

  Timestamps of sessions and authorizations are \<open>stamp\<close>s; a frame carries its capture time
  as a text, and \<open>read_iso\<close> stands for \<^verbatim>\<open>datetime.fromisoformat\<close>, as for the
  transport envelopes.
\<close>

section \<open>Enumerations\<close>

datatype screen_state =
    SS_REQUESTED | SS_PENDING_CHILD_APPROVAL | SS_APPROVED | SS_ACTIVE
  | SS_STOPPED | SS_DENIED | SS_EXPIRED | SS_REVOKED

fun screen_state_value :: "screen_state \<Rightarrow> string" where
  "screen_state_value SS_REQUESTED = ''REQUESTED''"
| "screen_state_value SS_PENDING_CHILD_APPROVAL = ''PENDING_CHILD_APPROVAL''"
| "screen_state_value SS_APPROVED = ''APPROVED''"
| "screen_state_value SS_ACTIVE = ''ACTIVE''"
| "screen_state_value SS_STOPPED = ''STOPPED''"
| "screen_state_value SS_DENIED = ''DENIED''"
| "screen_state_value SS_EXPIRED = ''EXPIRED''"
| "screen_state_value SS_REVOKED = ''REVOKED''"

definition screen_state_from_str :: "string \<Rightarrow> gm_error + screen_state" where
  "screen_state_from_str s =
     (case enum_of screen_state_value
        [SS_REQUESTED, SS_PENDING_CHILD_APPROVAL, SS_APPROVED, SS_ACTIVE, SS_STOPPED, SS_DENIED,
         SS_EXPIRED, SS_REVOKED] s of
        Some x \<Rightarrow> Inr x | None \<Rightarrow> Inl (Screen ScreenSessionStateError))"

text \<open>\<^verbatim>\<open>_LEGAL_TRANSITIONS\<close>.\<close>

fun LEGAL_TRANSITIONS :: "screen_state \<Rightarrow> screen_state list" where
  "LEGAL_TRANSITIONS SS_REQUESTED = [SS_PENDING_CHILD_APPROVAL, SS_DENIED, SS_EXPIRED]"
| "LEGAL_TRANSITIONS SS_PENDING_CHILD_APPROVAL = [SS_APPROVED, SS_DENIED, SS_EXPIRED]"
| "LEGAL_TRANSITIONS SS_APPROVED = [SS_ACTIVE, SS_EXPIRED, SS_REVOKED]"
| "LEGAL_TRANSITIONS SS_ACTIVE = [SS_STOPPED, SS_EXPIRED, SS_REVOKED]"
| "LEGAL_TRANSITIONS _ = []"

definition assert_legal_transition :: "screen_state \<Rightarrow> screen_state \<Rightarrow> gm_error option" where
  "assert_legal_transition s t =
     (if t \<notin> set (LEGAL_TRANSITIONS s) then Some (Screen ScreenSessionStateError) else None)"

datatype auth_decision = AD_PENDING | AD_APPROVED | AD_DENIED | AD_EXPIRED | AD_REVOKED

fun decision_value :: "auth_decision \<Rightarrow> string" where
  "decision_value AD_PENDING = ''PENDING''"
| "decision_value AD_APPROVED = ''APPROVED''"
| "decision_value AD_DENIED = ''DENIED''"
| "decision_value AD_EXPIRED = ''EXPIRED''"
| "decision_value AD_REVOKED = ''REVOKED''"

definition decision_from_str :: "string \<Rightarrow> gm_error + auth_decision" where
  "decision_from_str s =
     (case enum_of decision_value [AD_PENDING, AD_APPROVED, AD_DENIED, AD_EXPIRED, AD_REVOKED] s of
        Some x \<Rightarrow> Inr x | None \<Rightarrow> Inl (Screen ScreenAuthorizationError))"

datatype screen_codec = CODEC_TEST | CODEC_H264 | CODEC_VP8 | CODEC_VP9 | CODEC_WEBP

fun codec_value :: "screen_codec \<Rightarrow> string" where
  "codec_value CODEC_TEST = ''TEST''"
| "codec_value CODEC_H264 = ''H264''"
| "codec_value CODEC_VP8 = ''VP8''"
| "codec_value CODEC_VP9 = ''VP9''"
| "codec_value CODEC_WEBP = ''WEBP''"

definition all_codecs :: "screen_codec list" where
  "all_codecs = [CODEC_TEST, CODEC_H264, CODEC_VP8, CODEC_VP9, CODEC_WEBP]"

definition codec_from_str :: "string \<Rightarrow> gm_error + screen_codec" where
  "codec_from_str s =
     (case enum_of codec_value all_codecs s of
        Some x \<Rightarrow> Inr x | None \<Rightarrow> Inl (Screen ScreenCodecError))"

definition codec_is_production :: "screen_codec \<Rightarrow> bool" where
  "codec_is_production c \<longleftrightarrow> c \<noteq> CODEC_TEST"

datatype pixel_format = PF_RGB24 | PF_RGBA32 | PF_YUV420 | PF_BGR24 | PF_TEST

fun pixel_value :: "pixel_format \<Rightarrow> string" where
  "pixel_value PF_RGB24 = ''RGB24''"
| "pixel_value PF_RGBA32 = ''RGBA32''"
| "pixel_value PF_YUV420 = ''YUV420''"
| "pixel_value PF_BGR24 = ''BGR24''"
| "pixel_value PF_TEST = ''TEST''"

definition pixel_from_str :: "string \<Rightarrow> gm_error + pixel_format" where
  "pixel_from_str s =
     (case enum_of pixel_value [PF_RGB24, PF_RGBA32, PF_YUV420, PF_BGR24, PF_TEST] s of
        Some x \<Rightarrow> Inr x | None \<Rightarrow> Inl (Screen ScreenFrameValidationError))"

datatype stop_reason =
    SR_CHILD_STOPPED | SR_PARENT_STOPPED | SR_EXPIRED | SR_TRANSPORT_LOST | SR_TRUST_REVOKED
  | SR_INACTIVITY | SR_ENCODER_ERROR | SR_BACKPRESSURE

fun stop_reason_value :: "stop_reason \<Rightarrow> string" where
  "stop_reason_value SR_CHILD_STOPPED = ''CHILD_STOPPED''"
| "stop_reason_value SR_PARENT_STOPPED = ''PARENT_STOPPED''"
| "stop_reason_value SR_EXPIRED = ''EXPIRED''"
| "stop_reason_value SR_TRANSPORT_LOST = ''TRANSPORT_LOST''"
| "stop_reason_value SR_TRUST_REVOKED = ''TRUST_REVOKED''"
| "stop_reason_value SR_INACTIVITY = ''INACTIVITY''"
| "stop_reason_value SR_ENCODER_ERROR = ''ENCODER_ERROR''"
| "stop_reason_value SR_BACKPRESSURE = ''BACKPRESSURE''"

definition stop_reason_from_str :: "string \<Rightarrow> gm_error + stop_reason" where
  "stop_reason_from_str s =
     (case enum_of stop_reason_value
        [SR_CHILD_STOPPED, SR_PARENT_STOPPED, SR_EXPIRED, SR_TRANSPORT_LOST, SR_TRUST_REVOKED,
         SR_INACTIVITY, SR_ENCODER_ERROR, SR_BACKPRESSURE] s of
        Some x \<Rightarrow> Inr x | None \<Rightarrow> Inl (Screen ScreenSessionError))"

text \<open>
  A reason travels as the enumeration member or, from callers that pass one, as a plain text,
  which has no \<^verbatim>\<open>value\<close>.  Members compare equal to their text.
\<close>

datatype stop_note = Reason stop_reason | RawReason string

fun note_text :: "stop_note \<Rightarrow> string" where
  "note_text (Reason r) = stop_reason_value r"
| "note_text (RawReason s) = s"

datatype backpressure = BP_DROP_OLDEST | BP_DROP_NEWEST | BP_BLOCK

fun backpressure_value :: "backpressure \<Rightarrow> string" where
  "backpressure_value BP_DROP_OLDEST = ''DROP_OLDEST''"
| "backpressure_value BP_DROP_NEWEST = ''DROP_NEWEST''"
| "backpressure_value BP_BLOCK = ''BLOCK''"

definition backpressure_from_str :: "string \<Rightarrow> gm_error + backpressure" where
  "backpressure_from_str s =
     (case enum_of backpressure_value [BP_DROP_OLDEST, BP_DROP_NEWEST, BP_BLOCK] s of
        Some x \<Rightarrow> Inr x | None \<Rightarrow> Inl (Screen ScreenFrameError))"

section \<open>Authorizations\<close>

record screen_auth =
  sa_id :: string
  sa_session :: string
  sa_device :: string
  sa_parent :: string
  sa_decision :: auth_decision
  sa_requested :: stamp
  sa_approved :: "stamp option"
  sa_denied :: "stamp option"
  sa_expires :: stamp
  sa_max_duration :: int
  sa_label :: "string option"
  sa_metadata :: "(string \<times> json) list"

text \<open>
  An empty expiry never expires, one that does not parse always has; comparing with a naive
  one raises.
\<close>

definition expired_at :: "int \<Rightarrow> stamp \<Rightarrow> gm_error + bool" where
  "expired_at now e =
     (case e of
        Blank \<Rightarrow> Inr False
      | Malformed x \<Rightarrow> Inr True
      | Naive t \<Rightarrow> Inl (Builtin PyTypeError)
      | Aware t \<Rightarrow> Inr (t < now))"

definition auth_is_expired :: "int \<Rightarrow> screen_auth \<Rightarrow> gm_error + bool" where
  "auth_is_expired now a = expired_at now (sa_expires a)"

definition auth_validate :: "screen_auth \<Rightarrow> gm_error option" where
  "auth_validate a =
     (let bad = Some (Screen ScreenAuthorizationError) in
      if \<not> valid_id (sa_device a) then bad
      else if \<not> valid_id (sa_parent a) then bad
      else if sa_session a = [] then bad
      else if sa_id a = [] then bad
      else if sa_max_duration a \<le> 0 then bad
      else if 86400 < sa_max_duration a then bad
      else None)"

section \<open>Session records\<close>

record screen_info =
  sv_id :: string
  sv_device :: string
  sv_parent :: string
  sv_auth :: "string option"
  sv_state :: screen_state
  sv_transport :: "string option"
  sv_requested :: stamp
  sv_approved :: "stamp option"
  sv_started :: "stamp option"
  sv_stopped :: "stamp option"
  sv_expires :: stamp
  sv_last_frame :: "stamp option"
  sv_frame_count :: int
  sv_bytes_sent :: int
  sv_bytes_received :: int
  sv_width :: int
  sv_height :: int
  sv_codec :: screen_codec
  sv_max_fps :: int
  sv_stop_reason :: "stop_note option"
  sv_label :: "string option"
  sv_metadata :: "(string \<times> json) list"

definition screen_terminal :: "screen_state \<Rightarrow> bool" where
  "screen_terminal s \<longleftrightarrow> s \<in> {SS_STOPPED, SS_DENIED, SS_EXPIRED, SS_REVOKED}"

definition info_is_expired :: "int \<Rightarrow> screen_info \<Rightarrow> gm_error + bool" where
  "info_is_expired now i = expired_at now (sv_expires i)"

text \<open>\<^verbatim>\<open>max(0, int(delta.total_seconds()))\<close>.\<close>

definition remaining_seconds :: "int \<Rightarrow> screen_info \<Rightarrow> gm_error + int" where
  "remaining_seconds now i =
     (case sv_expires i of
        Blank \<Rightarrow> Inr 0
      | Malformed x \<Rightarrow> Inr 0
      | Naive t \<Rightarrow> Inl (Builtin PyTypeError)
      | Aware t \<Rightarrow> Inr (max 0 ((t - now) div second)))"

section \<open>Frames\<close>

record screen_frame =
  sf_version :: string
  sf_session :: string
  sf_device :: string
  sf_id :: string
  sf_sequence :: int
  sf_captured :: string
  sf_width :: int
  sf_height :: int
  sf_pixel :: pixel_format
  sf_codec :: screen_codec
  sf_payload_size :: int
  sf_payload :: "nat list"

definition screen_frame_to_dict :: "screen_frame \<Rightarrow> json" where
  "screen_frame_to_dict f =
     JObj [(''protocol_version'', JStr (sf_version f)), (''session_id'', JStr (sf_session f)),
           (''device_id'', JStr (sf_device f)), (''frame_id'', JStr (sf_id f)),
           (''sequence'', JInt (sf_sequence f)), (''captured_at'', JStr (sf_captured f)),
           (''width'', JInt (sf_width f)), (''height'', JInt (sf_height f)),
           (''pixel_format'', JStr (pixel_value (sf_pixel f))),
           (''codec'', JStr (codec_value (sf_codec f))),
           (''payload_size'', JInt (sf_payload_size f)),
           (''payload_hex'', JStr (to_hex (sf_payload f)))]"

definition and_then :: "gm_error + 'a \<Rightarrow> ('a \<Rightarrow> gm_error + 'b) \<Rightarrow> gm_error + 'b" where
  [model_defs]: "and_then r k = (case r of Inl e \<Rightarrow> Inl e | Inr x \<Rightarrow> k x)"

text \<open>\<^verbatim>\<open>Enum.from_str(v)\<close> calls \<^verbatim>\<open>v.strip()\<close>, which only a text has.\<close>

definition parse_enum :: "(string \<Rightarrow> gm_error + 'e) \<Rightarrow> json \<Rightarrow> gm_error + 'e" where
  [model_defs]: "parse_enum from_str v =
     (case v of JStr s \<Rightarrow> from_str s | _ \<Rightarrow> Inl (Builtin PyAttributeError))"

definition int_field :: "int \<Rightarrow> (string \<times> json) list \<Rightarrow> string \<Rightarrow> gm_error + int" where
  [model_defs]: "int_field d kvs k = int_of_json (get_or (JInt d) kvs k)"

text \<open>\<open>fresh\<close> is the identifier that \<^verbatim>\<open>generate_frame_id\<close> draws.\<close>

definition screen_frame_from_dict :: "string \<Rightarrow> json \<Rightarrow> gm_error + screen_frame" where
  "screen_frame_from_dict fresh d =
     (case d of
        JObj kvs \<Rightarrow>
          (case map_of kvs ''payload_hex'' of
             None \<Rightarrow> Inl (Screen ScreenFrameValidationError)
           | Some h \<Rightarrow>
             (case from_hex (py_str h) of
                None \<Rightarrow> Inl (Screen ScreenFrameValidationError)
              | Some payload \<Rightarrow>
                  and_then (int_field 0 kvs ''sequence'') (\<lambda>sq.
                  and_then (int_field 0 kvs ''width'') (\<lambda>w.
                  and_then (int_field 0 kvs ''height'') (\<lambda>h.
                  and_then (parse_enum pixel_from_str (get_or (JStr ''TEST'') kvs ''pixel_format'')) (\<lambda>p.
                  and_then (parse_enum codec_from_str (get_or (JStr ''TEST'') kvs ''codec'')) (\<lambda>c.
                  and_then (int_field (int (length payload)) kvs ''payload_size'') (\<lambda>n.
                    Inr \<lparr>sf_version = py_str (get_or (JStr protocol_version) kvs ''protocol_version''),
                         sf_session = str_field kvs ''session_id'',
                         sf_device = str_field kvs ''device_id'',
                         sf_id = py_str (get_or (JStr fresh) kvs ''frame_id''),
                         sf_sequence = sq, sf_captured = str_field kvs ''captured_at'',
                         sf_width = w, sf_height = h, sf_pixel = p, sf_codec = c,
                         sf_payload_size = n, sf_payload = payload\<rparr>))))))))
      | _ \<Rightarrow> Inl (Screen ScreenFrameValidationError))"

definition screen_frame_to_canonical_json :: "screen_frame \<Rightarrow> string" where
  "screen_frame_to_canonical_json f = json_dumps (screen_frame_to_dict f)"

definition readable_time :: "(string \<Rightarrow> stamp) \<Rightarrow> string \<Rightarrow> bool" where
  "readable_time read_iso s \<longleftrightarrow>
     (case read_iso s of Aware t \<Rightarrow> True | Naive t \<Rightarrow> True | _ \<Rightarrow> False)"

definition screen_frame_validate ::
  "(string \<Rightarrow> stamp) \<Rightarrow> int \<Rightarrow> int \<Rightarrow> int \<Rightarrow> screen_frame \<Rightarrow> gm_error option" where
  "screen_frame_validate read_iso max_width max_height max_payload f =
     (let bad = Some (Screen ScreenFrameValidationError);
          oversized = Some (Screen ScreenFrameOversizedError) in
      if sf_version f \<noteq> protocol_version then bad
      else if \<not> valid_id (sf_device f) then bad
      else if sf_session f = [] then bad
      else if sf_id f = [] then bad
      else if sf_sequence f \<le> 0 then bad
      else if sf_width f \<le> 0 \<or> sf_height f \<le> 0 then bad
      else if max_width < sf_width f then oversized
      else if max_height < sf_height f then oversized
      else if max_payload < int (length (sf_payload f)) then oversized
      else if sf_payload_size f \<noteq> int (length (sf_payload f)) then bad
      else if \<not> readable_time read_iso (sf_captured f) then bad
      else None)"

section \<open>The bounded frame queue\<close>

record frame_queue =
  bq_max :: int
  bq_strategy :: backpressure
  bq_items :: "screen_frame list"
  bq_dropped :: nat

definition new_frame_queue :: "int \<Rightarrow> backpressure \<Rightarrow> gm_error + frame_queue" where
  "new_frame_queue n st =
     (if n \<le> 0 then Inl (Screen ScreenFrameError)
      else Inr \<lparr>bq_max = n, bq_strategy = st, bq_items = [], bq_dropped = 0\<rparr>)"

text \<open>
  The result tells whether the queue had room.  A full queue always answers \<open>False\<close>, also
  when it has dropped its oldest frame and added the new one.
\<close>

definition queue_push :: "screen_frame \<Rightarrow> frame_queue \<Rightarrow> bool \<times> frame_queue" where
  "queue_push f q =
     (if int (length (bq_items q)) < bq_max q then (True, q\<lparr>bq_items := bq_items q @ [f]\<rparr>)
      else case bq_strategy q of
        BP_DROP_OLDEST \<Rightarrow>
          (False, q\<lparr>bq_items := tl (bq_items q) @ [f], bq_dropped := bq_dropped q + 1\<rparr>)
      | BP_DROP_NEWEST \<Rightarrow> (False, q\<lparr>bq_dropped := bq_dropped q + 1\<rparr>)
      | BP_BLOCK \<Rightarrow>
          (False, q\<lparr>bq_items := tl (bq_items q) @ [f], bq_dropped := bq_dropped q + 1\<rparr>))"

definition queue_pop :: "frame_queue \<Rightarrow> screen_frame option \<times> frame_queue" where
  "queue_pop q =
     (case bq_items q of [] \<Rightarrow> (None, q) | f # fs \<Rightarrow> (Some f, q\<lparr>bq_items := fs\<rparr>))"

definition queue_drain :: "frame_queue \<Rightarrow> screen_frame list \<times> frame_queue" where
  "queue_drain q = (bq_items q, q\<lparr>bq_items := []\<rparr>)"

definition queue_clear :: "frame_queue \<Rightarrow> frame_queue" where
  "queue_clear q = q\<lparr>bq_items := []\<rparr>"

section \<open>The transition graph is a lifecycle\<close>

definition screen_step :: "screen_state \<Rightarrow> screen_state \<Rightarrow> bool" where
  [model_defs]: "screen_step s t \<longleftrightarrow> t \<in> set (LEGAL_TRANSITIONS s)"

fun screen_rank :: "screen_state \<Rightarrow> nat" where
  "screen_rank SS_REQUESTED = 0"
| "screen_rank SS_PENDING_CHILD_APPROVAL = 1"
| "screen_rank SS_APPROVED = 2"
| "screen_rank SS_ACTIVE = 3"
| "screen_rank _ = 4"

interpretation screen_life: lifecycle screen_step screen_terminal screen_rank 4
proof unfold_locales
  fix s show "screen_terminal s \<longleftrightarrow> (\<forall>t. \<not> screen_step s t)"
    by (cases s) (auto simp: screen_terminal_def screen_step_def)
next
  fix s t assume "screen_step s t"
  then show "screen_rank s < screen_rank t" by (cases s) (auto simp: screen_step_def)
next
  fix s show "screen_rank s \<le> 4" by (cases s) auto
qed

text \<open>A session that streams has passed the two states before it, in this order.\<close>

lemma path_next:
  assumes "path_of screen_step (s # ss)" and "SS_ACTIVE \<in> set ss"
  obtains t ts where "ss = t # ts" "t \<in> set (LEGAL_TRANSITIONS s)" "path_of screen_step (t # ts)"
    "t = SS_ACTIVE \<or> SS_ACTIVE \<in> set ts" "screen_terminal t \<Longrightarrow> ts = []"
proof -
  from assms obtain t ts where t: "ss = t # ts" "t \<in> set (LEGAL_TRANSITIONS s)"
      "path_of screen_step (t # ts)"
    by (auto elim!: path_of_ConsE[of screen_step s] simp: screen_step_def)
  show thesis
    by (rule that[OF t]) (use assms(2) t screen_life.terminal_absorbing in auto)
qed

lemma path_to_active:
  assumes "path_of screen_step (SS_REQUESTED # ss)" and "SS_ACTIVE \<in> set ss"
  shows "take 3 ss = [SS_PENDING_CHILD_APPROVAL, SS_APPROVED, SS_ACTIVE]"
proof -
  from path_next[OF assms] obtain t1 ts1 where s1: "ss = t1 # ts1"
      "t1 \<in> set (LEGAL_TRANSITIONS SS_REQUESTED)" "path_of screen_step (t1 # ts1)"
      "t1 = SS_ACTIVE \<or> SS_ACTIVE \<in> set ts1" "screen_terminal t1 \<Longrightarrow> ts1 = []" by metis
  then have t1: "t1 = SS_PENDING_CHILD_APPROVAL" "SS_ACTIVE \<in> set ts1"
    by (auto simp: screen_terminal_def)
  from path_next[OF s1(3) t1(2)] obtain t2 ts2 where s2: "ts1 = t2 # ts2"
      "t2 \<in> set (LEGAL_TRANSITIONS t1)" "path_of screen_step (t2 # ts2)"
      "t2 = SS_ACTIVE \<or> SS_ACTIVE \<in> set ts2" "screen_terminal t2 \<Longrightarrow> ts2 = []" by metis
  then have t2: "t2 = SS_APPROVED" "SS_ACTIVE \<in> set ts2"
    by (auto simp: screen_terminal_def t1)
  from path_next[OF s2(3) t2(2)] obtain t3 ts3 where s3: "ts2 = t3 # ts3"
      "t3 \<in> set (LEGAL_TRANSITIONS t2)" "t3 = SS_ACTIVE \<or> SS_ACTIVE \<in> set ts3"
      "screen_terminal t3 \<Longrightarrow> ts3 = []" by metis
  then have "t3 = SS_ACTIVE" by (auto simp: screen_terminal_def t2)
  with s1(1) s2(1) s3(1) t1 t2 show ?thesis by (simp add: eval_nat_numeral)
qed

section \<open>Frames survive the wire\<close>

lemma pixel_from_value [simp]: "pixel_from_str (pixel_value p) = Inr p"
  by (cases p) (simp_all add: pixel_from_str_def enum_of_def py_strip_def py_upper_def
      upper_char_def is_py_space_def)

lemma codec_from_value [simp]: "codec_from_str (codec_value c) = Inr c"
  by (cases c) (simp_all add: codec_from_str_def all_codecs_def enum_of_def py_strip_def
      py_upper_def upper_char_def is_py_space_def)

lemma screen_frame_json_roundtrip:
  assumes "list_all (\<lambda>b. b < 256) (sf_payload f)"
  shows "\<exists>d. json_loads (screen_frame_to_canonical_json f) = Some d \<and>
    screen_frame_from_dict fresh d = Inr f"
proof -
  obtain kvs where kvs: "screen_frame_to_dict f = JObj kvs" "distinct (map fst kvs)"
    by (simp add: screen_frame_to_dict_def)
  have ok: "json_ok (screen_frame_to_dict f)" by (simp add: screen_frame_to_dict_def)
  have hexed: "from_hex (to_hex (sf_payload f)) = Some (sf_payload f)"
    using assms by (rule from_hex_to_hex)
  have "json_loads (screen_frame_to_canonical_json f) =
      Some (JObj (sort_key fst (map (\<lambda>(x, v). (x, canon v)) kvs)))"
    using json_dumps_loads(1)[OF ok] by (simp add: screen_frame_to_canonical_json_def kvs)
  moreover have "screen_frame_from_dict fresh (JObj (sort_key fst (map (\<lambda>(x, v). (x, canon v)) kvs))) = Inr f"
    using kvs(1) hexed
    by (auto simp: screen_frame_from_dict_def get_or_def str_field_def int_field_def and_then_def
        parse_enum_def map_of_canon[OF kvs(2)] screen_frame_to_dict_def py_str_def)
  ultimately show ?thesis by blast
qed

section \<open>The frame queue keeps its bound\<close>

definition queue_ok :: "frame_queue \<Rightarrow> bool" where
  "queue_ok q \<longleftrightarrow> 0 < bq_max q \<and> int (length (bq_items q)) \<le> bq_max q"

lemma new_queue_ok: "new_frame_queue n st = Inr q \<Longrightarrow> queue_ok q"
  by (auto simp: new_frame_queue_def queue_ok_def split: if_splits)

lemma queue_full:
  assumes "queue_ok q" and "\<not> int (length (bq_items q)) < bq_max q"
  obtains g gs where "bq_items q = g # gs"
  using assms by (cases "bq_items q") (auto simp: queue_ok_def)

interpretation frame_fifo: bounded_fifo
  "\<lambda>q f. snd (queue_push f q)" bq_items "\<lambda>q. nat (bq_max q)" bq_dropped queue_ok
proof unfold_locales
  fix q :: frame_queue and f
  assume ok: "queue_ok q"
  let ?room = "int (length (bq_items q)) < bq_max q"
  consider (room) ?room | (full) g gs where "\<not> ?room" "bq_items q = g # gs"
    using ok queue_full by blast
  then have "queue_ok (snd (queue_push f q)) \<and> bq_max (snd (queue_push f q)) = bq_max q \<and>
      length (bq_items (snd (queue_push f q))) \<le> nat (bq_max q) \<and>
      subseq (bq_items (snd (queue_push f q))) (bq_items q @ [f]) \<and>
      length (bq_items (snd (queue_push f q))) + bq_dropped (snd (queue_push f q)) =
        length (bq_items q) + 1 + bq_dropped q"
  proof cases
    case room
    with ok show ?thesis by (simp add: queue_push_def queue_ok_def)
  next
    case full
    with ok show ?thesis
      by (cases "bq_strategy q") (auto simp: queue_push_def queue_ok_def intro: list_emb_append2)
  qed
  then show "queue_ok (snd (queue_push f q))" "nat (bq_max (snd (queue_push f q))) = nat (bq_max q)"
    "subseq (bq_items (snd (queue_push f q))) (bq_items q @ [f])"
    "length (bq_items (snd (queue_push f q))) + bq_dropped (snd (queue_push f q)) =
        length (bq_items q) + 1 + bq_dropped q"
    and "length (bq_items q) \<le> nat (bq_max q) \<Longrightarrow>
      length (bq_items (snd (queue_push f q))) \<le> nat (bq_max q)"
    by simp_all
qed

end
