(* ===== verification/ScreenFrames.thy ===== *)
theory ScreenFrames
  imports ScreenModels
begin

text \<open>
  \<^verbatim>\<open>guardianmesh/screen/frames.py\<close>: the sequence tracker, the frame validator and the
  stream buffer of one session, which validates, checks the sequence number and queues, in
  this order.
\<close>

section \<open>Sequence tracking\<close>

text \<open>\<open>ft_window\<close> is the deque, whose length is bounded; \<open>ft_seen\<close> the set, which is not.\<close>

record frame_tracker =
  ft_last :: int
  ft_window :: "int list"
  ft_seen :: "int set"
  ft_size :: int

definition new_frame_tracker :: "int \<Rightarrow> gm_error + frame_tracker" where
  "new_frame_tracker n =
     (if n \<le> 0 then Inl (Screen ScreenFrameError)
      else Inr \<lparr>ft_last = 0, ft_window = [], ft_seen = {}, ft_size = n\<rparr>)"

definition tracker_accept :: "int \<Rightarrow> frame_tracker \<Rightarrow> (frame_tracker, unit) outcome" where
  "tracker_accept n t =
     (if n \<le> 0 then raises (Screen ScreenFrameSequenceError) t
      else if n \<in> ft_seen t then raises (Screen ScreenFrameSequenceError) t
      else if n < max 1 (ft_last t - ft_size t) then raises (Screen ScreenFrameSequenceError) t
      else let w = ft_window t @ [n] in
        returns ()
          (t\<lparr>ft_seen := insert n (ft_seen t),
             ft_window := drop (length w - nat (ft_size t)) w,
             ft_last := (if ft_last t < n then n else ft_last t)\<rparr>))"

definition tracker_reset :: "frame_tracker \<Rightarrow> frame_tracker" where
  "tracker_reset t = t\<lparr>ft_last := 0, ft_window := [], ft_seen := {}\<rparr>"

section \<open>Validation\<close>

record frame_validator =
  fv_width :: int
  fv_height :: int
  fv_payload :: int
  fv_fps :: int

definition new_frame_validator :: "int \<Rightarrow> int \<Rightarrow> int \<Rightarrow> int \<Rightarrow> gm_error + frame_validator" where
  "new_frame_validator w h p fps =
     (if w \<le> 0 \<or> h \<le> 0 then Inl (Screen ScreenFrameError)
      else if p \<le> 0 then Inl (Screen ScreenFrameError)
      else if fps \<le> 0 then Inl (Screen ScreenFrameError)
      else Inr \<lparr>fv_width = w, fv_height = h, fv_payload = p, fv_fps = fps\<rparr>)"

definition validator_validate ::
  "(string \<Rightarrow> stamp) \<Rightarrow> frame_validator \<Rightarrow> screen_frame \<Rightarrow> gm_error option" where
  "validator_validate read_iso v f =
     (let bad = Some (Screen ScreenFrameValidationError);
          oversized = Some (Screen ScreenFrameOversizedError) in
      if sf_version f \<noteq> ''1.0'' then bad
      else if sf_width f \<le> 0 \<or> sf_height f \<le> 0 then bad
      else if fv_width v < sf_width f then oversized
      else if fv_height v < sf_height f then oversized
      else if fv_payload v < int (length (sf_payload f)) then oversized
      else if sf_payload_size f \<noteq> int (length (sf_payload f)) then bad
      else if \<not> readable_time read_iso (sf_captured f) then bad
      else None)"

section \<open>The stream buffer\<close>

record frame_buffer =
  fb_session :: string
  fb_validator :: frame_validator
  fb_tracker :: frame_tracker
  fb_queue :: frame_queue

definition new_frame_buffer ::
  "string \<Rightarrow> int \<Rightarrow> backpressure \<Rightarrow> frame_validator \<Rightarrow> gm_error + frame_buffer" where
  "new_frame_buffer sid n st v =
     and_then (new_frame_tracker 128) (\<lambda>t.
     and_then (new_frame_queue n st) (\<lambda>q.
       Inr \<lparr>fb_session = sid, fb_validator = v, fb_tracker = t, fb_queue = q\<rparr>))"

definition buffer_ingest ::
  "(string \<Rightarrow> stamp) \<Rightarrow> screen_frame \<Rightarrow> frame_buffer \<Rightarrow> (frame_buffer, bool) outcome" where
  "buffer_ingest read_iso f b =
     (if sf_session f \<noteq> fb_session b then raises (Screen ScreenFrameError) b
      else case validator_validate read_iso (fb_validator b) f of
        Some e \<Rightarrow> raises e b
      | None \<Rightarrow>
         (case tracker_accept (sf_sequence f) (fb_tracker b) of
            (Inl e, t) \<Rightarrow> raises e (b\<lparr>fb_tracker := t\<rparr>)
          | (Inr u, t) \<Rightarrow>
              let (added, q) = queue_push f (fb_queue b)
              in returns added (b\<lparr>fb_tracker := t, fb_queue := q\<rparr>)))"

definition buffer_pop :: "frame_buffer \<Rightarrow> screen_frame option \<times> frame_buffer" where
  "buffer_pop b = (let (f, q) = queue_pop (fb_queue b) in (f, b\<lparr>fb_queue := q\<rparr>))"

definition buffer_drain :: "frame_buffer \<Rightarrow> screen_frame list \<times> frame_buffer" where
  "buffer_drain b = (let (fs, q) = queue_drain (fb_queue b) in (fs, b\<lparr>fb_queue := q\<rparr>))"

definition buffer_clear :: "frame_buffer \<Rightarrow> frame_buffer" where
  "buffer_clear b = b\<lparr>fb_queue := queue_clear (fb_queue b), fb_tracker := tracker_reset (fb_tracker b)\<rparr>"

section \<open>Facts\<close>

lemma tracker_accept_result:
  "tracker_accept n t = (Inr u, t') \<Longrightarrow>
     0 < n \<and> n \<notin> ft_seen t \<and> ft_last t - ft_size t \<le> n \<and> ft_seen t' = insert n (ft_seen t) \<and>
     ft_last t' = max (ft_last t) n \<and> ft_size t' = ft_size t"
  "tracker_accept n t = (Inl e, t') \<Longrightarrow> t' = t \<and> e = Screen ScreenFrameSequenceError"
  by (auto simp: tracker_accept_def Let_def split: if_splits)

lemma buffer_ingest_cases:
  obtains (refused) e where "buffer_ingest rd f b = (Inl e, b)"
    "is_instance e (Screen ScreenFrameError)"
  | (accepted) t where "tracker_accept (sf_sequence f) (fb_tracker b) = (Inr (), t)"
    "sf_session f = fb_session b" "validator_validate rd (fb_validator b) f = None"
    "buffer_ingest rd f b = (Inr (fst (queue_push f (fb_queue b))),
       b\<lparr>fb_tracker := t, fb_queue := snd (queue_push f (fb_queue b))\<rparr>)"
proof (cases "sf_session f = fb_session b")
  case False
  then show thesis
    by (intro refused[of "Screen ScreenFrameError"]) (simp_all add: buffer_ingest_def is_instance_def eval_nat_numeral)
next
  case session: True
  show thesis
  proof (cases "validator_validate rd (fb_validator b) f")
    case (Some e)
    then have "e = Screen ScreenFrameValidationError \<or> e = Screen ScreenFrameOversizedError"
      by (auto simp: validator_validate_def Let_def split: if_splits)
    with Some session show thesis
      by (intro refused[of e]) (auto simp: buffer_ingest_def is_instance_def eval_nat_numeral)
  next
    case None
    obtain r t where r: "tracker_accept (sf_sequence f) (fb_tracker b) = (r, t)" by fastforce
    show thesis
    proof (cases r)
      case (Inl e)
      with r tracker_accept_result(2) have "t = fb_tracker b" "e = Screen ScreenFrameSequenceError"
        by blast+
      with session None r Inl show thesis
        by (intro refused[of e]) (auto simp: buffer_ingest_def is_instance_def eval_nat_numeral)
    next
      case (Inr u)
      with session None r show thesis
        by (intro accepted[of t]) (auto simp: buffer_ingest_def split: prod.split)
    qed
  qed
qed

text \<open>The buffer takes each sequence number at most once.\<close>

interpretation frame_sequence_guard: replay_guard
  "\<lambda>b f. (succeeded (buffer_ingest rd f b), snd (buffer_ingest rd f b))" sf_sequence
  "\<lambda>b n. n \<in> ft_seen (fb_tracker b)" "\<lambda>b. True" for rd
proof unfold_locales
  fix b :: frame_buffer and f
  show "fst (succeeded (buffer_ingest rd f b), snd (buffer_ingest rd f b)) \<Longrightarrow>
      sf_sequence f \<notin> ft_seen (fb_tracker b)"
    by (cases rule: buffer_ingest_cases[of rd f b]) (auto dest: tracker_accept_result)
  show "fst (succeeded (buffer_ingest rd f b), snd (buffer_ingest rd f b)) \<Longrightarrow>
      sf_sequence f \<in> ft_seen (fb_tracker (snd (succeeded (buffer_ingest rd f b), snd (buffer_ingest rd f b))))"
    by (cases rule: buffer_ingest_cases[of rd f b]) (auto dest: tracker_accept_result)
  show "k \<in> ft_seen (fb_tracker b) \<Longrightarrow>
      k \<in> ft_seen (fb_tracker (snd (succeeded (buffer_ingest rd f b), snd (buffer_ingest rd f b))))" for k
    by (cases rule: buffer_ingest_cases[of rd f b]) (auto dest: tracker_accept_result)
qed auto

text \<open>What a buffer holds: frames of its session, within its limits, no more than its capacity.\<close>

definition frame_fits :: "frame_buffer \<Rightarrow> screen_frame \<Rightarrow> bool" where
  "frame_fits b f \<longleftrightarrow> sf_session f = fb_session b \<and> 0 < sf_width f \<and> sf_width f \<le> fv_width (fb_validator b) \<and>
     0 < sf_height f \<and> sf_height f \<le> fv_height (fb_validator b) \<and>
     int (length (sf_payload f)) \<le> fv_payload (fb_validator b) \<and>
     sf_payload_size f = int (length (sf_payload f)) \<and> sf_sequence f \<in> ft_seen (fb_tracker b)"

definition buffer_ok :: "frame_buffer \<Rightarrow> bool" where
  "buffer_ok b \<longleftrightarrow> queue_ok (fb_queue b) \<and> (\<forall>f \<in> set (bq_items (fb_queue b)). frame_fits b f)"

lemma push_items: "set (bq_items (snd (queue_push f q))) \<subseteq> insert f (set (bq_items q))"
proof -
  have "set (tl xs) \<subseteq> set xs" for xs :: "screen_frame list" by (cases xs) auto
  then show ?thesis by (auto simp: queue_push_def split: backpressure.splits)
qed

lemma validated_fits:
  "validator_validate rd v f = None \<Longrightarrow> 0 < sf_width f \<and> sf_width f \<le> fv_width v \<and>
     0 < sf_height f \<and> sf_height f \<le> fv_height v \<and> int (length (sf_payload f)) \<le> fv_payload v \<and>
     sf_payload_size f = int (length (sf_payload f))"
  by (auto simp: validator_validate_def Let_def split: if_splits)

lemma buffer_ingest_ok:
  assumes "buffer_ok b"
  shows "buffer_ok (snd (buffer_ingest rd f b))"
proof (cases rule: buffer_ingest_cases[of rd f b])
  case (refused e)
  with assms show ?thesis by simp
next
  case (accepted t)
  let ?b = "snd (buffer_ingest rd f b)"
  have seen: "ft_seen t = insert (sf_sequence f) (ft_seen (fb_tracker b))"
    using tracker_accept_result(1)[OF accepted(1)] by blast
  have "frame_fits ?b f"
    using accepted(2,4) validated_fits[OF accepted(3)] seen by (simp add: frame_fits_def)
  moreover have "frame_fits b g \<Longrightarrow> frame_fits ?b g" for g
    using accepted(4) seen by (simp add: frame_fits_def)
  moreover have "queue_ok (fb_queue ?b)"
    using assms frame_fifo.push_usable accepted(4) by (simp add: buffer_ok_def)
  ultimately show ?thesis
    using assms push_items[of f "fb_queue b"] accepted(4) by (auto simp: buffer_ok_def)
qed

lemma new_frame_buffer_ok: "new_frame_buffer sid n st v = Inr b \<Longrightarrow> buffer_ok b"
  by (auto simp: new_frame_buffer_def and_then_def new_frame_tracker_def new_frame_queue_def
      buffer_ok_def queue_ok_def split: if_splits)

lemma buffer_clear_ok: "buffer_ok b \<Longrightarrow> buffer_ok (buffer_clear b)"
  by (simp add: buffer_clear_def queue_clear_def buffer_ok_def queue_ok_def)

lemma buffer_drain_ok: "buffer_ok b \<Longrightarrow> buffer_ok (snd (buffer_drain b))"
  by (simp add: buffer_drain_def queue_drain_def buffer_ok_def queue_ok_def)

end
