(* ===== verification/ScreenAuth.thy ===== *)
theory ScreenAuth
  imports ScreenFrames
begin

text \<open>
  \<^verbatim>\<open>guardianmesh/screen/authorization.py\<close> and \<^verbatim>\<open>auth_registry.py\<close>: the child's
  decision on a view request, held in memory by the manager and mirrored in the table
  \<^verbatim>\<open>screen_authorizations\<close>.

  The manager's dictionary is the list of its values in insertion order, keyed by their
  identifier.  The identifiers and nonces that \<^verbatim>\<open>secrets\<close> draws are arguments.
\<close>

section \<open>The manager\<close>

record auth_mgr =
  am_auths :: "screen_auth list"
  am_by_session :: "string \<rightharpoonup> string"

definition empty_auth_mgr :: auth_mgr where
  "empty_auth_mgr = \<lparr>am_auths = [], am_by_session = Map.empty\<rparr>"

text \<open>\<^verbatim>\<open>ScreenAuthorizationRequest.__post_init__\<close>.\<close>

definition check_request_duration :: "int \<Rightarrow> gm_error option" where
  "check_request_duration secs =
     (if secs < 30 then Some (Core ValidationError)
      else if 3600 < secs then Some (Core ValidationError)
      else None)"

definition put_auth :: "screen_auth \<Rightarrow> auth_mgr \<Rightarrow> auth_mgr" where
  [model_defs]: "put_auth a m = m\<lparr>am_auths := upsert_row sa_id a (\<lambda>old. a) (am_auths m)\<rparr>"

definition create_request ::
  "int \<Rightarrow> string \<Rightarrow> string \<Rightarrow> string \<Rightarrow> string \<Rightarrow> string \<Rightarrow> int \<Rightarrow> string option \<Rightarrow>
   auth_mgr \<Rightarrow> (auth_mgr, screen_auth) outcome" where
  "create_request now aid nonce sid device parent secs label m =
     (if sid = [] then raises (Screen ScreenAuthorizationError) m
      else if am_by_session m sid \<noteq> None then raises (Screen ScreenAuthorizationError) m
      else case check_request_duration secs of
        Some e \<Rightarrow> raises e m
      | None \<Rightarrow>
         (let a = \<lparr>sa_id = aid, sa_session = sid, sa_device = device, sa_parent = parent,
                   sa_decision = AD_PENDING, sa_requested = Aware now, sa_approved = None,
                   sa_denied = None, sa_expires = stamp_after now secs, sa_max_duration = secs,
                   sa_label = label, sa_metadata = [(''nonce'', JStr nonce)]\<rparr>
          in case auth_validate a of
               Some e \<Rightarrow> raises e m
             | None \<Rightarrow>
                 returns a (let m' = put_auth a m
                            in m'\<lparr>am_by_session := (am_by_session m')(sid \<mapsto> aid)\<rparr>)))"

definition get_by_authorization_id :: "string \<Rightarrow> auth_mgr \<Rightarrow> screen_auth option" where
  "get_by_authorization_id aid m = fetch_where (\<lambda>a. sa_id a = aid) (am_auths m)"

definition get_for_session :: "string \<Rightarrow> auth_mgr \<Rightarrow> screen_auth option" where
  "get_for_session sid m =
     (case am_by_session m sid of None \<Rightarrow> None | Some aid \<Rightarrow> get_by_authorization_id aid m)"

text \<open>
  \<^verbatim>\<open>_assert_state_for_decision\<close> with \<^verbatim>\<open>allowed=(PENDING,)\<close>: an expired authorization
  is marked \<open>EXPIRED\<close> whatever its decision was.
\<close>

definition assert_state_for_decision :: "int \<Rightarrow> screen_auth \<Rightarrow> auth_mgr \<Rightarrow> (auth_mgr, unit) outcome" where
  "assert_state_for_decision now a m =
     (case auth_is_expired now a of
        Inl e \<Rightarrow> raises e m
      | Inr True \<Rightarrow>
          raises (Screen ScreenAuthorizationExpiredError) (put_auth (a\<lparr>sa_decision := AD_EXPIRED\<rparr>) m)
      | Inr False \<Rightarrow>
          if sa_decision a \<noteq> AD_PENDING then
            (if sa_decision a = AD_DENIED then raises (Screen ScreenAuthorizationDeniedError) m
             else raises (Screen ScreenAuthorizationError) m)
          else returns () m)"

text \<open>\<^verbatim>\<open>at or self._now_iso()\<close>.\<close>

definition given_or_now :: "int \<Rightarrow> stamp option \<Rightarrow> stamp" where
  [model_defs]: "given_or_now now at = (case at of None \<Rightarrow> Aware now | Some s \<Rightarrow> if s = Blank then Aware now else s)"

definition approve_auth ::
  "int \<Rightarrow> string \<Rightarrow> stamp option \<Rightarrow> auth_mgr \<Rightarrow> (auth_mgr, screen_auth) outcome" where
  "approve_auth now aid at m =
     (case get_by_authorization_id aid m of
        None \<Rightarrow> raises (Screen ScreenAuthorizationNotFoundError) m
      | Some a \<Rightarrow>
         (case assert_state_for_decision now a m of
            (Inl e, m') \<Rightarrow> raises e m'
          | (Inr u, m') \<Rightarrow>
              let a' = a\<lparr>sa_decision := AD_APPROVED, sa_approved := Some (given_or_now now at)\<rparr>
              in returns a' (put_auth a' m')))"

definition deny_auth ::
  "int \<Rightarrow> string \<Rightarrow> stamp option \<Rightarrow> auth_mgr \<Rightarrow> (auth_mgr, screen_auth) outcome" where
  "deny_auth now aid at m =
     (case get_by_authorization_id aid m of
        None \<Rightarrow> raises (Screen ScreenAuthorizationNotFoundError) m
      | Some a \<Rightarrow>
         (case assert_state_for_decision now a m of
            (Inl e, m') \<Rightarrow> raises e m'
          | (Inr u, m') \<Rightarrow>
              let a' = a\<lparr>sa_decision := AD_DENIED, sa_denied := Some (given_or_now now at)\<rparr>
              in returns a' (put_auth a' m')))"

definition revoke_auth :: "string \<Rightarrow> string \<Rightarrow> auth_mgr \<Rightarrow> (auth_mgr, screen_auth) outcome" where
  "revoke_auth aid reason m =
     (case get_by_authorization_id aid m of
        None \<Rightarrow> raises (Screen ScreenAuthorizationNotFoundError) m
      | Some a \<Rightarrow>
         if sa_decision a = AD_DENIED \<or> sa_decision a = AD_EXPIRED then returns a m
         else let a' = a\<lparr>sa_decision := AD_REVOKED,
                         sa_metadata := assoc_put ''revoke_reason'' (JStr reason) (sa_metadata a)\<rparr>
              in returns a' (put_auth a' m))"

text \<open>\<^verbatim>\<open>expire_due\<close> walks over a copy of the items; an expiry without time zone ends it with the exception.\<close>

fun expire_loop :: "int \<Rightarrow> screen_auth list \<Rightarrow> string list \<Rightarrow> auth_mgr \<Rightarrow> (auth_mgr, string list) outcome" where
  "expire_loop now [] done_ids m = returns done_ids m"
| "expire_loop now (a # rest) done_ids m =
     (case auth_is_expired now a of
        Inl e \<Rightarrow> raises e m
      | Inr x \<Rightarrow>
          if x \<and> (sa_decision a = AD_PENDING \<or> sa_decision a = AD_APPROVED) then
            expire_loop now rest (done_ids @ [sa_id a]) (put_auth (a\<lparr>sa_decision := AD_EXPIRED\<rparr>) m)
          else expire_loop now rest done_ids m)"

definition expire_due :: "int \<Rightarrow> auth_mgr \<Rightarrow> (auth_mgr, string list) outcome" where
  "expire_due now m = expire_loop now (am_auths m) [] m"

definition list_pending_auths :: "auth_mgr \<Rightarrow> screen_auth list" where
  "list_pending_auths m = filter (\<lambda>a. sa_decision a = AD_PENDING) (am_auths m)"

definition clear_auths :: "auth_mgr \<Rightarrow> auth_mgr" where
  "clear_auths m = empty_auth_mgr"

fun derive_session_state_from_decision :: "auth_decision \<Rightarrow> screen_state" where
  "derive_session_state_from_decision AD_PENDING = SS_PENDING_CHILD_APPROVAL"
| "derive_session_state_from_decision AD_APPROVED = SS_APPROVED"
| "derive_session_state_from_decision AD_DENIED = SS_DENIED"
| "derive_session_state_from_decision AD_EXPIRED = SS_EXPIRED"
| "derive_session_state_from_decision AD_REVOKED = SS_REVOKED"

section \<open>The table\<close>

text \<open>
  \<^verbatim>\<open>session_id\<close> is \<^verbatim>\<open>UNIQUE\<close>: a second authorization of a session is refused.  The
  conflict on the primary key updates the decision, its times and the metadata.  The row is
  read back as it was written: \<^verbatim>\<open>metadata\<close> is a JSON object.
\<close>

definition auth_upsert :: "screen_auth \<Rightarrow> screen_auth list \<Rightarrow> gm_error + screen_auth list" where
  "auth_upsert a rows =
     (if \<not> has_key sa_id (sa_id a) rows \<and> has_key sa_session (sa_session a) rows then
        Inl (Builtin SqliteIntegrityError)
      else Inr (upsert_row sa_id a
        (\<lambda>old. old\<lparr>sa_decision := sa_decision a, sa_approved := sa_approved a,
                   sa_denied := sa_denied a, sa_metadata := sa_metadata a\<rparr>) rows))"

definition auth_row_by_id :: "string \<Rightarrow> screen_auth list \<Rightarrow> screen_auth option" where
  "auth_row_by_id aid rows = fetch_where (\<lambda>a. sa_id a = aid) rows"

definition auth_row_by_session :: "string \<Rightarrow> screen_auth list \<Rightarrow> screen_auth option" where
  "auth_row_by_session sid rows = fetch_where (\<lambda>a. sa_session a = sid) rows"

definition list_pending_auth_rows :: "screen_auth list \<Rightarrow> screen_auth list" where
  "list_pending_auth_rows rows = filter (\<lambda>a. sa_decision a = AD_PENDING) rows"

section \<open>Facts\<close>

lemma get_put_auth:
  "get_by_authorization_id aid (put_auth a m) =
     (if aid = sa_id a then Some a else get_by_authorization_id aid m)"
  by (simp add: get_by_authorization_id_def put_auth_def fetch_upsert_whole)

lemma by_session_put [simp]: "am_by_session (put_auth a m) = am_by_session m"
  by (simp add: put_auth_def)

lemma get_auth_id: "get_by_authorization_id aid m = Some a \<Longrightarrow> sa_id a = aid"
  using fetch_where_Some by (fastforce simp: get_by_authorization_id_def)

text \<open>
  When a decision goes through: the authorization is pending and its lifetime has not ended.
\<close>

lemma assert_state_returns:
  "assert_state_for_decision now a m = (Inr u, m') \<longleftrightarrow>
     m' = m \<and> sa_decision a = AD_PENDING \<and> auth_is_expired now a = Inr False"
  by (auto simp: assert_state_for_decision_def split: sum.splits bool.splits)

lemma approve_auth_returns:
  "approve_auth now aid at m = (Inr b, m') \<longleftrightarrow>
     (\<exists>a. get_by_authorization_id aid m = Some a \<and> sa_decision a = AD_PENDING \<and>
        auth_is_expired now a = Inr False \<and>
        b = a\<lparr>sa_decision := AD_APPROVED, sa_approved := Some (given_or_now now at)\<rparr> \<and>
        m' = put_auth b m)"
proof (cases "get_by_authorization_id aid m")
  case None
  then show ?thesis by (simp add: approve_auth_def)
next
  case (Some a)
  obtain r m1 where r: "assert_state_for_decision now a m = (r, m1)" by fastforce
  show ?thesis
  proof (cases r)
    case (Inl e)
    have "\<not> (sa_decision a = AD_PENDING \<and> auth_is_expired now a = Inr False)"
      using r Inl assert_state_returns[of now a m "()" m] by auto
    with r Inl Some show ?thesis by (auto simp: approve_auth_def)
  next
    case (Inr u)
    with r assert_state_returns[of now a m u m1] Some show ?thesis
      by (auto simp: approve_auth_def Let_def)
  qed
qed

end
