(* ===== verification/ScreenSession.thy ===== *)
theory ScreenSession
  imports ScreenAuth
begin

text \<open>
  \<^verbatim>\<open>guardianmesh/screen/session.py\<close>, \<^verbatim>\<open>registry.py\<close> and the indicator of
  \<^verbatim>\<open>indicator.py\<close>: one screen session with its buffer, its child-side indicator and its
  row in \<^verbatim>\<open>screen_sessions\<close>, and the manager of the sessions in memory.

  \<open>screen_live\<close> is what a method of a session can reach: the session, the authorization
  manager and the table.  Each method runs under the session's lock and reads the clock
  once.
\<close>

section \<open>The indicator\<close>

record indicator =
  in_active :: bool
  in_session :: "string option"
  in_parent :: "string option"
  in_remaining :: int
  in_max_duration :: int
  in_started :: "stamp option"

definition idle_indicator :: indicator where
  "idle_indicator = \<lparr>in_active = False, in_session = None, in_parent = None, in_remaining = 0,
     in_max_duration = 0, in_started = None\<rparr>"

definition indicator_activate :: "string \<Rightarrow> string \<Rightarrow> int \<Rightarrow> stamp \<Rightarrow> indicator \<Rightarrow> indicator" where
  "indicator_activate sid parent secs started i =
     i\<lparr>in_active := True, in_session := Some sid, in_parent := Some parent, in_max_duration := secs,
       in_remaining := secs, in_started := Some started\<rparr>"

definition indicator_deactivate :: "indicator \<Rightarrow> indicator" where
  "indicator_deactivate i = idle_indicator"

definition update_remaining :: "int \<Rightarrow> indicator \<Rightarrow> indicator" where
  "update_remaining n i = i\<lparr>in_remaining := max 0 n\<rparr>"

section \<open>The table\<close>

text \<open>
  The text of a reason is stored, and a reason without \<^verbatim>\<open>value\<close> raises; SQLite takes
  integers of 64 bits.  A conflict rewrites all columns but the key and
  \<^verbatim>\<open>requested_at\<close>.
\<close>

definition fits_64 :: "int \<Rightarrow> bool" where
  "fits_64 n \<longleftrightarrow> - (2 ^ 63) \<le> n \<and> n < 2 ^ 63"

definition screen_upsert :: "screen_info \<Rightarrow> screen_info list \<Rightarrow> gm_error + screen_info list" where
  "screen_upsert i rows =
     (case sv_stop_reason i of
        Some (RawReason (c # cs)) \<Rightarrow> Inl (Builtin PyAttributeError)
      | reason \<Rightarrow>
         (let row = i\<lparr>sv_stop_reason := (if reason = Some (RawReason []) then None else reason)\<rparr> in
          if \<not> list_all fits_64 [sv_frame_count i, sv_bytes_sent i, sv_bytes_received i, sv_width i,
                sv_height i, sv_max_fps i] then Inl (Builtin PyOverflowError)
          else Inr (upsert_row sv_id row (\<lambda>old. row\<lparr>sv_requested := sv_requested old\<rparr>) rows)))"

definition screen_row :: "string \<Rightarrow> screen_info list \<Rightarrow> screen_info option" where
  "screen_row sid rows = fetch_where (\<lambda>i. sv_id i = sid) rows"

text \<open>\<^verbatim>\<open>ORDER BY requested_at DESC\<close>; the times are UTC texts, which sort like their instants.\<close>

definition newest_first :: "screen_info list \<Rightarrow> screen_info list" where
  [model_defs]: "newest_first rows = sort_desc (\<lambda>i. sort_instant (sv_requested i)) rows"

definition rows_for_device :: "string \<Rightarrow> screen_info list \<Rightarrow> screen_info list" where
  "rows_for_device dev rows = newest_first (filter (\<lambda>i. sv_device i = dev) rows)"

definition rows_for_parent :: "string \<Rightarrow> screen_info list \<Rightarrow> screen_info list" where
  "rows_for_parent par rows = newest_first (filter (\<lambda>i. sv_parent i = par) rows)"

definition all_screen_rows :: "int \<Rightarrow> screen_info list \<Rightarrow> screen_info list" where
  "all_screen_rows limit rows = sql_limit limit (newest_first rows)"

definition active_screen_rows :: "screen_info list \<Rightarrow> screen_info list" where
  "active_screen_rows rows = filter (\<lambda>i. sv_state i = SS_ACTIVE) rows"

definition delete_screen_row :: "string \<Rightarrow> screen_info list \<Rightarrow> bool \<times> screen_info list" where
  "delete_screen_row sid rows =
     (has_key sv_id sid rows, filter (\<lambda>i. sv_id i \<noteq> sid) rows)"

section \<open>Sessions\<close>

record screen_config =
  sc_max_duration :: int
  sc_inactivity :: int
  sc_width :: int
  sc_height :: int
  sc_max_fps :: int
  sc_codec :: screen_codec
  sc_pixel :: pixel_format
  sc_queue_size :: int
  sc_backpressure :: backpressure
  sc_frame_bytes :: int
  sc_label :: "string option"

definition default_screen_config :: screen_config where
  "default_screen_config = \<lparr>sc_max_duration = 300, sc_inactivity = 60, sc_width = 1280,
     sc_height = 720, sc_max_fps = 10, sc_codec = CODEC_TEST, sc_pixel = PF_TEST,
     sc_queue_size = 30, sc_backpressure = BP_DROP_OLDEST, sc_frame_bytes = 4 * 1024 * 1024,
     sc_label = None\<rparr>"

definition check_screen_config :: "screen_config \<Rightarrow> gm_error option" where
  "check_screen_config c =
     (let bad = Some (Screen ScreenSessionError) in
      if sc_max_duration c \<le> 0 then bad
      else if sc_width c \<le> 0 \<or> sc_height c \<le> 0 then bad
      else if sc_max_fps c \<le> 0 then bad
      else if sc_queue_size c \<le> 0 then bad
      else if sc_frame_bytes c \<le> 0 then bad
      else None)"

record screen_session =
  se_info :: screen_info
  se_config :: screen_config
  se_buffer :: frame_buffer
  se_indicator :: indicator
  se_last_activity :: int
  se_closed :: bool
  se_registry :: bool
  se_auth_manager :: bool

definition new_screen_session ::
  "int \<Rightarrow> screen_info \<Rightarrow> screen_config \<Rightarrow> bool \<Rightarrow> bool \<Rightarrow> gm_error + screen_session" where
  "new_screen_session now info c registry auth_manager =
     and_then (new_frame_validator (sc_width c) (sc_height c) (sc_frame_bytes c) (sc_max_fps c)) (\<lambda>v.
     and_then (new_frame_buffer (sv_id info) (sc_queue_size c) (sc_backpressure c) v) (\<lambda>b.
       Inr \<lparr>se_info = info, se_config = c, se_buffer = b, se_indicator = idle_indicator,
            se_last_activity = now, se_closed = False, se_registry = registry,
            se_auth_manager = auth_manager\<rparr>))"

record screen_live =
  lv_session :: screen_session
  lv_auths :: auth_mgr
  lv_rows :: "screen_info list"

definition with_info :: "(screen_info \<Rightarrow> screen_info) \<Rightarrow> screen_live \<Rightarrow> screen_live" where
  [model_defs]: "with_info f l = l\<lparr>lv_session := (lv_session l)\<lparr>se_info := f (se_info (lv_session l))\<rparr>\<rparr>"

definition with_indicator :: "(indicator \<Rightarrow> indicator) \<Rightarrow> screen_live \<Rightarrow> screen_live" where
  [model_defs]: "with_indicator f l =
     l\<lparr>lv_session := (lv_session l)\<lparr>se_indicator := f (se_indicator (lv_session l))\<rparr>\<rparr>"

abbreviation live_info :: "screen_live \<Rightarrow> screen_info" where
  "live_info l \<equiv> se_info (lv_session l)"

abbreviation live_state :: "screen_live \<Rightarrow> screen_state" where
  "live_state l \<equiv> sv_state (live_info l)"

text \<open>\<^verbatim>\<open>_persist\<close> swallows every exception of the registry.\<close>

definition persist :: "screen_live \<Rightarrow> screen_live" where
  "persist l =
     (if se_registry (lv_session l) then
        (case screen_upsert (live_info l) (lv_rows l) of
           Inl e \<Rightarrow> l
         | Inr rows \<Rightarrow> l\<lparr>lv_rows := rows\<rparr>)
      else l)"

definition show_indicator :: "stamp \<Rightarrow> screen_live \<Rightarrow> screen_live" where
  [model_defs]: "show_indicator started l =
     with_indicator (indicator_activate (sv_id (live_info l))
        (case sv_label (live_info l) of None \<Rightarrow> sv_parent (live_info l)
           | Some x \<Rightarrow> if x = [] then sv_parent (live_info l) else x)
        (sc_max_duration (se_config (lv_session l))) started) l"

text \<open>\<^verbatim>\<open>started_at or requested_at or now\<close>.\<close>

definition first_stamp :: "stamp option \<Rightarrow> stamp \<Rightarrow> stamp" where
  [model_defs]: "first_stamp s d = (case s of None \<Rightarrow> d | Some x \<Rightarrow> if x = Blank then d else x)"

definition update_indicator :: "int \<Rightarrow> screen_live \<Rightarrow> (screen_live, unit) outcome" where
  "update_indicator now l =
     (if screen_terminal (live_state l) then returns () (with_indicator indicator_deactivate l)
      else if live_state l = SS_ACTIVE then
        (let l1 = show_indicator (first_stamp (sv_started (live_info l))
                   (first_stamp (Some (sv_requested (live_info l))) (Aware now))) l
         in case remaining_seconds now (live_info l1) of
              Inl e \<Rightarrow> raises e l1
            | Inr n \<Rightarrow> returns () (with_indicator (update_remaining n) l1))
      else returns () l)"

definition screen_transition :: "int \<Rightarrow> screen_state \<Rightarrow> screen_live \<Rightarrow> (screen_live, unit) outcome" where
  "screen_transition now target l =
     (case assert_legal_transition (live_state l) target of
        Some e \<Rightarrow> raises e l
      | None \<Rightarrow> update_indicator now (persist (with_info (\<lambda>i. i\<lparr>sv_state := target\<rparr>) l)))"

definition session_request ::
  "int \<Rightarrow> string \<Rightarrow> string \<Rightarrow> int option \<Rightarrow> screen_live \<Rightarrow> (screen_live, unit) outcome" where
  "session_request now device parent secs l =
     (if live_state l \<noteq> SS_REQUESTED then raises (Screen ScreenSessionStateError) l
      else let l1 = with_info (\<lambda>i. i\<lparr>sv_device := device, sv_parent := parent,
                 sv_expires := (case secs of None \<Rightarrow> sv_expires i
                    | Some n \<Rightarrow> if 0 < n then stamp_after now n else sv_expires i)\<rparr>) l
      in case assert_legal_transition (live_state l1) SS_PENDING_CHILD_APPROVAL of
           Some e \<Rightarrow> raises e l1
         | None \<Rightarrow> returns () (persist (with_info (\<lambda>i. i\<lparr>sv_state := SS_PENDING_CHILD_APPROVAL\<rparr>) l1)))"

definition session_approve :: "int \<Rightarrow> string \<Rightarrow> screen_live \<Rightarrow> (screen_live, unit) outcome" where
  "session_approve now aid l =
     (if \<not> se_auth_manager (lv_session l) then raises (Screen ScreenSessionError) l
      else case approve_auth now aid None (lv_auths l) of
        (Inl e, m) \<Rightarrow> raises e (l\<lparr>lv_auths := m\<rparr>)
      | (Inr a, m) \<Rightarrow>
          screen_transition now SS_APPROVED
            (with_info (\<lambda>i. i\<lparr>sv_auth := Some aid, sv_approved := Some (Aware now)\<rparr>)
              (l\<lparr>lv_auths := m\<rparr>)))"

text \<open>The end of a session: its state, the time and reason, the indicator, the buffer and the row.\<close>

definition close_live :: "int \<Rightarrow> screen_state \<Rightarrow> stop_note \<Rightarrow> bool \<Rightarrow> screen_live \<Rightarrow> screen_live" where
  "close_live now st reason clear l =
     (let l1 = with_info (\<lambda>i. i\<lparr>sv_state := st, sv_stopped := Some (Aware now),
                 sv_stop_reason := Some reason\<rparr>) l;
          l2 = with_indicator indicator_deactivate l1;
          s = lv_session l2
      in persist (l2\<lparr>lv_session := s\<lparr>se_buffer := (if clear then buffer_clear (se_buffer s) else se_buffer s),
                                  se_closed := True\<rparr>\<rparr>))"

definition session_deny :: "int \<Rightarrow> string \<Rightarrow> screen_live \<Rightarrow> (screen_live, unit) outcome" where
  "session_deny now aid l =
     (if \<not> se_auth_manager (lv_session l) then raises (Screen ScreenSessionError) l
      else case deny_auth now aid None (lv_auths l) of
        (Inl e, m) \<Rightarrow> raises e (l\<lparr>lv_auths := m\<rparr>)
      | (Inr a, m) \<Rightarrow>
         (let l1 = with_info (\<lambda>i. i\<lparr>sv_auth := Some aid\<rparr>) (l\<lparr>lv_auths := m\<rparr>)
          in case assert_legal_transition (live_state l1) SS_DENIED of
               Some e \<Rightarrow> raises e l1
             | None \<Rightarrow> returns () (close_live now SS_DENIED (Reason SR_CHILD_STOPPED) False l1)))"

definition session_start :: "int \<Rightarrow> screen_live \<Rightarrow> (screen_live, unit) outcome" where
  "session_start now l =
     (if live_state l \<noteq> SS_APPROVED then raises (Screen ScreenSessionStateError) l
      else let l1 = with_info (\<lambda>i. i\<lparr>sv_started := Some (Aware now)\<rparr>) l;
               l2 = l1\<lparr>lv_session := (lv_session l1)\<lparr>se_last_activity := now\<rparr>\<rparr>
      in case screen_transition now SS_ACTIVE l2 of
           (Inl e, l3) \<Rightarrow> raises e l3
         | (Inr u, l3) \<Rightarrow> returns () (show_indicator (first_stamp (sv_started (live_info l3)) (Aware now)) l3))"

text \<open>\<^verbatim>\<open>stop\<close>, \<^verbatim>\<open>expire\<close> and \<^verbatim>\<open>revoke_due_to_trust\<close>: nothing to do in a terminal state.\<close>

definition end_session :: "int \<Rightarrow> screen_state \<Rightarrow> stop_note \<Rightarrow> screen_live \<Rightarrow> (screen_live, unit) outcome" where
  "end_session now st reason l =
     (if screen_terminal (live_state l) then returns () l
      else case assert_legal_transition (live_state l) st of
        Some e \<Rightarrow> raises e l
      | None \<Rightarrow> returns () (close_live now st reason True l))"

definition session_stop :: "int \<Rightarrow> stop_note \<Rightarrow> screen_live \<Rightarrow> (screen_live, unit) outcome" where
  "session_stop now reason l = end_session now SS_STOPPED reason l"

definition session_expire :: "int \<Rightarrow> screen_live \<Rightarrow> (screen_live, unit) outcome" where
  "session_expire now l = end_session now SS_EXPIRED (Reason SR_EXPIRED) l"

definition session_revoke :: "int \<Rightarrow> screen_live \<Rightarrow> (screen_live, unit) outcome" where
  "session_revoke now l = end_session now SS_REVOKED (Reason SR_TRUST_REVOKED) l"

definition session_ingest ::
  "(string \<Rightarrow> stamp) \<Rightarrow> int \<Rightarrow> screen_frame \<Rightarrow> screen_live \<Rightarrow> (screen_live, bool) outcome" where
  "session_ingest read_iso now f l =
     (let s = lv_session l in
      if se_closed s then raises (Screen ScreenFrameError) l
      else if live_state l \<noteq> SS_ACTIVE then raises (Screen ScreenFrameError) l
      else case buffer_ingest read_iso f (se_buffer s) of
        (Inl e, b) \<Rightarrow> raises e (l\<lparr>lv_session := s\<lparr>se_buffer := b\<rparr>\<rparr>)
      | (Inr added, b) \<Rightarrow>
         (let l1 = l\<lparr>lv_session := s\<lparr>se_buffer := b, se_last_activity := now\<rparr>\<rparr> in
          if \<not> added then returns False l1
          else let l2 = with_info (\<lambda>i. i\<lparr>sv_frame_count := sv_frame_count i + 1,
                     sv_bytes_sent := sv_bytes_sent i + int (length (sf_payload f)),
                     sv_last_frame := Some (Aware now)\<rparr>) l1
          in case remaining_seconds now (live_info l2) of
               Inl e \<Rightarrow> raises e l2
             | Inr n \<Rightarrow> returns True (persist (with_indicator (update_remaining n) l2))))"

definition check_lifecycle :: "int \<Rightarrow> screen_live \<Rightarrow> (screen_live, bool) outcome" where
  "check_lifecycle now l =
     (if screen_terminal (live_state l) then returns True l
      else case info_is_expired now (live_info l) of
        Inl e \<Rightarrow> raises e l
      | Inr True \<Rightarrow>
          (case session_expire now l of (Inl e, l1) \<Rightarrow> raises e l1 | (Inr u, l1) \<Rightarrow> returns True l1)
      | Inr False \<Rightarrow>
          if live_state l = SS_ACTIVE \<and>
             sc_inactivity (se_config (lv_session l)) * second \<le> now - se_last_activity (lv_session l)
          then
            (case session_stop now (Reason SR_INACTIVITY)
                    (with_info (\<lambda>i. i\<lparr>sv_stop_reason := Some (Reason SR_INACTIVITY)\<rparr>) l) of
               (Inl e, l1) \<Rightarrow> raises e l1 | (Inr u, l1) \<Rightarrow> returns True l1)
          else returns False l)"

end
