(* ===== verification/ScreenController.thy ===== *)
theory ScreenController
  imports ScreenSession
begin

text \<open>
  \<^verbatim>\<open>ScreenSessionManager\<close> of \<^verbatim>\<open>guardianmesh/screen/session.py\<close> and
  \<^verbatim>\<open>guardianmesh/screen/controller.py\<close>: the sessions of one process, the two tables that
  survive it, and the operations of the parent and of the child.

  \<open>screen_world\<close> is the state a controller works on.  \<open>sw_sessions\<close> is the manager's
  dictionary in insertion order; \<open>sw_trust\<close> is the trust manager, if one is configured.  The
  identifiers and the nonce that \<^verbatim>\<open>secrets\<close> draws are arguments.
\<close>

record screen_world =
  sw_sessions :: "screen_session list"
  sw_auths :: auth_mgr
  sw_rows :: "screen_info list"
  sw_auth_rows :: "screen_auth list"
  sw_log :: "audit_call list"
  sw_trust :: "pairing_db option"

definition session_key :: "screen_session \<Rightarrow> string" where
  [model_defs]: "session_key s = sv_id (se_info s)"

definition put_session :: "screen_session \<Rightarrow> screen_world \<Rightarrow> screen_world" where
  [model_defs]: "put_session s w =
     w\<lparr>sw_sessions := upsert_row session_key s (\<lambda>old. s) (sw_sessions w)\<rparr>"

section \<open>The manager\<close>

definition get_screen_session :: "string \<Rightarrow> screen_world \<Rightarrow> screen_session option" where
  "get_screen_session sid w = fetch_where (\<lambda>s. session_key s = sid) (sw_sessions w)"

definition require_session :: "string \<Rightarrow> screen_world \<Rightarrow> gm_error + screen_session" where
  "require_session sid w =
     (case get_screen_session sid w of None \<Rightarrow> Inl (Screen ScreenSessionError) | Some s \<Rightarrow> Inr s)"

definition create_screen_session ::
  "int \<Rightarrow> string \<Rightarrow> string \<Rightarrow> string \<Rightarrow> screen_config \<Rightarrow> string option \<Rightarrow>
   screen_world \<Rightarrow> (screen_world, screen_session) outcome" where
  "create_screen_session now sid device parent c transport w =
     (let info = \<lparr>sv_id = sid, sv_device = device, sv_parent = parent, sv_auth = None,
                  sv_state = SS_REQUESTED, sv_transport = transport, sv_requested = Aware now,
                  sv_approved = None, sv_started = None, sv_stopped = None,
                  sv_expires = stamp_after now (sc_max_duration c), sv_last_frame = None,
                  sv_frame_count = 0, sv_bytes_sent = 0, sv_bytes_received = 0,
                  sv_width = sc_width c, sv_height = sc_height c, sv_codec = sc_codec c,
                  sv_max_fps = sc_max_fps c, sv_stop_reason = None, sv_label = sc_label c,
                  sv_metadata = []\<rparr>
      in case new_screen_session now info c True True of
           Inl e \<Rightarrow> raises e w
         | Inr s \<Rightarrow> returns s (put_session s w))"

definition active_sessions :: "screen_world \<Rightarrow> screen_session list" where
  "active_sessions w = filter (\<lambda>s. sv_state (se_info s) = SS_ACTIVE) (sw_sessions w)"

definition sessions_for_device :: "string \<Rightarrow> screen_world \<Rightarrow> screen_session list" where
  "sessions_for_device dev w = filter (\<lambda>s. sv_device (se_info s) = dev) (sw_sessions w)"

definition remove_session :: "string \<Rightarrow> screen_world \<Rightarrow> screen_world" where
  "remove_session sid w = w\<lparr>sw_sessions := filter (\<lambda>s. session_key s \<noteq> sid) (sw_sessions w)\<rparr>"

text \<open>A method of a session run in the world, which keeps what the method changed before it raised.\<close>

definition live_of :: "screen_session \<Rightarrow> screen_world \<Rightarrow> screen_live" where
  [model_defs]: "live_of s w = \<lparr>lv_session = s, lv_auths = sw_auths w, lv_rows = sw_rows w\<rparr>"

definition on_session ::
  "(screen_live \<Rightarrow> (screen_live, 'a) outcome) \<Rightarrow> screen_session \<Rightarrow> screen_world \<Rightarrow> (screen_world, 'a) outcome" where
  "on_session method s w =
     (let (r, l) = method (live_of s w)
      in (r, (put_session (lv_session l) w)\<lparr>sw_auths := lv_auths l, sw_rows := lv_rows l\<rparr>))"

fun sweep_loop :: "int \<Rightarrow> screen_session list \<Rightarrow> string list \<Rightarrow> screen_world \<Rightarrow> (screen_world, string list) outcome" where
  "sweep_loop now [] ended w = returns ended w"
| "sweep_loop now (s # rest) ended w =
     (case on_session (check_lifecycle now) s w of
        (Inl e, w1) \<Rightarrow> raises e w1
      | (Inr x, w1) \<Rightarrow> sweep_loop now rest (if x then ended @ [session_key s] else ended) w1)"

definition sweep_lifecycle :: "int \<Rightarrow> screen_world \<Rightarrow> (screen_world, string list) outcome" where
  "sweep_lifecycle now w = sweep_loop now (sw_sessions w) [] w"

section \<open>The controller\<close>

record view_request =
  vr_device :: string
  vr_parent :: string
  vr_max_duration :: int
  vr_label :: "string option"
  vr_width :: int
  vr_height :: int
  vr_max_fps :: int

definition log_screen :: "string \<Rightarrow> string \<Rightarrow> bool \<Rightarrow> screen_world \<Rightarrow> screen_world" where
  [model_defs]: "log_screen ev actor ok w = w\<lparr>sw_log := audit ev (Some actor) ok (sw_log w)\<rparr>"

definition assert_screen_trust :: "string \<Rightarrow> string \<Rightarrow> screen_world \<Rightarrow> gm_error option" where
  "assert_screen_trust parent device w =
     (case sw_trust w of
        None \<Rightarrow> None
      | Some db \<Rightarrow>
         (case verify_device_trust_or_raise db parent device of
            Inl e \<Rightarrow> Some (Screen ScreenAuthorizationError)
          | Inr d \<Rightarrow> None))"

text \<open>A failing write of the authorization row is swallowed.\<close>

definition save_auth :: "screen_auth \<Rightarrow> screen_world \<Rightarrow> screen_world" where
  "save_auth a w =
     (case auth_upsert a (sw_auth_rows w) of Inl e \<Rightarrow> w | Inr rows \<Rightarrow> w\<lparr>sw_auth_rows := rows\<rparr>)"

definition request_view ::
  "int \<Rightarrow> string \<Rightarrow> string \<Rightarrow> string \<Rightarrow> view_request \<Rightarrow> screen_world \<Rightarrow> (screen_world, string) outcome" where
  "request_view now sid aid nonce q w =
     (if \<not> valid_id (vr_device q) then raises (Screen ScreenAuthorizationError) w
      else if \<not> valid_id (vr_parent q) then raises (Screen ScreenAuthorizationError) w
      else case assert_screen_trust (vr_parent q) (vr_device q) w of
        Some e \<Rightarrow> raises e w
      | None \<Rightarrow>
         (let c = default_screen_config\<lparr>sc_max_duration := vr_max_duration q, sc_width := vr_width q,
                    sc_height := vr_height q, sc_max_fps := vr_max_fps q, sc_label := vr_label q\<rparr>
          in case check_screen_config c of
               Some e \<Rightarrow> raises e w
             | None \<Rightarrow>
                (case create_screen_session now sid (vr_device q) (vr_parent q) c None w of
                   (Inl e, w1) \<Rightarrow> raises e w1
                 | (Inr s, w1) \<Rightarrow>
                    (case on_session (session_request now (vr_device q) (vr_parent q)
                            (Some (vr_max_duration q))) s w1 of
                       (Inl e, w2) \<Rightarrow> raises e w2
                     | (Inr u, w2) \<Rightarrow>
                        (case create_request now aid nonce sid (vr_device q) (vr_parent q)
                                (vr_max_duration q) (vr_label q) (sw_auths w2) of
                           (Inl e, m) \<Rightarrow> raises e (w2\<lparr>sw_auths := m\<rparr>)
                         | (Inr a, m) \<Rightarrow>
                            (let w3 = w2\<lparr>sw_auths := m, sw_sessions := update_where
                                   (\<lambda>x. session_key x = sid)
                                   (\<lambda>x. x\<lparr>se_info := (se_info x)\<lparr>sv_auth := Some (sa_id a)\<rparr>\<rparr>)
                                   (sw_sessions w2)\<rparr>
                             in returns sid (log_screen ''SCREEN_VIEW_REQUESTED'' (vr_parent q) True
                                  (save_auth a w3))))))))"

text \<open>
  The authorization of a session: from memory, or from the table and then also put in memory.
\<close>

definition find_auth :: "string \<Rightarrow> screen_world \<Rightarrow> screen_auth option \<times> screen_world" where
  "find_auth sid w =
     (case get_for_session sid (sw_auths w) of
        Some a \<Rightarrow> (Some a, w)
      | None \<Rightarrow>
         (case auth_row_by_session sid (sw_auth_rows w) of
            None \<Rightarrow> (None, w)
          | Some a \<Rightarrow>
              (Some a, w\<lparr>sw_auths := (let m = put_auth a (sw_auths w)
                          in m\<lparr>am_by_session := (am_by_session m)(sid \<mapsto> sa_id a)\<rparr>)\<rparr>)))"

text \<open>The row is written from the authorization object, which the decision has changed.\<close>

definition save_decided :: "string \<Rightarrow> screen_world \<Rightarrow> screen_world" where
  "save_decided aid w =
     (case get_by_authorization_id aid (sw_auths w) of None \<Rightarrow> w | Some a \<Rightarrow> save_auth a w)"

definition approve_view :: "int \<Rightarrow> string \<Rightarrow> screen_world \<Rightarrow> (screen_world, unit) outcome" where
  "approve_view now sid w =
     (case require_session sid w of
        Inl e \<Rightarrow> raises e w
      | Inr s \<Rightarrow>
         (case find_auth sid w of
            (None, w1) \<Rightarrow> raises (Screen ScreenAuthorizationError) w1
          | (Some a, w1) \<Rightarrow>
              if sa_decision a \<noteq> AD_PENDING then raises (Screen ScreenAuthorizationError) w1
              else case on_session (session_approve now (sa_id a)) s w1 of
                (Inl e, w2) \<Rightarrow> raises e w2
              | (Inr u, w2) \<Rightarrow>
                  returns () (log_screen ''SCREEN_VIEW_APPROVED'' (sv_device (se_info s)) True
                    (save_decided (sa_id a) w2))))"

definition deny_view :: "int \<Rightarrow> string \<Rightarrow> screen_world \<Rightarrow> (screen_world, unit) outcome" where
  "deny_view now sid w =
     (case require_session sid w of
        Inl e \<Rightarrow> raises e w
      | Inr s \<Rightarrow>
         (case find_auth sid w of
            (None, w1) \<Rightarrow> raises (Screen ScreenAuthorizationError) w1
          | (Some a, w1) \<Rightarrow>
              (case on_session (session_deny now (sa_id a)) s w1 of
                (Inl e, w2) \<Rightarrow> raises e w2
              | (Inr u, w2) \<Rightarrow>
                  returns () (log_screen ''SCREEN_VIEW_DENIED'' (sv_device (se_info s)) True
                    (save_decided (sa_id a) w2)))))"

definition start_view :: "int \<Rightarrow> string \<Rightarrow> screen_world \<Rightarrow> (screen_world, unit) outcome" where
  "start_view now sid w =
     (case require_session sid w of
        Inl e \<Rightarrow> raises e w
      | Inr s \<Rightarrow>
          if sv_state (se_info s) \<noteq> SS_APPROVED then raises (Screen ScreenSessionError) w
          else case on_session (session_start now) s w of
            (Inl e, w1) \<Rightarrow> raises e w1
          | (Inr u, w1) \<Rightarrow>
              returns () (log_screen ''SCREEN_SESSION_STARTED'' (sv_device (se_info s)) True w1))"

text \<open>
  After the session has stopped, the audit record reads \<^verbatim>\<open>reason.value\<close>, which a plain
  text does not have.
\<close>

definition stop_view :: "int \<Rightarrow> string \<Rightarrow> stop_note \<Rightarrow> screen_world \<Rightarrow> (screen_world, unit) outcome" where
  "stop_view now sid reason w =
     (case require_session sid w of
        Inl e \<Rightarrow> raises e w
      | Inr s \<Rightarrow>
          if screen_terminal (sv_state (se_info s)) then returns () w
          else case on_session (session_stop now reason) s w of
            (Inl e, w1) \<Rightarrow> raises e w1
          | (Inr u, w1) \<Rightarrow>
             (case reason of
                RawReason x \<Rightarrow> raises (Builtin PyAttributeError) w1
              | Reason r \<Rightarrow>
                  returns () (log_screen
                    (if r = SR_EXPIRED then ''SCREEN_SESSION_EXPIRED'' else ''SCREEN_SESSION_STOPPED'')
                    (if r = SR_PARENT_STOPPED then sv_parent (se_info s) else sv_device (se_info s))
                    True w1)))"

definition revoke_view :: "int \<Rightarrow> string \<Rightarrow> screen_world \<Rightarrow> (screen_world, unit) outcome" where
  "revoke_view now sid w =
     (case require_session sid w of
        Inl e \<Rightarrow> raises e w
      | Inr s \<Rightarrow>
          if screen_terminal (sv_state (se_info s)) then returns () w
          else case on_session (session_revoke now) s w of
            (Inl e, w1) \<Rightarrow> raises e w1
          | (Inr u, w1) \<Rightarrow>
              returns () (log_screen ''SCREEN_SESSION_REVOKED'' (sv_device (se_info s)) False w1))"

definition ingest_view ::
  "(string \<Rightarrow> stamp) \<Rightarrow> int \<Rightarrow> string \<Rightarrow> screen_frame \<Rightarrow> screen_world \<Rightarrow> (screen_world, bool) outcome" where
  "ingest_view read_iso now sid f w =
     (case require_session sid w of
        Inl e \<Rightarrow> raises e w
      | Inr s \<Rightarrow> on_session (session_ingest read_iso now f) s w)"

definition drain_view :: "string \<Rightarrow> screen_world \<Rightarrow> (screen_world, screen_frame list) outcome" where
  "drain_view sid w =
     (case require_session sid w of
        Inl e \<Rightarrow> raises e w
      | Inr s \<Rightarrow>
          let (fs, b) = buffer_drain (se_buffer s) in returns fs (put_session (s\<lparr>se_buffer := b\<rparr>) w))"

text \<open>
  \<open>screen_defaults\<close> are the fields of the configuration that \<^verbatim>\<open>rehydrate_session\<close> reads;
  zero is falsy.
\<close>

record screen_defaults =
  sd_max_duration :: int
  sd_width :: int
  sd_height :: int
  sd_fps :: int

definition rehydrated_config :: "screen_defaults \<Rightarrow> screen_info \<Rightarrow> screen_config" where
  "rehydrated_config d i =
     default_screen_config\<lparr>sc_max_duration := sd_max_duration d,
        sc_width := (if sv_width i = 0 then sd_width d else sv_width i),
        sc_height := (if sv_height i = 0 then sd_height d else sv_height i),
        sc_max_fps := (if sv_max_fps i = 0 then sd_fps d else sv_max_fps i)\<rparr>"

definition hydrate_auth :: "string \<Rightarrow> screen_world \<Rightarrow> screen_world" where
  "hydrate_auth sid w =
     (case auth_row_by_session sid (sw_auth_rows w) of
        None \<Rightarrow> w
      | Some a \<Rightarrow>
          if get_by_authorization_id (sa_id a) (sw_auths w) = None then
            w\<lparr>sw_auths := (let m = put_auth a (sw_auths w)
                           in m\<lparr>am_by_session := (am_by_session m)(sid \<mapsto> sa_id a)\<rparr>)\<rparr>
          else w)"

text \<open>The indicator of a rehydrated session that is \<open>ACTIVE\<close> comes on again.\<close>

definition reactivate :: "int \<Rightarrow> screen_live \<Rightarrow> (screen_live, unit) outcome" where
  "reactivate now l =
     (if live_state l = SS_ACTIVE then
        (let l1 = show_indicator (first_stamp (sv_started (live_info l)) (sv_requested (live_info l))) l
         in case remaining_seconds now (live_info l1) of
              Inl e \<Rightarrow> raises e l1
            | Inr n \<Rightarrow> returns () (with_indicator (update_remaining n) l1))
      else returns () l)"

definition rehydrate_session :: "int \<Rightarrow> screen_defaults \<Rightarrow> string \<Rightarrow> screen_world \<Rightarrow> (screen_world, unit) outcome" where
  "rehydrate_session now d sid w =
     (case screen_row sid (sw_rows w) of
        None \<Rightarrow> raises (Screen ScreenSessionError) w
      | Some i \<Rightarrow>
         (case get_screen_session sid w of
            Some s \<Rightarrow> returns () w
          | None \<Rightarrow>
             (let w1 = hydrate_auth sid w; c = rehydrated_config d i
              in case check_screen_config c of
                   Some e \<Rightarrow> raises e w1
                 | None \<Rightarrow>
                    (case new_screen_session now i c True True of
                       Inl e \<Rightarrow> raises e w1
                     | Inr s \<Rightarrow>
                        (case reactivate now (live_of s w1) of
                           (Inl e, l) \<Rightarrow> raises e w1
                         | (Inr u, l) \<Rightarrow> returns () (put_session (lv_session l) w1))))))"

record screen_diagnostics =
  dg_total :: nat
  dg_active :: nat
  dg_pending :: nat
  dg_denied :: nat
  dg_expired :: nat
  dg_revoked :: nat

definition screen_diagnostics_of :: "screen_world \<Rightarrow> screen_diagnostics" where
  "screen_diagnostics_of w =
     (let in_state = (\<lambda>st. length (filter (\<lambda>s. sv_state (se_info s) = st) (sw_sessions w)))
      in \<lparr>dg_total = length (sw_sessions w), dg_active = in_state SS_ACTIVE,
          dg_pending = length (list_pending_auths (sw_auths w)), dg_denied = in_state SS_DENIED,
          dg_expired = in_state SS_EXPIRED, dg_revoked = in_state SS_REVOKED\<rparr>)"

text \<open>A new process starts with empty memory and the tables as they were.\<close>

definition restart_process :: "screen_world \<Rightarrow> screen_world" where
  "restart_process w = w\<lparr>sw_sessions := [], sw_auths := empty_auth_mgr\<rparr>"

section \<open>Capturing\<close>

record capture_request =
  cq_session :: string
  cq_width :: int
  cq_height :: int
  cq_max_fps :: int
  cq_codec :: screen_codec
  cq_pixel :: pixel_format

record capture_result =
  cr_captured :: bool
  cr_width :: int
  cr_height :: int
  cr_pixel :: pixel_format
  cr_codec :: screen_codec
  cr_payload :: "nat list"

record adapter =
  ap_max_width :: int
  ap_max_height :: int
  ap_max_fps :: int
  ap_counter :: nat
  ap_salt :: "nat list"

text \<open>
  \<^verbatim>\<open>AdapterOnlyScreenProvider.capture\<close>; \<open>sha256\<close> is \<^verbatim>\<open>hashlib\<close>'s digest, and the
  note is not kept.
\<close>

definition adapter_capture ::
  "(nat list \<Rightarrow> nat list) \<Rightarrow> capture_request \<Rightarrow> adapter \<Rightarrow> capture_result \<times> adapter" where
  "adapter_capture sha256 q p =
     (let refused = \<lparr>cr_captured = False, cr_width = 0, cr_height = 0, cr_pixel = cq_pixel q,
                     cr_codec = cq_codec q, cr_payload = []\<rparr> in
      if ap_max_width p < cq_width q \<or> ap_max_height p < cq_height q then (refused, p)
      else if ap_max_fps p < cq_max_fps q then (refused, p)
      else let n = ap_counter p + 1;
               seed = ap_salt p @ map of_char (cq_session q @ ''|'' @ int_str (cq_width q) @ ''x'' @
                        int_str (cq_height q) @ ''|'' @ nat_digits n);
               digest = sha256 seed
      in (\<lparr>cr_captured = True, cr_width = cq_width q, cr_height = cq_height q,
           cr_pixel = cq_pixel q, cr_codec = cq_codec q, cr_payload = digest @ digest\<rparr>,
          p\<lparr>ap_counter := n\<rparr>))"

definition capture_frame ::
  "(nat list \<Rightarrow> nat list) \<Rightarrow> string \<Rightarrow> string \<Rightarrow> string \<Rightarrow> screen_world \<Rightarrow> adapter \<Rightarrow>
   (gm_error + screen_frame) \<times> adapter" where
  "capture_frame sha256 captured_at frame_id sid w p =
     (case require_session sid w of
        Inl e \<Rightarrow> (Inl e, p)
      | Inr s \<Rightarrow>
         (let i = se_info s;
              (r, p') = adapter_capture sha256
                 \<lparr>cq_session = sv_id i, cq_width = sv_width i, cq_height = sv_height i,
                  cq_max_fps = sv_max_fps i, cq_codec = sv_codec i, cq_pixel = PF_TEST\<rparr> p
          in (Inr \<lparr>sf_version = ''1.0'', sf_session = sv_id i, sf_device = sv_device i,
                   sf_id = frame_id, sf_sequence = ft_last (fb_tracker (se_buffer s)) + 1,
                   sf_captured = captured_at, sf_width = cr_width r, sf_height = cr_height r,
                   sf_pixel = cr_pixel r, sf_codec = cr_codec r,
                   sf_payload_size = int (length (cr_payload r)), sf_payload = cr_payload r\<rparr>, p')))"

end
