(* ===== verification/ScreenInvariant.thy ===== *)
theory ScreenInvariant
  imports ScreenController
begin

text \<open>
  What every operation on screen sessions keeps, whatever it raises: an approved session has
  been approved, an active one started, the indicator is on exactly while a session is active,
  the buffer holds what it should, and a session changes state along the transition graph.

  \<open>A\<close>, \<open>S\<close> and \<open>R\<close> say for which session identifiers an approval, a start and a
  request went through before.
\<close>

section \<open>The invariant of a session\<close>

definition info_ok :: "(string \<Rightarrow> bool) \<Rightarrow> (string \<Rightarrow> bool) \<Rightarrow> screen_info \<Rightarrow> bool" where
  "info_ok A S i \<longleftrightarrow> (\<exists>t. sv_expires i = Aware t) \<and>
     (sv_state i = SS_APPROVED \<longrightarrow> A (sv_id i)) \<and> (sv_state i = SS_ACTIVE \<longrightarrow> S (sv_id i))"

definition sess_ok :: "(string \<Rightarrow> bool) \<Rightarrow> (string \<Rightarrow> bool) \<Rightarrow> screen_session \<Rightarrow> bool" where
  "sess_ok A S s \<longleftrightarrow> info_ok A S (se_info s) \<and> buffer_ok (se_buffer s) \<and>
     (in_active (se_indicator s) \<longleftrightarrow> sv_state (se_info s) = SS_ACTIVE)"

definition auth_ok :: "(string \<Rightarrow> bool) \<Rightarrow> auth_mgr \<Rightarrow> bool" where
  "auth_ok R m \<longleftrightarrow> (\<forall>a \<in> set (am_auths m). R (sa_session a)) \<and>
     (\<forall>sid. am_by_session m sid \<noteq> None \<longrightarrow> R sid)"

definition live_ok ::
  "(string \<Rightarrow> bool) \<Rightarrow> (string \<Rightarrow> bool) \<Rightarrow> (string \<Rightarrow> bool) \<Rightarrow> screen_live \<Rightarrow> bool" where
  "live_ok A S R l \<longleftrightarrow> sess_ok A S (lv_session l) \<and> (\<forall>i \<in> set (lv_rows l). info_ok A S i) \<and>
     auth_ok R (lv_auths l)"

text \<open>What a method does to its session: the identifier stays, the state stays or takes a step.\<close>

definition state_follows :: "screen_state \<Rightarrow> screen_state \<Rightarrow> bool" where
  "state_follows s t \<longleftrightarrow> s = t \<or> screen_step s t"

definition session_follows :: "screen_session \<Rightarrow> screen_session \<Rightarrow> bool" where
  "session_follows s t \<longleftrightarrow> session_key t = session_key s \<and>
     state_follows (sv_state (se_info s)) (sv_state (se_info t))"

lemma session_follows_refl [simp]: "session_follows s s"
  by (simp add: session_follows_def state_follows_def)

lemma info_ok_mono:
  "info_ok A S i \<Longrightarrow> (\<And>x. A x \<Longrightarrow> A' x) \<Longrightarrow> (\<And>x. S x \<Longrightarrow> S' x) \<Longrightarrow> info_ok A' S' i"
  by (auto simp: info_ok_def)

lemma sess_ok_mono:
  "sess_ok A S s \<Longrightarrow> (\<And>x. A x \<Longrightarrow> A' x) \<Longrightarrow> (\<And>x. S x \<Longrightarrow> S' x) \<Longrightarrow> sess_ok A' S' s"
  unfolding sess_ok_def using info_ok_mono by blast

lemma live_ok_mono:
  "live_ok A S R l \<Longrightarrow> (\<And>x. A x \<Longrightarrow> A' x) \<Longrightarrow> (\<And>x. S x \<Longrightarrow> S' x) \<Longrightarrow> (\<And>x. R x \<Longrightarrow> R' x) \<Longrightarrow>
   live_ok A' S' R' l"
  using info_ok_mono[of A S _ A' S'] sess_ok_mono[of A S _ A' S']
  by (auto simp: live_ok_def auth_ok_def)

section \<open>Writing the row\<close>

lemma upsert_row_set:
  "x \<in> set (upsert_row key r f rows) \<Longrightarrow> x \<in> set rows \<or> x = r \<or> (\<exists>old \<in> set rows. key old = key r \<and> x = f old)"
  by (auto simp: upsert_row_def update_where_def split: if_splits)

lemma persist_simps [simp]:
  "lv_session (persist l) = lv_session l" "lv_auths (persist l) = lv_auths l"
  by (auto simp: persist_def split: sum.split)

lemma screen_upsert_ok:
  assumes "screen_upsert i rows = Inr rows'" and "info_ok A S i" and "\<forall>x \<in> set rows. info_ok A S x"
  shows "\<forall>x \<in> set rows'. info_ok A S x"
proof
  fix x assume x: "x \<in> set rows'"
  have "\<exists>v. rows' = upsert_row sv_id (i\<lparr>sv_stop_reason := v\<rparr>)
      (\<lambda>old. i\<lparr>sv_stop_reason := v, sv_requested := sv_requested old\<rparr>) rows"
    using assms(1) by (auto simp: screen_upsert_def Let_def split: option.splits stop_note.splits
        list.splits if_splits)
  then obtain v row where row: "row = i\<lparr>sv_stop_reason := v\<rparr>"
      "rows' = upsert_row sv_id row (\<lambda>old. row\<lparr>sv_requested := sv_requested old\<rparr>) rows"
    by auto
  have "info_ok A S row" using assms(2) row(1) by (simp add: info_ok_def)
  moreover have "info_ok A S (row\<lparr>sv_requested := q\<rparr>) = info_ok A S row" for q
    by (simp add: info_ok_def)
  ultimately show "info_ok A S x"
    using upsert_row_set[OF x[unfolded row(2)]] assms(3) by auto
qed

lemma persist_ok: "live_ok A S R l \<Longrightarrow> live_ok A S R (persist l)"
  unfolding live_ok_def persist_def sess_ok_def
  using screen_upsert_ok by (auto split: sum.split)

text \<open>A change of the record that keeps it in order.\<close>

lemma with_info_ok:
  assumes "live_ok A S R l" and "info_ok A S (f (live_info l))"
    and "sv_state (f (live_info l)) = SS_ACTIVE \<longleftrightarrow> live_state l = SS_ACTIVE"
  shows "live_ok A S R (with_info f l)"
  using assms by (simp add: live_ok_def sess_ok_def model_defs)

lemma live_info_ok: "live_ok A S R l \<Longrightarrow> info_ok A S (live_info l)"
  by (simp add: live_ok_def sess_ok_def)

section \<open>One lemma per method\<close>

text \<open>
  The update of the session before the row is written: the caller shows that it is in order.
\<close>

lemma update_indicator_result:
  assumes "info_ok A S (live_info l)"
  obtains l' where "update_indicator now l = (Inr (), l')" "lv_auths l' = lv_auths l"
    "lv_rows l' = lv_rows l" "live_info l' = live_info l"
    "se_buffer (lv_session l') = se_buffer (lv_session l)"
    "live_state l = SS_ACTIVE \<Longrightarrow> in_active (se_indicator (lv_session l'))"
    "screen_terminal (live_state l) \<Longrightarrow> \<not> in_active (se_indicator (lv_session l'))"
    "live_state l \<noteq> SS_ACTIVE \<Longrightarrow> \<not> screen_terminal (live_state l) \<Longrightarrow> l' = l"
proof (cases "live_state l = SS_ACTIVE")
  case True
  obtain n where "remaining_seconds now (live_info l) = Inr n"
    using assms by (auto simp: info_ok_def remaining_seconds_def)
  with True show thesis
    by (intro that[of "snd (update_indicator now l)"])
       (simp_all add: update_indicator_def screen_terminal_def model_defs indicator_activate_def
         update_remaining_def)
next
  case False
  then show thesis
    by (intro that[of "snd (update_indicator now l)"])
       (simp_all add: update_indicator_def model_defs indicator_deactivate_def idle_indicator_def)
qed

lemma screen_transition_ok:
  assumes "live_ok A S R l" and "\<And>x. A x \<Longrightarrow> A' x" and "\<And>x. S x \<Longrightarrow> S' x"
    and "succeeded (screen_transition now t l) \<Longrightarrow> t = SS_APPROVED \<Longrightarrow> A' (sv_id (live_info l))"
    and "succeeded (screen_transition now t l) \<Longrightarrow> t = SS_ACTIVE \<Longrightarrow> S' (sv_id (live_info l))"
  shows "live_ok A' S' R (snd (screen_transition now t l)) \<and>
    session_follows (lv_session l) (lv_session (snd (screen_transition now t l)))"
proof (cases "assert_legal_transition (live_state l) t")
  case (Some e)
  have "live_ok A' S' R l" using live_ok_mono[OF assms(1)] assms(2,3) by blast
  with Some show ?thesis by (simp add: screen_transition_def)
next
  case None
  then have legal: "screen_step (live_state l) t"
    by (auto simp: assert_legal_transition_def screen_step_def split: if_splits)
  let ?l = "with_info (\<lambda>i. i\<lparr>sv_state := t\<rparr>) l"
  have info: "info_ok A S (live_info l)" using assms(1) by (simp add: live_ok_def sess_ok_def)
  have "info_ok (\<lambda>x. True) (\<lambda>x. True) (live_info (persist ?l))"
    using info by (auto simp: info_ok_def model_defs)
  from update_indicator_result[OF this, of now] obtain l' where
    l': "update_indicator now (persist ?l) = (Inr (), l')" "lv_auths l' = lv_auths (persist ?l)"
      "lv_rows l' = lv_rows (persist ?l)" "live_info l' = live_info (persist ?l)"
      "se_buffer (lv_session l') = se_buffer (lv_session (persist ?l))"
      "live_state (persist ?l) = SS_ACTIVE \<Longrightarrow> in_active (se_indicator (lv_session l'))"
      "screen_terminal (live_state (persist ?l)) \<Longrightarrow> \<not> in_active (se_indicator (lv_session l'))"
      "live_state (persist ?l) \<noteq> SS_ACTIVE \<Longrightarrow> \<not> screen_terminal (live_state (persist ?l)) \<Longrightarrow> l' = persist ?l"
    by blast
  have run: "screen_transition now t l = (Inr (), l')" using None l'(1) by (simp add: screen_transition_def)
  have st: "live_state ?l = t" by (simp add: model_defs)
  have ok: "info_ok A' S' (live_info ?l)"
    using info assms(4,5) run by (auto simp: info_ok_def model_defs)
  have rows: "\<forall>i \<in> set (lv_rows ?l). info_ok A' S' i"
    using assms(1-3) info_ok_mono[of A S _ A' S'] by (simp add: live_ok_def model_defs)
  have "\<forall>i \<in> set (lv_rows (persist ?l)). info_ok A' S' i"
    using screen_upsert_ok[OF _ ok rows] rows by (auto simp: persist_def split: sum.split)
  moreover have "in_active (se_indicator (lv_session l')) \<longleftrightarrow> t = SS_ACTIVE"
  proof (cases "t = SS_ACTIVE \<or> screen_terminal t")
    case True
    then show ?thesis using l'(6,7) st by (auto simp: screen_terminal_def)
  next
    case False
    then have "l' = persist ?l" using l'(8) st by simp
    moreover have "live_state l \<noteq> SS_ACTIVE"
      using legal False by (cases "live_state l") (auto simp: screen_step_def screen_terminal_def)
    ultimately show ?thesis using False assms(1) by (simp add: live_ok_def sess_ok_def model_defs)
  qed
  ultimately have "live_ok A' S' R l'"
    using l'(2-5) ok st assms(1) by (auto simp: live_ok_def sess_ok_def model_defs)
  moreover have "session_follows (lv_session l) (lv_session l')"
    using l'(4) legal by (simp add: session_follows_def state_follows_def model_defs)
  ultimately show ?thesis using run by simp
qed

lemma session_request_ok:
  assumes "live_ok A S R l"
  shows "live_ok A S R (snd (session_request now dev par secs l)) \<and>
     session_follows (lv_session l) (lv_session (snd (session_request now dev par secs l)))"
proof (cases "live_state l = SS_REQUESTED")
  case False
  with assms show ?thesis by (simp add: session_request_def)
next
  case True
  let ?f = "\<lambda>i. i\<lparr>sv_device := dev, sv_parent := par,
      sv_expires := (case secs of None \<Rightarrow> sv_expires i
        | Some n \<Rightarrow> if 0 < n then stamp_after now n else sv_expires i)\<rparr>"
  let ?g = "\<lambda>i. i\<lparr>sv_state := SS_PENDING_CHILD_APPROVAL\<rparr>"
  have 1: "live_ok A S R (with_info ?f l)"
    using live_info_ok[OF assms]
    by (intro with_info_ok[OF assms]) (auto simp: info_ok_def stamp_after_def split: option.split)
  then have "live_ok A S R (with_info ?g (with_info ?f l))"
    using live_info_ok[OF 1] True by (intro with_info_ok[OF 1]) (auto simp: info_ok_def model_defs)
  moreover have "session_request now dev par secs l = (Inr (), persist (with_info ?g (with_info ?f l)))"
    using True by (simp add: session_request_def assert_legal_transition_def with_info_def)
  ultimately show ?thesis
    using True persist_ok
    by (simp add: session_follows_def state_follows_def screen_step_def session_key_def with_info_def)
qed

lemma put_auth_mem: "x \<in> set (am_auths (put_auth a m)) \<Longrightarrow> x \<in> set (am_auths m) \<or> x = a"
  using upsert_row_set by (fastforce simp: put_auth_def)

lemma put_auth_ok: "auth_ok R m \<Longrightarrow> R (sa_session a) \<Longrightarrow> auth_ok R (put_auth a m)"
  using put_auth_mem unfolding auth_ok_def by (metis by_session_put)

lemma get_auth_requested: "auth_ok R m \<Longrightarrow> get_by_authorization_id aid m = Some a \<Longrightarrow> R (sa_session a)"
  by (auto simp: get_by_authorization_id_def auth_ok_def dest!: fetch_where_Some)

lemma assert_state_ok:
  "auth_ok R m \<Longrightarrow> R (sa_session a) \<Longrightarrow> auth_ok R (snd (assert_state_for_decision now a m))"
  by (auto simp: assert_state_for_decision_def put_auth_ok split: sum.split bool.split)

lemma approve_auth_ok:
  assumes "auth_ok R m"
  shows "auth_ok R (snd (approve_auth now aid at m))"
proof (cases "get_by_authorization_id aid m")
  case (Some a)
  obtain r m' where r: "assert_state_for_decision now a m = (r, m')" by fastforce
  have "auth_ok R m'" "R (sa_session a)"
    using assert_state_ok[OF assms, of a now] get_auth_requested[OF assms Some] r by auto
  with Some r show ?thesis by (cases r) (auto simp: approve_auth_def Let_def put_auth_ok)
qed (simp add: approve_auth_def assms)

lemma deny_auth_ok:
  assumes "auth_ok R m"
  shows "auth_ok R (snd (deny_auth now aid at m))"
proof (cases "get_by_authorization_id aid m")
  case (Some a)
  obtain r m' where r: "assert_state_for_decision now a m = (r, m')" by fastforce
  have "auth_ok R m'" "R (sa_session a)"
    using assert_state_ok[OF assms, of a now] get_auth_requested[OF assms Some] r by auto
  with Some r show ?thesis by (cases r) (auto simp: deny_auth_def Let_def put_auth_ok)
qed (simp add: deny_auth_def assms)

lemma with_auths_ok: "live_ok A S R l \<Longrightarrow> auth_ok R m \<Longrightarrow> live_ok A S R (l\<lparr>lv_auths := m\<rparr>)"
  by (simp add: live_ok_def)

lemma session_approve_ok:
  assumes ok: "live_ok A S R l" and mono: "\<And>x. A x \<Longrightarrow> A' x"
    and new: "succeeded (session_approve now aid l) \<Longrightarrow> A' (sv_id (live_info l))"
  shows "live_ok A' S R (snd (session_approve now aid l)) \<and>
     session_follows (lv_session l) (lv_session (snd (session_approve now aid l)))"
proof (cases "se_auth_manager (lv_session l)")
  case False
  with live_ok_mono[OF ok] mono show ?thesis by (simp add: session_approve_def)
next
  case True
  obtain r m where r: "approve_auth now aid None (lv_auths l) = (r, m)" by fastforce
  have m: "live_ok A S R (l\<lparr>lv_auths := m\<rparr>)"
    using approve_auth_ok[of R "lv_auths l" now aid None] ok r by (simp add: live_ok_def)
  show ?thesis
  proof (cases r)
    case (Inl e)
    with True r live_ok_mono[OF m, of A' S R] mono show ?thesis by (simp add: session_approve_def)
  next
    case (Inr a)
    let ?l = "with_info (\<lambda>i. i\<lparr>sv_auth := Some aid, sv_approved := Some (Aware now)\<rparr>) (l\<lparr>lv_auths := m\<rparr>)"
    have run: "session_approve now aid l = screen_transition now SS_APPROVED ?l"
      using True r Inr by (simp add: session_approve_def)
    have "live_ok A S R ?l"
      using live_info_ok[OF ok] by (intro with_info_ok[OF m]) (auto simp: info_ok_def)
    from screen_transition_ok[OF this, of A' S now SS_APPROVED] mono new run
    show ?thesis by (simp add: session_follows_def session_key_def with_info_def)
  qed
qed

text \<open>Closing is in order in any state that is terminal.\<close>

lemma close_live_ok:
  assumes "live_ok A S R l" and "screen_terminal st" and "screen_step (live_state l) st"
  shows "live_ok A S R (close_live now st reason clear l) \<and>
     session_follows (lv_session l) (lv_session (close_live now st reason clear l))"
proof -
  define s where "s = (lv_session l)\<lparr>se_info := (live_info l)\<lparr>sv_state := st, sv_stopped := Some (Aware now),
      sv_stop_reason := Some reason\<rparr>, se_indicator := idle_indicator,
      se_buffer := (if clear then buffer_clear (se_buffer (lv_session l)) else se_buffer (lv_session l)),
      se_closed := True\<rparr>"
  have run: "close_live now st reason clear l = persist (l\<lparr>lv_session := s\<rparr>)"
    by (simp add: close_live_def s_def model_defs indicator_deactivate_def Let_def)
  have "info_ok A S (se_info s)"
    using live_info_ok[OF assms(1)] assms(2) by (auto simp: s_def info_ok_def screen_terminal_def)
  then have "live_ok A S R (l\<lparr>lv_session := s\<rparr>)"
    using assms(1,2) by (auto simp: live_ok_def sess_ok_def s_def buffer_clear_ok idle_indicator_def
        screen_terminal_def)
  then show ?thesis unfolding run
    using assms(3) persist_ok by (simp add: session_follows_def session_key_def state_follows_def s_def)
qed

lemma session_deny_ok:
  assumes ok: "live_ok A S R l"
  shows "live_ok A S R (snd (session_deny now aid l)) \<and>
     session_follows (lv_session l) (lv_session (snd (session_deny now aid l)))"
proof (cases "se_auth_manager (lv_session l)")
  case True
  obtain r m where r: "deny_auth now aid None (lv_auths l) = (r, m)" by fastforce
  have m: "live_ok A S R (l\<lparr>lv_auths := m\<rparr>)"
    using deny_auth_ok[of R "lv_auths l" now aid None] ok r by (simp add: live_ok_def)
  show ?thesis
  proof (cases r)
    case (Inl e)
    with True r m show ?thesis by (simp add: session_deny_def)
  next
    case (Inr a)
    let ?l = "with_info (\<lambda>i. i\<lparr>sv_auth := Some aid\<rparr>) (l\<lparr>lv_auths := m\<rparr>)"
    have l: "live_ok A S R ?l"
      using live_info_ok[OF ok] by (intro with_info_ok[OF m]) (auto simp: info_ok_def)
    have same: "session_follows (lv_session l) (lv_session ?l)"
      by (simp add: session_follows_def session_key_def state_follows_def with_info_def)
    show ?thesis
    proof (cases "assert_legal_transition (live_state ?l) SS_DENIED")
      case (Some e)
      with True r Inr l same show ?thesis by (simp add: session_deny_def Let_def)
    next
      case None
      then have "screen_step (live_state ?l) SS_DENIED"
        by (auto simp: assert_legal_transition_def screen_step_def split: if_splits)
      from close_live_ok[OF l _ this] True r Inr None show ?thesis
        by (simp add: session_deny_def Let_def screen_terminal_def session_follows_def
            session_key_def with_info_def)
    qed
  qed
qed (simp add: session_deny_def ok)

lemma end_session_ok:
  assumes "live_ok A S R l" and "screen_terminal st"
  shows "live_ok A S R (snd (end_session now st reason l)) \<and>
     session_follows (lv_session l) (lv_session (snd (end_session now st reason l)))"
  using assms close_live_ok[OF assms, of now reason True]
  by (auto simp: end_session_def assert_legal_transition_def screen_step_def)

lemma session_start_ok:
  assumes ok: "live_ok A S R l" and mono: "\<And>x. S x \<Longrightarrow> S' x"
    and new: "succeeded (session_start now l) \<Longrightarrow> S' (sv_id (live_info l))"
  shows "live_ok A S' R (snd (session_start now l)) \<and>
     session_follows (lv_session l) (lv_session (snd (session_start now l)))"
proof (cases "live_state l = SS_APPROVED")
  case False
  with live_ok_mono[OF ok] mono show ?thesis by (simp add: session_start_def)
next
  case True
  let ?l1 = "with_info (\<lambda>i. i\<lparr>sv_started := Some (Aware now)\<rparr>) l"
  let ?l = "?l1\<lparr>lv_session := (lv_session ?l1)\<lparr>se_last_activity := now\<rparr>\<rparr>"
  have l: "live_ok A S R ?l"
    using ok by (auto simp: live_ok_def sess_ok_def info_ok_def model_defs)
  obtain r l3 where t: "screen_transition now SS_ACTIVE ?l = (r, l3)" by fastforce
  have aware: "info_ok (\<lambda>x. True) (\<lambda>x. True) (live_info (persist (with_info (\<lambda>i. i\<lparr>sv_state := SS_ACTIVE\<rparr>) ?l)))"
    using live_info_ok[OF ok] by (auto simp: info_ok_def model_defs)
  obtain l' where "update_indicator now (persist (with_info (\<lambda>i. i\<lparr>sv_state := SS_ACTIVE\<rparr>) ?l)) = (Inr (), l')"
    "live_info l' = live_info (persist (with_info (\<lambda>i. i\<lparr>sv_state := SS_ACTIVE\<rparr>) ?l))"
    using update_indicator_result[OF aware] by metis
  then have r: "r = Inr ()" "live_state l3 = SS_ACTIVE"
    using t True by (auto simp: screen_transition_def assert_legal_transition_def model_defs)
  then have run: "session_start now l = (Inr (), show_indicator (first_stamp (sv_started (live_info l3)) (Aware now)) l3)"
    using True t by (simp add: session_start_def Let_def)
  have "live_ok A S' R l3 \<and> session_follows (lv_session ?l) (lv_session l3)"
    using screen_transition_ok[OF l, of A S' now SS_ACTIVE] mono new t run
    by (simp add: with_info_def)
  then show ?thesis unfolding run
    using r(2) by (auto simp: live_ok_def sess_ok_def model_defs session_follows_def indicator_activate_def)
qed

lemma session_ingest_ok:
  assumes ok: "live_ok A S R l"
  shows "live_ok A S R (snd (session_ingest rd now f l)) \<and>
     session_follows (lv_session l) (lv_session (snd (session_ingest rd now f l)))"
proof -
  let ?s = "lv_session l"
  obtain r b where r: "buffer_ingest rd f (se_buffer ?s) = (r, b)" by fastforce
  have b: "buffer_ok b"
    using buffer_ingest_ok[of "se_buffer ?s" rd f] ok r by (simp add: live_ok_def sess_ok_def)
  have l1: "live_ok A S R (l\<lparr>lv_session := ?s\<lparr>se_buffer := b, se_last_activity := t\<rparr>\<rparr>)" for t
    using ok b by (simp add: live_ok_def sess_ok_def)
  have l1': "live_ok A S R (l\<lparr>lv_session := ?s\<lparr>se_buffer := b\<rparr>\<rparr>)"
    using ok b by (simp add: live_ok_def sess_ok_def)
  let ?g = "\<lambda>i. i\<lparr>sv_frame_count := sv_frame_count i + 1,
      sv_bytes_sent := sv_bytes_sent i + int (length (sf_payload f)), sv_last_frame := Some (Aware now)\<rparr>"
  let ?l2 = "with_info ?g (l\<lparr>lv_session := ?s\<lparr>se_buffer := b, se_last_activity := now\<rparr>\<rparr>)"
  have l2: "live_ok A S R ?l2"
    using live_info_ok[OF l1] by (intro with_info_ok[OF l1]) (auto simp: info_ok_def)
  have l3: "live_ok A S R (with_indicator (update_remaining n) ?l2)" for n
    using l2 by (simp add: live_ok_def sess_ok_def update_remaining_def with_indicator_def)
  have aware: "\<exists>n. remaining_seconds now (live_info ?l2) = Inr n"
    using live_info_ok[OF l2] by (auto simp: info_ok_def remaining_seconds_def)
  consider "se_closed ?s \<or> live_state l \<noteq> SS_ACTIVE" | e where "\<not> se_closed ?s" "live_state l = SS_ACTIVE" "r = Inl e"
    | "\<not> se_closed ?s" "live_state l = SS_ACTIVE" "r = Inr False"
    | n where "\<not> se_closed ?s" "live_state l = SS_ACTIVE" "r = Inr True" "remaining_seconds now (live_info ?l2) = Inr n"
    using aware by (cases r) auto
  then show ?thesis
  proof cases
    case 1
    with ok show ?thesis by (auto simp: session_ingest_def Let_def)
  next
    case 2
    with r l1' show ?thesis
      by (simp add: session_ingest_def Let_def session_follows_def session_key_def state_follows_def)
  next
    case 3
    with r l1 show ?thesis
      by (simp add: session_ingest_def Let_def session_follows_def session_key_def state_follows_def)
  next
    case 4
    then have "session_ingest rd now f l = (Inr True, persist (with_indicator (update_remaining n) ?l2))"
      using r by (simp add: session_ingest_def Let_def)
    then show ?thesis using persist_ok[OF l3[of n]]
      by (simp add: session_follows_def session_key_def state_follows_def with_info_def with_indicator_def)
  qed
qed

lemma check_lifecycle_ok:
  assumes ok: "live_ok A S R l"
  shows "live_ok A S R (snd (check_lifecycle now l)) \<and>
     session_follows (lv_session l) (lv_session (snd (check_lifecycle now l)))"
proof -
  let ?l = "with_info (\<lambda>i. i\<lparr>sv_stop_reason := Some (Reason SR_INACTIVITY)\<rparr>) l"
  have l: "live_ok A S R ?l"
    using live_info_ok[OF ok] by (intro with_info_ok[OF ok]) (auto simp: info_ok_def)
  obtain r1 l1 where r1: "session_expire now l = (r1, l1)" by fastforce
  obtain r2 l2 where r2: "session_stop now (Reason SR_INACTIVITY) ?l = (r2, l2)" by fastforce
  have 1: "live_ok A S R l1 \<and> session_follows (lv_session l) (lv_session l1)"
    using end_session_ok[OF ok, of SS_EXPIRED now "Reason SR_EXPIRED"] r1
    by (simp add: session_expire_def screen_terminal_def)
  have 2: "live_ok A S R l2 \<and> session_follows (lv_session l) (lv_session l2)"
    using end_session_ok[OF l, of SS_STOPPED now "Reason SR_INACTIVITY"] r2
    by (simp add: session_stop_def screen_terminal_def session_follows_def session_key_def with_info_def)
  show ?thesis
  proof (cases "info_is_expired now (live_info l)")
    case (Inl e)
    with ok show ?thesis by (simp add: check_lifecycle_def)
  next
    case (Inr x)
    with ok 1 2 r1 r2 show ?thesis
      by (cases x; cases r1; cases r2) (auto simp: check_lifecycle_def)
  qed
qed

end
