(* ===== verification/ScreenRuns.thy ===== *)
theory ScreenRuns
  imports ScreenInvariant
begin

text \<open>
  What holds of a controller over whole runs: any sequence of operations of parents and
  children, housekeeping and restarts of the process, from an empty database.
\<close>

section \<open>Runs\<close>

datatype screen_op =
    RequestView string string string view_request
  | ApproveView string
  | DenyView string
  | StartView string
  | StopView string stop_note
  | RevokeView string
  | IngestView string screen_frame
  | DrainView string
  | SweepSessions
  | ExpireAuths
  | RevokeAuth string string
  | Rehydrate string
  | Restart

definition finish :: "(screen_world, 'a) outcome \<Rightarrow> bool \<times> screen_world" where
  [model_defs]: "finish r = (succeeded r, snd r)"

definition on_auths :: "(auth_mgr, 'a) outcome \<Rightarrow> screen_world \<Rightarrow> bool \<times> screen_world" where
  [model_defs]: "on_auths r w = (succeeded r, w\<lparr>sw_auths := snd r\<rparr>)"

fun screen_exec ::
  "(string \<Rightarrow> stamp) \<Rightarrow> screen_defaults \<Rightarrow> int \<Rightarrow> screen_op \<Rightarrow> screen_world \<Rightarrow> bool \<times> screen_world" where
  "screen_exec rd d now (RequestView sid aid nonce q) w = finish (request_view now sid aid nonce q w)"
| "screen_exec rd d now (ApproveView sid) w = finish (approve_view now sid w)"
| "screen_exec rd d now (DenyView sid) w = finish (deny_view now sid w)"
| "screen_exec rd d now (StartView sid) w = finish (start_view now sid w)"
| "screen_exec rd d now (StopView sid reason) w = finish (stop_view now sid reason w)"
| "screen_exec rd d now (RevokeView sid) w = finish (revoke_view now sid w)"
| "screen_exec rd d now (IngestView sid f) w = finish (ingest_view rd now sid f w)"
| "screen_exec rd d now (DrainView sid) w = finish (drain_view sid w)"
| "screen_exec rd d now SweepSessions w = finish (sweep_lifecycle now w)"
| "screen_exec rd d now ExpireAuths w = on_auths (expire_due now (sw_auths w)) w"
| "screen_exec rd d now (RevokeAuth aid reason) w = on_auths (revoke_auth aid reason (sw_auths w)) w"
| "screen_exec rd d now (Rehydrate sid) w = finish (rehydrate_session now d sid w)"
| "screen_exec rd d now Restart w = (True, restart_process w)"

text \<open>The operations of a run that went through, in order, and the world after it.\<close>

fun screen_run ::
  "(string \<Rightarrow> stamp) \<Rightarrow> screen_defaults \<Rightarrow> (int \<times> screen_op) list \<Rightarrow> screen_world \<Rightarrow>
   screen_op list \<times> screen_world" where
  "screen_run rd d [] w = ([], w)"
| "screen_run rd d ((t, op) # ops) w =
     (let (ok, w1) = screen_exec rd d t op w; (h, w2) = screen_run rd d ops w1
      in ((if ok then [op] else []) @ h, w2))"

definition fresh_world :: "pairing_db option \<Rightarrow> screen_world" where
  "fresh_world trust = \<lparr>sw_sessions = [], sw_auths = empty_auth_mgr, sw_rows = [],
     sw_auth_rows = [], sw_log = [], sw_trust = trust\<rparr>"

definition requested_in :: "screen_op list \<Rightarrow> string \<Rightarrow> bool" where
  "requested_in h sid \<longleftrightarrow> (\<exists>aid nonce q. RequestView sid aid nonce q \<in> set h)"

definition approved_in :: "screen_op list \<Rightarrow> string \<Rightarrow> bool" where
  "approved_in h sid \<longleftrightarrow> (\<exists>aid nonce q. subseq [RequestView sid aid nonce q, ApproveView sid] h)"

definition started_in :: "screen_op list \<Rightarrow> string \<Rightarrow> bool" where
  "started_in h sid \<longleftrightarrow>
     (\<exists>aid nonce q. subseq [RequestView sid aid nonce q, ApproveView sid, StartView sid] h)"

definition world_ok :: "screen_op list \<Rightarrow> screen_world \<Rightarrow> bool" where
  "world_ok h w \<longleftrightarrow> keyed session_key (sw_sessions w) \<and>
     (\<forall>s \<in> set (sw_sessions w). sess_ok (approved_in h) (started_in h) s) \<and>
     (\<forall>i \<in> set (sw_rows w). info_ok (approved_in h) (started_in h) i) \<and>
     auth_ok (requested_in h) (sw_auths w) \<and>
     (\<forall>a \<in> set (sw_auth_rows w). requested_in h (sa_session a))"

section \<open>The invariant\<close>

lemma history_mono:
  "requested_in h sid \<Longrightarrow> requested_in (h @ h') sid"
  "approved_in h sid \<Longrightarrow> approved_in (h @ h') sid"
  "started_in h sid \<Longrightarrow> started_in (h @ h') sid"
  unfolding requested_in_def approved_in_def started_in_def
  by (auto intro: list_emb_prefix)

lemma history_steps:
  "requested_in (h @ [RequestView sid aid nonce q]) sid"
  "requested_in h sid \<Longrightarrow> approved_in (h @ [ApproveView sid]) sid"
  "approved_in h sid \<Longrightarrow> started_in (h @ [StartView sid]) sid"
proof -
  show "requested_in (h @ [RequestView sid aid nonce q]) sid"
    by (auto simp: requested_in_def)
  assume "requested_in h sid"
  then obtain aid nonce q where "subseq [RequestView sid aid nonce q] h"
    by (auto simp: requested_in_def subseq_singleton_left)
  from list_emb_append_mono[OF this, of "[ApproveView sid]" "[ApproveView sid]"]
  show "approved_in (h @ [ApproveView sid]) sid" by (auto simp: approved_in_def)
next
  assume "approved_in h sid"
  then obtain aid nonce q where "subseq [RequestView sid aid nonce q, ApproveView sid] h"
    by (auto simp: approved_in_def)
  from list_emb_append_mono[OF this, of "[StartView sid]" "[StartView sid]"]
  show "started_in (h @ [StartView sid]) sid" by (auto simp: started_in_def)
qed

lemma auth_ok_mono: "auth_ok R m \<Longrightarrow> (\<And>x. R x \<Longrightarrow> R' x) \<Longrightarrow> auth_ok R' m"
  by (auto simp: auth_ok_def)

lemma world_ok_mono: "world_ok h w \<Longrightarrow> world_ok (h @ h') w"
  using history_mono[of h _ h'] sess_ok_mono[of "approved_in h" "started_in h" _ "approved_in (h @ h')" "started_in (h @ h')"]
    info_ok_mono[of "approved_in h" "started_in h" _ "approved_in (h @ h')" "started_in (h @ h')"]
    auth_ok_mono[of "requested_in h" _ "requested_in (h @ h')"]
  by (auto simp: world_ok_def)

lemma upsert_whole_set: "x \<in> set (upsert_row key r (\<lambda>old. r) rows) \<Longrightarrow> x \<in> set rows \<or> x = r"
  using upsert_row_set by fastforce

lemma put_session_ok:
  assumes "world_ok h w" and "sess_ok (approved_in h) (started_in h) s"
  shows "world_ok h (put_session s w)"
proof -
  have "keyed session_key (upsert_row session_key s (\<lambda>old. s) (sw_sessions w))"
    using assms(1) by (intro keyed_upsert_row) (auto simp: world_ok_def)
  then show ?thesis
    using assms upsert_whole_set[of _ session_key s "sw_sessions w"]
    by (auto simp: world_ok_def put_session_def)
qed

lemma log_screen_ok [simp]: "world_ok h (log_screen ev actor ok w) = world_ok h w"
  by (simp add: world_ok_def log_screen_def)

lemma require_session_mem: "require_session sid w = Inr s \<Longrightarrow> s \<in> set (sw_sessions w) \<and> session_key s = sid"
  by (auto simp: require_session_def get_screen_session_def split: option.splits dest!: fetch_where_Some)

lemma world_session:
  "world_ok h w \<Longrightarrow> require_session sid w = Inr s \<Longrightarrow> sess_ok (approved_in h) (started_in h) s"
  by (auto simp: world_ok_def dest!: require_session_mem)

text \<open>A method that keeps a session in order keeps the world in order.\<close>

lemma live_of_ok:
  "world_ok h w \<Longrightarrow> sess_ok (approved_in h) (started_in h) s \<Longrightarrow>
   live_ok (approved_in h) (started_in h) (requested_in h) (live_of s w)"
  by (simp add: live_ok_def world_ok_def live_of_def)

lemma succeeded_on_session [simp]: "succeeded (on_session method s w) = succeeded (method (live_of s w))"
  by (simp add: on_session_def succeeded_def split: prod.split)

lemma on_session_ok:
  assumes "world_ok h w" and "live_ok (approved_in (h @ h')) (started_in (h @ h')) (requested_in h)
      (snd (method (live_of s w)))"
  shows "world_ok (h @ h') (snd (on_session method s w))"
proof -
  obtain r l where l: "method (live_of s w) = (r, l)" by fastforce
  have out: "live_ok (approved_in (h @ h')) (started_in (h @ h')) (requested_in h) l"
    using assms(2) l by simp
  have "world_ok (h @ h') (put_session (lv_session l) w)"
    using out by (intro put_session_ok world_ok_mono assms(1)) (simp add: live_ok_def)
  then show ?thesis
    using out l history_mono(1)[of h _ h'] auth_ok_mono[of "requested_in h" "lv_auths l" "requested_in (h @ h')"]
    by (simp add: on_session_def live_ok_def world_ok_def put_session_def)
qed

lemmas on_session_kept = on_session_ok[where h' = "[]", simplified]

lemma save_auth_ok:
  assumes "world_ok h w" and "requested_in h (sa_session a)"
  shows "world_ok h (save_auth a w)"
proof (cases "auth_upsert a (sw_auth_rows w)")
  case (Inl e)
  with assms show ?thesis by (simp add: save_auth_def)
next
  case (Inr rows)
  have "requested_in h (sa_session x)" if "x \<in> set rows" for x
    using Inr that assms upsert_row_set[of x sa_id a _ "sw_auth_rows w"]
    by (fastforce simp: auth_upsert_def world_ok_def split: if_splits)
  with Inr assms show ?thesis by (simp add: save_auth_def world_ok_def)
qed

lemma save_decided_ok: "world_ok h w \<Longrightarrow> world_ok h (save_decided aid w)"
  using save_auth_ok[of h w] get_auth_requested[of "requested_in h" "sw_auths w" aid]
  by (auto simp: save_decided_def world_ok_def split: option.split)

lemma hydrate_mgr_ok:
  "auth_ok R m \<Longrightarrow> R (sa_session a) \<Longrightarrow> R sid \<Longrightarrow>
   auth_ok R (let m' = put_auth a m in m'\<lparr>am_by_session := (am_by_session m')(sid \<mapsto> sa_id a)\<rparr>)"
  using put_auth_ok[of R m a] by (auto simp: auth_ok_def Let_def)

lemma auth_row_session:
  "auth_row_by_session sid rows = Some a \<Longrightarrow> a \<in> set rows \<and> sa_session a = sid"
  by (auto simp: auth_row_by_session_def dest!: fetch_where_Some)

lemma find_auth_ok:
  assumes "world_ok h w" and "find_auth sid w = (a, w1)"
  shows "world_ok h w1 \<and> (a \<noteq> None \<longrightarrow> requested_in h sid) \<and> sw_sessions w1 = sw_sessions w"
proof (cases "get_for_session sid (sw_auths w)")
  case (Some x)
  then have "am_by_session (sw_auths w) sid \<noteq> None"
    by (auto simp: get_for_session_def split: option.splits)
  with Some assms show ?thesis by (auto simp: find_auth_def world_ok_def auth_ok_def)
next
  case None
  show ?thesis
  proof (cases "auth_row_by_session sid (sw_auth_rows w)")
    case (Some x)
    have req: "requested_in h sid" "requested_in h (sa_session x)"
      using auth_row_session[OF Some] assms(1) by (auto simp: world_ok_def)
    have mgr: "auth_ok (requested_in h) (sw_auths w)" using assms(1) by (simp add: world_ok_def)
    have w1: "a = Some x" "w1 = w\<lparr>sw_auths := (let m = put_auth x (sw_auths w)
        in m\<lparr>am_by_session := (am_by_session m)(sid \<mapsto> sa_id x)\<rparr>)\<rparr>"
      using assms(2) None Some by (auto simp: find_auth_def)
    show ?thesis
      using w1 req(1) hydrate_mgr_ok[OF mgr req(2,1)] assms(1) by (simp add: world_ok_def Let_def)
  next
    case none: None
    with None assms show ?thesis by (simp add: find_auth_def)
  qed
qed

section \<open>Every operation keeps the world in order\<close>

lemma create_screen_session_ok:
  assumes "world_ok h w"
  shows "world_ok h (snd (create_screen_session now sid dev par c tr w))"
    and "fst (create_screen_session now sid dev par c tr w) = Inr s \<Longrightarrow>
      sess_ok (approved_in h) (started_in h) s \<and> session_key s = sid"
proof -
  have new: "sess_ok (approved_in h) (started_in h) s'"
    if "new_screen_session now i c True True = Inr s'" "sv_state i = SS_REQUESTED"
      "sv_expires i = stamp_after now n" for i s' n
    using that new_frame_buffer_ok
    by (auto simp: new_screen_session_def and_then_def sess_ok_def info_ok_def idle_indicator_def
        stamp_after_def split: sum.splits)
  have key: "se_info s' = i" if "new_screen_session now i c True True = Inr s'" for i s'
    using that by (auto simp: new_screen_session_def and_then_def split: sum.splits)
  show "world_ok h (snd (create_screen_session now sid dev par c tr w))"
    using assms new by (auto simp: create_screen_session_def Let_def put_session_ok split: sum.split)
  show "fst (create_screen_session now sid dev par c tr w) = Inr s \<Longrightarrow>
      sess_ok (approved_in h) (started_in h) s \<and> session_key s = sid"
    using new key by (auto simp: create_screen_session_def Let_def session_key_def split: sum.splits)
qed

lemma create_request_ok:
  assumes "auth_ok R m" and "R sid"
  shows "auth_ok R (snd (create_request now aid nonce sid dev par secs lab m))"
proof -
  have "auth_ok R (let m' = put_auth a m in m'\<lparr>am_by_session := (am_by_session m')(sid \<mapsto> aid)\<rparr>)"
    if "sa_session a = sid" "sa_id a = aid" for a
    using hydrate_mgr_ok[OF assms(1), of a sid] assms(2) that by simp
  with assms(1) show ?thesis by (simp add: create_request_def Let_def split: option.split)
qed

lemma create_request_fails:
  "fst (create_request now aid nonce sid dev par secs lab m) = Inl e \<Longrightarrow>
   snd (create_request now aid nonce sid dev par secs lab m) = m"
  by (auto simp: create_request_def Let_def split: if_splits option.splits)

lemma create_request_session:
  "create_request now aid nonce sid dev par secs lab m = (Inr a, m') \<Longrightarrow> sa_session a = sid"
  by (auto simp: create_request_def Let_def split: if_splits option.splits)

lemma bind_auth_ok:
  assumes "world_ok h w"
  shows "world_ok h (w\<lparr>sw_sessions := update_where (\<lambda>x. session_key x = sid)
    (\<lambda>x. x\<lparr>se_info := (se_info x)\<lparr>sv_auth := v\<rparr>\<rparr>) (sw_sessions w)\<rparr>)"
proof -
  have "keyed session_key (update_where (\<lambda>x. session_key x = sid)
      (\<lambda>x. x\<lparr>se_info := (se_info x)\<lparr>sv_auth := v\<rparr>\<rparr>) (sw_sessions w))"
    using assms by (intro keyed_update_where) (auto simp: world_ok_def session_key_def)
  moreover have "sess_ok A S (x\<lparr>se_info := (se_info x)\<lparr>sv_auth := v\<rparr>\<rparr>) = sess_ok A S x" for A S x
    by (simp add: sess_ok_def info_ok_def)
  ultimately show ?thesis using assms by (auto simp: world_ok_def table_simps)
qed

lemma request_view_ok:
  assumes "world_ok h w"
  shows "world_ok (if succeeded (request_view now sid aid nonce q w)
      then h @ [RequestView sid aid nonce q] else h) (snd (request_view now sid aid nonce q w))"
proof -
  let ?h = "h @ [RequestView sid aid nonce q]"
  let ?c = "default_screen_config\<lparr>sc_max_duration := vr_max_duration q, sc_width := vr_width q,
      sc_height := vr_height q, sc_max_fps := vr_max_fps q, sc_label := vr_label q\<rparr>"
  let ?early = "\<not> valid_id (vr_device q) \<or> \<not> valid_id (vr_parent q) \<or>
      assert_screen_trust (vr_parent q) (vr_device q) w \<noteq> None \<or> check_screen_config ?c \<noteq> None"
  show ?thesis
  proof (cases ?early)
    case True
    with assms show ?thesis by (auto simp: request_view_def Let_def split: option.split)
  next
    case False
    obtain r w1 where r: "create_screen_session now sid (vr_device q) (vr_parent q) ?c None w = (r, w1)"
      by fastforce
    have w1: "world_ok h w1" using create_screen_session_ok(1)[OF assms] r by (metis snd_conv)
    show ?thesis
    proof (cases r)
      case (Inl e)
      with False r w1 show ?thesis by (auto simp: request_view_def Let_def)
    next
      case (Inr s)
      have s: "sess_ok (approved_in h) (started_in h) s"
        using create_screen_session_ok(2)[OF assms] r Inr by (metis fst_conv)
      obtain r2 w2 where r2: "on_session (session_request now (vr_device q) (vr_parent q)
          (Some (vr_max_duration q))) s w1 = (r2, w2)" by fastforce
      have w2: "world_ok h w2"
        using on_session_kept[OF w1, of "session_request now (vr_device q) (vr_parent q) (Some (vr_max_duration q))" s]
          session_request_ok[OF live_of_ok[OF w1 s]] r2 by simp
      show ?thesis
      proof (cases r2)
        case (Inl e)
        with False r Inr r2 w2 show ?thesis by (auto simp: request_view_def Let_def)
      next
        case (Inr u)
        obtain r3 m where r3: "create_request now aid nonce sid (vr_device q) (vr_parent q)
            (vr_max_duration q) (vr_label q) (sw_auths w2) = (r3, m)" by fastforce
        show ?thesis
        proof (cases r3)
          case (Inl e)
          then have "m = sw_auths w2" using create_request_fails r3 by (metis fst_conv snd_conv)
          with False r \<open>r = Inr s\<close> r2 Inr r3 Inl w2 show ?thesis
            by (auto simp: request_view_def Let_def)
        next
          case (Inr a)
          have req: "requested_in ?h sid" by (rule history_steps)
          have w2': "world_ok ?h w2" using w2 by (rule world_ok_mono)
          then have "auth_ok (requested_in ?h) m"
            using create_request_ok[of "requested_in ?h" "sw_auths w2" sid] req r3
            by (metis snd_conv world_ok_def)
          then have w3: "world_ok ?h (w2\<lparr>sw_auths := m\<rparr>)" using w2' by (simp add: world_ok_def)
          have "world_ok ?h (save_auth a (w2\<lparr>sw_auths := m, sw_sessions := update_where
              (\<lambda>x. session_key x = sid) (\<lambda>x. x\<lparr>se_info := (se_info x)\<lparr>sv_auth := Some (sa_id a)\<rparr>\<rparr>)
              (sw_sessions w2)\<rparr>))"
            using bind_auth_ok[OF w3, of sid "Some (sa_id a)"] create_request_session r3 Inr req
            by (intro save_auth_ok) auto
          with False r \<open>r = Inr s\<close> r2 \<open>r2 = Inr u\<close> r3 Inr show ?thesis
            by (auto simp: request_view_def Let_def)
        qed
      qed
    qed
  qed
qed

lemma approve_view_ok:
  assumes "world_ok h w"
  shows "world_ok (if succeeded (approve_view now sid w) then h @ [ApproveView sid] else h)
    (snd (approve_view now sid w))"
proof (cases "require_session sid w")
  case (Inl e)
  with assms show ?thesis by (simp add: approve_view_def)
next
  case (Inr s)
  obtain a w1 where a: "find_auth sid w = (a, w1)" by fastforce
  note w1 = find_auth_ok[OF assms a]
  have s: "sess_ok (approved_in h) (started_in h) s" using world_session[OF assms Inr] .
  show ?thesis
  proof (cases "\<exists>x. a = Some x \<and> sa_decision x = AD_PENDING")
    case False
    with Inr a w1 show ?thesis by (cases a) (auto simp: approve_view_def)
  next
    case True
    then obtain x where x: "a = Some x" "sa_decision x = AD_PENDING" by blast
    have req: "approved_in (h @ [ApproveView sid]) sid" using w1 x by (auto intro: history_steps)
    let ?m = "session_approve now (sa_id x)"
    have key: "sv_id (se_info s) = sid" using require_session_mem[OF Inr] by (simp add: session_key_def)
    have w1h: "world_ok h w1" using w1 by blast
    let ?h' = "if succeeded (?m (live_of s w1)) then [ApproveView sid] else []"
    have "live_ok (approved_in (h @ ?h')) (started_in h) (requested_in h) (snd (?m (live_of s w1)))"
      using session_approve_ok[OF live_of_ok[OF w1h s], of "approved_in (h @ ?h')" now "sa_id x"]
        history_mono(2) req key by (simp add: live_of_def)
    then have "live_ok (approved_in (h @ ?h')) (started_in (h @ ?h')) (requested_in h) (snd (?m (live_of s w1)))"
      by (rule live_ok_mono) (auto intro: history_mono)
    then have w2: "world_ok (h @ ?h') (snd (on_session ?m s w1))"
      by (rule on_session_ok[OF w1h])
    obtain r w2 where r: "on_session ?m s w1 = (r, w2)" by fastforce
    have "succeeded (?m (live_of s w1)) = succeeded (r, w2)"
      using succeeded_on_session[of ?m s w1] r by simp
    with Inr a x w2 r save_decided_ok show ?thesis
      by (cases r) (auto simp: approve_view_def)
  qed
qed

text \<open>The operations that neither approve nor start.\<close>

lemma deny_view_ok:
  assumes "world_ok h w"
  shows "world_ok h (snd (deny_view now sid w))"
proof (cases "require_session sid w")
  case (Inl e)
  with assms show ?thesis by (simp add: deny_view_def)
next
  case (Inr s)
  obtain a w1 where a: "find_auth sid w = (a, w1)" by fastforce
  have w1: "world_ok h w1" using find_auth_ok[OF assms a] by blast
  show ?thesis
  proof (cases a)
    case None
    with Inr a w1 show ?thesis by (simp add: deny_view_def)
  next
    case (Some x)
    obtain r w2 where r: "on_session (session_deny now (sa_id x)) s w1 = (r, w2)" by fastforce
    have "world_ok h w2"
      using on_session_kept[OF w1, of "session_deny now (sa_id x)" s] r
        session_deny_ok[OF live_of_ok[OF w1 world_session[OF assms Inr]]] by simp
    with Inr a Some r save_decided_ok show ?thesis by (cases r) (auto simp: deny_view_def)
  qed
qed

lemma start_view_ok:
  assumes "world_ok h w"
  shows "world_ok (if succeeded (start_view now sid w) then h @ [StartView sid] else h)
    (snd (start_view now sid w))"
proof (cases "require_session sid w")
  case (Inl e)
  with assms show ?thesis by (simp add: start_view_def)
next
  case (Inr s)
  have s: "sess_ok (approved_in h) (started_in h) s" using world_session[OF assms Inr] .
  have key: "sv_id (se_info s) = sid" using require_session_mem[OF Inr] by (simp add: session_key_def)
  show ?thesis
  proof (cases "sv_state (se_info s) = SS_APPROVED")
    case False
    with Inr assms show ?thesis by (simp add: start_view_def)
  next
    case True
    then have req: "started_in (h @ [StartView sid]) sid"
      using s key by (intro history_steps) (simp add: sess_ok_def info_ok_def)
    let ?m = "session_start now"
    let ?h' = "if succeeded (?m (live_of s w)) then [StartView sid] else []"
    have "live_ok (approved_in h) (started_in (h @ ?h')) (requested_in h) (snd (?m (live_of s w)))"
      using session_start_ok[OF live_of_ok[OF assms s], of "started_in (h @ ?h')" now]
        history_mono(3) req key by (simp add: live_of_def)
    then have "live_ok (approved_in (h @ ?h')) (started_in (h @ ?h')) (requested_in h) (snd (?m (live_of s w)))"
      by (rule live_ok_mono) (auto intro: history_mono)
    then have w2: "world_ok (h @ ?h') (snd (on_session ?m s w))"
      by (rule on_session_ok[OF assms])
    obtain r w2 where r: "on_session ?m s w = (r, w2)" by fastforce
    have "succeeded (?m (live_of s w)) = succeeded (r, w2)"
      using succeeded_on_session[of ?m s w] r by simp
    with Inr True w2 r show ?thesis by (cases r) (auto simp: start_view_def)
  qed
qed

lemma end_view_ok:
  assumes "world_ok h w" and "require_session sid w = Inr s" and "screen_terminal st"
  shows "world_ok h (snd (on_session (end_session now st reason) s w))"
  using on_session_kept[OF assms(1)] world_session[OF assms(1,2)]
    end_session_ok[OF live_of_ok[OF assms(1)] assms(3)] by blast

lemma stop_view_ok:
  assumes "world_ok h w"
  shows "world_ok h (snd (stop_view now sid reason w))"
proof (cases "require_session sid w")
  case (Inr s)
  obtain r w2 where r: "on_session (session_stop now reason) s w = (r, w2)" by fastforce
  have "session_stop now reason = end_session now SS_STOPPED reason"
    by (rule ext) (simp add: session_stop_def)
  then have "world_ok h w2"
    using end_view_ok[OF assms Inr, of SS_STOPPED now reason] r by (simp add: screen_terminal_def)
  with Inr r assms show ?thesis by (cases r; cases reason) (auto simp: stop_view_def)
qed (simp add: stop_view_def assms)

lemma revoke_view_ok:
  assumes "world_ok h w"
  shows "world_ok h (snd (revoke_view now sid w))"
proof (cases "require_session sid w")
  case (Inr s)
  obtain r w2 where r: "on_session (session_revoke now) s w = (r, w2)" by fastforce
  have "session_revoke now = end_session now SS_REVOKED (Reason SR_TRUST_REVOKED)"
    by (rule ext) (simp add: session_revoke_def)
  then have "world_ok h w2"
    using end_view_ok[OF assms Inr, of SS_REVOKED now "Reason SR_TRUST_REVOKED"] r
    by (simp add: screen_terminal_def)
  with Inr r assms show ?thesis by (cases r) (auto simp: revoke_view_def)
qed (simp add: revoke_view_def assms)

lemma ingest_view_ok:
  assumes "world_ok h w"
  shows "world_ok h (snd (ingest_view rd now sid f w))"
proof (cases "require_session sid w")
  case (Inr s)
  then show ?thesis
    using on_session_kept[OF assms, of "session_ingest rd now f" s]
      session_ingest_ok[OF live_of_ok[OF assms world_session[OF assms Inr]]]
    by (simp add: ingest_view_def)
qed (simp add: ingest_view_def assms)

lemma drain_view_ok:
  assumes "world_ok h w"
  shows "world_ok h (snd (drain_view sid w))"
proof (cases "require_session sid w")
  case (Inr s)
  have "sess_ok (approved_in h) (started_in h) (s\<lparr>se_buffer := snd (buffer_drain (se_buffer s))\<rparr>)"
    using world_session[OF assms Inr] buffer_drain_ok by (simp add: sess_ok_def)
  with Inr put_session_ok[OF assms] show ?thesis by (simp add: drain_view_def case_prod_beta)
qed (simp add: drain_view_def assms)

lemma sweep_loop_ok:
  "world_ok h w \<Longrightarrow> \<forall>s \<in> set todo. sess_ok (approved_in h) (started_in h) s \<Longrightarrow>
   world_ok h (snd (sweep_loop now todo ended w))"
proof (induction todo arbitrary: ended w)
  case Nil
  then show ?case by simp
next
  case (Cons s todo)
  obtain r w1 where r: "on_session (check_lifecycle now) s w = (r, w1)" by fastforce
  have "world_ok h w1"
    using on_session_kept[OF Cons.prems(1), of "check_lifecycle now" s] r
      check_lifecycle_ok[OF live_of_ok[OF Cons.prems(1)]] Cons.prems(2) by simp
  with Cons r show ?case by (cases r) auto
qed

lemma sweep_ok: "world_ok h w \<Longrightarrow> world_ok h (snd (sweep_lifecycle now w))"
  unfolding sweep_lifecycle_def by (rule sweep_loop_ok) (auto simp: world_ok_def)

lemma expire_loop_ok:
  "auth_ok R m \<Longrightarrow> \<forall>a \<in> set todo. R (sa_session a) \<Longrightarrow> auth_ok R (snd (expire_loop now todo ids m))"
proof (induction todo arbitrary: ids m)
  case (Cons a todo)
  have "auth_ok R (put_auth (a\<lparr>sa_decision := AD_EXPIRED\<rparr>) m)"
    using Cons.prems by (intro put_auth_ok) auto
  with Cons show ?case by (cases "auth_is_expired now a") auto
qed simp

lemma revoke_auth_ok: "auth_ok R m \<Longrightarrow> auth_ok R (snd (revoke_auth aid reason m))"
  using get_auth_requested[of R m aid]
  by (auto simp: revoke_auth_def Let_def put_auth_ok split: option.split)

lemma with_auth_mgr_ok: "world_ok h w \<Longrightarrow> auth_ok (requested_in h) m \<Longrightarrow> world_ok h (w\<lparr>sw_auths := m\<rparr>)"
  by (simp add: world_ok_def)

lemma hydrate_auth_ok:
  assumes "world_ok h w"
  shows "world_ok h (hydrate_auth sid w)"
proof (cases "auth_row_by_session sid (sw_auth_rows w)")
  case (Some a)
  have req: "requested_in h (sa_session a)" "requested_in h sid"
    using auth_row_session[OF Some] assms by (auto simp: world_ok_def)
  have "auth_ok (requested_in h) (sw_auths w)" using assms by (simp add: world_ok_def)
  from hydrate_mgr_ok[OF this req] Some assms show ?thesis
    by (auto simp: hydrate_auth_def intro: with_auth_mgr_ok)
qed (simp add: hydrate_auth_def assms)

lemma reactivate_ok:
  assumes "info_ok A S (live_info l)"
  obtains l' where "reactivate now l = (Inr (), l')" "live_info l' = live_info l"
    "se_buffer (lv_session l') = se_buffer (lv_session l)"
    "in_active (se_indicator (lv_session l')) \<longleftrightarrow>
       (if live_state l = SS_ACTIVE then True else in_active (se_indicator (lv_session l)))"
proof -
  obtain n where "remaining_seconds now (live_info l) = Inr n"
    using assms by (auto simp: info_ok_def remaining_seconds_def)
  then show thesis
    by (intro that[of "snd (reactivate now l)"])
      (auto simp: reactivate_def model_defs indicator_activate_def update_remaining_def)
qed

lemma new_session_fields:
  "new_screen_session now i c reg mgr = Inr s \<Longrightarrow>
   se_info s = i \<and> buffer_ok (se_buffer s) \<and> se_indicator s = idle_indicator"
  using new_frame_buffer_ok by (auto simp: new_screen_session_def and_then_def split: sum.splits)

lemma rehydrate_ok:
  assumes "world_ok h w"
  shows "world_ok h (snd (rehydrate_session now d sid w))"
proof (cases "screen_row sid (sw_rows w)")
  case (Some i)
  then have i: "info_ok (approved_in h) (started_in h) i"
    using assms by (auto simp: screen_row_def world_ok_def dest!: fetch_where_Some)
  let ?w = "hydrate_auth sid w" and ?c = "rehydrated_config d i"
  have w: "world_ok h ?w" using assms by (rule hydrate_auth_ok)
  consider s where "get_screen_session sid w = Some s" | e where "check_screen_config ?c = Some e"
    | e where "new_screen_session now i ?c True True = Inl e"
    | s where "get_screen_session sid w = None" "check_screen_config ?c = None"
      "new_screen_session now i ?c True True = Inr s"
    by (cases "get_screen_session sid w"; cases "check_screen_config ?c";
        cases "new_screen_session now i ?c True True") auto
  then show ?thesis
  proof cases
    case 4
    note s = new_session_fields[OF 4(3)]
    have li: "lv_session (live_of s ?w) = s" by (simp add: live_of_def)
    have "info_ok (approved_in h) (started_in h) (live_info (live_of s ?w))" using i s li by simp
    then obtain l where l: "reactivate now (live_of s ?w) = (Inr (), l)"
        "live_info l = live_info (live_of s ?w)"
        "se_buffer (lv_session l) = se_buffer (lv_session (live_of s ?w))"
        "in_active (se_indicator (lv_session l)) \<longleftrightarrow> (if live_state (live_of s ?w) = SS_ACTIVE then True
           else in_active (se_indicator (lv_session (live_of s ?w))))"
      by (rule reactivate_ok)
    then have "sess_ok (approved_in h) (started_in h) (lv_session l)"
      using i s unfolding li by (simp add: sess_ok_def idle_indicator_def)
    with w put_session_ok Some 4 l(1) show ?thesis by (simp add: rehydrate_session_def Let_def)
  next
    case 1
    with Some assms show ?thesis by (simp add: rehydrate_session_def)
  next
    case 2
    with Some w assms show ?thesis
      by (cases "get_screen_session sid w") (simp_all add: rehydrate_session_def Let_def)
  next
    case 3
    with Some w assms show ?thesis
      by (cases "get_screen_session sid w"; cases "check_screen_config ?c")
        (simp_all add: rehydrate_session_def Let_def)
  qed
qed (simp add: rehydrate_session_def assms)

lemma restart_ok: "world_ok h w \<Longrightarrow> world_ok h (restart_process w)"
  by (simp add: world_ok_def restart_process_def keyed_def auth_ok_def empty_auth_mgr_def)

lemma screen_exec_ok:
  assumes "world_ok h w"
  shows "world_ok (h @ (if fst (screen_exec rd d now op w) then [op] else [])) (snd (screen_exec rd d now op w))"
proof -
  have kept: "world_ok h w' \<Longrightarrow> world_ok (h @ (if c then [op] else [])) w'" for w' c
    using world_ok_mono[of h w' "[op]"] by simp
  have auths: "auth_ok (requested_in h) (sw_auths w)" using assms by (simp add: world_ok_def)
  have expire: "auth_ok (requested_in h) (snd (expire_due now (sw_auths w)))"
    using auths unfolding expire_due_def by (intro expire_loop_ok) (auto simp: auth_ok_def)
  show ?thesis
  proof (cases op)
    case (RequestView sid aid nonce q)
    with request_view_ok[OF assms, of now sid aid nonce q] show ?thesis
      by (auto simp: finish_def split: if_splits)
  next
    case (ApproveView sid)
    with approve_view_ok[OF assms, of now sid] show ?thesis by (auto simp: finish_def split: if_splits)
  next
    case (StartView sid)
    with start_view_ok[OF assms, of now sid] show ?thesis by (auto simp: finish_def split: if_splits)
  next
    case (Rehydrate sid)
    with kept[OF rehydrate_ok[OF assms]] show ?thesis by (simp add: finish_def)
  next
    case ExpireAuths
    with kept[OF with_auth_mgr_ok[OF assms expire]] show ?thesis by (simp add: on_auths_def)
  next
    case (RevokeAuth aid reason)
    with kept[OF with_auth_mgr_ok[OF assms revoke_auth_ok[OF auths]]] show ?thesis
      by (simp add: on_auths_def)
  next
    case Restart
    with kept[OF restart_ok[OF assms], of True] show ?thesis by simp
  qed (simp_all add: finish_def kept deny_view_ok[OF assms] stop_view_ok[OF assms] sweep_ok[OF assms]
         revoke_view_ok[OF assms] ingest_view_ok[OF assms] drain_view_ok[OF assms])
qed

lemma screen_run_ok:
  "world_ok h w \<Longrightarrow> screen_run rd d ops w = (h', w') \<Longrightarrow> world_ok (h @ h') w'"
proof (induction ops arbitrary: h w h' w')
  case Nil
  then show ?case by simp
next
  case (Cons x ops)
  obtain t op where x: "x = (t, op)" by fastforce
  obtain ok w1 where e: "screen_exec rd d t op w = (ok, w1)" by fastforce
  obtain h2 w2 where r: "screen_run rd d ops w1 = (h2, w2)" by fastforce
  have "world_ok (h @ (if ok then [op] else [])) w1"
    using screen_exec_ok[OF Cons.prems(1), of rd d t op] e by simp
  from Cons.IH[OF this r] Cons.prems(2) x e r show ?case by (cases ok) auto
qed

lemma fresh_world_ok: "world_ok [] (fresh_world trust)"
  by (simp add: world_ok_def fresh_world_def keyed_def auth_ok_def empty_auth_mgr_def)

end
