(* ===== verification/ScreenProps.thy ===== *)
theory ScreenProps
  imports ScreenRuns
begin

text \<open>
  The properties of screen sharing: consent before frames, a visible indicator, sessions that
  only move forward, and what an approval needs.
\<close>

section \<open>Consent\<close>

lemma save_auth_trust [simp]: "sw_trust (save_auth a w) = sw_trust w"
  by (simp add: save_auth_def split: sum.split)

lemma save_decided_trust [simp]: "sw_trust (save_decided aid w) = sw_trust w"
  by (simp add: save_decided_def split: option.split)

lemma on_session_trust [simp]: "sw_trust (snd (on_session m s w)) = sw_trust w"
  by (simp add: on_session_def put_session_def split: prod.split)

lemma on_session_trust' [simp]: "on_session m s w = (r, w') \<Longrightarrow> sw_trust w' = sw_trust w"
  using on_session_trust[of m s w] by simp

lemma log_screen_trust [simp]: "sw_trust (log_screen ev a ok w) = sw_trust w"
  by (simp add: log_screen_def)

lemma find_auth_trust: "find_auth sid w = (a, w1) \<Longrightarrow> sw_trust w1 = sw_trust w"
  by (auto simp: find_auth_def Let_def split: option.splits)

lemma create_session_trust: "sw_trust (snd (create_screen_session now sid dev par c tr w)) = sw_trust w"
  by (simp add: create_screen_session_def Let_def put_session_def split: sum.split)

lemma request_view_trust: "sw_trust (snd (request_view now sid aid nonce q w)) = sw_trust w"
proof -
  let ?c = "default_screen_config\<lparr>sc_max_duration := vr_max_duration q, sc_width := vr_width q,
      sc_height := vr_height q, sc_max_fps := vr_max_fps q, sc_label := vr_label q\<rparr>"
  obtain r w1 where r: "create_screen_session now sid (vr_device q) (vr_parent q) ?c None w = (r, w1)"
    by fastforce
  have "sw_trust w1 = sw_trust w" using create_session_trust r by (metis snd_conv)
  with r show ?thesis
    by (auto simp: request_view_def Let_def split: option.split sum.split prod.split)
qed

lemma sweep_trust: "sw_trust (snd (sweep_loop now todo ended w)) = sw_trust w"
  by (induction todo arbitrary: ended w) (auto split: prod.split sum.split)

lemma screen_exec_trust: "sw_trust (snd (screen_exec rd d now op w)) = sw_trust w"
proof (cases op)
  case (RequestView sid aid nonce q)
  then show ?thesis by (simp add: finish_def request_view_trust)
next
  case (ApproveView sid)
  then show ?thesis
    by (auto simp: finish_def approve_view_def find_auth_trust split: sum.split prod.split option.split)
next
  case (DenyView sid)
  then show ?thesis
    by (auto simp: finish_def deny_view_def find_auth_trust split: sum.split prod.split option.split)
next
  case (Rehydrate sid)
  then show ?thesis
    by (auto simp: finish_def rehydrate_session_def Let_def hydrate_auth_def put_session_def
        split: sum.split prod.split option.split)
qed (auto simp: finish_def on_auths_def start_view_def stop_view_def revoke_view_def ingest_view_def
       drain_view_def sweep_lifecycle_def sweep_trust restart_process_def put_session_def
       split: sum.split prod.split stop_note.split)

lemma request_view_trusted:
  "succeeded (request_view now sid aid nonce q w) \<Longrightarrow>
   assert_screen_trust (vr_parent q) (vr_device q) w = None"
  by (auto simp: request_view_def split: if_splits option.splits)

lemma requests_trusted:
  "screen_run rd d ops w = (h, w') \<Longrightarrow> RequestView sid aid nonce q \<in> set h \<Longrightarrow>
   assert_screen_trust (vr_parent q) (vr_device q) w = None"
proof (induction ops arbitrary: h w)
  case (Cons x ops)
  obtain t op where x: "x = (t, op)" by fastforce
  obtain ok w1 where e: "screen_exec rd d t op w = (ok, w1)" by fastforce
  obtain h2 w2 where r: "screen_run rd d ops w1 = (h2, w2)" by fastforce
  have trust: "assert_screen_trust p c w1 = assert_screen_trust p c w" for p c
    using screen_exec_trust[of rd d t op w] e by (simp add: assert_screen_trust_def)
  from Cons.prems x e r have "RequestView sid aid nonce q \<in> set h2 \<or> (ok \<and> op = RequestView sid aid nonce q)"
    and "w2 = w'" by (auto split: if_splits)
  then show ?case
  proof (elim disjE)
    assume "RequestView sid aid nonce q \<in> set h2"
    with Cons.IH[of w1 h2] r \<open>w2 = w'\<close> trust show ?thesis by simp
  next
    assume "ok \<and> op = RequestView sid aid nonce q"
    with e request_view_trusted show ?thesis by (auto simp: finish_def)
  qed
qed simp

lemma ingest_needs_active:
  assumes "succeeded (ingest_view rd now sid f w)"
  obtains s where "require_session sid w = Inr s" "sv_state (se_info s) = SS_ACTIVE"
  using assms by (cases "require_session sid w")
    (auto simp: ingest_view_def session_ingest_def Let_def live_of_def split: if_splits)


text \<open>
  C23: the child sees every active session: at any time and for every session in memory the
  indicator is on exactly when the session is active, and the buffered frames are frames of
  this session, within its limits and no more than its capacity.
\<close>

theorem active_sessions_visible:
  assumes "screen_run rd d ops (fresh_world trust) = (h, w)" and "s \<in> set (sw_sessions w)"
  shows "(in_active (se_indicator s) \<longleftrightarrow> sv_state (se_info s) = SS_ACTIVE) \<and>
    int (length (bq_items (fb_queue (se_buffer s)))) \<le> bq_max (fb_queue (se_buffer s)) \<and>
    (\<forall>f \<in> set (bq_items (fb_queue (se_buffer s))). frame_fits (se_buffer s) f)"
  using screen_run_ok[OF fresh_world_ok assms(1)] assms(2)
  by (auto simp: world_ok_def sess_ok_def buffer_ok_def queue_ok_def)

section \<open>What an approval needs\<close>

lemma find_auth_found:
  "find_auth sid w = (Some a, w1) \<Longrightarrow> get_by_authorization_id (sa_id a) (sw_auths w1) = Some a"
proof (cases "get_for_session sid (sw_auths w)")
  case (Some x)
  assume "find_auth sid w = (Some a, w1)"
  with Some get_auth_id show ?thesis by (auto simp: find_auth_def get_for_session_def split: option.splits)
next
  case None
  assume "find_auth sid w = (Some a, w1)"
  with None show ?thesis
    by (auto simp: find_auth_def Let_def get_put_auth get_by_authorization_id_def put_auth_def
        fetch_upsert_whole split: option.splits)
qed

lemma approve_transition:
  "succeeded (screen_transition now SS_APPROVED l) \<longleftrightarrow> live_state l = SS_PENDING_CHILD_APPROVAL"
proof (cases "assert_legal_transition (live_state l) SS_APPROVED")
  case (Some e)
  then show ?thesis
    by (auto simp: screen_transition_def assert_legal_transition_def split: if_splits)
next
  case None
  have "live_state (persist (with_info (\<lambda>i. i\<lparr>sv_state := SS_APPROVED\<rparr>) l)) = SS_APPROVED"
    by (simp add: with_info_def)
  then have "succeeded (screen_transition now SS_APPROVED l)"
    using None by (simp add: screen_transition_def update_indicator_def screen_terminal_def)
  moreover have "live_state l = SS_PENDING_CHILD_APPROVAL"
    using None by (cases "live_state l") (auto simp: assert_legal_transition_def)
  ultimately show ?thesis by simp
qed

text \<open>
  C24: an approval goes through exactly when the session is in memory and waits for the child,
  and its authorization, from memory or from the table, is pending and has not expired.
\<close>

theorem approval_succeeds_iff:
  "succeeded (approve_view now sid w) \<longleftrightarrow>
     (\<exists>s a w1. require_session sid w = Inr s \<and> se_auth_manager s \<and>
        sv_state (se_info s) = SS_PENDING_CHILD_APPROVAL \<and> find_auth sid w = (Some a, w1) \<and>
        sa_decision a = AD_PENDING \<and> auth_is_expired now a = Inr False)"
proof (cases "require_session sid w")
  case (Inl e)
  then show ?thesis by (simp add: approve_view_def)
next
  case (Inr s)
  obtain a w1 where a: "find_auth sid w = (a, w1)" by fastforce
  show ?thesis
  proof (cases "\<exists>x. a = Some x \<and> sa_decision x = AD_PENDING")
    case False
    with Inr a show ?thesis by (cases a) (auto simp: approve_view_def)
  next
    case True
    then obtain x where x: "a = Some x" "sa_decision x = AD_PENDING" by blast
    let ?m = "session_approve now (sa_id x)"
    have "succeeded (approve_view now sid w) \<longleftrightarrow> succeeded (on_session ?m s w1)"
      using Inr a x by (cases "on_session ?m s w1"; cases "fst (on_session ?m s w1)")
        (auto simp: approve_view_def simp del: succeeded_on_session)
    also have "\<dots> \<longleftrightarrow> succeeded (?m (live_of s w1))" by (rule succeeded_on_session)
    also have "\<dots> \<longleftrightarrow> se_auth_manager s \<and> auth_is_expired now x = Inr False \<and>
        sv_state (se_info s) = SS_PENDING_CHILD_APPROVAL"
    proof (cases "auth_is_expired now x = Inr False")
      case True
      then have "approve_auth now (sa_id x) None (sw_auths w1) =
          (Inr (x\<lparr>sa_decision := AD_APPROVED, sa_approved := Some (given_or_now now None)\<rparr>),
           put_auth (x\<lparr>sa_decision := AD_APPROVED, sa_approved := Some (given_or_now now None)\<rparr>) (sw_auths w1))"
        using find_auth_found a x by (subst approve_auth_returns) blast
      then show ?thesis using True
        by (simp add: session_approve_def live_of_def approve_transition with_info_def)
    next
      case False
      obtain r m where r: "approve_auth now (sa_id x) None (sw_auths w1) = (r, m)" by fastforce
      have "\<exists>e. r = Inl e"
        using False approve_auth_returns[of now "sa_id x" None "sw_auths w1" _ m] r find_auth_found a x
        by (cases r) auto
      with r False show ?thesis by (auto simp: session_approve_def live_of_def)
    qed
    finally show ?thesis using Inr a x by auto
  qed
qed

section \<open>Sessions only move forward\<close>

lemma get_put_session:
  "get_screen_session sid (put_session s w) =
     (if sid = session_key s then Some s else get_screen_session sid w)"
  by (simp add: get_screen_session_def put_session_def fetch_upsert_whole)

lemma get_require: "get_screen_session sid w = Some s \<longleftrightarrow> require_session sid w = Inr s"
  by (auto simp: require_session_def split: option.split)

definition kept_session :: "string \<Rightarrow> screen_world \<Rightarrow> screen_world \<Rightarrow> bool" where
  "kept_session sid w w' \<longleftrightarrow> (\<forall>s. get_screen_session sid w = Some s \<longrightarrow>
     (\<exists>s'. get_screen_session sid w' = Some s' \<and>
        screen_step\<^sup>*\<^sup>* (sv_state (se_info s)) (sv_state (se_info s'))))"

lemma kept_trans: "kept_session sid w w1 \<Longrightarrow> kept_session sid w1 w2 \<Longrightarrow> kept_session sid w w2"
  unfolding kept_session_def by (meson rtranclp_trans)

lemma follows_steps:
  "session_follows s t \<Longrightarrow> screen_step\<^sup>*\<^sup>* (sv_state (se_info s)) (sv_state (se_info t))"
  by (auto simp: session_follows_def state_follows_def)

lemma kept_same: "sw_sessions w' = sw_sessions w \<Longrightarrow> kept_session sid w w'"
  by (simp add: kept_session_def get_screen_session_def)

lemma kept_on_session:
  assumes "get_screen_session (session_key s) w = Some s"
    and "session_follows s (lv_session (snd (m (live_of s w))))"
  shows "kept_session sid w (snd (on_session m s w))"
proof -
  have get: "get_screen_session sid (snd (on_session m s w)) =
      get_screen_session sid (put_session (lv_session (snd (m (live_of s w)))) w)"
    by (simp add: on_session_def get_screen_session_def split: prod.split)
  have key: "session_key (lv_session (snd (m (live_of s w)))) = session_key s"
    using assms(2) by (simp add: session_follows_def)
  show ?thesis unfolding kept_session_def get get_put_session key using assms follows_steps by auto
qed

lemma kept_after: "sw_sessions w' = sw_sessions w1 \<Longrightarrow> kept_session sid w w1 \<Longrightarrow> kept_session sid w w'"
  by (simp add: kept_session_def get_screen_session_def)

lemma same_sessions [simp]:
  "sw_sessions (save_auth a w) = sw_sessions w" "sw_sessions (log_screen ev ac ok w) = sw_sessions w"
  "sw_sessions (save_decided aid w) = sw_sessions w" "sw_sessions (hydrate_auth sid w) = sw_sessions w"
  by (auto simp: save_auth_def log_screen_def save_decided_def hydrate_auth_def
      split: sum.split option.split)

lemma require_key: "require_session sid w = Inr s \<Longrightarrow> get_screen_session (session_key s) w = Some s"
  using require_session_mem get_require by metis

lemma find_auth_sessions: "find_auth sid w = (a, w1) \<Longrightarrow> sw_sessions w1 = sw_sessions w"
  by (auto simp: find_auth_def Let_def split: option.splits)

lemma session_follows_trans_state:
  "session_follows s t \<Longrightarrow> session_key t = session_key s"
  by (simp add: session_follows_def)

lemma sweep_kept:
  "world_ok h w \<Longrightarrow> \<forall>s \<in> set todo. get_screen_session (session_key s) w = Some s \<Longrightarrow>
   distinct (map session_key todo) \<Longrightarrow>
   kept_session sid w (snd (sweep_loop now todo ended w))"
proof (induction todo arbitrary: ended w)
  case Nil
  then show ?case by (simp add: kept_same)
next
  case (Cons s todo)
  let ?m = "check_lifecycle now"
  obtain r w1 where r: "on_session ?m s w = (r, w1)" by fastforce
  have s: "get_screen_session (session_key s) w = Some s" using Cons.prems(2) by simp
  have ok: "sess_ok (approved_in h) (started_in h) s"
    using world_session[OF Cons.prems(1)] s get_require by blast
  have l: "live_ok (approved_in h) (started_in h) (requested_in h) (live_of s w)"
    using Cons.prems(1) ok by (rule live_of_ok)
  have follows: "session_follows s (lv_session (snd (?m (live_of s w))))"
    using check_lifecycle_ok[OF l, of now] by (simp add: live_of_def)
  have kept: "kept_session x w w1" for x
    using kept_on_session[OF s, of ?m x] follows r by simp
  have w1: "world_ok h w1"
    using on_session_kept[OF Cons.prems(1), of ?m s] check_lifecycle_ok[OF l, of now] r by simp
  have other: "get_screen_session x w1 = get_screen_session x w" if "x \<noteq> session_key s" for x
  proof -
    have "get_screen_session x w1 = get_screen_session x (put_session (lv_session (snd (?m (live_of s w)))) w)"
      using r by (auto simp: on_session_def get_screen_session_def split: prod.splits)
    with that follows show ?thesis by (simp add: get_put_session session_follows_def)
  qed
  show ?case
  proof (cases r)
    case (Inl e)
    with r kept show ?thesis by simp
  next
    case (Inr x)
    have todo: "\<forall>y \<in> set todo. get_screen_session (session_key y) w1 = Some y"
      using Cons.prems(2,3) other by (metis distinct.simps(2) image_eqI list.set_intros(2) list.set_map list.simps(9))
    have "kept_session sid w1 (snd (sweep_loop now todo (if x then ended @ [session_key s] else ended) w1))"
      using Cons.IH[OF w1 todo] Cons.prems(3) by simp
    with kept_trans[OF kept] r Inr show ?thesis by simp
  qed
qed

text \<open>Every operation but a restart, and a new request under the same identifier.\<close>

definition spares :: "string \<Rightarrow> screen_op \<Rightarrow> bool" where
  "spares sid op \<longleftrightarrow> op \<noteq> Restart \<and> (\<forall>aid nonce q. op \<noteq> RequestView sid aid nonce q)"

lemma kept_method:
  assumes "world_ok h w" and "require_session x w = Inr s" and "sw_sessions w' = sw_sessions w"
    and "world_ok h w'"
    and "\<And>l. live_ok (approved_in h) (started_in h) (requested_in h) l \<Longrightarrow>
      session_follows (lv_session l) (lv_session (snd (m l)))"
  shows "kept_session sid w (snd (on_session m s w'))"
proof -
  have get: "get_screen_session (session_key s) w' = Some s"
    using require_key[OF assms(2)] assms(3) by (simp add: get_screen_session_def)
  have "session_follows s (lv_session (snd (m (live_of s w'))))"
    using assms(5)[OF live_of_ok[OF assms(4) world_session[OF assms(1,2)]]] by (simp add: live_of_def)
  from kept_on_session[where m = m, OF get this] have "kept_session sid w' (snd (on_session m s w'))" .
  with kept_same[OF assms(3)] show ?thesis by (rule kept_trans)
qed

lemma request_view_kept:
  assumes "world_ok h w" and "x \<noteq> sid"
  shows "kept_session sid w (snd (request_view now x aid nonce q w))"
proof -
  have "get_screen_session sid (snd (request_view now x aid nonce q w)) = get_screen_session sid w"
  proof -
    let ?c = "default_screen_config\<lparr>sc_max_duration := vr_max_duration q, sc_width := vr_width q,
        sc_height := vr_height q, sc_max_fps := vr_max_fps q, sc_label := vr_label q\<rparr>"
    obtain r w1 where r: "create_screen_session now x (vr_device q) (vr_parent q) ?c None w = (r, w1)"
      by fastforce
    have c: "get_screen_session sid w1 = get_screen_session sid w"
      using r assms(2) new_session_fields
      by (auto simp: create_screen_session_def Let_def get_put_session session_key_def split: sum.splits)
    have s: "get_screen_session sid (snd (on_session (session_request now (vr_device q) (vr_parent q)
        (Some (vr_max_duration q))) s w1)) = get_screen_session sid w1" if "r = Inr s" for s
    proof -
      have "session_key s = x" "sess_ok (approved_in h) (started_in h) s"
        using create_screen_session_ok(2)[OF assms(1), of now x "vr_device q" "vr_parent q" ?c None s] r that
        by simp_all
      moreover have "world_ok h w1"
        using create_screen_session_ok(1)[OF assms(1), of now x "vr_device q" "vr_parent q" ?c None] r by simp
      ultimately have "session_key (lv_session (snd (session_request now (vr_device q) (vr_parent q)
          (Some (vr_max_duration q)) (live_of s w1)))) = x"
        using session_request_ok[OF live_of_ok] by (auto simp: session_follows_def live_of_def)
      with assms(2) show ?thesis
        by (auto simp: on_session_def get_screen_session_def put_session_def fetch_upsert_whole split: prod.split)
    qed
    have b: "fetch_where (\<lambda>s. session_key s = sid) (update_where (\<lambda>y. session_key y = x)
        (\<lambda>y. y\<lparr>se_info := (se_info y)\<lparr>sv_auth := v\<rparr>\<rparr>) ss) = fetch_where (\<lambda>s. session_key s = sid) ss" for v ss
      using assms(2) by (induction ss) (auto simp: fetch_where_def update_where_def session_key_def)
    show ?thesis
    proof (cases r)
      case (Inl e)
      with r c show ?thesis
        by (auto simp: request_view_def Let_def split: option.split)
    next
      case (Inr y)
      obtain r2 w2 where r2: "on_session (session_request now (vr_device q) (vr_parent q)
          (Some (vr_max_duration q))) y w1 = (r2, w2)" by fastforce
      have "fetch_where (\<lambda>s. session_key s = sid) (sw_sessions w2) =
          fetch_where (\<lambda>s. session_key s = sid) (sw_sessions w)"
        using s[OF Inr] c r2 by (simp add: get_screen_session_def)
      with r Inr r2 b show ?thesis
        by (auto simp: request_view_def Let_def get_screen_session_def
            split: option.split sum.split prod.split)
    qed
  qed
  then show ?thesis by (simp add: kept_session_def)
qed

lemma reactivate_info: "live_info (snd (reactivate now l)) = live_info l"
  by (simp add: reactivate_def Let_def with_indicator_def show_indicator_def split: sum.split)

lemma rehydrate_others:
  assumes "sid \<noteq> x"
  shows "get_screen_session sid (snd (rehydrate_session now d x w)) = get_screen_session sid w"
proof (cases "screen_row x (sw_rows w)")
  case None
  then show ?thesis by (simp add: rehydrate_session_def)
next
  case (Some i)
  let ?w = "hydrate_auth x w" and ?c = "rehydrated_config d i"
  have i: "sv_id i = x" using Some by (auto simp: screen_row_def dest!: fetch_where_Some)
  have w: "get_screen_session sid ?w = get_screen_session sid w" by (simp add: get_screen_session_def)
  have "get_screen_session sid (put_session (lv_session (snd (reactivate now (live_of s ?w)))) ?w) =
      get_screen_session sid w" if "new_screen_session now i ?c True True = Inr s" for s
    using reactivate_info[of now "live_of s ?w"] new_session_fields[OF that] i assms w
    by (simp add: get_put_session session_key_def live_of_def)
  with Some w show ?thesis
    by (cases "get_screen_session x w"; cases "check_screen_config ?c";
        cases "new_screen_session now i ?c True True")
      (auto simp: rehydrate_session_def Let_def split: prod.split sum.split)
qed

lemma exec_kept:
  assumes ok: "world_ok h w" and "spares sid op"
  shows "kept_session sid w (snd (screen_exec rd d now op w))"
proof -
  have ended: "session_follows (lv_session l) (lv_session (snd (session_stop now reason l)))"
      "session_follows (lv_session l) (lv_session (snd (session_revoke now l)))"
    if "live_ok (approved_in h) (started_in h) (requested_in h) l" for l reason
    using end_session_ok[OF that, of SS_STOPPED] end_session_ok[OF that, of SS_REVOKED]
    by (simp_all add: session_stop_def session_revoke_def screen_terminal_def)
  have start: "session_follows (lv_session l) (lv_session (snd (session_start now l)))"
    if "live_ok (approved_in h) (started_in h) (requested_in h) l" for l
    using session_start_ok[OF that, of "\<lambda>x. True"] by simp
  have approve: "session_follows (lv_session l) (lv_session (snd (session_approve now aid l)))"
    if "live_ok (approved_in h) (started_in h) (requested_in h) l" for l aid
    using session_approve_ok[OF that, of "\<lambda>x. True"] by simp
  show ?thesis
  proof (cases op)
    case (RequestView x aid nonce q)
    with assms request_view_kept[OF ok] show ?thesis by (auto simp: finish_def spares_def)
  next
    case (ApproveView x)
    show ?thesis
    proof (cases "require_session x w")
      case (Inl e)
      with ApproveView show ?thesis by (simp add: finish_def approve_view_def kept_same)
    next
      case (Inr s)
      obtain a w1 where a: "find_auth x w = (a, w1)" by fastforce
      have w1: "sw_sessions w1 = sw_sessions w" "world_ok h w1"
        using find_auth_sessions[OF a] find_auth_ok[OF ok a] by blast+
      have k: "kept_session sid w (snd (on_session (session_approve now aid) s w1))" for aid
        using kept_method[OF ok Inr w1] approve by blast
      show ?thesis
      proof (cases "\<exists>y. a = Some y \<and> sa_decision y = AD_PENDING")
        case False
        with ApproveView Inr a w1 show ?thesis
          by (cases a) (auto simp: finish_def approve_view_def kept_same)
      next
        case True
        then obtain y where y: "a = Some y" "sa_decision y = AD_PENDING" by blast
        obtain r w2 where r: "on_session (session_approve now (sa_id y)) s w1 = (r, w2)" by fastforce
        with ApproveView Inr a y k[of "sa_id y"] show ?thesis
          by (cases r) (auto simp: finish_def approve_view_def intro: kept_after)
      qed
    qed
  next
    case (DenyView x)
    show ?thesis
    proof (cases "require_session x w")
      case (Inl e)
      with DenyView show ?thesis by (simp add: finish_def deny_view_def kept_same)
    next
      case (Inr s)
      obtain a w1 where a: "find_auth x w = (a, w1)" by fastforce
      have w1: "sw_sessions w1 = sw_sessions w" "world_ok h w1"
        using find_auth_sessions[OF a] find_auth_ok[OF ok a] by blast+
      have k: "kept_session sid w (snd (on_session (session_deny now aid) s w1))" for aid
        using kept_method[OF ok Inr w1] session_deny_ok by blast
      show ?thesis
      proof (cases a)
        case None
        with DenyView Inr a w1 show ?thesis by (simp add: finish_def deny_view_def kept_same)
      next
        case (Some y)
        obtain r w2 where r: "on_session (session_deny now (sa_id y)) s w1 = (r, w2)" by fastforce
        with DenyView Inr a Some k[of "sa_id y"] show ?thesis
          by (cases r) (auto simp: finish_def deny_view_def intro: kept_after)
      qed
    qed
  next
    case (StartView x)
    show ?thesis
    proof (cases "require_session x w")
      case (Inr s)
      obtain r w2 where r: "on_session (session_start now) s w = (r, w2)" by fastforce
      have "kept_session sid w w2" using kept_method[OF ok Inr refl ok start] r by simp
      with StartView Inr r show ?thesis
        by (cases r) (auto simp: finish_def start_view_def intro: kept_after kept_same)
    qed (use StartView in \<open>simp add: finish_def start_view_def kept_same\<close>)
  next
    case (StopView x reason)
    show ?thesis
    proof (cases "require_session x w")
      case (Inr s)
      obtain r w2 where r: "on_session (session_stop now reason) s w = (r, w2)" by fastforce
      have "kept_session sid w w2" using kept_method[OF ok Inr refl ok, of "session_stop now reason"] ended(1) r by simp
      with StopView Inr r show ?thesis
        by (cases r; cases reason) (auto simp: finish_def stop_view_def intro: kept_after kept_same)
    qed (use StopView in \<open>simp add: finish_def stop_view_def kept_same\<close>)
  next
    case (RevokeView x)
    show ?thesis
    proof (cases "require_session x w")
      case (Inr s)
      obtain r w2 where r: "on_session (session_revoke now) s w = (r, w2)" by fastforce
      have "kept_session sid w w2" using kept_method[OF ok Inr refl ok, of "session_revoke now"] ended(2) r by simp
      with RevokeView Inr r show ?thesis
        by (cases r) (auto simp: finish_def revoke_view_def intro: kept_after kept_same)
    qed (use RevokeView in \<open>simp add: finish_def revoke_view_def kept_same\<close>)
  next
    case (IngestView x f)
    show ?thesis
    proof (cases "require_session x w")
      case (Inr s)
      have "session_follows (lv_session l) (lv_session (snd (session_ingest rd now f l)))"
        if "live_ok (approved_in h) (started_in h) (requested_in h) l" for l
        using session_ingest_ok[OF that] by blast
      with Inr show ?thesis using IngestView kept_method[OF ok Inr refl ok, of "session_ingest rd now f"]
        by (simp add: finish_def ingest_view_def)
    qed (use IngestView in \<open>simp add: finish_def ingest_view_def kept_same\<close>)
  next
    case (DrainView x)
    show ?thesis
    proof (cases "require_session x w")
      case (Inr s)
      have "kept_session sid w (put_session (s\<lparr>se_buffer := b\<rparr>) w)" for b
        using require_key[OF Inr] by (auto simp: kept_session_def get_put_session session_key_def)
      with DrainView Inr show ?thesis by (simp add: finish_def drain_view_def case_prod_beta)
    qed (use DrainView in \<open>simp add: finish_def drain_view_def kept_same\<close>)
  next
    case SweepSessions
    have "\<forall>s \<in> set (sw_sessions w). get_screen_session (session_key s) w = Some s"
      using ok fetch_keyed[of session_key "sw_sessions w"] by (auto simp: world_ok_def get_screen_session_def)
    then show ?thesis using SweepSessions sweep_kept[OF ok] ok
      by (simp add: finish_def sweep_lifecycle_def world_ok_def keyed_def)
  next
    case (Rehydrate x)
    show ?thesis
    proof (cases "get_screen_session x w")
      case (Some s)
      then show ?thesis using Rehydrate
        by (auto simp: finish_def rehydrate_session_def kept_same split: option.split)
    next
      case None
      show ?thesis
      proof (cases "sid = x")
        case True
        with None show ?thesis by (simp add: kept_session_def)
      next
        case False
        with Rehydrate rehydrate_others[of sid x now d w] show ?thesis
          by (simp add: finish_def kept_session_def)
      qed
    qed
  next
    case Restart
    with assms(2) show ?thesis by (simp add: spares_def)
  qed (simp_all add: on_auths_def kept_same)
qed

lemma run_kept:
  "world_ok h w \<Longrightarrow> \<forall>(t, op) \<in> set ops. spares sid op \<Longrightarrow> screen_run rd d ops w = (h', w') \<Longrightarrow>
   kept_session sid w w'"
proof (induction ops arbitrary: h w h' w')
  case Nil
  then show ?case by (simp add: kept_same)
next
  case (Cons x ops)
  obtain t op where x: "x = (t, op)" by fastforce
  obtain ok w1 where e: "screen_exec rd d t op w = (ok, w1)" by fastforce
  obtain h2 w2 where r: "screen_run rd d ops w1 = (h2, w2)" by fastforce
  have 1: "kept_session sid w w1" using exec_kept[OF Cons.prems(1), of sid op rd d t] Cons.prems(2) x e by simp
  have "world_ok (h @ (if ok then [op] else [])) w1"
    using screen_exec_ok[OF Cons.prems(1), of rd d t op] e by simp
  from Cons.IH[OF this _ r] Cons.prems(2) have "kept_session sid w1 w2" by simp
  with kept_trans[OF 1] Cons.prems(3) x e r show ?case by simp
qed

lemma steps_path: "R\<^sup>*\<^sup>* s t \<Longrightarrow> \<exists>ss. path_of R (s # ss) \<and> last (s # ss) = t"
proof (induction rule: converse_rtranclp_induct)
  case base
  then show ?case by (auto intro: exI[of _ "[]"] path_of.single)
next
  case (step s u)
  then obtain ss where "path_of R (u # ss)" "last (u # ss) = t" by blast
  with step(1) show ?case by (intro exI[of _ "u # ss"]) (auto intro: path_of.extend)
qed


section \<open>A stop that the database does not see\<close>

text \<open>
  Stopped with a reason that is a plain text, as the Orion handler does, an active session
  raises after it has ended in memory; its row is not written, so that a new process finds the
  session active again.
\<close>

theorem text_reason_stop_is_lost:
  assumes "require_session sid w = Inr s" and "sv_state (se_info s) = SS_ACTIVE"
    and "screen_row sid (sw_rows w) = Some i" and "sv_state i = SS_ACTIVE"
    and "check_screen_config (rehydrated_config d i) = None" and "sv_expires i = Aware t"
  shows "fst (stop_view now sid (RawReason (c # cs)) w) = Inl (Builtin PyAttributeError) \<and>
    (\<exists>s1. get_screen_session sid (snd (stop_view now sid (RawReason (c # cs)) w)) = Some s1 \<and>
       sv_state (se_info s1) = SS_STOPPED) \<and>
    (\<exists>s2. get_screen_session sid (snd (rehydrate_session later d sid
         (restart_process (snd (stop_view now sid (RawReason (c # cs)) w))))) = Some s2 \<and>
       sv_state (se_info s2) = SS_ACTIVE)"
proof -
  let ?r = "Some (RawReason (c # cs))"
  obtain l where l: "session_stop now (RawReason (c # cs)) (live_of s w) = (Inr (), l)"
      "lv_rows l = sw_rows w" "sv_id (live_info l) = sid" "live_state l = SS_STOPPED"
  proof -
    have id: "sv_id (se_info s) = sid" using require_session_mem[OF assms(1)] by (simp add: session_key_def)
    have "screen_upsert x rows = Inl (Builtin PyAttributeError)" if "sv_stop_reason x = ?r" for x rows
      using that by (simp add: screen_upsert_def)
    then have p: "persist x = x" if "sv_stop_reason (live_info x) = ?r" for x
      using that by (simp add: persist_def)
    show thesis
      by (rule that[of "snd (session_stop now (RawReason (c # cs)) (live_of s w))"])
        (use assms(2) id in \<open>simp_all add: session_stop_def end_session_def live_of_def
          screen_terminal_def assert_legal_transition_def close_live_def Let_def p with_info_def
          with_indicator_def\<close>)
  qed
  let ?w1 = "(put_session (lv_session l) w)\<lparr>sw_auths := lv_auths l, sw_rows := sw_rows w\<rparr>"
  have stop: "stop_view now sid (RawReason (c # cs)) w = (Inl (Builtin PyAttributeError), ?w1)"
    using assms(1,2) l by (simp add: stop_view_def screen_terminal_def on_session_def)
  let ?w2 = "hydrate_auth sid (restart_process ?w1)"
  obtain n where n: "new_screen_session later i (rehydrated_config d i) True True = Inr n"
    using assms(5) by (auto simp: new_screen_session_def and_then_def new_frame_validator_def
        new_frame_buffer_def new_frame_tracker_def new_frame_queue_def check_screen_config_def Let_def
        split: if_splits)
  note fields = new_session_fields[OF n]
  obtain l2 where "reactivate later (live_of n ?w2) = (Inr (), l2)" "live_info l2 = i"
  proof -
    have "info_ok (\<lambda>x. True) (\<lambda>x. True) (live_info (live_of n ?w2))"
      using assms(6) fields by (simp add: info_ok_def live_of_def)
    with reactivate_ok fields that show thesis by (metis live_of_def screen_live.select_convs(1))
  qed
  then have "rehydrate_session later d sid (restart_process ?w1) = (Inr (), put_session (lv_session l2) ?w2)"
    using assms(3,5) n by (simp add: rehydrate_session_def restart_process_def put_session_def
        get_screen_session_def)
  moreover have "sv_id i = sid" using assms(3) by (auto simp: screen_row_def dest!: fetch_where_Some)
  moreover have "get_screen_session sid (x\<lparr>sw_auths := m, sw_rows := rs\<rparr>) = get_screen_session sid x" for x m rs
    by (simp add: get_screen_session_def)
  moreover have "session_key (lv_session l) = sid" "session_key (lv_session l2) = sid"
    using l(3) \<open>live_info l2 = i\<close> \<open>sv_id i = sid\<close> by (simp_all add: session_key_def)
  ultimately show ?thesis
    using l(4) \<open>live_info l2 = i\<close> assms(4) unfolding stop by (simp add: get_put_session)
qed

section \<open>The statements at a concrete run\<close>

definition sample_view :: view_request where
  "sample_view = \<lparr>vr_device = ''GM-C-00000002'', vr_parent = ''GM-P-00000001'', vr_max_duration = 300,
     vr_label = None, vr_width = 4, vr_height = 2, vr_max_fps = 10\<rparr>"

definition sample_frame :: screen_frame where
  "sample_frame = \<lparr>sf_version = ''1.0'', sf_session = ''SCN-1'', sf_device = ''GM-C-00000002'',
     sf_id = ''FRM-1'', sf_sequence = 1, sf_captured = ''now'', sf_width = 4, sf_height = 2,
     sf_pixel = PF_TEST, sf_codec = CODEC_TEST, sf_payload_size = 2, sf_payload = [7, 8]\<rparr>"

definition sample_defaults :: screen_defaults where
  "sample_defaults = \<lparr>sd_max_duration = 300, sd_width = 1280, sd_height = 720, sd_fps = 10\<rparr>"

definition sample_steps :: "(int \<times> screen_op) list" where
  "sample_steps = [(0, RequestView ''SCN-1'' ''SCA-1'' ''00'' sample_view), (1, ApproveView ''SCN-1''),
     (2, StartView ''SCN-1'')]"

definition sample_streaming :: "screen_op list \<times> screen_world" where
  "sample_streaming = screen_run (\<lambda>x. Aware 0) sample_defaults sample_steps (fresh_world None)"

lemma sample_history: "fst sample_streaming = map snd sample_steps"
  by code_simp

lemma sample_ingest: "succeeded (ingest_view (\<lambda>x. Aware 0) 3 ''SCN-1'' sample_frame (snd sample_streaming))"
  by code_simp

lemma sample_session:
  "(case require_session ''SCN-1'' (snd sample_streaming) of
      Inl e \<Rightarrow> False | Inr s \<Rightarrow> sv_state (se_info s) = SS_ACTIVE) \<and>
   (case screen_row ''SCN-1'' (sw_rows (snd sample_streaming)) of
      None \<Rightarrow> False
    | Some i \<Rightarrow> sv_state i = SS_ACTIVE \<and> sv_expires i = Aware 300000000 \<and>
        check_screen_config (rehydrated_config sample_defaults i) = None)"
  by code_simp


lemma active_sessions_visible_witness:
  "\<exists>s \<in> set (sw_sessions (snd sample_streaming)). in_active (se_indicator s)"
proof -
  obtain s where s: "require_session ''SCN-1'' (snd sample_streaming) = Inr s" "sv_state (se_info s) = SS_ACTIVE"
    using sample_session by (auto split: sum.splits)
  have "s \<in> set (sw_sessions (snd sample_streaming))" using require_session_mem[OF s(1)] by simp
  with active_sessions_visible[of "\<lambda>x. Aware 0" sample_defaults sample_steps None
      "fst sample_streaming" "snd sample_streaming" s] s(2)
  show ?thesis by (auto simp: sample_streaming_def)
qed


lemma text_reason_stop_is_lost_witness:
  "\<exists>s2. get_screen_session ''SCN-1'' (snd (rehydrate_session 9 sample_defaults ''SCN-1''
       (restart_process (snd (stop_view 5 ''SCN-1'' (RawReason ''ORION_STOP'') (snd sample_streaming)))))) = Some s2 \<and>
     sv_state (se_info s2) = SS_ACTIVE"
proof -
  obtain s i where "require_session ''SCN-1'' (snd sample_streaming) = Inr s" "sv_state (se_info s) = SS_ACTIVE"
    "screen_row ''SCN-1'' (sw_rows (snd sample_streaming)) = Some i" "sv_state i = SS_ACTIVE"
    "check_screen_config (rehydrated_config sample_defaults i) = None" "sv_expires i = Aware 300000000"
    using sample_session by (auto split: sum.splits option.splits)
  from text_reason_stop_is_lost[OF this, of 5 "CHR ''O''" "''RION_STOP''" 9] show ?thesis by blast
qed

end
