(* ===== verification/ScreenTransport.thy ===== *)
theory ScreenTransport
  imports ScreenController
begin

text \<open>
  \<^verbatim>\<open>guardianmesh/screen/transport.py\<close> and \<^verbatim>\<open>codec.py\<close>: screen messages as payloads
  of transport envelopes, the list of forbidden remote-control types, and the codecs, of which
  only the test codec encodes.

  The default factories (times and message identifier) are arguments.
\<close>

section \<open>Message types\<close>

text \<open>\<^verbatim>\<open>ScreenMessageType\<close>: each member has the name of the transport message it becomes.\<close>

datatype screen_message =
    SM_VIEW_REQUEST | SM_VIEW_APPROVAL | SM_VIEW_DENIAL | SM_SESSION_START | SM_FRAME
  | SM_SESSION_STOP | SM_SESSION_EXPIRED

fun screen_message_value :: "screen_message \<Rightarrow> string" where
  "screen_message_value SM_VIEW_REQUEST = ''SCREEN_VIEW_REQUEST''"
| "screen_message_value SM_VIEW_APPROVAL = ''SCREEN_VIEW_APPROVAL''"
| "screen_message_value SM_VIEW_DENIAL = ''SCREEN_VIEW_DENIAL''"
| "screen_message_value SM_SESSION_START = ''SCREEN_SESSION_START''"
| "screen_message_value SM_FRAME = ''SCREEN_FRAME''"
| "screen_message_value SM_SESSION_STOP = ''SCREEN_SESSION_STOP''"
| "screen_message_value SM_SESSION_EXPIRED = ''SCREEN_SESSION_EXPIRED''"

definition all_screen_messages :: "screen_message list" where
  "all_screen_messages = [SM_VIEW_REQUEST, SM_VIEW_APPROVAL, SM_VIEW_DENIAL, SM_SESSION_START,
     SM_FRAME, SM_SESSION_STOP, SM_SESSION_EXPIRED]"

definition screen_message_from_str :: "string \<Rightarrow> gm_error + screen_message" where
  "screen_message_from_str s =
     (case enum_of screen_message_value all_screen_messages s of
        Some m \<Rightarrow> Inr m | None \<Rightarrow> Inl (Screen ScreenError))"

definition forbidden_remote_control :: "string list" where
  "forbidden_remote_control =
     [''SCREEN_CONTROL'', ''REMOTE_INPUT'', ''REMOTE_CLICK'', ''REMOTE_TAP'', ''REMOTE_SWIPE'',
      ''REMOTE_GESTURE'', ''EXECUTE'', ''SHELL'', ''COMMAND'', ''KEYLOG'', ''KEYSTROKE'', ''MIC'',
      ''MICROPHONE'', ''CAMERA'', ''GPS'', ''LOCATION'']"

definition assert_no_remote_control_type :: "string \<Rightarrow> gm_error option" where
  "assert_no_remote_control_type name =
     (if py_upper (py_strip name) \<in> set forbidden_remote_control then Some (Screen ScreenRemoteControlError)
      else None)"

definition is_allowed_screen_message_type :: "string \<Rightarrow> bool" where
  "is_allowed_screen_message_type s \<longleftrightarrow>
     py_upper (py_strip s) \<in> set (map screen_message_value all_screen_messages)"

section \<open>Envelopes\<close>

record screen_envelope =
  nv_type :: screen_message
  nv_session :: string
  nv_device :: string
  nv_parent :: string
  nv_payload :: "(string \<times> json) list"
  nv_transport :: "json"
  nv_created :: string
  nv_expires :: string
  nv_message_id :: string

definition to_transport_envelope ::
  "screen_envelope \<Rightarrow> string \<Rightarrow> string \<Rightarrow> int \<Rightarrow> gm_error + transport_envelope" where
  "to_transport_envelope m sender recipient sq =
     and_then (message_from_str (screen_message_value (nv_type m))) (\<lambda>ty.
       Inr \<lparr>en_version = protocol_version, en_message_id = nv_message_id m,
            en_session_id = nv_session m, en_sender = sender, en_recipient = recipient,
            en_type = Typed ty, en_sequence = sq, en_created = nv_created m,
            en_expires = nv_expires m,
            en_payload =
              [(''screen_message_type'', JStr (screen_message_value (nv_type m))),
               (''screen_session_id'', JStr (nv_session m)),
               (''screen_device_id'', JStr (nv_device m)),
               (''screen_parent_id'', JStr (nv_parent m)),
               (''screen_transport_session_id'', nv_transport m),
               (''screen_payload'', JObj (nv_payload m))],
            en_auth = []\<rparr>)"

record extracted =
  ex_type :: screen_message
  ex_session :: string
  ex_device :: string
  ex_parent :: string
  ex_transport :: json
  ex_payload :: json

definition extract_screen_envelope :: "transport_envelope \<Rightarrow> gm_error + extracted" where
  "extract_screen_envelope e =
     (let kvs = en_payload e; smt = get_or JNull kvs ''screen_message_type'' in
      if smt = JNull then Inl (Screen ScreenError)
      else if \<not> is_allowed_screen_message_type (py_str smt) then Inl (Screen ScreenError)
      else and_then (screen_message_from_str (py_str smt)) (\<lambda>ty.
        Inr \<lparr>ex_type = ty,
             ex_session = py_str (get_or (JStr (en_session_id e)) kvs ''screen_session_id''),
             ex_device = str_field kvs ''screen_device_id'',
             ex_parent = str_field kvs ''screen_parent_id'',
             ex_transport = get_or JNull kvs ''screen_transport_session_id'',
             ex_payload = get_or (JObj []) kvs ''screen_payload''\<rparr>))"

definition frame_to_envelope_payload :: "screen_frame \<Rightarrow> (string \<times> json) list" where
  "frame_to_envelope_payload f =
     [(''frame_id'', JStr (sf_id f)), (''sequence'', JInt (sf_sequence f)),
      (''captured_at'', JStr (sf_captured f)), (''width'', JInt (sf_width f)),
      (''height'', JInt (sf_height f)), (''pixel_format'', JStr (pixel_value (sf_pixel f))),
      (''codec'', JStr (codec_value (sf_codec f))), (''payload_size'', JInt (sf_payload_size f)),
      (''payload_hex'', JStr (to_hex (sf_payload f)))]"

definition envelope_payload_to_frame :: "json \<Rightarrow> string \<Rightarrow> string \<Rightarrow> gm_error + screen_frame" where
  "envelope_payload_to_frame payload sid dev =
     (case payload of
        JObj kvs \<Rightarrow>
          (case map_of kvs ''payload_hex'' of
             None \<Rightarrow> Inl (Screen ScreenFrameValidationError)
           | Some h \<Rightarrow>
             (case from_hex (py_str h) of
                None \<Rightarrow> Inl (Screen ScreenFrameValidationError)
              | Some raw \<Rightarrow>
                  and_then (int_field 0 kvs ''sequence'') (\<lambda>sq.
                  and_then (int_field 0 kvs ''width'') (\<lambda>w.
                  and_then (int_field 0 kvs ''height'') (\<lambda>h.
                  and_then (parse_enum pixel_from_str (get_or (JStr ''TEST'') kvs ''pixel_format'')) (\<lambda>p.
                  and_then (parse_enum codec_from_str (get_or (JStr ''TEST'') kvs ''codec'')) (\<lambda>c.
                  and_then (int_field (int (length raw)) kvs ''payload_size'') (\<lambda>n.
                    Inr \<lparr>sf_version = ''1.0'', sf_session = sid, sf_device = dev,
                         sf_id = str_field kvs ''frame_id'', sf_sequence = sq,
                         sf_captured = str_field kvs ''captured_at'', sf_width = w, sf_height = h,
                         sf_pixel = p, sf_codec = c, sf_payload_size = n, sf_payload = raw\<rparr>))))))))
      | _ \<Rightarrow> Inl (Screen ScreenFrameValidationError))"

definition serialize_screen_envelope :: "screen_envelope \<Rightarrow> string" where
  "serialize_screen_envelope m =
     json_dumps (JObj
       [(''message_id'', JStr (nv_message_id m)),
        (''message_type'', JStr (screen_message_value (nv_type m))),
        (''session_id'', JStr (nv_session m)), (''device_id'', JStr (nv_device m)),
        (''parent_id'', JStr (nv_parent m)), (''payload'', JObj (nv_payload m)),
        (''transport_session_id'', nv_transport m), (''created_at'', JStr (nv_created m)),
        (''expires_at'', JStr (nv_expires m))])"

text \<open>
  A text that is no JSON raises \<^verbatim>\<open>JSONDecodeError\<close>, a \<^verbatim>\<open>ValueError\<close>; a value that is
  no object has no \<^verbatim>\<open>get\<close>; a missing required key is a \<^verbatim>\<open>KeyError\<close>.
\<close>

definition required_text :: "(string \<times> json) list \<Rightarrow> string \<Rightarrow> gm_error + string" where
  [model_defs]: "required_text kvs k =
     (case map_of kvs k of None \<Rightarrow> Inl (Builtin PyKeyError) | Some v \<Rightarrow> Inr (py_str v))"

definition deserialize_screen_envelope :: "string \<Rightarrow> string \<Rightarrow> gm_error + screen_envelope" where
  "deserialize_screen_envelope fresh s =
     (case json_loads s of
        None \<Rightarrow> Inl (Builtin PyValueError)
      | Some (JObj kvs) \<Rightarrow>
          and_then (and_then (required_text kvs ''message_type'') screen_message_from_str) (\<lambda>ty.
          and_then (required_text kvs ''session_id'') (\<lambda>sid.
          and_then (required_text kvs ''device_id'') (\<lambda>dev.
          and_then (required_text kvs ''parent_id'') (\<lambda>par.
            Inr \<lparr>nv_type = ty, nv_session = sid, nv_device = dev, nv_parent = par,
                 nv_payload = dict_or_empty (map_of kvs ''payload''),
                 nv_transport = get_or JNull kvs ''transport_session_id'',
                 nv_created = str_field kvs ''created_at'', nv_expires = str_field kvs ''expires_at'',
                 nv_message_id = py_str (get_or (JStr fresh) kvs ''message_id'')\<rparr>))))
      | Some _ \<Rightarrow> Inl (Builtin PyAttributeError))"

section \<open>Codecs\<close>

text \<open>\<^verbatim>\<open>TestCodec.encode\<close>; the codecs reserved for the companion raise.\<close>

definition test_codec_encode :: "(nat list \<Rightarrow> nat list) \<Rightarrow> capture_request \<Rightarrow> capture_result" where
  "test_codec_encode sha256 q =
     (let seed = map of_char (cq_session q @ ''|'' @ int_str (cq_width q) @ ''x'' @ int_str (cq_height q) @
                   ''|'' @ codec_value (cq_codec q) @ ''|'' @ pixel_value (cq_pixel q) @ ''|0'');
          digest = sha256 seed
      in \<lparr>cr_captured = True, cr_width = cq_width q, cr_height = cq_height q, cr_pixel = cq_pixel q,
          cr_codec = cq_codec q, cr_payload = digest @ digest\<rparr>)"

definition encode_frame_with :: "(nat list \<Rightarrow> nat list) \<Rightarrow> capture_request \<Rightarrow> gm_error + capture_result" where
  "encode_frame_with sha256 q =
     (if codec_is_production (cq_codec q) then Inl (Screen ScreenCodecError)
      else Inr (test_codec_encode sha256 q))"

section \<open>Properties\<close>

lemma screen_message_from_value [simp]: "screen_message_from_str (screen_message_value m) = Inr m"
  by (cases m) (simp_all add: screen_message_from_str_def enum_of_def all_screen_messages_def
      py_strip_def py_upper_def upper_char_def is_py_space_def)

lemma screen_message_is_transport: "\<exists>t. message_from_str (screen_message_value m) = Inr t"
proof -
  have "\<exists>t. screen_message_value m = message_value t"
    by (cases m; simp; metis message_value.simps)
  then show ?thesis by auto
qed

lemma allowed_iff_parses:
  "is_allowed_screen_message_type s \<longleftrightarrow> (\<exists>m. screen_message_from_str s = Inr m)"
proof
  assume "is_allowed_screen_message_type s"
  then obtain m where m: "m \<in> set all_screen_messages" "py_upper (py_strip s) = screen_message_value m"
    by (auto simp: is_allowed_screen_message_type_def)
  then have "enum_of screen_message_value all_screen_messages s \<noteq> None"
    by (auto simp: enum_of_def find_None_iff)
  then show "\<exists>m. screen_message_from_str s = Inr m"
    by (auto simp: screen_message_from_str_def)
next
  assume "\<exists>m. screen_message_from_str s = Inr m"
  then obtain m where "enum_of screen_message_value all_screen_messages s = Some m"
    by (auto simp: screen_message_from_str_def split: option.splits)
  then have "m \<in> set all_screen_messages" "screen_message_value m = py_upper (py_strip s)"
    unfolding enum_of_def by (auto simp: find_Some_iff)
  then show "is_allowed_screen_message_type s"
    unfolding is_allowed_screen_message_type_def by (metis image_eqI set_map)
qed

text \<open>No forbidden name is a screen message type, in any spelling.\<close>

lemma no_remote_control:
  "assert_no_remote_control_type s \<noteq> None \<Longrightarrow> \<not> is_allowed_screen_message_type s"
  by (auto simp: assert_no_remote_control_type_def forbidden_remote_control_def
      is_allowed_screen_message_type_def all_screen_messages_def split: if_splits)

lemma screen_type_allowed [simp]: "is_allowed_screen_message_type (screen_message_value m)"
  using allowed_iff_parses screen_message_from_value by blast

text \<open>
  A frame that is sent as a screen message and taken out of the transport envelope again is
  the frame that was sent.
\<close>

theorem frame_message_roundtrip:
  assumes "nv_type m = SM_FRAME" and "nv_payload m = frame_to_envelope_payload f"
    and "sf_version f = ''1.0''" and "sf_session f = nv_session m" and "sf_device f = nv_device m"
    and "list_all (\<lambda>b. b < 256) (sf_payload f)"
    and "to_transport_envelope m sender recipient sq = Inr e"
  shows "\<exists>x. extract_screen_envelope e = Inr x \<and> ex_type x = SM_FRAME \<and>
    envelope_payload_to_frame (ex_payload x) (ex_session x) (ex_device x) = Inr f"
proof -
  have hex: "from_hex (to_hex (sf_payload f)) = Some (sf_payload f)"
    using assms(6) by (rule from_hex_to_hex)
  obtain t where "message_from_str (screen_message_value (nv_type m)) = Inr t"
    using screen_message_is_transport by blast
  then have e: "en_payload e =
      [(''screen_message_type'', JStr (screen_message_value (nv_type m))),
       (''screen_session_id'', JStr (nv_session m)), (''screen_device_id'', JStr (nv_device m)),
       (''screen_parent_id'', JStr (nv_parent m)), (''screen_transport_session_id'', nv_transport m),
       (''screen_payload'', JObj (nv_payload m))]"
    using assms(7) by (auto simp: to_transport_envelope_def and_then_def)
  have "extract_screen_envelope e = Inr \<lparr>ex_type = nv_type m, ex_session = nv_session m,
      ex_device = nv_device m, ex_parent = nv_parent m, ex_transport = nv_transport m,
      ex_payload = JObj (nv_payload m)\<rparr>"
    by (simp add: extract_screen_envelope_def e get_or_def py_str_def str_field_def and_then_def)
  moreover have "envelope_payload_to_frame (JObj (nv_payload m)) (nv_session m) (nv_device m) = Inr f"
    using assms(2-5) hex
    by (simp add: envelope_payload_to_frame_def frame_to_envelope_payload_def and_then_def
        int_field_def get_or_def parse_enum_def str_field_def py_str_def)
  ultimately show ?thesis using assms(1) by simp
qed

definition demo_frame :: screen_frame where
  "demo_frame = \<lparr>sf_version = ''1.0'', sf_session = ''scr1'', sf_device = ''gmd-1'', sf_id = ''fr1'',
     sf_sequence = 1, sf_captured = ''2026-01-01T00:00:00+00:00'', sf_width = 4, sf_height = 2,
     sf_pixel = PF_TEST, sf_codec = CODEC_TEST, sf_payload_size = 3, sf_payload = [0, 127, 255]\<rparr>"

definition demo_frame_message :: screen_envelope where
  "demo_frame_message = \<lparr>nv_type = SM_FRAME, nv_session = ''scr1'', nv_device = ''gmd-1'',
     nv_parent = ''gmp-1'', nv_payload = frame_to_envelope_payload demo_frame, nv_transport = JNull,
     nv_created = ''2026-01-01T00:00:00+00:00'', nv_expires = ''2026-01-01T00:05:00+00:00'',
     nv_message_id = ''m1''\<rparr>"

theorem frame_message_roundtrip_witness:
  "\<exists>e x. to_transport_envelope demo_frame_message ''c'' ''p'' 7 = Inr e \<and>
     extract_screen_envelope e = Inr x \<and>
     envelope_payload_to_frame (ex_payload x) (ex_session x) (ex_device x) = Inr demo_frame"
proof -
  obtain t where "message_from_str (screen_message_value (nv_type demo_frame_message)) = Inr t"
    using screen_message_is_transport by blast
  then obtain e where e: "to_transport_envelope demo_frame_message ''c'' ''p'' 7 = Inr e"
    by (simp add: to_transport_envelope_def and_then_def)
  have "nv_type demo_frame_message = SM_FRAME"
    "nv_payload demo_frame_message = frame_to_envelope_payload demo_frame"
    "sf_version demo_frame = ''1.0''" "sf_session demo_frame = nv_session demo_frame_message"
    "sf_device demo_frame = nv_device demo_frame_message"
    "list_all (\<lambda>b. b < 256) (sf_payload demo_frame)"
    by (simp_all add: demo_frame_def demo_frame_message_def)
  from frame_message_roundtrip [OF this e] show ?thesis using e by blast
qed

end
