(* ===== verification/OrionModels.thy ===== *)
theory OrionModels
  imports ScreenModels TransportSession
begin

text \<open>
  \<^verbatim>\<open>guardianmesh/orion/events.py\<close> and \<^verbatim>\<open>actions.py\<close>: the events of the bus and the
  actions of the queue, with the checks of their constructors, the forbidden names and keys,
  and what consent each action declares that it needs.

  Times are texts, as in the dataclasses; \<open>calendar\<close> reads and writes them.  A member of a
  string enumeration is a \<^verbatim>\<open>str\<close>, so where the code takes a member or its text the
  model takes the text.
\<close>

section \<open>Event types\<close>

datatype event_type =
    EV_DEVICE_CONNECTED | EV_DEVICE_DISCONNECTED | EV_HEALTH_UPDATED | EV_HEALTH_DEGRADED |
    EV_HEALTH_RECOVERED | EV_ALERT_CREATED | EV_ALERT_RESOLVED | EV_ALERT_ACKNOWLEDGED |
    EV_POLICY_CHANGED | EV_TRUST_ESTABLISHED | EV_TRUST_REVOKED | EV_TRANSPORT_CONNECTED |
    EV_TRANSPORT_DISCONNECTED | EV_TRANSPORT_RECONNECTED | EV_TRANSPORT_RECONCILED |
    EV_TRANSPORT_REVOKED | EV_SCREEN_AUTHORIZED | EV_SCREEN_STARTED | EV_SCREEN_STOPPED |
    EV_SCREEN_EXPIRED | EV_SCREEN_DENIED | EV_AEGIS_SESSION_CREATED |
    EV_AEGIS_CONSENT_GRANTED | EV_AEGIS_CONSENT_DENIED | EV_AEGIS_CONSENT_EXPIRED |
    EV_AEGIS_CAPTURE_STARTED | EV_AEGIS_STOPPED | EV_CAPABILITY_CHANGED |
    EV_RECONCILIATION_STARTED | EV_RECONCILIATION_COMPLETED | EV_CONFLICT_RESOLVED

fun event_value :: "event_type \<Rightarrow> string" where
  "event_value EV_DEVICE_CONNECTED = ''DEVICE_CONNECTED''"
| "event_value EV_DEVICE_DISCONNECTED = ''DEVICE_DISCONNECTED''"
| "event_value EV_HEALTH_UPDATED = ''HEALTH_UPDATED''"
| "event_value EV_HEALTH_DEGRADED = ''HEALTH_DEGRADED''"
| "event_value EV_HEALTH_RECOVERED = ''HEALTH_RECOVERED''"
| "event_value EV_ALERT_CREATED = ''ALERT_CREATED''"
| "event_value EV_ALERT_RESOLVED = ''ALERT_RESOLVED''"
| "event_value EV_ALERT_ACKNOWLEDGED = ''ALERT_ACKNOWLEDGED''"
| "event_value EV_POLICY_CHANGED = ''POLICY_CHANGED''"
| "event_value EV_TRUST_ESTABLISHED = ''TRUST_ESTABLISHED''"
| "event_value EV_TRUST_REVOKED = ''TRUST_REVOKED''"
| "event_value EV_TRANSPORT_CONNECTED = ''TRANSPORT_CONNECTED''"
| "event_value EV_TRANSPORT_DISCONNECTED = ''TRANSPORT_DISCONNECTED''"
| "event_value EV_TRANSPORT_RECONNECTED = ''TRANSPORT_RECONNECTED''"
| "event_value EV_TRANSPORT_RECONCILED = ''TRANSPORT_RECONCILED''"
| "event_value EV_TRANSPORT_REVOKED = ''TRANSPORT_REVOKED''"
| "event_value EV_SCREEN_AUTHORIZED = ''SCREEN_AUTHORIZED''"
| "event_value EV_SCREEN_STARTED = ''SCREEN_STARTED''"
| "event_value EV_SCREEN_STOPPED = ''SCREEN_STOPPED''"
| "event_value EV_SCREEN_EXPIRED = ''SCREEN_EXPIRED''"
| "event_value EV_SCREEN_DENIED = ''SCREEN_DENIED''"
| "event_value EV_AEGIS_SESSION_CREATED = ''AEGIS_SESSION_CREATED''"
| "event_value EV_AEGIS_CONSENT_GRANTED = ''AEGIS_CONSENT_GRANTED''"
| "event_value EV_AEGIS_CONSENT_DENIED = ''AEGIS_CONSENT_DENIED''"
| "event_value EV_AEGIS_CONSENT_EXPIRED = ''AEGIS_CONSENT_EXPIRED''"
| "event_value EV_AEGIS_CAPTURE_STARTED = ''AEGIS_CAPTURE_STARTED''"
| "event_value EV_AEGIS_STOPPED = ''AEGIS_STOPPED''"
| "event_value EV_CAPABILITY_CHANGED = ''CAPABILITY_CHANGED''"
| "event_value EV_RECONCILIATION_STARTED = ''RECONCILIATION_STARTED''"
| "event_value EV_RECONCILIATION_COMPLETED = ''RECONCILIATION_COMPLETED''"
| "event_value EV_CONFLICT_RESOLVED = ''CONFLICT_RESOLVED''"

definition all_event_types :: "event_type list" where
  "all_event_types =
     [EV_DEVICE_CONNECTED, EV_DEVICE_DISCONNECTED, EV_HEALTH_UPDATED, EV_HEALTH_DEGRADED,
      EV_HEALTH_RECOVERED, EV_ALERT_CREATED, EV_ALERT_RESOLVED, EV_ALERT_ACKNOWLEDGED,
      EV_POLICY_CHANGED, EV_TRUST_ESTABLISHED, EV_TRUST_REVOKED, EV_TRANSPORT_CONNECTED,
      EV_TRANSPORT_DISCONNECTED, EV_TRANSPORT_RECONNECTED, EV_TRANSPORT_RECONCILED,
      EV_TRANSPORT_REVOKED, EV_SCREEN_AUTHORIZED, EV_SCREEN_STARTED, EV_SCREEN_STOPPED,
      EV_SCREEN_EXPIRED, EV_SCREEN_DENIED, EV_AEGIS_SESSION_CREATED,
      EV_AEGIS_CONSENT_GRANTED, EV_AEGIS_CONSENT_DENIED, EV_AEGIS_CONSENT_EXPIRED,
      EV_AEGIS_CAPTURE_STARTED, EV_AEGIS_STOPPED, EV_CAPABILITY_CHANGED,
      EV_RECONCILIATION_STARTED, EV_RECONCILIATION_COMPLETED, EV_CONFLICT_RESOLVED]"

definition event_from_str :: "string \<Rightarrow> gm_error + event_type" where
  "event_from_str s =
     (case enum_of event_value all_event_types s of
        Some x \<Rightarrow> Inr x | None \<Rightarrow> Inl (Orion OrionEventError))"

definition FORBIDDEN_EVENT_NAMES :: "string list" where
  "FORBIDDEN_EVENT_NAMES =
     [''KEYSTROKE'', ''KEY_LOG'', ''KEYLOG'', ''MESSAGE'', ''MESSAGES'', ''SMS'', ''EMAIL'',
      ''CLIPBOARD'', ''MICROPHONE'', ''MIC'', ''AUDIO'', ''CAMERA'', ''VIDEO_FRAME_RAW'',
      ''LOCATION'', ''GPS'', ''BROWSER_HISTORY'', ''CONTACT'', ''CONTACTS'', ''PHOTO'',
      ''PHOTOS'', ''FILE_LISTING'', ''SHELL'', ''SHELL_COMMAND'', ''EXEC'', ''EXECUTE'',
      ''REMOTE_INPUT'', ''REMOTE_TAP'', ''REMOTE_CLICK'', ''REMOTE_SWIPE'',
      ''REMOTE_GESTURE'', ''ACCESSIBILITY_ACTION'']"

definition assert_safe_event_type_name :: "string \<Rightarrow> gm_error option" where
  "assert_safe_event_type_name name =
     (if py_upper (py_strip name) \<in> set FORBIDDEN_EVENT_NAMES then Some (Orion OrionEventError) else None)"

datatype event_priority =
    PRI_LOW | PRI_NORMAL | PRI_HIGH | PRI_CRITICAL

fun priority_value :: "event_priority \<Rightarrow> string" where
  "priority_value PRI_LOW = ''LOW''"
| "priority_value PRI_NORMAL = ''NORMAL''"
| "priority_value PRI_HIGH = ''HIGH''"
| "priority_value PRI_CRITICAL = ''CRITICAL''"

definition priority_from_str :: "string \<Rightarrow> gm_error + event_priority" where
  "priority_from_str s =
     (case enum_of priority_value [PRI_LOW, PRI_NORMAL, PRI_HIGH, PRI_CRITICAL] s of
        Some x \<Rightarrow> Inr x | None \<Rightarrow> Inl (Orion OrionEventError))"

text \<open>The order the documentation of the enumeration gives them.\<close>

fun priority_rank :: "event_priority \<Rightarrow> nat" where
  "priority_rank PRI_LOW = 0"
| "priority_rank PRI_NORMAL = 1"
| "priority_rank PRI_HIGH = 2"
| "priority_rank PRI_CRITICAL = 3"

lemma priority_rank_inject: "priority_rank p = priority_rank q \<longleftrightarrow> p = q"
  by (cases p; cases q) simp_all

instantiation event_priority :: linorder
begin

definition less_eq_event_priority :: "event_priority \<Rightarrow> event_priority \<Rightarrow> bool" where
  "p \<le> q \<longleftrightarrow> priority_rank p \<le> priority_rank q"

definition less_event_priority :: "event_priority \<Rightarrow> event_priority \<Rightarrow> bool" where
  "p < q \<longleftrightarrow> priority_rank p < priority_rank q"

instance
  by standard (auto simp: less_eq_event_priority_def less_event_priority_def priority_rank_inject)

end

definition FORBIDDEN_PAYLOAD_KEYS :: "string list" where
  "FORBIDDEN_PAYLOAD_KEYS =
     [''payload'', ''frame'', ''frame_bytes'', ''screenshot'', ''image'', ''raw_pixels'',
      ''keylog'', ''keystrokes'', ''messages'', ''sms'', ''email'', ''clipboard'',
      ''microphone'', ''audio'', ''camera'', ''video'', ''location'', ''gps'',
      ''browser_history'', ''contacts'', ''photos'', ''files'', ''command'', ''shell'',
      ''exec'', ''execute'', ''remote_input'', ''remote_tap'', ''remote_click'',
      ''password'', ''private_key'', ''secret'', ''token'', ''auth_token'', ''otp'']"

definition assert_safe_payload :: "(string \<times> json) list \<Rightarrow> gm_error option" where
  "assert_safe_payload p =
     (if \<exists>k \<in> set (map fst p). py_lower k \<in> set FORBIDDEN_PAYLOAD_KEYS
      then Some (Orion OrionEventError) else None)"

section \<open>Events\<close>

record orion_event =
  oe_id :: string
  oe_type :: event_type
  oe_source :: string
  oe_device :: string
  oe_created :: string
  oe_correlation :: string
  oe_version :: string
  oe_payload :: "(string \<times> json) list"
  oe_priority :: event_priority
  oe_sequence :: int

definition known_device :: "string \<Rightarrow> bool" where
  [model_defs]: "known_device d \<longleftrightarrow> d \<in> {''SYSTEM'', ''BUS'', ''ORION''} \<or> valid_id d"

definition orion_schema :: string where "orion_schema = ''1.0''"

definition check_event :: "(string \<Rightarrow> stamp) \<Rightarrow> orion_event \<Rightarrow> gm_error option" where
  "check_event rd e =
     (let bad = Some (Orion OrionEventError) in
      if oe_id e = [] then bad
      else if oe_source e = [] then bad
      else if oe_device e = [] then bad
      else if \<not> known_device (oe_device e) then bad
      else if oe_correlation e = [] then bad
      else if oe_version e \<noteq> orion_schema then bad
      else if assert_safe_payload (oe_payload e) \<noteq> None then bad
      else if \<not> readable_time rd (oe_created e) then bad
      else if oe_sequence e < 0 then bad
      else None)"

definition checked_event :: "(string \<Rightarrow> stamp) \<Rightarrow> orion_event \<Rightarrow> gm_error + orion_event" where
  [model_defs]: "checked_event rd e =
     (case check_event rd e of Some x \<Rightarrow> Inl x | None \<Rightarrow> Inr e)"

text \<open>
  \<^verbatim>\<open>OrionEvent.create\<close>: the texts \<open>fresh_id\<close>, \<open>fresh_cor\<close> and the time are drawn
  when the argument is missing or empty.
\<close>

definition or_else :: "string option \<Rightarrow> string \<Rightarrow> string" where
  [model_defs]: "or_else x d = (case x of None \<Rightarrow> d | Some s \<Rightarrow> if s = [] then d else s)"

record event_request =
  rq_type :: string
  rq_source :: string
  rq_device :: string
  rq_correlation :: "string option"
  rq_payload :: "(string \<times> json) list"
  rq_priority :: string
  rq_event_id :: "string option"
  rq_created :: "string option"

definition event_create ::
  "calendar \<Rightarrow> int \<Rightarrow> string \<Rightarrow> string \<Rightarrow> event_request \<Rightarrow> gm_error + orion_event" where
  "event_create cal now fresh_id fresh_cor q =
     (case assert_safe_event_type_name (rq_type q) of
        Some e \<Rightarrow> Inl e
      | None \<Rightarrow>
          and_then (event_from_str (rq_type q)) (\<lambda>t.
          and_then (priority_from_str (rq_priority q)) (\<lambda>p.
            checked_event (read_iso cal)
              \<lparr>oe_id = or_else (rq_event_id q) fresh_id, oe_type = t, oe_source = rq_source q,
               oe_device = rq_device q, oe_created = or_else (rq_created q) (write_iso cal now),
               oe_correlation = or_else (rq_correlation q) fresh_cor, oe_version = orion_schema,
               oe_payload = rq_payload q, oe_priority = p, oe_sequence = 0\<rparr>)))"

definition event_to_dict :: "orion_event \<Rightarrow> json" where
  "event_to_dict e =
     JObj [(''event_id'', JStr (oe_id e)), (''event_type'', JStr (event_value (oe_type e))),
           (''source'', JStr (oe_source e)), (''device_id'', JStr (oe_device e)),
           (''created_at'', JStr (oe_created e)), (''correlation_id'', JStr (oe_correlation e)),
           (''schema_version'', JStr (oe_version e)), (''payload'', JObj (oe_payload e)),
           (''priority'', JStr (priority_value (oe_priority e))),
           (''sequence'', JInt (oe_sequence e))]"

definition event_to_canonical_json :: "orion_event \<Rightarrow> string" where
  "event_to_canonical_json e = json_dumps (event_to_dict e)"

definition event_from_dict :: "(string \<Rightarrow> stamp) \<Rightarrow> json \<Rightarrow> gm_error + orion_event" where
  "event_from_dict rd d =
     (case d of
        JObj kvs \<Rightarrow>
          and_then (event_from_str (str_field kvs ''event_type'')) (\<lambda>t.
          and_then (priority_from_str (py_str (get_or (JStr ''NORMAL'') kvs ''priority''))) (\<lambda>p.
          and_then (int_field 0 kvs ''sequence'') (\<lambda>n.
            checked_event rd
              \<lparr>oe_id = str_field kvs ''event_id'', oe_type = t, oe_source = str_field kvs ''source'',
               oe_device = str_field kvs ''device_id'', oe_created = str_field kvs ''created_at'',
               oe_correlation = str_field kvs ''correlation_id'',
               oe_version = py_str (get_or (JStr orion_schema) kvs ''schema_version''),
               oe_payload = dict_or_empty (map_of kvs ''payload''), oe_priority = p,
               oe_sequence = n\<rparr>)))
      | _ \<Rightarrow> Inl (Orion OrionEventError))"

section \<open>Action types\<close>

datatype action_type =
    ACT_REFRESH_HEALTH | ACT_REQUEST_HEALTH_SYNC | ACT_ACKNOWLEDGE_ALERT | ACT_RESOLVE_ALERT |
    ACT_RECONNECT_TRANSPORT | ACT_REQUEST_STATUS_SYNC | ACT_REQUEST_SCREEN_SESSION |
    ACT_STOP_SCREEN_SESSION | ACT_REQUEST_AEGIS_CONSENT | ACT_STOP_AEGIS_CAPTURE |
    ACT_RECONCILE_STATE | ACT_REQUEST_CAPABILITIES

fun action_value :: "action_type \<Rightarrow> string" where
  "action_value ACT_REFRESH_HEALTH = ''REFRESH_HEALTH''"
| "action_value ACT_REQUEST_HEALTH_SYNC = ''REQUEST_HEALTH_SYNC''"
| "action_value ACT_ACKNOWLEDGE_ALERT = ''ACKNOWLEDGE_ALERT''"
| "action_value ACT_RESOLVE_ALERT = ''RESOLVE_ALERT''"
| "action_value ACT_RECONNECT_TRANSPORT = ''RECONNECT_TRANSPORT''"
| "action_value ACT_REQUEST_STATUS_SYNC = ''REQUEST_STATUS_SYNC''"
| "action_value ACT_REQUEST_SCREEN_SESSION = ''REQUEST_SCREEN_SESSION''"
| "action_value ACT_STOP_SCREEN_SESSION = ''STOP_SCREEN_SESSION''"
| "action_value ACT_REQUEST_AEGIS_CONSENT = ''REQUEST_AEGIS_CONSENT''"
| "action_value ACT_STOP_AEGIS_CAPTURE = ''STOP_AEGIS_CAPTURE''"
| "action_value ACT_RECONCILE_STATE = ''RECONCILE_STATE''"
| "action_value ACT_REQUEST_CAPABILITIES = ''REQUEST_CAPABILITIES''"

definition all_action_types :: "action_type list" where
  "all_action_types =
     [ACT_REFRESH_HEALTH, ACT_REQUEST_HEALTH_SYNC, ACT_ACKNOWLEDGE_ALERT, ACT_RESOLVE_ALERT,
      ACT_RECONNECT_TRANSPORT, ACT_REQUEST_STATUS_SYNC, ACT_REQUEST_SCREEN_SESSION,
      ACT_STOP_SCREEN_SESSION, ACT_REQUEST_AEGIS_CONSENT, ACT_STOP_AEGIS_CAPTURE,
      ACT_RECONCILE_STATE, ACT_REQUEST_CAPABILITIES]"

definition action_from_str :: "string \<Rightarrow> gm_error + action_type" where
  "action_from_str s =
     (case enum_of action_value all_action_types s of
        Some x \<Rightarrow> Inr x | None \<Rightarrow> Inl (Orion OrionActionError))"

definition FORBIDDEN_ACTION_NAMES :: "string list" where
  "FORBIDDEN_ACTION_NAMES =
     [''EXECUTE'', ''EXEC'', ''RUN'', ''RUN_COMMAND'', ''SHELL'', ''SHELL_COMMAND'',
      ''OPEN_TERMINAL'', ''OPEN_REMOTE_TERMINAL'', ''REMOTE_INPUT'', ''REMOTE_TAP'',
      ''REMOTE_CLICK'', ''REMOTE_SWIPE'', ''REMOTE_GESTURE'', ''REMOTE_KEY'',
      ''REMOTE_KEY_PRESS'', ''TYPE_TEXT'', ''INPUT_TEXT'', ''INJECT_TEXT'',
      ''ACCESSIBILITY_ACTION'', ''READ_CLIPBOARD'', ''WRITE_CLIPBOARD'',
      ''ENABLE_MICROPHONE'', ''ENABLE_CAMERA'', ''ENABLE_LOCATION'',
      ''ENABLE_NOTIFICATIONS'', ''READ_NOTIFICATIONS'', ''READ_SMS'', ''READ_CONTACTS'',
      ''READ_FILES'', ''READ_BROWSER_HISTORY'', ''ENABLE_KEYLOG'', ''READ_KEYLOG'',
      ''HIDDEN_CAPTURE'', ''HIDDEN_SCREENSHOT'']"

definition assert_safe_action_type_name :: "string \<Rightarrow> gm_error option" where
  "assert_safe_action_type_name name =
     (if py_upper (py_strip name) \<in> set FORBIDDEN_ACTION_NAMES then Some (Orion OrionActionError) else None)"

definition FORBIDDEN_ACTION_PARAM_KEYS :: "string list" where
  "FORBIDDEN_ACTION_PARAM_KEYS =
     [''command'', ''shell'', ''exec'', ''execute'', ''code'', ''script'', ''payload'', ''frame'',
      ''screenshot'', ''keylog'', ''keystrokes'', ''messages'', ''clipboard'',
      ''microphone'', ''audio'', ''camera'', ''video'', ''location'', ''gps'',
      ''browser_history'', ''contacts'', ''password'', ''private_key'', ''secret'',
      ''token'']"

definition assert_safe_action_params :: "(string \<times> json) list \<Rightarrow> gm_error option" where
  "assert_safe_action_params p =
     (if \<exists>k \<in> set (map fst p). py_lower k \<in> set FORBIDDEN_ACTION_PARAM_KEYS
      then Some (Orion OrionActionError) else None)"

datatype action_status =
    ST_PENDING | ST_RUNNING | ST_SUCCEEDED | ST_FAILED | ST_EXPIRED | ST_CANCELLED

fun status_value :: "action_status \<Rightarrow> string" where
  "status_value ST_PENDING = ''PENDING''"
| "status_value ST_RUNNING = ''RUNNING''"
| "status_value ST_SUCCEEDED = ''SUCCEEDED''"
| "status_value ST_FAILED = ''FAILED''"
| "status_value ST_EXPIRED = ''EXPIRED''"
| "status_value ST_CANCELLED = ''CANCELLED''"

definition action_status_from_str :: "string \<Rightarrow> gm_error + action_status" where
  "action_status_from_str s =
     (case enum_of status_value
        [ST_PENDING, ST_RUNNING, ST_SUCCEEDED, ST_FAILED, ST_EXPIRED, ST_CANCELLED] s of
        Some x \<Rightarrow> Inr x | None \<Rightarrow> Inl (Orion OrionActionError))"

section \<open>Consent requirements\<close>

datatype consent_requirement =
    NEED_NONE | NEED_TRUST_REQUIRED | NEED_VISTA_AUTHORIZATION_REQUIRED |
    NEED_AEGIS_SYSTEM_CONSENT_REQUIRED | NEED_CHILD_AUTHORIZATION_REQUIRED |
    NEED_EXISTING_ACTIVE_SESSION

fun consent_value :: "consent_requirement \<Rightarrow> string" where
  "consent_value NEED_NONE = ''NONE''"
| "consent_value NEED_TRUST_REQUIRED = ''TRUST_REQUIRED''"
| "consent_value NEED_VISTA_AUTHORIZATION_REQUIRED = ''VISTA_AUTHORIZATION_REQUIRED''"
| "consent_value NEED_AEGIS_SYSTEM_CONSENT_REQUIRED = ''AEGIS_SYSTEM_CONSENT_REQUIRED''"
| "consent_value NEED_CHILD_AUTHORIZATION_REQUIRED = ''CHILD_AUTHORIZATION_REQUIRED''"
| "consent_value NEED_EXISTING_ACTIVE_SESSION = ''EXISTING_ACTIVE_SESSION''"

definition consent_from_str :: "string \<Rightarrow> gm_error + consent_requirement" where
  "consent_from_str s =
     (case enum_of consent_value
        [NEED_NONE, NEED_TRUST_REQUIRED, NEED_VISTA_AUTHORIZATION_REQUIRED,
         NEED_AEGIS_SYSTEM_CONSENT_REQUIRED, NEED_CHILD_AUTHORIZATION_REQUIRED,
         NEED_EXISTING_ACTIVE_SESSION] s of
        Some x \<Rightarrow> Inr x | None \<Rightarrow> Inl (Orion OrionActionError))"

definition capture_consents :: "consent_requirement list" where
  [model_defs]: "capture_consents =
     [NEED_TRUST_REQUIRED, NEED_VISTA_AUTHORIZATION_REQUIRED, NEED_AEGIS_SYSTEM_CONSENT_REQUIRED,
      NEED_CHILD_AUTHORIZATION_REQUIRED]"

fun ACTION_CONSENT_REQUIREMENTS :: "action_type \<Rightarrow> consent_requirement list" where
  "ACTION_CONSENT_REQUIREMENTS ACT_REFRESH_HEALTH = [NEED_TRUST_REQUIRED]"
| "ACTION_CONSENT_REQUIREMENTS ACT_REQUEST_HEALTH_SYNC = [NEED_TRUST_REQUIRED]"
| "ACTION_CONSENT_REQUIREMENTS ACT_ACKNOWLEDGE_ALERT = []"
| "ACTION_CONSENT_REQUIREMENTS ACT_RESOLVE_ALERT = []"
| "ACTION_CONSENT_REQUIREMENTS ACT_RECONNECT_TRANSPORT = []"
| "ACTION_CONSENT_REQUIREMENTS ACT_REQUEST_STATUS_SYNC = [NEED_TRUST_REQUIRED]"
| "ACTION_CONSENT_REQUIREMENTS ACT_REQUEST_SCREEN_SESSION = capture_consents"
| "ACTION_CONSENT_REQUIREMENTS ACT_STOP_SCREEN_SESSION = [NEED_TRUST_REQUIRED, NEED_EXISTING_ACTIVE_SESSION]"
| "ACTION_CONSENT_REQUIREMENTS ACT_REQUEST_AEGIS_CONSENT = capture_consents"
| "ACTION_CONSENT_REQUIREMENTS ACT_STOP_AEGIS_CAPTURE = [NEED_TRUST_REQUIRED, NEED_EXISTING_ACTIVE_SESSION]"
| "ACTION_CONSENT_REQUIREMENTS ACT_RECONCILE_STATE = [NEED_TRUST_REQUIRED]"
| "ACTION_CONSENT_REQUIREMENTS ACT_REQUEST_CAPABILITIES = []"

definition required_consents :: "string \<Rightarrow> gm_error + consent_requirement list" where
  "required_consents s = and_then (action_from_str s) (\<lambda>t. Inr (ACTION_CONSENT_REQUIREMENTS t))"

section \<open>Actions\<close>

record orion_action =
  oa_id :: string
  oa_type :: action_type
  oa_device :: string
  oa_created :: string
  oa_expires :: string
  oa_correlation :: string
  oa_requested_by :: string
  oa_status :: action_status
  oa_version :: string
  oa_params :: "(string \<times> json) list"
  oa_key :: "string option"
  oa_retries :: int
  oa_max_retries :: int
  oa_next_attempt :: "string option"
  oa_last_error :: "string option"
  oa_updated :: "string option"
  oa_result :: "(string \<times> json) list"

definition check_action :: "(string \<Rightarrow> stamp) \<Rightarrow> orion_action \<Rightarrow> gm_error option" where
  "check_action rd a =
     (let bad = Some (Orion OrionActionError) in
      if oa_id a = [] then bad
      else if oa_device a = [] then bad
      else if \<not> known_device (oa_device a) then bad
      else if oa_created a = [] \<or> oa_expires a = [] then bad
      else if oa_correlation a = [] then bad
      else if oa_requested_by a = [] then bad
      else if oa_version a \<noteq> orion_schema then bad
      else if assert_safe_action_params (oa_params a) \<noteq> None then bad
      else if oa_retries a < 0 then bad
      else if oa_max_retries a < 0 then bad
      else if oa_max_retries a < oa_retries a then bad
      else if \<not> readable_time rd (oa_created a) \<or> \<not> readable_time rd (oa_expires a) then bad
      else if \<not> (case oa_next_attempt a of None \<Rightarrow> True | Some t \<Rightarrow> readable_time rd t) then bad
      else None)"

definition checked_action :: "(string \<Rightarrow> stamp) \<Rightarrow> orion_action \<Rightarrow> gm_error + orion_action" where
  [model_defs]: "checked_action rd a =
     (case check_action rd a of Some x \<Rightarrow> Inl x | None \<Rightarrow> Inr a)"

text \<open>An expiry that does not parse has passed; comparing with a naive one raises.\<close>

definition action_is_expired :: "(string \<Rightarrow> stamp) \<Rightarrow> int \<Rightarrow> orion_action \<Rightarrow> gm_error + bool" where
  "action_is_expired rd now a =
     (case rd (oa_expires a) of
        Aware t \<Rightarrow> Inr (t < now)
      | Naive t \<Rightarrow> Inl (Builtin PyTypeError)
      | _ \<Rightarrow> Inr True)"

definition action_can_retry :: "orion_action \<Rightarrow> bool" where
  "action_can_retry a \<longleftrightarrow> oa_retries a < oa_max_retries a"

definition json_opt :: "string option \<Rightarrow> json" where
  [model_defs]: "json_opt x = (case x of None \<Rightarrow> JNull | Some s \<Rightarrow> JStr s)"

definition action_to_dict :: "orion_action \<Rightarrow> json" where
  "action_to_dict a =
     JObj [(''action_id'', JStr (oa_id a)), (''action_type'', JStr (action_value (oa_type a))),
           (''device_id'', JStr (oa_device a)), (''created_at'', JStr (oa_created a)),
           (''expires_at'', JStr (oa_expires a)), (''correlation_id'', JStr (oa_correlation a)),
           (''requested_by'', JStr (oa_requested_by a)), (''status'', JStr (status_value (oa_status a))),
           (''schema_version'', JStr (oa_version a)), (''parameters'', JObj (oa_params a)),
           (''idempotency_key'', json_opt (oa_key a)), (''retry_count'', JInt (oa_retries a)),
           (''max_retries'', JInt (oa_max_retries a)), (''next_attempt_at'', json_opt (oa_next_attempt a)),
           (''last_error'', json_opt (oa_last_error a)), (''updated_at'', json_opt (oa_updated a)),
           (''result'', JObj (oa_result a))]"

definition action_to_canonical_json :: "orion_action \<Rightarrow> string" where
  "action_to_canonical_json a = json_dumps (action_to_dict a)"

section \<open>Reading back\<close>

lemma all_event_types_complete: "t \<in> set all_event_types"
  by (cases t) (simp_all add: all_event_types_def)

lemma all_action_types_complete: "t \<in> set all_action_types"
  by (cases t) (simp_all add: all_action_types_def)

lemma event_value_plain: "py_upper (py_strip (event_value t)) = event_value t"
  by (cases t) (simp_all add: py_strip_def py_upper_def upper_char_def is_py_space_def)

lemma event_values_distinct: "distinct (map event_value all_event_types)"
  by code_simp

lemma event_from_value [simp]: "event_from_str (event_value t) = Inr t"
  by (simp add: event_from_str_def enum_of_value all_event_types_complete event_values_distinct
      event_value_plain)

lemma action_value_plain: "py_upper (py_strip (action_value t)) = action_value t"
  by (cases t) (simp_all add: py_strip_def py_upper_def upper_char_def is_py_space_def)

lemma action_values_distinct: "distinct (map action_value all_action_types)"
  by code_simp

lemma action_from_value [simp]: "action_from_str (action_value t) = Inr t"
  by (simp add: action_from_str_def enum_of_value all_action_types_complete action_values_distinct
      action_value_plain)

lemma priority_from_value [simp]: "priority_from_str (priority_value p) = Inr p"
  by (cases p) (simp_all add: priority_from_str_def enum_of_def py_strip_def py_upper_def
      upper_char_def is_py_space_def)

lemma status_from_value [simp]: "action_status_from_str (status_value p) = Inr p"
  by (cases p) (simp_all add: action_status_from_str_def enum_of_def py_strip_def py_upper_def
      upper_char_def is_py_space_def)

text \<open>No forbidden name is an event or action type, in any spelling.\<close>

lemma enum_of_text: "enum_of val xs s = Some x \<Longrightarrow> val x = py_upper (py_strip s)"
  unfolding enum_of_def by (auto simp: find_Some_iff)

lemma event_names_safe: "event_value t \<notin> set FORBIDDEN_EVENT_NAMES"
  by (cases t) (simp_all add: FORBIDDEN_EVENT_NAMES_def)

lemma action_names_safe: "action_value t \<notin> set FORBIDDEN_ACTION_NAMES"
  by (cases t) (simp_all add: FORBIDDEN_ACTION_NAMES_def)

lemma parsed_event_is_safe:
  "event_from_str s = Inr t \<Longrightarrow> assert_safe_event_type_name s = None"
  using event_names_safe[of t]
  by (auto simp: event_from_str_def assert_safe_event_type_name_def split: option.splits dest!: enum_of_text)

lemma parsed_action_is_safe:
  "action_from_str s = Inr t \<Longrightarrow> assert_safe_action_type_name s = None"
  using action_names_safe[of t]
  by (auto simp: action_from_str_def assert_safe_action_type_name_def split: option.splits dest!: enum_of_text)

text \<open>A constructed event or action carries none of the forbidden keys.\<close>

lemma checked_event_keys:
  "check_event rd e = None \<Longrightarrow> k \<in> fst ` set (oe_payload e) \<Longrightarrow> py_lower k \<notin> set FORBIDDEN_PAYLOAD_KEYS"
  by (fastforce simp: check_event_def assert_safe_payload_def Let_def split: if_splits)

lemma checked_action_keys:
  "check_action rd a = None \<Longrightarrow> k \<in> fst ` set (oa_params a) \<Longrightarrow>
   py_lower k \<notin> set FORBIDDEN_ACTION_PARAM_KEYS"
  by (fastforce simp: check_action_def assert_safe_action_params_def Let_def split: if_splits)

lemma canon_keys: "canon (JObj kvs) = JObj p \<Longrightarrow> fst ` set p = fst ` set kvs"
  by (force simp: image_iff)

text \<open>
  An event written as canonical JSON is read back as it was, up to the order of the keys of
  its payload.
\<close>

theorem event_json_roundtrip:
  assumes "check_event rd e = None" and "json_ok (JObj (oe_payload e))"
  shows "\<exists>d p. json_loads (event_to_canonical_json e) = Some d \<and>
    event_from_dict rd d = Inr (e\<lparr>oe_payload := p\<rparr>) \<and> JObj p = canon (JObj (oe_payload e))"
proof -
  define kvs where "kvs = [(''event_id'', JStr (oe_id e)), (''event_type'', JStr (event_value (oe_type e))),
           (''source'', JStr (oe_source e)), (''device_id'', JStr (oe_device e)),
           (''created_at'', JStr (oe_created e)), (''correlation_id'', JStr (oe_correlation e)),
           (''schema_version'', JStr (oe_version e)), (''payload'', JObj (oe_payload e)),
           (''priority'', JStr (priority_value (oe_priority e))),
           (''sequence'', JInt (oe_sequence e))]"
  have out: "event_to_canonical_json e = json_dumps (JObj kvs)"
    by (simp add: event_to_canonical_json_def event_to_dict_def kvs_def)
  have dist: "distinct (map fst kvs)" by (simp add: kvs_def)
  have ok: "json_ok (JObj kvs)" using assms(2) dist by (simp add: kvs_def)
  let ?d = "JObj (sort_key fst (map (\<lambda>(x, v). (x, canon v)) kvs))"
  have d: "json_loads (event_to_canonical_json e) = Some ?d"
    using json_dumps_loads(1)[OF ok] by (simp add: out)
  obtain p where p: "JObj p = canon (JObj (oe_payload e))" by simp
  have keys: "fst ` set p = fst ` set (oe_payload e)" using p[symmetric] by (rule canon_keys)
  have "assert_safe_payload p = assert_safe_payload (oe_payload e)"
    using keys by (simp add: assert_safe_payload_def bex_simps(7)[symmetric] del: bex_simps)
  then have "check_event rd (e\<lparr>oe_payload := p\<rparr>) = None"
    using assms(1) by (auto simp: check_event_def Let_def split: if_splits)
  then have "checked_event rd (e\<lparr>oe_payload := p\<rparr>) = Inr (e\<lparr>oe_payload := p\<rparr>)"
    by (simp add: checked_event_def)
  then have "event_from_dict rd ?d = Inr (e\<lparr>oe_payload := p\<rparr>)"
    using p by (cases e) (simp add: event_from_dict_def map_of_canon[OF dist] str_field_def get_or_def
        py_str_def dict_or_empty_def and_then_def int_field_def kvs_def)
  with d p show ?thesis by blast
qed

definition demo_event :: orion_event where
  "demo_event = \<lparr>oe_id = ''OEV-1'', oe_type = EV_HEALTH_UPDATED, oe_source = ''pulse'',
     oe_device = ''SYSTEM'', oe_created = ''2026-01-01'', oe_correlation = ''OCR-1'',
     oe_version = ''1.0'', oe_payload = [(''level'', JInt 3)], oe_priority = PRI_NORMAL,
     oe_sequence = 0\<rparr>"

theorem event_json_roundtrip_witness:
  "\<exists>d. json_loads (event_to_canonical_json demo_event) = Some d \<and>
     (\<exists>p. event_from_dict (\<lambda>s. if s = [] then Blank else Aware 0) d = Inr (demo_event\<lparr>oe_payload := p\<rparr>))"
proof -
  have "check_event (\<lambda>s. if s = [] then Blank else Aware 0) demo_event = None"
    by (simp add: demo_event_def check_event_def Let_def orion_schema_def known_device_def
        assert_safe_payload_def readable_time_def FORBIDDEN_PAYLOAD_KEYS_def py_lower_def lower_char_def)
  moreover have "json_ok (JObj (oe_payload demo_event))" by (simp add: demo_event_def)
  ultimately show ?thesis using event_json_roundtrip by blast
qed

end
