(* ===== verification/OrionCapabilities.thy ===== *)
theory OrionCapabilities
  imports OrionModels
begin

text \<open>
  \<^verbatim>\<open>guardianmesh/orion/models.py\<close> and \<^verbatim>\<open>capabilities.py\<close>: what each device declares
  that it can do.  Half of the enumeration are negative defaults, capabilities that no device
  may ever report.

  A dictionary of capabilities is the list of its entries in insertion order.  The registry
  holds its records by value; the time of a change is an argument.
\<close>

section \<open>Capabilities\<close>

datatype orion_capability =
    CAP_HEALTH_TELEMETRY | CAP_POLICIES | CAP_ALERTS | CAP_SECURE_TRANSPORT |
    CAP_SCREEN_SESSION | CAP_SYSTEM_CONSENT | CAP_ORCHESTRATION | CAP_AUDIO_CAPTURE |
    CAP_CAMERA_CAPTURE | CAP_REMOTE_INPUT | CAP_REMOTE_SHELL | CAP_KEYLOGGING |
    CAP_LOCATION_TRACKING | CAP_CLIPBOARD_ACCESS | CAP_MESSAGE_COLLECTION |
    CAP_BROWSER_HISTORY | CAP_HIDDEN_SCREEN_CAPTURE

fun capability_value :: "orion_capability \<Rightarrow> string" where
  "capability_value CAP_HEALTH_TELEMETRY = ''HEALTH_TELEMETRY''"
| "capability_value CAP_POLICIES = ''POLICIES''"
| "capability_value CAP_ALERTS = ''ALERTS''"
| "capability_value CAP_SECURE_TRANSPORT = ''SECURE_TRANSPORT''"
| "capability_value CAP_SCREEN_SESSION = ''SCREEN_SESSION''"
| "capability_value CAP_SYSTEM_CONSENT = ''SYSTEM_CONSENT''"
| "capability_value CAP_ORCHESTRATION = ''ORCHESTRATION''"
| "capability_value CAP_AUDIO_CAPTURE = ''AUDIO_CAPTURE''"
| "capability_value CAP_CAMERA_CAPTURE = ''CAMERA_CAPTURE''"
| "capability_value CAP_REMOTE_INPUT = ''REMOTE_INPUT''"
| "capability_value CAP_REMOTE_SHELL = ''REMOTE_SHELL''"
| "capability_value CAP_KEYLOGGING = ''KEYLOGGING''"
| "capability_value CAP_LOCATION_TRACKING = ''LOCATION_TRACKING''"
| "capability_value CAP_CLIPBOARD_ACCESS = ''CLIPBOARD_ACCESS''"
| "capability_value CAP_MESSAGE_COLLECTION = ''MESSAGE_COLLECTION''"
| "capability_value CAP_BROWSER_HISTORY = ''BROWSER_HISTORY''"
| "capability_value CAP_HIDDEN_SCREEN_CAPTURE = ''HIDDEN_SCREEN_CAPTURE''"

definition all_capabilities :: "orion_capability list" where
  "all_capabilities =
     [CAP_HEALTH_TELEMETRY, CAP_POLICIES, CAP_ALERTS, CAP_SECURE_TRANSPORT, CAP_SCREEN_SESSION,
      CAP_SYSTEM_CONSENT, CAP_ORCHESTRATION, CAP_AUDIO_CAPTURE, CAP_CAMERA_CAPTURE,
      CAP_REMOTE_INPUT, CAP_REMOTE_SHELL, CAP_KEYLOGGING, CAP_LOCATION_TRACKING,
      CAP_CLIPBOARD_ACCESS, CAP_MESSAGE_COLLECTION, CAP_BROWSER_HISTORY,
      CAP_HIDDEN_SCREEN_CAPTURE]"

definition capability_from_str :: "string \<Rightarrow> gm_error + orion_capability" where
  "capability_from_str s =
     (case enum_of capability_value all_capabilities s of
        Some x \<Rightarrow> Inr x | None \<Rightarrow> Inl (Orion OrionCapabilityError))"

definition NEGATIVE_CAPABILITIES :: "orion_capability list" where
  "NEGATIVE_CAPABILITIES =
     [CAP_AUDIO_CAPTURE, CAP_CAMERA_CAPTURE, CAP_REMOTE_INPUT, CAP_REMOTE_SHELL, CAP_KEYLOGGING,
      CAP_LOCATION_TRACKING, CAP_CLIPBOARD_ACCESS, CAP_MESSAGE_COLLECTION, CAP_BROWSER_HISTORY,
      CAP_HIDDEN_SCREEN_CAPTURE]"

definition is_negative_default :: "orion_capability \<Rightarrow> bool" where
  "is_negative_default c \<longleftrightarrow> c \<in> set NEGATIVE_CAPABILITIES"

definition DEFAULT_CONTROL_PLANE_CAPABILITIES :: "(orion_capability \<times> bool) list" where
  "DEFAULT_CONTROL_PLANE_CAPABILITIES =
     map (\<lambda>c. (c, True))
       [CAP_HEALTH_TELEMETRY, CAP_POLICIES, CAP_ALERTS, CAP_SECURE_TRANSPORT, CAP_ORCHESTRATION] @
     map (\<lambda>c. (c, False)) ([CAP_SCREEN_SESSION, CAP_SYSTEM_CONSENT] @ NEGATIVE_CAPABILITIES)"

section \<open>The record of a device\<close>

record device_caps =
  dc_device :: string
  dc_caps :: "(orion_capability \<times> bool) list"
  dc_version :: string
  dc_discovered :: string
  dc_updated :: json
  dc_source :: string
  dc_notes :: string

definition check_caps :: "device_caps \<Rightarrow> gm_error option" where
  "check_caps d =
     (let bad = Some (Orion OrionCapabilityError) in
      if dc_device d = [] then bad
      else if \<not> known_device (dc_device d) then bad
      else if list_ex (\<lambda>(c, v). is_negative_default c \<and> v) (dc_caps d) then bad
      else None)"

definition checked_caps :: "device_caps \<Rightarrow> gm_error + device_caps" where
  [model_defs]: "checked_caps d = (case check_caps d of Some e \<Rightarrow> Inl e | None \<Rightarrow> Inr d)"

definition caps_supports :: "string \<Rightarrow> device_caps \<Rightarrow> gm_error + bool" where
  "caps_supports s d =
     and_then (capability_from_str s) (\<lambda>c.
       if is_negative_default c then Inr False
       else Inr (case map_of (dc_caps d) c of None \<Rightarrow> False | Some v \<Rightarrow> v))"

definition caps_enable :: "string \<Rightarrow> string \<Rightarrow> device_caps \<Rightarrow> (device_caps, unit) outcome" where
  "caps_enable now_text s d =
     (case capability_from_str s of
        Inl e \<Rightarrow> raises e d
      | Inr c \<Rightarrow>
          if is_negative_default c then raises (Orion OrionCapabilityError) d
          else returns () (d\<lparr>dc_caps := assoc_put c True (dc_caps d), dc_updated := JStr now_text\<rparr>))"

definition caps_disable :: "string \<Rightarrow> string \<Rightarrow> device_caps \<Rightarrow> (device_caps, unit) outcome" where
  "caps_disable now_text s d =
     (case capability_from_str s of
        Inl e \<Rightarrow> raises e d
      | Inr c \<Rightarrow>
          returns () (d\<lparr>dc_caps := assoc_put c False (dc_caps d), dc_updated := JStr now_text\<rparr>))"

definition positive_capabilities :: "device_caps \<Rightarrow> orion_capability list" where
  "positive_capabilities d = map fst (filter (\<lambda>(c, v). v \<and> \<not> is_negative_default c) (dc_caps d))"

definition negative_capabilities :: "orion_capability list" where
  "negative_capabilities = sort_key capability_value NEGATIVE_CAPABILITIES"

definition caps_to_dict :: "device_caps \<Rightarrow> json" where
  "caps_to_dict d =
     JObj [(''device_id'', JStr (dc_device d)),
           (''capabilities'', JObj (map (\<lambda>(c, v). (capability_value c, JBool v)) (dc_caps d))),
           (''schema_version'', JStr (dc_version d)), (''discovered_at'', JStr (dc_discovered d)),
           (''updated_at'', dc_updated d), (''source'', JStr (dc_source d)),
           (''notes'', JStr (dc_notes d))]"

definition caps_to_canonical_json :: "device_caps \<Rightarrow> string" where
  "caps_to_canonical_json d = json_dumps (caps_to_dict d)"

fun read_caps ::
  "(string \<times> json) list \<Rightarrow> (orion_capability \<times> bool) list \<Rightarrow> gm_error + (orion_capability \<times> bool) list" where
  "read_caps [] acc = Inr acc"
| "read_caps ((k, v) # kvs) acc =
     and_then (capability_from_str k) (\<lambda>c. read_caps kvs (assoc_put c (py_truthy v) acc))"

definition caps_from_dict :: "json \<Rightarrow> gm_error + device_caps" where
  "caps_from_dict j =
     (case j of
        JObj kvs \<Rightarrow>
          (case get_or (JObj []) kvs ''capabilities'' of
             JObj raw \<Rightarrow>
               and_then (read_caps raw []) (\<lambda>caps.
                 checked_caps
                   \<lparr>dc_device = str_field kvs ''device_id'', dc_caps = caps,
                    dc_version = py_str (get_or (JStr orion_schema) kvs ''schema_version''),
                    dc_discovered = str_field kvs ''discovered_at'',
                    dc_updated = get_or JNull kvs ''updated_at'',
                    dc_source = py_str (get_or (JStr ''explicit-discovery'') kvs ''source''),
                    dc_notes = str_field kvs ''notes''\<rparr>)
           | _ \<Rightarrow> Inl (Orion OrionCapabilityError))
      | _ \<Rightarrow> Inl (Orion OrionCapabilityError))"

text \<open>
  \<^verbatim>\<open>discover\<close>: the positive capabilities in the order of its parameters, each false unless
  it is asked for.
\<close>

definition discover :: "string \<Rightarrow> string \<Rightarrow> orion_capability list \<Rightarrow> string \<Rightarrow> string \<Rightarrow> gm_error + device_caps" where
  "discover now_text device asked source notes =
     checked_caps
       \<lparr>dc_device = device,
        dc_caps = map (\<lambda>c. (c, c \<in> set asked))
          [CAP_HEALTH_TELEMETRY, CAP_POLICIES, CAP_ALERTS, CAP_SECURE_TRANSPORT, CAP_SCREEN_SESSION,
           CAP_SYSTEM_CONSENT, CAP_ORCHESTRATION],
        dc_version = orion_schema, dc_discovered = now_text, dc_updated = JNull,
        dc_source = source, dc_notes = notes\<rparr>"

section \<open>The registry\<close>

type_synonym caps_registry = "(string \<times> device_caps) list"

definition control_plane_profile :: "string \<Rightarrow> gm_error + device_caps" where
  "control_plane_profile now_text =
     discover now_text ''ORION''
       (map fst (filter snd DEFAULT_CONTROL_PLANE_CAPABILITIES)) ''default-control-plane'' []"

definition fresh_registry :: "string \<Rightarrow> caps_registry" where
  "fresh_registry now_text =
     (case control_plane_profile now_text of Inl e \<Rightarrow> [] | Inr d \<Rightarrow> [(''ORION'', d)])"

definition register_caps :: "device_caps \<Rightarrow> caps_registry \<Rightarrow> caps_registry" where
  "register_caps d r = assoc_put (dc_device d) d r"

definition require_caps :: "string \<Rightarrow> caps_registry \<Rightarrow> gm_error + device_caps" where
  "require_caps dev r =
     (case map_of r dev of None \<Rightarrow> Inl (Orion OrionCapabilityError) | Some d \<Rightarrow> Inr d)"

definition registry_supports :: "string \<Rightarrow> string \<Rightarrow> caps_registry \<Rightarrow> gm_error + bool" where
  "registry_supports dev s r =
     (case map_of r dev of None \<Rightarrow> Inr False | Some d \<Rightarrow> caps_supports s d)"

text \<open>The record that \<^verbatim>\<open>set_capability\<close> discovers stays, also when the change then raises.\<close>

definition set_capability ::
  "string \<Rightarrow> string \<Rightarrow> string \<Rightarrow> bool \<Rightarrow> caps_registry \<Rightarrow> (caps_registry, unit) outcome" where
  "set_capability now_text dev s enabled r =
     (case (case map_of r dev of
              Some d \<Rightarrow> Inr (d, r)
            | None \<Rightarrow> and_then (discover now_text dev [] ''explicit-discovery'' [])
                        (\<lambda>d. Inr (d, assoc_put dev d r))) of
        Inl e \<Rightarrow> raises e r
      | Inr (d, r1) \<Rightarrow>
         (case (if enabled then caps_enable now_text s d else caps_disable now_text s d) of
            (Inl e, d') \<Rightarrow> raises e (assoc_put dev d' r1)
          | (Inr u, d') \<Rightarrow> returns () (assoc_put dev d' r1)))"

definition clear_registry :: "string \<Rightarrow> caps_registry \<Rightarrow> caps_registry" where
  "clear_registry now_text r = fresh_registry now_text"

record registry_metrics =
  rm_devices :: nat
  rm_positive :: nat
  rm_negative :: nat

definition caps_metrics :: "caps_registry \<Rightarrow> registry_metrics" where
  "caps_metrics r =
     \<lparr>rm_devices = length r, rm_positive = sum_list (map (length \<circ> positive_capabilities \<circ> snd) r),
      rm_negative = sum_list (map (\<lambda>d. length negative_capabilities) r)\<rparr>"

section \<open>No device ever reports a negative default\<close>

text \<open>Everything a caller can do with a registry; \<open>RegisterText\<close> registers a parsed record.\<close>

datatype caps_op =
    RegisterText string
  | SetCap string string bool
  | ClearCaps

fun caps_exec :: "string \<Rightarrow> caps_op \<Rightarrow> caps_registry \<Rightarrow> caps_registry" where
  "caps_exec t (RegisterText s) r =
     (case json_loads s of
        None \<Rightarrow> r
      | Some j \<Rightarrow> (case caps_from_dict j of Inl e \<Rightarrow> r | Inr d \<Rightarrow> register_caps d r))"
| "caps_exec t (SetCap dev c on) r = snd (set_capability t dev c on r)"
| "caps_exec t ClearCaps r = clear_registry t r"

definition caps_run :: "(string \<times> caps_op) list \<Rightarrow> caps_registry \<Rightarrow> caps_registry" where
  "caps_run ops r = foldl (\<lambda>r (t, op). caps_exec t op r) r ops"

definition harmless :: "device_caps \<Rightarrow> bool" where
  "harmless d \<longleftrightarrow> (\<forall>(c, v) \<in> set (dc_caps d). is_negative_default c \<longrightarrow> \<not> v)"

lemma set_assoc_put: "set (assoc_put k v kvs) \<subseteq> insert (k, v) (set kvs)"
  by (induction k v kvs rule: assoc_put.induct) auto

lemma checked_harmless: "checked_caps d = Inr d' \<Longrightarrow> d' = d \<and> harmless d"
  by (auto simp: checked_caps_def check_caps_def harmless_def Let_def list_ex_iff
      split: option.splits if_splits)

lemma parsed_harmless: "caps_from_dict j = Inr d \<Longrightarrow> harmless d"
  by (auto simp: caps_from_dict_def and_then_def split: json.splits sum.splits dest!: checked_harmless)

lemma discovered_harmless: "discover t dev asked src nt = Inr d \<Longrightarrow> harmless d"
  by (auto simp: discover_def dest!: checked_harmless)

lemma enabled_harmless: "harmless d \<Longrightarrow> harmless (snd (caps_enable t s d))"
  unfolding harmless_def caps_enable_def
  by (auto split: sum.split simp del: split_paired_All dest!: set_assoc_put[THEN subsetD])

lemma disabled_harmless: "harmless d \<Longrightarrow> harmless (snd (caps_disable t s d))"
  unfolding harmless_def caps_disable_def
  by (auto split: sum.split dest!: set_assoc_put[THEN subsetD])

definition registry_ok :: "caps_registry \<Rightarrow> bool" where
  "registry_ok r \<longleftrightarrow> (\<forall>(k, d) \<in> set r. harmless d)"

lemma registry_ok_put: "registry_ok r \<Longrightarrow> harmless d \<Longrightarrow> registry_ok (assoc_put k d r)"
  using set_assoc_put[of k d r] by (auto simp: registry_ok_def)

lemma registry_ok_fresh: "registry_ok (fresh_registry t)"
  by (auto simp: registry_ok_def fresh_registry_def control_plane_profile_def
      split: sum.split dest: discovered_harmless[OF sym])

lemma registry_ok_set: "registry_ok r \<Longrightarrow> registry_ok (snd (set_capability t dev s on r))"
proof -
  assume r: "registry_ok r"
  have step: "registry_ok (snd (case (if on then caps_enable t s d else caps_disable t s d) of
            (Inl e, d') \<Rightarrow> raises e (assoc_put dev d' r1)
          | (Inr u, d') \<Rightarrow> returns () (assoc_put dev d' r1)))" if "harmless d" "registry_ok r1" for d r1
    using that enabled_harmless[of d t s] disabled_harmless[of d t s]
    by (auto simp: registry_ok_put split: prod.split sum.split)
  show ?thesis
  proof (cases "map_of r dev")
    case None
    then show ?thesis
      using r step by (auto simp: set_capability_def and_then_def registry_ok_put
          split: sum.split dest: discovered_harmless)
  next
    case (Some d)
    then have "harmless d" using r map_of_SomeD[OF Some] by (auto simp: registry_ok_def)
    with step[OF this r] Some show ?thesis by (simp add: set_capability_def)
  qed
qed

lemma registry_ok_exec: "registry_ok r \<Longrightarrow> registry_ok (caps_exec t op r)"
  by (cases op) (auto simp: registry_ok_set registry_ok_fresh clear_registry_def register_caps_def
      registry_ok_put split: option.split sum.split dest: parsed_harmless)

lemma registry_ok_run: "registry_ok r \<Longrightarrow> registry_ok (caps_run ops r)"
  unfolding caps_run_def by (induction ops arbitrary: r) (auto simp: registry_ok_exec)

text \<open>
  Whatever is registered, enabled or disabled, no device supports a negative default, no
  record holds one as true, and the report of a device does not list one.
\<close>

theorem negative_defaults_stay_false:
  assumes "r = caps_run ops (fresh_registry t)" and "capability_from_str s = Inr c"
    and "is_negative_default c"
  shows "registry_supports dev s r = Inr False \<and>
    (\<forall>d. map_of r dev = Some d \<longrightarrow> (c, True) \<notin> set (dc_caps d) \<and> c \<notin> set (positive_capabilities d))"
proof -
  have "registry_ok r" using registry_ok_run[OF registry_ok_fresh] assms(1) by simp
  then have "harmless d" if "map_of r dev = Some d" for d
    using map_of_SomeD[OF that] by (auto simp: registry_ok_def)
  then show ?thesis
    using assms(2,3) by (auto simp: registry_supports_def caps_supports_def and_then_def harmless_def
        positive_capabilities_def split: option.split)
qed

theorem negative_defaults_stay_false_witness:
  "registry_supports ''ORION'' ''camera_capture''
     (caps_run [(''t1'', SetCap ''BUS'' ''CAMERA_CAPTURE'' True)] (fresh_registry ''t0'')) = Inr False"
proof -
  have "capability_from_str ''camera_capture'' = Inr CAP_CAMERA_CAPTURE"
    "is_negative_default CAP_CAMERA_CAPTURE" by code_simp+
  from negative_defaults_stay_false[OF refl this] show ?thesis by blast
qed

end
