(* ===== verification/OrionQueue.thy ===== *)
theory OrionQueue
  imports OrionModels ScreenSession
begin

text \<open>
  \<^verbatim>\<open>guardianmesh/orion/queue.py\<close>: the persistent action queue over the table
  \<^verbatim>\<open>orion_actions\<close>.

  A row is the action its columns hold (the JSON columns as the values they encode).  Times
  are texts; \<^verbatim>\<open>ORDER BY created_at\<close> and \<^verbatim>\<open>expires_at < ?\<close> compare them as texts.
  The primary key and the partial unique index on \<^verbatim>\<open>idempotency_key\<close> make
  \<^verbatim>\<open>INSERT\<close> raise.
\<close>

section \<open>Submission\<close>

record action_queue =
  qu_rows :: "orion_action list"
  qu_max :: int

definition new_queue :: "int \<Rightarrow> gm_error + action_queue" where
  "new_queue n = (if n \<le> 0 then Inl (Core ValidationError) else Inr \<lparr>qu_rows = [], qu_max = n\<rparr>)"

definition has_idempotency_key :: "string \<Rightarrow> action_queue \<Rightarrow> bool" where
  "has_idempotency_key k q \<longleftrightarrow> list_ex (\<lambda>r. oa_key r = Some k) (qu_rows q)"

definition enforce_size_limit :: "action_queue \<Rightarrow> gm_error option" where
  "enforce_size_limit q =
     (if qu_max q \<le> int (length (qu_rows q)) then Some (Orion OrionQueueError) else None)"

text \<open>The constraints of the table: \<^verbatim>\<open>sqlite3.IntegrityError\<close> when they fail.\<close>

definition insert_allowed :: "orion_action \<Rightarrow> action_queue \<Rightarrow> bool" where
  "insert_allowed a q \<longleftrightarrow>
     \<not> has_key oa_id (oa_id a) (qu_rows q) \<and>
     (case oa_key a of None \<Rightarrow> True | Some k \<Rightarrow> \<not> has_idempotency_key k q)"

text \<open>An empty key is falsy: it is not looked up, but the index sees it.\<close>

definition enqueue :: "orion_action \<Rightarrow> action_queue \<Rightarrow> (action_queue, bool) outcome" where
  "enqueue a q =
     (case enforce_size_limit q of
        Some e \<Rightarrow> raises e q
      | None \<Rightarrow>
          if (case oa_key a of None \<Rightarrow> False | Some k \<Rightarrow> k \<noteq> [] \<and> has_idempotency_key k q)
          then returns False q
          else if \<not> (fits_64 (oa_retries a) \<and> fits_64 (oa_max_retries a))
          then raises (Builtin PyOverflowError) q
          else if \<not> insert_allowed a q then raises (Orion OrionQueueError) q
          else returns True (q\<lparr>qu_rows := qu_rows q @ [a\<lparr>oa_result := []\<rparr>]\<rparr>))"

section \<open>Lookup\<close>

text \<open>Reading a row runs the constructor of the action again.\<close>

definition get_action :: "(string \<Rightarrow> stamp) \<Rightarrow> string \<Rightarrow> action_queue \<Rightarrow> gm_error + orion_action option" where
  "get_action rd aid q =
     (case fetch_where (\<lambda>r. oa_id r = aid) (qu_rows q) of
        None \<Rightarrow> Inr None
      | Some r \<Rightarrow> and_then (checked_action rd r) (\<lambda>a. Inr (Some a)))"

fun read_rows :: "(string \<Rightarrow> stamp) \<Rightarrow> orion_action list \<Rightarrow> gm_error + orion_action list" where
  "read_rows rd [] = Inr []"
| "read_rows rd (r # rs) =
     and_then (checked_action rd r) (\<lambda>a. and_then (read_rows rd rs) (\<lambda>as. Inr (a # as)))"

definition list_by_status ::
  "(string \<Rightarrow> stamp) \<Rightarrow> string option \<Rightarrow> string option \<Rightarrow> int \<Rightarrow> action_queue \<Rightarrow> gm_error + orion_action list" where
  "list_by_status rd st dev limit q =
     and_then (case st of None \<Rightarrow> Inr None | Some s \<Rightarrow> and_then (action_status_from_str s) (\<lambda>x. Inr (Some x)))
       (\<lambda>want. read_rows rd
          (sql_limit limit (sort_key oa_created
            (filter (\<lambda>r. (case want of None \<Rightarrow> True | Some x \<Rightarrow> oa_status r = x) \<and>
                         (case dev of None \<Rightarrow> True | Some d \<Rightarrow> oa_device r = d)) (qu_rows q)))))"

definition list_all_actions :: "(string \<Rightarrow> stamp) \<Rightarrow> int \<Rightarrow> action_queue \<Rightarrow> gm_error + orion_action list" where
  "list_all_actions rd limit q = list_by_status rd None None limit q"

section \<open>Status changes\<close>

text \<open>None of them looks at the status the row has.\<close>

definition update_status ::
  "string \<Rightarrow> string \<Rightarrow> action_status \<Rightarrow> string option \<Rightarrow> (string \<times> json) list option \<Rightarrow> action_queue \<Rightarrow>
   action_queue" where
  "update_status now_text aid st err result q =
     q\<lparr>qu_rows := update_where (\<lambda>r. oa_id r = aid)
        (\<lambda>r. r\<lparr>oa_status := st, oa_last_error := err, oa_updated := Some now_text,
              oa_result := (case result of None \<Rightarrow> oa_result r | Some x \<Rightarrow> x)\<rparr>) (qu_rows q)\<rparr>"

definition mark_running :: "string \<Rightarrow> string \<Rightarrow> action_queue \<Rightarrow> action_queue" where
  "mark_running t aid q = update_status t aid ST_RUNNING None None q"

definition mark_succeeded :: "string \<Rightarrow> string \<Rightarrow> (string \<times> json) list \<Rightarrow> action_queue \<Rightarrow> action_queue" where
  "mark_succeeded t aid result q = update_status t aid ST_SUCCEEDED None (Some result) q"

definition mark_expired :: "string \<Rightarrow> string \<Rightarrow> action_queue \<Rightarrow> action_queue" where
  "mark_expired t aid q = update_status t aid ST_EXPIRED None None q"

definition mark_cancelled :: "string \<Rightarrow> string \<Rightarrow> action_queue \<Rightarrow> action_queue" where
  "mark_cancelled t aid q = update_status t aid ST_CANCELLED None None q"

text \<open>The last instant a datetime can be; going past it raises \<^verbatim>\<open>OverflowError\<close>.\<close>

definition max_instant :: int where "max_instant = 253402300799999999"

definition mark_failed ::
  "calendar \<Rightarrow> int \<Rightarrow> string \<Rightarrow> string \<Rightarrow> bool \<Rightarrow> action_queue \<Rightarrow> (action_queue, unit) outcome" where
  "mark_failed cal now aid err retry q =
     (case get_action (read_iso cal) aid q of
        Inl e \<Rightarrow> raises e q
      | Inr None \<Rightarrow> returns () q
      | Inr (Some a) \<Rightarrow>
          if retry \<and> action_can_retry a then
            (let due = now + 2 ^ nat (oa_retries a) * second in
             if max_instant < due then raises (Builtin PyOverflowError) q
             else returns () (q\<lparr>qu_rows := update_where (\<lambda>r. oa_id r = aid)
                   (\<lambda>r. r\<lparr>oa_status := ST_PENDING, oa_retries := oa_retries a + 1,
                         oa_last_error := Some err, oa_next_attempt := Some (write_iso cal due),
                         oa_updated := Some (write_iso cal now)\<rparr>) (qu_rows q)\<rparr>))
          else returns () (update_status (write_iso cal now) aid ST_FAILED (Some err) None q))"

definition sweepable :: "string \<Rightarrow> orion_action \<Rightarrow> bool" where
  [model_defs]: "sweepable now_text r \<longleftrightarrow> oa_status r \<in> {ST_PENDING, ST_RUNNING} \<and> oa_expires r < now_text"

definition sweep_expired :: "string \<Rightarrow> action_queue \<Rightarrow> string list \<times> action_queue" where
  "sweep_expired now_text q =
     (let ids = map oa_id (filter (sweepable now_text) (qu_rows q))
      in (ids, foldl (\<lambda>q aid. mark_expired now_text aid q) q ids))"

definition queue_metrics :: "action_queue \<Rightarrow> nat \<times> (action_status \<times> nat) list \<times> int" where
  "queue_metrics q =
     (let sts = filter (\<lambda>st. \<exists>r \<in> set (qu_rows q). oa_status r = st)
            [ST_CANCELLED, ST_EXPIRED, ST_FAILED, ST_PENDING, ST_RUNNING, ST_SUCCEEDED];
          counts = map (\<lambda>st. (st, length (filter (\<lambda>r. oa_status r = st) (qu_rows q)))) sts
      in (sum_list (map snd counts), counts, qu_max q))"

section \<open>The table stays well formed\<close>

definition queue_rows_ok :: "(string \<Rightarrow> stamp) \<Rightarrow> action_queue \<Rightarrow> bool" where
  "queue_rows_ok rd q \<longleftrightarrow>
     keyed oa_id (qu_rows q) \<and> distinct (filter (\<lambda>k. k \<noteq> None) (map oa_key (qu_rows q))) \<and>
     (\<forall>r \<in> set (qu_rows q). check_action rd r = None)"

definition same_request :: "orion_action \<Rightarrow> orion_action \<Rightarrow> bool" where
  "same_request r r' \<longleftrightarrow> oa_id r' = oa_id r \<and> oa_key r' = oa_key r \<and> oa_max_retries r' = oa_max_retries r \<and>
     oa_expires r' = oa_expires r \<and> oa_created r' = oa_created r \<and> oa_type r' = oa_type r \<and>
     oa_params r' = oa_params r \<and> oa_device r' = oa_device r"

lemma check_action_update:
  "check_action rd (r\<lparr>oa_status := st, oa_last_error := err, oa_updated := u, oa_result := x\<rparr>) =
   check_action rd r"
  by (simp add: check_action_def Let_def cong: if_cong)

lemma check_action_note:
  "check_action rd (r\<lparr>oa_status := st, oa_last_error := err, oa_updated := u\<rparr>) = check_action rd r"
  by (simp add: check_action_def Let_def cong: if_cong)

lemma check_action_result [simp]: "check_action rd (r\<lparr>oa_result := x\<rparr>) = check_action rd r"
  by (simp add: check_action_def Let_def cong: if_cong)

lemma checked_action_ok [simp]: "check_action rd r = None \<Longrightarrow> checked_action rd r = Inr r"
  by (simp add: checked_action_def)

lemma read_rows_ok: "\<forall>r \<in> set rs. check_action rd r = None \<Longrightarrow> read_rows rd rs = Inr rs"
  by (induction rs) (simp_all add: and_then_def)

text \<open>An update of rows that keeps identifiers, keys and the constructor's checks keeps the table.\<close>

lemma rows_ok_update:
  assumes "queue_rows_ok rd q"
    and "\<And>r. \<lbrakk>r \<in> set (qu_rows q); p r; check_action rd r = None\<rbrakk> \<Longrightarrow>
           oa_id (f r) = oa_id r \<and> oa_key (f r) = oa_key r \<and> check_action rd (f r) = None"
  shows "queue_rows_ok rd (q\<lparr>qu_rows := update_where p f (qu_rows q)\<rparr>)"
proof -
  let ?g = "\<lambda>r. if p r then f r else r"
  have g: "oa_id (?g r) = oa_id r" "oa_key (?g r) = oa_key r" "check_action rd (?g r) = None"
    if "r \<in> set (qu_rows q)" for r
    using assms that by (auto simp: queue_rows_ok_def)
  have ids: "map oa_id (map ?g (qu_rows q)) = map oa_id (qu_rows q)"
    and keys: "map oa_key (map ?g (qu_rows q)) = map oa_key (qu_rows q)"
    using g(1,2) by (simp_all add: comp_def cong: map_cong)
  have "keyed oa_id (map ?g (qu_rows q))"
    using assms(1) unfolding queue_rows_ok_def keyed_def ids by blast
  moreover have "distinct (filter (\<lambda>k. k \<noteq> None) (map oa_key (map ?g (qu_rows q))))"
    using assms(1) unfolding queue_rows_ok_def keys by blast
  moreover have "\<forall>r \<in> set (map ?g (qu_rows q)). check_action rd r = None" using g(3) by force
  ultimately show ?thesis by (simp add: queue_rows_ok_def update_where_def)
qed

lemma rows_ok_enqueue:
  assumes "queue_rows_ok rd q" and "check_action rd a = None"
  shows "queue_rows_ok rd (snd (enqueue a q))"
proof (cases "insert_allowed a q")
  case True
  then have "queue_rows_ok rd (q\<lparr>qu_rows := qu_rows q @ [a\<lparr>oa_result := []\<rparr>]\<rparr>)"
    using assms by (auto simp: queue_rows_ok_def keyed_def insert_allowed_def has_key_iff
        has_idempotency_key_def list_ex_iff split: option.splits)
  then show ?thesis using assms(1) by (auto simp: enqueue_def split: option.split)
next
  case False
  then show ?thesis using assms(1) by (auto simp: enqueue_def split: option.split)
qed

lemma rows_ok_status: "queue_rows_ok rd q \<Longrightarrow> queue_rows_ok rd (update_status t aid st err res q)"
  unfolding update_status_def by (rule rows_ok_update) (cases res; simp add: check_action_update check_action_note)+

lemma rows_ok_failed:
  assumes "queue_rows_ok rd q" and "rd = read_iso cal" and "\<And>t. readable_time rd (write_iso cal t)"
  shows "queue_rows_ok rd (snd (mark_failed cal now aid err retry q))"
proof (cases "get_action rd aid q")
  case (Inl e)
  then show ?thesis using assms(1,2) by (simp add: mark_failed_def)
next
  case (Inr found)
  show ?thesis
  proof (cases found)
    case None
    then show ?thesis using Inr assms(1,2) by (simp add: mark_failed_def)
  next
    case (Some a)
    then have row: "fetch_where (\<lambda>r. oa_id r = aid) (qu_rows q) = Some a"
      using Inr assms(1) fetch_where_Some[of "\<lambda>r. oa_id r = aid" "qu_rows q"]
      by (auto simp: get_action_def queue_rows_ok_def and_then_def split: option.splits)
    have uniq: "r = a" if "r \<in> set (qu_rows q)" "oa_id r = aid" for r
      using fetch_keyed[of oa_id "qu_rows q" r] that row assms(1) by (auto simp: queue_rows_ok_def)
    have "check_action rd (a\<lparr>oa_status := ST_PENDING, oa_retries := oa_retries a + 1,
        oa_last_error := Some err, oa_next_attempt := Some (write_iso cal u),
        oa_updated := Some (write_iso cal now)\<rparr>) = None"
      if "action_can_retry a" "check_action rd a = None" for u
      using that assms(3) by (auto simp: check_action_def action_can_retry_def Let_def split: if_splits option.splits)
    then have "queue_rows_ok rd (q\<lparr>qu_rows := update_where (\<lambda>r. oa_id r = aid)
        (\<lambda>r. r\<lparr>oa_status := ST_PENDING, oa_retries := oa_retries a + 1, oa_last_error := Some err,
              oa_next_attempt := Some (write_iso cal u), oa_updated := Some (write_iso cal now)\<rparr>)
        (qu_rows q)\<rparr>)" if "action_can_retry a" for u
      using that uniq by (intro rows_ok_update[OF assms(1)]) auto
    then show ?thesis
      using Inr Some assms(1,2) rows_ok_status[OF assms(1)] by (auto simp: mark_failed_def Let_def)
  qed
qed

lemma rows_ok_expire_all:
  "queue_rows_ok rd q \<Longrightarrow> queue_rows_ok rd (foldl (\<lambda>q aid. mark_expired t aid q) q ids)"
  by (induction ids arbitrary: q) (simp_all add: mark_expired_def rows_ok_status)

lemma rows_ok_sweep: "queue_rows_ok rd q \<Longrightarrow> queue_rows_ok rd (snd (sweep_expired t q))"
  by (simp add: sweep_expired_def Let_def rows_ok_expire_all)

end
