(* ===== verification/OrionExecutor.thy ===== *)
theory OrionExecutor
  imports OrionQueue
begin

text \<open>
  \<^verbatim>\<open>guardianmesh/orion/executor.py\<close>: the executor that drains the action queue.

  \<open>run\<close> is \<^verbatim>\<open>OrionActionHandlers.execute\<close> over the state \<open>'s\<close> of the other
  components, \<open>say\<close> the text of an exception.  One drain reads the clock once.  The worker
  thread is the sequence of its wake-ups.
\<close>

section \<open>The executor\<close>

type_synonym 's runner = "int \<Rightarrow> orion_action \<Rightarrow> 's \<Rightarrow> ('s, (string \<times> json) list) outcome"

record 's engine =
  eg_queue :: action_queue
  eg_world :: 's
  eg_thread :: bool
  eg_stop :: bool
  eg_limit :: int
  eg_consecutive :: int
  eg_processed :: int
  eg_succeeded :: int
  eg_failed :: int

definition new_executor :: "action_queue \<Rightarrow> 's \<Rightarrow> int \<Rightarrow> gm_error + 's engine" where
  "new_executor q w limit =
     (if limit \<le> 0 then Inl (Orion OrionActionError)
      else Inr \<lparr>eg_queue = q, eg_world = w, eg_thread = False, eg_stop = False, eg_limit = limit,
                eg_consecutive = 0, eg_processed = 0, eg_succeeded = 0, eg_failed = 0\<rparr>)"

text \<open>The action is the one that was listed; its row is not looked at before it is marked.\<close>

definition execute_action ::
  "calendar \<Rightarrow> (gm_error \<Rightarrow> string) \<Rightarrow> 's runner \<Rightarrow> int \<Rightarrow> orion_action \<Rightarrow> 's engine \<Rightarrow> ('s engine, unit) outcome" where
  "execute_action cal say run now a s =
     (let t = write_iso cal now; q1 = mark_running t (oa_id a) (eg_queue s) in
      case run now a (eg_world s) of
        (Inl e, w) \<Rightarrow>
          (case mark_failed cal now (oa_id a) (say e)
                  (action_can_retry a \<and> eg_consecutive s < eg_limit s) q1 of
             (Inl x, q2) \<Rightarrow> raises x (s\<lparr>eg_queue := q2, eg_world := w\<rparr>)
           | (Inr u, q2) \<Rightarrow>
               returns () (s\<lparr>eg_queue := q2, eg_world := w, eg_consecutive := eg_consecutive s + 1,
                             eg_processed := eg_processed s + 1, eg_failed := eg_failed s + 1\<rparr>))
      | (Inr r, w) \<Rightarrow>
          returns () (s\<lparr>eg_queue := mark_succeeded t (oa_id a) r q1, eg_world := w,
                        eg_consecutive := 0, eg_processed := eg_processed s + 1,
                        eg_succeeded := eg_succeeded s + 1\<rparr>))"

fun execute_all ::
  "calendar \<Rightarrow> (gm_error \<Rightarrow> string) \<Rightarrow> 's runner \<Rightarrow> int \<Rightarrow> orion_action list \<Rightarrow> 's engine \<Rightarrow> ('s engine, nat) outcome" where
  "execute_all cal say run now [] s = returns 0 s"
| "execute_all cal say run now (a # as) s =
     (if eg_stop s then returns 0 s
      else case execute_action cal say run now a s of
        (Inl e, s1) \<Rightarrow> raises e s1
      | (Inr u, s1) \<Rightarrow>
         (case execute_all cal say run now as s1 of
            (Inl e, s2) \<Rightarrow> raises e s2
          | (Inr n, s2) \<Rightarrow> returns (Suc n) s2))"

definition drain_once ::
  "calendar \<Rightarrow> (gm_error \<Rightarrow> string) \<Rightarrow> 's runner \<Rightarrow> int \<Rightarrow> 's engine \<Rightarrow> ('s engine, nat) outcome" where
  "drain_once cal say run now s =
     (let s1 = s\<lparr>eg_queue := snd (sweep_expired (write_iso cal now) (eg_queue s))\<rparr> in
      case list_by_status (read_iso cal) (Some ''PENDING'') None 64 (eg_queue s1) of
        Inl e \<Rightarrow> raises e s1
      | Inr as \<Rightarrow> execute_all cal say run now as s1)"

definition executor_start :: "'s engine \<Rightarrow> 's engine" where
  "executor_start s = (if eg_thread s then s else s\<lparr>eg_stop := False, eg_thread := True\<rparr>)"

text \<open>The flag is set before the last drain.\<close>

definition executor_stop ::
  "calendar \<Rightarrow> (gm_error \<Rightarrow> string) \<Rightarrow> 's runner \<Rightarrow> int \<Rightarrow> bool \<Rightarrow> 's engine \<Rightarrow> 's engine" where
  "executor_stop cal say run now drain s =
     (if \<not> eg_thread s then s
      else let s1 = s\<lparr>eg_stop := True\<rparr>;
               s2 = (if drain then snd (drain_once cal say run now s1) else s1)
           in s2\<lparr>eg_thread := False\<rparr>)"

text \<open>The loop of the thread, one turn for each instant; an exception of a drain is dropped.\<close>

fun executor_loop ::
  "calendar \<Rightarrow> (gm_error \<Rightarrow> string) \<Rightarrow> 's runner \<Rightarrow> int list \<Rightarrow> 's engine \<Rightarrow> 's engine" where
  "executor_loop cal say run [] s = s"
| "executor_loop cal say run (now # ts) s =
     (if eg_stop s then s else executor_loop cal say run ts (snd (drain_once cal say run now s)))"

section \<open>One row at a time\<close>

definition set_row :: "orion_action \<Rightarrow> orion_action list \<Rightarrow> orion_action list" where
  "set_row a rows = update_where (\<lambda>r. oa_id r = oa_id a) (\<lambda>r. a) rows"

lemma update_is_set_row:
  assumes "keyed oa_id rows" and "a \<in> set rows" and "oa_id (f a) = oa_id a"
  shows "update_where (\<lambda>r. oa_id r = oa_id a) f rows = set_row (f a) rows"
proof -
  have "r = a" if "r \<in> set rows" "oa_id r = oa_id a" for r
    using assms(1,2) that by (auto simp: keyed_def distinct_map inj_on_def)
  then show ?thesis using assms(3) by (auto simp: set_row_def update_where_def)
qed

lemma set_row_twice: "oa_id a = oa_id b \<Longrightarrow> set_row b (set_row a rows) = set_row b rows"
  by (induction rows) (auto simp: set_row_def update_where_def)

lemma set_row_mem: "a \<in> set rows \<Longrightarrow> oa_id b = oa_id a \<Longrightarrow> b \<in> set (set_row b rows)"
  by (auto simp: set_row_def update_where_def image_iff)

lemma set_row_other: "r \<in> set rows \<Longrightarrow> oa_id r \<noteq> oa_id b \<Longrightarrow> r \<in> set (set_row b rows)"
  by (force simp: set_row_def update_where_def image_iff)

lemma set_rowE:
  assumes "r \<in> set (set_row b rows)"
  obtains "r = b" | "r \<in> set rows" "oa_id r \<noteq> oa_id b"
  using assms by (auto simp: set_row_def update_where_def split: if_splits)

lemma keyed_set_row: "keyed oa_id rows \<Longrightarrow> keyed oa_id (set_row b rows)"
  unfolding set_row_def by (rule keyed_update_where) simp_all

lemma fetch_set_row:
  assumes "keyed oa_id rows" and "a \<in> set rows" and "oa_id b = oa_id a"
  shows "fetch_where (\<lambda>r. oa_id r = oa_id a) (set_row b rows) = Some b"
  using fetch_keyed[OF keyed_set_row[OF assms(1)] set_row_mem[OF assms(2,3)]] assms(3) by simp

text \<open>How often a row can still be run.\<close>

definition attempts_left :: "orion_action \<Rightarrow> nat" where
  "attempts_left r =
     (if oa_status r = ST_PENDING then nat (oa_max_retries r - oa_retries r) + 1 else 0)"

definition pending_work :: "action_queue \<Rightarrow> nat" where
  "pending_work q = sum_list (map attempts_left (qu_rows q))"

lemma sum_set_row:
  assumes "keyed oa_id rows" and "a \<in> set rows" and "oa_id b = oa_id a"
  shows "sum_list (map attempts_left (set_row b rows)) + attempts_left a =
         sum_list (map attempts_left rows) + attempts_left b"
  using assms
proof (induction rows)
  case Nil
  then show ?case by simp
next
  case (Cons r rows)
  show ?case
  proof (cases "oa_id r = oa_id a")
    case True
    then have "r = a" and "\<forall>x \<in> set rows. oa_id x \<noteq> oa_id b"
      using Cons.prems by (auto simp: keyed_def image_iff)
    moreover from this have "map (\<lambda>x. if oa_id x = oa_id b then b else x) rows = rows"
      by (simp add: map_idI)
    ultimately show ?thesis using Cons.prems(3) by (simp add: set_row_def update_where_def)
  next
    case False
    then have "a \<in> set rows" and "keyed oa_id rows" using Cons.prems by (auto simp: keyed_def)
    from Cons.IH[OF this(2,1) Cons.prems(3)] False Cons.prems(3) show ?thesis
      by (simp add: set_row_def update_where_def)
  qed
qed

text \<open>Running a pending row takes at least one of its attempts and touches no other row.\<close>

definition spends :: "orion_action \<Rightarrow> orion_action \<Rightarrow> bool" where
  "spends a b \<longleftrightarrow> oa_id b = oa_id a \<and> oa_max_retries b = oa_max_retries a \<and>
     attempts_left b < attempts_left a"

definition calendar_ok :: "calendar \<Rightarrow> bool" where
  "calendar_ok cal \<longleftrightarrow> (\<forall>t. readable_time (read_iso cal) (write_iso cal t))"

lemma execute_stop [simp]: "eg_stop (snd (execute_action cal say run now a s)) = eg_stop s"
  by (auto simp: execute_action_def Let_def split: prod.split sum.split)

lemma execute_limit [simp]:
  "eg_limit (snd (execute_action cal say run now a s)) = eg_limit s"
  "eg_thread (snd (execute_action cal say run now a s)) = eg_thread s"
  "qu_max (eg_queue (snd (execute_action cal say run now a s))) = qu_max (eg_queue s)"
  by (auto simp: execute_action_def Let_def mark_succeeded_def mark_running_def update_status_def
      mark_failed_def split: prod.splits sum.splits option.splits if_splits)

lemma execute_world [simp]:
  "eg_world (snd (execute_action cal say run now a s)) = snd (run now a (eg_world s))"
  by (auto simp: execute_action_def Let_def split: prod.split sum.split)

lemma rows_ok_execute:
  assumes "queue_rows_ok (read_iso cal) (eg_queue s)" and "calendar_ok cal"
  shows "queue_rows_ok (read_iso cal) (eg_queue (snd (execute_action cal say run now a s)))"
proof -
  have run: "queue_rows_ok (read_iso cal) (mark_running t x (eg_queue s))" for t x
    using assms(1) by (simp add: mark_running_def rows_ok_status)
  have "queue_rows_ok (read_iso cal) (snd (mark_failed cal now x err b (mark_running t x (eg_queue s))))"
    for t x err b
    by (rule rows_ok_failed[OF run refl]) (use assms(2) in \<open>simp add: calendar_ok_def\<close>)
  then have "queue_rows_ok (read_iso cal) q" if
    "mark_failed cal now x err b (mark_running t x (eg_queue s)) = (r, q)" for t x err b r q
    using that by (metis snd_conv)
  then show ?thesis using run
    by (auto simp: execute_action_def Let_def mark_succeeded_def rows_ok_status split: prod.split sum.split)
qed

lemma status_set_row:
  assumes "keyed oa_id (qu_rows q)" and "a \<in> set (qu_rows q)"
  shows "qu_rows (update_status t (oa_id a) st err res q) =
     set_row (a\<lparr>oa_status := st, oa_last_error := err, oa_updated := Some t,
       oa_result := (case res of None \<Rightarrow> oa_result a | Some x \<Rightarrow> x)\<rparr>) (qu_rows q)"
  unfolding update_status_def
  by (simp add: update_is_set_row[OF assms, where f = "\<lambda>r. r\<lparr>oa_status := st, oa_last_error := err,
      oa_updated := Some t, oa_result := (case res of None \<Rightarrow> oa_result r | Some x \<Rightarrow> x)\<rparr>"])

lemma status_row_ids [simp]: "keyed oa_id (qu_rows q) \<Longrightarrow> keyed oa_id (qu_rows (update_status t x st err res q))"
  unfolding update_status_def by (simp add: keyed_update_where)

text \<open>The row once it has been marked.\<close>

definition running :: "string \<Rightarrow> orion_action \<Rightarrow> orion_action" where
  "running t a = a\<lparr>oa_status := ST_RUNNING, oa_last_error := None, oa_updated := Some t\<rparr>"

lemma running_simps [simp]:
  "oa_id (running t a) = oa_id a" "oa_max_retries (running t a) = oa_max_retries a"
  "oa_retries (running t a) = oa_retries a" "action_can_retry (running t a) = action_can_retry a"
  by (simp_all add: running_def action_can_retry_def)

lemma marked_running:
  assumes "queue_rows_ok rd q" and "a \<in> set (qu_rows q)"
  shows "qu_rows (mark_running t (oa_id a) q) = set_row (running t a) (qu_rows q)"
    and "keyed oa_id (qu_rows (mark_running t (oa_id a) q))"
    and "running t a \<in> set (qu_rows (mark_running t (oa_id a) q))"
    and "get_action rd (oa_id a) (mark_running t (oa_id a) q) = Inr (Some (running t a))"
proof -
  have keyed: "keyed oa_id (qu_rows q)" using assms(1) by (simp add: queue_rows_ok_def)
  show rows: "qu_rows (mark_running t (oa_id a) q) = set_row (running t a) (qu_rows q)"
    using status_set_row[OF keyed assms(2)] by (simp add: mark_running_def running_def)
  show keyed1: "keyed oa_id (qu_rows (mark_running t (oa_id a) q))"
    using keyed rows by (simp add: keyed_set_row)
  show mem: "running t a \<in> set (qu_rows (mark_running t (oa_id a) q))"
    unfolding rows using assms(2) by (rule set_row_mem) simp
  have "check_action rd (running t a) = None"
    using assms unfolding running_def by (auto simp: check_action_note queue_rows_ok_def)
  then show "get_action rd (oa_id a) (mark_running t (oa_id a) q) = Inr (Some (running t a))"
    using fetch_keyed[OF keyed1 mem] by (simp add: get_action_def and_then_def)
qed

lemma replaced_row:
  assumes "queue_rows_ok rd q" and "a \<in> set (qu_rows q)" and "oa_id b = oa_id a"
  shows "set_row b (qu_rows (mark_running t (oa_id a) q)) = set_row b (qu_rows q)"
  using assms by (simp add: marked_running(1)[OF assms(1,2)] set_row_twice)

lemma failed_row:
  fixes retry :: bool
  assumes "queue_rows_ok (read_iso cal) q" and "a \<in> set (qu_rows q)" and "oa_status a = ST_PENDING"
  shows "\<exists>b. qu_rows (snd (mark_failed cal now (oa_id a) err (action_can_retry a \<and> retry)
      (mark_running t (oa_id a) q))) = set_row b (qu_rows q) \<and> spends a b"
proof -
  note run = marked_running[OF assms(1,2), where t = t]
  let ?q1 = "mark_running t (oa_id a) q" and ?r = "running t a" and ?w = "write_iso cal now"
  have left: "attempts_left a = nat (oa_max_retries a - oa_retries a) + 1"
    using assms(3) by (simp add: attempts_left_def)
  consider (over) "action_can_retry a \<and> retry" "max_instant < now + 2 ^ nat (oa_retries a) * second"
    | (again) "action_can_retry a \<and> retry" "\<not> max_instant < now + 2 ^ nat (oa_retries a) * second"
    | (final) "\<not> (action_can_retry a \<and> retry)" by blast
  then show ?thesis
  proof cases
    case over
    then have "qu_rows (snd (mark_failed cal now (oa_id a) err (action_can_retry a \<and> retry) ?q1)) =
        set_row ?r (qu_rows q)" using run by (simp add: mark_failed_def)
    moreover have "spends a ?r" using left by (simp add: spends_def attempts_left_def running_def)
    ultimately show ?thesis by blast
  next
    case again
    let ?f = "\<lambda>r. r\<lparr>oa_status := ST_PENDING, oa_retries := oa_retries a + 1, oa_last_error := Some err,
        oa_next_attempt := Some (write_iso cal (now + 2 ^ nat (oa_retries a) * second)),
        oa_updated := Some ?w\<rparr>"
    have "qu_rows (snd (mark_failed cal now (oa_id a) err (action_can_retry a \<and> retry) ?q1)) =
        set_row (?f ?r) (qu_rows ?q1)"
      using again run(4) update_is_set_row[OF run(2,3), where f = ?f] by (simp add: mark_failed_def Let_def)
    moreover have "spends a (?f ?r)"
      using left again by (auto simp: spends_def attempts_left_def action_can_retry_def)
    ultimately show ?thesis using replaced_row[OF assms(1,2), of "?f ?r"] by auto
  next
    case final
    let ?b = "?r\<lparr>oa_status := ST_FAILED, oa_last_error := Some err, oa_updated := Some ?w\<rparr>"
    have "qu_rows (snd (mark_failed cal now (oa_id a) err (action_can_retry a \<and> retry) ?q1)) =
        set_row ?b (qu_rows ?q1)"
      using final run(4) status_set_row[OF run(2,3)] by (auto simp: mark_failed_def)
    moreover have "spends a ?b" using left by (simp add: spends_def attempts_left_def)
    ultimately show ?thesis using replaced_row[OF assms(1,2), of ?b] by auto
  qed
qed

lemma executed_row:
  assumes "queue_rows_ok (read_iso cal) (eg_queue s)" and "a \<in> set (qu_rows (eg_queue s))"
    and "oa_status a = ST_PENDING"
  shows "\<exists>b. qu_rows (eg_queue (snd (execute_action cal say run now a s))) =
      set_row b (qu_rows (eg_queue s)) \<and> spends a b"
proof (cases "fst (run now a (eg_world s))")
  case (Inr res)
  let ?t = "write_iso cal now" and ?q = "eg_queue s"
  let ?b = "(running ?t a)\<lparr>oa_status := ST_SUCCEEDED, oa_last_error := None, oa_updated := Some ?t, oa_result := res\<rparr>"
  note marked = marked_running[OF assms(1,2), where t = ?t]
  have "qu_rows (mark_succeeded ?t (oa_id a) res (mark_running ?t (oa_id a) ?q)) =
      set_row ?b (qu_rows (mark_running ?t (oa_id a) ?q))"
    using status_set_row[OF marked(2,3)] by (simp add: mark_succeeded_def)
  also have "\<dots> = set_row ?b (qu_rows ?q)" by (rule replaced_row[OF assms(1,2)]) simp
  finally have "qu_rows (eg_queue (snd (execute_action cal say run now a s))) = set_row ?b (qu_rows ?q)"
    using Inr by (cases "run now a (eg_world s)") (auto simp: execute_action_def Let_def)
  moreover have "spends a ?b" using assms(3) by (simp add: spends_def attempts_left_def)
  ultimately show ?thesis by blast
next
  case (Inl e)
  have "eg_queue (snd (execute_action cal say run now a s)) =
      snd (mark_failed cal now (oa_id a) (say e) (action_can_retry a \<and> eg_consecutive s < eg_limit s)
        (mark_running (write_iso cal now) (oa_id a) (eg_queue s)))"
    using Inl by (cases "run now a (eg_world s)")
      (auto simp: execute_action_def Let_def split: prod.split sum.split)
  then show ?thesis using failed_row[OF assms, where retry = "eg_consecutive s < eg_limit s"] by simp
qed

end
