(* ===== verification/OrionExecutorProps.thy ===== *)
theory OrionExecutorProps
  imports OrionExecutor "HOL-Library.Sublist"
begin

text \<open>
  What the queue and its executor guarantee together, for any handlers: an action is run at
  most \<open>max_retries + 1\<close> times and never again once it is finished, and the queue is empty
  of pending actions after boundedly many drains.  And what they do not: a stop that drains
  runs nothing, a full queue never takes an action again, a cancelled action of the current
  batch still runs, and the back-off times are not waited for.
\<close>

section \<open>How tables shrink\<close>

definition shrunk :: "orion_action \<Rightarrow> orion_action \<Rightarrow> bool" where
  "shrunk r r' \<longleftrightarrow> oa_id r' = oa_id r \<and> oa_max_retries r' = oa_max_retries r \<and>
     attempts_left r' \<le> attempts_left r"

definition left_of :: "string \<Rightarrow> action_queue \<Rightarrow> nat" where
  "left_of x q = sum_list (map attempts_left (filter (\<lambda>r. oa_id r = x) (qu_rows q)))"

definition shrinks :: "action_queue \<Rightarrow> action_queue \<Rightarrow> bool" where
  "shrinks q q' \<longleftrightarrow> list_all2 shrunk (qu_rows q) (qu_rows q')"

lemma shrunk_refl [simp]: "shrunk r r"
  by (simp add: shrunk_def)

lemma shrunk_trans: "shrunk a b \<Longrightarrow> shrunk b c \<Longrightarrow> shrunk a c"
  by (auto simp: shrunk_def)

lemma shrinks_refl [simp]: "shrinks q q"
  by (simp add: shrinks_def list_all2_same)

lemma shrinks_trans: "shrinks p q \<Longrightarrow> shrinks q r \<Longrightarrow> shrinks p r"
  unfolding shrinks_def by (rule list_all2_trans[OF shrunk_trans])

lemma shrinks_update:
  "(\<And>r. r \<in> set (qu_rows q) \<Longrightarrow> p r \<Longrightarrow> shrunk r (f r)) \<Longrightarrow>
   shrinks q (q\<lparr>qu_rows := update_where p f (qu_rows q)\<rparr>)"
  by (auto simp: shrinks_def update_where_def list_all2_conv_all_nth)

lemma shrinks_ids: "shrinks q q' \<Longrightarrow> map oa_id (qu_rows q') = map oa_id (qu_rows q)"
  by (auto simp: shrinks_def shrunk_def list_all2_conv_all_nth intro: nth_equalityI)

lemma shrinks_left: "shrinks q q' \<Longrightarrow> left_of x q' \<le> left_of x q"
proof -
  have "list_all2 shrunk rs rs' \<Longrightarrow>
      sum_list (map attempts_left (filter (\<lambda>r. oa_id r = x) rs')) \<le>
      sum_list (map attempts_left (filter (\<lambda>r. oa_id r = x) rs))" for rs rs'
    by (induction rs rs' rule: list_all2_induct) (auto simp: shrunk_def)
  then show "shrinks q q' \<Longrightarrow> ?thesis" by (simp add: shrinks_def left_of_def)
qed

lemma shrinks_work: "shrinks q q' \<Longrightarrow> pending_work q' \<le> pending_work q"
proof -
  have "list_all2 shrunk rs rs' \<Longrightarrow>
      sum_list (map attempts_left rs') \<le> sum_list (map attempts_left rs)" for rs rs'
    by (induction rs rs' rule: list_all2_induct) (auto simp: shrunk_def)
  then show "shrinks q q' \<Longrightarrow> ?thesis" by (simp add: shrinks_def pending_work_def)
qed

lemma shrinks_status: "st \<noteq> ST_PENDING \<Longrightarrow> shrinks q (update_status t x st err res q)"
  unfolding update_status_def
  by (rule shrinks_update) (auto simp: shrunk_def attempts_left_def)

lemma shrinks_sweep: "shrinks q (snd (sweep_expired t q))"
proof -
  have "shrinks q (foldl (\<lambda>q x. mark_expired t x q) q ids)" for ids
  proof (induction ids arbitrary: q)
    case Nil
    then show ?case by simp
  next
    case (Cons x ids)
    have "shrinks q (mark_expired t x q)" by (simp add: mark_expired_def shrinks_status)
    with Cons.IH[of "mark_expired t x q"] show ?case using shrinks_trans by auto
  qed
  then show ?thesis by (simp add: sweep_expired_def Let_def)
qed

lemma spends_shrunk: "spends a b \<Longrightarrow> shrunk a b"
  by (simp add: spends_def shrunk_def)

lemma left_of_row:
  "keyed oa_id (qu_rows q) \<Longrightarrow> r \<in> set (qu_rows q) \<Longrightarrow> left_of (oa_id r) q = attempts_left r"
proof -
  have "keyed oa_id rows \<Longrightarrow> r \<in> set rows \<Longrightarrow> filter (\<lambda>x. oa_id x = oa_id r) rows = [r]" for rows
    by (induction rows) (auto simp: keyed_def filter_empty_conv image_iff)
  then show "keyed oa_id (qu_rows q) \<Longrightarrow> r \<in> set (qu_rows q) \<Longrightarrow> ?thesis" by (simp add: left_of_def)
qed

section \<open>One drain\<close>

definition queued :: "calendar \<Rightarrow> 's engine \<Rightarrow> orion_action \<Rightarrow> bool" where
  "queued cal s a \<longleftrightarrow> a \<in> set (qu_rows (eg_queue s)) \<and> oa_status a = ST_PENDING"

abbreviation engine_ok :: "calendar \<Rightarrow> 's engine \<Rightarrow> bool" where
  "engine_ok cal s \<equiv> queue_rows_ok (read_iso cal) (eg_queue s)"

lemma engine_keyed: "engine_ok cal s \<Longrightarrow> keyed oa_id (qu_rows (eg_queue s))"
  by (simp add: queue_rows_ok_def)

lemma executed_shrinks:
  assumes "engine_ok cal s" and "queued cal s a"
  shows "shrinks (eg_queue s) (eg_queue (snd (execute_action cal say run now a s)))"
    and "left_of (oa_id a) (eg_queue (snd (execute_action cal say run now a s))) < left_of (oa_id a) (eg_queue s)"
    and "pending_work (eg_queue (snd (execute_action cal say run now a s))) < pending_work (eg_queue s)"
    and "queued cal s b \<Longrightarrow> oa_id b \<noteq> oa_id a \<Longrightarrow> queued cal (snd (execute_action cal say run now a s)) b"
proof -
  let ?s' = "snd (execute_action cal say run now a s)"
  have a: "a \<in> set (qu_rows (eg_queue s))" "oa_status a = ST_PENDING"
    using assms(2) by (simp_all add: queued_def)
  note keyed = engine_keyed[OF assms(1)]
  obtain c where c: "qu_rows (eg_queue ?s') = set_row c (qu_rows (eg_queue s))" "spends a c"
    using executed_row[OF assms(1) a] by blast
  then have id: "oa_id c = oa_id a" by (simp add: spends_def)
  have uniq: "r = a" if "r \<in> set (qu_rows (eg_queue s))" "oa_id r = oa_id c" for r
    using keyed a(1) that id by (auto simp: keyed_def distinct_map inj_on_def)
  have reached: "shrunk r c" if "r \<in> set (qu_rows (eg_queue s))" "oa_id r = oa_id c" for r
    using uniq[OF that] spends_shrunk[OF c(2)] by simp
  show sh: "shrinks (eg_queue s) (eg_queue ?s')"
    using reached
    by (auto simp: shrinks_def c(1) set_row_def update_where_def list_all2_conv_all_nth)
  have "keyed oa_id (qu_rows (eg_queue ?s'))" unfolding c(1) using keyed by (rule keyed_set_row)
  moreover have "c \<in> set (qu_rows (eg_queue ?s'))" unfolding c(1) using a(1) id by (rule set_row_mem)
  ultimately show "left_of (oa_id a) (eg_queue ?s') < left_of (oa_id a) (eg_queue s)"
    using left_of_row[OF keyed a(1)] left_of_row[of "eg_queue ?s'" c] c(2) id by (simp add: spends_def)
  show "pending_work (eg_queue ?s') < pending_work (eg_queue s)"
    using sum_set_row[OF keyed a(1) id] c by (simp add: pending_work_def spends_def)
  show "queued cal s b \<Longrightarrow> oa_id b \<noteq> oa_id a \<Longrightarrow> queued cal ?s' b"
    using id by (simp add: queued_def c(1) set_row_other)
qed

text \<open>The handlers, with a record of which action each call was for.\<close>

definition logged :: "'s runner \<Rightarrow> ('s \<times> string list) runner" where
  "logged run now a w = (let (r, w1) = run now a (fst w) in (r, (w1, snd w @ [oa_id a])))"

definition calls :: "string \<Rightarrow> ('s \<times> string list) engine \<Rightarrow> nat" where
  "calls x s = count_list (snd (eg_world s)) x"

lemma logged_log [simp]: "snd (snd (logged run now a w)) = snd w @ [oa_id a]"
  by (simp add: logged_def split_beta)

lemma calls_execute:
  "calls x (snd (execute_action cal say (logged run) now a s)) = calls x s + (if oa_id a = x then 1 else 0)"
  by (simp add: calls_def)

lemma execute_all_ok:
  assumes "engine_ok cal s" and "calendar_ok cal" and "\<forall>a \<in> set as. queued cal s a"
    and "distinct (map oa_id as)"
  shows "engine_ok cal (snd (execute_all cal say run now as s)) \<and>
    shrinks (eg_queue s) (eg_queue (snd (execute_all cal say run now as s))) \<and>
    eg_stop (snd (execute_all cal say run now as s)) = eg_stop s \<and>
    (as \<noteq> [] \<and> \<not> eg_stop s \<longrightarrow>
       pending_work (eg_queue (snd (execute_all cal say run now as s))) < pending_work (eg_queue s))"
  using assms(1,3,4)
proof (induction as arbitrary: s)
  case Nil
  then show ?case by simp
next
  case (Cons a as)
  let ?s1 = "snd (execute_action cal say run now a s)"
  have a: "queued cal s a" using Cons.prems(2) by simp
  note one = executed_shrinks[OF Cons.prems(1) a, where say = say and run = run and now = now]
  have ok1: "engine_ok cal ?s1" using Cons.prems(1) assms(2) by (rule rows_ok_execute)
  have "\<forall>b \<in> set as. queued cal ?s1 b"
    using one(4) Cons.prems(2,3) by (force simp: image_iff)
  from Cons.IH[OF ok1 this] Cons.prems(3)
  have IH: "engine_ok cal (snd (execute_all cal say run now as ?s1))"
      "shrinks (eg_queue s) (eg_queue (snd (execute_all cal say run now as ?s1)))"
      "eg_stop (snd (execute_all cal say run now as ?s1)) = eg_stop s"
      "pending_work (eg_queue (snd (execute_all cal say run now as ?s1))) \<le> pending_work (eg_queue ?s1)"
    using shrinks_trans[OF one(1)] shrinks_work by auto
  obtain r s1 r2 s2 where eq: "execute_action cal say run now a s = (r, s1)"
      "execute_all cal say run now as s1 = (r2, s2)" by fastforce
  have "eg_stop s1 = eg_stop s" using execute_stop[of cal say run now a s] eq(1) by simp
  then show ?case using IH one(1,3) ok1 Cons.prems(1)
    by (cases r; cases r2) (auto simp: eq)
qed

lemma execute_all_calls:
  assumes "engine_ok cal s" and "calendar_ok cal" and "\<forall>a \<in> set as. queued cal s a"
    and "distinct (map oa_id as)"
  shows "calls x (snd (execute_all cal say (logged run) now as s)) +
    left_of x (eg_queue (snd (execute_all cal say (logged run) now as s))) \<le> calls x s + left_of x (eg_queue s)"
  using assms(1,3,4)
proof (induction as arbitrary: s)
  case Nil
  then show ?case by simp
next
  case (Cons a as)
  let ?s1 = "snd (execute_action cal say (logged run) now a s)"
  have a: "queued cal s a" using Cons.prems(2) by simp
  note one = executed_shrinks[OF Cons.prems(1) a, where say = say and run = "logged run" and now = now]
  have ok1: "engine_ok cal ?s1" using Cons.prems(1) assms(2) by (rule rows_ok_execute)
  have "\<forall>b \<in> set as. queued cal ?s1 b"
    using one(4) Cons.prems(2,3) by (force simp: image_iff)
  from Cons.IH[OF ok1 this] Cons.prems(3)
  have IH: "calls x (snd (execute_all cal say (logged run) now as ?s1)) +
      left_of x (eg_queue (snd (execute_all cal say (logged run) now as ?s1))) \<le>
      calls x ?s1 + left_of x (eg_queue ?s1)" by simp
  have step: "calls x ?s1 + left_of x (eg_queue ?s1) \<le> calls x s + left_of x (eg_queue s)"
    using one(2) shrinks_left[OF one(1), of x] by (cases "oa_id a = x") (simp_all add: calls_execute)
  obtain r s1 where s1: "execute_action cal say (logged run) now a s = (r, s1)" by fastforce
  from IH step show ?case by (auto simp: s1 split: prod.splits sum.splits)
qed

lemma pending_listed:
  assumes "queue_rows_ok rd q"
  shows "list_by_status rd (Some ''PENDING'') None 64 q =
    Inr (take 64 (sort_key oa_created (filter (\<lambda>r. oa_status r = ST_PENDING) (qu_rows q))))"
proof -
  have "action_status_from_str ''PENDING'' = Inr ST_PENDING" using status_from_value[of ST_PENDING] by simp
  moreover have "\<forall>r \<in> set (take 64 (sort_key oa_created (filter (\<lambda>r. oa_status r = ST_PENDING) (qu_rows q)))).
      check_action rd r = None"
    using assms by (auto simp: queue_rows_ok_def dest!: in_set_takeD)
  ultimately show ?thesis by (simp add: list_by_status_def and_then_def sql_limit_def read_rows_ok)
qed

lemma batch_queued:
  assumes "engine_ok cal s"
  defines "batch \<equiv> take 64 (sort_key oa_created (filter (\<lambda>r. oa_status r = ST_PENDING) (qu_rows (eg_queue s))))"
  shows "\<forall>a \<in> set batch. queued cal s a" and "distinct (map oa_id batch)"
    and "batch = [] \<longleftrightarrow> (\<forall>r \<in> set (qu_rows (eg_queue s)). oa_status r \<noteq> ST_PENDING)"
proof -
  show "\<forall>a \<in> set batch. queued cal s a"
    by (auto simp: batch_def queued_def dest!: in_set_takeD)
  have "distinct (map oa_id (qu_rows (eg_queue s)))" using engine_keyed[OF assms(1)] by (simp add: keyed_def)
  then have "distinct (map oa_id (filter (\<lambda>r. oa_status r = ST_PENDING) (qu_rows (eg_queue s))))"
    by (rule distinct_map_filter)
  then have "distinct (map oa_id (sort_key oa_created (filter (\<lambda>r. oa_status r = ST_PENDING) (qu_rows (eg_queue s)))))"
    by (simp only: distinct_map distinct_sort set_sort)
  then show "distinct (map oa_id batch)" by (simp add: batch_def take_map[symmetric])
  have "sort_key oa_created rs = [] \<longleftrightarrow> rs = []" for rs :: "orion_action list"
    by (metis length_0_conv length_sort)
  then show "batch = [] \<longleftrightarrow> (\<forall>r \<in> set (qu_rows (eg_queue s)). oa_status r \<noteq> ST_PENDING)"
    by (simp add: batch_def filter_empty_conv)
qed

text \<open>The state after the sweep, and the drain as the execution of its batch.\<close>

definition swept :: "calendar \<Rightarrow> int \<Rightarrow> 's engine \<Rightarrow> 's engine" where
  "swept cal now s = s\<lparr>eg_queue := snd (sweep_expired (write_iso cal now) (eg_queue s))\<rparr>"

definition batch_of :: "'s engine \<Rightarrow> orion_action list" where
  "batch_of s = take 64 (sort_key oa_created (filter (\<lambda>r. oa_status r = ST_PENDING) (qu_rows (eg_queue s))))"

lemma swept_ok: "engine_ok cal s \<Longrightarrow> engine_ok cal (swept cal now s)"
  by (simp add: swept_def rows_ok_sweep)

lemma swept_simps [simp]:
  "eg_world (swept cal now s) = eg_world s" "eg_stop (swept cal now s) = eg_stop s"
  "calls x (swept cal now s') = calls x s'"
  by (simp_all add: swept_def calls_def)

lemma swept_shrinks: "shrinks (eg_queue s) (eg_queue (swept cal now s))"
  by (simp add: swept_def shrinks_sweep)

lemma drain_is_batch:
  "engine_ok cal s \<Longrightarrow>
   drain_once cal say run now s = execute_all cal say run now (batch_of (swept cal now s)) (swept cal now s)"
  by (simp add: drain_once_def Let_def swept_def[symmetric] pending_listed swept_ok batch_of_def)

lemmas batch_facts = batch_queued[folded batch_of_def]

lemma drain_from_swept:
  assumes "engine_ok cal s" and "calendar_ok cal"
  shows "engine_ok cal (snd (drain_once cal say run now s)) \<and>
    shrinks (eg_queue (swept cal now s)) (eg_queue (snd (drain_once cal say run now s))) \<and>
    eg_stop (snd (drain_once cal say run now s)) = eg_stop (swept cal now s) \<and>
    (batch_of (swept cal now s) \<noteq> [] \<and> \<not> eg_stop (swept cal now s) \<longrightarrow>
       pending_work (eg_queue (snd (drain_once cal say run now s))) < pending_work (eg_queue (swept cal now s)))"
  unfolding drain_is_batch[OF assms(1)]
  by (rule execute_all_ok[OF swept_ok[OF assms(1)] assms(2) batch_facts(1,2)[OF swept_ok[OF assms(1)]]])

lemma drain_ok:
  assumes "engine_ok cal s" and "calendar_ok cal"
  shows "engine_ok cal (snd (drain_once cal say run now s))"
    and "shrinks (eg_queue s) (eg_queue (snd (drain_once cal say run now s)))"
    and "eg_stop (snd (drain_once cal say run now s)) = eg_stop s"
  using drain_from_swept[OF assms, of say run now] shrinks_trans[OF swept_shrinks[of s cal now]]
  by simp_all

lemma drain_calls:
  assumes "engine_ok cal s" and "calendar_ok cal"
  shows "calls x (snd (drain_once cal say (logged run) now s)) +
    left_of x (eg_queue (snd (drain_once cal say (logged run) now s))) \<le> calls x s + left_of x (eg_queue s)"
proof -
  have "calls x (snd (drain_once cal say (logged run) now s)) +
      left_of x (eg_queue (snd (drain_once cal say (logged run) now s))) \<le>
      calls x (swept cal now s) + left_of x (eg_queue (swept cal now s))"
    unfolding drain_is_batch[OF assms(1)]
    by (rule execute_all_calls[OF swept_ok[OF assms(1)] assms(2) batch_facts(1,2)[OF swept_ok[OF assms(1)]]])
  with shrinks_left[OF swept_shrinks[of s cal now], of x] show ?thesis by simp
qed

lemma pending_work_zero: "pending_work q = 0 \<longleftrightarrow> (\<forall>r \<in> set (qu_rows q). oa_status r \<noteq> ST_PENDING)"
  by (auto simp: pending_work_def attempts_left_def)

text \<open>A drain does some of the pending work, if there is any.\<close>

lemma drain_progress:
  assumes "engine_ok cal s" and "calendar_ok cal" and "\<not> eg_stop s"
    and "pending_work (eg_queue s) \<noteq> 0"
  shows "pending_work (eg_queue (snd (drain_once cal say run now s))) < pending_work (eg_queue s)"
proof (cases "batch_of (swept cal now s) = []")
  case True
  then have "pending_work (eg_queue (swept cal now s)) = 0"
    using batch_facts(3)[OF swept_ok[OF assms(1)], of now] pending_work_zero by metis
  with True assms(4) show ?thesis by (simp add: drain_is_batch[OF assms(1)])
next
  case False
  with drain_from_swept[OF assms(1,2), of say run now] shrinks_work[OF swept_shrinks[of s cal now]] assms(3)
  show ?thesis by simp
qed

section \<open>Any use of the queue\<close>

text \<open>
  What callers and threads can do with queue and executor: submit an action the constructor
  has checked, cancel one, start and stop the thread, and drain, at any time.
\<close>

inductive engine_step ::
  "calendar \<Rightarrow> (gm_error \<Rightarrow> string) \<Rightarrow> 's runner \<Rightarrow> 's engine \<Rightarrow> 's engine \<Rightarrow> bool"
  for cal say run where
  submitted: "check_action (read_iso cal) a = None \<Longrightarrow>
     engine_step cal say run s (s\<lparr>eg_queue := snd (enqueue a (eg_queue s))\<rparr>)"
| cancelled: "engine_step cal say run s (s\<lparr>eg_queue := mark_cancelled t x (eg_queue s)\<rparr>)"
| started: "engine_step cal say run s (executor_start s)"
| stopped: "engine_step cal say run s (executor_stop cal say run now drain s)"
| drained: "engine_step cal say run s (snd (drain_once cal say run now s))"

abbreviation ids_of :: "'s engine \<Rightarrow> string set" where
  "ids_of s \<equiv> oa_id ` set (qu_rows (eg_queue s))"

text \<open>Every call is paid by an attempt of the row; a row is created with at most \<open>max + 1\<close>.\<close>

definition accounted :: "calendar \<Rightarrow> ('s \<times> string list) engine \<Rightarrow> bool" where
  "accounted cal s \<longleftrightarrow> engine_ok cal s \<and> (\<forall>x. x \<notin> ids_of s \<longrightarrow> calls x s = 0) \<and>
     (\<forall>r \<in> set (qu_rows (eg_queue s)). calls (oa_id r) s + attempts_left r \<le> nat (oa_max_retries r) + 1)"

lemma shrinks_mem:
  assumes "shrinks q q'" and "r' \<in> set (qu_rows q')"
  shows "\<exists>r \<in> set (qu_rows q). shrunk r r'"
  using assms by (fastforce simp: shrinks_def list_all2_conv_all_nth in_set_conv_nth)

text \<open>A change that shrinks the table and pays its calls keeps the account.\<close>

lemma accounted_shrink:
  assumes "accounted cal s" and "engine_ok cal s'" and "shrinks (eg_queue s) (eg_queue s')"
    and "\<And>x. calls x s' + left_of x (eg_queue s') \<le> calls x s + left_of x (eg_queue s)"
  shows "accounted cal s'"
proof -
  have ids: "ids_of s' = ids_of s"
    using shrinks_ids[OF assms(3)] by (metis set_map)
  have none: "left_of x q = 0" if "x \<notin> oa_id ` set (qu_rows q)" for x q
    using that by (auto simp: left_of_def image_iff filter_empty_conv)
  have "calls x s' = 0" if "x \<notin> ids_of s'" for x
  proof -
    have "calls x s = 0" "left_of x (eg_queue s) = 0"
      using assms(1) that none unfolding accounted_def ids by blast+
    then show ?thesis using assms(4)[of x] by simp
  qed
  moreover have "calls (oa_id r') s' + attempts_left r' \<le> nat (oa_max_retries r') + 1"
    if r': "r' \<in> set (qu_rows (eg_queue s'))" for r'
  proof -
    obtain r where r: "r \<in> set (qu_rows (eg_queue s))" "shrunk r r'"
      using shrinks_mem[OF assms(3) r'] by blast
    have "engine_ok cal s" using assms(1) by (simp add: accounted_def)
    then have "left_of (oa_id r) (eg_queue s) = attempts_left r"
      by (rule left_of_row[OF engine_keyed r(1)])
    moreover have "left_of (oa_id r') (eg_queue s') = attempts_left r'"
      by (rule left_of_row[OF engine_keyed[OF assms(2)] r'])
    moreover have "calls (oa_id r) s + attempts_left r \<le> nat (oa_max_retries r) + 1"
      using assms(1) r(1) by (simp add: accounted_def)
    ultimately show ?thesis using assms(4)[of "oa_id r"] r(2) by (simp add: shrunk_def)
  qed
  ultimately show ?thesis using assms(2) by (simp add: accounted_def)
qed

lemma enqueue_cases:
  obtains "snd (enqueue a q) = q"
  | "snd (enqueue a q) = q\<lparr>qu_rows := qu_rows q @ [a\<lparr>oa_result := []\<rparr>]\<rparr>" "oa_id a \<notin> oa_id ` set (qu_rows q)"
proof (cases "snd (enqueue a q) = q")
  case False
  then have "insert_allowed a q"
    "snd (enqueue a q) = q\<lparr>qu_rows := qu_rows q @ [a\<lparr>oa_result := []\<rparr>]\<rparr>"
    by (auto simp: enqueue_def split: option.splits if_splits)
  with that(2) show ?thesis by (simp add: insert_allowed_def has_key_iff)
qed (rule that(1))

lemma accounted_submit:
  assumes "accounted cal s" and "check_action (read_iso cal) a = None"
  shows "accounted cal (s\<lparr>eg_queue := snd (enqueue a (eg_queue s))\<rparr>)"
proof -
  have ok: "engine_ok cal (s\<lparr>eg_queue := snd (enqueue a (eg_queue s))\<rparr>)"
    using assms rows_ok_enqueue by (auto simp: accounted_def)
  have fresh: "attempts_left (a\<lparr>oa_result := []\<rparr>) \<le> nat (oa_max_retries a) + 1"
    using assms(2) by (auto simp: attempts_left_def check_action_def Let_def split: if_splits)
  show ?thesis
  proof (rule enqueue_cases[of a "eg_queue s"])
    assume "snd (enqueue a (eg_queue s)) = eg_queue s"
    then show ?thesis using assms(1) by simp
  next
    assume new: "snd (enqueue a (eg_queue s)) =
        (eg_queue s)\<lparr>qu_rows := qu_rows (eg_queue s) @ [a\<lparr>oa_result := []\<rparr>]\<rparr>"
      "oa_id a \<notin> oa_id ` set (qu_rows (eg_queue s))"
    then have "calls (oa_id a) s = 0" using assms(1) by (simp add: accounted_def)
    with assms(1) ok fresh new(1) show ?thesis by (auto simp: accounted_def calls_def)
  qed
qed

lemma stop_cases:
  obtains "executor_stop cal say run now drain s = s"
  | "executor_stop cal say run now drain s = s\<lparr>eg_stop := True, eg_thread := False\<rparr>"
  | "executor_stop cal say run now drain s =
       (snd (drain_once cal say run now (s\<lparr>eg_stop := True\<rparr>)))\<lparr>eg_thread := False\<rparr>"
  by (cases "eg_thread s"; cases drain) (auto simp: executor_stop_def Let_def)

text \<open>What a step does to the table: a submission, or a shrinking that pays its calls.\<close>

lemma step_effect:
  assumes "engine_step cal say (logged run) s s'" and "calendar_ok cal" and "engine_ok cal s"
  obtains a where "check_action (read_iso cal) a = None" "s' = s\<lparr>eg_queue := snd (enqueue a (eg_queue s))\<rparr>"
  | "engine_ok cal s'" "shrinks (eg_queue s) (eg_queue s')"
    "\<And>x. calls x s' + left_of x (eg_queue s') \<le> calls x s + left_of x (eg_queue s)"
  using assms(1)
proof cases
  case (submitted a)
  from that(1)[OF submitted(2,1)] show ?thesis .
next
  case (cancelled t x)
  have sh: "shrinks (eg_queue s) (eg_queue s')"
    using cancelled by (simp add: mark_cancelled_def shrinks_status)
  show ?thesis
    by (rule that(2)) (use cancelled assms(3) sh shrinks_left[OF sh] in
        \<open>simp_all add: mark_cancelled_def rows_ok_status calls_def\<close>)
next
  case started
  then show ?thesis using assms(3) by (intro that(2)) (auto simp: executor_start_def calls_def)
next
  case (drained now)
  then show ?thesis
    using drain_ok(1,2)[OF assms(3,2)] drain_calls[OF assms(3,2)] by (intro that(2)) simp_all
next
  case (stopped now drain)
  let ?s1 = "s\<lparr>eg_stop := True\<rparr>"
  have ok1: "engine_ok cal ?s1" using assms(3) by simp
  note d = drain_ok(1,2)[OF ok1 assms(2), where say = say and run = "logged run" and now = now]
    and c = drain_calls[OF ok1 assms(2), where say = say and run = run and now = now]
  show ?thesis
  proof (rule stop_cases[of cal say "logged run" now drain s])
    assume "executor_stop cal say (logged run) now drain s =
       (snd (drain_once cal say (logged run) now ?s1))\<lparr>eg_thread := False\<rparr>"
    then show ?thesis using stopped d c by (intro that(2)) (simp_all add: calls_def)
  qed (use stopped assms(3) in \<open>auto intro!: that(2) simp: calls_def\<close>)
qed

lemma accounted_step:
  assumes "accounted cal s" and "calendar_ok cal" and "engine_step cal say (logged run) s s'"
  shows "accounted cal s'"
proof -
  have "engine_ok cal s" using assms(1) by (simp add: accounted_def)
  then show ?thesis
    by (rule step_effect[OF assms(3,2)]) (auto intro: accounted_submit[OF assms(1)] accounted_shrink[OF assms(1)])
qed

lemma accounted_run:
  assumes "(engine_step cal say (logged run))\<^sup>*\<^sup>* s s'" and "calendar_ok cal" and "accounted cal s"
  shows "accounted cal s'"
  using assms by (induction rule: rtranclp_induct) (auto intro: accounted_step)

text \<open>An identifier that is in the table keeps its row, and what its calls and attempts add up to.\<close>

lemma step_keeps_row:
  assumes "accounted cal s" and "calendar_ok cal" and "engine_step cal say (logged run) s s'"
    and "x \<in> ids_of s"
  shows "x \<in> ids_of s' \<and> calls x s' + left_of x (eg_queue s') \<le> calls x s + left_of x (eg_queue s)"
proof -
  have "engine_ok cal s" using assms(1) by (simp add: accounted_def)
  then show ?thesis
  proof (rule step_effect[OF assms(3,2)])
    fix a assume s': "s' = s\<lparr>eg_queue := snd (enqueue a (eg_queue s))\<rparr>"
    show ?thesis
      by (rule enqueue_cases[of a "eg_queue s"]) (use assms(4) s' in \<open>auto simp: left_of_def calls_def\<close>)
  next
    assume sh: "shrinks (eg_queue s) (eg_queue s')"
      and le: "\<And>x. calls x s' + left_of x (eg_queue s') \<le> calls x s + left_of x (eg_queue s)"
    have "ids_of s' = ids_of s" using shrinks_ids[OF sh] by (metis set_map)
    then show ?thesis using assms(4) le by simp
  qed
qed

lemma run_keeps_row:
  assumes "(engine_step cal say (logged run))\<^sup>*\<^sup>* s s'" and "calendar_ok cal" and "accounted cal s"
    and "x \<in> ids_of s"
  shows "x \<in> ids_of s' \<and> calls x s' + left_of x (eg_queue s') \<le> calls x s + left_of x (eg_queue s)"
  using assms(1)
proof (induction rule: rtranclp_induct)
  case base
  then show ?case using assms(4) by simp
next
  case (step t u)
  have "accounted cal t" using step(1) assms(2,3) by (rule accounted_run)
  from step_keeps_row[OF this assms(2) step(2)] step.IH show ?case by fastforce
qed

definition fresh_engine :: "int \<Rightarrow> int \<Rightarrow> 's \<Rightarrow> ('s \<times> string list) engine" where
  "fresh_engine cap limit w = \<lparr>eg_queue = \<lparr>qu_rows = [], qu_max = cap\<rparr>, eg_world = (w, []),
     eg_thread = False, eg_stop = False, eg_limit = limit, eg_consecutive = 0, eg_processed = 0,
     eg_succeeded = 0, eg_failed = 0\<rparr>"

lemma fresh_accounted: "accounted cal (fresh_engine cap limit w)"
  by (simp add: accounted_def fresh_engine_def queue_rows_ok_def keyed_def calls_def)


section \<open>The queue is drained\<close>

text \<open>
  C27: the loop of the worker empties the queue: after as many wake-ups as there are attempts
  left, no action is pending, whatever the handlers do.
\<close>

theorem queue_drains:
  assumes "engine_ok cal s" and "calendar_ok cal" and "\<not> eg_stop s"
    and "pending_work (eg_queue s) \<le> length ts"
  shows "\<forall>r \<in> set (qu_rows (eg_queue (executor_loop cal say run ts s))). oa_status r \<noteq> ST_PENDING"
  using assms(1,3,4)
proof (induction ts arbitrary: s)
  case Nil
  then show ?case by (simp add: pending_work_zero)
next
  case (Cons now ts)
  let ?s1 = "snd (drain_once cal say run now s)"
  note ok = drain_ok[OF Cons.prems(1) assms(2), where say = say and run = run and now = now]
  have "pending_work (eg_queue ?s1) \<le> length ts"
    using drain_progress[OF Cons.prems(1) assms(2) Cons.prems(2), where say = say and run = run and now = now]
      shrinks_work[OF ok(2)] Cons.prems(3)
    by (cases "pending_work (eg_queue s) = 0") auto
  with Cons.IH[OF ok(1)] ok(3) Cons.prems(2) show ?case by simp
qed

section \<open>What they do not guarantee\<close>

lemma executed_queue_size:
  "length (qu_rows (eg_queue (snd (execute_action cal say run now a s)))) = length (qu_rows (eg_queue s))"
  by (auto simp: execute_action_def Let_def mark_succeeded_def mark_running_def update_status_def
      mark_failed_def split: prod.splits sum.splits option.splits if_splits)

lemma execute_all_size:
  "length (qu_rows (eg_queue (snd (execute_all cal say run now as s)))) = length (qu_rows (eg_queue s)) \<and>
   qu_max (eg_queue (snd (execute_all cal say run now as s))) = qu_max (eg_queue s)"
proof (induction as arbitrary: s)
  case Nil
  then show ?case by simp
next
  case (Cons a as)
  obtain r s1 r2 s2 where eq: "execute_action cal say run now a s = (r, s1)"
      "execute_all cal say run now as s1 = (r2, s2)" by fastforce
  then have "length (qu_rows (eg_queue s1)) = length (qu_rows (eg_queue s))" "qu_max (eg_queue s1) = qu_max (eg_queue s)"
    using executed_queue_size[of cal say run now a s] execute_limit(3)[of cal say run now a s] by simp_all
  with Cons.IH[of s1] show ?case by (cases r; cases r2) (auto simp: eq)
qed

lemma sweep_size:
  "length (qu_rows (snd (sweep_expired t q))) = length (qu_rows q) \<and> qu_max (snd (sweep_expired t q)) = qu_max q"
proof -
  have "length (qu_rows (foldl (\<lambda>q x. mark_expired t x q) q ids)) = length (qu_rows q) \<and>
      qu_max (foldl (\<lambda>q x. mark_expired t x q) q ids) = qu_max q" for ids
    by (induction ids arbitrary: q) (simp_all add: mark_expired_def update_status_def)
  then show ?thesis by (simp add: sweep_expired_def Let_def)
qed

lemma drain_size:
  "length (qu_rows (eg_queue (snd (drain_once cal say run now s)))) = length (qu_rows (eg_queue s)) \<and>
   qu_max (eg_queue (snd (drain_once cal say run now s))) = qu_max (eg_queue s)"
  by (auto simp: drain_once_def Let_def execute_all_size sweep_size split: sum.split)

lemma step_size:
  "engine_step cal say run s s' \<Longrightarrow>
   length (qu_rows (eg_queue s)) \<le> length (qu_rows (eg_queue s')) \<and> qu_max (eg_queue s') = qu_max (eg_queue s)"
proof (erule engine_step.cases)
  fix a x assume "s = x" "s' = x\<lparr>eg_queue := snd (enqueue a (eg_queue x))\<rparr>"
  then show ?thesis by (cases rule: enqueue_cases[of a "eg_queue x"]) simp_all
next
  fix x now drain assume "s = x" "s' = executor_stop cal say run now drain x"
  then show ?thesis using drain_size[of cal say run now "x\<lparr>eg_stop := True\<rparr>"]
    by (cases rule: stop_cases[of cal say run now drain x]) simp_all
qed (auto simp: mark_cancelled_def update_status_def executor_start_def drain_size)

text \<open>
  The capacity counts every action ever submitted, finished ones too, and nothing deletes
  a row: once it is reached, every later submission raises.
\<close>

theorem full_queue_rejects_forever:
  assumes "qu_max (eg_queue s) \<le> int (length (qu_rows (eg_queue s)))"
    and "(engine_step cal say run)\<^sup>*\<^sup>* s s'"
  shows "enqueue a (eg_queue s') = raises (Orion OrionQueueError) (eg_queue s')"
proof -
  have "length (qu_rows (eg_queue s)) \<le> length (qu_rows (eg_queue s')) \<and> qu_max (eg_queue s') = qu_max (eg_queue s)"
    using assms(2) by (induction rule: rtranclp_induct) (auto dest: step_size)
  then show ?thesis using assms(1) by (simp add: enqueue_def enforce_size_limit_def)
qed

text \<open>
  Stopping with \<^verbatim>\<open>drain=True\<close> runs no action: the flag that stops the loop is set
  before the last drain, which looks at it.
\<close>

theorem stop_drain_runs_nothing:
  "eg_world (executor_stop cal say run now drain s) = eg_world s \<and>
   eg_processed (executor_stop cal say run now drain s) = eg_processed s"
proof -
  have "execute_all cal say run now as x = returns 0 x" if "eg_stop x" for as x
    using that by (cases as) simp_all
  then show ?thesis by (auto simp: executor_stop_def drain_once_def Let_def split: sum.split)
qed

text \<open>A change of status reaches the row whatever status it had.\<close>

lemma status_reaches:
  assumes "x \<in> oa_id ` set (qu_rows q)"
  shows "\<exists>r \<in> set (qu_rows (update_status t x st err res q)). oa_id r = x \<and> oa_status r = st"
proof -
  let ?f = "\<lambda>r. r\<lparr>oa_status := st, oa_last_error := err, oa_updated := Some t,
      oa_result := (case res of None \<Rightarrow> oa_result r | Some y \<Rightarrow> y)\<rparr>"
  obtain r where r: "r \<in> set (qu_rows q)" "oa_id r = x" using assms by blast
  then have "?f r \<in> set (qu_rows (update_status t x st err res q))"
    unfolding update_status_def using update_where_hit[of r "qu_rows q" "\<lambda>r. oa_id r = x" ?f] by simp
  then show ?thesis by (rule bexI[rotated]) (simp add: r(2))
qed

lemma status_keeps_ids:
  "oa_id ` set (qu_rows (update_status t y st err res q)) = oa_id ` set (qu_rows q)"
proof -
  have "map oa_id (qu_rows (update_status t y st err res q)) = map oa_id (qu_rows q)"
    unfolding update_status_def by (simp add: map_key_update_where)
  then show ?thesis by (metis set_map)
qed

text \<open>
  An action that another thread cancels after the batch was listed still runs, and its row
  ends as succeeded.
\<close>

theorem cancelled_action_runs:
  assumes "engine_ok cal s" and "queued cal s a"
    and "s1 = s\<lparr>eg_queue := mark_cancelled t (oa_id a) (eg_queue s)\<rparr>"
    and "run now a (eg_world s) = (Inr res, w)"
  shows "(\<exists>r \<in> set (qu_rows (eg_queue s1)). oa_id r = oa_id a \<and> oa_status r = ST_CANCELLED) \<and>
    eg_world (snd (execute_action cal say run now a s1)) = w \<and>
    (\<exists>r \<in> set (qu_rows (eg_queue (snd (execute_action cal say run now a s1)))).
       oa_id r = oa_id a \<and> oa_status r = ST_SUCCEEDED)"
proof -
  have "oa_id a \<in> oa_id ` set (qu_rows (eg_queue s))" using assms(2) by (auto simp: queued_def)
  then show ?thesis
    using assms(3,4) status_reaches status_keeps_ids
    by (simp add: execute_action_def Let_def mark_cancelled_def mark_running_def mark_succeeded_def)
qed

text \<open>A queue of one pending action: the drain is its execution.\<close>

lemma single_drain:
  assumes "qu_rows (eg_queue s) = [a]" and "engine_ok cal s" and "oa_status a = ST_PENDING"
    and "\<not> oa_expires a < write_iso cal now" and "\<not> eg_stop s"
  shows "snd (drain_once cal say run now s) = snd (execute_action cal say run now a s)"
proof -
  have "swept cal now s = s"
    using assms(1,4) by (simp add: swept_def sweep_expired_def sweepable_def)
  then have "drain_once cal say run now s = execute_all cal say run now [a] s"
    using drain_is_batch[OF assms(2), of say run now] assms(1,3) by (simp add: batch_of_def)
  then show ?thesis using assms(5) by (auto split: prod.split sum.split)
qed

text \<open>
  A failed action is scheduled for later, but the next drain runs it again whatever the
  clock says: two drains at the same instant call the handler twice.
\<close>

theorem backoff_ignored:
  assumes "qu_rows (eg_queue s) = [a]" and "engine_ok cal s" and "calendar_ok cal"
    and "oa_status a = ST_PENDING" and "\<not> oa_expires a < write_iso cal now" and "\<not> eg_stop s"
    and "action_can_retry a" and "eg_consecutive s < eg_limit s"
    and "now + 2 ^ nat (oa_retries a) * second \<le> max_instant"
    and "\<forall>b w. fst (run now b w) = Inl e"
    and "s1 = snd (drain_once cal say (logged run) now s)"
  shows "(\<exists>b. qu_rows (eg_queue s1) = [b] \<and> oa_status b = ST_PENDING \<and>
      oa_next_attempt b = Some (write_iso cal (now + 2 ^ nat (oa_retries a) * second))) \<and>
    calls (oa_id a) (snd (drain_once cal say (logged run) now s1)) = calls (oa_id a) s + 2"
proof -
  let ?t = "write_iso cal now" and ?q = "eg_queue s"
  have mem: "a \<in> set (qu_rows ?q)" by (simp add: assms(1))
  have s1: "s1 = snd (execute_action cal say (logged run) now a s)"
    using single_drain[OF assms(1,2,4,5,6)] assms(11) by simp
  have ran: "fst (logged run now a (eg_world s)) = Inl e"
    using assms(10) by (simp add: logged_def split_beta)
  let ?q2 = "snd (mark_failed cal now (oa_id a) (say e) True (mark_running ?t (oa_id a) ?q))"
  let ?b = "(running ?t a)\<lparr>oa_status := ST_PENDING, oa_retries := oa_retries a + 1, oa_last_error := Some (say e),
      oa_next_attempt := Some (write_iso cal (now + 2 ^ nat (oa_retries a) * second)), oa_updated := Some ?t\<rparr>"
  have "qu_rows ?q2 = [?b]"
    using marked_running[OF assms(2) mem, where t = ?t] assms(1,7,9)
    by (simp add: mark_failed_def Let_def set_row_def update_where_def)
  moreover have "eg_queue s1 = ?q2"
    using ran assms(7,8) unfolding s1 by (cases "logged run now a (eg_world s)")
      (auto simp: execute_action_def Let_def split: prod.split sum.split)
  ultimately have rows: "qu_rows (eg_queue s1) = [?b]" by simp
  have "engine_ok cal s1" unfolding assms(11) by (rule drain_ok(1)[OF assms(2,3)])
  moreover have "\<not> eg_stop s1" using assms(6) s1 by simp
  moreover have "oa_status ?b = ST_PENDING" "\<not> oa_expires ?b < ?t"
    using assms(5) by (simp_all add: running_def)
  ultimately have "snd (drain_once cal say (logged run) now s1) =
      snd (execute_action cal say (logged run) now ?b s1)"
    by (intro single_drain[OF rows]) simp_all
  then have "calls (oa_id a) (snd (drain_once cal say (logged run) now s1)) = calls (oa_id a) s1 + 1"
    by (simp add: calls_execute)
  also have "calls (oa_id a) s1 = calls (oa_id a) s + 1" unfolding s1 by (simp add: calls_execute)
  finally show ?thesis using rows by simp
qed

section \<open>A concrete run\<close>

definition demo_calendar :: calendar where
  "demo_calendar = \<lparr>read_iso = (\<lambda>s. if s = [] then Blank else Aware 0), write_iso = (\<lambda>t. int_str t)\<rparr>"

definition demo_action :: orion_action where
  "demo_action = \<lparr>oa_id = ''OAC-1'', oa_type = ACT_REFRESH_HEALTH, oa_device = ''SYSTEM'',
     oa_created = ''1'', oa_expires = ''9'', oa_correlation = ''OCR-1'', oa_requested_by = ''SYSTEM'',
     oa_status = ST_PENDING, oa_version = ''1.0'', oa_params = [], oa_key = Some ''k'', oa_retries = 0,
     oa_max_retries = 1, oa_next_attempt = None, oa_last_error = None, oa_updated = None, oa_result = []\<rparr>"

definition failing :: "unit runner" where
  "failing now a w = raises (Orion OrionActionError) w"

definition demo_submitted :: "(unit \<times> string list) engine" where
  "demo_submitted = (fresh_engine 1 32 ())\<lparr>eg_queue := \<lparr>qu_rows = [demo_action], qu_max = 1\<rparr>\<rparr>"

lemma demo_calendar_ok: "calendar_ok demo_calendar"
proof -
  have "nat_digits n \<noteq> []" for n using nat_digits_head[of n] by auto
  then have "int_str t \<noteq> []" for t by (simp add: int_str_def)
  then show ?thesis by (simp add: calendar_ok_def demo_calendar_def readable_time_def)
qed

lemma demo_action_ok: "check_action (read_iso demo_calendar) demo_action = None"
  by (simp add: demo_calendar_def demo_action_def check_action_def Let_def orion_schema_def
      known_device_def assert_safe_action_params_def readable_time_def)

lemma demo_submission:
  "(engine_step demo_calendar (\<lambda>e. ''x'') (logged failing))\<^sup>*\<^sup>* (fresh_engine 1 32 ()) demo_submitted"
proof -
  have "demo_submitted = (fresh_engine 1 32 ())\<lparr>eg_queue := snd (enqueue demo_action (eg_queue (fresh_engine 1 32 ())))\<rparr>"
    by (simp add: demo_submitted_def fresh_engine_def enqueue_def enforce_size_limit_def demo_action_def
        has_idempotency_key_def insert_allowed_def has_key_def fits_64_def)
  then show ?thesis using submitted[OF demo_action_ok] by (metis r_into_rtranclp)
qed


lemma demo_submitted_ok: "engine_ok demo_calendar demo_submitted"
  using demo_action_ok by (simp add: demo_submitted_def queue_rows_ok_def keyed_def)

theorem queue_drains_witness:
  "filter (\<lambda>r. oa_status r = ST_PENDING)
     (qu_rows (eg_queue (executor_loop demo_calendar (\<lambda>e. ''x'') (logged failing) [2, 3] demo_submitted))) = []"
proof -
  have running: "\<not> eg_stop demo_submitted" by (simp add: demo_submitted_def fresh_engine_def)
  have rounds: "pending_work (eg_queue demo_submitted) \<le> length [2::int, 3]"
    by (simp add: demo_submitted_def pending_work_def attempts_left_def demo_action_def)
  show ?thesis
    using queue_drains[OF demo_submitted_ok demo_calendar_ok running rounds]
    by (simp only: filter_empty_conv) blast
qed

theorem full_queue_rejects_forever_witness:
  "fst (enqueue demo_action (eg_queue demo_submitted)) = Inl (Orion OrionQueueError)"
proof -
  have "qu_max (eg_queue demo_submitted) \<le> int (length (qu_rows (eg_queue demo_submitted)))"
    by (simp add: demo_submitted_def)
  from full_queue_rejects_forever[where cal = demo_calendar and say = "\<lambda>e. ''x''" and run = "logged failing",
      OF this rtranclp.rtrancl_refl]
  show ?thesis by simp
qed

theorem backoff_ignored_witness:
  "calls ''OAC-1'' (snd (drain_once demo_calendar (\<lambda>e. ''x'') (logged failing) 2
     (snd (drain_once demo_calendar (\<lambda>e. ''x'') (logged failing) 2 demo_submitted)))) = 2"
proof -
  have rows: "qu_rows (eg_queue demo_submitted) = [demo_action]" by (simp add: demo_submitted_def)
  have "oa_status demo_action = ST_PENDING" "\<not> oa_expires demo_action < write_iso demo_calendar 2"
    "\<not> eg_stop demo_submitted" "action_can_retry demo_action" "eg_consecutive demo_submitted < eg_limit demo_submitted"
    "2 + 2 ^ nat (oa_retries demo_action) * second \<le> max_instant"
    by (code_simp+)
  moreover have "\<forall>b w. fst (failing 2 b w) = Inl (Orion OrionActionError)" by (simp add: failing_def)
  ultimately have "calls (oa_id demo_action) (snd (drain_once demo_calendar (\<lambda>e. ''x'') (logged failing) 2
     (snd (drain_once demo_calendar (\<lambda>e. ''x'') (logged failing) 2 demo_submitted)))) =
     calls (oa_id demo_action) demo_submitted + 2"
    using backoff_ignored[OF rows demo_submitted_ok demo_calendar_ok _ _ _ _ _ _ _ refl,
      where now = 2 and run = failing and e = "Orion OrionActionError" and say = "\<lambda>e. ''x''"] by blast
  then show ?thesis by (simp add: demo_action_def demo_submitted_def fresh_engine_def calls_def)
qed

end
