(* ===== verification/OrionBus.thy ===== *)
theory OrionBus
  imports OrionModels "HOL-Library.Product_Lexorder"
begin

text \<open>
  \<^verbatim>\<open>guardianmesh/orion/bus.py\<close>: the bounded event bus with its back-pressure
  strategies, retries and per-device sequence numbers.

  A handler is a value \<open>'h\<close>, and \<open>call h e w\<close> what calling it with an event does to the
  state \<open>'s\<close> of the other components: the exception it raises, if any, and the state after.
  Handlers do not call the bus themselves.  The worker thread is a sequence of calls of
  \<^verbatim>\<open>deliver_pending\<close>.
\<close>

section \<open>The bus\<close>

datatype bus_pressure = BUS_DROP_OLDEST | BUS_DROP_NEWEST | BUS_REJECT

fun bus_pressure_value :: "bus_pressure \<Rightarrow> string" where
  "bus_pressure_value BUS_DROP_OLDEST = ''DROP_OLDEST''"
| "bus_pressure_value BUS_DROP_NEWEST = ''DROP_NEWEST''"
| "bus_pressure_value BUS_REJECT = ''REJECT''"

definition bus_pressure_from_str :: "string \<Rightarrow> gm_error + bus_pressure" where
  "bus_pressure_from_str s =
     (case enum_of bus_pressure_value [BUS_DROP_OLDEST, BUS_DROP_NEWEST, BUS_REJECT] s of
        Some x \<Rightarrow> Inr x | None \<Rightarrow> Inl (Orion OrionEventError))"

type_synonym ('h, 's) caller = "'h \<Rightarrow> orion_event \<Rightarrow> 's \<Rightarrow> gm_error option \<times> 's"

record ('h, 's) event_bus =
  eb_queue :: "orion_event list"
  eb_handlers :: "'h list"
  eb_seen :: "string list"
  eb_sequences :: "string \<Rightarrow> int option"
  eb_retries :: "string \<Rightarrow> int option"
  eb_dropped :: int
  eb_processed :: int
  eb_failed :: int
  eb_failures :: "(string \<times> 'h \<times> gm_error \<times> string) list"
  eb_alive :: bool
  eb_max_queue :: int
  eb_max_retries :: int
  eb_pressure :: bus_pressure
  eb_deterministic :: bool
  eb_world :: 's

definition new_bus :: "int \<Rightarrow> int \<Rightarrow> string \<Rightarrow> bool \<Rightarrow> 's \<Rightarrow> gm_error + ('h, 's) event_bus" where
  "new_bus max_queue max_retries pressure det w =
     (if max_queue \<le> 0 then Inl (Orion OrionEventError)
      else if max_retries < 0 then Inl (Orion OrionEventError)
      else and_then (bus_pressure_from_str pressure) (\<lambda>p.
        Inr \<lparr>eb_queue = [], eb_handlers = [], eb_seen = [], eb_sequences = Map.empty,
             eb_retries = Map.empty, eb_dropped = 0, eb_processed = 0, eb_failed = 0,
             eb_failures = [], eb_alive = False, eb_max_queue = max_queue,
             eb_max_retries = max_retries, eb_pressure = p, eb_deterministic = det, eb_world = w\<rparr>))"

section \<open>Handlers\<close>

definition register_handler :: "'h \<Rightarrow> ('h, 's) event_bus \<Rightarrow> ('h, 's) event_bus" where
  "register_handler h b = b\<lparr>eb_handlers := eb_handlers b @ [h]\<rparr>"

definition unregister_handler :: "'h \<Rightarrow> ('h, 's) event_bus \<Rightarrow> (('h, 's) event_bus, unit) outcome" where
  "unregister_handler h b =
     (if h \<in> set (eb_handlers b) then returns () (b\<lparr>eb_handlers := remove1 h (eb_handlers b)\<rparr>)
      else raises (Orion OrionEventError) b)"

definition clear_handlers :: "('h, 's) event_bus \<Rightarrow> ('h, 's) event_bus" where
  "clear_handlers b = b\<lparr>eb_handlers := []\<rparr>"

section \<open>Delivery\<close>

definition bus_full :: "('h, 's) event_bus \<Rightarrow> bool" where
  [model_defs]: "bus_full b \<longleftrightarrow> eb_max_queue b \<le> int (length (eb_queue b))"

definition enqueue_for_retry :: "orion_event \<Rightarrow> ('h, 's) event_bus \<Rightarrow> ('h, 's) event_bus" where
  "enqueue_for_retry e b =
     (if bus_full b then
        (if eb_pressure b = BUS_DROP_OLDEST
         then b\<lparr>eb_queue := tl (eb_queue b) @ [e], eb_dropped := eb_dropped b + 1\<rparr>
         else b\<lparr>eb_dropped := eb_dropped b + 1\<rparr>)
      else b\<lparr>eb_queue := eb_queue b @ [e]\<rparr>)"

text \<open>\<^verbatim>\<open>deque(maxlen=256)\<close>.\<close>

definition record_failure :: "orion_event \<Rightarrow> 'h \<Rightarrow> gm_error \<Rightarrow> ('h, 's) event_bus \<Rightarrow> ('h, 's) event_bus" where
  "record_failure e h x b =
     (let fs = eb_failures b @ [(oe_id e, h, x, oe_created e)]
      in b\<lparr>eb_failures := drop (length fs - 256) fs\<rparr>)"

definition attempts_of :: "string \<Rightarrow> ('h, 's) event_bus \<Rightarrow> int" where
  [model_defs]: "attempts_of x b = (case eb_retries b x of None \<Rightarrow> 0 | Some n \<Rightarrow> n)"

text \<open>Both \<^verbatim>\<open>except\<close> clauses do the same.\<close>

definition handler_failed :: "orion_event \<Rightarrow> 'h \<Rightarrow> gm_error \<Rightarrow> ('h, 's) event_bus \<Rightarrow> ('h, 's) event_bus" where
  "handler_failed e h x b =
     (let b1 = record_failure e h x b;
          b2 = b1\<lparr>eb_failed := eb_failed b1 + 1\<rparr>;
          n = attempts_of (oe_id e) b2
      in if n < eb_max_retries b2
         then enqueue_for_retry e (b2\<lparr>eb_retries := (eb_retries b2)(oe_id e \<mapsto> n + 1)\<rparr>)
         else b2\<lparr>eb_dropped := eb_dropped b2 + 1\<rparr>)"

fun deliver_to :: "('h, 's) caller \<Rightarrow> orion_event \<Rightarrow> 'h list \<Rightarrow> ('h, 's) event_bus \<Rightarrow> ('h, 's) event_bus" where
  "deliver_to call e [] b = b"
| "deliver_to call e (h # hs) b =
     (case call h e (eb_world b) of
        (None, w) \<Rightarrow> deliver_to call e hs (b\<lparr>eb_world := w\<rparr>)
      | (Some x, w) \<Rightarrow> deliver_to call e hs (handler_failed e h x (b\<lparr>eb_world := w\<rparr>)))"

definition deliver_event :: "('h, 's) caller \<Rightarrow> orion_event \<Rightarrow> ('h, 's) event_bus \<Rightarrow> ('h, 's) event_bus" where
  "deliver_event call e b =
     (if eb_handlers b = [] then b
      else let b1 = deliver_to call e (eb_handlers b) b in b1\<lparr>eb_processed := eb_processed b1 + 1\<rparr>)"

fun deliver_all :: "('h, 's) caller \<Rightarrow> orion_event list \<Rightarrow> ('h, 's) event_bus \<Rightarrow> ('h, 's) event_bus" where
  "deliver_all call [] b = b"
| "deliver_all call (e # es) b = deliver_all call es (deliver_event call e b)"

definition delivery_order :: "orion_event list \<Rightarrow> orion_event list" where
  "delivery_order es = sort_key (\<lambda>e. (oe_device e, oe_sequence e)) es"

definition deliver_pending :: "('h, 's) caller \<Rightarrow> ('h, 's) event_bus \<Rightarrow> nat \<times> ('h, 's) event_bus" where
  "deliver_pending call b =
     (let es = delivery_order (eb_queue b)
      in (length es, deliver_all call es (b\<lparr>eb_queue := []\<rparr>)))"

section \<open>Publishing\<close>

fun make_room :: "int \<Rightarrow> orion_event list \<Rightarrow> int \<Rightarrow> orion_event list \<times> int" where
  "make_room m [] d = ([], d)"
| "make_room m (e # q) d = (if m \<le> int (length (e # q)) then make_room m q (d + 1) else (e # q, d))"

definition next_sequence_of :: "string \<Rightarrow> ('h, 's) event_bus \<Rightarrow> int" where
  [model_defs]: "next_sequence_of dev b = (case eb_sequences b dev of None \<Rightarrow> 0 | Some n \<Rightarrow> n) + 1"

text \<open>A dropped or rejected event has used its sequence number and counts as seen.\<close>

definition accept_event :: "orion_event \<Rightarrow> ('h, 's) event_bus \<Rightarrow> bool \<times> ('h, 's) event_bus" where
  "accept_event e b =
     (let b1 = b\<lparr>eb_sequences := (eb_sequences b)(oe_device e \<mapsto> oe_sequence e)\<rparr>;
          b2 = b1\<lparr>eb_seen := eb_seen b1 @ [oe_id e]\<rparr>
      in if bus_full b1 \<and> eb_pressure b1 = BUS_DROP_NEWEST
         then (False, b2\<lparr>eb_dropped := eb_dropped b2 + 1\<rparr>)
         else if bus_full b1 \<and> eb_pressure b1 = BUS_REJECT then (False, b2)
         else let (q, d) = make_room (eb_max_queue b1) (eb_queue b1) (eb_dropped b1)
              in (True, b2\<lparr>eb_queue := q @ [e], eb_dropped := d,
                           eb_retries := (case eb_retries b2 (oe_id e) of
                              None \<Rightarrow> (eb_retries b2)(oe_id e \<mapsto> 0) | Some n \<Rightarrow> eb_retries b2)\<rparr>))"

definition publish_event :: "('h, 's) caller \<Rightarrow> orion_event \<Rightarrow> ('h, 's) event_bus \<Rightarrow> bool \<times> ('h, 's) event_bus" where
  "publish_event call e b =
     (if oe_id e \<in> set (eb_seen b) then (False, b)
      else let e1 = e\<lparr>oe_sequence := next_sequence_of (oe_device e) b\<rparr>
           in case accept_event e1 b of
                (False, b1) \<Rightarrow> (False, b1)
              | (True, b1) \<Rightarrow> (True, if eb_deterministic b1 then deliver_event call e1 b1 else b1))"

section \<open>The worker\<close>

definition bus_start :: "('h, 's) event_bus \<Rightarrow> ('h, 's) event_bus" where
  "bus_start b = b\<lparr>eb_alive := True\<rparr>"

definition bus_stop :: "('h, 's) caller \<Rightarrow> bool \<Rightarrow> ('h, 's) event_bus \<Rightarrow> ('h, 's) event_bus" where
  "bus_stop call drain b =
     (if \<not> eb_alive b then b
      else (if drain then snd (deliver_pending call b) else b)\<lparr>eb_alive := False\<rparr>)"

text \<open>\<open>n\<close> wake-ups of the thread.\<close>

fun bus_rounds :: "('h, 's) caller \<Rightarrow> nat \<Rightarrow> ('h, 's) event_bus \<Rightarrow> ('h, 's) event_bus" where
  "bus_rounds call 0 b = b"
| "bus_rounds call (Suc n) b = bus_rounds call n (snd (deliver_pending call b))"

section \<open>The queue stays within its bounds\<close>

lemma make_room_bound:
  "0 < m \<Longrightarrow> int (length (fst (make_room m q d))) < m"
  by (induction m q d rule: make_room.induct) auto

lemma make_room_suffix: "\<exists>xs. q = xs @ fst (make_room m q d)"
proof (induction m q d rule: make_room.induct)
  case (1 m d)
  then show ?case by simp
next
  case (2 m e q d)
  then show ?case
    by (cases "m \<le> int (length (e # q))") (auto intro: exI[of _ "[]"] exI[of _ "e # xs" for xs])
qed

lemma make_room_kept: "int (length q) < m \<Longrightarrow> make_room m q d = (q, d)"
  by (cases q) auto

interpretation retry_queue: bounded_fifo "\<lambda>b e. enqueue_for_retry e b" eb_queue
  "\<lambda>b. nat (eb_max_queue b)" "\<lambda>b. nat (eb_dropped b)"
  "\<lambda>b. 0 < eb_max_queue b \<and> 0 \<le> eb_dropped b"
proof (unfold_locales, goal_cases)
  case (4 b e)
  have "subseq (tl q) q" for q :: "orion_event list" by (cases q) auto
  then show ?case by (auto simp: enqueue_for_retry_def intro: list_emb_append_mono)
next
  case (5 b e)
  then show ?case
    by (cases "eb_queue b") (auto simp: enqueue_for_retry_def bus_full_def nat_add_distrib)
qed (auto simp: enqueue_for_retry_def bus_full_def)

interpretation event_guard: replay_guard "\<lambda>b e. publish_event call e b" oe_id
  "\<lambda>b k. k \<in> set (eb_seen b)" "\<lambda>b. True"
  for call :: "('h, 's) caller"
proof -
  have failed: "eb_seen (handler_failed e h x b) = eb_seen b" for e x and h :: 'h and b :: "('h, 's) event_bus"
    by (simp add: handler_failed_def record_failure_def enqueue_for_retry_def Let_def)
  have "eb_seen (deliver_to call e hs b) = eb_seen b" for e hs b
    by (induction call e hs b rule: deliver_to.induct) (auto simp: failed split: prod.split option.split)
  then have one: "eb_seen (deliver_event call e b) = eb_seen b" for e b
    by (simp add: deliver_event_def Let_def)
  have acc: "eb_seen (snd (accept_event e b)) = eb_seen b @ [oe_id e]" for e and b :: "('h, 's) event_bus"
    by (auto simp: accept_event_def Let_def split: prod.split)
  have pub: "set (eb_seen (snd (publish_event call e b))) = insert (oe_id e) (set (eb_seen b))" for e b
    using acc[of "e\<lparr>oe_sequence := next_sequence_of (oe_device e) b\<rparr>" b] one
    by (auto simp: publish_event_def Let_def split: prod.splits bool.splits)
  show "replay_guard (\<lambda>b e. publish_event call e b) oe_id (\<lambda>b k. k \<in> set (eb_seen b)) (\<lambda>b. True)"
  proof (unfold_locales, goal_cases)
    case (2 b e)
    then show ?case by (auto simp: publish_event_def)
  qed (simp_all add: pub)
qed

end
