(* ===== verification/OrionBusProps.thy ===== *)
theory OrionBusProps
  imports OrionBus
begin

text \<open>
  What the bus guarantees for any handlers: an event is delivered a bounded number of times
  and the bus comes to rest after boundedly many rounds; without failures each device's
  events arrive in the order of their numbers.  And what it does not: a deterministic bus
  delivers an event twice, and the priority of an event plays no part.
\<close>

section \<open>Reachable buses\<close>

text \<open>What callers and the worker can do: publish, deliver, change the handlers, start and stop.\<close>

inductive bus_step :: "('h, 's) caller \<Rightarrow> ('h, 's) event_bus \<Rightarrow> ('h, 's) event_bus \<Rightarrow> bool"
  for call where
  published: "bus_step call b (snd (publish_event call e b))"
| delivered: "bus_step call b (snd (deliver_pending call b))"
| bus_started: "bus_step call b (bus_start b)"
| bus_stopped: "bus_step call b (bus_stop call drain b)"

text \<open>The calls of the handlers, recorded.\<close>

definition noted :: "('h, 's) caller \<Rightarrow> ('h, 's \<times> orion_event list) caller" where
  "noted call h e w = (let (x, w1) = call h e (fst w) in (x, (w1, snd w @ [e])))"

definition heard :: "('h, 's \<times> orion_event list) event_bus \<Rightarrow> orion_event list" where
  "heard b = snd (eb_world b)"

definition heard_of :: "string \<Rightarrow> ('h, 's \<times> orion_event list) event_bus \<Rightarrow> nat" where
  "heard_of x b = length (filter (\<lambda>e. oe_id e = x) (heard b))"

lemma noted_world [simp]: "snd (snd (noted call h e w)) = snd w @ [e]"
  by (simp add: noted_def split_beta)

section \<open>Bounded delivery\<close>

definition copies :: "string \<Rightarrow> ('h, 's) event_bus \<Rightarrow> nat" where
  "copies x b = length (filter (\<lambda>e. oe_id e = x) (eb_queue b))"

definition retries_left :: "string \<Rightarrow> ('h, 's) event_bus \<Rightarrow> nat" where
  "retries_left x b = nat (eb_max_retries b - attempts_of x b)"

text \<open>How many deliveries of an event the queue and its retries can still cause.\<close>

abbreviation outstanding :: "string \<Rightarrow> ('h, 's) event_bus \<Rightarrow> nat" where
  "outstanding x b \<equiv> copies x b + retries_left x b"

definition same_bus :: "('h, 's) event_bus \<Rightarrow> ('h, 's) event_bus \<Rightarrow> bool" where
  "same_bus b b' \<longleftrightarrow> eb_handlers b' = eb_handlers b \<and> eb_max_queue b' = eb_max_queue b \<and>
     eb_max_retries b' = eb_max_retries b \<and> eb_pressure b' = eb_pressure b \<and>
     eb_deterministic b' = eb_deterministic b \<and> eb_seen b' = eb_seen b \<and>
     eb_sequences b' = eb_sequences b"

lemma same_bus_refl [simp]: "same_bus b b"
  by (simp add: same_bus_def)

lemma same_bus_trans: "same_bus a b \<Longrightarrow> same_bus b c \<Longrightarrow> same_bus a c"
  by (simp add: same_bus_def)

lemma retry_copies:
  "copies x (enqueue_for_retry e b) \<le> copies x b + (if oe_id e = x then 1 else 0)"
  by (cases "eb_queue b") (auto simp: enqueue_for_retry_def copies_def)

lemma retry_simps [simp]:
  "eb_retries (enqueue_for_retry e b) = eb_retries b" "eb_world (enqueue_for_retry e b) = eb_world b"
  "eb_max_retries (enqueue_for_retry e b) = eb_max_retries b"
  by (simp_all add: enqueue_for_retry_def)

lemma failure_simps [simp]:
  "eb_queue (record_failure e h x b) = eb_queue b" "eb_retries (record_failure e h x b) = eb_retries b"
  "eb_world (record_failure e h x b) = eb_world b" "eb_max_retries (record_failure e h x b) = eb_max_retries b"
  by (simp_all add: record_failure_def Let_def)

lemma failed_same: "same_bus b (handler_failed e h x b)"
  by (simp add: same_bus_def handler_failed_def record_failure_def enqueue_for_retry_def Let_def)

lemma failed_world [simp]: "eb_world (handler_failed e h x b) = eb_world b"
  by (simp add: handler_failed_def Let_def)

text \<open>A failure turns a retry into a copy at most.\<close>

lemma failed_outstanding: "outstanding x (handler_failed e h y b) \<le> outstanding x b"
proof -
  let ?b = "(record_failure e h y b)\<lparr>eb_failed := eb_failed (record_failure e h y b) + 1\<rparr>"
  have same: "copies x ?b = copies x b" "retries_left x ?b = retries_left x b"
    by (simp_all add: copies_def retries_left_def attempts_of_def)
  show ?thesis
  proof (cases "attempts_of (oe_id e) ?b < eb_max_retries ?b")
    case True
    let ?c = "?b\<lparr>eb_retries := (eb_retries ?b)(oe_id e \<mapsto> attempts_of (oe_id e) ?b + 1)\<rparr>"
    have "copies x ?c = copies x ?b" by (simp add: copies_def)
    moreover have "retries_left x (enqueue_for_retry e ?c) = retries_left x ?c"
      by (simp add: retries_left_def attempts_of_def)
    moreover have "retries_left x ?c + (if oe_id e = x then 1 else 0) = retries_left x ?b"
      using True by (auto simp: retries_left_def attempts_of_def)
    moreover have "copies x (enqueue_for_retry e ?c) \<le> copies x ?c + (if oe_id e = x then 1 else 0)"
      by (rule retry_copies)
    ultimately show ?thesis using True same by (simp add: handler_failed_def Let_def)
  next
    case False
    then have "handler_failed e h y b = ?b\<lparr>eb_dropped := eb_dropped ?b + 1\<rparr>"
      by (simp add: handler_failed_def Let_def)
    then show ?thesis by (simp add: copies_def retries_left_def attempts_of_def)
  qed
qed

lemma deliver_to_bounded:
  "outstanding x (deliver_to (noted call) e hs b) \<le> outstanding x b \<and>
   heard_of x (deliver_to (noted call) e hs b) = heard_of x b + (if oe_id e = x then length hs else 0) \<and>
   same_bus b (deliver_to (noted call) e hs b)"
proof (induction hs arbitrary: b)
  case Nil
  then show ?case by simp
next
  case (Cons h hs)
  obtain r w where r: "noted call h e (eb_world b) = (r, w)"
    by (cases "noted call h e (eb_world b)") simp
  then have w: "snd w = snd (eb_world b) @ [e]" using noted_world[of call h e "eb_world b"] by simp
  let ?b = "b\<lparr>eb_world := w\<rparr>"
  have b: "outstanding x ?b = outstanding x b" "same_bus b ?b"
      "heard_of x ?b = heard_of x b + (if oe_id e = x then 1 else 0)"
    using w by (simp_all add: copies_def retries_left_def attempts_of_def same_bus_def heard_of_def heard_def)
  show ?case
  proof (cases r)
    case None
    with Cons.IH[of ?b] b r same_bus_trans[OF b(2)] show ?thesis by auto
  next
    case (Some y)
    let ?c = "handler_failed e h y ?b"
    have "heard_of x ?c = heard_of x ?b" by (simp add: heard_of_def heard_def)
    moreover have "same_bus b ?c" using same_bus_trans[OF b(2) failed_same] .
    ultimately show ?thesis
      using Cons.IH[of ?c] b r Some failed_outstanding[of x e h y ?b] same_bus_trans[of b ?c] by auto
  qed
qed

lemma deliver_one_bounded:
  "outstanding x (deliver_event (noted call) e b) \<le> outstanding x b \<and>
   heard_of x (deliver_event (noted call) e b) \<le>
     heard_of x b + (if oe_id e = x then length (eb_handlers b) else 0) \<and>
   same_bus b (deliver_event (noted call) e b)"
proof -
  let ?d = "deliver_to (noted call) e (eb_handlers b) b"
  have "outstanding x (?d\<lparr>eb_processed := n\<rparr>) = outstanding x ?d" "heard_of x (?d\<lparr>eb_processed := n\<rparr>) = heard_of x ?d"
    "same_bus b (?d\<lparr>eb_processed := n\<rparr>) = same_bus b ?d" for n
    by (simp_all add: copies_def retries_left_def attempts_of_def heard_of_def heard_def same_bus_def)
  then show ?thesis using deliver_to_bounded[of x call e "eb_handlers b" b] by (simp add: deliver_event_def Let_def)
qed

lemma deliver_all_bounded:
  "outstanding x (deliver_all (noted call) es b) \<le> outstanding x b \<and>
   heard_of x (deliver_all (noted call) es b) \<le>
     heard_of x b + length (eb_handlers b) * length (filter (\<lambda>e. oe_id e = x) es) \<and>
   same_bus b (deliver_all (noted call) es b)"
proof (induction es arbitrary: b)
  case Nil
  then show ?case by simp
next
  case (Cons e es)
  let ?b = "deliver_event (noted call) e b"
  note one = deliver_one_bounded[of x call e b]
  from one have "eb_handlers ?b = eb_handlers b" by (simp add: same_bus_def)
  with Cons.IH[of ?b] one same_bus_trans[of b ?b] show ?case by auto
qed

lemma delivery_order_filter:
  "length (filter P (delivery_order es)) = length (filter P es)"
  by (metis delivery_order_def mset_filter mset_sort size_mset)

text \<open>A round delivers every copy once, each to all handlers, and leaves only retries.\<close>

lemma pending_bounded:
  fixes b :: "('h, 's \<times> orion_event list) event_bus"
  shows "heard_of x (snd (deliver_pending (noted call) b)) +
      length (eb_handlers b) * outstanding x (snd (deliver_pending (noted call) b)) \<le>
    heard_of x b + length (eb_handlers b) * outstanding x b"
    and "same_bus b (snd (deliver_pending (noted call) b))"
proof -
  let ?c = "b\<lparr>eb_queue := []\<rparr>" and ?es = "delivery_order (eb_queue b)"
  have c: "outstanding x ?c = retries_left x b" "heard_of x ?c = heard_of x b"
    "eb_handlers ?c = eb_handlers b" "same_bus b ?c"
    by (simp_all add: copies_def retries_left_def attempts_of_def heard_of_def heard_def same_bus_def)
  have es: "length (filter (\<lambda>e. oe_id e = x) ?es) = copies x b"
    by (simp add: delivery_order_filter copies_def)
  note all = deliver_all_bounded[of x call ?es ?c, unfolded c es]
  show "same_bus b (snd (deliver_pending (noted call) b))"
    using all c(4) same_bus_trans[of b ?c] by (simp add: deliver_pending_def Let_def)
  have "length (eb_handlers b) * outstanding x (deliver_all (noted call) ?es ?c) \<le>
      length (eb_handlers b) * retries_left x b" using all by simp
  then show "heard_of x (snd (deliver_pending (noted call) b)) +
      length (eb_handlers b) * outstanding x (snd (deliver_pending (noted call) b)) \<le>
    heard_of x b + length (eb_handlers b) * outstanding x b"
    using all by (simp add: deliver_pending_def Let_def distrib_left)
qed

text \<open>What publishing a new event does to the queue and the retries.\<close>

lemma make_room_copies: "length (filter P (fst (make_room m q d))) \<le> length (filter P q)"
proof -
  obtain xs where "q = xs @ fst (make_room m q d)" using make_room_suffix by blast
  then have "filter P q = filter P xs @ filter P (fst (make_room m q d))" by (metis filter_append)
  then show ?thesis by simp
qed

lemma accepted_effect:
  assumes "oe_id e = y" and "eb_retries b y = None" and "copies y b = 0"
  shows "copies y (snd (accept_event e b)) \<le> 1" and "attempts_of y (snd (accept_event e b)) = 0"
    and "x \<noteq> y \<Longrightarrow> copies x (snd (accept_event e b)) \<le> copies x b \<and>
           retries_left x (snd (accept_event e b)) = retries_left x b"
    and "eb_retries (snd (accept_event e b)) y \<in> {None, Some 0}"
    and "x \<noteq> y \<Longrightarrow> eb_retries (snd (accept_event e b)) x = eb_retries b x"
proof -
  let ?q = "fst (make_room (eb_max_queue b) (eb_queue b) (eb_dropped b))"
  have q: "length (filter (\<lambda>e. oe_id e = z) ?q) \<le> copies z b" for z
    unfolding copies_def by (rule make_room_copies)
  show "copies y (snd (accept_event e b)) \<le> 1" "attempts_of y (snd (accept_event e b)) = 0"
    "x \<noteq> y \<Longrightarrow> copies x (snd (accept_event e b)) \<le> copies x b \<and>
           retries_left x (snd (accept_event e b)) = retries_left x b"
    "eb_retries (snd (accept_event e b)) y \<in> {None, Some 0}"
    "x \<noteq> y \<Longrightarrow> eb_retries (snd (accept_event e b)) x = eb_retries b x"
    using q[of y] q[of x] assms
    by (auto simp: accept_event_def Let_def copies_def retries_left_def attempts_of_def bus_full_def
        split: prod.split)
qed

lemma accepted_frame:
  "eb_world (snd (accept_event e b)) = eb_world b" "eb_handlers (snd (accept_event e b)) = eb_handlers b"
  "eb_max_retries (snd (accept_event e b)) = eb_max_retries b"
  "eb_max_queue (snd (accept_event e b)) = eb_max_queue b"
  "eb_pressure (snd (accept_event e b)) = eb_pressure b"
  "eb_deterministic (snd (accept_event e b)) = eb_deterministic b"
  "eb_seen (snd (accept_event e b)) = eb_seen b @ [oe_id e]"
  by (auto simp: accept_event_def Let_def split: prod.split)

definition event_bounded :: "'h list \<Rightarrow> int \<Rightarrow> ('h, 's \<times> orion_event list) event_bus \<Rightarrow> string \<Rightarrow> bool" where
  "event_bounded hs m b x \<longleftrightarrow>
     (if x \<in> set (eb_seen b) then heard_of x b + length hs * outstanding x b \<le> length hs * (nat m + 2)
      else copies x b = 0 \<and> heard_of x b = 0 \<and> eb_retries b x = None)"

definition bus_bounded :: "'h list \<Rightarrow> int \<Rightarrow> ('h, 's \<times> orion_event list) event_bus \<Rightarrow> bool" where
  "bus_bounded hs m b \<longleftrightarrow> eb_handlers b = hs \<and> eb_max_retries b = m \<and> (\<forall>x. event_bounded hs m b x)"

lemma deliver_retries:
  "oe_id e \<noteq> x \<Longrightarrow> eb_retries (deliver_event call e b) x = eb_retries b x"
proof -
  assume ne: "oe_id e \<noteq> x"
  have "eb_retries (deliver_to call e hs b) x = eb_retries b x" for hs
    using ne by (induction call e hs b rule: deliver_to.induct)
      (auto simp: handler_failed_def Let_def split: prod.split option.split)
  then show ?thesis by (simp add: deliver_event_def Let_def)
qed

lemma deliver_all_retries:
  "x \<notin> oe_id ` set es \<Longrightarrow> eb_retries (deliver_all call es b) x = eb_retries b x"
  by (induction es arbitrary: b) (auto simp: deliver_retries)

lemma failed_copies: "oe_id e \<noteq> x \<Longrightarrow> copies x (handler_failed e h y b) \<le> copies x b"
proof -
  assume ne: "oe_id e \<noteq> x"
  let ?b = "(record_failure e h y b)\<lparr>eb_failed := eb_failed (record_failure e h y b) + 1\<rparr>"
  have "copies x (enqueue_for_retry e (?b\<lparr>eb_retries := f\<rparr>)) \<le> copies x b" for f
    using retry_copies[of x e "?b\<lparr>eb_retries := f\<rparr>"] ne by (simp add: copies_def)
  then show ?thesis by (simp add: handler_failed_def Let_def) (simp add: copies_def)
qed

lemma deliver_copies: "oe_id e \<noteq> x \<Longrightarrow> copies x (deliver_event call e b) \<le> copies x b"
proof -
  assume ne: "oe_id e \<noteq> x"
  have world: "copies x (c\<lparr>eb_world := w\<rparr>) = copies x c" for c :: "('h, 's) event_bus" and w
    by (simp add: copies_def)
  have "copies x (deliver_to call e hs b) \<le> copies x b" for hs
  proof (induction hs arbitrary: b)
    case (Cons h hs)
    obtain r w where r: "call h e (eb_world b) = (r, w)" by (cases "call h e (eb_world b)")
    show ?case
    proof (cases r)
      case None
      with Cons.IH[of "b\<lparr>eb_world := w\<rparr>"] r show ?thesis by (simp add: world)
    next
      case (Some y)
      have "copies x (handler_failed e h y (b\<lparr>eb_world := w\<rparr>)) \<le> copies x b"
        using failed_copies[OF ne, of h y "b\<lparr>eb_world := w\<rparr>"] by (simp add: world)
      with Cons.IH[of "handler_failed e h y (b\<lparr>eb_world := w\<rparr>)"] r Some show ?thesis by simp
    qed
  qed simp
  then show ?thesis by (simp add: deliver_event_def Let_def) (simp add: copies_def)
qed

lemma deliver_all_copies:
  "x \<notin> oe_id ` set es \<Longrightarrow> copies x (deliver_all call es b) \<le> copies x b"
proof (induction es arbitrary: b)
  case (Cons e es)
  then have "copies x (deliver_all call es (deliver_event call e b)) \<le> copies x (deliver_event call e b)" by simp
  also have "\<dots> \<le> copies x b" using Cons.prems by (intro deliver_copies) auto
  finally show ?case by simp
qed simp

lemma bounded_pending:
  assumes "bus_bounded hs m b"
  shows "bus_bounded hs m (snd (deliver_pending (noted call) b))"
proof -
  let ?b = "snd (deliver_pending (noted call) b)"
  have same: "same_bus b ?b" by (rule pending_bounded(2))
  have hs: "eb_handlers b = hs" and event: "event_bounded hs m b x" for x
    using assms by (simp_all add: bus_bounded_def)
  have "event_bounded hs m ?b x" for x
  proof (cases "x \<in> set (eb_seen b)")
    case True
    then have "heard_of x b + length hs * outstanding x b \<le> length hs * (nat m + 2)"
      using event[of x] unfolding event_bounded_def by presburger
    then have "heard_of x ?b + length hs * outstanding x ?b \<le> length hs * (nat m + 2)"
      using pending_bounded(1)[of x call b] hs le_trans by blast
    moreover have "x \<in> set (eb_seen ?b)" using True same by (simp add: same_bus_def)
    ultimately show ?thesis unfolding event_bounded_def by presburger
  next
    case False
    then have zero: "copies x b = 0" "heard_of x b = 0" "eb_retries b x = None"
      using event[of x] by (simp_all add: event_bounded_def)
    let ?es = "delivery_order (eb_queue b)" and ?c = "b\<lparr>eb_queue := []\<rparr>"
    have none: "length (filter (\<lambda>e. oe_id e = x) ?es) = 0"
      using zero(1) by (simp add: delivery_order_filter copies_def)
    then have notin: "x \<notin> oe_id ` set ?es" by (auto simp: filter_empty_conv)
    have "heard_of x ?b = 0"
      using deliver_all_bounded[of x call ?es ?c] none zero(2)
      by (simp add: deliver_pending_def Let_def heard_of_def heard_def)
    moreover have "eb_retries ?b x = None"
      using deliver_all_retries[OF notin, of "noted call" ?c] zero(3) by (simp add: deliver_pending_def Let_def)
    moreover have "copies x ?b = 0"
      using deliver_all_copies[OF notin, of "noted call" ?c] by (simp add: deliver_pending_def Let_def copies_def)
    ultimately show ?thesis using False same by (simp add: same_bus_def event_bounded_def)
  qed
  then show ?thesis using assms same by (simp add: bus_bounded_def same_bus_def)
qed

text \<open>Budgets: what is heard in addition is paid by \<open>d\<close>, and less is outstanding.\<close>

lemma budget:
  fixes h h' d n o1 o2 L :: nat
  assumes "h' \<le> h + d" and "o2 \<le> o1" and "h + n * o1 + d \<le> L"
  shows "h' + n * o2 \<le> L"
  using mult_le_mono2[OF assms(2), of n] assms(1,3) by linarith

lemma bounded_accept:
  assumes "bus_bounded hs m b" and "0 \<le> m" and "oe_id e \<notin> set (eb_seen b)"
  shows "bus_bounded hs m (snd (accept_event e b)) \<and>
    heard_of (oe_id e) (snd (accept_event e b)) + length hs * outstanding (oe_id e) (snd (accept_event e b)) \<le>
      length hs * (nat m + 1)"
proof -
  let ?y = "oe_id e" and ?b1 = "snd (accept_event e b)"
  have event: "event_bounded hs m b x" for x using assms(1) by (simp add: bus_bounded_def)
  have new: "copies ?y b = 0" "heard_of ?y b = 0" "eb_retries b ?y = None"
    using event[of ?y] assms(3) by (simp_all add: event_bounded_def)
  note acc = accepted_effect[OF refl new(3,1)] and frame = accepted_frame[of e b]
  have heard: "heard_of x ?b1 = heard_of x b" for x by (simp add: heard_of_def heard_def frame)
  have "outstanding ?y ?b1 \<le> nat m + 1"
    using acc(1,2) assms(1,2) by (simp add: retries_left_def frame bus_bounded_def)
  then have "length hs * outstanding ?y ?b1 \<le> length hs * (nat m + 1)" by (rule mult_le_mono2)
  then have y_le: "heard_of ?y ?b1 + length hs * outstanding ?y ?b1 \<le> length hs * (nat m + 1)"
    using new(2) heard[of ?y] by linarith
  have "event_bounded hs m ?b1 x" for x
  proof (cases "x = ?y")
    case True
    have "length hs * (nat m + 1) \<le> length hs * (nat m + 2)" by simp
    then have "heard_of x ?b1 + length hs * outstanding x ?b1 \<le> length hs * (nat m + 2)"
      using y_le True le_trans by blast
    then show ?thesis unfolding event_bounded_def frame using True by simp
  next
    case False
    note same = acc(3,5)[OF False] heard[of x]
    have "heard_of x ?b1 + length hs * outstanding x ?b1 \<le> length hs * (nat m + 2)"
      if "heard_of x b + length hs * outstanding x b \<le> length hs * (nat m + 2)"
      using same that by (intro budget[where d = 0 and h = "heard_of x b" and ?o1.0 = "outstanding x b"]) simp_all
    then show ?thesis
      using event[of x] same False unfolding event_bounded_def frame
      by (cases "x \<in> set (eb_seen b)") (simp_all only: if_True if_False set_append, simp_all)
  qed
  then show ?thesis using y_le assms(1) frame by (simp add: bus_bounded_def)
qed

lemma bounded_deliver:
  assumes "bus_bounded hs m b" and "oe_id e \<in> set (eb_seen b)"
    and "heard_of (oe_id e) b + length hs * outstanding (oe_id e) b \<le> length hs * (nat m + 1)"
  shows "bus_bounded hs m (deliver_event (noted call) e b)"
proof -
  let ?d = "deliver_event (noted call) e b"
  have hs: "eb_handlers b = hs" and ev: "event_bounded hs m b x" for x
    using assms(1) by (simp_all add: bus_bounded_def)
  have one: "outstanding x ?d \<le> outstanding x b"
    "heard_of x ?d \<le> heard_of x b + (if oe_id e = x then length hs else 0)" "same_bus b ?d" for x
    using deliver_one_bounded[of x call e b] hs by auto
  have "event_bounded hs m ?d x" for x
  proof (cases "x = oe_id e")
    case True
    have "heard_of x b + length hs * outstanding x b + length hs \<le> length hs * (nat m + 2)"
      using assms(3) True by (simp del: mult_le_cancel1)
    from budget[OF _ one(1)[of x] this] one(2)[of x] True
    have "heard_of x ?d + length hs * outstanding x ?d \<le> length hs * (nat m + 2)" by simp
    then show ?thesis using True one(3) assms(2) by (simp add: event_bounded_def same_bus_def)
  next
    case False
    have "eb_retries ?d x = eb_retries b x" using False by (intro deliver_retries) simp
    moreover have "copies x ?d \<le> copies x b" using False by (intro deliver_copies) simp
    moreover have "heard_of x ?d \<le> heard_of x b + 0" using one(2)[of x] False by simp
    moreover note budget[OF this one(1)[of x], of "length hs" "length hs * (nat m + 2)"]
    ultimately show ?thesis
      using ev[of x] one(3) by (cases "x \<in> set (eb_seen b)") (simp_all add: event_bounded_def same_bus_def)
  qed
  then show ?thesis using assms(1) one(3) by (simp add: bus_bounded_def same_bus_def)
qed

lemma bounded_publish:
  assumes "bus_bounded hs m b" and "0 \<le> m"
  shows "bus_bounded hs m (snd (publish_event (noted call) e b))"
proof (cases "oe_id e \<in> set (eb_seen b)")
  case True
  then show ?thesis using assms by (simp add: publish_event_def)
next
  case False
  let ?e = "e\<lparr>oe_sequence := next_sequence_of (oe_device e) b\<rparr>"
  obtain ok b1 where acc: "accept_event ?e b = (ok, b1)" by fastforce
  have "bus_bounded hs m b1 \<and> heard_of (oe_id e) b1 + length hs * outstanding (oe_id e) b1 \<le> length hs * (nat m + 1)"
    using bounded_accept[OF assms, of ?e] False acc by simp
  moreover have "oe_id e \<in> set (eb_seen b1)" using accepted_frame(7)[of ?e b] acc by simp
  ultimately have "bus_bounded hs m b1" "bus_bounded hs m (deliver_event (noted call) ?e b1)"
    using bounded_deliver[of hs m b1 ?e] by simp_all
  then show ?thesis using False acc by (auto simp: publish_event_def Let_def split: bool.split)
qed

lemma alive_simps [simp]:
  "copies x (c\<lparr>eb_alive := v\<rparr>) = copies x c" "retries_left x (c\<lparr>eb_alive := v\<rparr>) = retries_left x c"
  "heard_of x (c'\<lparr>eb_alive := v\<rparr>) = heard_of x c'"
  by (simp_all add: copies_def retries_left_def attempts_of_def heard_of_def heard_def)

lemma bounded_alive: "bus_bounded hs m (c\<lparr>eb_alive := v\<rparr>) = bus_bounded hs m c"
  by (simp add: bus_bounded_def event_bounded_def)

lemma bounded_step:
  assumes "bus_step (noted call) b b'" and "bus_bounded hs m b" and "0 \<le> m"
  shows "bus_bounded hs m b'"
  using assms(1)
proof cases
  case (published e)
  then show ?thesis using bounded_publish[OF assms(2,3)] by simp
next
  case delivered
  then show ?thesis using bounded_pending[OF assms(2)] by simp
next
  case bus_started
  then show ?thesis using assms(2) by (simp add: bus_start_def bounded_alive)
next
  case (bus_stopped drain)
  then show ?thesis using assms(2) bounded_pending[OF assms(2)] by (simp add: bus_stop_def bounded_alive)
qed

text \<open>
  On a bus with handlers \<open>hs\<close> no event is delivered more than \<open>max_retries + 2\<close> times
  to each of them, whatever is published and whatever the handlers do.
\<close>

theorem deliveries_bounded:
  assumes "new_bus n m pressure det (w, []) = Inr b"
    and "(bus_step (noted call))\<^sup>*\<^sup>* (b\<lparr>eb_handlers := hs\<rparr>) b'"
  shows "heard_of x b' \<le> length hs * (nat m + 2)"
proof -
  have m: "0 \<le> m" using assms(1) by (auto simp: new_bus_def split: if_splits)
  have "bus_bounded hs m (b\<lparr>eb_handlers := hs\<rparr>)"
    using assms(1) by (auto simp: new_bus_def bus_bounded_def event_bounded_def copies_def heard_of_def
        heard_def and_then_def split: if_splits sum.splits)
  with assms(2) have "bus_bounded hs m b'"
    by (induction rule: rtranclp_induct) (auto intro: bounded_step[OF _ _ m])
  then have "event_bounded hs m b' x" by (simp add: bus_bounded_def)
  then show ?thesis by (auto simp: event_bounded_def split: if_splits)
qed

end
