(* ===== verification/OrionBusOrder.thy ===== *)
theory OrionBusOrder
  imports OrionBusProps
begin

text \<open>
  The bus over time: it comes to rest, in what order a device's events arrive, and two ways
  in which it differs from its documentation.
\<close>

section \<open>The bus comes to rest\<close>

definition retries_within :: "('h, 's) event_bus \<Rightarrow> bool" where
  "retries_within b \<longleftrightarrow> (\<forall>x. 0 \<le> attempts_of x b \<and> attempts_of x b \<le> eb_max_retries b)"

definition queue_level :: "int \<Rightarrow> ('h, 's) event_bus \<Rightarrow> bool" where
  "queue_level r b \<longleftrightarrow> (\<forall>e \<in> set (eb_queue b). r \<le> attempts_of (oe_id e) b)"

definition grows :: "('h, 's) event_bus \<Rightarrow> ('h, 's) event_bus \<Rightarrow> bool" where
  "grows b b' \<longleftrightarrow> (\<forall>x. attempts_of x b \<le> attempts_of x b') \<and> eb_max_retries b' = eb_max_retries b"

lemma grows_trans: "grows a b \<Longrightarrow> grows b c \<Longrightarrow> grows a c"
  unfolding grows_def by (metis order_trans)

lemma retry_queue_set: "set (eb_queue (enqueue_for_retry e b)) \<subseteq> insert e (set (eb_queue b))"
  by (cases "eb_queue b") (auto simp: enqueue_for_retry_def)

text \<open>An event is queued again only with one more attempt on its account.\<close>

lemma failed_level:
  assumes "retries_within b" and "queue_level (r + 1) b" and "r \<le> attempts_of (oe_id e) b"
  shows "retries_within (handler_failed e h y b) \<and> queue_level (r + 1) (handler_failed e h y b) \<and>
    grows b (handler_failed e h y b)"
proof -
  let ?b = "(record_failure e h y b)\<lparr>eb_failed := eb_failed (record_failure e h y b) + 1\<rparr>"
  have b: "attempts_of x ?b = attempts_of x b" "eb_queue ?b = eb_queue b" "eb_max_retries ?b = eb_max_retries b" for x
    by (simp_all add: attempts_of_def)
  show ?thesis
  proof (cases "attempts_of (oe_id e) b < eb_max_retries b")
    case True
    let ?c = "?b\<lparr>eb_retries := (eb_retries ?b)(oe_id e \<mapsto> attempts_of (oe_id e) ?b + 1)\<rparr>"
    have eq: "handler_failed e h y b = enqueue_for_retry e ?c"
      using True b by (simp add: handler_failed_def Let_def)
    have att: "attempts_of x (enqueue_for_retry e ?c) = (if x = oe_id e then attempts_of x b + 1 else attempts_of x b)" for x
      by (simp add: attempts_of_def)
    have "eb_queue ?c = eb_queue b" by simp
    then have "set (eb_queue (enqueue_for_retry e ?c)) \<subseteq> insert e (set (eb_queue b))"
      using retry_queue_set[of e ?c] by metis
    then have "queue_level (r + 1) (enqueue_for_retry e ?c)"
      using assms(2,3) unfolding queue_level_def att by fastforce
    moreover have "retries_within (enqueue_for_retry e ?c)"
      using assms(1) True unfolding retries_within_def att by simp
    moreover have "grows b (enqueue_for_retry e ?c)" unfolding grows_def att by simp
    ultimately show ?thesis unfolding eq by blast
  next
    case False
    then have "handler_failed e h y b = ?b\<lparr>eb_dropped := eb_dropped ?b + 1\<rparr>"
      using b by (simp add: handler_failed_def Let_def)
    with assms show ?thesis by (simp add: retries_within_def queue_level_def grows_def attempts_of_def)
  qed
qed

lemma deliver_to_level:
  assumes "retries_within b" and "queue_level (r + 1) b" and "r \<le> attempts_of (oe_id e) b"
  shows "retries_within (deliver_to call e hs b) \<and> queue_level (r + 1) (deliver_to call e hs b) \<and>
    grows b (deliver_to call e hs b)"
  using assms
proof (induction hs arbitrary: b)
  case Nil
  then show ?case by (simp add: grows_def)
next
  case (Cons h hs)
  obtain x w where call: "call h e (eb_world b) = (x, w)" by (cases "call h e (eb_world b)")
  let ?b = "b\<lparr>eb_world := w\<rparr>"
  have b: "retries_within ?b" "queue_level (r + 1) ?b" "r \<le> attempts_of (oe_id e) ?b" "grows b ?b"
    using Cons.prems by (simp_all add: retries_within_def queue_level_def grows_def attempts_of_def)
  show ?case
  proof (cases x)
    case None
    with Cons.IH[OF b(1-3)] grows_trans[OF b(4)] call show ?thesis by simp
  next
    case (Some y)
    note f = failed_level[OF b(1-3), of h y]
    then have "r \<le> attempts_of (oe_id e) (handler_failed e h y ?b)"
      using b(3) unfolding grows_def by (metis order_trans)
    with Cons.IH[of "handler_failed e h y ?b"] f call Some grows_trans[OF b(4)] show ?thesis
      by (auto intro: grows_trans)
  qed
qed

lemma processed_simps:
  "retries_within (b\<lparr>eb_processed := v\<rparr>) = retries_within b"
  "queue_level r (b\<lparr>eb_processed := v\<rparr>) = queue_level r b" "grows c (b\<lparr>eb_processed := v\<rparr>) = grows c b"
  by (simp_all add: retries_within_def queue_level_def grows_def attempts_of_def)

lemma deliver_one_level:
  assumes "retries_within b" and "queue_level (r + 1) b" and "r \<le> attempts_of (oe_id e) b"
  shows "retries_within (deliver_event call e b) \<and> queue_level (r + 1) (deliver_event call e b) \<and>
    grows b (deliver_event call e b)"
proof (cases "eb_handlers b = []")
  case True
  with assms show ?thesis by (simp add: deliver_event_def grows_def)
next
  case False
  with deliver_to_level[OF assms, of call "eb_handlers b"] show ?thesis
    by (simp add: deliver_event_def Let_def processed_simps)
qed

lemma deliver_all_level:
  assumes "retries_within b" and "queue_level (r + 1) b" and "\<forall>e \<in> set es. r \<le> attempts_of (oe_id e) b"
  shows "retries_within (deliver_all call es b) \<and> queue_level (r + 1) (deliver_all call es b) \<and>
    eb_max_retries (deliver_all call es b) = eb_max_retries b"
  using assms
proof (induction es arbitrary: b)
  case Nil
  then show ?case by simp
next
  case (Cons e es)
  let ?d = "deliver_event call e b"
  have "r \<le> attempts_of (oe_id e) b" using Cons.prems(3) by simp
  note one = deliver_one_level[OF Cons.prems(1,2) this, of call]
  have "r \<le> attempts_of (oe_id x) ?d" if "x \<in> set es" for x
  proof -
    have "r \<le> attempts_of (oe_id x) b" using Cons.prems(3) that by simp
    also have "\<dots> \<le> attempts_of (oe_id x) ?d" using one by (simp add: grows_def)
    finally show ?thesis .
  qed
  moreover have "eb_max_retries ?d = eb_max_retries b" using one by (simp add: grows_def)
  ultimately show ?case using Cons.IH[of ?d] one by simp
qed

text \<open>One round raises the level of the queue by one.\<close>

lemma pending_level:
  assumes "retries_within b" and "queue_level r b"
  shows "retries_within (snd (deliver_pending call b)) \<and> queue_level (r + 1) (snd (deliver_pending call b)) \<and>
    eb_max_retries (snd (deliver_pending call b)) = eb_max_retries b"
proof -
  let ?c = "b\<lparr>eb_queue := []\<rparr>"
  have "set (delivery_order (eb_queue b)) = set (eb_queue b)" by (simp add: delivery_order_def)
  then have "\<forall>e \<in> set (delivery_order (eb_queue b)). r \<le> attempts_of (oe_id e) ?c"
    using assms(2) by (simp add: queue_level_def attempts_of_def)
  moreover have "retries_within ?c" "queue_level (r + 1) ?c"
    using assms(1) by (simp_all add: retries_within_def queue_level_def attempts_of_def)
  ultimately show ?thesis
    using deliver_all_level[of ?c r "delivery_order (eb_queue b)" call] by (simp add: deliver_pending_def Let_def)
qed

lemma rounds_level:
  assumes "retries_within b" and "queue_level r b"
  shows "retries_within (bus_rounds call n b) \<and> queue_level (r + int n) (bus_rounds call n b) \<and>
    eb_max_retries (bus_rounds call n b) = eb_max_retries b"
  using assms
proof (induction n arbitrary: b r)
  case 0
  then show ?case by simp
next
  case (Suc n)
  note one = pending_level[OF Suc.prems, of call]
  with Suc.IH[of "snd (deliver_pending call b)" "r + 1"] show ?case by (simp add: algebra_simps)
qed

lemma reachable_within:
  assumes "new_bus n m pressure det w = Inr b" and "(bus_step call)\<^sup>*\<^sup>* (b\<lparr>eb_handlers := hs\<rparr>) b'"
  shows "retries_within b' \<and> eb_max_retries b' = m"
  using assms(2)
proof (induction rule: rtranclp_induct)
  case base
  then show ?case using assms(1)
    by (auto simp: new_bus_def retries_within_def attempts_of_def and_then_def split: if_splits sum.splits)
next
  case (step c c')
  have lvl: "queue_level 0 x" if "retries_within x" for x :: "('a, 'b) event_bus"
    using that by (simp add: queue_level_def retries_within_def)
  have pend: "retries_within (snd (deliver_pending call x)) \<and> eb_max_retries (snd (deliver_pending call x)) = eb_max_retries x"
    if "retries_within x" for x
    using pending_level[OF that lvl[OF that]] by simp
  have alive: "retries_within (x\<lparr>eb_alive := v\<rparr>) = retries_within x" for x :: "('a, 'b) event_bus" and v
    by (simp add: retries_within_def attempts_of_def)
  from step(2) show ?case
  proof cases
    case (published e)
    let ?e = "e\<lparr>oe_sequence := next_sequence_of (oe_device e) c\<rparr>"
    obtain ok c1 where acc: "accept_event ?e c = (ok, c1)" by fastforce
    have "attempts_of x c1 = attempts_of x c" for x
      using acc by (auto simp: accept_event_def attempts_of_def Let_def split: if_splits prod.splits option.splits)
    moreover have "eb_max_retries c1 = eb_max_retries c" using accepted_frame(3)[of ?e c] acc by simp
    ultimately have c1: "retries_within c1" "eb_max_retries c1 = m"
      using step.IH unfolding retries_within_def by auto
    have "0 \<le> attempts_of (oe_id ?e) c1" using c1(1) by (simp add: retries_within_def)
    then have "- 1 \<le> attempts_of (oe_id ?e) c1" by linarith
    moreover have "queue_level (- 1 + 1) c1" using lvl[OF c1(1)] by simp
    ultimately have "queue_level (- 1 + 1) c1" "- 1 \<le> attempts_of (oe_id ?e) c1" by simp_all
    from deliver_one_level[OF c1(1) this, of call] c1 step.IH acc show ?thesis
      unfolding published by (auto simp: publish_event_def Let_def grows_def split: bool.split)
  next
    case delivered
    then show ?thesis using pend step.IH by simp
  next
    case bus_started
    then show ?thesis using step.IH by (simp add: bus_start_def alive)
  next
    case (bus_stopped drain)
    then show ?thesis using step.IH pend[of c] by (simp add: bus_stop_def alive)
  qed
qed

text \<open>
  C28: after \<open>max_retries + 1\<close> rounds of the worker with nothing published in between, the queue
  of the bus is empty, whatever the handlers do.
\<close>

theorem bus_comes_to_rest:
  assumes "new_bus n m pressure det w = Inr b" and "(bus_step call)\<^sup>*\<^sup>* (b\<lparr>eb_handlers := hs\<rparr>) b'"
  shows "eb_queue (bus_rounds call (nat m + 1) b') = []"
proof -
  have within: "retries_within b'" "eb_max_retries b' = m" using reachable_within[OF assms] by simp_all
  have "0 \<le> m" using assms(1) by (auto simp: new_bus_def split: if_splits)
  have "queue_level 0 b'" using within(1) by (simp add: queue_level_def retries_within_def)
  note rounds = rounds_level[OF within(1) this, of call "nat m + 1"]
  have "\<not> e \<in> set (eb_queue (bus_rounds call (nat m + 1) b'))" for e
  proof
    assume "e \<in> set (eb_queue (bus_rounds call (nat m + 1) b'))"
    then have "m + 1 \<le> attempts_of (oe_id e) (bus_rounds call (nat m + 1) b')"
      using rounds \<open>0 \<le> m\<close> by (auto simp: queue_level_def)
    moreover have "attempts_of (oe_id e) (bus_rounds call (nat m + 1) b') \<le> m"
      using rounds within(2) unfolding retries_within_def by metis
    ultimately show False by simp
  qed
  then show ?thesis by (metis last_in_set)
qed

section \<open>Order of delivery\<close>

definition never_fails :: "('h, 's) caller \<Rightarrow> bool" where
  "never_fails call \<longleftrightarrow> (\<forall>h e w. fst (call h e w) = None)"

lemma noted_never_fails: "never_fails call \<Longrightarrow> fst (noted call h e w) = None"
  by (simp add: never_fails_def noted_def split_beta)

lemma quiet_delivery:
  assumes "never_fails call" and "eb_handlers b = [h]"
  shows "heard (deliver_event (noted call) e b) = heard b @ [e] \<and>
    eb_queue (deliver_event (noted call) e b) = eb_queue b \<and> same_bus b (deliver_event (noted call) e b)"
proof -
  obtain w where w: "noted call h e (eb_world b) = (None, w)"
    using noted_never_fails[OF assms(1), of h e "eb_world b"] by (cases "noted call h e (eb_world b)") auto
  then have "snd w = snd (eb_world b) @ [e]" using noted_world[of call h e "eb_world b"] by simp
  with w assms(2) show ?thesis by (simp add: deliver_event_def Let_def heard_def same_bus_def)
qed

lemma quiet_deliveries:
  assumes "never_fails call" and "eb_handlers b = [h]"
  shows "heard (deliver_all (noted call) es b) = heard b @ es \<and>
    eb_queue (deliver_all (noted call) es b) = eb_queue b \<and> same_bus b (deliver_all (noted call) es b)"
  using assms(2)
proof (induction es arbitrary: b)
  case Nil
  then show ?case by simp
next
  case (Cons e es)
  note one = quiet_delivery[OF assms(1) Cons.prems, of e]
  then have "eb_handlers (deliver_event (noted call) e b) = [h]" using Cons.prems by (simp add: same_bus_def)
  with Cons.IH[OF this] one show ?case by (simp add: same_bus_def)
qed

lemma quiet_round:
  assumes "never_fails call" and "eb_handlers b = [h]"
  shows "heard (snd (deliver_pending (noted call) b)) = heard b @ delivery_order (eb_queue b) \<and>
    eb_queue (snd (deliver_pending (noted call) b)) = [] \<and> same_bus b (snd (deliver_pending (noted call) b))"
  using quiet_deliveries[OF assms(1), of "b\<lparr>eb_queue := []\<rparr>" h "delivery_order (eb_queue b)"] assms(2)
  by (simp add: deliver_pending_def Let_def heard_def same_bus_def)

text \<open>The numbers of one device among what was heard and what is queued.\<close>

definition numbers :: "string \<Rightarrow> orion_event list \<Rightarrow> int list" where
  "numbers d es = map oe_sequence (filter (\<lambda>e. oe_device e = d) es)"

lemma numbers_append [simp]: "numbers d (xs @ ys) = numbers d xs @ numbers d ys"
  by (simp add: numbers_def)

definition in_step :: "('h, 's \<times> orion_event list) event_bus \<Rightarrow> bool" where
  "in_step b \<longleftrightarrow> (\<forall>d. sorted_wrt (<) (numbers d (heard b @ eb_queue b)) \<and>
     (\<forall>n \<in> set (numbers d (heard b @ eb_queue b)). n < next_sequence_of d b))"

lemma delivery_order_keeps:
  assumes "sorted_wrt (<) (numbers d q)"
  shows "numbers d (delivery_order q) = numbers d q"
proof -
  let ?f = "\<lambda>e. (oe_device e, oe_sequence e)" and ?p = "\<lambda>e. oe_device e = d"
  have "sorted_wrt (\<lambda>x y. ?f x \<le> ?f y) (filter ?p q)"
    using assms by (auto simp: numbers_def sorted_wrt_map intro: sorted_wrt_mono_rel[rotated])
  then have "sorted (map ?f (filter ?p q))" by (simp add: sorted_wrt_map)
  then have "sort_key ?f (filter ?p q) = filter ?p q" by (rule sort_key_id_if_sorted)
  then show ?thesis by (simp add: numbers_def delivery_order_def filter_sort)
qed

lemma in_step_round:
  assumes "never_fails call" and "eb_handlers b = [h]" and "in_step b"
  shows "in_step (snd (deliver_pending (noted call) b))"
proof -
  have "sorted_wrt (<) (numbers d (eb_queue b))" for d
    using assms(3) by (simp add: in_step_def sorted_wrt_append)
  then have "numbers d (delivery_order (eb_queue b)) = numbers d (eb_queue b)" for d
    by (rule delivery_order_keeps)
  then show ?thesis
    using assms(3) quiet_round[OF assms(1,2)] by (simp add: in_step_def same_bus_def next_sequence_of_def numbers_def)
qed

lemma in_step_publish:
  assumes "in_step b" and "\<not> eb_deterministic b"
  shows "in_step (snd (publish_event (noted call) e b))"
proof (cases "oe_id e \<in> set (eb_seen b)")
  case True
  then show ?thesis using assms(1) by (simp add: publish_event_def)
next
  case False
  let ?e = "e\<lparr>oe_sequence := next_sequence_of (oe_device e) b\<rparr>"
  let ?b = "snd (publish_event (noted call) e b)" and ?b1 = "snd (accept_event ?e b)"
  have b1: "?b = ?b1"
    using False assms(2) accepted_frame(6)[of ?e b]
    by (cases "accept_event ?e b") (auto simp: publish_event_def Let_def split: bool.split)
  obtain q where q: "\<exists>xs. eb_queue b = xs @ q" "eb_queue ?b1 = q \<or> eb_queue ?b1 = q @ [?e]"
  proof -
    let ?q = "fst (make_room (eb_max_queue b) (eb_queue b) (eb_dropped b))"
    have "eb_queue ?b1 = eb_queue b \<or> eb_queue ?b1 = ?q @ [?e]"
      by (auto simp: accept_event_def Let_def split: prod.split)
    with that[of "eb_queue b"] that[of ?q] make_room_suffix[of "eb_queue b"] show ?thesis by fastforce
  qed
  have seqs: "eb_sequences ?b1 = (eb_sequences b)(oe_device e \<mapsto> next_sequence_of (oe_device e) b)"
    by (auto simp: accept_event_def Let_def split: prod.split)
  have heard: "heard ?b1 = heard b" by (simp add: heard_def accepted_frame)
  have "sorted_wrt (<) (numbers d (heard b @ eb_queue ?b1)) \<and>
      (\<forall>n \<in> set (numbers d (heard b @ eb_queue ?b1)). n < next_sequence_of d ?b1)" for d
  proof -
    have old: "sorted_wrt (<) (numbers d (heard b @ q))" "\<forall>n \<in> set (numbers d (heard b @ q)). n < next_sequence_of d b"
      using assms(1) q(1) by (auto simp: in_step_def sorted_wrt_append)
    have nxt: "next_sequence_of d ?b1 = (if d = oe_device e then next_sequence_of d b + 1 else next_sequence_of d b)"
      unfolding next_sequence_of_def[of d ?b1] seqs by (simp add: next_sequence_of_def)
    have "numbers d [?e] = (if d = oe_device e then [next_sequence_of d b] else [])"
      by (simp add: numbers_def)
    then have "numbers d (heard b @ eb_queue ?b1) = numbers d (heard b @ q) \<or>
        numbers d (heard b @ eb_queue ?b1) =
          numbers d (heard b @ q) @ (if d = oe_device e then [next_sequence_of d b] else [])"
      using q(2) by auto
    moreover have "sorted_wrt (<) (numbers d (heard b @ q) @ (if d = oe_device e then [next_sequence_of d b] else []))"
      using old by (simp only: sorted_wrt_append) auto
    moreover have "\<forall>n \<in> set (numbers d (heard b @ q)). n < next_sequence_of d ?b1"
      using old(2) nxt by fastforce
    ultimately show ?thesis using old(1) nxt
      by (elim disjE) (simp_all only: set_append Un_iff ball_Un, auto)
  qed
  then show ?thesis unfolding b1 by (simp add: in_step_def heard)
qed


section \<open>Against the documentation\<close>

definition quiet_bus :: "bool \<Rightarrow> int \<Rightarrow> (nat, unit \<times> orion_event list) event_bus" where
  "quiet_bus det cap =
     \<lparr>eb_queue = [], eb_handlers = [0], eb_seen = [], eb_sequences = Map.empty, eb_retries = Map.empty,
      eb_dropped = 0, eb_processed = 0, eb_failed = 0, eb_failures = [], eb_alive = False,
      eb_max_queue = cap, eb_max_retries = 3, eb_pressure = BUS_DROP_OLDEST, eb_deterministic = det,
      eb_world = ((), [])\<rparr>"

text \<open>
  A deterministic bus delivers a published event at once and leaves it in its queue; the
  next \<^verbatim>\<open>deliver_pending\<close>, which also stopping the bus calls, delivers it again.
\<close>

theorem deterministic_delivers_twice:
  assumes "never_fails call" and "eb_handlers b = [h]" and "eb_deterministic b" and "eb_queue b = []"
    and "0 < eb_max_queue b" and "oe_id e \<notin> set (eb_seen b)"
  shows "\<exists>e'. oe_id e' = oe_id e \<and>
    heard (snd (publish_event (noted call) e b)) = heard b @ [e'] \<and>
    heard (snd (deliver_pending (noted call) (snd (publish_event (noted call) e b)))) = heard b @ [e', e']"
proof -
  let ?e = "e\<lparr>oe_sequence := next_sequence_of (oe_device e) b\<rparr>"
  obtain b1 where b1: "accept_event ?e b = (True, b1)" "eb_queue b1 = [?e]"
    using assms(4,5) by (auto simp: accept_event_def Let_def bus_full_def)
  then have fr: "eb_handlers b1 = [h]" "heard b1 = heard b" "eb_deterministic b1"
    using accepted_frame(1,2,6)[of ?e b] assms(2,3) by (simp_all add: heard_def)
  let ?b2 = "deliver_event (noted call) ?e b1"
  have pub: "snd (publish_event (noted call) e b) = ?b2"
    using b1 fr(3) assms(6) by (simp add: publish_event_def)
  have b2: "heard ?b2 = heard b @ [?e]" "eb_queue ?b2 = [?e]" "eb_handlers ?b2 = [h]"
    using quiet_delivery[OF assms(1) fr(1), of ?e] b1(2) fr(1,2) by (simp_all add: same_bus_def)
  have "heard (snd (deliver_pending (noted call) ?b2)) = heard b @ [?e, ?e]"
    using quiet_round[OF assms(1) b2(3)] b2(1,2) by (simp add: delivery_order_def)
  then show ?thesis using pub b2(1) by (intro exI[of _ ?e]) simp
qed

text \<open>
  The priority of an event plays no part: of two events of one device the one published
  first is heard first, however much more urgent the second is.
\<close>

theorem priority_ignored:
  assumes "never_fails call" and "eb_handlers b = [h]" and "\<not> eb_deterministic b" and "eb_queue b = []"
    and "1 < eb_max_queue b" and "oe_device low = oe_device high" and "oe_priority low < oe_priority high"
    and "oe_id low \<notin> set (eb_seen b)" and "oe_id high \<notin> set (eb_seen b)" and "oe_id low \<noteq> oe_id high"
    and "b2 = snd (publish_event (noted call) high (snd (publish_event (noted call) low b)))"
  shows "map oe_id (heard (snd (deliver_pending (noted call) b2))) = map oe_id (heard b) @ [oe_id low, oe_id high]"
proof -
  let ?n = "next_sequence_of (oe_device low) b"
  let ?l = "low\<lparr>oe_sequence := ?n\<rparr>" and ?h = "high\<lparr>oe_sequence := ?n + 1\<rparr>"
  obtain b1 where b1: "accept_event ?l b = (True, b1)" "eb_queue b1 = [?l]"
      "eb_sequences b1 = (eb_sequences b)(oe_device low \<mapsto> ?n)"
    using assms(4,5) by (auto simp: accept_event_def Let_def bus_full_def)
  have fr1: "eb_handlers b1 = [h]" "heard b1 = heard b" "\<not> eb_deterministic b1" "eb_max_queue b1 = eb_max_queue b"
      "eb_seen b1 = eb_seen b @ [oe_id low]"
    using accepted_frame[of ?l b] b1(1) assms(2,3) by (simp_all add: heard_def)
  have pub1: "snd (publish_event (noted call) low b) = b1"
    using b1(1) fr1(3) assms(8) by (simp add: publish_event_def)
  have next2: "next_sequence_of (oe_device high) b1 = ?n + 1"
    using b1(3) assms(6) by (simp add: next_sequence_of_def[of _ b1])
  obtain c where c: "accept_event ?h b1 = (True, c)" "eb_queue c = [?l, ?h]"
    using b1(2) assms(5) fr1(4) make_room_kept[of "[?l]" "eb_max_queue b"]
    by (auto simp: accept_event_def Let_def bus_full_def)
  have fr2: "eb_handlers c = [h]" "heard c = heard b" "\<not> eb_deterministic c"
    using accepted_frame[of ?h b1] c(1) fr1 by (simp_all add: heard_def)
  have "b2 = c"
    using c(1) fr2(3) assms(9,10) fr1(5) next2 unfolding assms(11) pub1 by (auto simp: publish_event_def Let_def)
  moreover have "delivery_order [?l, ?h] = [?l, ?h]"
    using assms(6) by (simp add: delivery_order_def less_eq_prod_def)
  ultimately show ?thesis using quiet_round[OF assms(1) fr2(1)] c(2) fr2(2) by simp
qed

section \<open>Concrete buses\<close>

definition silent :: "(nat, unit) caller" where
  "silent h e w = (None, w)"

definition grumpy :: "(nat, unit) caller" where
  "grumpy h e w = (Some (Orion OrionHandlerError), w)"

lemma silent_never_fails: "never_fails silent"
  by (simp add: never_fails_def silent_def)

definition demo_bus :: "(nat, unit \<times> orion_event list) event_bus" where
  "demo_bus = \<lparr>eb_queue = [], eb_handlers = [], eb_seen = [], eb_sequences = Map.empty,
     eb_retries = Map.empty, eb_dropped = 0, eb_processed = 0, eb_failed = 0, eb_failures = [],
     eb_alive = False, eb_max_queue = 4, eb_max_retries = 1, eb_pressure = BUS_DROP_OLDEST,
     eb_deterministic = False, eb_world = ((), [])\<rparr>"

lemma demo_bus_new: "new_bus 4 1 ''DROP_OLDEST'' False ((), []) = Inr demo_bus"
proof -
  have "bus_pressure_from_str ''DROP_OLDEST'' = Inr BUS_DROP_OLDEST" by code_simp
  then show ?thesis by (simp add: new_bus_def and_then_def demo_bus_def)
qed

lemma demo_bus_published:
  "(bus_step call)\<^sup>*\<^sup>* (demo_bus\<lparr>eb_handlers := [0]\<rparr>)
     (snd (publish_event call demo_event (demo_bus\<lparr>eb_handlers := [0]\<rparr>)))"
  by (rule r_into_rtranclp) (rule published)

theorem deliveries_bounded_witness:
  "heard_of ''OEV-1'' (snd (deliver_pending (noted grumpy)
     (snd (publish_event (noted grumpy) demo_event (demo_bus\<lparr>eb_handlers := [0]\<rparr>))))) \<le> 3"
  using deliveries_bounded[OF demo_bus_new rtranclp.rtrancl_into_rtrancl[OF demo_bus_published delivered],
      of "''OEV-1''" grumpy] by simp

theorem bus_comes_to_rest_witness:
  "eb_queue (bus_rounds (noted grumpy) 2
     (snd (publish_event (noted grumpy) demo_event (demo_bus\<lparr>eb_handlers := [0]\<rparr>)))) = []"
  using bus_comes_to_rest[OF demo_bus_new demo_bus_published, of "noted grumpy"] by (simp add: numeral_2_eq_2)


theorem deterministic_delivers_twice_witness:
  "heard_of ''OEV-1'' (snd (deliver_pending (noted silent)
     (snd (publish_event (noted silent) demo_event (quiet_bus True 4))))) = 2"
proof -
  have b: "eb_handlers (quiet_bus True 4) = [0]" "eb_deterministic (quiet_bus True 4)"
    "eb_queue (quiet_bus True 4) = []" "0 < eb_max_queue (quiet_bus True 4)"
    "oe_id demo_event \<notin> set (eb_seen (quiet_bus True 4))" "heard (quiet_bus True 4) = []"
    by (simp_all add: quiet_bus_def heard_def)
  from deterministic_delivers_twice[OF silent_never_fails b(1-5)] b(6) show ?thesis
    by (auto simp: heard_of_def demo_event_def)
qed

theorem priority_ignored_witness:
  "map oe_id (heard (snd (deliver_pending (noted silent) (snd (publish_event (noted silent)
     (demo_event\<lparr>oe_id := ''OEV-2'', oe_priority := PRI_CRITICAL\<rparr>)
     (snd (publish_event (noted silent) demo_event (quiet_bus False 4)))))))) = [''OEV-1'', ''OEV-2'']"
proof -
  let ?high = "demo_event\<lparr>oe_id := ''OEV-2'', oe_priority := PRI_CRITICAL\<rparr>" and ?b = "quiet_bus False 4"
  have b: "eb_handlers ?b = [0]" "\<not> eb_deterministic ?b" "eb_queue ?b = []" "1 < eb_max_queue ?b"
    "oe_device demo_event = oe_device ?high" "oe_priority demo_event < oe_priority ?high"
    "oe_id demo_event \<notin> set (eb_seen ?b)" "oe_id ?high \<notin> set (eb_seen ?b)" "oe_id demo_event \<noteq> oe_id ?high"
    by (simp_all add: quiet_bus_def demo_event_def less_event_priority_def)
  have "heard ?b = []" "oe_id demo_event = ''OEV-1''" "oe_id ?high = ''OEV-2''"
    by (simp_all add: heard_def quiet_bus_def demo_event_def)
  then show ?thesis using priority_ignored[OF silent_never_fails b refl] by simp
qed

end
