(* ===== verification/AegisModels.thy ===== *)
theory AegisModels
  imports ScreenController TransportSession
begin

text \<open>
  \<^verbatim>\<open>guardianmesh/aegis/models.py\<close>: platforms, states and capabilities of the screen
  capture on the child's device, its notification, the counters of the frame pipeline, and
  the records of a capture session and of a system consent.

  Times are the texts \<^verbatim>\<open>isoformat\<close> writes; a missing one is \<open>None\<close>.
\<close>

section \<open>Enumerations\<close>

datatype aegis_platform =
    PLAT_ANDROID | PLAT_LINUX | PLAT_TERMUX | PLAT_UNKNOWN

fun platform_value :: "aegis_platform \<Rightarrow> string" where
  "platform_value PLAT_ANDROID = ''ANDROID''"
| "platform_value PLAT_LINUX = ''LINUX''"
| "platform_value PLAT_TERMUX = ''TERMUX''"
| "platform_value PLAT_UNKNOWN = ''UNKNOWN''"

definition all_platforms :: "aegis_platform list" where
  "all_platforms =
     [PLAT_ANDROID, PLAT_LINUX, PLAT_TERMUX, PLAT_UNKNOWN]"

definition platform_from_str :: "string \<Rightarrow> gm_error + aegis_platform" where
  "platform_from_str s =
     (case enum_of platform_value all_platforms s of None \<Rightarrow> Inl (Aegis AegisError) | Some x \<Rightarrow> Inr x)"

definition platform_real_capture :: "aegis_platform \<Rightarrow> bool" where
  [model_defs]: "platform_real_capture p \<longleftrightarrow> p = PLAT_ANDROID"

datatype consent_state =
    CON_NOT_REQUESTED | CON_REQUESTED | CON_GRANTED | CON_DENIED
  | CON_REVOKED | CON_EXPIRED

fun consent_state_value :: "consent_state \<Rightarrow> string" where
  "consent_state_value CON_NOT_REQUESTED = ''NOT_REQUESTED''"
| "consent_state_value CON_REQUESTED = ''REQUESTED''"
| "consent_state_value CON_GRANTED = ''GRANTED''"
| "consent_state_value CON_DENIED = ''DENIED''"
| "consent_state_value CON_REVOKED = ''REVOKED''"
| "consent_state_value CON_EXPIRED = ''EXPIRED''"

definition all_consent_states :: "consent_state list" where
  "all_consent_states =
     [CON_NOT_REQUESTED, CON_REQUESTED, CON_GRANTED, CON_DENIED,
      CON_REVOKED, CON_EXPIRED]"

definition consent_state_from_str :: "string \<Rightarrow> gm_error + consent_state" where
  "consent_state_from_str s =
     (case enum_of consent_state_value all_consent_states s of None \<Rightarrow> Inl (Aegis AegisError) | Some x \<Rightarrow> Inr x)"

datatype pipeline_stage =
    STAGE_CAPTURED | STAGE_NORMALIZED | STAGE_ENCODED | STAGE_QUEUED
  | STAGE_TRANSMITTED | STAGE_DROPPED

fun stage_value :: "pipeline_stage \<Rightarrow> string" where
  "stage_value STAGE_CAPTURED = ''CAPTURED''"
| "stage_value STAGE_NORMALIZED = ''NORMALIZED''"
| "stage_value STAGE_ENCODED = ''ENCODED''"
| "stage_value STAGE_QUEUED = ''QUEUED''"
| "stage_value STAGE_TRANSMITTED = ''TRANSMITTED''"
| "stage_value STAGE_DROPPED = ''DROPPED''"

definition all_stages :: "pipeline_stage list" where
  "all_stages =
     [STAGE_CAPTURED, STAGE_NORMALIZED, STAGE_ENCODED, STAGE_QUEUED,
      STAGE_TRANSMITTED, STAGE_DROPPED]"

definition stage_from_str :: "string \<Rightarrow> gm_error + pipeline_stage" where
  "stage_from_str s =
     (case enum_of stage_value all_stages s of None \<Rightarrow> Inl (Aegis AegisError) | Some x \<Rightarrow> Inr x)"

datatype encoder_backend =
    ENC_MEDIA_CODEC | ENC_TEST

fun backend_value :: "encoder_backend \<Rightarrow> string" where
  "backend_value ENC_MEDIA_CODEC = ''MEDIA_CODEC''"
| "backend_value ENC_TEST = ''TEST''"

definition all_backends :: "encoder_backend list" where
  "all_backends =
     [ENC_MEDIA_CODEC, ENC_TEST]"

definition backend_from_str :: "string \<Rightarrow> gm_error + encoder_backend" where
  "backend_from_str s =
     (case enum_of backend_value all_backends s of None \<Rightarrow> Inl (Aegis AegisError) | Some x \<Rightarrow> Inr x)"

definition backend_is_production :: "encoder_backend \<Rightarrow> bool" where
  [model_defs]: "backend_is_production b \<longleftrightarrow> b = ENC_MEDIA_CODEC"

datatype aegis_state =
    AEG_INITIALIZED | AEG_SYSTEM_CONSENT_REQUIRED | AEG_SYSTEM_CONSENT_DENIED | AEG_SYSTEM_CONSENT_GRANTED
  | AEG_CAPTURING | AEG_STOPPED | AEG_EXPIRED | AEG_REVOKED
  | AEG_FAILED

fun aegis_state_value :: "aegis_state \<Rightarrow> string" where
  "aegis_state_value AEG_INITIALIZED = ''INITIALIZED''"
| "aegis_state_value AEG_SYSTEM_CONSENT_REQUIRED = ''SYSTEM_CONSENT_REQUIRED''"
| "aegis_state_value AEG_SYSTEM_CONSENT_DENIED = ''SYSTEM_CONSENT_DENIED''"
| "aegis_state_value AEG_SYSTEM_CONSENT_GRANTED = ''SYSTEM_CONSENT_GRANTED''"
| "aegis_state_value AEG_CAPTURING = ''CAPTURING''"
| "aegis_state_value AEG_STOPPED = ''STOPPED''"
| "aegis_state_value AEG_EXPIRED = ''EXPIRED''"
| "aegis_state_value AEG_REVOKED = ''REVOKED''"
| "aegis_state_value AEG_FAILED = ''FAILED''"

definition all_aegis_states :: "aegis_state list" where
  "all_aegis_states =
     [AEG_INITIALIZED, AEG_SYSTEM_CONSENT_REQUIRED, AEG_SYSTEM_CONSENT_DENIED, AEG_SYSTEM_CONSENT_GRANTED,
      AEG_CAPTURING, AEG_STOPPED, AEG_EXPIRED, AEG_REVOKED,
      AEG_FAILED]"

definition aegis_state_from_str :: "string \<Rightarrow> gm_error + aegis_state" where
  "aegis_state_from_str s =
     (case enum_of aegis_state_value all_aegis_states s of None \<Rightarrow> Inl (Aegis AegisError) | Some x \<Rightarrow> Inr x)"

section \<open>Capabilities and notification\<close>

record provider_caps =
  pc_platform :: aegis_platform
  pc_backend :: encoder_backend
  pc_max_width :: int
  pc_max_height :: int
  pc_max_fps :: int
  pc_foreground :: bool
  pc_projection :: bool
  pc_notes :: string

definition check_provider_caps :: "provider_caps \<Rightarrow> gm_error option" where
  "check_provider_caps c =
     (if pc_max_width c \<le> 0 \<or> pc_max_height c \<le> 0 then Some (Aegis AegisError)
      else if pc_max_fps c \<le> 0 then Some (Aegis AegisError)
      else if pc_projection c \<and> \<not> platform_real_capture (pc_platform c) then Some (Aegis AegisError)
      else None)"

definition caps_real_capture :: "provider_caps \<Rightarrow> bool" where
  [model_defs]: "caps_real_capture c \<longleftrightarrow> platform_real_capture (pc_platform c) \<and> pc_projection c"

definition provider_caps_to_dict :: "provider_caps \<Rightarrow> json" where
  "provider_caps_to_dict c =
     JObj [(''platform'', JStr (platform_value (pc_platform c))),
           (''backend'', JStr (backend_value (pc_backend c))),
           (''max_width'', JInt (pc_max_width c)), (''max_height'', JInt (pc_max_height c)),
           (''max_fps'', JInt (pc_max_fps c)),
           (''supports_foreground_service'', JBool (pc_foreground c)),
           (''supports_media_projection'', JBool (pc_projection c)),
           (''is_real_capture'', JBool (platform_real_capture (pc_platform c))),
           (''notes'', JStr (pc_notes c))]"

record notification =
  nt_title :: string
  nt_body :: string
  nt_stop_label :: string
  nt_channel :: string
  nt_id :: int
  nt_show_when :: bool
  nt_ongoing :: bool
  nt_high_priority :: bool

definition default_notification :: notification where
  "default_notification =
     \<lparr>nt_title = ''GuardianMesh screen sharing is active'',
      nt_body = ''Tap STOP to end sharing immediately.'', nt_stop_label = ''STOP SHARING'',
      nt_channel = ''guardianmesh.aegis.capture'', nt_id = 8421, nt_show_when = True,
      nt_ongoing = True, nt_high_priority = True\<rparr>"

definition check_notification :: "notification \<Rightarrow> gm_error option" where
  "check_notification n =
     (if nt_title n = [] then Some (Aegis AegisError)
      else if nt_stop_label n = [] then Some (Aegis AegisError)
      else if \<exists>c \<in> set [CHR 0x00, CHR 0x0D, CHR 0x0A]. c \<in> set (nt_title n) \<or> c \<in> set (nt_body n)
      then Some (Aegis AegisError)
      else None)"

definition notification_to_dict :: "notification \<Rightarrow> json" where
  "notification_to_dict n =
     JObj [(''title'', JStr (nt_title n)), (''body'', JStr (nt_body n)),
           (''stop_action_label'', JStr (nt_stop_label n)),
           (''notification_channel_id'', JStr (nt_channel n)),
           (''notification_id'', JInt (nt_id n)), (''show_when'', JBool (nt_show_when n)),
           (''ongoing'', JBool (nt_ongoing n)), (''high_priority'', JBool (nt_high_priority n))]"

section \<open>Counters of the pipeline\<close>

record frame_metrics =
  fm_captured :: int
  fm_normalized :: int
  fm_encoded :: int
  fm_queued :: int
  fm_transmitted :: int
  fm_dropped :: int
  fm_depth :: int
  fm_capacity :: int
  fm_latency_total :: int
  fm_latency_count :: int
  fm_transport_failures :: int
  fm_projection_failures :: int
  fm_encoder_failures :: int
  fm_last_sequence :: int

definition fresh_metrics :: frame_metrics where
  "fresh_metrics =
     \<lparr>fm_captured = 0, fm_normalized = 0, fm_encoded = 0, fm_queued = 0, fm_transmitted = 0,
      fm_dropped = 0, fm_depth = 0, fm_capacity = 0, fm_latency_total = 0, fm_latency_count = 0,
      fm_transport_failures = 0, fm_projection_failures = 0, fm_encoder_failures = 0,
      fm_last_sequence = 0\<rparr>"

definition record_capture :: "frame_metrics \<Rightarrow> frame_metrics" where
  [model_defs]: "record_capture m = m\<lparr>fm_captured := fm_captured m + 1\<rparr>"

definition record_normalize :: "frame_metrics \<Rightarrow> frame_metrics" where
  [model_defs]: "record_normalize m = m\<lparr>fm_normalized := fm_normalized m + 1\<rparr>"

definition record_encode :: "int \<Rightarrow> frame_metrics \<Rightarrow> frame_metrics" where
  [model_defs]: "record_encode ms m =
     m\<lparr>fm_encoded := fm_encoded m + 1,
       fm_latency_total := fm_latency_total m + (if ms < 0 then 0 else ms),
       fm_latency_count := fm_latency_count m + 1\<rparr>"

definition record_queue :: "frame_metrics \<Rightarrow> frame_metrics" where
  [model_defs]: "record_queue m = m\<lparr>fm_queued := fm_queued m + 1\<rparr>"

definition record_transmit :: "frame_metrics \<Rightarrow> frame_metrics" where
  [model_defs]: "record_transmit m = m\<lparr>fm_transmitted := fm_transmitted m + 1\<rparr>"

definition record_drop :: "frame_metrics \<Rightarrow> frame_metrics" where
  [model_defs]: "record_drop m = m\<lparr>fm_dropped := fm_dropped m + 1\<rparr>"

definition record_projection_failure :: "frame_metrics \<Rightarrow> frame_metrics" where
  [model_defs]: "record_projection_failure m = m\<lparr>fm_projection_failures := fm_projection_failures m + 1\<rparr>"

definition record_encoder_failure :: "frame_metrics \<Rightarrow> frame_metrics" where
  [model_defs]: "record_encoder_failure m = m\<lparr>fm_encoder_failures := fm_encoder_failures m + 1\<rparr>"

definition record_transport_failure :: "frame_metrics \<Rightarrow> frame_metrics" where
  [model_defs]: "record_transport_failure m = m\<lparr>fm_transport_failures := fm_transport_failures m + 1\<rparr>"

definition set_queue_depth :: "int \<Rightarrow> int \<Rightarrow> frame_metrics \<Rightarrow> frame_metrics" where
  [model_defs]: "set_queue_depth depth capacity m =
     m\<lparr>fm_depth := max 0 depth, fm_capacity := max 0 capacity\<rparr>"

definition set_last_sequence :: "int \<Rightarrow> frame_metrics \<Rightarrow> frame_metrics" where
  [model_defs]: "set_last_sequence n m = (if n < 0 then m else m\<lparr>fm_last_sequence := n\<rparr>)"

section \<open>Sessions and consents\<close>

text \<open>\<^verbatim>\<open>state\<close> is a text, which the controller fills with values of \<open>aegis_state\<close>.\<close>

record aegis_session =
  ag_id :: string
  ag_screen :: string
  ag_device :: string
  ag_parent :: string
  ag_auth :: "string option"
  ag_consent :: consent_state
  ag_platform :: aegis_platform
  ag_backend :: encoder_backend
  ag_state :: string
  ag_transport :: "string option"
  ag_created :: string
  ag_consent_requested :: "string option"
  ag_consent_granted :: "string option"
  ag_started :: "string option"
  ag_stopped :: "string option"
  ag_expires :: string
  ag_last_frame :: int
  ag_stop_reason :: "string option"
  ag_label :: "string option"
  ag_metadata :: "(string \<times> json) list"

definition aegis_validate :: "aegis_session \<Rightarrow> gm_error option" where
  "aegis_validate s =
     (if \<not> valid_id (ag_device s) then Some (Aegis AegisError)
      else if \<not> valid_id (ag_parent s) then Some (Aegis AegisError)
      else if ag_id s = [] then Some (Aegis AegisError)
      else if ag_screen s = [] then Some (Aegis AegisError)
      else if ag_expires s = [] then Some (Aegis AegisError)
      else None)"

definition opt_text :: "string option \<Rightarrow> json" where
  "opt_text x = (case x of None \<Rightarrow> JNull | Some s \<Rightarrow> JStr s)"

definition aegis_to_dict :: "aegis_session \<Rightarrow> json" where
  "aegis_to_dict s =
     JObj [(''aegis_session_id'', JStr (ag_id s)), (''screen_session_id'', JStr (ag_screen s)),
           (''device_id'', JStr (ag_device s)), (''parent_id'', JStr (ag_parent s)),
           (''authorization_id'', opt_text (ag_auth s)),
           (''consent_state'', JStr (consent_state_value (ag_consent s))),
           (''platform'', JStr (platform_value (ag_platform s))),
           (''backend'', JStr (backend_value (ag_backend s))), (''state'', JStr (ag_state s)),
           (''transport_session_id'', opt_text (ag_transport s)),
           (''created_at'', JStr (ag_created s)),
           (''consent_requested_at'', opt_text (ag_consent_requested s)),
           (''consent_granted_at'', opt_text (ag_consent_granted s)),
           (''started_at'', opt_text (ag_started s)), (''stopped_at'', opt_text (ag_stopped s)),
           (''expires_at'', JStr (ag_expires s)),
           (''last_frame_sequence'', JInt (ag_last_frame s)),
           (''stop_reason'', opt_text (ag_stop_reason s)), (''label'', opt_text (ag_label s)),
           (''metadata'', JObj (ag_metadata s))]"

record consent_record =
  cn_token :: string
  cn_screen :: string
  cn_device :: string
  cn_state :: consent_state
  cn_requested :: "string option"
  cn_granted :: "string option"
  cn_denied :: "string option"
  cn_revoked :: "string option"
  cn_expires :: string
  cn_note :: string

definition consent_to_dict :: "consent_record \<Rightarrow> json" where
  "consent_to_dict c =
     JObj [(''consent_token'', JStr (cn_token c)), (''screen_session_id'', JStr (cn_screen c)),
           (''device_id'', JStr (cn_device c)), (''state'', JStr (consent_state_value (cn_state c))),
           (''requested_at'', opt_text (cn_requested c)), (''granted_at'', opt_text (cn_granted c)),
           (''denied_at'', opt_text (cn_denied c)), (''revoked_at'', opt_text (cn_revoked c)),
           (''expires_at'', JStr (cn_expires c)), (''note'', JStr (cn_note c))]"

section \<open>The texts of a state name it\<close>

lemma aegis_state_value_inj [simp]: "aegis_state_value a = aegis_state_value b \<longleftrightarrow> a = b"
  by (cases a; cases b) simp_all

lemma consent_state_value_inj [simp]: "consent_state_value a = consent_state_value b \<longleftrightarrow> a = b"
  by (cases a; cases b) simp_all

lemma consent_from_value [simp]: "consent_state_from_str (consent_state_value c) = Inr c"
  by (cases c) (simp_all add: consent_state_from_str_def enum_of_def all_consent_states_def
      py_strip_def py_upper_def upper_char_def is_py_space_def)

lemma platform_from_value [simp]: "platform_from_str (platform_value p) = Inr p"
  by (cases p) (simp_all add: platform_from_str_def enum_of_def all_platforms_def
      py_strip_def py_upper_def upper_char_def is_py_space_def)

lemma backend_from_value [simp]: "backend_from_str (backend_value b) = Inr b"
  by (cases b) (simp_all add: backend_from_str_def enum_of_def all_backends_def
      py_strip_def py_upper_def upper_char_def is_py_space_def)

end
