(* ===== verification/AegisConsent.thy ===== *)
theory AegisConsent
  imports AegisModels
begin

text \<open>
  \<^verbatim>\<open>guardianmesh/aegis/consent.py\<close>: the gate of the system consent, which the child
  gives in the dialog of the operating system.

  \<open>gt_records\<close> is the dictionary of the records in insertion order, \<open>gt_sessions\<close> the last
  token of each screen session.  The token \<^verbatim>\<open>secrets\<close> draws and the clock are arguments.
\<close>

record gate =
  gt_caps :: provider_caps
  gt_records :: "consent_record list"
  gt_sessions :: "string \<Rightarrow> string option"

definition new_gate :: "provider_caps \<Rightarrow> gate" where
  "new_gate c = \<lparr>gt_caps = c, gt_records = [], gt_sessions = Map.empty\<rparr>"

definition assert_android_platform :: "gate \<Rightarrow> gm_error option" where
  "assert_android_platform g =
     (if \<not> platform_real_capture (pc_platform (gt_caps g)) then Some (Aegis AegisPlatformUnavailableError)
      else None)"

definition get_record :: "string \<Rightarrow> gate \<Rightarrow> consent_record option" where
  "get_record t g = fetch_where (\<lambda>r. cn_token r = t) (gt_records g)"

definition put_record :: "consent_record \<Rightarrow> gate \<Rightarrow> gate" where
  [model_defs]: "put_record r g = g\<lparr>gt_records := upsert_row cn_token r (\<lambda>old. r) (gt_records g)\<rparr>"

definition require_record :: "string \<Rightarrow> gate \<Rightarrow> gm_error + consent_record" where
  "require_record t g =
     (case get_record t g of None \<Rightarrow> Inl (Aegis AegisError) | Some r \<Rightarrow> Inr r)"

section \<open>Transitions\<close>

text \<open>A session whose last request is still open gets that request.\<close>

definition request_consent ::
  "calendar \<Rightarrow> int \<Rightarrow> string \<Rightarrow> string \<Rightarrow> string \<Rightarrow> string \<Rightarrow> gate \<Rightarrow> (gate, consent_record) outcome" where
  "request_consent cal now token screen device expires g =
     (case assert_android_platform g of
        Some e \<Rightarrow> raises e g
      | None \<Rightarrow>
         (let r = \<lparr>cn_token = token, cn_screen = screen, cn_device = device, cn_state = CON_REQUESTED,
                   cn_requested = Some (write_iso cal now), cn_granted = None, cn_denied = None,
                   cn_revoked = None, cn_expires = expires, cn_note = []\<rparr>;
              fresh = returns r ((put_record r g)\<lparr>gt_sessions := (gt_sessions g)(screen \<mapsto> token)\<rparr>)
          in case gt_sessions g screen of
               None \<Rightarrow> fresh
             | Some t \<Rightarrow>
                (case get_record t g of
                   None \<Rightarrow> raises (Builtin PyKeyError) g
                 | Some old \<Rightarrow> if cn_state old = CON_REQUESTED then returns old g else fresh)))"

text \<open>A record that has expired can still be granted.\<close>

definition grant_consent :: "calendar \<Rightarrow> int \<Rightarrow> string \<Rightarrow> gate \<Rightarrow> (gate, consent_record) outcome" where
  "grant_consent cal now token g =
     (case assert_android_platform g of
        Some e \<Rightarrow> raises e g
      | None \<Rightarrow>
         (case require_record token g of
            Inl e \<Rightarrow> raises e g
          | Inr r \<Rightarrow>
              if cn_state r = CON_GRANTED then returns r g
              else if cn_state r = CON_DENIED then raises (Aegis AegisConsentDeniedError) g
              else if cn_state r = CON_REVOKED then raises (Aegis AegisConsentRevokedError) g
              else let r' = r\<lparr>cn_state := CON_GRANTED, cn_granted := Some (write_iso cal now)\<rparr>
                   in returns r' (put_record r' g)))"

definition deny_consent :: "calendar \<Rightarrow> int \<Rightarrow> string \<Rightarrow> string \<Rightarrow> gate \<Rightarrow> (gate, consent_record) outcome" where
  "deny_consent cal now token note g =
     (case assert_android_platform g of
        Some e \<Rightarrow> raises e g
      | None \<Rightarrow>
         (case require_record token g of
            Inl e \<Rightarrow> raises e g
          | Inr r \<Rightarrow>
              if cn_state r = CON_DENIED then returns r g
              else let r' = r\<lparr>cn_state := CON_DENIED, cn_denied := Some (write_iso cal now), cn_note := note\<rparr>
                   in returns r' (put_record r' g)))"

definition revoke_consent :: "calendar \<Rightarrow> int \<Rightarrow> string \<Rightarrow> string \<Rightarrow> gate \<Rightarrow> (gate, consent_record) outcome" where
  "revoke_consent cal now token reason g =
     (case assert_android_platform g of
        Some e \<Rightarrow> raises e g
      | None \<Rightarrow>
         (case require_record token g of
            Inl e \<Rightarrow> raises e g
          | Inr r \<Rightarrow>
              if cn_state r \<in> {CON_REVOKED, CON_EXPIRED} then returns r g
              else let r' = r\<lparr>cn_state := CON_REVOKED, cn_revoked := Some (write_iso cal now), cn_note := reason\<rparr>
                   in returns r' (put_record r' g)))"

text \<open>
  An unreadable deadline is skipped; a readable one without time zone makes the comparison
  raise.
\<close>

fun expire_consents ::
  "calendar \<Rightarrow> int \<Rightarrow> consent_record list \<Rightarrow> string list \<Rightarrow> gate \<Rightarrow> (gate, string list) outcome" where
  "expire_consents cal now [] done g = returns done g"
| "expire_consents cal now (r # rs) done g =
     (case (if cn_expires r = [] then Blank else read_iso cal (cn_expires r)) of
        Blank \<Rightarrow> expire_consents cal now rs done g
      | Malformed x \<Rightarrow> expire_consents cal now rs done g
      | Naive t \<Rightarrow> raises (Builtin PyTypeError) g
      | Aware t \<Rightarrow>
          if now \<le> t then expire_consents cal now rs done g
          else if cn_state r \<in> {CON_GRANTED, CON_REQUESTED}
          then expire_consents cal now rs (done @ [cn_token r]) (put_record (r\<lparr>cn_state := CON_EXPIRED\<rparr>) g)
          else expire_consents cal now rs done g)"

definition expire_due_consents :: "calendar \<Rightarrow> int \<Rightarrow> gate \<Rightarrow> (gate, string list) outcome" where
  "expire_due_consents cal now g = expire_consents cal now (gt_records g) [] g"

section \<open>Evaluation\<close>

record consent_decision =
  ck_allowed :: bool
  ck_state :: consent_state
  ck_caps :: provider_caps

definition decided :: "bool \<Rightarrow> consent_state \<Rightarrow> gate \<Rightarrow> consent_decision" where
  [model_defs]: "decided a st g = \<lparr>ck_allowed = a, ck_state = st, ck_caps = gt_caps g\<rparr>"

text \<open>The deadline of the record is not looked at.\<close>

definition evaluate_consent :: "string \<Rightarrow> gate \<Rightarrow> gm_error + consent_decision" where
  "evaluate_consent screen g =
     (if \<not> platform_real_capture (pc_platform (gt_caps g)) then Inr (decided False CON_NOT_REQUESTED g)
      else case gt_sessions g screen of
        None \<Rightarrow> Inr (decided False CON_NOT_REQUESTED g)
      | Some t \<Rightarrow>
         (case get_record t g of
            None \<Rightarrow> Inl (Builtin PyKeyError)
          | Some r \<Rightarrow>
              Inr (case cn_state r of
                     CON_GRANTED \<Rightarrow> decided True CON_GRANTED g
                   | CON_DENIED \<Rightarrow> decided False CON_DENIED g
                   | CON_REVOKED \<Rightarrow> decided False CON_REVOKED g
                   | CON_EXPIRED \<Rightarrow> decided False CON_EXPIRED g
                   | _ \<Rightarrow> decided False CON_REQUESTED g)))"

definition assert_capture_allowed :: "string \<Rightarrow> gate \<Rightarrow> gm_error + consent_decision" where
  "assert_capture_allowed screen g =
     and_then (evaluate_consent screen g) (\<lambda>d.
       if ck_allowed d then Inr d
       else case ck_state d of
         CON_DENIED \<Rightarrow> Inl (Aegis AegisConsentDeniedError)
       | CON_REVOKED \<Rightarrow> Inl (Aegis AegisConsentRevokedError)
       | _ \<Rightarrow> Inl (Aegis AegisConsentRequiredError))"

definition consent_for_session :: "string \<Rightarrow> gate \<Rightarrow> consent_record option" where
  "consent_for_session screen g =
     (case gt_sessions g screen of None \<Rightarrow> None | Some t \<Rightarrow> get_record t g)"

definition clear_gate :: "gate \<Rightarrow> gate" where
  "clear_gate g = g\<lparr>gt_records := [], gt_sessions := Map.empty\<rparr>"

section \<open>What the transitions do to a record\<close>

definition consent_of :: "string \<Rightarrow> gate \<Rightarrow> consent_state option" where
  "consent_of t g = map_option cn_state (get_record t g)"

lemma get_put_record [simp]:
  "get_record t (put_record r g) = (if cn_token r = t then Some r else get_record t g)"
  by (auto simp: get_record_def put_record_def fetch_upsert_whole)

lemma put_record_caps [simp]: "gt_caps (put_record r g) = gt_caps g" "gt_sessions (put_record r g) = gt_sessions g"
  by (simp_all add: put_record_def)

lemma get_record_token [dest]: "get_record t g = Some r \<Longrightarrow> cn_token r = t"
  by (auto simp: get_record_def dest: fetch_where_Some)

text \<open>The capture is allowed exactly when the last request of the session was granted.\<close>

lemma capture_allowed_iff:
  "(\<exists>d. assert_capture_allowed screen g = Inr d) \<longleftrightarrow>
     pc_platform (gt_caps g) = PLAT_ANDROID \<and>
     (\<exists>t. gt_sessions g screen = Some t \<and> consent_of t g = Some CON_GRANTED)"
  by (auto simp: assert_capture_allowed_def evaluate_consent_def and_then_def consent_of_def
      platform_real_capture_def decided_def split: option.splits consent_state.splits)

text \<open>No transition but a grant makes a record granted.\<close>

lemma expire_not_grants:
  assumes "expire_consents cal now rs done g = (x, g')" and "consent_of t g' = Some CON_GRANTED"
  shows "consent_of t g = Some CON_GRANTED"
  using assms
proof (induction cal now rs "done" g rule: expire_consents.induct)
  case (2 cal now r rs "done" g)
  then show ?case
    by (auto simp: consent_of_def split: stamp.splits if_splits)
qed auto

lemma expire_same [simp]:
  "gt_caps (snd (expire_consents cal now rs done g)) = gt_caps g"
  "gt_sessions (snd (expire_consents cal now rs done g)) = gt_sessions g"
  by (induction cal now rs "done" g rule: expire_consents.induct) (auto split: stamp.splits)

end
