(* ===== verification/AegisPipeline.thy ===== *)
theory AegisPipeline
  imports AegisModels
begin

text \<open>
  The capture of frames: the two providers of \<^verbatim>\<open>guardianmesh/aegis/media_projection.py\<close>,
  the encoders of \<^verbatim>\<open>encoder.py\<close>, the pipeline of \<^verbatim>\<open>pipeline.py\<close> and the
  notification of \<^verbatim>\<open>indicator_service.py\<close>.

  SHA-256 is the argument \<open>sha\<close>, the rounding of floating-point results the argument \<open>fl\<close>;
  the clocks, the salts and the identifiers that \<^verbatim>\<open>secrets\<close> draws are arguments too.
\<close>

section \<open>Providers\<close>

datatype provider_kind = ADAPTER_PROVIDER | FAKE_PROVIDER bool bool

record provider =
  pv_kind :: provider_kind
  pv_caps :: provider_caps
  pv_salt :: "nat list"
  pv_counter :: nat
  pv_started :: bool

definition new_adapter_provider ::
  "aegis_platform \<Rightarrow> int \<Rightarrow> int \<Rightarrow> int \<Rightarrow> nat list \<Rightarrow> gm_error + provider" where
  "new_adapter_provider p w h fps salt =
     (let c = \<lparr>pc_platform = p, pc_backend = ENC_TEST, pc_max_width = w, pc_max_height = h,
               pc_max_fps = fps, pc_foreground = False, pc_projection = False,
               pc_notes = ''AdapterOnlyMediaProjectionProvider: real Android MediaProjection is not available on this platform. Use the Aegis Android companion (APK) for production capture.''\<rparr>
      in case check_provider_caps c of
           Some e \<Rightarrow> Inl e
         | None \<Rightarrow> Inr \<lparr>pv_kind = ADAPTER_PROVIDER, pv_caps = c, pv_salt = salt, pv_counter = 0,
                        pv_started = False\<rparr>)"

text \<open>\<open>FAKE_PROVIDER fail_on_start fail_on_capture\<close>.\<close>

definition new_fake_provider :: "provider_caps \<Rightarrow> bool \<Rightarrow> bool \<Rightarrow> nat list \<Rightarrow> provider" where
  "new_fake_provider c fail_start fail_capture salt =
     \<lparr>pv_kind = FAKE_PROVIDER fail_start fail_capture, pv_caps = c, pv_salt = salt, pv_counter = 0,
      pv_started = False\<rparr>"

definition provider_available :: "provider \<Rightarrow> bool" where
  "provider_available p =
     (case pv_kind p of ADAPTER_PROVIDER \<Rightarrow> True
      | FAKE_PROVIDER _ _ \<Rightarrow> platform_real_capture (pc_platform (pv_caps p)))"

definition provider_real :: "provider \<Rightarrow> bool" where
  "provider_real p =
     (case pv_kind p of ADAPTER_PROVIDER \<Rightarrow> False
      | FAKE_PROVIDER _ _ \<Rightarrow> pv_started p \<and> platform_real_capture (pc_platform (pv_caps p)))"

definition provider_start :: "provider \<Rightarrow> (provider, unit) outcome" where
  "provider_start p =
     (case pv_kind p of
        FAKE_PROVIDER True _ \<Rightarrow> raises (Aegis AegisProjectionError) p
      | _ \<Rightarrow> returns () (p\<lparr>pv_started := True\<rparr>))"

definition provider_stop :: "provider \<Rightarrow> provider" where
  "provider_stop p = p\<lparr>pv_started := False\<rparr>"

definition no_capture :: "capture_request \<Rightarrow> capture_result" where
  [model_defs]: "no_capture q =
     \<lparr>cr_captured = False, cr_width = 0, cr_height = 0, cr_pixel = cq_pixel q, cr_codec = cq_codec q,
      cr_payload = []\<rparr>"

text \<open>The frame both providers make: a digest of the salt, the request and the counter.\<close>

definition synthetic ::
  "(nat list \<Rightarrow> nat list) \<Rightarrow> capture_request \<Rightarrow> provider \<Rightarrow> (provider, capture_result) outcome" where
  "synthetic sha q p =
     (let n = pv_counter p + 1;
          seed = pv_salt p @ map of_char (cq_session q @ ''|'' @ int_str (cq_width q) @ ''x'' @
                   int_str (cq_height q) @ ''|'' @ nat_digits n);
          digest = sha seed
      in returns \<lparr>cr_captured = True, cr_width = cq_width q, cr_height = cq_height q,
           cr_pixel = cq_pixel q, cr_codec = cq_codec q, cr_payload = digest @ digest\<rparr>
         (p\<lparr>pv_counter := n\<rparr>))"

definition provider_capture ::
  "(nat list \<Rightarrow> nat list) \<Rightarrow> capture_request \<Rightarrow> provider \<Rightarrow> (provider, capture_result) outcome" where
  "provider_capture sha q p =
     (if \<not> pv_started p then returns (no_capture q) p
      else case pv_kind p of
        ADAPTER_PROVIDER \<Rightarrow>
          if pc_max_width (pv_caps p) < cq_width q then returns (no_capture q) p
          else if pc_max_height (pv_caps p) < cq_height q then returns (no_capture q) p
          else if pc_max_fps (pv_caps p) < cq_max_fps q then returns (no_capture q) p
          else synthetic sha q p
      | FAKE_PROVIDER _ fail_capture \<Rightarrow>
          if fail_capture then raises (Aegis AegisProjectionError) p
          else if \<not> platform_real_capture (pc_platform (pv_caps p))
          then raises (Aegis AegisPlatformUnavailableError) p
          else synthetic sha q p)"

section \<open>Encoders\<close>

record encoder =
  en_backend :: encoder_backend
  en_salt :: "nat list"
  en_counter :: nat

definition new_test_encoder :: "nat list \<Rightarrow> encoder" where
  "new_test_encoder salt = \<lparr>en_backend = ENC_TEST, en_salt = salt, en_counter = 0\<rparr>"

text \<open>\<open>android\<close> tells whether \<^verbatim>\<open>sys.platform\<close> names Java or Android.\<close>

definition new_codec_encoder :: "bool \<Rightarrow> gm_error + encoder" where
  "new_codec_encoder android =
     (if \<not> android then Inl (Aegis AegisEncoderError)
      else Inr \<lparr>en_backend = ENC_MEDIA_CODEC, en_salt = [], en_counter = 0\<rparr>)"

text \<open>The production encoder of this package always raises.\<close>

definition encode_capture ::
  "(nat list \<Rightarrow> nat list) \<Rightarrow> string \<Rightarrow> string \<Rightarrow> capture_result \<Rightarrow> screen_codec \<Rightarrow> encoder \<Rightarrow>
   (encoder, screen_frame) outcome" where
  "encode_capture sha fresh captured r c en =
     (case en_backend en of
        ENC_MEDIA_CODEC \<Rightarrow> raises (Aegis AegisEncoderError) en
      | ENC_TEST \<Rightarrow>
          if \<not> cr_captured r then raises (Aegis AegisEncoderError) en
          else let n = en_counter en + 1;
                   seed = en_salt en @ map of_char (int_str (cr_width r) @ ''x'' @ int_str (cr_height r) @
                            ''|'' @ codec_value c @ ''|'' @ nat_digits n);
                   digest = sha seed
               in returns \<lparr>sf_version = ''1.0'', sf_session = [], sf_device = [], sf_id = fresh,
                    sf_sequence = int n, sf_captured = captured, sf_width = cr_width r,
                    sf_height = cr_height r, sf_pixel = cr_pixel r, sf_codec = c,
                    sf_payload_size = int (length (digest @ digest)), sf_payload = digest @ digest\<rparr>
                  (en\<lparr>en_counter := n\<rparr>))"

type_synonym encoder_registry = "encoder_backend \<Rightarrow> encoder option"

definition new_encoder_registry :: "nat list \<Rightarrow> encoder_registry" where
  "new_encoder_registry salt = [ENC_TEST \<mapsto> new_test_encoder salt]"

definition register_encoder :: "encoder \<Rightarrow> encoder_registry \<Rightarrow> encoder_registry" where
  "register_encoder en r = r(en_backend en \<mapsto> en)"

definition lookup_encoder :: "encoder_backend \<Rightarrow> encoder_registry \<Rightarrow> gm_error + encoder" where
  "lookup_encoder b r = (case r b of None \<Rightarrow> Inl (Aegis AegisEncoderError) | Some en \<Rightarrow> Inr en)"

section \<open>Limiter and normalizer\<close>

record limiter =
  lm_fps :: int
  lm_last :: "rat option"

definition new_limiter :: "int \<Rightarrow> gm_error + limiter" where
  "new_limiter fps =
     (if fps \<le> 0 then Inl (Aegis AegisFramePipelineError) else Inr \<lparr>lm_fps = fps, lm_last = None\<rparr>)"

definition limiter_allow :: "(rat \<Rightarrow> rat) \<Rightarrow> rat \<Rightarrow> limiter \<Rightarrow> bool \<times> limiter" where
  "limiter_allow fl ts l =
     (case lm_last l of
        None \<Rightarrow> (True, l\<lparr>lm_last := Some ts\<rparr>)
      | Some t \<Rightarrow>
          if fl (1 / of_int (lm_fps l)) \<le> fl (fl (ts - t) + fl (1 / 10 ^ 9))
          then (True, l\<lparr>lm_last := Some ts\<rparr>)
          else (False, l))"

definition limiter_reset :: "limiter \<Rightarrow> limiter" where
  "limiter_reset l = l\<lparr>lm_last := None\<rparr>"

definition normalize_capture ::
  "int \<Rightarrow> int \<Rightarrow> capture_request \<Rightarrow> capture_result \<Rightarrow> gm_error + capture_result" where
  "normalize_capture w h q r =
     (if \<not> cr_captured r then Inr r
      else if w < cq_width q \<or> h < cq_height q then Inl (Aegis AegisFramePipelineError)
      else Inr r)"

section \<open>The pipeline\<close>

record pipeline =
  pl_screen :: string
  pl_device :: string
  pl_width :: int
  pl_height :: int
  pl_limiter :: limiter
  pl_buffer :: frame_buffer
  pl_metrics :: frame_metrics
  pl_running :: bool

definition new_pipeline ::
  "provider \<Rightarrow> string \<Rightarrow> string \<Rightarrow> int \<Rightarrow> int \<Rightarrow> int \<Rightarrow> int \<Rightarrow> int \<Rightarrow> backpressure \<Rightarrow> gm_error + pipeline" where
  "new_pipeline p screen device w h fps bytes n st =
     (if \<not> pc_projection (pv_caps p) \<and> pv_kind p \<noteq> ADAPTER_PROVIDER \<and>
         \<not> platform_real_capture (pc_platform (pv_caps p))
      then Inl (Aegis AegisPlatformUnavailableError)
      else let w' = min w (pc_max_width (pv_caps p)); h' = min h (pc_max_height (pv_caps p)) in
        if w' \<le> 0 \<or> h' \<le> 0 then Inl (Aegis AegisFramePipelineError)
        else and_then (new_limiter fps) (\<lambda>l.
          and_then (new_frame_validator w h bytes fps) (\<lambda>v.
          and_then (new_frame_buffer screen n st v) (\<lambda>b.
            Inr \<lparr>pl_screen = screen, pl_device = device, pl_width = w', pl_height = h',
                 pl_limiter = l, pl_buffer = b, pl_metrics = set_queue_depth 0 n fresh_metrics,
                 pl_running = False\<rparr>))))"

definition pipeline_start :: "pipeline \<Rightarrow> provider \<Rightarrow> (pipeline \<times> provider, unit) outcome" where
  "pipeline_start l p =
     (if pl_running l then returns () (l, p)
      else case provider_start p of
        (Inl e, p') \<Rightarrow> raises e (l, p')
      | (Inr u, p') \<Rightarrow>
          returns () (l\<lparr>pl_limiter := limiter_reset (pl_limiter l), pl_running := True\<rparr>, p'))"

text \<open>Releasing the encoder does nothing for either encoder.\<close>

definition pipeline_stop :: "pipeline \<Rightarrow> provider \<Rightarrow> pipeline \<times> provider" where
  "pipeline_stop l p =
     (l\<lparr>pl_running := False, pl_buffer := buffer_clear (pl_buffer l)\<rparr>, provider_stop p)"

text \<open>
  \<^verbatim>\<open>AegisProjectionLikeError\<close>, which an empty frame raises, is a subclass of
  \<open>AegisFramePipelineError\<close> and stands for it below.

  What a tick works on: the pipeline and the provider and encoder it shares with others.\<close>

type_synonym capture_state = "pipeline \<times> provider \<times> encoder"

definition counting :: "(frame_metrics \<Rightarrow> frame_metrics) \<Rightarrow> pipeline \<Rightarrow> pipeline" where
  [model_defs]: "counting f l = l\<lparr>pl_metrics := f (pl_metrics l)\<rparr>"

definition queue_counted :: "pipeline \<Rightarrow> pipeline" where
  [model_defs]: "queue_counted l =
     counting (set_queue_depth (int (length (bq_items (fb_queue (pl_buffer l))))) (bq_max (fb_queue (pl_buffer l)))) l"

text \<open>The second half of a tick: the encoded frame is numbered and queued.\<close>

definition enqueue_frame ::
  "(string \<Rightarrow> stamp) \<Rightarrow> screen_frame \<Rightarrow> pipeline \<Rightarrow> (pipeline, screen_frame) outcome" where
  "enqueue_frame rd f l =
     (let f' = f\<lparr>sf_session := pl_screen l, sf_device := pl_device l,
                 sf_sequence := ft_last (fb_tracker (pl_buffer l)) + 1\<rparr>
      in case buffer_ingest rd f' (pl_buffer l) of
           (Inl e, b) \<Rightarrow> raises e (l\<lparr>pl_buffer := b\<rparr>)
         | (Inr added, b) \<Rightarrow>
             (let l1 = l\<lparr>pl_buffer := b\<rparr> in
              returns f' (if added then counting (set_last_sequence (sf_sequence f')) (queue_counted (counting record_queue l1))
                          else queue_counted (counting record_drop l1))))"

record tick_input =
  ti_clock :: rat
  ti_latency :: int
  ti_frame_id :: string
  ti_captured :: string
  ti_codec :: screen_codec

definition pipeline_tick ::
  "(nat list \<Rightarrow> nat list) \<Rightarrow> (rat \<Rightarrow> rat) \<Rightarrow> (string \<Rightarrow> stamp) \<Rightarrow> tick_input \<Rightarrow> capture_state \<Rightarrow>
   (capture_state, screen_frame option) outcome" where
  "pipeline_tick sha fl rd i s =
     (let (l, p, en) = s in
      if \<not> pl_running l then raises (Aegis AegisFramePipelineError) s
      else case limiter_allow fl (ti_clock i) (pl_limiter l) of
        (False, m) \<Rightarrow> returns None (l\<lparr>pl_limiter := m\<rparr>, p, en)
      | (True, m) \<Rightarrow>
         (let l1 = l\<lparr>pl_limiter := m\<rparr>;
              q = \<lparr>cq_session = pl_screen l, cq_width = pl_width l, cq_height = pl_height l,
                   cq_max_fps = lm_fps m, cq_codec = ti_codec i, cq_pixel = PF_TEST\<rparr>
          in case provider_capture sha q p of
               (Inl e, p1) \<Rightarrow> raises e (l1, p1, en)
             | (Inr r, p1) \<Rightarrow>
                (let l2 = counting record_capture l1 in
                 if \<not> cr_captured r
                 then raises (Aegis AegisFramePipelineError) (counting record_projection_failure l2, p1, en)
                 else case normalize_capture (pl_width l) (pl_height l) q r of
                   Inl e \<Rightarrow> raises e (l2, p1, en)
                 | Inr r' \<Rightarrow>
                    (let l3 = counting record_normalize l2 in
                     case encode_capture sha (ti_frame_id i) (ti_captured i) r' (ti_codec i) en of
                       (Inl e, en1) \<Rightarrow> raises e (counting record_encoder_failure l3, p1, en1)
                     | (Inr f, en1) \<Rightarrow>
                        (case enqueue_frame rd f (counting (record_encode (ti_latency i)) l3) of
                           (Inl e, l4) \<Rightarrow> raises e (l4, p1, en1)
                         | (Inr f', l4) \<Rightarrow> returns (Some f') (l4, p1, en1))))))"

definition pipeline_drain :: "pipeline \<Rightarrow> screen_frame list \<times> pipeline" where
  "pipeline_drain l =
     (let (fs, b) = buffer_drain (pl_buffer l);
          l1 = counting (\<lambda>m. m\<lparr>fm_queued := max 0 (fm_queued m - int (length fs))\<rparr>) (l\<lparr>pl_buffer := b\<rparr>)
      in (fs, queue_counted l1))"

section \<open>The notification of the child\<close>

record service_indicator =
  si_caps :: provider_caps
  si_notification :: notification
  si_active :: bool
  si_session :: "string option"
  si_parent :: "string option"
  si_started :: "string option"

definition new_service_indicator :: "provider_caps \<Rightarrow> service_indicator" where
  "new_service_indicator c =
     \<lparr>si_caps = c, si_notification = default_notification, si_active = False, si_session = None,
      si_parent = None, si_started = None\<rparr>"

definition service_start ::
  "calendar \<Rightarrow> int \<Rightarrow> string \<Rightarrow> string option \<Rightarrow> service_indicator \<Rightarrow> (service_indicator, unit) outcome" where
  "service_start cal now sid parent i =
     (if \<not> pc_foreground (si_caps i) \<and> \<not> platform_real_capture (pc_platform (si_caps i))
      then raises (Aegis AegisPlatformUnavailableError) i
      else if si_active i \<and> (case si_session i of None \<Rightarrow> False | Some s \<Rightarrow> s \<noteq> [] \<and> s \<noteq> sid)
      then raises (Aegis AegisForegroundServiceError) i
      else returns () (i\<lparr>si_active := True, si_session := Some sid, si_parent := parent,
                         si_started := Some (write_iso cal now)\<rparr>))"

definition service_stop :: "service_indicator \<Rightarrow> service_indicator" where
  "service_stop i = i\<lparr>si_active := False, si_session := None, si_parent := None, si_started := None\<rparr>"

end
