(* ===== verification/AegisController.thy ===== *)
theory AegisController
  imports AegisConsent AegisPipeline
begin

text \<open>
  \<^verbatim>\<open>guardianmesh/aegis/controller.py\<close> and \<^verbatim>\<open>registry.py\<close>: the capture sessions,
  their table, and the operations that request and record the consent of the system, start
  and stop the capture.

  \<open>aw_provider\<close> and \<open>aw_encoder\<close> are shared by all pipelines, as is the one notification
  \<open>aw_service\<close>.  \<open>aw_trust\<close> is the trust manager, if one is configured.
\<close>

section \<open>The table\<close>

text \<open>A conflict rewrites all columns but the key and \<^verbatim>\<open>created_at\<close>.\<close>

definition aegis_upsert :: "aegis_session \<Rightarrow> aegis_session list \<Rightarrow> gm_error + aegis_session list" where
  "aegis_upsert s rows =
     (if \<not> fits_64 (ag_last_frame s) then Inl (Builtin PyOverflowError)
      else Inr (upsert_row ag_id s (\<lambda>old. s\<lparr>ag_created := ag_created old\<rparr>) rows))"

definition aegis_row :: "string \<Rightarrow> aegis_session list \<Rightarrow> aegis_session option" where
  "aegis_row sid rows = fetch_where (\<lambda>s. ag_id s = sid) rows"

definition all_aegis_rows :: "int \<Rightarrow> aegis_session list \<Rightarrow> aegis_session list" where
  "all_aegis_rows limit rows = sql_limit limit (sort_desc ag_created rows)"

definition aegis_rows_for_device :: "string \<Rightarrow> aegis_session list \<Rightarrow> aegis_session list" where
  "aegis_rows_for_device dev rows = sort_desc ag_created (filter (\<lambda>s. ag_device s = dev) rows)"

definition delete_aegis_row :: "string \<Rightarrow> aegis_session list \<Rightarrow> bool \<times> aegis_session list" where
  "delete_aegis_row sid rows = (has_key ag_id sid rows, filter (\<lambda>s. ag_id s \<noteq> sid) rows)"

section \<open>The controller\<close>

record aegis_world =
  aw_sessions :: "aegis_session list"
  aw_rows :: "aegis_session list"
  aw_gate :: gate
  aw_service :: service_indicator
  aw_pipelines :: "string \<Rightarrow> pipeline option"
  aw_provider :: provider
  aw_encoder :: encoder
  aw_duration :: int
  aw_trust :: "pairing_db option"
  aw_log :: "audit_call list"

definition new_aegis :: "provider \<Rightarrow> encoder \<Rightarrow> int \<Rightarrow> pairing_db option \<Rightarrow> aegis_session list \<Rightarrow> aegis_world" where
  "new_aegis p en duration trust rows =
     \<lparr>aw_sessions = [], aw_rows = rows, aw_gate = new_gate (pv_caps p),
      aw_service = new_service_indicator (pv_caps p), aw_pipelines = Map.empty, aw_provider = p,
      aw_encoder = en, aw_duration = duration, aw_trust = trust, aw_log = []\<rparr>"

definition get_aegis :: "string \<Rightarrow> aegis_world \<Rightarrow> aegis_session option" where
  "get_aegis aid w = fetch_where (\<lambda>s. ag_id s = aid) (aw_sessions w)"

definition require_aegis :: "string \<Rightarrow> aegis_world \<Rightarrow> gm_error + aegis_session" where
  "require_aegis aid w =
     (case get_aegis aid w of None \<Rightarrow> Inl (Aegis AegisSessionError) | Some s \<Rightarrow> Inr s)"

definition put_aegis :: "aegis_session \<Rightarrow> aegis_world \<Rightarrow> aegis_world" where
  [model_defs]: "put_aegis s w = w\<lparr>aw_sessions := upsert_row ag_id s (\<lambda>old. s) (aw_sessions w)\<rparr>"

text \<open>Store the changed session and its row; a failing write of the row is swallowed.\<close>

definition save_aegis :: "aegis_session \<Rightarrow> aegis_world \<Rightarrow> aegis_world" where
  "save_aegis s w =
     (let w1 = put_aegis s w in
      case aegis_upsert s (aw_rows w1) of Inl e \<Rightarrow> w1 | Inr rows \<Rightarrow> w1\<lparr>aw_rows := rows\<rparr>)"

definition log_aegis :: "string \<Rightarrow> string \<Rightarrow> bool \<Rightarrow> aegis_world \<Rightarrow> aegis_world" where
  [model_defs]: "log_aegis ev actor ok w = w\<lparr>aw_log := audit ev (Some actor) ok (aw_log w)\<rparr>"

definition assert_aegis_trust :: "string \<Rightarrow> string \<Rightarrow> aegis_world \<Rightarrow> gm_error option" where
  "assert_aegis_trust local remote w =
     (case aw_trust w of
        None \<Rightarrow> None
      | Some db \<Rightarrow>
         (case verify_device_trust_or_raise db local remote of
            Inl e \<Rightarrow> Some (Aegis AegisAuthorizationRequiredError)
          | Inr d \<Rightarrow> None))"

record aegis_request =
  ar_screen :: string
  ar_device :: string
  ar_parent :: string
  ar_label :: "string option"

definition create_aegis ::
  "calendar \<Rightarrow> int \<Rightarrow> string \<Rightarrow> aegis_request \<Rightarrow> aegis_world \<Rightarrow> (aegis_world, aegis_session) outcome" where
  "create_aegis cal now aid q w =
     (if \<not> valid_id (ar_device q) then raises (Aegis AegisError) w
      else if \<not> valid_id (ar_parent q) then raises (Aegis AegisError) w
      else if ar_screen q = [] then raises (Aegis AegisError) w
      else case assert_aegis_trust (ar_parent q) (ar_device q) w of
        Some e \<Rightarrow> raises e w
      | None \<Rightarrow>
         (let s = \<lparr>ag_id = aid, ag_screen = ar_screen q, ag_device = ar_device q,
                   ag_parent = ar_parent q, ag_auth = None, ag_consent = CON_NOT_REQUESTED,
                   ag_platform = pc_platform (pv_caps (aw_provider w)),
                   ag_backend = en_backend (aw_encoder w),
                   ag_state = aegis_state_value AEG_INITIALIZED, ag_transport = None,
                   ag_created = write_iso cal now, ag_consent_requested = None,
                   ag_consent_granted = None, ag_started = None, ag_stopped = None,
                   ag_expires = write_iso cal (now + aw_duration w * second), ag_last_frame = 0,
                   ag_stop_reason = None, ag_label = ar_label q, ag_metadata = []\<rparr>
          in case aegis_validate s of
               Some e \<Rightarrow> raises e w
             | None \<Rightarrow> returns s (log_aegis ''AEGIS_SESSION_CREATED'' (ar_parent q) True (save_aegis s w))))"

section \<open>System consent\<close>

definition request_system_consent ::
  "calendar \<Rightarrow> int \<Rightarrow> string \<Rightarrow> string \<Rightarrow> aegis_world \<Rightarrow> (aegis_world, consent_record) outcome" where
  "request_system_consent cal now token aid w =
     (case require_aegis aid w of
        Inl e \<Rightarrow> raises e w
      | Inr s \<Rightarrow>
         (case request_consent cal now token (ag_screen s) (ag_device s) (ag_expires s) (aw_gate w) of
            (Inl e, g) \<Rightarrow> raises e (w\<lparr>aw_gate := g\<rparr>)
          | (Inr r, g) \<Rightarrow>
              returns r (log_aegis ''AEGIS_SYSTEM_CONSENT_REQUESTED'' (ag_device s) True
                (save_aegis (s\<lparr>ag_consent := CON_REQUESTED, ag_consent_requested := cn_requested r,
                    ag_state := aegis_state_value AEG_SYSTEM_CONSENT_REQUIRED\<rparr>) (w\<lparr>aw_gate := g\<rparr>)))))"

text \<open>The token need not be one of the session.\<close>

definition grant_system_consent ::
  "calendar \<Rightarrow> int \<Rightarrow> string \<Rightarrow> string \<Rightarrow> aegis_world \<Rightarrow> (aegis_world, consent_record) outcome" where
  "grant_system_consent cal now aid token w =
     (case require_aegis aid w of
        Inl e \<Rightarrow> raises e w
      | Inr s \<Rightarrow>
         (case grant_consent cal now token (aw_gate w) of
            (Inl e, g) \<Rightarrow> raises e (w\<lparr>aw_gate := g\<rparr>)
          | (Inr r, g) \<Rightarrow>
              returns r (log_aegis ''AEGIS_SYSTEM_CONSENT_GRANTED'' (ag_device s) True
                (save_aegis (s\<lparr>ag_consent := CON_GRANTED, ag_consent_granted := cn_granted r,
                    ag_state := aegis_state_value AEG_SYSTEM_CONSENT_GRANTED\<rparr>) (w\<lparr>aw_gate := g\<rparr>)))))"

definition deny_system_consent ::
  "calendar \<Rightarrow> int \<Rightarrow> string \<Rightarrow> string \<Rightarrow> string \<Rightarrow> aegis_world \<Rightarrow> (aegis_world, consent_record) outcome" where
  "deny_system_consent cal now aid token note w =
     (case require_aegis aid w of
        Inl e \<Rightarrow> raises e w
      | Inr s \<Rightarrow>
         (case deny_consent cal now token note (aw_gate w) of
            (Inl e, g) \<Rightarrow> raises e (w\<lparr>aw_gate := g\<rparr>)
          | (Inr r, g) \<Rightarrow>
              returns r (log_aegis ''AEGIS_SYSTEM_CONSENT_DENIED'' (ag_device s) False
                (save_aegis (s\<lparr>ag_consent := CON_DENIED,
                    ag_state := aegis_state_value AEG_SYSTEM_CONSENT_DENIED,
                    ag_stopped := Some (write_iso cal now),
                    ag_stop_reason := Some ''SYSTEM_CONSENT_DENIED''\<rparr>) (w\<lparr>aw_gate := g\<rparr>)))))"

section \<open>Capture\<close>

definition capturing :: "calendar \<Rightarrow> int \<Rightarrow> string option \<Rightarrow> aegis_session \<Rightarrow> aegis_session" where
  [model_defs]: "capturing cal now transport s =
     s\<lparr>ag_transport := (case transport of None \<Rightarrow> ag_transport s | Some t \<Rightarrow> Some t),
       ag_state := aegis_state_value AEG_CAPTURING, ag_started := Some (write_iso cal now)\<rparr>"

definition parent_label :: "aegis_session \<Rightarrow> string" where
  [model_defs]: "parent_label s =
     (case ag_label s of None \<Rightarrow> ag_parent s | Some x \<Rightarrow> if x = [] then ag_parent s else x)"

text \<open>Of the three keys only the consent of the system is looked at.\<close>

definition start_capture ::
  "calendar \<Rightarrow> int \<Rightarrow> string \<Rightarrow> string option \<Rightarrow> aegis_world \<Rightarrow> (aegis_world, unit) outcome" where
  "start_capture cal now aid transport w =
     (case require_aegis aid w of
        Inl e \<Rightarrow> raises e w
      | Inr s \<Rightarrow>
         (case assert_capture_allowed (ag_screen s) (aw_gate w) of
            Inl e \<Rightarrow> raises e w
          | Inr d \<Rightarrow>
             if \<not> provider_real (aw_provider w) \<and> \<not> provider_available (aw_provider w)
             then raises (Aegis AegisPlatformUnavailableError) w
             else let w1 = save_aegis (capturing cal now transport s) w
             in case new_pipeline (aw_provider w1) (ag_screen s) (ag_device s) 1280 720 10
                       (4 * 1024 * 1024) 30 BP_DROP_OLDEST of
                  Inl e \<Rightarrow> raises e w1
                | Inr l \<Rightarrow>
                   (case pipeline_start l (aw_provider w1) of
                      (Inl e, (l1, p)) \<Rightarrow> raises e (w1\<lparr>aw_provider := p\<rparr>)
                    | (Inr u, (l1, p)) \<Rightarrow>
                       (case service_start cal now aid (Some (parent_label s)) (aw_service w1) of
                          (Inl e, i) \<Rightarrow> raises e (w1\<lparr>aw_provider := p, aw_service := i\<rparr>)
                        | (Inr v, i) \<Rightarrow>
                            returns () (log_aegis ''AEGIS_CAPTURE_STARTED'' (ag_device s) True
                              (w1\<lparr>aw_provider := p, aw_service := i,
                                  aw_pipelines := (aw_pipelines w1)(aid \<mapsto> l1)\<rparr>))))))"

text \<open>
  What ends a capture: its pipeline is stopped, and with it the shared provider; the one
  notification is switched off whichever session it shows; a granted consent is revoked.
\<close>

definition release_capture :: "string \<Rightarrow> aegis_world \<Rightarrow> aegis_world" where
  "release_capture aid w =
     (let w1 = (case aw_pipelines w aid of
                  None \<Rightarrow> w
                | Some l \<Rightarrow> w\<lparr>aw_pipelines := (aw_pipelines w)(aid := None),
                              aw_provider := snd (pipeline_stop l (aw_provider w))\<rparr>)
      in w1\<lparr>aw_service := service_stop (aw_service w1)\<rparr>)"

definition withdraw_consent :: "calendar \<Rightarrow> int \<Rightarrow> string \<Rightarrow> string \<Rightarrow> gate \<Rightarrow> (gate, unit) outcome" where
  "withdraw_consent cal now screen reason g =
     (case consent_for_session screen g of
        None \<Rightarrow> returns () g
      | Some r \<Rightarrow>
          if cn_state r = CON_GRANTED then
            (case revoke_consent cal now (cn_token r) reason g of
               (Inl e, g') \<Rightarrow> raises e g' | (Inr x, g') \<Rightarrow> returns () g')
          else returns () g)"

definition stop_capture ::
  "calendar \<Rightarrow> int \<Rightarrow> string \<Rightarrow> string \<Rightarrow> aegis_world \<Rightarrow> (aegis_world, aegis_session) outcome" where
  "stop_capture cal now aid reason w =
     (case require_aegis aid w of
        Inl e \<Rightarrow> raises e w
      | Inr s \<Rightarrow>
         (let w1 = release_capture aid w in
          case withdraw_consent cal now (ag_screen s) reason (aw_gate w1) of
            (Inl e, g) \<Rightarrow> raises e (w1\<lparr>aw_gate := g\<rparr>)
          | (Inr u, g) \<Rightarrow>
             (let s1 = s\<lparr>ag_state := aegis_state_value AEG_STOPPED, ag_stopped := Some (write_iso cal now),
                         ag_stop_reason := Some reason\<rparr>
              in returns s1 (log_aegis ''AEGIS_CAPTURE_STOPPED'' (ag_device s) True
                   (save_aegis s1 (w1\<lparr>aw_gate := g\<rparr>))))))"

definition ended_state :: "string \<Rightarrow> bool" where
  [model_defs]: "ended_state st \<longleftrightarrow>
     st \<in> set (map aegis_state_value [AEG_STOPPED, AEG_EXPIRED, AEG_REVOKED])"

fun expire_sessions ::
  "calendar \<Rightarrow> int \<Rightarrow> aegis_session list \<Rightarrow> string list \<Rightarrow> aegis_world \<Rightarrow> (aegis_world, string list) outcome" where
  "expire_sessions cal now [] done w = returns done w"
| "expire_sessions cal now (s # rest) done w =
     (if ended_state (ag_state s) then expire_sessions cal now rest done w
      else case read_iso cal (ag_expires s) of
        Blank \<Rightarrow> expire_sessions cal now rest done w
      | Malformed x \<Rightarrow> expire_sessions cal now rest done w
      | Naive t \<Rightarrow> raises (Builtin PyTypeError) w
      | Aware t \<Rightarrow>
          if now \<le> t then expire_sessions cal now rest done w
          else case stop_capture cal now (ag_id s) ''EXPIRED'' w of
            (Inl e, w1) \<Rightarrow> raises e w1
          | (Inr s1, w1) \<Rightarrow>
              expire_sessions cal now rest (done @ [ag_id s])
                (save_aegis (s1\<lparr>ag_state := aegis_state_value AEG_EXPIRED\<rparr>) w1))"

definition expire_due_sessions :: "calendar \<Rightarrow> int \<Rightarrow> aegis_world \<Rightarrow> (aegis_world, string list) outcome" where
  "expire_due_sessions cal now w = expire_sessions cal now (aw_sessions w) [] w"

section \<open>Frames\<close>

text \<open>A tick and a drain of the pipeline \<^verbatim>\<open>start_capture\<close> returned.\<close>

definition capture_tick ::
  "(nat list \<Rightarrow> nat list) \<Rightarrow> (rat \<Rightarrow> rat) \<Rightarrow> (string \<Rightarrow> stamp) \<Rightarrow> tick_input \<Rightarrow> string \<Rightarrow> aegis_world \<Rightarrow>
   (aegis_world, screen_frame option) outcome" where
  "capture_tick sha fl rd i aid w =
     (case aw_pipelines w aid of
        None \<Rightarrow> raises (Aegis AegisFramePipelineError) w
      | Some l \<Rightarrow>
         (let (x, (l1, p, en)) = pipeline_tick sha fl rd i (l, aw_provider w, aw_encoder w)
          in (x, w\<lparr>aw_pipelines := (aw_pipelines w)(aid \<mapsto> l1), aw_provider := p, aw_encoder := en\<rparr>)))"

definition capture_drain :: "string \<Rightarrow> aegis_world \<Rightarrow> screen_frame list \<times> aegis_world" where
  "capture_drain aid w =
     (case aw_pipelines w aid of
        None \<Rightarrow> ([], w)
      | Some l \<Rightarrow>
         (let (fs, l1) = pipeline_drain l in (fs, w\<lparr>aw_pipelines := (aw_pipelines w)(aid \<mapsto> l1)\<rparr>)))"

end
