(* ===== verification/AegisRuns.thy ===== *)
theory AegisRuns
  imports AegisController
begin

text \<open>
  Runs of the Aegis controller: any sequence of its operations, with frames ticking and
  trust relations changing in between.  A run is the list of its operations, as in the trace
  models of protocols; \<open>aegis_run\<close> computes the state it ends in.
\<close>

section \<open>Operations\<close>

datatype aegis_op =
    CreateAegis int string aegis_request
  | RequestConsent int string string
  | GrantConsent int string string
  | DenyConsent int string string string
  | StartCapture int string "string option"
  | StopCapture int string string
  | ExpireSessions int
  | ExpireConsents int
  | TickCapture tick_input string
  | DrainCapture string
  | ChangeTrust "pairing_db option"

text \<open>What the operations take from outside: SHA-256, the rounding of floats, the calendar.\<close>

record platform_env =
  ev_sha :: "nat list \<Rightarrow> nat list"
  ev_round :: "rat \<Rightarrow> rat"
  ev_cal :: calendar

fun aegis_exec :: "platform_env \<Rightarrow> aegis_op \<Rightarrow> aegis_world \<Rightarrow> aegis_world" where
  "aegis_exec env (CreateAegis now aid q) w = snd (create_aegis (ev_cal env) now aid q w)"
| "aegis_exec env (RequestConsent now token aid) w = snd (request_system_consent (ev_cal env) now token aid w)"
| "aegis_exec env (GrantConsent now aid token) w = snd (grant_system_consent (ev_cal env) now aid token w)"
| "aegis_exec env (DenyConsent now aid token note) w =
     snd (deny_system_consent (ev_cal env) now aid token note w)"
| "aegis_exec env (StartCapture now aid transport) w = snd (start_capture (ev_cal env) now aid transport w)"
| "aegis_exec env (StopCapture now aid reason) w = snd (stop_capture (ev_cal env) now aid reason w)"
| "aegis_exec env (ExpireSessions now) w = snd (expire_due_sessions (ev_cal env) now w)"
| "aegis_exec env (ExpireConsents now) w =
     w\<lparr>aw_gate := snd (expire_due_consents (ev_cal env) now (aw_gate w))\<rparr>"
| "aegis_exec env (TickCapture i aid) w =
     snd (capture_tick (ev_sha env) (ev_round env) (read_iso (ev_cal env)) i aid w)"
| "aegis_exec env (DrainCapture aid) w = snd (capture_drain aid w)"
| "aegis_exec env (ChangeTrust t) w = w\<lparr>aw_trust := t\<rparr>"

definition aegis_run :: "platform_env \<Rightarrow> aegis_op list \<Rightarrow> aegis_world \<Rightarrow> aegis_world" where
  "aegis_run env ops w = foldl (\<lambda>w op. aegis_exec env op w) w ops"

lemma aegis_run_Nil [simp]: "aegis_run env [] w = w"
  by (simp add: aegis_run_def)

lemma aegis_run_snoc [simp]: "aegis_run env (ops @ [op]) w = aegis_exec env op (aegis_run env ops w)"
  by (simp add: aegis_run_def)

section \<open>Saving and logging leave the rest alone\<close>

lemma save_aegis_frame [simp]:
  "aw_gate (save_aegis s w) = aw_gate w" "aw_service (save_aegis s w) = aw_service w"
  "aw_pipelines (save_aegis s w) = aw_pipelines w" "aw_provider (save_aegis s w) = aw_provider w"
  "aw_encoder (save_aegis s w) = aw_encoder w" "aw_trust (save_aegis s w) = aw_trust w"
  "aw_duration (save_aegis s w) = aw_duration w" "aw_log (save_aegis s w) = aw_log w"
  "aw_sessions (save_aegis s w) = upsert_row ag_id s (\<lambda>old. s) (aw_sessions w)"
  by (simp_all add: save_aegis_def put_aegis_def Let_def split: sum.split)

lemma log_aegis_frame [simp]:
  "aw_gate (log_aegis ev a ok w) = aw_gate w" "aw_service (log_aegis ev a ok w) = aw_service w"
  "aw_pipelines (log_aegis ev a ok w) = aw_pipelines w" "aw_provider (log_aegis ev a ok w) = aw_provider w"
  "aw_encoder (log_aegis ev a ok w) = aw_encoder w" "aw_trust (log_aegis ev a ok w) = aw_trust w"
  "aw_duration (log_aegis ev a ok w) = aw_duration w" "aw_sessions (log_aegis ev a ok w) = aw_sessions w"
  by (simp_all add: log_aegis_def)

lemma get_saved_aegis [simp]:
  "get_aegis aid (save_aegis s w) = (if aid = ag_id s then Some s else get_aegis aid w)"
  by (simp add: get_aegis_def fetch_upsert_whole)

lemma get_logged_aegis [simp]: "get_aegis aid (log_aegis ev a ok w) = get_aegis aid w"
  by (simp add: get_aegis_def)

lemma get_aegis_id [dest]: "get_aegis aid w = Some s \<Longrightarrow> ag_id s = aid"
  by (auto simp: get_aegis_def dest: fetch_where_Some)

lemma get_aegis_mem: "get_aegis aid w = Some s \<Longrightarrow> s \<in> set (aw_sessions w)"
  by (auto simp: get_aegis_def dest: fetch_where_Some)

text \<open>Every predicate of a state that each operation keeps holds along every run.\<close>

lemma aegis_run_invariant:
  assumes "P w" and "\<And>op v. P v \<Longrightarrow> P (aegis_exec env op v)"
  shows "P (aegis_run env ops w)"
  using assms(1) by (induction ops rule: rev_induct) (simp_all add: assms(2))

text \<open>A loop over the sessions keeps what stopping and marking one of them keeps.\<close>

lemma expire_sessions_invariant:
  assumes "P w"
    and "\<And>v aid. P v \<Longrightarrow> P (snd (stop_capture cal now aid ''EXPIRED'' v))"
    and "\<And>v aid s v'. P v' \<Longrightarrow> stop_capture cal now aid ''EXPIRED'' v = (Inr s, v') \<Longrightarrow> P v \<Longrightarrow>
       P (save_aegis (s\<lparr>ag_state := aegis_state_value AEG_EXPIRED\<rparr>) v')"
  shows "P (snd (expire_sessions cal now ss done w))"
  using assms(1)
proof (induction ss arbitrary: "done" w)
  case Nil
  then show ?case by simp
next
  case (Cons s ss)
  obtain x w1 where stop: "stop_capture cal now (ag_id s) ''EXPIRED'' w = (x, w1)" by fastforce
  have w1: "P w1" using assms(2)[OF Cons.prems, of "ag_id s"] stop by simp
  show ?case
  proof (cases x)
    case (Inl e)
    with Cons stop w1 show ?thesis by (auto split: stamp.splits)
  next
    case (Inr s1)
    then have "P (save_aegis (s1\<lparr>ag_state := aegis_state_value AEG_EXPIRED\<rparr>) w1)"
      using assms(3)[OF w1 _ Cons.prems] stop by simp
    with Cons stop Inr show ?thesis by (auto split: stamp.splits)
  qed
qed

section \<open>What stopping does\<close>

lemma release_frame [simp]:
  "aw_gate (release_capture aid w) = aw_gate w" "aw_sessions (release_capture aid w) = aw_sessions w"
  "aw_trust (release_capture aid w) = aw_trust w" "aw_encoder (release_capture aid w) = aw_encoder w"
  "aw_service (release_capture aid w) = service_stop (aw_service w)"
  "aw_pipelines (release_capture aid w) = (aw_pipelines w)(aid := None)"
  "pv_caps (aw_provider (release_capture aid w)) = pv_caps (aw_provider w)"
  "aw_pipelines w aid = None \<Longrightarrow> aw_provider (release_capture aid w) = aw_provider w"
  by (auto simp: release_capture_def Let_def pipeline_stop_def provider_stop_def fun_eq_iff split: option.split)

lemma stop_capture_cases:
  obtains (missing) e where "stop_capture cal now aid reason w = (Inl e, w)" "get_aegis aid w = None"
  | (refused) s e g where "get_aegis aid w = Some s"
    "withdraw_consent cal now (ag_screen s) reason (aw_gate w) = (Inl e, g)"
    "stop_capture cal now aid reason w = (Inl e, (release_capture aid w)\<lparr>aw_gate := g\<rparr>)"
  | (stopped) s u g s1 where "get_aegis aid w = Some s"
    "withdraw_consent cal now (ag_screen s) reason (aw_gate w) = (Inr u, g)"
    "s1 = s\<lparr>ag_state := aegis_state_value AEG_STOPPED, ag_stopped := Some (write_iso cal now),
       ag_stop_reason := Some reason\<rparr>"
    "stop_capture cal now aid reason w = (Inr s1, log_aegis ''AEGIS_CAPTURE_STOPPED'' (ag_device s) True
       (save_aegis s1 ((release_capture aid w)\<lparr>aw_gate := g\<rparr>)))"
proof (cases "get_aegis aid w")
  case None
  then show thesis using missing by (simp add: stop_capture_def require_aegis_def)
next
  case (Some s)
  obtain x g where out: "withdraw_consent cal now (ag_screen s) reason (aw_gate w) = (x, g)" by fastforce
  show thesis
  proof (cases x)
    case (Inl e)
    then show thesis using refused[of s e g] Some out by (simp add: stop_capture_def require_aegis_def)
  next
    case (Inr u)
    then show thesis using stopped[OF Some, of u g] out Some
      by (simp add: stop_capture_def require_aegis_def Let_def)
  qed
qed

section \<open>What starting does\<close>

lemma pipeline_start_frame:
  "pipeline_start l p = (x, (l', p')) \<Longrightarrow> pv_caps p' = pv_caps p"
  by (auto simp: pipeline_start_def provider_start_def split: if_splits sum.splits prod.splits
      provider_kind.splits bool.splits)

lemma service_start_refused: "service_start cal now sid par i = (Inl e, i') \<Longrightarrow> i' = i"
  by (auto simp: service_start_def split: if_splits)

text \<open>
  A capture is refused at once, or the session is marked as capturing first and then the
  pipeline or the notification may still refuse.
\<close>

lemma start_capture_cases:
  obtains (refused) e where "start_capture cal now aid tr w = (Inl e, w)"
  | (failed) s e p i where "get_aegis aid w = Some s" "pv_caps p = pv_caps (aw_provider w)"
    "\<exists>d. assert_capture_allowed (ag_screen s) (aw_gate w) = Inr d" "i = aw_service w"
    "start_capture cal now aid tr w =
       (Inl e, (save_aegis (capturing cal now tr s) w)\<lparr>aw_provider := p, aw_service := i\<rparr>)"
  | (started) s d l l1 p i where "get_aegis aid w = Some s"
    "assert_capture_allowed (ag_screen s) (aw_gate w) = Inr d"
    "new_pipeline (aw_provider w) (ag_screen s) (ag_device s) 1280 720 10 (4 * 1024 * 1024) 30 BP_DROP_OLDEST = Inr l"
    "pipeline_start l (aw_provider w) = (Inr (), (l1, p))"
    "service_start cal now aid (Some (parent_label s)) (aw_service w) = (Inr (), i)"
    "start_capture cal now aid tr w = (Inr (), log_aegis ''AEGIS_CAPTURE_STARTED'' (ag_device s) True
       ((save_aegis (capturing cal now tr s) w)\<lparr>aw_provider := p, aw_service := i,
          aw_pipelines := (aw_pipelines w)(aid \<mapsto> l1)\<rparr>))"
proof (cases "get_aegis aid w")
  case None
  then show thesis using refused by (simp add: start_capture_def require_aegis_def)
next
  case get: (Some s)
  show thesis
  proof (cases "assert_capture_allowed (ag_screen s) (aw_gate w)")
    case (Inl e)
    then show thesis using refused get by (simp add: start_capture_def require_aegis_def)
  next
    case allowed: (Inr d)
    let ?new = "new_pipeline (aw_provider w) (ag_screen s) (ag_device s) 1280 720 10 (4 * 1024 * 1024) 30 BP_DROP_OLDEST"
    show thesis
    proof (cases "provider_real (aw_provider w) \<or> provider_available (aw_provider w)")
      case False
      then show thesis using refused get allowed by (simp add: start_capture_def require_aegis_def)
    next
      case ready: True
      note simps = start_capture_def require_aegis_def get allowed
      show thesis
      proof (cases ?new)
        case (Inl e)
        then show thesis
          using failed[OF get refl _ refl, of e] ready by (auto simp: simps)
      next
        case new: (Inr l)
        obtain x l1 p where start: "pipeline_start l (aw_provider w) = (x, (l1, p))" by (metis prod_cases3)
        note caps = pipeline_start_frame[OF start]
        show thesis
        proof (cases x)
          case (Inl e)
          then show thesis
            using failed[OF get caps _ refl, of e] ready new start by (auto simp: simps)
        next
          case (Inr u)
          obtain y i where serv: "service_start cal now aid (Some (parent_label s)) (aw_service w) = (y, i)"
            by fastforce
          show thesis
          proof (cases y)
            case (Inl e)
            then show thesis
              using failed[OF get caps _ service_start_refused[OF serv[unfolded Inl]], of e] ready new start
                \<open>x = Inr u\<close> serv allowed
              by (auto simp: simps)
          next
            case (Inr v)
            then show thesis
              using started[OF get allowed new, of l1 p i] ready new start \<open>x = Inr u\<close> serv
              by (auto simp: simps)
          qed
        qed
      qed
    qed
  qed
qed

section \<open>The identity of a session\<close>

definition same_session :: "aegis_session \<Rightarrow> aegis_session \<Rightarrow> bool" where
  "same_session a b \<longleftrightarrow> ag_id b = ag_id a \<and> ag_screen b = ag_screen a \<and> ag_device b = ag_device a \<and>
     ag_parent b = ag_parent a"

lemma same_session_refl [simp]: "same_session s s"
  by (simp add: same_session_def)

lemma upserted: "x \<in> set (upsert_row key r (\<lambda>old. r) rows) \<Longrightarrow> x = r \<or> x \<in> set rows"
  by (auto simp: upsert_row_def update_where_def split: if_splits)

lemma upserted_mem: "r \<in> set (upsert_row key r (\<lambda>old. r) rows)"
  by (force simp: upsert_row_def update_where_def has_key_iff image_iff)

definition keeps_sessions :: "aegis_world \<Rightarrow> aegis_world \<Rightarrow> bool" where
  "keeps_sessions w w' \<longleftrightarrow> (\<forall>s' \<in> set (aw_sessions w'). \<exists>s \<in> set (aw_sessions w). same_session s s')"

lemma keeps_sessions_refl [simp]: "aw_sessions w' = aw_sessions w \<Longrightarrow> keeps_sessions w w'"
  unfolding keeps_sessions_def by (metis same_session_refl)

lemma keeps_sessions_trans: "keeps_sessions a b \<Longrightarrow> keeps_sessions b c \<Longrightarrow> keeps_sessions a c"
  by (fastforce simp: keeps_sessions_def same_session_def)

lemma keeps_sessions_save:
  assumes "s0 \<in> set (aw_sessions w)" and "same_session s0 s" and "aw_sessions v = aw_sessions w"
  shows "keeps_sessions w (save_aegis s v)"
  unfolding keeps_sessions_def using assms upserted[of _ ag_id s "aw_sessions w"]
  by (metis same_session_refl save_aegis_frame(9))

lemma keeps_sessions_log [simp]: "keeps_sessions w (log_aegis ev a ok v) = keeps_sessions w v"
  by (simp add: keeps_sessions_def)

lemma stop_keeps_sessions: "keeps_sessions w (snd (stop_capture cal now aid reason w))"
proof (cases rule: stop_capture_cases[of cal now aid reason w])
  case (stopped s u g s1)
  then show ?thesis
    using keeps_sessions_save[OF get_aegis_mem[OF stopped(1)], of s1] by (simp add: same_session_def)
qed simp_all

lemma start_keeps_sessions: "keeps_sessions w (snd (start_capture cal now aid tr w))"
proof (cases rule: start_capture_cases[of cal now aid tr w])
  case (failed s e p i)
  have "keeps_sessions w (save_aegis (capturing cal now tr s) w)"
    using keeps_sessions_save[OF get_aegis_mem[OF failed(1)]] by (simp add: same_session_def capturing_def)
  then show ?thesis using failed by (simp add: keeps_sessions_def)
next
  case (started s d l l1 p i)
  have "keeps_sessions w (save_aegis (capturing cal now tr s) w)"
    using keeps_sessions_save[OF get_aegis_mem[OF started(1)]] by (simp add: same_session_def capturing_def)
  then show ?thesis using started by (simp add: keeps_sessions_def)
qed simp_all

lemma exec_keeps_sessions:
  assumes "\<forall>now aid q. op \<noteq> CreateAegis now aid q"
  shows "keeps_sessions w (aegis_exec env op w)"
proof (cases op)
  case (CreateAegis now aid q)
  with assms show ?thesis by simp
next
  case (RequestConsent now token aid)
  then show ?thesis
    by (auto simp: request_system_consent_def require_aegis_def same_session_def
        intro!: keeps_sessions_save[OF get_aegis_mem] split: option.split prod.split sum.split)
next
  case (GrantConsent now aid token)
  then show ?thesis
    by (auto simp: grant_system_consent_def require_aegis_def same_session_def
        intro!: keeps_sessions_save[OF get_aegis_mem] split: option.split prod.split sum.split)
next
  case (DenyConsent now aid token why)
  then show ?thesis
    by (auto simp: deny_system_consent_def require_aegis_def same_session_def
        intro!: keeps_sessions_save[OF get_aegis_mem] split: option.split prod.split sum.split)
next
  case (StartCapture now aid tr)
  then show ?thesis by (simp add: start_keeps_sessions)
next
  case (StopCapture now aid reason)
  then show ?thesis by (simp add: stop_keeps_sessions)
next
  case (ExpireSessions now)
  have "keeps_sessions w (snd (expire_sessions (ev_cal env) now (aw_sessions w) [] w))"
  proof (rule expire_sessions_invariant)
    fix v aid assume "keeps_sessions w v"
    then show "keeps_sessions w (snd (stop_capture (ev_cal env) now aid ''EXPIRED'' v))"
      using stop_keeps_sessions keeps_sessions_trans by blast
  next
    fix v aid s v'
    assume "keeps_sessions w v'" and "stop_capture (ev_cal env) now aid ''EXPIRED'' v = (Inr s, v')"
    moreover have "s \<in> set (aw_sessions v')"
      using \<open>stop_capture (ev_cal env) now aid ''EXPIRED'' v = (Inr s, v')\<close>
      by (cases rule: stop_capture_cases[of "ev_cal env" now aid "''EXPIRED''" v])
        (auto simp: upserted_mem)
    ultimately have "keeps_sessions v' (save_aegis (s\<lparr>ag_state := aegis_state_value AEG_EXPIRED\<rparr>) v')"
      by (intro keeps_sessions_save[of s]) (simp_all add: same_session_def)
    then show "keeps_sessions w (save_aegis (s\<lparr>ag_state := aegis_state_value AEG_EXPIRED\<rparr>) v')"
      using \<open>keeps_sessions w v'\<close> keeps_sessions_trans by blast
  qed simp
  then show ?thesis using ExpireSessions by (simp add: expire_due_sessions_def)
next
  case (ExpireConsents now)
  then show ?thesis by simp
next
  case (TickCapture i aid)
  then show ?thesis by (simp add: capture_tick_def split: option.split prod.split)
next
  case (DrainCapture aid)
  then show ?thesis by (simp add: capture_drain_def split: option.split prod.split)
next
  case (ChangeTrust t)
  then show ?thesis by simp
qed

end
