(* ===== verification/AegisProps.thy ===== *)
theory AegisProps
  imports AegisRuns
begin

text \<open>
  What the Aegis controller guarantees along its runs, and what it does not.
\<close>

section \<open>The gate along a run\<close>

text \<open>What an operation may do to the gate.\<close>

definition tightens :: "gate \<Rightarrow> gate \<Rightarrow> bool" where
  "tightens g g' \<longleftrightarrow> gt_caps g' = gt_caps g \<and> gt_sessions g' = gt_sessions g \<and>
     (\<forall>t. consent_of t g' = Some CON_GRANTED \<longrightarrow> consent_of t g = Some CON_GRANTED) \<and>
     (gt_records g = [] \<longrightarrow> gt_records g' = [])"

lemma tightens_refl [simp]: "tightens g g"
  by (simp add: tightens_def)

lemma tightens_trans: "tightens a b \<Longrightarrow> tightens b c \<Longrightarrow> tightens a c"
  by (simp add: tightens_def)

lemma tightens_put:
  assumes "get_record t g = Some r" and "cn_token r' = cn_token r" and "cn_state r' \<noteq> CON_GRANTED"
  shows "tightens g (put_record r' g)"
proof -
  have "gt_records g \<noteq> []" using assms(1) by (auto simp: get_record_def fetch_where_def)
  then show ?thesis using assms by (auto simp: tightens_def consent_of_def)
qed

lemma deny_tightens: "tightens g (snd (deny_consent cal now t note g))"
  by (auto simp: deny_consent_def require_record_def Let_def split: option.split intro!: tightens_put)

lemma revoke_tightens: "tightens g (snd (revoke_consent cal now t note g))"
  by (auto simp: revoke_consent_def require_record_def Let_def split: option.split intro!: tightens_put)

lemma withdraw_tightens:
  assumes "withdraw_consent cal now sc why g = (x, g')"
  shows "tightens g g'"
proof (cases "consent_for_session sc g")
  case None
  then show ?thesis using assms by (simp add: withdraw_consent_def)
next
  case (Some r)
  obtain y g1 where "revoke_consent cal now (cn_token r) why g = (y, g1)" by fastforce
  then show ?thesis using assms Some revoke_tightens[of g cal now "cn_token r" why]
    by (auto simp: withdraw_consent_def split: if_splits sum.splits)
qed

lemma expire_consents_tightens:
  assumes "gt_records g = [] \<Longrightarrow> rs = []"
  shows "tightens g (snd (expire_consents cal now rs done g))"
  using assms
proof (induction cal now rs "done" g rule: expire_consents.induct)
  case (2 cal now r rs "done" g)
  have nonempty: "gt_records g \<noteq> []" using "2.prems" by auto
  moreover have "gt_records (put_record r' g) \<noteq> []" for r'
    using nonempty by (auto simp: put_record_def upsert_row_def update_where_def)
  moreover have "tightens g (put_record (r\<lparr>cn_state := CON_EXPIRED\<rparr>) g)"
    using nonempty by (auto simp: tightens_def consent_of_def)
  ultimately show ?case using 2 by (auto split: stamp.splits intro: tightens_trans)
qed simp

lemma stop_tightens: "tightens (aw_gate w) (aw_gate (snd (stop_capture cal now aid why w)))"
  by (cases rule: stop_capture_cases[of cal now aid why w]) (auto dest: withdraw_tightens)

lemma expire_sessions_tightens: "tightens (aw_gate w) (aw_gate (snd (expire_sessions cal now ss done w)))"
  by (rule expire_sessions_invariant[where P = "\<lambda>v. tightens (aw_gate w) (aw_gate v)"])
    (auto intro: tightens_trans stop_tightens)

lemma start_keeps_gate [simp]: "aw_gate (snd (start_capture cal now aid tr w)) = aw_gate w"
  by (cases rule: start_capture_cases[of cal now aid tr w]) simp_all

text \<open>Only a request points a screen session to a token, and only a grant grants one.\<close>

lemma exec_tightens:
  assumes "\<forall>now t aid. op \<noteq> RequestConsent now t aid" and "\<forall>now aid t. op \<noteq> GrantConsent now aid t"
  shows "tightens (aw_gate w) (aw_gate (aegis_exec env op w))"
proof (cases op)
  case (CreateAegis now aid q)
  then show ?thesis by (auto simp: create_aegis_def Let_def split: option.split)
next
  case (DenyConsent now aid t why)
  then show ?thesis using deny_tightens[of "aw_gate w" "ev_cal env" now t why]
    by (auto simp: deny_system_consent_def split: sum.split prod.split)
next
  case (ExpireSessions now)
  then show ?thesis by (simp add: expire_due_sessions_def expire_sessions_tightens)
next
  case (ExpireConsents now)
  then show ?thesis by (simp add: expire_due_consents_def expire_consents_tightens)
next
  case (TickCapture i aid)
  then show ?thesis by (simp add: capture_tick_def split: option.split prod.split)
next
  case (DrainCapture aid)
  then show ?thesis by (simp add: capture_drain_def split: option.split prod.split)
qed (use assms stop_tightens in auto)

lemma exec_request:
  "aw_gate (aegis_exec env (RequestConsent now t aid) w) = aw_gate w \<or>
   (\<exists>s. get_aegis aid w = Some s \<and>
      gt_sessions (aw_gate (aegis_exec env (RequestConsent now t aid) w)) = (gt_sessions (aw_gate w))(ag_screen s \<mapsto> t) \<and>
      consent_of t (aw_gate (aegis_exec env (RequestConsent now t aid) w)) = Some CON_REQUESTED \<and>
      (\<forall>t'. t' \<noteq> t \<longrightarrow> consent_of t' (aw_gate (aegis_exec env (RequestConsent now t aid) w)) = consent_of t' (aw_gate w)))"
  by (auto simp: request_system_consent_def require_aegis_def request_consent_def Let_def consent_of_def
      get_record_def put_record_def fetch_upsert_whole split: option.split)

lemma exec_grant:
  "gt_sessions (aw_gate (aegis_exec env (GrantConsent now aid t) w)) = gt_sessions (aw_gate w) \<and>
   (\<forall>t'. t' \<noteq> t \<longrightarrow> consent_of t' (aw_gate (aegis_exec env (GrantConsent now aid t) w)) = consent_of t' (aw_gate w))"
  by (auto simp: grant_system_consent_def require_aegis_def grant_consent_def require_record_def Let_def
      consent_of_def split: option.split)

lemma exec_caps [simp]: "gt_caps (aw_gate (aegis_exec env op w)) = gt_caps (aw_gate w)"
proof (cases "(\<exists>now t aid. op = RequestConsent now t aid) \<or> (\<exists>now aid t. op = GrantConsent now aid t)")
  case True
  then show ?thesis
    by (auto simp: request_system_consent_def grant_system_consent_def require_aegis_def request_consent_def
        grant_consent_def require_record_def Let_def split: option.split)
next
  case False
  then show ?thesis using exec_tightens[of op w env] by (auto simp: tightens_def)
qed

section \<open>No capture without consent and trust\<close>

text \<open>A session was created, under these names, when the parent trusted the device.\<close>

lemma created_under_trust:
  assumes "s \<in> set (aw_sessions (aegis_run env ops w))" and "aw_sessions w = []"
  shows "\<exists>a now q b. ops = a @ CreateAegis now (ag_id s) q # b \<and> ar_screen q = ag_screen s \<and>
    ar_device q = ag_device s \<and> ar_parent q = ag_parent s \<and>
    assert_aegis_trust (ag_parent s) (ag_device s) (aegis_run env a w) = None"
  using assms(1)
proof (induction ops arbitrary: s rule: rev_induct)
  case Nil
  then show ?case using assms(2) by simp
next
  case (snoc op ops)
  let ?w = "aegis_run env ops w"
  have old: ?case if "s0 \<in> set (aw_sessions ?w)" "same_session s0 s" for s0
    using snoc.IH[OF that(1)] that(2) unfolding same_session_def by (metis append_Cons append_assoc)
  show ?case
  proof (cases "\<exists>now aid q. op = CreateAegis now aid q")
    case False
    then have "keeps_sessions ?w (aegis_exec env op ?w)" using exec_keeps_sessions by blast
    then show ?thesis using old snoc.prems unfolding keeps_sessions_def aegis_run_snoc by blast
  next
    case True
    then obtain now aid q where op: "op = CreateAegis now aid q" by blast
    have "s \<in> set (aw_sessions ?w) \<or> (ag_id s = aid \<and> ar_screen q = ag_screen s \<and>
        ar_device q = ag_device s \<and> ar_parent q = ag_parent s \<and>
        assert_aegis_trust (ag_parent s) (ag_device s) ?w = None)"
      using snoc.prems op
      by (auto simp: create_aegis_def Let_def split: if_splits option.splits dest!: upserted)
    then show ?thesis using old[of s] op by (metis append_Nil2 same_session_refl append_Cons append_assoc)
  qed
qed

lemma asked_for:
  assumes "gt_sessions (aw_gate (aegis_run env ops w)) sc = Some t" and "gt_sessions (aw_gate w) = Map.empty"
  shows "\<exists>a n aid b s. ops = a @ RequestConsent n t aid # b \<and> get_aegis aid (aegis_run env a w) = Some s \<and>
    ag_screen s = sc"
  using assms(1)
proof (induction ops rule: rev_induct)
  case Nil
  then show ?case using assms(2) by simp
next
  case (snoc op ops)
  let ?w = "aegis_run env ops w"
  have old: ?case if "gt_sessions (aw_gate ?w) sc = Some t"
    using snoc.IH[OF that] by (metis append_Cons append_assoc)
  show ?case
  proof (cases "gt_sessions (aw_gate ?w) sc = Some t")
    case True
    then show ?thesis by (rule old)
  next
    case False
    obtain now t' aid where op: "op = RequestConsent now t' aid"
      using exec_tightens[of op ?w env] exec_grant[of env _ _ _ ?w] snoc.prems False
      unfolding tightens_def aegis_run_snoc by metis
    from exec_request[of env now t' aid ?w] snoc.prems False op
    obtain s where "get_aegis aid ?w = Some s" "ag_screen s = sc" "t' = t"
      by (auto split: if_splits)
    then show ?thesis using op by (metis append_Nil2)
  qed
qed

text \<open>
  The last request of a screen session, if it is granted, was asked for, then granted, and
  has stayed granted since.
\<close>

definition granted_since ::
  "platform_env \<Rightarrow> aegis_world \<Rightarrow> aegis_op list \<Rightarrow> string \<Rightarrow> string \<Rightarrow> bool" where
  "granted_since env w ops sc t \<longleftrightarrow>
     (\<exists>a n aid b n' aid' c s. ops = a @ RequestConsent n t aid # b @ GrantConsent n' aid' t # c \<and>
        get_aegis aid (aegis_run env a w) = Some s \<and> ag_screen s = sc \<and>
        (\<forall>c1 c2. c = c1 @ c2 \<longrightarrow>
           consent_of t (aw_gate (aegis_run env (a @ RequestConsent n t aid # b @ GrantConsent n' aid' t # c1) w))
             = Some CON_GRANTED))"

lemma granted_since_snoc:
  assumes "granted_since env w ops sc t"
    and "consent_of t (aw_gate (aegis_run env (ops @ [op]) w)) = Some CON_GRANTED"
  shows "granted_since env w (ops @ [op]) sc t"
proof -
  from assms(1) obtain a n aid b n' aid' c s where
    ops: "ops = a @ RequestConsent n t aid # b @ GrantConsent n' aid' t # c"
    and s: "get_aegis aid (aegis_run env a w) = Some s" "ag_screen s = sc"
    and since: "\<forall>c1 c2. c = c1 @ c2 \<longrightarrow>
      consent_of t (aw_gate (aegis_run env (a @ RequestConsent n t aid # b @ GrantConsent n' aid' t # c1) w))
        = Some CON_GRANTED"
    unfolding granted_since_def by blast
  have "consent_of t (aw_gate (aegis_run env (a @ RequestConsent n t aid # b @ GrantConsent n' aid' t # c1) w))
      = Some CON_GRANTED" if "c @ [op] = c1 @ c2" for c1 c2
  proof (cases c2 rule: rev_cases)
    case Nil
    then show ?thesis using that assms(2) ops by (metis append_Cons append_Nil2 append_assoc)
  next
    case (snoc c3 x)
    then have "c = c1 @ c3" using that by simp
    then show ?thesis using since by blast
  qed
  moreover have "ops @ [op] = a @ RequestConsent n t aid # b @ GrantConsent n' aid' t # (c @ [op])"
    by (simp add: ops)
  ultimately show ?thesis unfolding granted_since_def using s by blast
qed

lemma consent_granted_since:
  assumes "gt_sessions (aw_gate (aegis_run env ops w)) sc = Some t"
    and "consent_of t (aw_gate (aegis_run env ops w)) = Some CON_GRANTED"
    and "gt_sessions (aw_gate w) = Map.empty"
  shows "granted_since env w ops sc t"
  using assms(1,2)
proof (induction ops rule: rev_induct)
  case Nil
  then show ?case using assms(3) by simp
next
  case (snoc op ops)
  let ?w = "aegis_run env ops w"
  have now: "consent_of t (aw_gate (aegis_exec env op ?w)) = Some CON_GRANTED"
    and at: "gt_sessions (aw_gate (aegis_exec env op ?w)) sc = Some t" using snoc.prems by simp_all
  have before: "gt_sessions (aw_gate ?w) sc = Some t"
  proof (rule ccontr)
    assume other: "gt_sessions (aw_gate ?w) sc \<noteq> Some t"
    then obtain n t' aid where "op = RequestConsent n t' aid"
      using exec_tightens[of op ?w env] exec_grant[of env _ _ _ ?w] at unfolding tightens_def by metis
    with exec_request[of env n t' aid ?w] other at now show False by (auto split: if_splits)
  qed
  show ?case
  proof (cases "consent_of t (aw_gate ?w) = Some CON_GRANTED")
    case True
    then show ?thesis using granted_since_snoc[OF snoc.IH[OF before True]] snoc.prems(2) by blast
  next
    case False
    have "\<exists>n' aid'. op = GrantConsent n' aid' t"
    proof (rule ccontr)
      assume no: "\<not> ?thesis"
      show False
      proof (cases "\<exists>n t' aid. op = RequestConsent n t' aid")
        case True
        then obtain n t' aid where "op = RequestConsent n t' aid" by blast
        then show False using exec_request[of env n t' aid ?w] now False by (cases "t' = t") auto
      next
        case notreq: False
        show False
        proof (cases "\<exists>n' aid' t'. op = GrantConsent n' aid' t'")
          case True
          then obtain n' aid' t' where "op = GrantConsent n' aid' t'" by blast
          then show False using exec_grant[of env n' aid' t' ?w] no now False by (cases "t' = t") auto
        next
          case False
          then show False using exec_tightens[of op ?w env] notreq now \<open>consent_of t (aw_gate ?w) \<noteq> Some CON_GRANTED\<close>
            unfolding tightens_def by blast
        qed
      qed
    qed
    then obtain n' aid' where op: "op = GrantConsent n' aid' t" by blast
    from asked_for[OF before assms(3)] obtain a n aid b s where
      ops: "ops = a @ RequestConsent n t aid # b" and s: "get_aegis aid (aegis_run env a w) = Some s" "ag_screen s = sc"
      by blast
    have eq: "ops @ [op] = a @ RequestConsent n t aid # b @ GrantConsent n' aid' t # []" by (simp add: ops op)
    then have "\<forall>c1 c2. ([]::aegis_op list) = c1 @ c2 \<longrightarrow>
      consent_of t (aw_gate (aegis_run env (a @ RequestConsent n t aid # b @ GrantConsent n' aid' t # c1) w))
        = Some CON_GRANTED"
      using snoc.prems(2) by (metis Nil_is_append_conv)
    with eq s show ?thesis unfolding granted_since_def by blast
  qed
qed


end
