(* ===== verification/AegisClaims.thy ===== *)
theory AegisClaims
  imports AegisProps
begin

text \<open>
  The other properties of the capture: nothing is captured off Android, the buffered frames
  are bounded, the frames of a pipeline are numbered in order; and the gaps of the gate: the
  notification, the trust relation and the deadline of a consent.
\<close>

section \<open>Off Android\<close>

definition switched_off :: "provider_caps \<Rightarrow> aegis_world \<Rightarrow> bool" where
  "switched_off c w \<longleftrightarrow> gt_caps (aw_gate w) = c \<and> gt_records (aw_gate w) = [] \<and>
     aw_pipelines w = Map.empty \<and> \<not> si_active (aw_service w) \<and>
     (\<forall>s \<in> set (aw_sessions w). ag_state s \<noteq> aegis_state_value AEG_CAPTURING)"

lemma off_refuses:
  assumes "switched_off c w" and "pc_platform c \<noteq> PLAT_ANDROID"
  obtains e where "start_capture cal now aid tr w = (Inl e, w)"
proof (cases rule: start_capture_cases[of cal now aid tr w])
  case (refused e)
  then show thesis by (rule that)
next
  case (failed s e p i)
  then show thesis using assms capture_allowed_iff by (auto simp: switched_off_def)
next
  case (started s d l l1 p i)
  then show thesis using assms capture_allowed_iff by (auto simp: switched_off_def)
qed

lemma off_saved:
  assumes "switched_off c w" and "ag_state s \<noteq> aegis_state_value AEG_CAPTURING"
  shows "switched_off c (save_aegis s w)"
  using assms upserted[of _ ag_id s "aw_sessions w"] by (auto simp: switched_off_def)

lemma off_stopped: "switched_off c w \<Longrightarrow> switched_off c (snd (stop_capture cal now aid why w))"
proof (cases rule: stop_capture_cases[of cal now aid why w])
  case (stopped s u g s1)
  assume off: "switched_off c w"
  then have "tightens (aw_gate w) g" using stopped(2) withdraw_tightens by blast
  with off have "switched_off c ((release_capture aid w)\<lparr>aw_gate := g\<rparr>)"
    by (auto simp: switched_off_def tightens_def service_stop_def)
  from off_saved[OF this, of s1] show ?thesis using stopped(3,4) by (simp add: switched_off_def)
next
  case (refused s e g)
  assume off: "switched_off c w"
  then have "tightens (aw_gate w) g" using refused(2) withdraw_tightens by blast
  with off show ?thesis using refused(3) by (auto simp: switched_off_def tightens_def service_stop_def)
qed simp

lemma off_step:
  assumes "switched_off c w" and "pc_platform c \<noteq> PLAT_ANDROID"
  shows "switched_off c (aegis_exec env op w)"
proof (cases op)
  case (CreateAegis now aid q)
  then show ?thesis using assms(1)
    by (auto simp: create_aegis_def Let_def switched_off_def split: option.split dest!: upserted)
next
  case (RequestConsent now t aid)
  then show ?thesis using assms
    by (auto simp: request_system_consent_def request_consent_def assert_android_platform_def
        platform_real_capture_def switched_off_def split: sum.split)
next
  case (GrantConsent now aid t)
  then show ?thesis using assms
    by (auto simp: grant_system_consent_def grant_consent_def assert_android_platform_def
        platform_real_capture_def switched_off_def split: sum.split)
next
  case (DenyConsent now aid t why)
  then show ?thesis using assms
    by (auto simp: deny_system_consent_def deny_consent_def assert_android_platform_def
        platform_real_capture_def switched_off_def split: sum.split)
next
  case (StartCapture now aid tr)
  obtain e where "start_capture (ev_cal env) now aid tr w = (Inl e, w)" using off_refuses[OF assms] by blast
  then show ?thesis using assms(1) StartCapture by simp
next
  case (StopCapture now aid why)
  then show ?thesis using assms(1) by (simp add: off_stopped)
next
  case (ExpireSessions now)
  have "switched_off c (snd (expire_sessions (ev_cal env) now (aw_sessions w) [] w))"
    by (rule expire_sessions_invariant) (use assms(1) in \<open>auto intro: off_stopped off_saved\<close>)
  then show ?thesis using ExpireSessions by (simp add: expire_due_sessions_def)
next
  case (ExpireConsents now)
  then show ?thesis using assms(1) by (auto simp: expire_due_consents_def switched_off_def)
next
  case (TickCapture i aid)
  then show ?thesis using assms(1) by (auto simp: capture_tick_def switched_off_def)
next
  case (DrainCapture aid)
  then show ?thesis using assms(1) by (auto simp: capture_drain_def switched_off_def)
next
  case (ChangeTrust t)
  then show ?thesis using assms(1) by (simp add: switched_off_def)
qed

text \<open>
  C31: on any platform but Android, whatever is called, no session is ever capturing, no
  pipeline exists, the notification is off, and every attempt to start is refused.
\<close>

theorem no_capture_off_android:
  assumes "pc_platform (pv_caps p) \<noteq> PLAT_ANDROID"
    and "w = aegis_run env ops (new_aegis p en duration trust rows)"
  shows "aw_pipelines w = Map.empty \<and> \<not> si_active (aw_service w) \<and>
    (\<forall>s \<in> set (aw_sessions w). ag_state s \<noteq> aegis_state_value AEG_CAPTURING) \<and>
    (\<exists>e. start_capture cal now aid tr w = raises e w)"
proof -
  have "switched_off (pv_caps p) w" unfolding assms(2)
    by (rule aegis_run_invariant[where P = "switched_off (pv_caps p)"])
      (simp_all add: off_step assms(1), simp add: switched_off_def new_aegis_def new_gate_def new_service_indicator_def)
  with off_refuses[OF this assms(1), of cal now aid tr] show ?thesis by (auto simp: switched_off_def)
qed

section \<open>Bounded frames\<close>

definition pipeline_ok :: "pipeline \<Rightarrow> bool" where
  "pipeline_ok l \<longleftrightarrow> buffer_ok (pl_buffer l) \<and> fb_session (pl_buffer l) = pl_screen l \<and>
     fb_validator (pl_buffer l) = \<lparr>fv_width = 1280, fv_height = 720, fv_payload = 4 * 1024 * 1024, fv_fps = 10\<rparr> \<and>
     bq_max (fb_queue (pl_buffer l)) = 30"

lemma counting_buffer [simp]:
  "pl_buffer (counting f l) = pl_buffer l" "pl_screen (counting f l) = pl_screen l" "pl_device (counting f l) = pl_device l"
  "pl_buffer (queue_counted l) = pl_buffer l" "pl_screen (queue_counted l) = pl_screen l"
  by (simp_all add: counting_def queue_counted_def)

lemma ingest_frame_same:
  "fb_session (snd (buffer_ingest rd f b)) = fb_session b"
  "fb_validator (snd (buffer_ingest rd f b)) = fb_validator b"
  "bq_max (fb_queue (snd (buffer_ingest rd f b))) = bq_max (fb_queue b)"
  by (cases rule: buffer_ingest_cases[of rd f b];
      auto simp: queue_push_def split: backpressure.split)+

lemma enqueue_frame_ok:
  assumes "pipeline_ok l"
  shows "pipeline_ok (snd (enqueue_frame rd f l))"
proof -
  let ?f = "f\<lparr>sf_session := pl_screen l, sf_device := pl_device l,
     sf_sequence := ft_last (fb_tracker (pl_buffer l)) + 1\<rparr>"
  obtain x b where b: "buffer_ingest rd ?f (pl_buffer l) = (x, b)" by fastforce
  have "buffer_ok b" "fb_session b = fb_session (pl_buffer l)" "fb_validator b = fb_validator (pl_buffer l)"
    "bq_max (fb_queue b) = bq_max (fb_queue (pl_buffer l))"
    using buffer_ingest_ok[of "pl_buffer l" rd ?f] ingest_frame_same[of rd ?f "pl_buffer l"] assms b
    by (simp_all add: pipeline_ok_def)
  then show ?thesis using assms b
    by (auto simp: enqueue_frame_def Let_def pipeline_ok_def split: sum.split)
qed

text \<open>A tick touches the buffer only when it queues a frame.\<close>

lemma tick_cases:
  obtains (kept) x l1 p1 en1 where "pipeline_tick sha fl rd i (l, p, en) = (x, (l1, p1, en1))"
    "pl_buffer l1 = pl_buffer l" "pl_screen l1 = pl_screen l" "x \<noteq> Inr None \<longrightarrow> (\<exists>e. x = Inl e)"
  | (queued) l0 f y l1 p1 en1 where "enqueue_frame rd f l0 = (y, l1)"
    "pl_buffer l0 = pl_buffer l" "pl_screen l0 = pl_screen l"
    "pipeline_tick sha fl rd i (l, p, en) = (map_sum id Some y, (l1, p1, en1))"
proof -
  obtain x l1 p1 en1 where tick: "pipeline_tick sha fl rd i (l, p, en) = (x, (l1, p1, en1))" by (metis prod_cases4)
  let ?l0 = "\<lambda>m. counting (record_encode (ti_latency i))
     (counting record_normalize (counting record_capture (l\<lparr>pl_limiter := m\<rparr>)))"
  have "(pl_buffer l1 = pl_buffer l \<and> pl_screen l1 = pl_screen l \<and> (x \<noteq> Inr None \<longrightarrow> (\<exists>e. x = Inl e))) \<or>
    (\<exists>m f y. enqueue_frame rd f (?l0 m) = (y, l1) \<and> x = map_sum id Some y)"
    using tick
    by (auto simp: pipeline_tick_def Let_def split: if_splits prod.splits sum.splits bool.splits; fastforce)
  then show thesis
  proof
    assume "pl_buffer l1 = pl_buffer l \<and> pl_screen l1 = pl_screen l \<and> (x \<noteq> Inr None \<longrightarrow> (\<exists>e. x = Inl e))"
    then show thesis using kept[OF tick] by blast
  next
    assume "\<exists>m f y. enqueue_frame rd f (?l0 m) = (y, l1) \<and> x = map_sum id Some y"
    then show thesis using queued tick by fastforce
  qed
qed

lemma tick_ok:
  assumes "pipeline_tick sha fl rd i (l, p, en) = (x, (l1, p1, en1))" and "pipeline_ok l"
  shows "pipeline_ok l1"
proof (cases rule: tick_cases[of sha fl rd i l p en])
  case (kept y l2 p2 en2)
  then show ?thesis using assms by (simp add: pipeline_ok_def)
next
  case (queued l0 f y l2 p2 en2)
  have "pipeline_ok l0" using queued(2,3) assms(2) by (simp add: pipeline_ok_def)
  from enqueue_frame_ok[OF this, of rd f] show ?thesis using queued(1,4) assms(1) by simp
qed

definition all_ok :: "aegis_world \<Rightarrow> bool" where
  "all_ok w \<longleftrightarrow> (\<forall>aid l. aw_pipelines w aid = Some l \<longrightarrow> pipeline_ok l)"

lemma new_pipeline_ok:
  "new_pipeline p sc dev 1280 720 10 (4 * 1024 * 1024) 30 st = Inr l \<Longrightarrow> pipeline_ok l"
  by (auto simp: new_pipeline_def and_then_def Let_def pipeline_ok_def new_frame_validator_def
      new_frame_buffer_def new_frame_queue_def new_limiter_def new_frame_tracker_def buffer_ok_def queue_ok_def
      split: if_splits sum.splits)

lemma all_ok_start:
  assumes "all_ok w"
  shows "all_ok (snd (start_capture cal now aid tr w))"
proof (cases rule: start_capture_cases[of cal now aid tr w])
  case (started s d l l1 p i)
  have "pl_buffer l1 = pl_buffer l" "pl_screen l1 = pl_screen l"
    using started(4) by (auto simp: pipeline_start_def split: if_splits prod.splits sum.splits)
  then have "pipeline_ok l1" using new_pipeline_ok[OF started(3)] by (simp add: pipeline_ok_def)
  then show ?thesis using assms started(6) by (simp add: all_ok_def)
qed (use assms in \<open>simp_all add: all_ok_def\<close>)

lemma all_ok_stop: "all_ok w \<Longrightarrow> all_ok (snd (stop_capture cal now aid why w))"
  by (cases rule: stop_capture_cases[of cal now aid why w]) (simp_all add: all_ok_def)

lemma all_ok_step:
  assumes "all_ok w"
  shows "all_ok (aegis_exec env op w)"
proof (cases op)
  case (StartCapture now aid tr)
  then show ?thesis using assms by (simp add: all_ok_start)
next
  case (StopCapture now aid why)
  then show ?thesis using assms by (simp add: all_ok_stop)
next
  case (ExpireSessions now)
  have "all_ok (snd (expire_sessions (ev_cal env) now (aw_sessions w) [] w))"
    by (rule expire_sessions_invariant) (use assms in \<open>auto simp: all_ok_stop, simp_all add: all_ok_def\<close>)
  then show ?thesis using ExpireSessions by (simp add: expire_due_sessions_def)
next
  case (TickCapture i aid)
  have "pipeline_ok l1" if "aw_pipelines w aid = Some l"
    "pipeline_tick (ev_sha env) (ev_round env) (read_iso (ev_cal env)) i (l, aw_provider w, aw_encoder w) = (x, (l1, p1, en1))"
    for l x l1 p1 en1
    using tick_ok[OF that(2)] that(1) assms by (auto simp: all_ok_def)
  then show ?thesis using assms TickCapture
    by (auto simp: capture_tick_def all_ok_def split: option.splits prod.splits)
next
  case (DrainCapture aid)
  have "pipeline_ok (snd (pipeline_drain l))" if "pipeline_ok l" for l
    using that buffer_drain_ok[of "pl_buffer l"]
    by (auto simp: pipeline_drain_def pipeline_ok_def buffer_drain_def queue_drain_def split: prod.split)
  then show ?thesis using assms DrainCapture
    by (auto simp: capture_drain_def all_ok_def split: option.splits prod.splits) (metis snd_conv)
next
  case (CreateAegis now aid q)
  then show ?thesis using assms by (auto simp: create_aegis_def Let_def all_ok_def split: option.split)
next
  case (RequestConsent now t aid)
  then show ?thesis using assms
    by (auto simp: request_system_consent_def all_ok_def split: sum.split prod.split)
next
  case (GrantConsent now aid t)
  then show ?thesis using assms
    by (auto simp: grant_system_consent_def all_ok_def split: sum.split prod.split)
next
  case (DenyConsent now aid t why)
  then show ?thesis using assms
    by (auto simp: deny_system_consent_def all_ok_def split: sum.split prod.split)
qed (use assms in \<open>simp_all add: all_ok_def\<close>)

text \<open>
  In every reachable state the buffer of every pipeline holds at most 30 frames, each of
  its own screen session, at most 1280 by 720 pixels and 4 MiB, with the size it names.
\<close>

theorem captured_frames_bounded:
  assumes "aw_pipelines (aegis_run env ops (new_aegis p en duration trust rows)) aid = Some l"
  shows "length (bq_items (fb_queue (pl_buffer l))) \<le> 30 \<and>
    (\<forall>f \<in> set (bq_items (fb_queue (pl_buffer l))). sf_session f = pl_screen l \<and>
       0 < sf_width f \<and> sf_width f \<le> 1280 \<and> 0 < sf_height f \<and> sf_height f \<le> 720 \<and>
       length (sf_payload f) \<le> 4 * 1024 * 1024 \<and> sf_payload_size f = int (length (sf_payload f)))"
proof -
  have "all_ok (aegis_run env ops (new_aegis p en duration trust rows))"
    by (rule aegis_run_invariant[where P = all_ok]) (simp_all add: all_ok_step, simp add: all_ok_def new_aegis_def)
  with assms have "pipeline_ok l" by (simp add: all_ok_def)
  then show ?thesis by (auto simp: pipeline_ok_def buffer_ok_def queue_ok_def frame_fits_def)
qed

section \<open>The numbering of frames\<close>

text \<open>The frames a sequence of ticks returns, whatever ticks are refused or fail in between.\<close>

fun tick_all ::
  "(nat list \<Rightarrow> nat list) \<Rightarrow> (rat \<Rightarrow> rat) \<Rightarrow> (string \<Rightarrow> stamp) \<Rightarrow> tick_input list \<Rightarrow> capture_state \<Rightarrow>
   screen_frame list \<times> capture_state" where
  "tick_all sha fl rd [] s = ([], s)"
| "tick_all sha fl rd (i # is) s =
     (let (x, s1) = pipeline_tick sha fl rd i s; (fs, s2) = tick_all sha fl rd is s1
      in (case x of Inr (Some f) \<Rightarrow> (f # fs, s2) | _ \<Rightarrow> (fs, s2)))"

abbreviation last_number :: "pipeline \<Rightarrow> int" where
  "last_number l \<equiv> ft_last (fb_tracker (pl_buffer l))"

lemma tick_number:
  assumes "pipeline_tick sha fl rd i (l, p, en) = (x, (l1, p1, en1))"
  shows "case x of Inr (Some f) \<Rightarrow> sf_sequence f = last_number l + 1 \<and> last_number l1 = last_number l + 1
         | _ \<Rightarrow> last_number l1 = last_number l"
proof (cases rule: tick_cases[of sha fl rd i l p en])
  case (kept y l2 p2 en2)
  then show ?thesis using assms by (auto split: sum.split option.split)
next
  case (queued l0 f y l2 p2 en2)
  let ?f = "f\<lparr>sf_session := pl_screen l0, sf_device := pl_device l0, sf_sequence := last_number l0 + 1\<rparr>"
  show ?thesis
  proof (cases rule: buffer_ingest_cases[of rd ?f "pl_buffer l0"])
    case (refused e)
    then show ?thesis using queued assms by (auto simp: enqueue_frame_def Let_def)
  next
    case (accepted t)
    have "ft_last t = last_number l0 + 1" using tracker_accept_result(1)[OF accepted(1)] by simp
    then show ?thesis using queued assms accepted(4) by (auto simp: enqueue_frame_def Let_def)
  qed
qed

text \<open>
  The frames a pipeline returns are numbered consecutively from the last number of its
  buffer, whatever ticks are refused by the limiter or fail in between.
\<close>

theorem frames_numbered_in_order:
  "map sf_sequence (fst (tick_all sha fl rd is (l, p, en))) =
     [last_number l + 1 .. last_number l + int (length (fst (tick_all sha fl rd is (l, p, en))))]"
proof (induction "is" arbitrary: l p en)
  case (Cons i "is")
  obtain x l1 p1 en1 where tick: "pipeline_tick sha fl rd i (l, p, en) = (x, (l1, p1, en1))" by (metis prod_cases4)
  let ?fs = "fst (tick_all sha fl rd is (l1, p1, en1))"
  have all: "fst (tick_all sha fl rd (i # is) (l, p, en)) = (case x of Inr (Some f) \<Rightarrow> f # ?fs | _ \<Rightarrow> ?fs)"
    using tick by (auto split: sum.split option.split prod.split)
  show ?case
  proof (cases "\<exists>f. x = Inr (Some f)")
    case True
    then obtain f where f: "x = Inr (Some f)" by blast
    have "[last_number l + 1 .. last_number l + int (length (f # ?fs))] =
        (last_number l + 1) # [last_number l + 1 + 1 .. last_number l + 1 + int (length ?fs)]"
      by (subst upto.simps) (simp add: algebra_simps)
    then show ?thesis using Cons.IH[of l1 p1 en1] tick_number[OF tick] all f by simp
  next
    case False
    then have "fst (tick_all sha fl rd (i # is) (l, p, en)) = ?fs" "last_number l1 = last_number l"
      using all tick_number[OF tick] by (auto split: sum.splits option.splits)
    then show ?thesis using Cons.IH[of l1 p1 en1] by simp
  qed
qed simp

end
