(* ===== verification/AegisGaps.thy ===== *)
theory AegisGaps
  imports AegisClaims
begin

text \<open>
  What the controller does not guarantee, and concrete runs on a phone: the premises of the
  properties hold there.
\<close>

section \<open>Gaps\<close>

text \<open>
  There is one notification for all sessions, and stopping any session switches it off:
  the capture of another session goes on, its pipeline running and its provider started,
  while the child sees nothing.
\<close>

theorem stop_hides_other_capture:
  assumes "aw_pipelines w a = Some l" and "pl_running l" and "aw_pipelines w b = None"
    and "get_aegis b w = Some s" and "w' = snd (stop_capture cal now b why w)"
  shows "aw_pipelines w' a = Some l \<and> aw_provider w' = aw_provider w \<and> \<not> si_active (aw_service w')"
proof -
  have "a \<noteq> b" using assms(1,3) by auto
  then show ?thesis using assms
    by (cases rule: stop_capture_cases[of cal now b why w]) (auto simp: service_stop_def)
qed

text \<open>
  Starting a capture does not look at the trust relation: revoked after the session was
  created, the capture starts as before.
\<close>

theorem start_ignores_trust:
  "start_capture cal now aid tr (w\<lparr>aw_trust := x\<rparr>) =
     map_prod id (\<lambda>w'. w'\<lparr>aw_trust := x\<rparr>) (start_capture cal now aid tr w)"
proof -
  have save: "save_aegis s (w\<lparr>aw_trust := x\<rparr>) = (save_aegis s w)\<lparr>aw_trust := x\<rparr>" for s
    by (simp add: save_aegis_def put_aegis_def Let_def split: sum.split)
  have get: "get_aegis aid (w\<lparr>aw_trust := x\<rparr>) = get_aegis aid w" by (simp add: get_aegis_def)
  show ?thesis
    by (simp add: start_capture_def require_aegis_def get save Let_def log_aegis_def
        split: option.split sum.split prod.split)
qed

text \<open>
  A consent that has expired can be granted, and then capture is allowed whatever its
  deadline says.
\<close>

theorem expired_consent_granted:
  assumes "get_record t g = Some r" and "cn_state r = CON_EXPIRED" and "gt_sessions g sc = Some t"
    and "pc_platform (gt_caps g) = PLAT_ANDROID"
  shows "\<exists>r' g'. grant_consent cal now t g = returns r' g' \<and> cn_expires r' = cn_expires r \<and>
    (\<exists>d. assert_capture_allowed sc g' = Inr d)"
proof -
  let ?r = "r\<lparr>cn_state := CON_GRANTED, cn_granted := Some (write_iso cal now)\<rparr>"
  have "cn_token r = t" using assms(1) by auto
  then have "consent_of t (put_record ?r g) = Some CON_GRANTED" by (simp add: consent_of_def)
  then have "\<exists>d. assert_capture_allowed sc (put_record ?r g) = Inr d"
    using capture_allowed_iff[of sc "put_record ?r g"] assms(3,4) by simp
  moreover have "grant_consent cal now t g = returns ?r (put_record ?r g)"
    using assms by (simp add: grant_consent_def assert_android_platform_def platform_real_capture_def
        require_record_def Let_def)
  ultimately show ?thesis by force
qed

section \<open>A phone\<close>

definition phone_caps :: provider_caps where
  "phone_caps = \<lparr>pc_platform = PLAT_ANDROID, pc_backend = ENC_TEST, pc_max_width = 1280,
     pc_max_height = 720, pc_max_fps = 10, pc_foreground = True, pc_projection = True, pc_notes = []\<rparr>"

definition phone_env :: platform_env where
  "phone_env = \<lparr>ev_sha = (\<lambda>x. replicate 32 0), ev_round = id,
     ev_cal = \<lparr>read_iso = (\<lambda>x. Aware 0), write_iso = (\<lambda>t. ''T'')\<rparr>\<rparr>"

definition phone :: aegis_world where
  "phone = new_aegis (new_fake_provider phone_caps False False []) (new_test_encoder []) 300 None []"

definition view_of :: "string \<Rightarrow> aegis_request" where
  "view_of sc = \<lparr>ar_screen = sc, ar_device = ''GM-C-0A1B2C3D'', ar_parent = ''GM-P-0A1B2C3D'', ar_label = None\<rparr>"

definition consented :: "aegis_op list" where
  "consented = [CreateAegis 0 ''AEG-1'' (view_of ''SES-1''), RequestConsent 1 ''ACN-1'' ''AEG-1'',
     GrantConsent 2 ''AEG-1'' ''ACN-1'']"

definition two_sessions :: "aegis_op list" where
  "two_sessions = consented @ [StartCapture 3 ''AEG-1'' None, CreateAegis 4 ''AEG-2'' (view_of ''SES-2''),
     TickCapture \<lparr>ti_clock = 0, ti_latency = 1, ti_frame_id = ''FRM-1'', ti_captured = ''T'', ti_codec = CODEC_TEST\<rparr>
       ''AEG-1'']"


theorem no_capture_off_android_witness:
  "\<exists>e. fst (start_capture (ev_cal phone_env) 3 ''AEG-1'' None (aegis_run phone_env consented
     (new_aegis (new_fake_provider (phone_caps\<lparr>pc_platform := PLAT_LINUX\<rparr>) False False [])
        (new_test_encoder []) 300 None []))) = Inl e"
proof -
  have "pc_platform (pv_caps (new_fake_provider (phone_caps\<lparr>pc_platform := PLAT_LINUX\<rparr>) False False [])) \<noteq> PLAT_ANDROID"
    by code_simp
  from no_capture_off_android[OF this refl, where cal = "ev_cal phone_env"] show ?thesis by (metis fst_conv)
qed

theorem captured_frames_bounded_witness:
  "\<exists>l. aw_pipelines (aegis_run phone_env two_sessions phone) ''AEG-1'' = Some l \<and>
     length (bq_items (fb_queue (pl_buffer l))) \<le> 30"
proof -
  have "aw_pipelines (aegis_run phone_env two_sessions phone) ''AEG-1'' \<noteq> None" by code_simp
  then obtain l where l: "aw_pipelines (aegis_run phone_env two_sessions phone) ''AEG-1'' = Some l" by blast
  from captured_frames_bounded[OF this[unfolded phone_def]] l show ?thesis by blast
qed

theorem stop_hides_other_capture_witness:
  "\<not> si_active (aw_service (snd (stop_capture (ev_cal phone_env) 5 ''AEG-2'' ''USER_STOPPED''
     (aegis_run phone_env two_sessions phone))))"
proof -
  let ?w = "aegis_run phone_env two_sessions phone"
  have "map_option pl_running (aw_pipelines ?w ''AEG-1'') = Some True" "aw_pipelines ?w ''AEG-2'' = None"
    "get_aegis ''AEG-2'' ?w \<noteq> None" by code_simp+
  then show ?thesis using stop_hides_other_capture[OF _ _ _ _ refl, of ?w "''AEG-1''" _ "''AEG-2''"] by fastforce
qed

theorem expired_consent_granted_witness:
  "\<exists>r' g'. grant_consent (ev_cal phone_env) 9 ''ACN-1''
     (aw_gate (aegis_run phone_env (take 2 consented @ [ExpireConsents 8]) phone)) = returns r' g'"
proof -
  let ?g = "aw_gate (aegis_run phone_env (take 2 consented @ [ExpireConsents 8]) phone)"
  have "map_option cn_state (get_record ''ACN-1'' ?g) = Some CON_EXPIRED"
    "gt_sessions ?g ''SES-1'' = Some ''ACN-1''" "pc_platform (gt_caps ?g) = PLAT_ANDROID" by code_simp+
  then show ?thesis using expired_consent_granted[of "''ACN-1''" ?g _ "''SES-1''" "ev_cal phone_env" 9] by fastforce
qed

end
