(* ===== verification/OrionConsent.thy ===== *)
theory OrionConsent
  imports OrionModels AegisConsent
begin

text \<open>
  \<^verbatim>\<open>guardianmesh/orion/consent.py\<close>: the validator of the consents an action needs.  It
  asks the trust manager, the screen authorizations and the system-consent gate, those of
  them that are configured.
\<close>

section \<open>The validator\<close>

record consent_sources =
  cv_trust :: "pairing_db option"
  cv_auths :: "auth_mgr option"
  cv_gate :: "gate option"

definition violation :: "gm_error option" where
  [model_defs]: "violation = Some (Orion OrionConsentViolationError)"

definition enforce_trust :: "consent_sources \<Rightarrow> orion_action \<Rightarrow> consent_requirement list \<Rightarrow> gm_error option" where
  "enforce_trust v a needs =
     (if NEED_TRUST_REQUIRED \<notin> set needs then None
      else case cv_trust v of
        None \<Rightarrow> violation
      | Some db \<Rightarrow>
         (case verify_device_trust_or_raise db (oa_requested_by a) (oa_device a) of
            Inl e \<Rightarrow> violation | Inr d \<Rightarrow> None))"

definition enforce_vista_authorization ::
  "consent_sources \<Rightarrow> consent_requirement list \<Rightarrow> string option \<Rightarrow> gm_error option" where
  "enforce_vista_authorization v needs screen =
     (if NEED_VISTA_AUTHORIZATION_REQUIRED \<notin> set needs then None
      else case cv_auths v of
        None \<Rightarrow> violation
      | Some m \<Rightarrow>
         (case screen of
            None \<Rightarrow> violation
          | Some sid \<Rightarrow>
             (case get_for_session sid m of
                None \<Rightarrow> violation
              | Some au \<Rightarrow> if sa_decision au \<noteq> AD_APPROVED then violation else None)))"

text \<open>The identifier of the Aegis session is looked up as a screen session.\<close>

definition enforce_aegis_consent ::
  "consent_sources \<Rightarrow> consent_requirement list \<Rightarrow> string option \<Rightarrow> gm_error option" where
  "enforce_aegis_consent v needs aegis =
     (if NEED_AEGIS_SYSTEM_CONSENT_REQUIRED \<notin> set needs then None
      else case cv_gate v of
        None \<Rightarrow> violation
      | Some g \<Rightarrow>
         (case aegis of
            None \<Rightarrow> violation
          | Some sid \<Rightarrow>
             (case assert_capture_allowed sid g of Inl e \<Rightarrow> violation | Inr d \<Rightarrow> None)))"

definition enforce_existing_active_session ::
  "consent_requirement list \<Rightarrow> string option \<Rightarrow> gm_error option" where
  "enforce_existing_active_session needs screen =
     (if NEED_EXISTING_ACTIVE_SESSION \<notin> set needs then None
      else case screen of None \<Rightarrow> violation | Some s \<Rightarrow> None)"

definition validate_consents ::
  "consent_sources \<Rightarrow> orion_action \<Rightarrow> string option \<Rightarrow> string option \<Rightarrow> gm_error option" where
  "validate_consents v a screen aegis =
     (let needs = ACTION_CONSENT_REQUIREMENTS (oa_type a) in
      case enforce_trust v a needs of
        Some e \<Rightarrow> Some e
      | None \<Rightarrow>
         (case enforce_vista_authorization v needs screen of
            Some e \<Rightarrow> Some e
          | None \<Rightarrow>
             (case enforce_aegis_consent v needs aegis of
                Some e \<Rightarrow> Some e
              | None \<Rightarrow> enforce_existing_active_session needs screen)))"

section \<open>What it decides\<close>

text \<open>The requirement a source grants.\<close>

fun consent_given :: "consent_sources \<Rightarrow> orion_action \<Rightarrow> string option \<Rightarrow> string option \<Rightarrow> consent_requirement \<Rightarrow> bool" where
  "consent_given v a screen aegis NEED_TRUST_REQUIRED \<longleftrightarrow>
     (case cv_trust v of None \<Rightarrow> False
      | Some db \<Rightarrow> (case get_trusted_device db (oa_requested_by a) (oa_device a) of
          None \<Rightarrow> False | Some d \<Rightarrow> td_status d \<noteq> TS_REVOKED))"
| "consent_given v a screen aegis NEED_VISTA_AUTHORIZATION_REQUIRED \<longleftrightarrow>
     (case (cv_auths v, screen) of
        (Some m, Some sid) \<Rightarrow> (case get_for_session sid m of None \<Rightarrow> False | Some au \<Rightarrow> sa_decision au = AD_APPROVED)
      | _ \<Rightarrow> False)"
| "consent_given v a screen aegis NEED_AEGIS_SYSTEM_CONSENT_REQUIRED \<longleftrightarrow>
     (case (cv_gate v, aegis) of
        (Some g, Some sid) \<Rightarrow> pc_platform (gt_caps g) = PLAT_ANDROID \<and>
          (case gt_sessions g sid of None \<Rightarrow> False | Some t \<Rightarrow> consent_of t g = Some CON_GRANTED)
      | _ \<Rightarrow> False)"
| "consent_given v a screen aegis NEED_EXISTING_ACTIVE_SESSION \<longleftrightarrow> screen \<noteq> None"
| "consent_given v a screen aegis _ \<longleftrightarrow> True"

lemma enforced:
  "enforce_trust v a needs = None \<longleftrightarrow>
     (NEED_TRUST_REQUIRED \<in> set needs \<longrightarrow> consent_given v a screen aegis NEED_TRUST_REQUIRED)"
  "enforce_vista_authorization v needs screen = None \<longleftrightarrow>
     (NEED_VISTA_AUTHORIZATION_REQUIRED \<in> set needs \<longrightarrow>
        consent_given v a screen aegis NEED_VISTA_AUTHORIZATION_REQUIRED)"
  "enforce_aegis_consent v needs aegis = None \<longleftrightarrow>
     (NEED_AEGIS_SYSTEM_CONSENT_REQUIRED \<in> set needs \<longrightarrow>
        consent_given v a screen aegis NEED_AEGIS_SYSTEM_CONSENT_REQUIRED)"
  "enforce_existing_active_session needs screen = None \<longleftrightarrow>
     (NEED_EXISTING_ACTIVE_SESSION \<in> set needs \<longrightarrow>
        consent_given v a screen aegis NEED_EXISTING_ACTIVE_SESSION)"
proof -
  show "enforce_trust v a needs = None \<longleftrightarrow>
     (NEED_TRUST_REQUIRED \<in> set needs \<longrightarrow> consent_given v a screen aegis NEED_TRUST_REQUIRED)"
    by (auto simp: enforce_trust_def verify_device_trust_or_raise_def violation_def split: option.splits)
  show "enforce_vista_authorization v needs screen = None \<longleftrightarrow>
     (NEED_VISTA_AUTHORIZATION_REQUIRED \<in> set needs \<longrightarrow>
        consent_given v a screen aegis NEED_VISTA_AUTHORIZATION_REQUIRED)"
    by (auto simp: enforce_vista_authorization_def violation_def split: option.splits)
  show "enforce_existing_active_session needs screen = None \<longleftrightarrow>
     (NEED_EXISTING_ACTIVE_SESSION \<in> set needs \<longrightarrow>
        consent_given v a screen aegis NEED_EXISTING_ACTIVE_SESSION)"
    by (auto simp: enforce_existing_active_session_def violation_def split: option.splits)
  have some: "\<exists>e. violation = Some e" by (simp add: violation_def)
  have allowed: "(case assert_capture_allowed sid g of Inl e \<Rightarrow> violation | Inr d \<Rightarrow> None) = None \<longleftrightarrow>
      pc_platform (gt_caps g) = PLAT_ANDROID \<and>
      (\<exists>t. gt_sessions g sid = Some t \<and> consent_of t g = Some CON_GRANTED)" for sid g
    unfolding capture_allowed_iff[symmetric] by (simp add: violation_def split: sum.split)
  show "enforce_aegis_consent v needs aegis = None \<longleftrightarrow>
     (NEED_AEGIS_SYSTEM_CONSENT_REQUIRED \<in> set needs \<longrightarrow>
        consent_given v a screen aegis NEED_AEGIS_SYSTEM_CONSENT_REQUIRED)"
    by (cases "cv_gate v"; cases aegis)
      (auto simp: enforce_aegis_consent_def allowed some split: option.split)
qed

text \<open>
  The validator passes an action exactly when every requirement its type names is granted
  by the source that stands for it.
\<close>

theorem consents_validated_iff:
  "validate_consents v a screen aegis = None \<longleftrightarrow>
     list_all (consent_given v a screen aegis) (ACTION_CONSENT_REQUIREMENTS (oa_type a))"
proof -
  let ?needs = "ACTION_CONSENT_REQUIREMENTS (oa_type a)"
  have "validate_consents v a screen aegis = None \<longleftrightarrow> enforce_trust v a ?needs = None \<and>
      enforce_vista_authorization v ?needs screen = None \<and>
      enforce_aegis_consent v ?needs aegis = None \<and>
      enforce_existing_active_session ?needs screen = None"
    by (auto simp: validate_consents_def Let_def split: option.split)
  also have "\<dots> \<longleftrightarrow> list_all (consent_given v a screen aegis) ?needs"
    unfolding enforced[where v = v and a = a and screen = screen and aegis = aegis]
    by (cases "oa_type a") (auto simp: capture_consents_def simp del: consent_given.simps(1-4))
  finally show ?thesis .
qed

end
