(* ===== verification/OrionStore.thy ===== *)
theory OrionStore
  imports OrionCapabilities ScreenSession
begin

text \<open>
  \<^verbatim>\<open>guardianmesh/orion/registry.py\<close>: the tables of capabilities, events and
  reconciliation reports, and \<^verbatim>\<open>OrionReconciliationReport\<close> of \<^verbatim>\<open>models.py\<close>.

  A JSON column is the value it encodes, with the keys in the sorted order they are written in.
\<close>

section \<open>Reports\<close>

record recon_report =
  rr_id :: string
  rr_device :: string
  rr_started :: string
  rr_completed :: "string option"
  rr_processed :: int
  rr_detected :: int
  rr_resolved :: int
  rr_stale :: int
  rr_failed :: int
  rr_final :: string
  rr_notes :: string

definition check_report :: "recon_report \<Rightarrow> gm_error option" where
  "check_report r =
     (if rr_id r = [] then Some (Orion OrionError)
      else if rr_device r = [] then Some (Orion OrionError)
      else if rr_started r = [] then Some (Orion OrionError)
      else None)"

definition new_report :: "string \<Rightarrow> string \<Rightarrow> string \<Rightarrow> recon_report" where
  "new_report rid dev started =
     \<lparr>rr_id = rid, rr_device = dev, rr_started = started, rr_completed = None, rr_processed = 0,
      rr_detected = 0, rr_resolved = 0, rr_stale = 0, rr_failed = 0, rr_final = ''SYNCED'',
      rr_notes = []\<rparr>"

definition report_to_dict :: "recon_report \<Rightarrow> json" where
  "report_to_dict r =
     JObj [(''report_id'', JStr (rr_id r)), (''device_id'', JStr (rr_device r)),
           (''started_at'', JStr (rr_started r)), (''completed_at'', json_opt (rr_completed r)),
           (''events_processed'', JInt (rr_processed r)),
           (''conflicts_detected'', JInt (rr_detected r)),
           (''conflicts_resolved'', JInt (rr_resolved r)), (''stale_events'', JInt (rr_stale r)),
           (''failed_actions'', JInt (rr_failed r)), (''final_state'', JStr (rr_final r)),
           (''notes'', JStr (rr_notes r))]"

section \<open>The tables\<close>

record caps_row =
  cw_device :: string
  cw_json :: json
  cw_version :: string
  cw_discovered :: string
  cw_updated :: json
  cw_source :: string
  cw_notes :: string

record orion_store =
  os_caps :: "caps_row list"
  os_events :: "orion_event list"
  os_reports :: "recon_report list"

definition empty_store :: orion_store where
  "empty_store = \<lparr>os_caps = [], os_events = [], os_reports = []\<rparr>"

text \<open>A conflict keeps the discovery time of the row (but not the one inside the JSON).\<close>

definition upsert_capabilities :: "device_caps \<Rightarrow> orion_store \<Rightarrow> orion_store" where
  "upsert_capabilities d s =
     (let row = \<lparr>cw_device = dc_device d, cw_json = canon (caps_to_dict d), cw_version = dc_version d,
                 cw_discovered = dc_discovered d,
                 cw_updated = (if py_truthy (dc_updated d) then dc_updated d else JStr (dc_discovered d)),
                 cw_source = dc_source d, cw_notes = dc_notes d\<rparr>
      in s\<lparr>os_caps := upsert_row cw_device row (\<lambda>old. row\<lparr>cw_discovered := cw_discovered old\<rparr>) (os_caps s)\<rparr>)"

definition get_capabilities :: "string \<Rightarrow> orion_store \<Rightarrow> gm_error + device_caps option" where
  "get_capabilities dev s =
     (case fetch_where (\<lambda>r. cw_device r = dev) (os_caps s) of
        None \<Rightarrow> Inr None
      | Some r \<Rightarrow> and_then (caps_from_dict (cw_json r)) (\<lambda>d. Inr (Some d)))"

fun read_capabilities :: "caps_row list \<Rightarrow> gm_error + device_caps list" where
  "read_capabilities [] = Inr []"
| "read_capabilities (r # rs) =
     and_then (caps_from_dict (cw_json r)) (\<lambda>d. and_then (read_capabilities rs) (\<lambda>ds. Inr (d # ds)))"

definition list_capabilities :: "orion_store \<Rightarrow> gm_error + device_caps list" where
  "list_capabilities s = read_capabilities (sort_key cw_device (os_caps s))"

definition record_event :: "orion_event \<Rightarrow> orion_store \<Rightarrow> (orion_store, unit) outcome" where
  "record_event e s =
     (if \<not> fits_64 (oe_sequence e) then raises (Builtin PyOverflowError) s
      else case canon (JObj (oe_payload e)) of
        JObj payload \<Rightarrow>
          (case insert_row oe_id (e\<lparr>oe_payload := payload\<rparr>) (os_events s) of
             None \<Rightarrow> raises (Builtin SqliteIntegrityError) s
           | Some rows \<Rightarrow> returns () (s\<lparr>os_events := rows\<rparr>))
      | _ \<Rightarrow> raises (Builtin PyTypeError) s)"

text \<open>The priority of a row is not read back: every event listed has the default one.\<close>

fun read_events :: "(string \<Rightarrow> stamp) \<Rightarrow> orion_event list \<Rightarrow> gm_error + orion_event list" where
  "read_events rd [] = Inr []"
| "read_events rd (r # rs) =
     and_then (checked_event rd (r\<lparr>oe_priority := PRI_NORMAL\<rparr>)) (\<lambda>e.
     and_then (read_events rd rs) (\<lambda>es. Inr (e # es)))"

definition list_events ::
  "(string \<Rightarrow> stamp) \<Rightarrow> string option \<Rightarrow> int \<Rightarrow> orion_store \<Rightarrow> gm_error + orion_event list" where
  "list_events rd dev limit s =
     read_events rd (sql_limit limit
       (case dev of
          Some d \<Rightarrow> sort_key oe_sequence (filter (\<lambda>r. oe_device r = d) (os_events s))
        | None \<Rightarrow> sort_key oe_created (os_events s)))"

definition upsert_report :: "recon_report \<Rightarrow> orion_store \<Rightarrow> (orion_store, unit) outcome" where
  "upsert_report r s =
     (if \<not> list_all fits_64 [rr_processed r, rr_detected r, rr_resolved r, rr_stale r, rr_failed r]
      then raises (Builtin PyOverflowError) s
      else case insert_row rr_id r (os_reports s) of
        None \<Rightarrow> raises (Builtin SqliteIntegrityError) s
      | Some rows \<Rightarrow> returns () (s\<lparr>os_reports := rows\<rparr>))"

fun read_reports :: "recon_report list \<Rightarrow> gm_error + recon_report list" where
  "read_reports [] = Inr []"
| "read_reports (r # rs) =
     (case check_report r of
        Some e \<Rightarrow> Inl e
      | None \<Rightarrow> and_then (read_reports rs) (\<lambda>ys. Inr (r # ys)))"

definition list_reports :: "string option \<Rightarrow> int \<Rightarrow> orion_store \<Rightarrow> gm_error + recon_report list" where
  "list_reports dev limit s =
     read_reports (sql_limit limit (sort_desc rr_started
       (case dev of Some d \<Rightarrow> filter (\<lambda>r. rr_device r = d) (os_reports s) | None \<Rightarrow> os_reports s)))"

section \<open>Reading back\<close>

text \<open>
  The events of a device come back in the order of their numbers, with their priority lost.
\<close>

lemma check_event_priority: "check_event rd (r\<lparr>oe_priority := p\<rparr>) = check_event rd r"
  by (cases r) (simp add: check_event_def Let_def)

lemma read_events_ok:
  assumes "list_all (\<lambda>r. check_event rd r = None) rows"
  shows "read_events rd rows = Inr (map (\<lambda>r. r\<lparr>oe_priority := PRI_NORMAL\<rparr>) rows)"
  using assms by (induction rows) (simp_all add: checked_event_def and_then_def check_event_priority)

end
