(* ===== verification/OrionReconcile.thy ===== *)
theory OrionReconcile
  imports OrionStore AegisController TransportRegistry
begin

text \<open>
  \<^verbatim>\<open>guardianmesh/orion/reconciliation.py\<close>: the reconciler, over the screen controller,
  the Aegis controller and the transport registry, those of them that are configured.  One
  reconciliation reads the clock once; the identifier of its report is an argument.
\<close>

record recon_world =
  rw_store :: orion_store
  rw_screen :: "screen_world option"
  rw_aegis :: "aegis_world option"
  rw_transport :: "transport_tables option"

section \<open>The rules\<close>

text \<open>
  Sessions whose deadline has passed are revoked.  The first exception ends the loop and
  counts as one failed action.
\<close>

fun expire_screens ::
  "int \<Rightarrow> screen_session list \<Rightarrow> screen_world \<Rightarrow> recon_report \<Rightarrow> screen_world \<times> recon_report" where
  "expire_screens now [] w r = (w, r)"
| "expire_screens now (s # rest) w r =
     (case info_is_expired now (se_info s) of
        Inl e \<Rightarrow> (w, r\<lparr>rr_failed := rr_failed r + 1\<rparr>)
      | Inr False \<Rightarrow> expire_screens now rest w r
      | Inr True \<Rightarrow>
         (case revoke_view now (session_key s) w of
            (Inl e, w1) \<Rightarrow> (w1, r\<lparr>rr_failed := rr_failed r + 1\<rparr>)
          | (Inr u, w1) \<Rightarrow> expire_screens now rest w1 (r\<lparr>rr_resolved := rr_resolved r + 1\<rparr>)))"

definition expire_screen_sessions :: "int \<Rightarrow> string \<Rightarrow> recon_world \<times> recon_report \<Rightarrow> recon_world \<times> recon_report" where
  "expire_screen_sessions now dev x =
     (let (w, r) = x in
      case rw_screen w of
        None \<Rightarrow> x
      | Some sw \<Rightarrow>
         (let (sw1, r1) = expire_screens now (sessions_for_device dev sw) sw r
          in (w\<lparr>rw_screen := Some sw1\<rparr>, r1)))"

definition device_match :: "string \<Rightarrow> aegis_world \<Rightarrow> string \<Rightarrow> bool" where
  "device_match dev aw aid =
     (case get_aegis aid aw of None \<Rightarrow> False | Some s \<Rightarrow> ag_device s = dev)"

text \<open>The sessions of all devices are expired, and all are counted when one is of this device.\<close>

definition expire_aegis_sessions ::
  "calendar \<Rightarrow> int \<Rightarrow> string \<Rightarrow> recon_world \<times> recon_report \<Rightarrow> recon_world \<times> recon_report" where
  "expire_aegis_sessions cal now dev x =
     (let (w, r) = x in
      case rw_aegis w of
        None \<Rightarrow> x
      | Some aw \<Rightarrow>
         (case expire_due_sessions cal now aw of
            (Inl e, aw1) \<Rightarrow> (w\<lparr>rw_aegis := Some aw1\<rparr>, r\<lparr>rr_failed := rr_failed r + 1\<rparr>)
          | (Inr ids, aw1) \<Rightarrow>
              (w\<lparr>rw_aegis := Some aw1\<rparr>,
               if list_ex (device_match dev aw1) ids
               then r\<lparr>rr_resolved := rr_resolved r + int (length ids)\<rparr> else r)))"

definition reconcile_transport_state :: "string \<Rightarrow> recon_world \<times> recon_report \<Rightarrow> recon_world \<times> recon_report" where
  "reconcile_transport_state dev x =
     (let (w, r) = x in
      case rw_transport w of
        None \<Rightarrow> x
      | Some tt \<Rightarrow>
         (case get_peer tt dev of
            None \<Rightarrow> x
          | Some p \<Rightarrow>
              if pi_state p \<in> {FAILED, EXPIRED_CONN} then (w, r\<lparr>rr_detected := rr_detected r + 1\<rparr>) else x))"

text \<open>
  An event of another device is skipped, one that is too old or whose time cannot be read is
  stale.  A time without zone makes the subtraction raise, outside the handler.
\<close>

fun process_events ::
  "(string \<Rightarrow> stamp) \<Rightarrow> int \<Rightarrow> string \<Rightarrow> int \<Rightarrow> orion_event list \<Rightarrow> orion_store \<Rightarrow> recon_report \<Rightarrow>
   (orion_store, recon_report) outcome" where
  "process_events rd now dev staleness [] s r = returns r s"
| "process_events rd now dev staleness (e # es) s r =
     (if oe_device e \<noteq> dev then process_events rd now dev staleness es s r
      else let r1 = r\<lparr>rr_processed := rr_processed r + 1\<rparr>;
               stale = r1\<lparr>rr_stale := rr_stale r1 + 1\<rparr> in
        case rd (oe_created e) of
          Blank \<Rightarrow> process_events rd now dev staleness es s stale
        | Malformed x \<Rightarrow> process_events rd now dev staleness es s stale
        | Naive t \<Rightarrow> raises (Builtin PyTypeError) s
        | Aware t \<Rightarrow>
            if staleness * second < now - t then process_events rd now dev staleness es s stale
            else case record_event e s of
              (Inl x, s1) \<Rightarrow> process_events rd now dev staleness es s1 (r1\<lparr>rr_failed := rr_failed r1 + 1\<rparr>)
            | (Inr u, s1) \<Rightarrow> process_events rd now dev staleness es s1 r1)"

section \<open>A reconciliation\<close>

text \<open>The rule on revoked trust does nothing, nor does the one on duplicate actions.\<close>

definition reconcile ::
  "calendar \<Rightarrow> int \<Rightarrow> string \<Rightarrow> string \<Rightarrow> orion_event list \<Rightarrow> int \<Rightarrow> recon_world \<Rightarrow>
   (recon_world, recon_report) outcome" where
  "reconcile cal now rid dev events staleness w =
     (if dev = [] then raises (Orion OrionReconciliationError) w
      else let r = new_report rid dev (write_iso cal now) in
        case check_report r of
          Some e \<Rightarrow> raises e w
        | None \<Rightarrow>
           (let (w1, r1) = reconcile_transport_state dev (expire_aegis_sessions cal now dev
                  (expire_screen_sessions now dev (w, r)))
            in case process_events (read_iso cal) now dev staleness (sort_key oe_sequence events) (rw_store w1) r1 of
                 (Inl e, s) \<Rightarrow> raises e (w1\<lparr>rw_store := s\<rparr>)
               | (Inr r2, s) \<Rightarrow>
                  (let r3 = r2\<lparr>rr_completed := Some (write_iso cal now)\<rparr> in
                   case upsert_report r3 s of
                     (Inl e, s1) \<Rightarrow> raises e (w1\<lparr>rw_store := s1\<rparr>)
                   | (Inr u, s1) \<Rightarrow> returns r3 (w1\<lparr>rw_store := s1\<rparr>))))"

end
