(* ===== verification/OrionHandlers.thy ===== *)
theory OrionHandlers
  imports OrionReconcile OrionExecutor OrionCapabilities Policy
begin

text \<open>
  \<^verbatim>\<open>guardianmesh/orion/handlers.py\<close>: what an action of each type does to the other
  components.

  A component that is not configured is absent.  The reconciler, if there is one, works on the
  same controllers as the handlers.  The identifiers the components draw are given for each
  action executed.  A \<^verbatim>\<open>label\<close> that is not a text is taken as none.
\<close>

section \<open>The world of the handlers\<close>

record handler_world =
  hw_base :: recon_world
  hw_reconciler :: bool
  hw_alerts :: "policy_db option"
  hw_telemetry :: bool
  hw_client :: bool
  hw_caps :: "caps_registry option"
  hw_log :: "audit_call list option"
  hw_drawn :: nat

record draws =
  dw_session :: string
  dw_auth :: string
  dw_nonce :: string
  dw_token :: string
  dw_report :: string

type_synonym result_dict = "(string \<times> json) list"

definition unconfigured :: "handler_world \<Rightarrow> (handler_world, result_dict) outcome" where
  [model_defs]: "unconfigured w = raises (Orion OrionActionError) w"

text \<open>The text parameter a handler requires.\<close>

definition text_param :: "string \<Rightarrow> orion_action \<Rightarrow> string option" where
  "text_param k a =
     (case map_of (oa_params a) k of Some (JStr s) \<Rightarrow> if s = [] then None else Some s | _ \<Rightarrow> None)"

definition py_bool :: "bool \<Rightarrow> string" where
  [model_defs]: "py_bool b = (if b then ''True'' else ''False'')"

section \<open>Health, status and alerts\<close>

definition handle_refresh_health ::
  "calendar \<Rightarrow> int \<Rightarrow> orion_action \<Rightarrow> handler_world \<Rightarrow> (handler_world, result_dict) outcome" where
  "handle_refresh_health cal now a w =
     (if \<not> hw_telemetry w then unconfigured w
      else returns [(''device_id'', JStr (oa_device a)), (''telemetry_refreshed'', JBool True),
             (''telemetry_at'', JStr (write_iso cal now))] w)"

definition handle_request_health_sync ::
  "orion_action \<Rightarrow> handler_world \<Rightarrow> (handler_world, result_dict) outcome" where
  "handle_request_health_sync a w =
     (if \<not> hw_telemetry w then unconfigured w
      else returns [(''device_id'', JStr (oa_device a)), (''sync_requested'', JBool True)] w)"

definition handle_request_status_sync ::
  "orion_action \<Rightarrow> handler_world \<Rightarrow> (handler_world, result_dict) outcome" where
  "handle_request_status_sync a w =
     returns [(''device_id'', JStr (oa_device a)), (''sync_requested'', JBool True)] w"

text \<open>Both operations on alerts, without an actor.\<close>

definition handle_alert_action ::
  "(string \<Rightarrow> string option \<Rightarrow> policy_db \<Rightarrow> (policy_db, bool) outcome) \<Rightarrow> string \<Rightarrow> orion_action \<Rightarrow>
   handler_world \<Rightarrow> (handler_world, result_dict) outcome" where
  "handle_alert_action act field a w =
     (case hw_alerts w of
        None \<Rightarrow> unconfigured w
      | Some db \<Rightarrow>
         (case text_param ''alert_id'' a of
            None \<Rightarrow> raises (Orion OrionActionError) w
          | Some aid \<Rightarrow>
             (case act aid None db of
                (Inl e, db1) \<Rightarrow> raises e (w\<lparr>hw_alerts := Some db1\<rparr>)
              | (Inr b, db1) \<Rightarrow>
                  returns [(''alert_id'', JStr aid), (field, JBool True), (''result'', JStr (py_bool b))]
                    (w\<lparr>hw_alerts := Some db1\<rparr>))))"

definition handle_acknowledge_alert ::
  "int \<Rightarrow> orion_action \<Rightarrow> handler_world \<Rightarrow> (handler_world, result_dict) outcome" where
  "handle_acknowledge_alert now a w = handle_alert_action (acknowledge_alert now) ''acknowledged'' a w"

definition handle_resolve_alert ::
  "int \<Rightarrow> orion_action \<Rightarrow> handler_world \<Rightarrow> (handler_world, result_dict) outcome" where
  "handle_resolve_alert now a w = handle_alert_action (resolve_alert now) ''resolved'' a w"

text \<open>No class of the package has a method \<^verbatim>\<open>reconnect\<close>.\<close>

definition handle_reconnect_transport ::
  "orion_action \<Rightarrow> handler_world \<Rightarrow> (handler_world, result_dict) outcome" where
  "handle_reconnect_transport a w =
     (if \<not> hw_client w then unconfigured w else raises (Orion OrionActionError) w)"

section \<open>Screen sessions\<close>

definition set_screen :: "screen_world \<Rightarrow> handler_world \<Rightarrow> handler_world" where
  [model_defs]: "set_screen sw w = w\<lparr>hw_base := (hw_base w)\<lparr>rw_screen := Some sw\<rparr>\<rparr>"

definition set_aegis :: "aegis_world \<Rightarrow> handler_world \<Rightarrow> handler_world" where
  [model_defs]: "set_aegis aw w = w\<lparr>hw_base := (hw_base w)\<lparr>rw_aegis := Some aw\<rparr>\<rparr>"

definition action_view_request :: "int \<Rightarrow> orion_action \<Rightarrow> view_request" where
  "action_view_request secs a =
     \<lparr>vr_device = oa_device a, vr_parent = oa_requested_by a, vr_max_duration = secs,
      vr_label = (case map_of (oa_params a) ''label'' of Some (JStr s) \<Rightarrow> Some s | _ \<Rightarrow> None),
      vr_width = 1280, vr_height = 720, vr_max_fps = 10\<rparr>"

definition handle_request_screen_session ::
  "int \<Rightarrow> draws \<Rightarrow> orion_action \<Rightarrow> handler_world \<Rightarrow> (handler_world, result_dict) outcome" where
  "handle_request_screen_session now d a w =
     (case rw_screen (hw_base w) of
        None \<Rightarrow> unconfigured w
      | Some sw \<Rightarrow>
         (case int_of_json (get_or (JInt 300) (oa_params a) ''max_duration_seconds'') of
            Inl e \<Rightarrow> raises e w
          | Inr secs \<Rightarrow>
             (case request_view now (dw_session d) (dw_auth d) (dw_nonce d) (action_view_request secs a) sw of
                (Inl e, sw1) \<Rightarrow> raises e (set_screen sw1 w)
              | (Inr sid, sw1) \<Rightarrow>
                  returns [(''device_id'', JStr (oa_device a)), (''screen_session_id'', JStr sid),
                      (''state'', JStr (case get_screen_session sid sw1 of
                         None \<Rightarrow> [] | Some s \<Rightarrow> screen_state_value (sv_state (se_info s))))]
                    (set_screen sw1 w))))"

text \<open>The reason is a text, not one of the enumeration the controller expects.\<close>

definition handle_stop_screen_session ::
  "int \<Rightarrow> orion_action \<Rightarrow> handler_world \<Rightarrow> (handler_world, result_dict) outcome" where
  "handle_stop_screen_session now a w =
     (case rw_screen (hw_base w) of
        None \<Rightarrow> unconfigured w
      | Some sw \<Rightarrow>
         (case text_param ''screen_session_id'' a of
            None \<Rightarrow> raises (Orion OrionActionError) w
          | Some sid \<Rightarrow>
             (case stop_view now sid (RawReason ''ORION_STOP'') sw of
                (Inl e, sw1) \<Rightarrow> raises e (set_screen sw1 w)
              | (Inr u, sw1) \<Rightarrow>
                  returns [(''screen_session_id'', JStr sid), (''stopped'', JBool True)] (set_screen sw1 w))))"

section \<open>Aegis\<close>

definition handle_request_aegis_consent ::
  "calendar \<Rightarrow> int \<Rightarrow> draws \<Rightarrow> orion_action \<Rightarrow> handler_world \<Rightarrow> (handler_world, result_dict) outcome" where
  "handle_request_aegis_consent cal now d a w =
     (case rw_aegis (hw_base w) of
        None \<Rightarrow> unconfigured w
      | Some aw \<Rightarrow>
         (case text_param ''aegis_session_id'' a of
            None \<Rightarrow> raises (Orion OrionActionError) w
          | Some aid \<Rightarrow>
             (case request_system_consent cal now (dw_token d) aid aw of
                (Inl e, aw1) \<Rightarrow> raises e (set_aegis aw1 w)
              | (Inr r, aw1) \<Rightarrow>
                  returns [(''aegis_session_id'', JStr aid), (''consent_token'', JStr (cn_token r))]
                    (set_aegis aw1 w))))"

definition handle_stop_aegis_capture ::
  "calendar \<Rightarrow> int \<Rightarrow> orion_action \<Rightarrow> handler_world \<Rightarrow> (handler_world, result_dict) outcome" where
  "handle_stop_aegis_capture cal now a w =
     (case rw_aegis (hw_base w) of
        None \<Rightarrow> unconfigured w
      | Some aw \<Rightarrow>
         (case text_param ''aegis_session_id'' a of
            None \<Rightarrow> raises (Orion OrionActionError) w
          | Some aid \<Rightarrow>
             (case stop_capture cal now aid ''ORION_STOP'' aw of
                (Inl e, aw1) \<Rightarrow> raises e (set_aegis aw1 w)
              | (Inr s, aw1) \<Rightarrow>
                  returns [(''aegis_session_id'', JStr aid), (''stopped'', JBool True)] (set_aegis aw1 w))))"

section \<open>Reconciliation and capabilities\<close>

text \<open>No events are passed on, so their staleness does not matter.\<close>

definition handle_reconcile_state ::
  "calendar \<Rightarrow> int \<Rightarrow> draws \<Rightarrow> orion_action \<Rightarrow> handler_world \<Rightarrow> (handler_world, result_dict) outcome" where
  "handle_reconcile_state cal now d a w =
     (if \<not> hw_reconciler w then unconfigured w
      else case reconcile cal now (dw_report d) (oa_device a) [] 3600 (hw_base w) of
        (Inl e, b) \<Rightarrow> raises e (w\<lparr>hw_base := b\<rparr>)
      | (Inr r, b) \<Rightarrow>
          returns [(''device_id'', JStr (oa_device a)), (''report_id'', JStr (rr_id r)),
              (''events_processed'', JInt (rr_processed r)), (''conflicts_detected'', JInt (rr_detected r)),
              (''conflicts_resolved'', JInt (rr_resolved r))]
            (w\<lparr>hw_base := b\<rparr>))"

text \<open>A device given as a number or a truth value is not found; one given as a list raises.\<close>

definition handle_request_capabilities ::
  "orion_action \<Rightarrow> handler_world \<Rightarrow> (handler_world, result_dict) outcome" where
  "handle_request_capabilities a w =
     (case hw_caps w of
        None \<Rightarrow> unconfigured w
      | Some reg \<Rightarrow>
         (let dev = get_or (JStr (oa_device a)) (oa_params a) ''device_id'';
              none = returns [(''device_id'', dev), (''capabilities'', JObj [])] w in
          case dev of
            JStr s \<Rightarrow>
              (case map_of reg s of
                 None \<Rightarrow> none
               | Some c \<Rightarrow> returns [(''device_id'', dev), (''capabilities'', caps_to_dict c)] w)
          | JList xs \<Rightarrow> raises (Builtin PyTypeError) w
          | JObj kvs \<Rightarrow> raises (Builtin PyTypeError) w
          | _ \<Rightarrow> none))"

section \<open>Dispatch\<close>

fun handler_for ::
  "calendar \<Rightarrow> int \<Rightarrow> draws \<Rightarrow> action_type \<Rightarrow> orion_action \<Rightarrow> handler_world \<Rightarrow>
   (handler_world, result_dict) outcome" where
  "handler_for cal now d ACT_REFRESH_HEALTH = handle_refresh_health cal now"
| "handler_for cal now d ACT_REQUEST_HEALTH_SYNC = handle_request_health_sync"
| "handler_for cal now d ACT_ACKNOWLEDGE_ALERT = handle_acknowledge_alert now"
| "handler_for cal now d ACT_RESOLVE_ALERT = handle_resolve_alert now"
| "handler_for cal now d ACT_RECONNECT_TRANSPORT = handle_reconnect_transport"
| "handler_for cal now d ACT_REQUEST_STATUS_SYNC = handle_request_status_sync"
| "handler_for cal now d ACT_REQUEST_SCREEN_SESSION = handle_request_screen_session now d"
| "handler_for cal now d ACT_STOP_SCREEN_SESSION = handle_stop_screen_session now"
| "handler_for cal now d ACT_REQUEST_AEGIS_CONSENT = handle_request_aegis_consent cal now d"
| "handler_for cal now d ACT_STOP_AEGIS_CAPTURE = handle_stop_aegis_capture cal now"
| "handler_for cal now d ACT_RECONCILE_STATE = handle_reconcile_state cal now d"
| "handler_for cal now d ACT_REQUEST_CAPABILITIES = handle_request_capabilities"

fun action_audit_event :: "action_type \<Rightarrow> string" where
  "action_audit_event ACT_ACKNOWLEDGE_ALERT = ''ORION_ACTION_COMPLETED''"
| "action_audit_event ACT_RESOLVE_ALERT = ''ORION_ACTION_COMPLETED''"
| "action_audit_event ACT_STOP_SCREEN_SESSION = ''ORION_ACTION_COMPLETED''"
| "action_audit_event ACT_STOP_AEGIS_CAPTURE = ''ORION_ACTION_COMPLETED''"
| "action_audit_event ACT_RECONCILE_STATE = ''ORION_RECONCILIATION_COMPLETED''"
| "action_audit_event ACT_REQUEST_CAPABILITIES = ''ORION_CAPABILITY_CHANGED''"
| "action_audit_event _ = ''ORION_ACTION_STARTED''"

definition record_action :: "orion_action \<Rightarrow> handler_world \<Rightarrow> handler_world" where
  "record_action a w =
     w\<lparr>hw_log := (case hw_log w of None \<Rightarrow> None
        | Some l \<Rightarrow> Some (audit (action_audit_event (oa_type a)) (Some (oa_requested_by a)) True l))\<rparr>"

text \<open>The draws of an action are those of its number among the actions executed.\<close>

definition handlers_execute ::
  "calendar \<Rightarrow> (nat \<Rightarrow> draws) \<Rightarrow> handler_world runner" where
  "handlers_execute cal draw now a w =
     (case action_is_expired (read_iso cal) now a of
        Inl e \<Rightarrow> raises e w
      | Inr True \<Rightarrow> raises (Orion OrionActionError) w
      | Inr False \<Rightarrow>
         (case handler_for cal now (draw (hw_drawn w)) (oa_type a) a (w\<lparr>hw_drawn := hw_drawn w + 1\<rparr>) of
            (Inl e, w1) \<Rightarrow> raises e w1
          | (Inr r, w1) \<Rightarrow> returns r (record_action a w1)))"

end
