(* ===== verification/OrionCoordinator.thy ===== *)
theory OrionCoordinator
  imports OrionHandlers OrionBus
begin

text \<open>
  \<^verbatim>\<open>guardianmesh/orion/scheduler.py\<close> and \<^verbatim>\<open>coordinator.py\<close>: the bus, the queue and the
  executor behind one start, stop, publish and submit.

  \<open>run\<close> is what the handlers do, as for the executor; the world of the bus is that of its own
  handlers.
\<close>

section \<open>The coordinator\<close>

record ('h, 's, 'w) coordinator =
  co_bus :: "('h, 's) event_bus"
  co_engine :: "'w engine"
  co_running :: bool

text \<open>The components the constructor builds when none are given.\<close>

definition default_handlers :: "audit_call list option \<Rightarrow> handler_world" where
  "default_handlers l =
     \<lparr>hw_base = \<lparr>rw_store = empty_store, rw_screen = None, rw_aegis = None, rw_transport = None\<rparr>,
      hw_reconciler = False, hw_alerts = None, hw_telemetry = False, hw_client = False,
      hw_caps = None, hw_log = l, hw_drawn = 0\<rparr>"

definition new_coordinator ::
  "audit_call list option \<Rightarrow> 's \<Rightarrow> gm_error + ('h, 's, handler_world) coordinator" where
  "new_coordinator l s =
     and_then (new_queue 10000) (\<lambda>q.
     and_then (new_bus 1024 3 ''DROP_OLDEST'' False s) (\<lambda>b.
     and_then (new_executor q (default_handlers l) 32) (\<lambda>e.
       Inr \<lparr>co_bus = b, co_engine = e, co_running = False\<rparr>)))"

section \<open>Starting and stopping\<close>

definition scheduler_start :: "('h, 's, 'w) coordinator \<Rightarrow> ('h, 's, 'w) coordinator" where
  "scheduler_start c = c\<lparr>co_bus := bus_start (co_bus c), co_engine := executor_start (co_engine c)\<rparr>"

definition scheduler_stop ::
  "('h, 's) caller \<Rightarrow> calendar \<Rightarrow> (gm_error \<Rightarrow> string) \<Rightarrow> 'w runner \<Rightarrow> int \<Rightarrow> bool \<Rightarrow>
   ('h, 's, 'w) coordinator \<Rightarrow> ('h, 's, 'w) coordinator" where
  "scheduler_stop call cal say run now drain c =
     c\<lparr>co_engine := executor_stop cal say run now drain (co_engine c),
       co_bus := bus_stop call drain (co_bus c)\<rparr>"

definition scheduler_is_running :: "('h, 's, 'w) coordinator \<Rightarrow> bool" where
  "scheduler_is_running c \<longleftrightarrow> eg_thread (co_engine c) \<or> eb_alive (co_bus c)"

definition coordinator_start :: "('h, 's, 'w) coordinator \<Rightarrow> ('h, 's, 'w) coordinator" where
  "coordinator_start c = (if co_running c then c else (scheduler_start c)\<lparr>co_running := True\<rparr>)"

definition coordinator_stop ::
  "('h, 's) caller \<Rightarrow> calendar \<Rightarrow> (gm_error \<Rightarrow> string) \<Rightarrow> 'w runner \<Rightarrow> int \<Rightarrow> bool \<Rightarrow>
   ('h, 's, 'w) coordinator \<Rightarrow> ('h, 's, 'w) coordinator" where
  "coordinator_stop call cal say run now drain c =
     (if \<not> co_running c then c
      else (scheduler_stop call cal say run now drain c)\<lparr>co_running := False\<rparr>)"

section \<open>Publishing and submitting\<close>

definition coordinator_publish ::
  "('h, 's) caller \<Rightarrow> orion_event \<Rightarrow> ('h, 's, 'w) coordinator \<Rightarrow> bool \<times> ('h, 's, 'w) coordinator" where
  "coordinator_publish call e c =
     (let (accepted, b) = publish_event call e (co_bus c) in (accepted, c\<lparr>co_bus := b\<rparr>))"

record submission =
  sb_type :: string
  sb_device :: string
  sb_requested_by :: string
  sb_correlation :: "string option"
  sb_params :: "(string \<times> json) list"
  sb_key :: "string option"
  sb_ttl :: int

text \<open>The first instant a datetime can be.\<close>

definition min_instant :: int where "min_instant = - 62135596800000000"

text \<open>\<open>aid\<close> and \<open>corr\<close> are the identifiers drawn; the latter is used when none is given.\<close>

definition build_action ::
  "calendar \<Rightarrow> int \<Rightarrow> string \<Rightarrow> string \<Rightarrow> submission \<Rightarrow> gm_error + orion_action" where
  "build_action cal now aid corr q =
     and_then (action_from_str (sb_type q)) (\<lambda>t.
       let expires = now + sb_ttl q * second in
       if expires < min_instant \<or> max_instant < expires then Inl (Builtin PyOverflowError)
       else checked_action (read_iso cal)
         \<lparr>oa_id = aid, oa_type = t, oa_device = sb_device q, oa_created = write_iso cal now,
          oa_expires = write_iso cal expires,
          oa_correlation = (case sb_correlation q of None \<Rightarrow> corr | Some x \<Rightarrow> x),
          oa_requested_by = sb_requested_by q, oa_status = ST_PENDING, oa_version = orion_schema,
          oa_params = sb_params q, oa_key = sb_key q, oa_retries = 0, oa_max_retries = 3,
          oa_next_attempt = None, oa_last_error = None, oa_updated = None, oa_result = []\<rparr>)"

definition submit_action ::
  "calendar \<Rightarrow> int \<Rightarrow> string \<Rightarrow> string \<Rightarrow> submission \<Rightarrow> ('h, 's, 'w) coordinator \<Rightarrow>
   (('h, 's, 'w) coordinator, bool) outcome" where
  "submit_action cal now aid corr q c =
     (case build_action cal now aid corr q of
        Inl e \<Rightarrow> raises e c
      | Inr a \<Rightarrow>
         (case enqueue a (eg_queue (co_engine c)) of
            (Inl e, qu) \<Rightarrow> raises e (c\<lparr>co_engine := (co_engine c)\<lparr>eg_queue := qu\<rparr>\<rparr>)
          | (Inr ok, qu) \<Rightarrow> returns ok (c\<lparr>co_engine := (co_engine c)\<lparr>eg_queue := qu\<rparr>\<rparr>)))"

text \<open>The coordinator's own reconciler has no controllers: only its tables change.\<close>

definition coordinator_reconcile ::
  "calendar \<Rightarrow> int \<Rightarrow> string \<Rightarrow> string \<Rightarrow> orion_store \<Rightarrow> (recon_world, recon_report) outcome" where
  "coordinator_reconcile cal now rid dev s =
     reconcile cal now rid dev [] 3600
       \<lparr>rw_store = s, rw_screen = None, rw_aegis = None, rw_transport = None\<rparr>"

end
