(* ===== verification/OrionHandlersProps.thy ===== *)
theory OrionHandlersProps
  imports OrionCoordinator AegisProps ScreenProps
begin

text \<open>
  What the actions of Orion can do to the sessions of a child, and what they cannot.
\<close>

section \<open>What is being watched\<close>

definition watched :: "string \<Rightarrow> screen_world \<Rightarrow> bool" where
  "watched sid sw \<longleftrightarrow>
     (case get_screen_session sid sw of None \<Rightarrow> False | Some s \<Rightarrow> sv_state (se_info s) = SS_ACTIVE)"

definition captured :: "string \<Rightarrow> aegis_world \<Rightarrow> bool" where
  "captured aid aw \<longleftrightarrow>
     (case get_aegis aid aw of None \<Rightarrow> False | Some s \<Rightarrow> ag_state s = aegis_state_value AEG_CAPTURING)"

text \<open>The screen sessions that are active, the captures that run and the consents that are granted.\<close>

definition sessions_active :: "recon_world \<Rightarrow> string set" where
  "sessions_active b = {sid. case rw_screen b of None \<Rightarrow> False | Some sw \<Rightarrow> watched sid sw}"

definition captures_running :: "recon_world \<Rightarrow> string set" where
  "captures_running b = {aid. case rw_aegis b of None \<Rightarrow> False | Some aw \<Rightarrow> captured aid aw}"

definition consents_granted :: "recon_world \<Rightarrow> string set" where
  "consents_granted b =
     {t. case rw_aegis b of None \<Rightarrow> False | Some aw \<Rightarrow> consent_of t (aw_gate aw) = Some CON_GRANTED}"

definition nothing_starts :: "recon_world \<Rightarrow> recon_world \<Rightarrow> bool" where
  "nothing_starts b b' \<longleftrightarrow> sessions_active b' \<subseteq> sessions_active b \<and>
     captures_running b' \<subseteq> captures_running b \<and> consents_granted b' \<subseteq> consents_granted b"

lemma nothing_starts_refl [simp]: "nothing_starts b b"
  by (simp add: nothing_starts_def)

lemma nothing_starts_trans: "nothing_starts a b \<Longrightarrow> nothing_starts b c \<Longrightarrow> nothing_starts a c"
  by (auto simp: nothing_starts_def)

lemma nothing_starts_store [simp]: "nothing_starts b (b'\<lparr>rw_store := s\<rparr>) = nothing_starts b b'"
  by (simp add: nothing_starts_def sessions_active_def captures_running_def consents_granted_def)

section \<open>Screen sessions\<close>

definition none_watched :: "screen_world \<Rightarrow> screen_world \<Rightarrow> bool" where
  "none_watched sw sw' \<longleftrightarrow> (\<forall>sid. watched sid sw' \<longrightarrow> watched sid sw)"

lemma none_watched_refl [simp]: "none_watched w w"
  by (simp add: none_watched_def)

lemma none_watched_trans: "none_watched a b \<Longrightarrow> none_watched b c \<Longrightarrow> none_watched a c"
  by (simp add: none_watched_def)

lemma none_watched_sessions: "sw_sessions w' = sw_sessions w \<Longrightarrow> none_watched w w'"
  by (simp add: none_watched_def watched_def get_screen_session_def)

lemma watched_frame [simp]:
  "watched sid (log_screen ev ac ok w) = watched sid w" "watched sid (save_auth a w) = watched sid w"
  "watched sid (w\<lparr>sw_auths := m\<rparr>) = watched sid w"
  by (simp_all add: watched_def get_screen_session_def)

lemma none_watched_frame [simp]:
  "none_watched v (log_screen ev ac ok w) = none_watched v w" "none_watched v (save_auth a w) = none_watched v w"
  "none_watched v (w\<lparr>sw_auths := m\<rparr>) = none_watched v w"
  by (simp_all add: none_watched_def)

lemma watched_put: "watched sid (put_session s w) =
   (if sid = session_key s then sv_state (se_info s) = SS_ACTIVE else watched sid w)"
  by (simp add: watched_def get_put_session)

lemma watched_on_session:
  "watched sid (snd (on_session m s w)) = watched sid (put_session (lv_session (snd (m (live_of s w)))) w)"
  by (simp add: watched_def get_screen_session_def on_session_def split: prod.split)

lemma none_watched_set:
  "none_watched sw sw' \<Longrightarrow> rw_screen b = Some sw \<Longrightarrow> nothing_starts b (b\<lparr>rw_screen := Some sw'\<rparr>)"
  by (auto simp: nothing_starts_def none_watched_def sessions_active_def captures_running_def
      consents_granted_def)

text \<open>Ending a session leaves it as it was or ends it.\<close>

lemma ended_live:
  assumes "screen_terminal st"
  shows "snd (end_session now st reason l) = l \<or>
     (screen_terminal (live_state (snd (end_session now st reason l))) \<and>
      session_key (lv_session (snd (end_session now st reason l))) = session_key (lv_session l))"
  using assms by (simp add: end_session_def close_live_def Let_def model_defs split: option.split)

lemma ended_watched:
  assumes "screen_terminal st" and "get_screen_session (session_key s) w = Some s"
  shows "none_watched w (snd (on_session (end_session now st reason) s w))"
proof -
  let ?l = "snd (end_session now st reason (live_of s w))"
  consider "?l = live_of s w" | "screen_terminal (live_state ?l)" "session_key (lv_session ?l) = session_key s"
    using ended_live[OF assms(1), of now reason "live_of s w"] by (auto simp: live_of_def)
  then have "watched sid w" if "watched sid (put_session (lv_session ?l) w)" for sid
  proof cases
    case 1
    have "put_session (lv_session ?l) w = put_session s w" unfolding 1 by (simp add: live_of_def)
    with that assms(2) show ?thesis by (simp add: watched_put) (auto simp: watched_def split: if_splits)
  next
    case 2
    then show ?thesis using that by (auto simp: watched_put screen_terminal_def split: if_splits)
  qed
  then show ?thesis by (simp add: none_watched_def watched_on_session)
qed

lemma stop_watched: "none_watched w (snd (stop_view now sid reason w))"
proof (cases "require_session sid w")
  case (Inr s)
  obtain r w1 where out: "on_session (session_stop now reason) s w = (r, w1)" by fastforce
  have "none_watched w w1"
    using ended_watched[OF _ require_key[OF Inr], of SS_STOPPED now reason] out
    by (simp add: session_stop_def[abs_def] screen_terminal_def)
  then show ?thesis using Inr out
    by (auto simp: stop_view_def split: sum.split stop_note.split)
qed (simp add: stop_view_def)

lemma revoke_watched: "none_watched w (snd (revoke_view now sid w))"
proof (cases "require_session sid w")
  case (Inr s)
  obtain r w1 where out: "on_session (session_revoke now) s w = (r, w1)" by fastforce
  have "none_watched w w1"
    using ended_watched[OF _ require_key[OF Inr], of SS_REVOKED now "stop_note.Reason SR_TRUST_REVOKED"] out
    by (simp add: session_revoke_def[abs_def] screen_terminal_def)
  then show ?thesis using Inr out
    by (auto simp: revoke_view_def split: sum.split)
qed (simp add: revoke_view_def)

text \<open>A requested session waits for the child.\<close>

lemma requested_live:
  assumes "live_state l = SS_REQUESTED"
  shows "live_state (snd (session_request now dev par secs l)) \<noteq> SS_ACTIVE"
    and "session_key (lv_session (snd (session_request now dev par secs l))) = session_key (lv_session l)"
  using assms by (auto simp: session_request_def Let_def model_defs split: option.split)

lemma request_watched: "none_watched w (snd (request_view now sid aid nonce q w))"
proof -
  let ?c = "default_screen_config\<lparr>sc_max_duration := vr_max_duration q, sc_width := vr_width q,
                    sc_height := vr_height q, sc_max_fps := vr_max_fps q, sc_label := vr_label q\<rparr>"
  obtain r w1 where create: "create_screen_session now sid (vr_device q) (vr_parent q) ?c None w = (r, w1)"
    by fastforce
  have w1: "none_watched w w1 \<and> (\<forall>s. r = Inr s \<longrightarrow> session_key s = sid \<and> sv_state (se_info s) = SS_REQUESTED)"
    using create by (auto simp: create_screen_session_def Let_def new_screen_session_def and_then_def
        none_watched_def watched_put session_key_def split: sum.splits if_splits)
  show ?thesis
  proof (cases r)
    case (Inl e)
    then show ?thesis using create w1 by (auto simp: request_view_def Let_def split: option.split)
  next
    case (Inr s)
    let ?m = "session_request now (vr_device q) (vr_parent q) (Some (vr_max_duration q))"
    obtain x w2 where req: "on_session ?m s w1 = (x, w2)" by fastforce
    have s: "session_key s = sid" "live_state (live_of s w1) = SS_REQUESTED" using w1 Inr by (simp_all add: live_of_def)
    have off: "\<not> watched sid w2" and other: "sid' \<noteq> sid \<Longrightarrow> watched sid' w2 = watched sid' w1" for sid'
      using requested_live[OF s(2), of now "vr_device q" "vr_parent q" "Some (vr_max_duration q)"] s(1)
        watched_on_session[of _ ?m s w1] req by (simp_all add: watched_put live_of_def)
    have w2: "none_watched w1 w2" using off other by (metis none_watched_def)
    let ?upd = "\<lambda>au. update_where (\<lambda>y. session_key y = sid)
        (\<lambda>y. y\<lparr>se_info := (se_info y)\<lparr>sv_auth := Some (sa_id au)\<rparr>\<rparr>) (sw_sessions w2)"
    have asked: "none_watched w w2" using w1 w2 none_watched_trans by blast
    have same: "watched sid' (w2\<lparr>sw_auths := m, sw_sessions := ?upd au\<rparr>) = watched sid' w2" for sid' m au
      by (auto simp: watched_def get_screen_session_def fetch_update_where session_key_def split: option.split)
    have bound: "none_watched w (w2\<lparr>sw_auths := m, sw_sessions := ?upd au\<rparr>)" for m au
      using asked unfolding none_watched_def same .
    show ?thesis using create Inr req bound asked
      by (auto simp: request_view_def Let_def split: option.split sum.split prod.split)
  qed
qed

section \<open>Captures\<close>

definition none_captured :: "aegis_world \<Rightarrow> aegis_world \<Rightarrow> bool" where
  "none_captured aw aw' \<longleftrightarrow> (\<forall>aid. captured aid aw' \<longrightarrow> captured aid aw) \<and>
     (\<forall>t. consent_of t (aw_gate aw') = Some CON_GRANTED \<longrightarrow> consent_of t (aw_gate aw) = Some CON_GRANTED)"

lemma none_captured_refl [simp]: "none_captured w w"
  by (simp add: none_captured_def)

lemma none_captured_trans: "none_captured a b \<Longrightarrow> none_captured b c \<Longrightarrow> none_captured a c"
  by (simp add: none_captured_def)

lemma captured_frame [simp]:
  "captured aid (log_aegis ev a ok w) = captured aid w" "captured aid (w\<lparr>aw_gate := g\<rparr>) = captured aid w"
  "captured aid (release_capture x w) = captured aid w"
  "captured aid (save_aegis s w) =
     (if aid = ag_id s then ag_state s = aegis_state_value AEG_CAPTURING else captured aid w)"
  by (simp_all add: captured_def get_aegis_def fetch_upsert_whole)

lemma none_captured_set:
  "none_captured aw aw' \<Longrightarrow> rw_aegis b = Some aw \<Longrightarrow> nothing_starts b (b\<lparr>rw_aegis := Some aw'\<rparr>)"
  by (auto simp: nothing_starts_def none_captured_def sessions_active_def captures_running_def
      consents_granted_def)

lemma stop_captured: "none_captured w (snd (stop_capture cal now aid why w))"
  by (cases rule: stop_capture_cases[of cal now aid why w])
    (auto simp: none_captured_def tightens_def dest!: withdraw_tightens split: if_splits)

lemma expire_captured: "none_captured w (snd (expire_due_sessions cal now w))"
  unfolding expire_due_sessions_def
proof (rule expire_sessions_invariant[where P = "none_captured w"])
  show "none_captured w v \<Longrightarrow> none_captured w (snd (stop_capture cal now aid ''EXPIRED'' v))" for v aid
    using none_captured_trans stop_captured by blast
  show "none_captured w v' \<Longrightarrow> none_captured w (save_aegis (s\<lparr>ag_state := aegis_state_value AEG_EXPIRED\<rparr>) v')"
    for s v' by (simp add: none_captured_def)
qed simp

lemma consent_put: "consent_of t (put_record r g) = (if t = cn_token r then Some (cn_state r) else consent_of t g)"
  by (simp add: consent_of_def get_record_def put_record_def fetch_upsert_whole)

lemma consent_sessions [simp]: "consent_of t (g\<lparr>gt_sessions := m\<rparr>) = consent_of t g"
  by (simp add: consent_of_def get_record_def)

lemma request_captured: "none_captured w (snd (request_system_consent cal now token aid w))"
  by (auto simp: request_system_consent_def request_consent_def Let_def none_captured_def consent_put
      split: sum.split option.split prod.split if_splits)

section \<open>Reconciliation\<close>

lemma expire_screens_watched: "none_watched w (fst (expire_screens now ss w r))"
proof (induction now ss w r rule: expire_screens.induct)
  case (2 now s rest w r)
  obtain x w1 where out: "revoke_view now (session_key s) w = (x, w1)" by fastforce
  then have "none_watched w w1" using revoke_watched[of w now "session_key s"] by simp
  with 2 out show ?case by (auto intro: none_watched_trans split: sum.split bool.split)
qed simp

lemma screens_start_nothing: "nothing_starts b (fst (expire_screen_sessions now dev (b, r)))"
proof (cases "rw_screen b")
  case (Some sw)
  obtain sw1 r1 where "expire_screens now (sessions_for_device dev sw) sw r = (sw1, r1)" by fastforce
  with Some show ?thesis
    using none_watched_set[OF expire_screens_watched Some, of now "sessions_for_device dev sw" r]
    by (simp add: expire_screen_sessions_def)
qed (simp add: expire_screen_sessions_def)

lemma aegis_starts_nothing: "nothing_starts b (fst (expire_aegis_sessions cal now dev (b, r)))"
proof (cases "rw_aegis b")
  case (Some aw)
  obtain x aw1 where "expire_due_sessions cal now aw = (x, aw1)" by fastforce
  with Some show ?thesis using none_captured_set[OF expire_captured Some, of cal now]
    by (auto simp: expire_aegis_sessions_def split: sum.split)
qed (simp add: expire_aegis_sessions_def)

lemma transport_same [simp]: "fst (reconcile_transport_state dev x) = fst x"
  by (simp add: reconcile_transport_state_def split: prod.split option.split)

text \<open>The world after the rules, whatever the events do.\<close>

lemma reconcile_base:
  obtains s where "snd (reconcile cal now rid dev es st b) = b"
  | s where "snd (reconcile cal now rid dev es st b) =
      (fst (expire_aegis_sessions cal now dev (expire_screen_sessions now dev (b, new_report rid dev (write_iso cal now)))))
        \<lparr>rw_store := s\<rparr>"
proof -
  let ?x = "reconcile_transport_state dev (expire_aegis_sessions cal now dev
      (expire_screen_sessions now dev (b, new_report rid dev (write_iso cal now))))"
  obtain b1 r1 where x: "?x = (b1, r1)" by fastforce
  then have b1: "b1 = fst (expire_aegis_sessions cal now dev
      (expire_screen_sessions now dev (b, new_report rid dev (write_iso cal now))))"
    by (metis fst_conv transport_same)
  have "snd (reconcile cal now rid dev es st b) = b \<or> (\<exists>s. snd (reconcile cal now rid dev es st b) = b1\<lparr>rw_store := s\<rparr>)"
    by (auto simp: reconcile_def x Let_def split: option.split prod.split sum.split)
  then show thesis using that b1 by blast
qed

lemma reconcile_starts_nothing: "nothing_starts b (snd (reconcile cal now rid dev es st b))"
proof (cases rule: reconcile_base[of cal now rid dev es st b])
  case (2 s)
  obtain b1 r1 where x: "expire_screen_sessions now dev (b, new_report rid dev (write_iso cal now)) = (b1, r1)"
    by fastforce
  have "nothing_starts b b1" using screens_start_nothing[of b now dev] x by (metis fst_conv)
  then show ?thesis using aegis_starts_nothing[of b1 cal now dev r1] nothing_starts_trans 2
    by (simp add: x)
qed simp

section \<open>Actions\<close>

lemmas handler_defs = handle_refresh_health_def handle_request_health_sync_def
  handle_request_status_sync_def handle_reconnect_transport_def handle_request_capabilities_def
  handle_alert_action_def handle_acknowledge_alert_def handle_resolve_alert_def

lemma handler_starts_nothing:
  "nothing_starts (hw_base w) (hw_base (snd (handler_for cal now d t a w)))"
proof (cases t)
  case ACT_REQUEST_SCREEN_SESSION
  then show ?thesis using none_watched_set[OF request_watched]
    by (auto simp: handle_request_screen_session_def unconfigured_def set_screen_def
        split: option.split sum.split prod.split) (metis snd_conv)+
next
  case ACT_STOP_SCREEN_SESSION
  then show ?thesis using none_watched_set[OF stop_watched]
    by (auto simp: handle_stop_screen_session_def unconfigured_def set_screen_def
        split: option.split sum.split prod.split) (metis snd_conv)+
next
  case ACT_REQUEST_AEGIS_CONSENT
  then show ?thesis using none_captured_set[OF request_captured]
    by (auto simp: handle_request_aegis_consent_def unconfigured_def set_aegis_def
        split: option.split sum.split prod.split) (metis snd_conv)+
next
  case ACT_STOP_AEGIS_CAPTURE
  then show ?thesis using none_captured_set[OF stop_captured]
    by (auto simp: handle_stop_aegis_capture_def unconfigured_def set_aegis_def
        split: option.split sum.split prod.split) (metis snd_conv)+
next
  case ACT_RECONCILE_STATE
  then show ?thesis using reconcile_starts_nothing[of "hw_base w"]
    by (auto simp: handle_reconcile_state_def unconfigured_def split: sum.split prod.split) (metis snd_conv)+
qed (auto simp: handler_defs unconfigured_def Let_def split: option.split sum.split prod.split json.split)

lemma executed_starts_nothing:
  "nothing_starts (hw_base w) (hw_base (snd (handlers_execute cal draw now a w)))"
proof -
  let ?w = "w\<lparr>hw_drawn := hw_drawn w + 1\<rparr>"
  obtain x w1 where out: "handler_for cal now (draw (hw_drawn w)) (oa_type a) a ?w = (x, w1)" by fastforce
  have "nothing_starts (hw_base w) (hw_base w1)"
    using handler_starts_nothing[of ?w cal now "draw (hw_drawn w)" "oa_type a" a] out by simp
  then show ?thesis
    by (simp add: handlers_execute_def out[simplified] record_action_def split: sum.split bool.split)
qed

section \<open>The executor over the handlers\<close>

text \<open>What every action keeps of the world, the executor keeps.\<close>

lemma execute_all_keeps:
  assumes "\<And>a w. R w (snd (run now a w))" and "\<And>w. R w w" and "\<And>u v w. R u v \<Longrightarrow> R v w \<Longrightarrow> R u w"
  shows "R (eg_world s) (eg_world (snd (execute_all cal say run now as s)))"
proof (induction as arbitrary: s)
  case Nil
  then show ?case by (simp add: assms(2))
next
  case (Cons a as)
  obtain x s1 where out: "execute_action cal say run now a s = (x, s1)" by fastforce
  have s1: "R (eg_world s) (eg_world s1)"
    using assms(1)[of "eg_world s" a] execute_world[of cal say run now a s] out by simp
  have "R (eg_world s) (eg_world (snd (execute_all cal say run now as s1)))"
    using s1 Cons.IH[of s1] assms(3) by blast
  with s1 out assms(2) show ?case by (auto split: sum.split prod.split)
qed

lemma loop_keeps:
  assumes "\<And>now a w. R w (snd (run now a w))" and "\<And>w. R w w" and "\<And>u v w. R u v \<Longrightarrow> R v w \<Longrightarrow> R u w"
  shows "R (eg_world s) (eg_world (executor_loop cal say run ts s))"
proof (induction ts arbitrary: s)
  case Nil
  then show ?case by (simp add: assms(2))
next
  case (Cons now ts)
  have "R (eg_world s) (eg_world (snd (drain_once cal say run now s)))"
    using execute_all_keeps[of R run now "s\<lparr>eg_queue := q\<rparr>" cal say for q, simplified] assms
    by (auto simp: drain_once_def Let_def split: sum.split)
  then show ?case using Cons.IH assms(2,3) by (metis executor_loop.simps(2))
qed

text \<open>
  C32: whatever actions the executor drains, and at whatever times, no screen session becomes
  active, no capture starts and no system consent is granted: Orion can ask for consent and
  end sessions, but not stand in for the child.
\<close>

theorem orion_starts_nothing:
  "nothing_starts (hw_base (eg_world s))
     (hw_base (eg_world (executor_loop cal say (handlers_execute cal draw) ts s)))"
  by (rule loop_keeps[where R = "\<lambda>u v. nothing_starts (hw_base u) (hw_base v)"])
    (auto intro: executed_starts_nothing nothing_starts_trans)

end
