(* ===== verification/OrionLimits.thy ===== *)
theory OrionLimits
  imports OrionHandlersProps OrionExecutorProps
begin

text \<open>
  What the handlers do at a second attempt, what a reconciliation leaves behind, and what the
  coordinator can do as it is built.
\<close>

section \<open>Stopping a session takes two attempts\<close>

lemma stopped_live:
  assumes "live_state l = SS_ACTIVE"
  shows "fst (session_stop now r l) = Inr ()" and "live_state (snd (session_stop now r l)) = SS_STOPPED"
    and "session_key (lv_session (snd (session_stop now r l))) = session_key (lv_session l)"
  using assms by (simp_all add: session_stop_def end_session_def close_live_def Let_def
      assert_legal_transition_def screen_terminal_def model_defs)

lemma stop_view_raw:
  assumes "get_screen_session sid sw = Some s" and "sv_state (se_info s) = SS_ACTIVE"
  obtains sw1 s1 where "stop_view now sid (RawReason t) sw = (Inl (Builtin PyAttributeError), sw1)"
    and "get_screen_session sid sw1 = Some s1" and "sv_state (se_info s1) = SS_STOPPED"
proof -
  let ?m = "session_stop now (RawReason t)" and ?l = "snd (session_stop now (RawReason t) (live_of s sw))"
  have s: "live_state (live_of s sw) = SS_ACTIVE" and key: "session_key s = sid"
    using assms by (auto simp: live_of_def get_screen_session_def dest: fetch_where_Some)
  note stop = stopped_live[OF s, of now "RawReason t"]
  obtain sw1 where out: "on_session ?m s sw = (Inr (), sw1)"
    using stop(1) by (cases "?m (live_of s sw)") (simp add: on_session_def)
  have "get_screen_session sid sw1 = get_screen_session sid (put_session (lv_session ?l) sw)"
    using out by (auto simp: on_session_def get_screen_session_def split: prod.splits)
  also have "\<dots> = Some (lv_session ?l)" using stop(3) key by (simp add: get_put_session live_of_def)
  finally have got: "get_screen_session sid sw1 = Some (lv_session ?l)" .
  have "stop_view now sid (RawReason t) sw = (Inl (Builtin PyAttributeError), sw1)"
    using assms out by (simp add: stop_view_def require_session_def screen_terminal_def)
  with got stop(2) show thesis using that by blast
qed

lemma stop_view_ended:
  assumes "get_screen_session sid sw = Some s" and "screen_terminal (sv_state (se_info s))"
  shows "stop_view now sid r sw = (Inr (), sw)"
  using assms by (simp add: stop_view_def require_session_def)

text \<open>
  The action that stops a screen session ends the session but is counted as failed: the
  handler passes a text where the controller wants a reason.  Run again, it succeeds.
\<close>

theorem stop_session_needs_retry:
  assumes "rw_screen (hw_base w) = Some sw" and "get_screen_session sid sw = Some s"
    and "sv_state (se_info s) = SS_ACTIVE"
    and "oa_type a = ACT_STOP_SCREEN_SESSION" and "text_param ''screen_session_id'' a = Some sid"
    and "action_is_expired (read_iso cal) t1 a = Inr False"
    and "action_is_expired (read_iso cal) t2 a = Inr False"
  shows "\<exists>w1. handlers_execute cal draw t1 a w = (Inl (Builtin PyAttributeError), w1) \<and>
    sid \<notin> sessions_active (hw_base w1) \<and> succeeded (handlers_execute cal draw t2 a w1)"
proof -
  obtain sw1 s1 where first: "stop_view t1 sid (RawReason ''ORION_STOP'') sw = (Inl (Builtin PyAttributeError), sw1)"
      and s1: "get_screen_session sid sw1 = Some s1" "sv_state (se_info s1) = SS_STOPPED"
    using stop_view_raw[OF assms(2,3)] by metis
  let ?w1 = "set_screen sw1 (w\<lparr>hw_drawn := hw_drawn w + 1\<rparr>)"
  have "handlers_execute cal draw t1 a w = (Inl (Builtin PyAttributeError), ?w1)"
    using assms first by (simp add: handlers_execute_def handle_stop_screen_session_def)
  moreover have "sid \<notin> sessions_active (hw_base ?w1)"
    using s1 by (simp add: sessions_active_def watched_def set_screen_def)
  moreover have "succeeded (handlers_execute cal draw t2 a ?w1)"
    using assms stop_view_ended[OF s1(1)] s1(2)
    by (simp add: handlers_execute_def handle_stop_screen_session_def set_screen_def screen_terminal_def)
  ultimately show ?thesis by blast
qed

section \<open>What a reconciliation ends\<close>

definition overdue :: "int \<Rightarrow> screen_session \<Rightarrow> bool" where
  "overdue now s \<longleftrightarrow> \<not> screen_terminal (sv_state (se_info s)) \<and> info_is_expired now (se_info s) \<noteq> Inr False"

text \<open>A successful revocation ends the session and changes no other.\<close>

lemma revoked_view:
  assumes "get_screen_session sid w = Some s" and "revoke_view now sid w = (Inr u, w1)"
  shows "\<exists>s1. get_screen_session sid w1 = Some s1 \<and> screen_terminal (sv_state (se_info s1))"
    and "x \<noteq> sid \<Longrightarrow> get_screen_session x w1 = get_screen_session x w"
proof -
  have key: "session_key s = sid" using assms(1) by (auto simp: get_screen_session_def dest: fetch_where_Some)
  let ?l = "snd (session_revoke now (live_of s w))"
  have "(screen_terminal (sv_state (se_info s)) \<and> w1 = w) \<or>
     (succeeded (session_revoke now (live_of s w)) \<and> \<not> screen_terminal (sv_state (se_info s)) \<and>
      (\<forall>y. get_screen_session y w1 = get_screen_session y (put_session (lv_session ?l) w)))"
    using assms by (auto simp: revoke_view_def require_session_def on_session_def get_screen_session_def
        log_screen_def succeeded_def split: prod.splits sum.splits if_splits)
  moreover have "screen_terminal (live_state ?l) \<and> session_key (lv_session ?l) = sid"
    if "succeeded (session_revoke now (live_of s w))" "\<not> screen_terminal (sv_state (se_info s))"
    using that key by (auto simp: session_revoke_def end_session_def close_live_def Let_def model_defs
        screen_terminal_def succeeded_def split: option.splits)
  ultimately show "\<exists>s1. get_screen_session sid w1 = Some s1 \<and> screen_terminal (sv_state (se_info s1))"
    and "x \<noteq> sid \<Longrightarrow> get_screen_session x w1 = get_screen_session x w"
    using assms(1) by (auto simp: get_put_session)
qed

lemma expire_failed_grows: "rr_failed r \<le> rr_failed (snd (expire_screens now ss w r))"
  by (induction now ss w r rule: expire_screens.induct)
    (auto split: sum.split bool.split prod.split intro: order_trans)

lemma expire_screens_ends:
  assumes "expire_screens now ss w r = (w', r')" and "rr_failed r' = rr_failed r"
    and "\<forall>s \<in> set ss. get_screen_session (session_key s) w = Some s" and "distinct (map session_key ss)"
  shows "(\<forall>s \<in> set ss. \<exists>s'. get_screen_session (session_key s) w' = Some s' \<and> \<not> overdue now s') \<and>
    (\<forall>x. x \<notin> session_key ` set ss \<longrightarrow> get_screen_session x w' = get_screen_session x w)"
  using assms
proof (induction now ss w r arbitrary: w' r' rule: expire_screens.induct)
  case (2 now s rest w r)
  show ?case
  proof (cases "info_is_expired now (se_info s)")
    case (Inl e)
    then show ?thesis using "2.prems"(1,2) by auto
  next
    case (Inr b)
    show ?thesis
    proof (cases b)
      case False
      have "expire_screens now rest w r = (w', r')" using "2.prems"(1) Inr False by simp
      with "2.IH"(2)[OF Inr _ this] "2.prems" Inr False show ?thesis
        by (auto simp: overdue_def)
    next
      case True
      obtain x w1 where out: "revoke_view now (session_key s) w = (x, w1)" by fastforce
      show ?thesis
      proof (cases x)
        case (Inl e)
        then show ?thesis using "2.prems"(1,2) Inr True out by auto
      next
        case ok: (Inr u)
        have get: "get_screen_session (session_key s) w = Some s" using "2.prems"(3) by simp
        note rev = revoked_view[OF get, of now u w1]
        let ?r1 = "r\<lparr>rr_resolved := rr_resolved r + 1\<rparr>"
        have rest: "expire_screens now rest w1 ?r1 = (w', r')" using "2.prems"(1) Inr True out ok by simp
        have others: "\<forall>y \<in> set rest. get_screen_session (session_key y) w1 = Some y"
          using "2.prems"(3,4) rev(2) out ok by (metis distinct.simps(2) image_eqI list.set_intros(2) list.set_map list.simps(9))
        have "(\<forall>s \<in> set rest. \<exists>s'. get_screen_session (session_key s) w' = Some s' \<and> \<not> overdue now s') \<and>
            (\<forall>x. x \<notin> session_key ` set rest \<longrightarrow> get_screen_session x w' = get_screen_session x w1)"
          using "2.IH"(1)[OF Inr _ out[symmetric] ok rest _ others] "2.prems"(2,4) True by simp
        then show ?thesis using rev out ok "2.prems"(4) by (auto simp: overdue_def)
      qed
    qed
  qed
qed simp

lemma failed_grows:
  "rr_failed (snd x) \<le> rr_failed (snd (expire_aegis_sessions cal now dev x))"
  "rr_failed (snd (reconcile_transport_state dev x)) = rr_failed (snd x)"
  by (auto simp: expire_aegis_sessions_def reconcile_transport_state_def split: prod.split option.split sum.split)

lemma process_failed_grows:
  "process_events rd now dev st es s r = (Inr r', s') \<Longrightarrow> rr_failed r \<le> rr_failed r'"
  by (induction rd now dev st es s r rule: process_events.induct)
    (fastforce simp: Let_def split: if_splits stamp.splits sum.splits prod.splits)+

lemma screen_after [simp]: "rw_screen (fst (expire_aegis_sessions cal now dev x)) = rw_screen (fst x)"
  by (auto simp: expire_aegis_sessions_def split: prod.split option.split sum.split)

lemma reconcile_failed:
  assumes "reconcile cal now rid dev es st b = (Inr r, b')"
  shows "rr_failed (snd (expire_screen_sessions now dev (b, new_report rid dev (write_iso cal now)))) \<le> rr_failed r"
    and "rw_screen b' = rw_screen (fst (expire_screen_sessions now dev (b, new_report rid dev (write_iso cal now))))"
proof -
  let ?x = "expire_screen_sessions now dev (b, new_report rid dev (write_iso cal now))"
  let ?y = "reconcile_transport_state dev (expire_aegis_sessions cal now dev ?x)"
  obtain b1 r1 where y: "?y = (b1, r1)" by fastforce
  have "rr_failed (snd ?x) \<le> rr_failed r1"
    using failed_grows(1)[of ?x cal now dev] failed_grows(2)[of dev "expire_aegis_sessions cal now dev ?x"] y by simp
  moreover have "rr_failed r1 \<le> rr_failed r" and "rw_screen b' = rw_screen b1"
    using assms y by (auto simp: reconcile_def Let_def dest!: process_failed_grows
        split: if_splits option.splits prod.splits sum.splits)
  moreover have "rw_screen b1 = rw_screen (fst ?x)" using y by (metis fst_conv screen_after transport_same)
  ultimately show "rr_failed (snd ?x) \<le> rr_failed r" and "rw_screen b' = rw_screen (fst ?x)" by simp_all
qed

text \<open>
  C33: after a reconciliation that reports no failed action, every screen session the device had
  is still known and none of them is overdue: past its deadline and not ended.
\<close>

theorem reconciled_sessions_not_overdue:
  assumes "reconcile cal now rid dev es st b = (Inr r, b')" and "rr_failed r = 0"
    and "rw_screen b = Some sw" and "keyed session_key (sw_sessions sw)"
  shows "\<exists>sw'. rw_screen b' = Some sw' \<and>
    list_all (\<lambda>s. \<exists>s'. get_screen_session (session_key s) sw' = Some s' \<and> \<not> overdue now s')
      (sessions_for_device dev sw)"
proof -
  let ?r = "new_report rid dev (write_iso cal now)" and ?ss = "sessions_for_device dev sw"
  obtain sw' r' where ex: "expire_screens now ?ss sw ?r = (sw', r')" by fastforce
  have zero: "rr_failed ?r = 0" by (simp add: new_report_def)
  have mono: "0 \<le> rr_failed r'" and upto: "rr_failed r' \<le> 0"
    and got: "rw_screen b' = Some sw'"
  proof -
    show "0 \<le> rr_failed r'" using expire_failed_grows[of ?r now ?ss sw] ex zero by simp
    show "rr_failed r' \<le> 0" "rw_screen b' = Some sw'"
      using reconcile_failed[OF assms(1)] assms(2,3) ex by (simp_all add: expire_screen_sessions_def)
  qed
  have "\<forall>s \<in> set ?ss. get_screen_session (session_key s) sw = Some s"
    using assms(4) fetch_keyed by (fastforce simp: sessions_for_device_def get_screen_session_def)
  moreover have "distinct (map session_key ?ss)"
    using assms(4) by (simp add: keyed_def sessions_for_device_def distinct_map_filter)
  ultimately have "\<forall>s \<in> set ?ss. \<exists>s'. get_screen_session (session_key s) sw' = Some s' \<and> \<not> overdue now s'"
    using expire_screens_ends[OF ex] mono upto zero by simp
  with got show ?thesis by (simp add: list_all_iff)
qed

end
