(* ===== verification/OrionShipped.thy ===== *)
theory OrionShipped
  imports OrionLimits
begin

text \<open>
  The coordinator as its constructor builds it, without a component behind its handlers.
\<close>

section \<open>Runs of a coordinator\<close>

datatype co_op =
    CoSubmit int string string submission
  | CoPublish orion_event
  | CoWork "int list"
  | CoStart
  | CoStop int bool

fun co_exec ::
  "('h, 's) caller \<Rightarrow> calendar \<Rightarrow> (gm_error \<Rightarrow> string) \<Rightarrow> (nat \<Rightarrow> draws) \<Rightarrow> co_op \<Rightarrow>
   ('h, 's, handler_world) coordinator \<Rightarrow> ('h, 's, handler_world) coordinator" where
  "co_exec call cal say draw (CoSubmit now aid corr q) c = snd (submit_action cal now aid corr q c)"
| "co_exec call cal say draw (CoPublish e) c = snd (coordinator_publish call e c)"
| "co_exec call cal say draw (CoWork ts) c =
     c\<lparr>co_engine := executor_loop cal say (handlers_execute cal draw) ts (co_engine c)\<rparr>"
| "co_exec call cal say draw CoStart c = coordinator_start c"
| "co_exec call cal say draw (CoStop now drain) c =
     coordinator_stop call cal say (handlers_execute cal draw) now drain c"

definition co_run ::
  "('h, 's) caller \<Rightarrow> calendar \<Rightarrow> (gm_error \<Rightarrow> string) \<Rightarrow> (nat \<Rightarrow> draws) \<Rightarrow> co_op list \<Rightarrow>
   ('h, 's, handler_world) coordinator \<Rightarrow> ('h, 's, handler_world) coordinator" where
  "co_run call cal say draw ops c = foldl (\<lambda>c op. co_exec call cal say draw op c) c ops"

section \<open>Handlers without components\<close>

definition bare :: "handler_world \<Rightarrow> bool" where
  "bare w \<longleftrightarrow> rw_screen (hw_base w) = None \<and> rw_aegis (hw_base w) = None \<and> \<not> hw_reconciler w \<and>
     hw_alerts w = None \<and> \<not> hw_telemetry w \<and> \<not> hw_client w \<and> hw_caps w = None"

lemma bare_default: "bare (default_handlers l)"
  by (simp add: bare_def default_handlers_def)

lemma bare_drawn [simp]: "bare (w\<lparr>hw_drawn := n\<rparr>) = bare w"
  by (simp add: bare_def)

lemma bare_recorded [simp]: "bare (record_action a w) = bare w"
  by (simp add: bare_def record_action_def)

lemma bare_handler:
  assumes "bare w"
  shows "handler_for cal now d t a w =
    (if t = ACT_REQUEST_STATUS_SYNC then handle_request_status_sync a w else unconfigured w)"
  using assms by (cases t) (simp_all add: bare_def handler_defs handle_request_screen_session_def
      handle_stop_screen_session_def handle_request_aegis_consent_def handle_stop_aegis_capture_def
      handle_reconcile_state_def)

lemma bare_executes:
  assumes "bare w"
  shows "bare (snd (handlers_execute cal draw now a w))"
    and "succeeded (handlers_execute cal draw now a w) \<Longrightarrow> oa_type a = ACT_REQUEST_STATUS_SYNC"
  using assms bare_handler[of "w\<lparr>hw_drawn := hw_drawn w + 1\<rparr>" cal now "draw (hw_drawn w)" "oa_type a" a]
  by (auto simp: handlers_execute_def handle_request_status_sync_def unconfigured_def
      split: sum.splits bool.splits if_splits)

section \<open>The rows of the queue\<close>

definition row_types :: "action_queue \<Rightarrow> (string \<times> action_type) list" where
  "row_types q = map (\<lambda>r. (oa_id r, oa_type r)) (qu_rows q)"

definition syncs_only :: "action_queue \<Rightarrow> bool" where
  "syncs_only q \<longleftrightarrow> (\<forall>r \<in> set (qu_rows q). oa_status r = ST_SUCCEEDED \<longrightarrow> oa_type r = ACT_REQUEST_STATUS_SYNC)"

lemma update_types:
  assumes "\<And>r. p r \<Longrightarrow> oa_id (f r) = oa_id r \<and> oa_type (f r) = oa_type r"
  shows "row_types (q\<lparr>qu_rows := update_where p f (qu_rows q)\<rparr>) = row_types q"
  using assms by (simp add: row_types_def update_where_def)

lemma update_syncs:
  assumes "syncs_only q" and "\<And>r. r \<in> set (qu_rows q) \<Longrightarrow> p r \<Longrightarrow> oa_type (f r) = oa_type r \<and>
      (oa_status (f r) = ST_SUCCEEDED \<longrightarrow> oa_type r = ACT_REQUEST_STATUS_SYNC)"
  shows "syncs_only (q\<lparr>qu_rows := update_where p f (qu_rows q)\<rparr>)"
  using assms by (auto simp: syncs_only_def update_where_def)

lemma status_types [simp]: "row_types (update_status t x st err res q) = row_types q"
  unfolding update_status_def by (rule update_types) simp

lemma status_syncs:
  assumes "syncs_only q"
    and "st = ST_SUCCEEDED \<Longrightarrow> \<forall>r \<in> set (qu_rows q). oa_id r = x \<longrightarrow> oa_type r = ACT_REQUEST_STATUS_SYNC"
  shows "syncs_only (update_status t x st err res q)"
  unfolding update_status_def by (rule update_syncs[OF assms(1)]) (use assms(2) in auto)

lemma status_syncs_other [simp]:
  "syncs_only q \<Longrightarrow> st \<noteq> ST_SUCCEEDED \<Longrightarrow> syncs_only (update_status t x st err res q)"
  by (rule status_syncs) simp_all

lemma failed_types [simp]: "row_types (snd (mark_failed cal now x err retry q)) = row_types q"
  by (auto simp: mark_failed_def Let_def intro!: update_types split: sum.split option.split)

lemma failed_syncs: "syncs_only q \<Longrightarrow> syncs_only (snd (mark_failed cal now x err retry q))"
  by (auto simp: mark_failed_def Let_def intro!: update_syncs status_syncs split: sum.split option.split)

lemma sweep_types [simp]: "row_types (snd (sweep_expired t q)) = row_types q"
proof -
  have "row_types (foldl (\<lambda>q x. mark_expired t x q) q ids) = row_types q" for ids
    by (induction ids arbitrary: q) (simp_all add: mark_expired_def)
  then show ?thesis by (simp add: sweep_expired_def Let_def)
qed

lemma sweep_syncs: "syncs_only q \<Longrightarrow> syncs_only (snd (sweep_expired t q))"
proof -
  have "syncs_only q \<Longrightarrow> syncs_only (foldl (\<lambda>q x. mark_expired t x q) q ids)" for ids q
    by (induction ids arbitrary: q) (simp_all add: mark_expired_def)
  then show "syncs_only q \<Longrightarrow> ?thesis" by (simp add: sweep_expired_def Let_def)
qed

text \<open>An action and the rows with its identifier agree on the type.\<close>

definition agrees :: "orion_action \<Rightarrow> action_queue \<Rightarrow> bool" where
  "agrees a q \<longleftrightarrow> (\<forall>t. (oa_id a, t) \<in> set (row_types q) \<longrightarrow> t = oa_type a)"

lemma agreesD:
  assumes "agrees a q" and "row_types q' = row_types q" and "r \<in> set (qu_rows q')" and "oa_id r = oa_id a"
  shows "oa_type r = oa_type a"
proof -
  have "(oa_id r, oa_type r) \<in> set (row_types q')" using assms(3) by (simp add: row_types_def)
  then show ?thesis using assms(1,2,4) by (simp add: agrees_def)
qed

definition shipped :: "handler_world engine \<Rightarrow> bool" where
  "shipped s \<longleftrightarrow> bare (eg_world s) \<and> syncs_only (eg_queue s) \<and> distinct (map fst (row_types (eg_queue s)))"

lemma executed_shipped:
  fixes cal say draw now a s
  assumes "shipped s" and "agrees a (eg_queue s)"
  defines "s' \<equiv> snd (execute_action cal say (handlers_execute cal draw) now a s)"
  shows "shipped s'" and "row_types (eg_queue s') = row_types (eg_queue s)"
proof -
  let ?run = "handlers_execute cal draw" and ?q1 = "mark_running (write_iso cal now) (oa_id a) (eg_queue s)"
  have types1: "row_types ?q1 = row_types (eg_queue s)" and sync1: "syncs_only ?q1"
    using assms(1) by (simp_all add: mark_running_def shipped_def)
  have bare: "bare (eg_world s')"
    using assms(1) bare_executes(1) by (simp add: s'_def shipped_def)
  have "row_types (eg_queue s') = row_types ?q1 \<and> syncs_only (eg_queue s')"
  proof (cases "fst (?run now a (eg_world s))")
    case (Inl e)
    then have "eg_queue s' = snd (mark_failed cal now (oa_id a) (say e)
        (action_can_retry a \<and> eg_consecutive s < eg_limit s) ?q1)"
      by (cases "?run now a (eg_world s)") (auto simp: s'_def execute_action_def Let_def split: prod.split sum.split)
    then show ?thesis using sync1 failed_syncs by simp
  next
    case (Inr res)
    then have q: "eg_queue s' = mark_succeeded (write_iso cal now) (oa_id a) res ?q1"
      by (cases "?run now a (eg_world s)") (auto simp: s'_def execute_action_def Let_def)
    have "oa_type a = ACT_REQUEST_STATUS_SYNC"
      using bare_executes(2)[of "eg_world s" cal draw now a] assms(1) Inr
      by (cases "?run now a (eg_world s)") (auto simp: shipped_def)
    then have "\<forall>r \<in> set (qu_rows ?q1). oa_id r = oa_id a \<longrightarrow> oa_type r = ACT_REQUEST_STATUS_SYNC"
      using agreesD[OF assms(2) types1] by simp
    then show ?thesis using q sync1 by (simp add: mark_succeeded_def status_syncs)
  qed
  with types1 bare assms(1) show "shipped s'" "row_types (eg_queue s') = row_types (eg_queue s)"
    by (simp_all add: shipped_def)
qed

lemma all_shipped:
  assumes "shipped s" and "\<forall>a \<in> set as. agrees a (eg_queue s)"
  shows "shipped (snd (execute_all cal say (handlers_execute cal draw) now as s))"
  using assms
proof (induction as arbitrary: s)
  case (Cons a as)
  let ?s = "snd (execute_action cal say (handlers_execute cal draw) now a s)"
  have "shipped ?s" and types: "row_types (eg_queue ?s) = row_types (eg_queue s)"
    using executed_shipped[of s a cal say draw now] Cons.prems by simp_all
  moreover have "\<forall>b \<in> set as. agrees b (eg_queue ?s)"
    using Cons.prems(2) types by (simp add: agrees_def)
  ultimately have "shipped (snd (execute_all cal say (handlers_execute cal draw) now as ?s))"
    using Cons.IH by blast
  then show ?case using Cons.prems(1) \<open>shipped ?s\<close>
    by (cases "execute_action cal say (handlers_execute cal draw) now a s") (auto split: sum.split prod.split)
qed simp

lemma read_rows_subset: "read_rows rd rs = Inr as \<Longrightarrow> set as \<subseteq> set rs"
  by (induction rs arbitrary: as) (force simp: and_then_def checked_action_def split: sum.splits option.splits)+

lemma listed_subset:
  assumes "list_by_status rd st dev n q = Inr as"
  shows "set as \<subseteq> set (qu_rows q)"
proof -
  obtain p where "read_rows rd (sql_limit n (sort_key oa_created (filter p (qu_rows q)))) = Inr as"
    using assms by (auto simp: list_by_status_def and_then_def split: sum.splits)
  from read_rows_subset[OF this] show ?thesis
    by (auto simp: sql_limit_def dest!: in_set_takeD split: if_splits)
qed

lemma drained_shipped:
  assumes "shipped s"
  shows "shipped (snd (drain_once cal say (handlers_execute cal draw) now s))"
proof -
  let ?s = "s\<lparr>eg_queue := snd (sweep_expired (write_iso cal now) (eg_queue s))\<rparr>"
  have s: "shipped ?s" using assms by (simp add: shipped_def sweep_syncs)
  have "agrees a (eg_queue ?s)" if "a \<in> set (qu_rows (eg_queue ?s))" for a
    using s that unfolding shipped_def agrees_def row_types_def
    by (auto simp: distinct_map inj_on_def)
  then show ?thesis using s all_shipped[OF s] listed_subset
    by (auto simp: drain_once_def Let_def split: sum.split) blast
qed

lemma loop_shipped: "shipped s \<Longrightarrow> shipped (executor_loop cal say (handlers_execute cal draw) ts s)"
  by (induction ts arbitrary: s) (simp_all add: drained_shipped)

section \<open>What it can do\<close>

lemma submitted_shipped:
  assumes "shipped (co_engine c)"
  shows "shipped (co_engine (snd (submit_action cal now aid corr q c)))"
proof -
  have pending: "oa_status a = ST_PENDING" if "build_action cal now aid corr q = Inr a" for a
    using that by (auto simp: build_action_def and_then_def checked_action_def Let_def
        split: sum.splits if_splits option.splits)
  have "syncs_only (snd (enqueue a qu)) \<and> distinct (map fst (row_types (snd (enqueue a qu))))"
    if "oa_status a = ST_PENDING" "syncs_only qu" "distinct (map fst (row_types qu))" for a qu
    using that by (auto simp: enqueue_def syncs_only_def row_types_def insert_allowed_def table_simps o_def
        split: option.split)
  with pending assms show ?thesis
    by (auto simp: submit_action_def shipped_def split: sum.split prod.split) (metis snd_conv)+
qed

lemma exec_shipped:
  assumes "shipped (co_engine c)"
  shows "shipped (co_engine (co_exec call cal say draw op c))"
proof (cases op)
  case (CoSubmit now aid corr q)
  then show ?thesis using assms submitted_shipped by simp
next
  case (CoPublish e)
  then show ?thesis using assms by (simp add: coordinator_publish_def split: prod.split)
next
  case CoStart
  then show ?thesis using assms
    by (simp add: coordinator_start_def scheduler_start_def executor_start_def shipped_def)
next
  case (CoStop now drain)
  have flag: "shipped (s\<lparr>eg_stop := x\<rparr>) = shipped s" "shipped (s\<lparr>eg_thread := x\<rparr>) = shipped s"
    for s :: "handler_world engine" and x by (simp_all add: shipped_def)
  show ?thesis using assms CoStop
    by (simp add: coordinator_stop_def scheduler_stop_def executor_stop_def Let_def flag drained_shipped)
qed (use assms loop_shipped in simp)

lemma new_shipped: "new_coordinator l w = Inr c \<Longrightarrow> shipped (co_engine c)"
  by (auto simp: new_coordinator_def new_queue_def new_executor_def and_then_def shipped_def bare_default
      syncs_only_def row_types_def split: sum.splits)

text \<open>
  The coordinator as it is built runs actions of every type, but whatever is submitted and
  however long it works, the actions that succeed are status requests.
\<close>

theorem shipped_coordinator_only_syncs:
  assumes "new_coordinator l w = Inr c"
  shows "list_all (\<lambda>r. oa_type r = ACT_REQUEST_STATUS_SYNC)
    (filter (\<lambda>r. oa_status r = ST_SUCCEEDED) (qu_rows (eg_queue (co_engine (co_run call cal say draw ops c)))))"
proof -
  have "shipped (co_engine (co_run call cal say draw ops c))" unfolding co_run_def
    using new_shipped[OF assms] by (induction ops rule: rev_induct) (simp_all add: exec_shipped)
  then show ?thesis by (auto simp: shipped_def syncs_only_def list_all_iff)
qed

section \<open>The statements at a concrete run\<close>

definition demo_draws :: "nat \<Rightarrow> draws" where
  "demo_draws n = \<lparr>dw_session = ''SCN-2'', dw_auth = ''SCA-2'', dw_nonce = ''01'', dw_token = ''TOK'',
     dw_report = ''REC-1''\<rparr>"

text \<open>Handlers over the screen controller of the sample run, whose session is active.\<close>

definition demo_base :: recon_world where
  "demo_base = \<lparr>rw_store = empty_store, rw_screen = Some (snd sample_streaming), rw_aegis = None,
     rw_transport = None\<rparr>"

definition demo_world :: handler_world where
  "demo_world = (default_handlers None)\<lparr>hw_base := demo_base\<rparr>"

definition demo_stop :: orion_action where
  "demo_stop = demo_action\<lparr>oa_type := ACT_STOP_SCREEN_SESSION,
     oa_params := [(''screen_session_id'', JStr ''SCN-1'')]\<rparr>"

theorem stop_session_needs_retry_witness:
  "\<exists>w1. handlers_execute demo_calendar demo_draws 0 demo_stop demo_world = (Inl (Builtin PyAttributeError), w1) \<and>
    ''SCN-1'' \<notin> sessions_active (hw_base w1) \<and>
    succeeded (handlers_execute demo_calendar demo_draws 0 demo_stop w1)"
proof -
  obtain s where "get_screen_session ''SCN-1'' (snd sample_streaming) = Some s" "sv_state (se_info s) = SS_ACTIVE"
    using sample_session by (auto simp: get_require split: sum.splits)
  moreover have "oa_type demo_stop = ACT_STOP_SCREEN_SESSION"
    "text_param ''screen_session_id'' demo_stop = Some ''SCN-1''"
    "action_is_expired (read_iso demo_calendar) 0 demo_stop = Inr False"
    by (simp_all add: demo_stop_def demo_action_def text_param_def action_is_expired_def demo_calendar_def)
  ultimately show ?thesis
    using stop_session_needs_retry[of demo_world "snd sample_streaming" "''SCN-1''"]
    by (simp add: demo_world_def demo_base_def)
qed

text \<open>At 400 seconds the session of the sample run is overdue.\<close>

definition plain_calendar :: calendar where
  "plain_calendar = \<lparr>read_iso = (\<lambda>s. Aware 0), write_iso = (\<lambda>t. ''t'')\<rparr>"

lemma sample_overdue:
  "list_all (overdue 400000000) (sessions_for_device ''GM-C-00000002'' (snd sample_streaming))"
  by code_simp

lemma sample_one: "length (sw_sessions (snd sample_streaming)) = 1"
  by code_simp

lemma demo_reconciled:
  "(case fst (reconcile plain_calendar 400000000 ''REC-1'' ''GM-C-00000002'' [] 3600 demo_base) of
      Inl e \<Rightarrow> False | Inr r \<Rightarrow> rr_failed r = 0)"
  by code_simp

theorem reconciled_sessions_not_overdue_witness:
  "\<exists>sw'. rw_screen (snd (reconcile plain_calendar 400000000 ''REC-1'' ''GM-C-00000002'' [] 3600 demo_base)) = Some sw' \<and>
    list_all (\<lambda>s. \<exists>s'. get_screen_session (session_key s) sw' = Some s' \<and> \<not> overdue 400000000 s')
      (sessions_for_device ''GM-C-00000002'' (snd sample_streaming))"
proof -
  obtain r b' where out: "reconcile plain_calendar 400000000 ''REC-1'' ''GM-C-00000002'' [] 3600 demo_base = (Inr r, b')"
      "rr_failed r = 0"
    using demo_reconciled
    by (cases "reconcile plain_calendar 400000000 ''REC-1'' ''GM-C-00000002'' [] 3600 demo_base")
      (auto split: sum.splits)
  have "keyed session_key (sw_sessions (snd sample_streaming))"
    using sample_one by (auto simp: keyed_def length_Suc_conv)
  with reconciled_sessions_not_overdue[OF out, of "snd sample_streaming"] out(1)
  show ?thesis by (simp add: demo_base_def)
qed

definition demo_submit :: submission where
  "demo_submit = \<lparr>sb_type = ''REQUEST_STATUS_SYNC'', sb_device = ''SYSTEM'', sb_requested_by = ''SYSTEM'',
     sb_correlation = None, sb_params = [], sb_key = None, sb_ttl = 300\<rparr>"

definition demo_ops :: "co_op list" where
  "demo_ops = [CoStart, CoSubmit 0 ''OAC-1'' ''OCR-1'' demo_submit,
     CoSubmit 0 ''OAC-2'' ''OCR-2'' (demo_submit\<lparr>sb_type := ''REFRESH_HEALTH''\<rparr>), CoWork [0, 0, 0, 0, 0]]"

definition demo_coordinator :: "(unit, unit, handler_world) coordinator" where
  "demo_coordinator = (case new_coordinator None () of Inr c \<Rightarrow> c)"

theorem shipped_coordinator_only_syncs_witness:
  "list_all (\<lambda>r. oa_type r = ACT_REQUEST_STATUS_SYNC)
     (filter (\<lambda>r. oa_status r = ST_SUCCEEDED) (qu_rows (eg_queue (co_engine
       (co_run (\<lambda>h e w. (None, w)) demo_calendar (\<lambda>e. ''x'') demo_draws demo_ops demo_coordinator)))))"
proof -
  have "new_coordinator None () = Inr demo_coordinator"
    by (simp add: demo_coordinator_def new_coordinator_def new_queue_def new_bus_def new_executor_def
        and_then_def bus_pressure_from_str_def enum_of_def py_strip_def py_upper_def upper_char_def is_py_space_def)
  from shipped_coordinator_only_syncs[OF this] show ?thesis .
qed

end
