(* ===== verification/AtlasModels.thy ===== *)
theory AtlasModels
  imports OrionModels
begin

text \<open>
  \<^verbatim>\<open>guardianmesh/atlas/models.py\<close> and \<^verbatim>\<open>capabilities.py\<close>: the enumerations of Atlas,
  its records with the checks of their constructors, and the registry of capability versions.

  The time a default factory reads is an argument.
\<close>

section \<open>Enumerations\<close>

datatype subsystem =
    SUB_GENESIS | SUB_LINK | SUB_PULSE | SUB_SENTINEL | SUB_CONSOLE | SUB_NEXUS | SUB_VISTA
  | SUB_AEGIS | SUB_ORION | SUB_ATLAS

fun subsystem_value :: "subsystem \<Rightarrow> string" where
  "subsystem_value SUB_GENESIS = ''GENESIS''"
| "subsystem_value SUB_LINK = ''LINK''"
| "subsystem_value SUB_PULSE = ''PULSE''"
| "subsystem_value SUB_SENTINEL = ''SENTINEL''"
| "subsystem_value SUB_CONSOLE = ''CONSOLE''"
| "subsystem_value SUB_NEXUS = ''NEXUS''"
| "subsystem_value SUB_VISTA = ''VISTA''"
| "subsystem_value SUB_AEGIS = ''AEGIS''"
| "subsystem_value SUB_ORION = ''ORION''"
| "subsystem_value SUB_ATLAS = ''ATLAS''"

definition all_subsystems :: "subsystem list" where
  "all_subsystems = [SUB_GENESIS, SUB_LINK, SUB_PULSE, SUB_SENTINEL, SUB_CONSOLE, SUB_NEXUS,
     SUB_VISTA, SUB_AEGIS, SUB_ORION, SUB_ATLAS]"

definition subsystem_from_str :: "string \<Rightarrow> gm_error + subsystem" where
  "subsystem_from_str s =
     (case enum_of subsystem_value all_subsystems s of Some x \<Rightarrow> Inr x | None \<Rightarrow> Inl (Atlas AtlasError))"

datatype atlas_health_status = AH_OK | AH_DEGRADED | AH_WARNING | AH_FAILED | AH_UNAVAILABLE

fun atlas_health_value :: "atlas_health_status \<Rightarrow> string" where
  "atlas_health_value AH_OK = ''OK''"
| "atlas_health_value AH_DEGRADED = ''DEGRADED''"
| "atlas_health_value AH_WARNING = ''WARNING''"
| "atlas_health_value AH_FAILED = ''FAILED''"
| "atlas_health_value AH_UNAVAILABLE = ''UNAVAILABLE''"

definition atlas_health_from_str :: "string \<Rightarrow> gm_error + atlas_health_status" where
  "atlas_health_from_str s =
     (case enum_of atlas_health_value [AH_OK, AH_DEGRADED, AH_WARNING, AH_FAILED, AH_UNAVAILABLE] s of
        Some x \<Rightarrow> Inr x | None \<Rightarrow> Inl (Atlas AtlasHealthError))"

datatype security_level = SEC_LOW | SEC_MEDIUM | SEC_HIGH | SEC_CRITICAL

fun security_level_value :: "security_level \<Rightarrow> string" where
  "security_level_value SEC_LOW = ''LOW''"
| "security_level_value SEC_MEDIUM = ''MEDIUM''"
| "security_level_value SEC_HIGH = ''HIGH''"
| "security_level_value SEC_CRITICAL = ''CRITICAL''"

definition security_level_from_str :: "string \<Rightarrow> gm_error + security_level" where
  "security_level_from_str s =
     (case enum_of security_level_value [SEC_LOW, SEC_MEDIUM, SEC_HIGH, SEC_CRITICAL] s of
        Some x \<Rightarrow> Inr x | None \<Rightarrow> Inl (Atlas AtlasCapabilityError))"

text \<open>\<^verbatim>\<open>AtlasBackupFormat\<close>, whose one value is lower case.\<close>

datatype backup_format = ATLAS_V1

definition backup_format_value :: "backup_format \<Rightarrow> string" where
  [model_defs]: "backup_format_value f = ''atlas-1.0''"

definition backup_format_from_str :: "string \<Rightarrow> gm_error + backup_format" where
  "backup_format_from_str s =
     (if py_lower (py_strip s) = backup_format_value ATLAS_V1 then Inr ATLAS_V1
      else Inl (Atlas AtlasError))"

section \<open>Records\<close>

record capability_version =
  cy_id :: string
  cy_name :: string
  cy_version :: string
  cy_status :: string
  cy_trust :: bool
  cy_vista :: bool
  cy_aegis :: bool
  cy_risk :: security_level
  cy_schema :: string
  cy_updated :: string
  cy_notes :: string

definition check_capability_version :: "capability_version \<Rightarrow> gm_error option" where
  "check_capability_version c =
     (let bad = Some (Atlas AtlasCapabilityError) in
      if cy_id c = [] then bad
      else if cy_name c = [] then bad
      else if cy_version c = [] then bad
      else if cy_status c \<notin> {''ACTIVE'', ''DEPRECATED'', ''DISABLED'', ''EXPERIMENTAL''} then bad
      else None)"

definition capability_version_to_dict :: "capability_version \<Rightarrow> json" where
  "capability_version_to_dict c =
     JObj [(''capability_id'', JStr (cy_id c)), (''capability_name'', JStr (cy_name c)),
           (''version'', JStr (cy_version c)), (''status'', JStr (cy_status c)),
           (''requires_trust'', JBool (cy_trust c)), (''requires_vista'', JBool (cy_vista c)),
           (''requires_aegis'', JBool (cy_aegis c)), (''risk_level'', JStr (security_level_value (cy_risk c))),
           (''schema_version'', JStr (cy_schema c)), (''updated_at'', JStr (cy_updated c)),
           (''notes'', JStr (cy_notes c))]"

record backup_info =
  bi_id :: string
  bi_created :: string
  bi_schema :: string
  bi_orion :: string
  bi_format :: backup_format
  bi_device :: json
  bi_digest :: string
  bi_size :: int
  bi_status :: string
  bi_notes :: string

definition check_backup_info :: "backup_info \<Rightarrow> gm_error option" where
  "check_backup_info b =
     (let bad = Some (Atlas AtlasError) in
      if bi_id b = [] then bad
      else if bi_created b = [] then bad
      else if bi_schema b = [] then bad
      else if bi_orion b = [] then bad
      else if bi_size b < 0 then Some (Core ValidationError)
      else None)"

definition backup_info_to_dict :: "backup_info \<Rightarrow> json" where
  "backup_info_to_dict b =
     JObj [(''backup_id'', JStr (bi_id b)), (''created_at'', JStr (bi_created b)),
           (''schema_version'', JStr (bi_schema b)), (''orion_version'', JStr (bi_orion b)),
           (''backup_format'', JStr (backup_format_value (bi_format b))), (''device_id'', bi_device b),
           (''integrity_digest'', JStr (bi_digest b)), (''size_bytes'', JInt (bi_size b)),
           (''status'', JStr (bi_status b)), (''notes'', JStr (bi_notes b))]"

record recovery_record =
  rv_id :: string
  rv_operation :: string
  rv_started :: string
  rv_completed :: "string option"
  rv_device :: "string option"
  rv_status :: string
  rv_actions :: int
  rv_notes :: string

definition check_recovery :: "recovery_record \<Rightarrow> gm_error option" where
  "check_recovery r =
     (let bad = Some (Atlas AtlasError) in
      if rv_id r = [] then bad
      else if rv_operation r = [] then bad
      else if rv_started r = [] then bad
      else if rv_status r \<notin> {''PENDING'', ''RUNNING'', ''SUCCEEDED'', ''FAILED'', ''CANCELLED''} then bad
      else if rv_actions r < 0 then Some (Core ValidationError)
      else None)"

definition recovery_to_dict :: "recovery_record \<Rightarrow> json" where
  "recovery_to_dict r =
     JObj [(''recovery_id'', JStr (rv_id r)), (''operation'', JStr (rv_operation r)),
           (''started_at'', JStr (rv_started r)), (''completed_at'', json_opt (rv_completed r)),
           (''device_id'', json_opt (rv_device r)), (''status'', JStr (rv_status r)),
           (''actions_taken'', JInt (rv_actions r)), (''notes'', JStr (rv_notes r))]"

record retention_policy =
  rp_id :: string
  rp_table :: string
  rp_days :: int
  rp_enabled :: bool
  rp_updated :: string
  rp_notes :: string

definition check_retention :: "retention_policy \<Rightarrow> gm_error option" where
  "check_retention p =
     (if rp_id p = [] then Some (Atlas AtlasError)
      else if rp_table p = [] then Some (Atlas AtlasError)
      else if rp_days p \<le> 0 then Some (Core ValidationError)
      else None)"

definition retention_to_dict :: "retention_policy \<Rightarrow> json" where
  "retention_to_dict p =
     JObj [(''retention_id'', JStr (rp_id p)), (''target_table'', JStr (rp_table p)),
           (''retention_days'', JInt (rp_days p)), (''enabled'', JBool (rp_enabled p)),
           (''updated_at'', JStr (rp_updated p)), (''notes'', JStr (rp_notes p))]"

text \<open>A check keeps whether it failed and of which subsystem it is, not the text of its reason.\<close>

record diagnostic_check =
  dg_name :: string
  dg_ok :: bool
  dg_subsystem :: string

definition diagnostic :: "string \<Rightarrow> string \<Rightarrow> bool \<Rightarrow> diagnostic_check" where
  [model_defs]: "diagnostic name sub ok = \<lparr>dg_name = name, dg_ok = ok, dg_subsystem = sub\<rparr>"

definition report_passed :: "diagnostic_check list \<Rightarrow> nat" where
  "report_passed cs = length (filter dg_ok cs)"

definition report_failed :: "diagnostic_check list \<Rightarrow> nat" where
  "report_failed cs = length (filter (\<lambda>c. \<not> dg_ok c) cs)"

definition critical_failure :: "diagnostic_check list \<Rightarrow> bool" where
  "critical_failure cs \<longleftrightarrow> list_ex (\<lambda>c. \<not> dg_ok c) cs"

lemma report_counts: "report_passed cs + report_failed cs = length cs"
  by (simp add: report_passed_def report_failed_def sum_length_filter_compl)

lemma critical_iff: "critical_failure cs \<longleftrightarrow> 0 < report_failed cs"
  by (simp add: critical_failure_def report_failed_def list_ex_iff filter_empty_conv)

section \<open>The capability registry\<close>

definition default_capability ::
  "string \<Rightarrow> string \<times> string \<times> bool \<times> bool \<times> bool \<times> security_level \<Rightarrow> capability_version" where
  "default_capability now_text = (\<lambda>(cid, name, trust, vista, aegis, risk).
     \<lparr>cy_id = cid, cy_name = name, cy_version = ''1.0'', cy_status = ''ACTIVE'', cy_trust = trust,
      cy_vista = vista, cy_aegis = aegis, cy_risk = risk, cy_schema = ''1.0'',
      cy_updated = now_text, cy_notes = []\<rparr>)"

definition DEFAULT_ATLAS_CAPABILITIES :: "string \<Rightarrow> capability_version list" where
  "DEFAULT_ATLAS_CAPABILITIES now_text = map (default_capability now_text)
     [(''ATL-CAP-GENESIS'', ''genesis'', False, False, False, SEC_LOW),
      (''ATL-CAP-LINK'', ''link'', True, False, False, SEC_MEDIUM),
      (''ATL-CAP-PULSE'', ''pulse'', True, False, False, SEC_MEDIUM),
      (''ATL-CAP-SENTINEL'', ''sentinel'', True, False, False, SEC_MEDIUM),
      (''ATL-CAP-CONSOLE'', ''console'', False, False, False, SEC_LOW),
      (''ATL-CAP-NEXUS'', ''nexus'', True, False, False, SEC_MEDIUM),
      (''ATL-CAP-VISTA'', ''vista'', True, True, False, SEC_HIGH),
      (''ATL-CAP-AEGIS'', ''aegis'', True, True, True, SEC_CRITICAL),
      (''ATL-CAP-ORION'', ''orion'', True, False, False, SEC_MEDIUM),
      (''ATL-CAP-ATLAS'', ''atlas'', False, False, False, SEC_LOW)]"

text \<open>The dictionary of the registry in insertion order.\<close>

type_synonym version_registry = "capability_version list"

definition new_version_registry :: "string \<Rightarrow> version_registry" where
  "new_version_registry now_text = DEFAULT_ATLAS_CAPABILITIES now_text"

definition register_version :: "capability_version \<Rightarrow> version_registry \<Rightarrow> version_registry" where
  "register_version c reg = upsert_row cy_id c (\<lambda>old. c) reg"

definition get_version :: "string \<Rightarrow> version_registry \<Rightarrow> capability_version option" where
  "get_version cid reg = fetch_where (\<lambda>c. cy_id c = cid) reg"

definition known_version :: "string \<Rightarrow> version_registry \<Rightarrow> bool" where
  "known_version cid reg \<longleftrightarrow> has_key cy_id cid reg"

definition supports_version :: "string \<Rightarrow> version_registry \<Rightarrow> bool" where
  "supports_version cid reg \<longleftrightarrow>
     (case get_version cid reg of None \<Rightarrow> False | Some c \<Rightarrow> cy_status c = ''ACTIVE'')"

definition version_metrics :: "version_registry \<Rightarrow> nat \<times> nat \<times> nat \<times> nat" where
  "version_metrics reg =
     (let count = (\<lambda>st. length (filter (\<lambda>c. cy_status c = st) reg))
      in (length reg, count ''ACTIVE'', count ''DEPRECATED'', count ''EXPERIMENTAL''))"

end
