(* ===== verification/Sql.thy ===== *)
theory Sql
  imports ScreenModels
begin

text \<open>
  \<^verbatim>\<open>guardianmesh/storage/database.py\<close> over tables that are named at run time: what the
  schema declares of a table, the statements the code builds, and what the wrapper makes of their
  errors.

  A database is the list of its tables; a table has its columns, its keys, its foreign keys and
  its rows, a row being the list of its columns with their values in the order of the schema.  A
  value is NULL, an integer or a text: a column of type \<^verbatim>\<open>REAL\<close> is taken to hold whole
  numbers.  No statement of the modelled code stores a value of another type than its column's,
  so the conversions SQLite would make are left out.  Opening the file and the lock succeed.
\<close>

section \<open>Schema\<close>

datatype column_type = CT_TEXT | CT_INTEGER | CT_REAL

record sql_column =
  co_name :: string
  co_type :: column_type
  co_not_null :: bool
  co_default :: json
  co_check :: "string list option"

type_synonym sql_row = "(string \<times> json) list"

text \<open>
  \<open>tb_rowid\<close> is the \<^verbatim>\<open>INTEGER PRIMARY KEY\<close>, if any, and whether it is
  \<^verbatim>\<open>AUTOINCREMENT\<close>; \<open>tb_last\<close> the greatest identifier stored so far; \<open>tb_foreign\<close>
  the columns with \<^verbatim>\<open>REFERENCES table(column) ON DELETE CASCADE\<close>.
\<close>

record sql_table =
  tb_columns :: "sql_column list"
  tb_keys :: "string list list"
  tb_rowid :: "(string \<times> bool) option"
  tb_foreign :: "(string \<times> string \<times> string) list"
  tb_rows :: "sql_row list"
  tb_last :: int

type_synonym sql_db = "(string \<times> sql_table) list"

definition column_names :: "sql_table \<Rightarrow> string list" where
  "column_names tb = map co_name (tb_columns tb)"

definition cell :: "sql_row \<Rightarrow> string \<Rightarrow> json" where
  "cell r c = get_or JNull r c"

definition rows_of :: "string \<Rightarrow> sql_db \<Rightarrow> sql_row list" where
  "rows_of t db = (case map_of db t of None \<Rightarrow> [] | Some tb \<Rightarrow> tb_rows tb)"

definition change_table :: "string \<Rightarrow> (sql_table \<Rightarrow> sql_table) \<Rightarrow> sql_db \<Rightarrow> sql_db" where
  "change_table t f db = map (\<lambda>(n, tb). (n, if n = t then f tb else tb)) db"

section \<open>Constraints\<close>

fun fits_check :: "string list option \<Rightarrow> json \<Rightarrow> bool" where
  "fits_check None v = True"
| "fits_check (Some xs) (JStr s) = (s \<in> set xs)"
| "fits_check (Some xs) JNull = True"
| "fits_check (Some xs) v = False"

definition fits_column :: "sql_column \<Rightarrow> json \<Rightarrow> bool" where
  "fits_column c v \<longleftrightarrow> \<not> (co_not_null c \<and> v = JNull) \<and> fits_check (co_check c) v"

text \<open>Two rows clash on a key when they agree on it and no column of it is NULL.\<close>

definition key_value :: "string list \<Rightarrow> sql_row \<Rightarrow> json list" where
  "key_value k r = map (cell r) k"

definition key_taken :: "sql_table \<Rightarrow> sql_row \<Rightarrow> bool" where
  "key_taken tb r \<longleftrightarrow> list_ex (\<lambda>k. JNull \<notin> set (key_value k r) \<and>
     key_value k r \<in> set (map (key_value k) (tb_rows tb))) (tb_keys tb)"

definition foreign_ok :: "sql_db \<Rightarrow> sql_table \<Rightarrow> sql_row \<Rightarrow> bool" where
  "foreign_ok db tb r \<longleftrightarrow> list_all (\<lambda>(c, t, p). cell r c = JNull \<or>
     cell r c \<in> set (map (\<lambda>x. cell x p) (rows_of t db))) (tb_foreign tb)"

definition rowid_ok :: "sql_table \<Rightarrow> sql_row \<Rightarrow> bool" where
  "rowid_ok tb r \<longleftrightarrow> (case tb_rowid tb of None \<Rightarrow> True
     | Some (c, auto) \<Rightarrow> (case cell r c of JInt i \<Rightarrow> True | _ \<Rightarrow> False))"

definition accepts :: "sql_db \<Rightarrow> sql_table \<Rightarrow> sql_row \<Rightarrow> bool" where
  "accepts db tb r \<longleftrightarrow>
     list_all (\<lambda>c. fits_column c (cell r (co_name c))) (tb_columns tb) \<and> rowid_ok tb r \<and>
     \<not> key_taken tb r \<and> foreign_ok db tb r"

section \<open>Parameters\<close>

definition fits_int64 :: "int \<Rightarrow> bool" where
  [model_defs]: "fits_int64 i \<longleftrightarrow> - (2 ^ 63) \<le> i \<and> i < 2 ^ 63"

fun bind_value :: "json \<Rightarrow> gm_error + json" where
  "bind_value JNull = Inr JNull"
| "bind_value (JBool b) = Inr (JInt (if b then 1 else 0))"
| "bind_value (JInt i) = (if fits_int64 i then Inr (JInt i) else Inl (Builtin PyOverflowError))"
| "bind_value (JStr s) = Inr (JStr s)"
| "bind_value v = Inl (Builtin SqliteBindingError)"

fun bind_values :: "sql_row \<Rightarrow> gm_error + sql_row" where
  "bind_values [] = Inr []"
| "bind_values ((c, v) # r) =
     and_then (bind_value v) (\<lambda>w. and_then (bind_values r) (\<lambda>ws. Inr ((c, w) # ws)))"

section \<open>Statements\<close>

definition max_id :: "string \<Rightarrow> sql_row list \<Rightarrow> int" where
  "max_id c rows = foldl max 0 (map (\<lambda>r. case cell r c of JInt i \<Rightarrow> i | _ \<Rightarrow> 0) rows)"

text \<open>The row an \<^verbatim>\<open>INSERT\<close> stores: the values given, else the defaults, and a new identifier for none.\<close>

definition completed :: "sql_table \<Rightarrow> sql_row \<Rightarrow> sql_row" where
  "completed tb given = map (\<lambda>c. let v = get_or (co_default c) given (co_name c) in
     (co_name c,
      case tb_rowid tb of
        Some (k, auto) \<Rightarrow>
          if k = co_name c \<and> v = JNull
          then JInt ((if auto then max (tb_last tb) (max_id k (tb_rows tb)) else max_id k (tb_rows tb)) + 1)
          else v
      | None \<Rightarrow> v)) (tb_columns tb)"

definition append_row :: "sql_row \<Rightarrow> sql_table \<Rightarrow> sql_table" where
  "append_row r tb = tb\<lparr>tb_rows := tb_rows tb @ [r],
     tb_last := (case tb_rowid tb of None \<Rightarrow> tb_last tb
       | Some (c, auto) \<Rightarrow> max (tb_last tb) (max_id c [r]))\<rparr>"

text \<open>\<^verbatim>\<open>INSERT INTO t (columns) VALUES (...)\<close> on an open connection.\<close>

definition sql_insert :: "string \<Rightarrow> sql_row \<Rightarrow> sql_db \<Rightarrow> gm_error + sql_db" where
  "sql_insert t given db =
     (case map_of db t of
        None \<Rightarrow> Inl (Builtin SqliteOperationalError)
      | Some tb \<Rightarrow>
          if given = [] \<or> \<not> set (map fst given) \<subseteq> set (column_names tb)
          then Inl (Builtin SqliteOperationalError)
          else and_then (bind_values given) (\<lambda>bound.
            let r = completed tb bound in
            if accepts db tb r then Inr (change_table t (append_row r) db)
            else Inl (Builtin SqliteIntegrityError)))"

text \<open>
  \<^verbatim>\<open>DELETE FROM t WHERE p\<close>, with the rows that reference a deleted one.  No table that
  references another is itself referenced, so one step of the cascade is all of it.
\<close>

definition orphaned :: "string \<Rightarrow> sql_row list \<Rightarrow> sql_table \<Rightarrow> sql_row \<Rightarrow> bool" where
  "orphaned t gone tb r \<longleftrightarrow> list_ex (\<lambda>(c, parent, p). parent = t \<and> cell r c \<noteq> JNull \<and>
     cell r c \<in> set (map (\<lambda>x. cell x p) gone)) (tb_foreign tb)"

definition sql_delete :: "string \<Rightarrow> (sql_row \<Rightarrow> bool) \<Rightarrow> sql_db \<Rightarrow> sql_db" where
  "sql_delete t p db =
     (let gone = filter p (rows_of t db) in
      map (\<lambda>(n, tb). (n, if n = t then tb\<lparr>tb_rows := filter (\<lambda>r. \<not> p r) (tb_rows tb)\<rparr>
        else tb\<lparr>tb_rows := filter (\<lambda>r. \<not> orphaned t gone tb r) (tb_rows tb)\<rparr>)) db)"

text \<open>
  \<^verbatim>\<open>UPDATE t SET new WHERE p\<close>, naming the columns \<open>cols\<close> and those of \<open>new\<close>; no
  statement of the modelled code sets a key.
\<close>

definition set_cells :: "sql_row \<Rightarrow> sql_row \<Rightarrow> sql_row" where
  "set_cells new r = map (\<lambda>(c, v). (c, get_or v new c)) r"

definition sql_update ::
  "string \<Rightarrow> string list \<Rightarrow> (sql_row \<Rightarrow> bool) \<Rightarrow> sql_row \<Rightarrow> sql_db \<Rightarrow> gm_error + sql_db" where
  "sql_update t cols p new db =
     (case map_of db t of
        None \<Rightarrow> Inl (Builtin SqliteOperationalError)
      | Some tb \<Rightarrow>
          if \<not> set (cols @ map fst new) \<subseteq> set (column_names tb) then Inl (Builtin SqliteOperationalError)
          else and_then (bind_values new) (\<lambda>bound.
            if list_ex p (tb_rows tb) \<and> \<not> list_all (\<lambda>c. case map_of bound (co_name c) of
                 None \<Rightarrow> True | Some v \<Rightarrow> fits_column c v) (tb_columns tb)
            then Inl (Builtin SqliteIntegrityError)
            else Inr (change_table t (\<lambda>x. x\<lparr>tb_rows := update_where p (set_cells bound) (tb_rows x)\<rparr>) db)))"

text \<open>\<^verbatim>\<open>value < text\<close> in a query: NULL is not, and every integer sorts before every text.\<close>

fun sql_less :: "json \<Rightarrow> string \<Rightarrow> bool" where
  "sql_less (JStr s) x = (s < x)"
| "sql_less (JInt i) x = True"
| "sql_less v x = False"

section \<open>The wrapper\<close>

text \<open>\<^verbatim>\<open>except sqlite3.Error\<close> of every method of the wrapper.\<close>

definition sqlite_error :: "gm_error \<Rightarrow> bool" where
  "sqlite_error e \<longleftrightarrow> e \<in> {Builtin SqliteIntegrityError, Builtin SqliteOperationalError, Builtin SqliteBindingError}"

definition storage_error :: "gm_error + 'a \<Rightarrow> gm_error + 'a" where
  "storage_error x = (case x of Inl e \<Rightarrow> Inl (if sqlite_error e then Core StorageError else e) | Inr y \<Rightarrow> Inr y)"

definition execute_insert :: "string \<Rightarrow> sql_row \<Rightarrow> sql_db \<Rightarrow> gm_error + sql_db" where
  "execute_insert t given db = storage_error (sql_insert t given db)"

definition execute_update ::
  "string \<Rightarrow> string list \<Rightarrow> (sql_row \<Rightarrow> bool) \<Rightarrow> sql_row \<Rightarrow> sql_db \<Rightarrow> gm_error + sql_db" where
  "execute_update t cols p new db = storage_error (sql_update t cols p new db)"

text \<open>The rows of a query that names the columns \<open>cols\<close>.\<close>

definition fetchall :: "string \<Rightarrow> string list \<Rightarrow> sql_db \<Rightarrow> gm_error + sql_row list" where
  "fetchall t cols db =
     (case map_of db t of
        None \<Rightarrow> Inl (Core StorageError)
      | Some tb \<Rightarrow> if set cols \<subseteq> set (column_names tb) then Inr (tb_rows tb) else Inl (Core StorageError))"

definition has_table :: "string \<Rightarrow> sql_db \<Rightarrow> bool" where
  "has_table t db \<longleftrightarrow> map_of db t \<noteq> None"

section \<open>Facts\<close>

text \<open>The schema of a database is what is left of it without its rows.\<close>

definition bare :: "sql_table \<Rightarrow> sql_table" where
  "bare tb = tb\<lparr>tb_rows := [], tb_last := 0\<rparr>"

definition schema_of :: "sql_db \<Rightarrow> sql_db" where
  "schema_of db = map (\<lambda>(n, tb). (n, bare tb)) db"

lemma map_of_map_pairs: "map_of (map (\<lambda>(n, x). (n, f n x)) db) k = map_option (f k) (map_of db k)"
  by (induction db) auto

lemma map_of_change [simp]:
  "map_of (change_table t f db) n = map_option (\<lambda>tb. if n = t then f tb else tb) (map_of db n)"
  by (simp add: change_table_def map_of_map_pairs[where f = "\<lambda>n tb. if n = t then f tb else tb"])

lemma map_of_delete:
  "map_of (sql_delete t p db) n = map_option (\<lambda>tb.
     if n = t then tb\<lparr>tb_rows := filter (\<lambda>r. \<not> p r) (tb_rows tb)\<rparr>
     else tb\<lparr>tb_rows := filter (\<lambda>r. \<not> orphaned t (filter p (rows_of t db)) tb r) (tb_rows tb)\<rparr>) (map_of db n)"
  by (simp add: sql_delete_def Let_def map_of_map_pairs)

lemma map_of_schema: "map_of (schema_of db) n = map_option bare (map_of db n)"
  by (simp add: schema_of_def map_of_map_pairs[where f = "\<lambda>n. bare"])

lemma bare_simps [simp]:
  "tb_columns (bare tb) = tb_columns tb" "tb_keys (bare tb) = tb_keys tb" "tb_rowid (bare tb) = tb_rowid tb"
  "tb_foreign (bare tb) = tb_foreign tb" "tb_rows (bare tb) = []" "tb_last (bare tb) = 0"
  "bare (tb\<lparr>tb_rows := rs\<rparr>) = bare tb" "bare (append_row r tb) = bare tb"
  by (simp_all add: bare_def append_row_def)

lemma schema_change [simp]:
  "(\<And>tb. bare (f tb) = bare tb) \<Longrightarrow> schema_of (change_table t f db) = schema_of db"
  by (auto simp: schema_of_def change_table_def)

lemma schema_delete [simp]: "schema_of (sql_delete t p db) = schema_of db"
  by (auto simp: schema_of_def sql_delete_def Let_def)

lemma append_row_simps [simp]:
  "tb_columns (append_row r tb) = tb_columns tb" "tb_keys (append_row r tb) = tb_keys tb"
  "tb_rowid (append_row r tb) = tb_rowid tb" "tb_foreign (append_row r tb) = tb_foreign tb"
  "tb_rows (append_row r tb) = tb_rows tb @ [r]" "column_names (append_row r tb) = column_names tb"
  by (simp_all add: append_row_def column_names_def)

text \<open>Databases with the same schema have the same tables, but for their rows.\<close>

lemma same_schema:
  assumes "schema_of db = schema_of db'" and "map_of db t = Some tb"
  obtains tb' where "map_of db' t = Some tb'" and "bare tb' = bare tb"
proof -
  have "map_option bare (map_of db' t) = Some (bare tb)"
    using assms map_of_schema[of db' t] map_of_schema[of db t] by simp
  then show ?thesis using that by auto
qed

lemma bare_eq:
  assumes "bare a = bare b"
  shows "tb_columns a = tb_columns b" and "tb_keys a = tb_keys b" and "tb_rowid a = tb_rowid b"
    and "tb_foreign a = tb_foreign b" and "column_names a = column_names b"
  using assms by (metis bare_simps, metis bare_simps, metis bare_simps, metis bare_simps)
    (metis bare_simps(1) assms column_names_def)

lemma fetchall_rows: "fetchall t cols db = Inr rows \<Longrightarrow> rows = rows_of t db"
  by (auto simp: fetchall_def rows_of_def split: option.splits if_splits)

lemma fetchall_schema:
  assumes "schema_of db = schema_of db'" and "fetchall t cols db = Inr rows"
  shows "fetchall t cols db' = Inr (rows_of t db')"
proof -
  from assms(2) obtain tb where tb: "map_of db t = Some tb" "set cols \<subseteq> set (column_names tb)"
    by (auto simp: fetchall_def split: option.splits if_splits)
  then obtain tb' where "map_of db' t = Some tb'" "column_names tb' = column_names tb"
    using same_schema[OF assms(1) tb(1)] bare_eq(5) by blast
  then show ?thesis using tb(2) by (simp add: fetchall_def rows_of_def)
qed

lemma bind_values_Inr:
  "bind_values given = Inr bound \<Longrightarrow> map fst bound = map fst given"
  by (induction given arbitrary: bound)
    (auto simp: and_then_def split: sum.splits)

lemma sql_insert_schema:
  assumes "sql_insert t given db = Inr db1"
  shows "schema_of db1 = schema_of db"
  using assms by (auto simp: sql_insert_def and_then_def Let_def split: option.splits sum.splits if_splits)

lemma sql_insert_rows:
  assumes "sql_insert t given db = Inr db1"
  obtains r where "rows_of t db1 = rows_of t db @ [r]" and "\<And>n. n \<noteq> t \<Longrightarrow> map_of db1 n = map_of db n"
  using assms
  by (auto simp: sql_insert_def and_then_def Let_def rows_of_def option.map_ident
      split: option.splits sum.splits if_splits)

lemma execute_insert_iff: "execute_insert t given db = Inr db1 \<longleftrightarrow> sql_insert t given db = Inr db1"
  by (simp add: execute_insert_def storage_error_def split: sum.split)

end
