(* ===== verification/AtlasBackup.thy ===== *)
theory AtlasBackup
  imports AtlasModels Sql
begin

text \<open>
  \<^verbatim>\<open>guardianmesh/atlas/backup.py\<close> and \<^verbatim>\<open>restore.py\<close>: backups of the allowed tables as
  one JSON file each with its digest in \<^verbatim>\<open>atlas_backups\<close>, and their restoration.

  The directory of the backups is a map from identifiers to the texts of the files, which are
  ASCII; reading and writing them succeeds.  SHA-256 is the field \<open>be_sha\<close> of the
  environment; the identifier drawn and the time are arguments, and the answers of
  \<^verbatim>\<open>verify_backup\<close> are named instead of worded.
\<close>

definition BACKUP_ALLOWED_TABLES :: "string list" where
  "BACKUP_ALLOWED_TABLES = [''identities'', ''trusted_devices'', ''pairing_sessions'',
     ''device_health'', ''telemetry_events'', ''device_sequences'', ''policies'', ''policy_rules'',
     ''alerts'', ''transport_sessions'', ''transport_peers'', ''transport_sequences'',
     ''screen_sessions'', ''screen_authorizations'', ''aegis_sessions'', ''orion_events'',
     ''orion_actions'', ''orion_capabilities'', ''orion_reconciliation'', ''atlas_backups'',
     ''atlas_health'', ''atlas_recovery'', ''atlas_capability_versions'', ''atlas_retention'',
     ''config_entries'', ''schema_migrations'']"

definition BACKUP_FORBIDDEN_COLUMNS :: "string \<Rightarrow> string list" where
  "BACKUP_FORBIDDEN_COLUMNS t = (if t = ''identities'' then [''private_key_pem''] else [])"

record backup_env =
  be_sha :: "string \<Rightarrow> string"
  be_orion :: string
  be_schema :: string

record backup_state =
  bs_db :: sql_db
  bs_files :: "string \<Rightarrow> string option"

section \<open>Creating a backup\<close>

definition compute_digest :: "backup_env \<Rightarrow> string \<Rightarrow> string" where
  "compute_digest env body = ''sha256:'' @ be_sha env body"

definition read_table :: "string \<Rightarrow> sql_db \<Rightarrow> gm_error + json list" where
  "read_table t db =
     and_then (fetchall t [] db) (\<lambda>rows. Inr (map (\<lambda>r. JObj (filter (\<lambda>(c, v).
        c \<notin> set (BACKUP_FORBIDDEN_COLUMNS t)) r)) rows))"

text \<open>A table that cannot be read is left out.\<close>

fun backup_tables :: "string list \<Rightarrow> sql_db \<Rightarrow> (string \<times> json) list" where
  "backup_tables [] db = []"
| "backup_tables (t # ts) db =
     (case read_table t db of Inl e \<Rightarrow> backup_tables ts db
      | Inr rows \<Rightarrow> (t, JList rows) # backup_tables ts db)"

definition build_payload :: "backup_env \<Rightarrow> string option \<Rightarrow> sql_db \<Rightarrow> json" where
  "build_payload env device db =
     JObj [(''format'', JStr (backup_format_value ATLAS_V1)), (''schema_version'', JStr (be_schema env)),
           (''orion_version'', JStr (be_orion env)), (''device_id'', json_opt device),
           (''tables'', JObj (backup_tables (sort BACKUP_ALLOWED_TABLES) db))]"

definition manifest_row :: "backup_info \<Rightarrow> sql_row" where
  "manifest_row b =
     [(''backup_id'', JStr (bi_id b)), (''created_at'', JStr (bi_created b)),
      (''schema_version'', JStr (bi_schema b)), (''orion_version'', JStr (bi_orion b)),
      (''backup_format'', JStr (backup_format_value (bi_format b))), (''device_id'', bi_device b),
      (''integrity_digest'', JStr (bi_digest b)), (''size_bytes'', JInt (bi_size b)),
      (''status'', JStr (bi_status b)), (''notes'', JStr (bi_notes b))]"

text \<open>The file is written before the record is checked and the manifest stored.\<close>

definition create_backup ::
  "backup_env \<Rightarrow> string \<Rightarrow> string \<Rightarrow> string option \<Rightarrow> backup_state \<Rightarrow> (backup_state, backup_info) outcome" where
  "create_backup env bid created device st =
     (let body = json_dumps (build_payload env device (bs_db st));
          st1 = st\<lparr>bs_files := (bs_files st)(bid \<mapsto> body)\<rparr>;
          info = \<lparr>bi_id = bid, bi_created = created, bi_schema = be_schema env, bi_orion = be_orion env,
                  bi_format = ATLAS_V1, bi_device = json_opt device, bi_digest = compute_digest env body,
                  bi_size = int (length body), bi_status = ''VALID'', bi_notes = []\<rparr>
      in case check_backup_info info of
           Some e \<Rightarrow> raises e st1
         | None \<Rightarrow>
            (case execute_insert ''atlas_backups'' (manifest_row info) (bs_db st1) of
               Inl e \<Rightarrow> raises e st1
             | Inr db \<Rightarrow> returns info (st1\<lparr>bs_db := db\<rparr>)))"

section \<open>Reading and verifying\<close>

definition row_to_info :: "sql_row \<Rightarrow> gm_error + backup_info" where
  "row_to_info r =
     and_then (backup_format_from_str (py_str (get_or (JStr ''atlas-1.0'') r ''backup_format''))) (\<lambda>f.
     and_then (int_of_json (get_or (JInt 0) r ''size_bytes'')) (\<lambda>n.
       let b = \<lparr>bi_id = py_str (cell r ''backup_id''), bi_created = py_str (cell r ''created_at''),
                bi_schema = py_str (cell r ''schema_version''), bi_orion = py_str (cell r ''orion_version''),
                bi_format = f, bi_device = cell r ''device_id'',
                bi_digest = py_str (get_or (JStr []) r ''integrity_digest''), bi_size = n,
                bi_status = py_str (get_or (JStr ''VALID'') r ''status''),
                bi_notes = py_str (get_or (JStr []) r ''notes'')\<rparr>
       in case check_backup_info b of Some e \<Rightarrow> Inl e | None \<Rightarrow> Inr b))"

definition get_backup :: "string \<Rightarrow> sql_db \<Rightarrow> gm_error + backup_info option" where
  "get_backup bid db =
     and_then (fetchall ''atlas_backups'' [''backup_id''] db) (\<lambda>rows.
       case fetch_where (\<lambda>r. cell r ''backup_id'' = JStr bid) rows of
         None \<Rightarrow> Inr None
       | Some r \<Rightarrow> and_then (row_to_info r) (\<lambda>b. Inr (Some b)))"

fun read_infos :: "sql_row list \<Rightarrow> gm_error + backup_info list" where
  "read_infos [] = Inr []"
| "read_infos (r # rs) = and_then (row_to_info r) (\<lambda>b. and_then (read_infos rs) (\<lambda>bs. Inr (b # bs)))"

definition list_backups :: "sql_db \<Rightarrow> gm_error + backup_info list" where
  "list_backups db =
     and_then (fetchall ''atlas_backups'' [''created_at''] db) (\<lambda>rows.
       read_infos (sort_desc (\<lambda>r. py_str (cell r ''created_at'')) rows))"

datatype backup_check =
    BK_OK | BK_NOT_FOUND | BK_FILE_MISSING | BK_MISMATCH | BK_NOT_JSON | BK_NOT_OBJECT | BK_FORMAT
  | BK_SCHEMA

definition verify_backup :: "backup_env \<Rightarrow> string \<Rightarrow> backup_state \<Rightarrow> gm_error + backup_check" where
  "verify_backup env bid st =
     and_then (get_backup bid (bs_db st)) (\<lambda>found.
       case found of
         None \<Rightarrow> Inr BK_NOT_FOUND
       | Some info \<Rightarrow>
          (case bs_files st bid of
             None \<Rightarrow> Inr BK_FILE_MISSING
           | Some body \<Rightarrow>
               if compute_digest env body \<noteq> bi_digest info then Inr BK_MISMATCH
               else case json_loads body of
                 None \<Rightarrow> Inr BK_NOT_JSON
               | Some (JObj kvs) \<Rightarrow>
                   if get_or JNull kvs ''format'' \<noteq> JStr (backup_format_value ATLAS_V1) then Inr BK_FORMAT
                   else Inr BK_OK
               | Some v \<Rightarrow> Inr BK_NOT_OBJECT))"

section \<open>Restoring\<close>

definition verify_compatibility :: "backup_env \<Rightarrow> string \<Rightarrow> backup_state \<Rightarrow> gm_error + backup_check" where
  "verify_compatibility env bid st =
     and_then (verify_backup env bid st) (\<lambda>c.
       if c \<noteq> BK_OK then Inr c
       else and_then (get_backup bid (bs_db st)) (\<lambda>found.
         case found of
           None \<Rightarrow> Inr BK_NOT_FOUND
         | Some info \<Rightarrow> if bi_schema info \<noteq> be_schema env then Inr BK_SCHEMA else Inr BK_OK))"

fun py_len :: "json \<Rightarrow> gm_error + nat" where
  "py_len (JList xs) = Inr (length xs)"
| "py_len (JObj kvs) = Inr (length kvs)"
| "py_len (JStr s) = Inr (length s)"
| "py_len v = Inl (Builtin PyTypeError)"

fun row_counts :: "(string \<times> json) list \<Rightarrow> gm_error + (string \<times> nat) list" where
  "row_counts [] = Inr []"
| "row_counts ((t, rows) # ts) =
     and_then (py_len rows) (\<lambda>n. and_then (row_counts ts) (\<lambda>ns. Inr ((t, n) # ns)))"

text \<open>The columns inserted are those of the first row.\<close>

fun restore_rows :: "string \<Rightarrow> string list \<Rightarrow> json list \<Rightarrow> sql_db \<Rightarrow> gm_error + sql_db" where
  "restore_rows t cols [] db = Inr db"
| "restore_rows t cols (JObj r # rs) db =
     and_then (sql_insert t (map (\<lambda>c. (c, cell r c)) cols) db) (restore_rows t cols rs)"
| "restore_rows t cols (v # rs) db = Inl (Builtin PyAttributeError)"

definition restore_table :: "string \<Rightarrow> json \<Rightarrow> sql_db \<Rightarrow> gm_error + sql_db" where
  "restore_table t rows db =
     (if \<not> py_truthy rows then Inr db
      else if \<not> has_table t db then Inl (Builtin SqliteOperationalError)
      else let db1 = sql_delete t (\<lambda>r. True) db in
        case rows of
          JList (JObj first # rest) \<Rightarrow> restore_rows t (map fst first) (JObj first # rest) db1
        | JObj kvs \<Rightarrow> Inl (Builtin PyKeyError)
        | _ \<Rightarrow> Inl (Builtin PyAttributeError))"

fun restore_tables :: "(string \<times> json) list \<Rightarrow> sql_db \<Rightarrow> gm_error + sql_db" where
  "restore_tables [] db = Inr db"
| "restore_tables ((t, rows) # ts) db =
     (if t \<notin> set BACKUP_ALLOWED_TABLES then restore_tables ts db
      else and_then (restore_table t rows db) (restore_tables ts))"

record restore_plan =
  rl_id :: string
  rl_dry :: bool
  rl_restore :: "string list"
  rl_skipped :: "string list"
  rl_rows :: "(string \<times> nat) list"
  rl_applied :: bool

text \<open>\<^verbatim>\<open>payload.get("tables", {})\<close> of a payload that is not an object raises.\<close>

fun payload_tables :: "json \<Rightarrow> gm_error + (string \<times> json) list" where
  "payload_tables (JObj kvs) =
     (case get_or (JObj []) kvs ''tables'' of JObj ts \<Rightarrow> Inr ts | _ \<Rightarrow> Inl (Atlas AtlasError))"
| "payload_tables v = Inl (Builtin PyAttributeError)"

definition plan_of :: "string \<Rightarrow> bool \<Rightarrow> (string \<times> json) list \<Rightarrow> gm_error + restore_plan" where
  "plan_of bid dry tables =
     and_then (row_counts tables) (\<lambda>counts. Inr
       \<lparr>rl_id = bid, rl_dry = dry,
        rl_restore = sort (filter (\<lambda>t. t \<in> set BACKUP_ALLOWED_TABLES) (map fst tables)),
        rl_skipped = sort (filter (\<lambda>t. t \<notin> set BACKUP_ALLOWED_TABLES) (map fst tables)),
        rl_rows = counts, rl_applied = False\<rparr>)"

text \<open>The writes are one transaction: an error leaves the database as it was.\<close>

definition restore_backup ::
  "backup_env \<Rightarrow> string \<Rightarrow> bool \<Rightarrow> backup_state \<Rightarrow> (backup_state, restore_plan) outcome" where
  "restore_backup env bid dry st =
     (case verify_compatibility env bid st of
        Inl e \<Rightarrow> raises e st
      | Inr c \<Rightarrow>
          if c \<noteq> BK_OK then raises (Atlas AtlasCompatibilityError) st
          else case Option.bind (bs_files st bid) json_loads of
            None \<Rightarrow> raises (Atlas AtlasError) st
          | Some payload \<Rightarrow>
             (case payload_tables payload of
                Inl e \<Rightarrow> raises e st
              | Inr tables \<Rightarrow>
                 (case plan_of bid dry tables of
                    Inl e \<Rightarrow> raises e st
                  | Inr plan \<Rightarrow>
                      if dry then returns plan st
                      else case restore_tables (sort_key fst tables) (bs_db st) of
                        Inl e \<Rightarrow> raises e st
                      | Inr db \<Rightarrow> returns (plan\<lparr>rl_applied := True\<rparr>) (st\<lparr>bs_db := db\<rparr>))))"

end
