(* ===== verification/Migrations.thy ===== *)
theory Migrations
  imports Sql
begin

text \<open>
  \<^verbatim>\<open>guardianmesh/storage/migrations.py\<close>: the statements of the nine migrations and the manager
  that applies the pending ones.

  An index is the key it declares: one that is not unique has no effect on the rows, and the one
  partial index leaves out the rows whose key is NULL, which never clash anyway.  SHA-256 of a
  script and the time at which a migration is recorded are arguments.
\<close>

section \<open>Declarations\<close>

definition optional :: "string \<Rightarrow> column_type \<Rightarrow> json \<Rightarrow> sql_column" where
  [model_defs]: "optional n t d = \<lparr>co_name = n, co_type = t, co_not_null = False, co_default = d, co_check = None\<rparr>"

definition required :: "string \<Rightarrow> column_type \<Rightarrow> sql_column" where
  [model_defs]: "required n t = \<lparr>co_name = n, co_type = t, co_not_null = True, co_default = JNull, co_check = None\<rparr>"

definition defaulted :: "string \<Rightarrow> column_type \<Rightarrow> json \<Rightarrow> sql_column" where
  [model_defs]: "defaulted n t d = \<lparr>co_name = n, co_type = t, co_not_null = True, co_default = d, co_check = None\<rparr>"

definition checked :: "string \<Rightarrow> string list \<Rightarrow> json \<Rightarrow> sql_column" where
  [model_defs]: "checked n xs d = \<lparr>co_name = n, co_type = CT_TEXT, co_not_null = True, co_default = d, co_check = Some xs\<rparr>"

text \<open>Both statements are \<^verbatim>\<open>IF NOT EXISTS\<close>.\<close>

datatype ddl =
    CREATE_TABLE string "sql_column list" "string list list" "(string \<times> bool) option"
      "(string \<times> string \<times> string) list"
  | CREATE_INDEX bool string "string list"

record migration =
  mg_version :: int
  mg_name :: string
  mg_script :: "ddl list"

section \<open>The migrations\<close>

definition migration_1 :: migration where
  "migration_1 = \<lparr>mg_version = 1, mg_name = ''001_initial_schema'', mg_script =
    [CREATE_TABLE ''identities''
       [optional ''id'' CT_TEXT JNull,
        checked ''role'' [''PARENT'', ''CHILD''] JNull,
        required ''public_key_fingerprint'' CT_TEXT,
        required ''public_key_pem'' CT_TEXT,
        required ''created_at'' CT_TEXT,
        optional ''label'' CT_TEXT JNull,
        defaulted ''is_active'' CT_INTEGER (JInt 1),
        optional ''metadata'' CT_TEXT (JStr ''{}'')]
       [[''id'']] None [],
     CREATE_INDEX False ''identities'' [''is_active''],
     CREATE_TABLE ''config_entries''
       [optional ''key'' CT_TEXT JNull,
        required ''value'' CT_TEXT,
        required ''updated_at'' CT_TEXT]
       [[''key'']] None [],
     CREATE_TABLE ''audit_events''
       [optional ''id'' CT_INTEGER JNull,
        required ''event_type'' CT_TEXT,
        defaulted ''details'' CT_TEXT (JStr ''{}''),
        required ''timestamp'' CT_TEXT,
        optional ''actor_id'' CT_TEXT JNull,
        defaulted ''success'' CT_INTEGER (JInt 1)]
       [[''id'']] (Some (''id'', True)) [],
     CREATE_INDEX False ''audit_events'' [''timestamp''],
     CREATE_INDEX False ''audit_events'' [''event_type'']]\<rparr>"

definition migration_2 :: migration where
  "migration_2 = \<lparr>mg_version = 2, mg_name = ''002_pairing_schema'', mg_script =
    [CREATE_TABLE ''pairing_sessions''
       [optional ''session_id'' CT_TEXT JNull,
        required ''parent_identity_id'' CT_TEXT,
        optional ''child_identity_id'' CT_TEXT JNull,
        checked ''verification_method'' [''EMAIL'', ''SMS'', ''DEMO''] JNull,
        required ''verification_destination'' CT_TEXT,
        required ''state'' CT_TEXT,
        required ''created_at'' CT_TEXT,
        required ''expires_at'' CT_TEXT,
        optional ''verified_at'' CT_TEXT JNull,
        optional ''authorized_at'' CT_TEXT JNull,
        optional ''completed_at'' CT_TEXT JNull,
        defaulted ''attempt_count'' CT_INTEGER (JInt 0),
        defaulted ''max_attempts'' CT_INTEGER (JInt 5),
        defaulted ''resend_count'' CT_INTEGER (JInt 0),
        optional ''last_resend_at'' CT_TEXT JNull,
        optional ''otp_verifier'' CT_TEXT JNull,
        optional ''otp_salt'' CT_TEXT JNull,
        optional ''otp_expires_at'' CT_TEXT JNull,
        optional ''auth_nonce'' CT_TEXT JNull,
        optional ''auth_nonce_expires_at'' CT_TEXT JNull,
        optional ''metadata'' CT_TEXT (JStr ''{}'')]
       [[''session_id'']] None [],
     CREATE_INDEX False ''pairing_sessions'' [''state''],
     CREATE_INDEX False ''pairing_sessions'' [''parent_identity_id''],
     CREATE_INDEX False ''pairing_sessions'' [''child_identity_id''],
     CREATE_TABLE ''pairing_nonces''
       [optional ''nonce'' CT_TEXT JNull,
        required ''session_id'' CT_TEXT,
        required ''child_identity_id'' CT_TEXT,
        required ''created_at'' CT_TEXT,
        required ''expires_at'' CT_TEXT,
        defaulted ''used'' CT_INTEGER (JInt 0)]
       [[''nonce'']] None [],
     CREATE_INDEX False ''pairing_nonces'' [''session_id''],
     CREATE_TABLE ''trusted_devices''
       [required ''local_identity_id'' CT_TEXT,
        required ''remote_identity_id'' CT_TEXT,
        checked ''remote_role'' [''PARENT'', ''CHILD''] JNull,
        required ''remote_public_key_fingerprint'' CT_TEXT,
        required ''remote_public_key_pem'' CT_TEXT,
        optional ''label'' CT_TEXT JNull,
        checked ''status'' [''ACTIVE'', ''REVOKED''] (JStr ''ACTIVE''),
        required ''created_at'' CT_TEXT,
        required ''last_verified_at'' CT_TEXT,
        defaulted ''trust_version'' CT_INTEGER (JInt 1),
        optional ''pairing_session_id'' CT_TEXT JNull,
        optional ''metadata'' CT_TEXT (JStr ''{}'')]
       [[''local_identity_id'', ''remote_identity_id'']] None [],
     CREATE_INDEX False ''trusted_devices'' [''status''],
     CREATE_INDEX False ''trusted_devices'' [''remote_identity_id'']]\<rparr>"

definition migration_3 :: migration where
  "migration_3 = \<lparr>mg_version = 3, mg_name = ''003_telemetry_schema'', mg_script =
    [CREATE_TABLE ''device_health''
       [optional ''device_id'' CT_TEXT JNull,
        checked ''health_state'' [''ONLINE'', ''DEGRADED'', ''OFFLINE'', ''UNKNOWN''] JNull,
        required ''last_heartbeat_at'' CT_TEXT,
        defaulted ''last_sequence'' CT_INTEGER (JInt 0),
        optional ''battery_percent'' CT_INTEGER JNull,
        optional ''charging'' CT_INTEGER JNull,
        optional ''storage_total_bytes'' CT_INTEGER JNull,
        optional ''storage_free_bytes'' CT_INTEGER JNull,
        optional ''uptime_seconds'' CT_INTEGER JNull,
        checked ''connectivity'' [''ONLINE'', ''DEGRADED'', ''OFFLINE'', ''UNKNOWN''] JNull,
        optional ''platform'' CT_TEXT JNull,
        required ''agent_version'' CT_TEXT,
        defaulted ''is_paused'' CT_INTEGER (JInt 0),
        required ''updated_at'' CT_TEXT]
       [[''device_id'']] None [],
     CREATE_INDEX False ''device_health'' [''health_state''],
     CREATE_TABLE ''telemetry_events''
       [optional ''id'' CT_INTEGER JNull,
        required ''device_id'' CT_TEXT,
        required ''sequence'' CT_INTEGER,
        required ''captured_at'' CT_TEXT,
        required ''health_state'' CT_TEXT,
        optional ''battery_percent'' CT_INTEGER JNull,
        optional ''charging'' CT_INTEGER JNull,
        optional ''storage_free_bytes'' CT_INTEGER JNull,
        optional ''storage_total_bytes'' CT_INTEGER JNull,
        optional ''uptime_seconds'' CT_INTEGER JNull,
        required ''connectivity'' CT_TEXT,
        required ''created_at'' CT_TEXT]
       [[''id'']] (Some (''id'', True)) [],
     CREATE_INDEX False ''telemetry_events'' [''device_id'', ''captured_at''],
     CREATE_INDEX False ''telemetry_events'' [''device_id'', ''sequence''],
     CREATE_TABLE ''device_sequences''
       [optional ''device_id'' CT_TEXT JNull,
        defaulted ''last_outgoing_sequence'' CT_INTEGER (JInt 0),
        defaulted ''last_incoming_sequence'' CT_INTEGER (JInt 0),
        required ''updated_at'' CT_TEXT]
       [[''device_id'']] None []]\<rparr>"

definition migration_4 :: migration where
  "migration_4 = \<lparr>mg_version = 4, mg_name = ''004_sentinel_schema'', mg_script =
    [CREATE_TABLE ''policies''
       [optional ''id'' CT_TEXT JNull,
        required ''device_id'' CT_TEXT,
        required ''name'' CT_TEXT,
        defaulted ''enabled'' CT_INTEGER (JInt 1),
        required ''created_at'' CT_TEXT,
        required ''updated_at'' CT_TEXT]
       [[''id'']] None [],
     CREATE_INDEX False ''policies'' [''device_id''],
     CREATE_TABLE ''policy_rules''
       [optional ''id'' CT_INTEGER JNull,
        required ''policy_id'' CT_TEXT,
        required ''rule_type'' CT_TEXT,
        defaulted ''enabled'' CT_INTEGER (JInt 1),
        optional ''threshold'' CT_REAL JNull,
        optional ''duration_seconds'' CT_INTEGER JNull,
        checked ''severity'' [''INFO'', ''WARNING'', ''CRITICAL''] JNull]
       [[''id'']] (Some (''id'', True)) [(''policy_id'', ''policies'', ''id'')],
     CREATE_INDEX False ''policy_rules'' [''policy_id''],
     CREATE_TABLE ''alerts''
       [optional ''id'' CT_TEXT JNull,
        required ''device_id'' CT_TEXT,
        required ''policy_id'' CT_TEXT,
        required ''rule_type'' CT_TEXT,
        checked ''severity'' [''INFO'', ''WARNING'', ''CRITICAL''] JNull,
        required ''message'' CT_TEXT,
        checked ''status'' [''ACTIVE'', ''ACKNOWLEDGED'', ''RESOLVED'', ''DISMISSED''] JNull,
        required ''dedup_key'' CT_TEXT,
        optional ''trigger_value'' CT_TEXT JNull,
        required ''created_at'' CT_TEXT,
        required ''last_seen_at'' CT_TEXT,
        optional ''acknowledged_at'' CT_TEXT JNull,
        optional ''resolved_at'' CT_TEXT JNull,
        optional ''dismissed_at'' CT_TEXT JNull]
       [[''id'']] None [],
     CREATE_INDEX False ''alerts'' [''device_id''],
     CREATE_INDEX False ''alerts'' [''status''],
     CREATE_INDEX False ''alerts'' [''dedup_key'', ''status''],
     CREATE_INDEX False ''alerts'' [''created_at'']]\<rparr>"

definition migration_6 :: migration where
  "migration_6 = \<lparr>mg_version = 6, mg_name = ''006_nexus_transport'', mg_script =
    [CREATE_TABLE ''transport_sessions''
       [optional ''session_id'' CT_TEXT JNull,
        required ''local_identity_id'' CT_TEXT,
        required ''remote_identity_id'' CT_TEXT,
        required ''state'' CT_TEXT,
        required ''transport_type'' CT_TEXT,
        required ''created_at'' CT_TEXT,
        optional ''established_at'' CT_TEXT JNull,
        optional ''last_heartbeat_at'' CT_TEXT JNull,
        required ''expires_at'' CT_TEXT,
        optional ''closed_at'' CT_TEXT JNull,
        defaulted ''reconnect_count'' CT_INTEGER (JInt 0),
        optional ''last_error'' CT_TEXT JNull,
        optional ''metadata'' CT_TEXT (JStr ''{}'')]
       [[''session_id'']] None [],
     CREATE_INDEX False ''transport_sessions'' [''remote_identity_id''],
     CREATE_INDEX False ''transport_sessions'' [''state''],
     CREATE_INDEX False ''transport_sessions'' [''created_at''],
     CREATE_TABLE ''transport_peers''
       [optional ''device_id'' CT_TEXT JNull,
        checked ''role'' [''PARENT'', ''CHILD''] JNull,
        defaulted ''connection_state'' CT_TEXT (JStr ''DISCONNECTED''),
        optional ''active_session_id'' CT_TEXT JNull,
        optional ''last_seen_at'' CT_TEXT JNull,
        optional ''last_sync_at'' CT_TEXT JNull,
        optional ''last_heartbeat_at'' CT_TEXT JNull,
        defaulted ''reconnect_count'' CT_INTEGER (JInt 0),
        optional ''endpoint'' CT_TEXT JNull,
        optional ''metadata'' CT_TEXT (JStr ''{}''),
        required ''updated_at'' CT_TEXT]
       [[''device_id'']] None [],
     CREATE_INDEX False ''transport_peers'' [''connection_state''],
     CREATE_INDEX False ''transport_peers'' [''active_session_id''],
     CREATE_TABLE ''transport_messages''
       [optional ''id'' CT_INTEGER JNull,
        required ''message_id'' CT_TEXT,
        required ''session_id'' CT_TEXT,
        required ''sender_id'' CT_TEXT,
        required ''recipient_id'' CT_TEXT,
        required ''message_type'' CT_TEXT,
        required ''sequence'' CT_INTEGER,
        checked ''direction'' [''INBOUND'', ''OUTBOUND''] JNull,
        required ''created_at'' CT_TEXT,
        defaulted ''status'' CT_TEXT (JStr ''ACCEPTED''),
        optional ''error_reason'' CT_TEXT JNull,
        optional ''payload_digest'' CT_TEXT JNull]
       [[''id''], [''message_id'']] (Some (''id'', True)) [],
     CREATE_INDEX False ''transport_messages'' [''recipient_id''],
     CREATE_INDEX False ''transport_messages'' [''sender_id''],
     CREATE_INDEX False ''transport_messages'' [''session_id''],
     CREATE_INDEX False ''transport_messages'' [''session_id'', ''sequence''],
     CREATE_INDEX False ''transport_messages'' [''created_at''],
     CREATE_INDEX False ''transport_messages'' [''status''],
     CREATE_TABLE ''transport_sequences''
       [required ''session_id'' CT_TEXT,
        required ''device_id'' CT_TEXT,
        defaulted ''last_inbound_sequence'' CT_INTEGER (JInt 0),
        defaulted ''last_outbound_sequence'' CT_INTEGER (JInt 0),
        required ''updated_at'' CT_TEXT]
       [[''session_id'', ''device_id'']] None [],
     CREATE_INDEX False ''transport_sequences'' [''device_id''],
     CREATE_INDEX False ''transport_sequences'' [''session_id'']]\<rparr>"

definition migration_7 :: migration where
  "migration_7 = \<lparr>mg_version = 7, mg_name = ''007_vista_screen_sessions'', mg_script =
    [CREATE_TABLE ''screen_sessions''
       [optional ''session_id'' CT_TEXT JNull,
        required ''device_id'' CT_TEXT,
        required ''parent_id'' CT_TEXT,
        optional ''authorization_id'' CT_TEXT JNull,
        checked ''state'' [''REQUESTED'', ''PENDING_CHILD_APPROVAL'', ''APPROVED'', ''ACTIVE'', ''STOPPED'', ''DENIED'', ''EXPIRED'', ''REVOKED''] JNull,
        optional ''transport_session_id'' CT_TEXT JNull,
        required ''requested_at'' CT_TEXT,
        optional ''approved_at'' CT_TEXT JNull,
        optional ''started_at'' CT_TEXT JNull,
        optional ''stopped_at'' CT_TEXT JNull,
        required ''expires_at'' CT_TEXT,
        optional ''last_frame_at'' CT_TEXT JNull,
        defaulted ''frame_count'' CT_INTEGER (JInt 0),
        defaulted ''bytes_sent'' CT_INTEGER (JInt 0),
        defaulted ''bytes_received'' CT_INTEGER (JInt 0),
        defaulted ''width'' CT_INTEGER (JInt 0),
        defaulted ''height'' CT_INTEGER (JInt 0),
        defaulted ''codec'' CT_TEXT (JStr ''TEST''),
        defaulted ''max_fps'' CT_INTEGER (JInt 10),
        optional ''stop_reason'' CT_TEXT JNull,
        optional ''label'' CT_TEXT JNull,
        optional ''metadata'' CT_TEXT (JStr ''{}'')]
       [[''session_id'']] None [],
     CREATE_INDEX False ''screen_sessions'' [''device_id''],
     CREATE_INDEX False ''screen_sessions'' [''parent_id''],
     CREATE_INDEX False ''screen_sessions'' [''state''],
     CREATE_INDEX False ''screen_sessions'' [''requested_at''],
     CREATE_INDEX False ''screen_sessions'' [''device_id'', ''state''],
     CREATE_TABLE ''screen_authorizations''
       [optional ''authorization_id'' CT_TEXT JNull,
        required ''session_id'' CT_TEXT,
        required ''device_id'' CT_TEXT,
        required ''parent_id'' CT_TEXT,
        checked ''decision'' [''PENDING'', ''APPROVED'', ''DENIED'', ''EXPIRED'', ''REVOKED''] JNull,
        required ''requested_at'' CT_TEXT,
        optional ''approved_at'' CT_TEXT JNull,
        optional ''denied_at'' CT_TEXT JNull,
        required ''expires_at'' CT_TEXT,
        required ''max_duration_seconds'' CT_INTEGER,
        optional ''label'' CT_TEXT JNull,
        optional ''metadata'' CT_TEXT (JStr ''{}'')]
       [[''authorization_id''], [''session_id'']] None [],
     CREATE_INDEX False ''screen_authorizations'' [''session_id''],
     CREATE_INDEX False ''screen_authorizations'' [''decision'']]\<rparr>"

definition migration_8 :: migration where
  "migration_8 = \<lparr>mg_version = 8, mg_name = ''008_aegis_screen_capture'', mg_script =
    [CREATE_TABLE ''aegis_sessions''
       [optional ''aegis_session_id'' CT_TEXT JNull,
        required ''screen_session_id'' CT_TEXT,
        required ''device_id'' CT_TEXT,
        required ''parent_id'' CT_TEXT,
        optional ''authorization_id'' CT_TEXT JNull,
        checked ''consent_state'' [''NOT_REQUESTED'', ''REQUESTED'', ''GRANTED'', ''DENIED'', ''REVOKED'', ''EXPIRED''] (JStr ''NOT_REQUESTED''),
        defaulted ''platform'' CT_TEXT (JStr ''UNKNOWN''),
        defaulted ''backend'' CT_TEXT (JStr ''TEST''),
        defaulted ''state'' CT_TEXT (JStr ''INITIALIZED''),
        optional ''transport_session_id'' CT_TEXT JNull,
        required ''created_at'' CT_TEXT,
        optional ''consent_requested_at'' CT_TEXT JNull,
        optional ''consent_granted_at'' CT_TEXT JNull,
        optional ''started_at'' CT_TEXT JNull,
        optional ''stopped_at'' CT_TEXT JNull,
        required ''expires_at'' CT_TEXT,
        defaulted ''last_frame_sequence'' CT_INTEGER (JInt 0),
        optional ''stop_reason'' CT_TEXT JNull,
        optional ''label'' CT_TEXT JNull,
        optional ''metadata'' CT_TEXT (JStr ''{}'')]
       [[''aegis_session_id'']] None [],
     CREATE_INDEX False ''aegis_sessions'' [''screen_session_id''],
     CREATE_INDEX False ''aegis_sessions'' [''device_id''],
     CREATE_INDEX False ''aegis_sessions'' [''state''],
     CREATE_INDEX False ''aegis_sessions'' [''created_at'']]\<rparr>"

definition migration_9 :: migration where
  "migration_9 = \<lparr>mg_version = 9, mg_name = ''009_orion_schema'', mg_script =
    [CREATE_TABLE ''orion_events''
       [optional ''event_id'' CT_TEXT JNull,
        required ''event_type'' CT_TEXT,
        required ''source'' CT_TEXT,
        required ''device_id'' CT_TEXT,
        required ''created_at'' CT_TEXT,
        required ''correlation_id'' CT_TEXT,
        required ''schema_version'' CT_TEXT,
        defaulted ''payload_json'' CT_TEXT (JStr ''{}''),
        defaulted ''priority'' CT_TEXT (JStr ''NORMAL''),
        defaulted ''sequence'' CT_INTEGER (JInt 0)]
       [[''event_id'']] None [],
     CREATE_INDEX False ''orion_events'' [''device_id''],
     CREATE_INDEX False ''orion_events'' [''event_type''],
     CREATE_INDEX False ''orion_events'' [''correlation_id''],
     CREATE_INDEX False ''orion_events'' [''created_at''],
     CREATE_TABLE ''orion_actions''
       [optional ''action_id'' CT_TEXT JNull,
        required ''action_type'' CT_TEXT,
        required ''device_id'' CT_TEXT,
        defaulted ''status'' CT_TEXT (JStr ''PENDING''),
        required ''created_at'' CT_TEXT,
        required ''expires_at'' CT_TEXT,
        required ''correlation_id'' CT_TEXT,
        required ''requested_by'' CT_TEXT,
        required ''schema_version'' CT_TEXT,
        defaulted ''parameters'' CT_TEXT (JStr ''{}''),
        optional ''idempotency_key'' CT_TEXT JNull,
        defaulted ''retry_count'' CT_INTEGER (JInt 0),
        defaulted ''max_retries'' CT_INTEGER (JInt 3),
        optional ''next_attempt_at'' CT_TEXT JNull,
        optional ''last_error'' CT_TEXT JNull,
        optional ''updated_at'' CT_TEXT JNull,
        defaulted ''result'' CT_TEXT (JStr ''{}'')]
       [[''action_id'']] None [],
     CREATE_INDEX False ''orion_actions'' [''device_id''],
     CREATE_INDEX False ''orion_actions'' [''status''],
     CREATE_INDEX False ''orion_actions'' [''idempotency_key''],
     CREATE_INDEX False ''orion_actions'' [''correlation_id''],
     CREATE_INDEX False ''orion_actions'' [''created_at''],
     CREATE_INDEX True ''orion_actions'' [''idempotency_key''],
     CREATE_TABLE ''orion_capabilities''
       [optional ''capability_id'' CT_TEXT JNull,
        required ''device_id'' CT_TEXT,
        defaulted ''capabilities_json'' CT_TEXT (JStr ''{}''),
        required ''schema_version'' CT_TEXT,
        required ''discovered_at'' CT_TEXT,
        optional ''updated_at'' CT_TEXT JNull,
        defaulted ''source'' CT_TEXT (JStr ''explicit-discovery''),
        defaulted ''notes'' CT_TEXT (JStr [])]
       [[''capability_id''], [''device_id'']] None [],
     CREATE_INDEX False ''orion_capabilities'' [''device_id''],
     CREATE_TABLE ''orion_reconciliation''
       [optional ''report_id'' CT_TEXT JNull,
        required ''device_id'' CT_TEXT,
        required ''started_at'' CT_TEXT,
        optional ''completed_at'' CT_TEXT JNull,
        defaulted ''events_processed'' CT_INTEGER (JInt 0),
        defaulted ''conflicts_detected'' CT_INTEGER (JInt 0),
        defaulted ''conflicts_resolved'' CT_INTEGER (JInt 0),
        defaulted ''stale_events'' CT_INTEGER (JInt 0),
        defaulted ''failed_actions'' CT_INTEGER (JInt 0),
        defaulted ''final_state'' CT_TEXT (JStr ''SYNCED''),
        defaulted ''notes'' CT_TEXT (JStr [])]
       [[''report_id'']] None [],
     CREATE_INDEX False ''orion_reconciliation'' [''device_id''],
     CREATE_INDEX False ''orion_reconciliation'' [''started_at'']]\<rparr>"

definition migration_10 :: migration where
  "migration_10 = \<lparr>mg_version = 10, mg_name = ''010_atlas'', mg_script =
    [CREATE_TABLE ''atlas_backups''
       [optional ''backup_id'' CT_TEXT JNull,
        required ''created_at'' CT_TEXT,
        required ''schema_version'' CT_TEXT,
        required ''orion_version'' CT_TEXT,
        defaulted ''backup_format'' CT_TEXT (JStr ''atlas-1.0''),
        optional ''device_id'' CT_TEXT JNull,
        required ''integrity_digest'' CT_TEXT,
        defaulted ''size_bytes'' CT_INTEGER (JInt 0),
        defaulted ''status'' CT_TEXT (JStr ''VALID''),
        defaulted ''notes'' CT_TEXT (JStr [])]
       [[''backup_id'']] None [],
     CREATE_INDEX False ''atlas_backups'' [''created_at''],
     CREATE_INDEX False ''atlas_backups'' [''device_id''],
     CREATE_TABLE ''atlas_health''
       [optional ''health_id'' CT_TEXT JNull,
        required ''subsystem'' CT_TEXT,
        required ''status'' CT_TEXT,
        required ''timestamp'' CT_TEXT,
        defaulted ''summary'' CT_TEXT (JStr []),
        defaulted ''remediation'' CT_TEXT (JStr []),
        defaulted ''schema_version'' CT_TEXT (JStr ''1.0'')]
       [[''health_id'']] None [],
     CREATE_INDEX False ''atlas_health'' [''subsystem''],
     CREATE_INDEX False ''atlas_health'' [''timestamp''],
     CREATE_TABLE ''atlas_recovery''
       [optional ''recovery_id'' CT_TEXT JNull,
        optional ''device_id'' CT_TEXT JNull,
        required ''started_at'' CT_TEXT,
        optional ''completed_at'' CT_TEXT JNull,
        required ''operation'' CT_TEXT,
        defaulted ''status'' CT_TEXT (JStr ''PENDING''),
        defaulted ''actions_taken'' CT_INTEGER (JInt 0),
        defaulted ''notes'' CT_TEXT (JStr [])]
       [[''recovery_id'']] None [],
     CREATE_INDEX False ''atlas_recovery'' [''device_id''],
     CREATE_INDEX False ''atlas_recovery'' [''status''],
     CREATE_TABLE ''atlas_capability_versions''
       [optional ''capability_id'' CT_TEXT JNull,
        required ''capability_name'' CT_TEXT,
        defaulted ''version'' CT_TEXT (JStr ''1.0''),
        defaulted ''status'' CT_TEXT (JStr ''ACTIVE''),
        defaulted ''requires_trust'' CT_INTEGER (JInt 0),
        defaulted ''requires_vista'' CT_INTEGER (JInt 0),
        defaulted ''requires_aegis'' CT_INTEGER (JInt 0),
        defaulted ''risk_level'' CT_TEXT (JStr ''LOW''),
        defaulted ''schema_version'' CT_TEXT (JStr ''1.0''),
        required ''updated_at'' CT_TEXT,
        defaulted ''notes'' CT_TEXT (JStr [])]
       [[''capability_id'']] None [],
     CREATE_INDEX False ''atlas_capability_versions'' [''status''],
     CREATE_INDEX False ''atlas_capability_versions'' [''risk_level''],
     CREATE_TABLE ''atlas_retention''
       [optional ''retention_id'' CT_TEXT JNull,
        required ''target_table'' CT_TEXT,
        required ''retention_days'' CT_INTEGER,
        defaulted ''enabled'' CT_INTEGER (JInt 1),
        required ''updated_at'' CT_TEXT,
        defaulted ''notes'' CT_TEXT (JStr [])]
       [[''retention_id'']] None [],
     CREATE_INDEX True ''atlas_retention'' [''target_table'']]\<rparr>"

definition MIGRATIONS :: "migration list" where
  "MIGRATIONS = [migration_1, migration_2, migration_3, migration_4, migration_6,
     migration_7, migration_8, migration_9, migration_10]"

section \<open>Scripts\<close>

definition new_table ::
  "sql_column list \<Rightarrow> string list list \<Rightarrow> (string \<times> bool) option \<Rightarrow> (string \<times> string \<times> string) list \<Rightarrow> sql_table" where
  [model_defs]: "new_table cols keys rowid fks =
     \<lparr>tb_columns = cols, tb_keys = keys, tb_rowid = rowid, tb_foreign = fks, tb_rows = [], tb_last = 0\<rparr>"

definition create_table :: "string \<Rightarrow> sql_table \<Rightarrow> sql_db \<Rightarrow> sql_db" where
  "create_table t tb db = (if has_table t db then db else db @ [(t, tb)])"

definition add_key :: "string list \<Rightarrow> sql_table \<Rightarrow> sql_table" where
  "add_key k tb = (if k \<in> set (tb_keys tb) then tb else tb\<lparr>tb_keys := tb_keys tb @ [k]\<rparr>)"

fun run_ddl :: "ddl \<Rightarrow> sql_db \<Rightarrow> gm_error + sql_db" where
  "run_ddl (CREATE_TABLE t cols keys rowid fks) db = Inr (create_table t (new_table cols keys rowid fks) db)"
| "run_ddl (CREATE_INDEX unique t k) db =
     (case map_of db t of
        None \<Rightarrow> Inl (Builtin SqliteOperationalError)
      | Some tb \<Rightarrow>
          if \<not> set k \<subseteq> set (column_names tb) then Inl (Builtin SqliteOperationalError)
          else if \<not> unique then Inr db
          else if \<not> distinct (filter (\<lambda>vs. JNull \<notin> set vs) (map (key_value k) (tb_rows tb)))
          then Inl (Builtin SqliteIntegrityError)
          else Inr (change_table t (add_key k) db))"

text \<open>
  \<^verbatim>\<open>conn.executescript\<close> commits what is pending before it starts and then runs outside of
  any transaction: the statements before the one that fails stay.
\<close>

fun executescript :: "ddl list \<Rightarrow> sql_db \<Rightarrow> (sql_db, unit) outcome" where
  "executescript [] db = returns () db"
| "executescript (st # sts) db =
     (case run_ddl st db of Inl e \<Rightarrow> raises e db | Inr db1 \<Rightarrow> executescript sts db1)"

section \<open>The manager\<close>

definition init_migration_table :: "sql_db \<Rightarrow> sql_db" where
  "init_migration_table db = create_table ''schema_migrations''
     (new_table [optional ''version'' CT_INTEGER JNull, required ''name'' CT_TEXT,
        required ''applied_at'' CT_TEXT, required ''checksum'' CT_TEXT]
        [[''version'']] (Some (''version'', False)) []) db"

definition get_applied_versions :: "sql_db \<Rightarrow> (sql_db, json list) outcome" where
  "get_applied_versions db =
     (let db1 = init_migration_table db in
      case fetchall ''schema_migrations'' [''version''] db1 of
        Inl e \<Rightarrow> raises e db1
      | Inr rows \<Rightarrow> returns (map (\<lambda>r. cell r ''version'') rows) db1)"

fun max_version :: "json list \<Rightarrow> int option" where
  "max_version [] = None"
| "max_version (JInt i # vs) = (case max_version vs of None \<Rightarrow> Some i | Some j \<Rightarrow> Some (max i j))"
| "max_version (v # vs) = max_version vs"

definition get_current_version :: "sql_db \<Rightarrow> (sql_db, int) outcome" where
  "get_current_version db =
     (case get_applied_versions db of
        (Inl e, db1) \<Rightarrow> (Inl e, db1)
      | (Inr vs, db1) \<Rightarrow> returns (case max_version vs of None \<Rightarrow> 0 | Some i \<Rightarrow> i) db1)"

definition migration_row :: "(migration \<Rightarrow> string) \<Rightarrow> (migration \<Rightarrow> string) \<Rightarrow> migration \<Rightarrow> sql_row" where
  "migration_row digest clock m =
     [(''version'', JInt (mg_version m)), (''name'', JStr (mg_name m)),
      (''applied_at'', JStr (clock m)), (''checksum'', JStr (digest m))]"

text \<open>One pass over the migrations, those of \<open>applied\<close> skipped; any error becomes one class.\<close>

fun apply_pending ::
  "(migration \<Rightarrow> string) \<Rightarrow> (migration \<Rightarrow> string) \<Rightarrow> json list \<Rightarrow> migration list \<Rightarrow> sql_db \<Rightarrow>
   (sql_db, string list) outcome" where
  "apply_pending digest clock applied [] db = returns [] db"
| "apply_pending digest clock applied (m # ms) db =
     (if JInt (mg_version m) \<in> set applied then apply_pending digest clock applied ms db
      else case executescript (mg_script m) db of
        (Inl e, db1) \<Rightarrow> raises (Core DatabaseMigrationError) db1
      | (Inr _, db1) \<Rightarrow>
         (case sql_insert ''schema_migrations'' (migration_row digest clock m) db1 of
            Inl e \<Rightarrow> raises (Core DatabaseMigrationError) db1
          | Inr db2 \<Rightarrow>
             (case apply_pending digest clock applied ms db2 of
                (Inl e, db3) \<Rightarrow> (Inl e, db3)
              | (Inr names, db3) \<Rightarrow> returns (mg_name m # names) db3)))"

definition apply_migrations ::
  "(migration \<Rightarrow> string) \<Rightarrow> (migration \<Rightarrow> string) \<Rightarrow> migration list \<Rightarrow> sql_db \<Rightarrow> (sql_db, string list) outcome" where
  "apply_migrations digest clock ms db =
     (case get_applied_versions db of
        (Inl e, db1) \<Rightarrow> (Inl e, db1)
      | (Inr vs, db1) \<Rightarrow> apply_pending digest clock vs (sort_key mg_version ms) db1)"

section \<open>Facts\<close>

lemma map_of_create:
  "map_of (create_table t tb db) n = (case map_of db n of Some x \<Rightarrow> Some x | None \<Rightarrow> if n = t then Some tb else None)"
  by (auto simp: create_table_def has_table_def map_add_def split: option.split)

lemma add_key_simps [simp]:
  "tb_columns (add_key k tb) = tb_columns tb" "tb_rows (add_key k tb) = tb_rows tb"
  "tb_foreign (add_key k tb) = tb_foreign tb" "tb_rowid (add_key k tb) = tb_rowid tb"
  by (simp_all add: add_key_def)

text \<open>A script keeps every table, its columns and its rows.\<close>

definition extends :: "sql_db \<Rightarrow> sql_db \<Rightarrow> bool" where
  "extends db db' \<longleftrightarrow> (\<forall>t tb. map_of db t = Some tb \<longrightarrow>
     (\<exists>tb'. map_of db' t = Some tb' \<and> tb_columns tb' = tb_columns tb \<and> tb_rows tb' = tb_rows tb))"

lemma extends_refl [simp]: "extends db db" by (simp add: extends_def)

lemma extends_trans: "extends a b \<Longrightarrow> extends b c \<Longrightarrow> extends a c"
  unfolding extends_def by metis

lemma run_ddl_extends: "run_ddl st db = Inr db1 \<Longrightarrow> extends db db1"
  by (cases st)
    (auto simp: extends_def map_of_create split: option.splits if_splits)

lemma executescript_extends: "executescript sts db = (r, db1) \<Longrightarrow> extends db db1"
  by (induction sts arbitrary: db) (auto split: sum.splits dest: run_ddl_extends intro: extends_trans)

end
