(* ===== verification/MigrationProps.thy ===== *)
theory MigrationProps
  imports Migrations
begin

text \<open>
  Migrating: a second run does nothing and no row is lost; the schema of a new installation; what a
  script that fails half way leaves.
\<close>

section \<open>Inserted rows\<close>

lemma cell_map: "cell (map (\<lambda>c. (co_name c, f c)) cols) n =
    (case find (\<lambda>c. co_name c = n) cols of None \<Rightarrow> JNull | Some c \<Rightarrow> f c)"
  by (induction cols) (auto simp: cell_def get_or_def)

lemma cell_completed:
  assumes "n \<in> set (column_names tb)" and "map_of given n = Some v" and "v \<noteq> JNull"
  shows "cell (completed tb given) n = v"
proof -
  from assms(1) obtain c where "find (\<lambda>c. co_name c = n) (tb_columns tb) = Some c"
    by (cases "find (\<lambda>c. co_name c = n) (tb_columns tb)") (auto simp: column_names_def find_None_iff)
  moreover from this have "co_name c = n" by (auto simp: find_Some_iff)
  ultimately show ?thesis
    using assms(2,3) by (auto simp: completed_def cell_map get_or_def Let_def split: option.split)
qed

lemma insert_keeps_text:
  assumes "sql_insert t given db = Inr db1" and "map_of given n = Some v" and "v \<noteq> JNull"
    and "\<And>bound. bind_values given = Inr bound \<Longrightarrow> map_of bound n = Some v"
  obtains tb r where "map_of db t = Some tb" and "db1 = change_table t (append_row r) db" and "cell r n = v"
    and "set (map fst given) \<subseteq> set (column_names tb)"
proof -
  from assms(1) obtain tb bound where tb: "map_of db t = Some tb" "set (map fst given) \<subseteq> set (column_names tb)"
      "bind_values given = Inr bound" "db1 = change_table t (append_row (completed tb bound)) db"
    by (auto simp: sql_insert_def and_then_def Let_def split: option.splits sum.splits if_splits)
  moreover have "n \<in> set (column_names tb)" using tb(2) assms(2) by (force dest: map_of_SomeD)
  ultimately show thesis using that cell_completed assms(3,4) by metis
qed

section \<open>Running twice\<close>

definition versions_in :: "sql_db \<Rightarrow> json list" where
  "versions_in db = map (\<lambda>r. cell r ''version'') (rows_of ''schema_migrations'' db)"

definition recorded :: "sql_db \<Rightarrow> bool" where
  "recorded db \<longleftrightarrow> (case map_of db ''schema_migrations'' of None \<Rightarrow> False
     | Some tb \<Rightarrow> ''version'' \<in> set (column_names tb))"

text \<open>Everything is kept: tables, columns and, but for the log of migrations, rows.\<close>

definition keeps_rows :: "sql_db \<Rightarrow> sql_db \<Rightarrow> bool" where
  "keeps_rows db db' \<longleftrightarrow> (\<forall>t tb. map_of db t = Some tb \<longrightarrow>
     (\<exists>tb' new. map_of db' t = Some tb' \<and> tb_columns tb' = tb_columns tb \<and> tb_rows tb' = tb_rows tb @ new
        \<and> (t \<noteq> ''schema_migrations'' \<longrightarrow> new = [])))"

lemma keeps_rows_refl [simp]: "keeps_rows db db" by (simp add: keeps_rows_def)

lemma keeps_rows_trans:
  assumes "keeps_rows a b" and "keeps_rows b c"
  shows "keeps_rows a c"
  unfolding keeps_rows_def
proof (intro allI impI)
  fix t tb
  assume "map_of a t = Some tb"
  with assms(1) obtain tb1 new1 where 1: "map_of b t = Some tb1" "tb_columns tb1 = tb_columns tb"
      "tb_rows tb1 = tb_rows tb @ new1" "t \<noteq> ''schema_migrations'' \<longrightarrow> new1 = []"
    unfolding keeps_rows_def by blast
  with assms(2) obtain tb2 new2 where 2: "map_of c t = Some tb2" "tb_columns tb2 = tb_columns tb1"
      "tb_rows tb2 = tb_rows tb1 @ new2" "t \<noteq> ''schema_migrations'' \<longrightarrow> new2 = []"
    unfolding keeps_rows_def by blast
  then show "\<exists>tb' new. map_of c t = Some tb' \<and> tb_columns tb' = tb_columns tb \<and>
      tb_rows tb' = tb_rows tb @ new \<and> (t \<noteq> ''schema_migrations'' \<longrightarrow> new = [])"
    using 1 by (intro exI[of _ tb2] exI[of _ "new1 @ new2"]) simp
qed

lemma extends_keeps_rows: "extends a b \<Longrightarrow> keeps_rows a b"
  unfolding extends_def keeps_rows_def by (metis append_Nil2)

lemma append_keeps_rows: "keeps_rows db (change_table ''schema_migrations'' (append_row r) db)"
  by (auto simp: keeps_rows_def)

lemma keeps_rows_recorded:
  assumes "keeps_rows a b" and "recorded a"
  shows "recorded b"
proof -
  from assms(2) obtain tb where tb: "map_of a ''schema_migrations'' = Some tb" "''version'' \<in> set (column_names tb)"
    by (auto simp: recorded_def split: option.splits)
  with assms(1) obtain tb' where "map_of b ''schema_migrations'' = Some tb'" "tb_columns tb' = tb_columns tb"
    unfolding keeps_rows_def by blast
  then show ?thesis using tb(2) by (simp add: recorded_def column_names_def)
qed

lemma keeps_rows_versions:
  assumes "keeps_rows a b"
  shows "set (versions_in a) \<subseteq> set (versions_in b)"
proof (cases "map_of a ''schema_migrations''")
  case None
  then show ?thesis by (simp add: versions_in_def rows_of_def)
next
  case (Some tb)
  with assms obtain tb' new where "map_of b ''schema_migrations'' = Some tb'" "tb_rows tb' = tb_rows tb @ new"
    unfolding keeps_rows_def by blast
  then show ?thesis using Some by (simp add: versions_in_def rows_of_def)
qed

lemma record_migration:
  assumes "sql_insert ''schema_migrations'' (migration_row digest clock m) db = Inr db1"
  shows "keeps_rows db db1" and "JInt (mg_version m) \<in> set (versions_in db1)"
proof -
  let ?v = "JInt (mg_version m)"
  have given: "map_of (migration_row digest clock m) ''version'' = Some ?v"
    by (simp add: migration_row_def)
  have bound: "map_of bound ''version'' = Some ?v"
    if "bind_values (migration_row digest clock m) = Inr bound" for bound
    using that by (auto simp: migration_row_def and_then_def split: sum.splits if_splits)
  obtain tb r where "map_of db ''schema_migrations'' = Some tb"
      "db1 = change_table ''schema_migrations'' (append_row r) db" "cell r ''version'' = ?v"
    using insert_keeps_text[OF assms given _ bound] by blast
  then show "keeps_rows db db1" "?v \<in> set (versions_in db1)"
    using append_keeps_rows by (auto simp: versions_in_def rows_of_def)
qed

lemma apply_pending_step:
  assumes "apply_pending digest clock applied (m # ms) db = (Inr names, db1)"
    and "JInt (mg_version m) \<notin> set applied"
  obtains db2 rest where "apply_pending digest clock applied ms db2 = (Inr rest, db1)" and "keeps_rows db db2"
    and "JInt (mg_version m) \<in> set (versions_in db2)"
proof -
  from assms obtain db3 db2 rest where s: "executescript (mg_script m) db = (Inr (), db3)"
      "sql_insert ''schema_migrations'' (migration_row digest clock m) db3 = Inr db2"
      "apply_pending digest clock applied ms db2 = (Inr rest, db1)"
    by (auto split: prod.splits sum.splits)
  have "keeps_rows db db2"
    using extends_keeps_rows[OF executescript_extends[OF s(1)]] record_migration(1)[OF s(2)] by (rule keeps_rows_trans)
  then show thesis using that s(3) record_migration(2)[OF s(2)] by blast
qed

lemma apply_pending_records:
  assumes "apply_pending digest clock applied ms db = (Inr names, db1)"
  shows "keeps_rows db db1 \<and> (\<forall>m \<in> set ms. JInt (mg_version m) \<in> set applied \<union> set (versions_in db1))"
  using assms
proof (induction ms arbitrary: db names)
  case Nil
  then show ?case by simp
next
  case (Cons m ms)
  show ?case
  proof (cases "JInt (mg_version m) \<in> set applied")
    case True
    then show ?thesis using Cons.IH[of db names] Cons.prems by simp
  next
    case False
    from Cons.prems False obtain db2 rest where s: "apply_pending digest clock applied ms db2 = (Inr rest, db1)"
        "keeps_rows db db2" "JInt (mg_version m) \<in> set (versions_in db2)"
      by (rule apply_pending_step)
    note rest = Cons.IH[OF s(1)]
    have "JInt (mg_version m) \<in> set (versions_in db1)"
      using keeps_rows_versions[of db2 db1] s(3) rest by blast
    then show ?thesis using rest keeps_rows_trans[OF s(2)] by simp
  qed
qed

lemma apply_nothing:
  "list_all (\<lambda>m. JInt (mg_version m) \<in> set applied) ms \<Longrightarrow> apply_pending digest clock applied ms db = (Inr [], db)"
  by (induction ms) auto

lemma init_recorded: "recorded db \<Longrightarrow> init_migration_table db = db"
  by (auto simp: recorded_def init_migration_table_def create_table_def has_table_def split: option.splits)

lemma init_keeps_rows: "keeps_rows db (init_migration_table db)"
  by (auto simp: init_migration_table_def keeps_rows_def map_of_create split: option.splits)

lemma applied_versions_eval:
  "get_applied_versions db = (if recorded (init_migration_table db)
     then (Inr (versions_in (init_migration_table db)), init_migration_table db)
     else (Inl (Core StorageError), init_migration_table db))"
  by (auto simp: get_applied_versions_def fetchall_def recorded_def versions_in_def rows_of_def Let_def
      split: option.splits)

text \<open>
  C39: Migrating is idempotent and loses nothing: whatever database a run that succeeds started from
  (new, partly migrated, or left by a script that failed), every table of it keeps its columns and
  its rows, only the log of migrations growing, and running again applies nothing and changes
  nothing.
\<close>

theorem migrations_applied_once:
  assumes "apply_migrations digest clock ms db = (Inr names, db1)"
  shows "apply_migrations digest clock' ms db1 = (Inr [], db1) \<and> keeps_rows db db1"
proof -
  let ?db0 = "init_migration_table db"
  from assms have rec: "recorded ?db0"
    and run: "apply_pending digest clock (versions_in ?db0) (sort_key mg_version ms) ?db0 = (Inr names, db1)"
    by (auto simp: apply_migrations_def applied_versions_eval split: if_splits)
  note after = apply_pending_records[OF run]
  have "recorded db1" using keeps_rows_recorded[OF _ rec] after by blast
  moreover have "list_all (\<lambda>m. JInt (mg_version m) \<in> set (versions_in db1)) (sort_key mg_version ms)"
    using after keeps_rows_versions[of ?db0 db1] by (auto simp: list_all_iff)
  ultimately show ?thesis
    using keeps_rows_trans[OF init_keeps_rows, of db db1] after
    by (simp add: apply_migrations_def applied_versions_eval init_recorded apply_nothing)
qed

section \<open>The schema\<close>

text \<open>A script that only mentions tables the database has not got runs as on an empty database.\<close>

fun mentions :: "ddl \<Rightarrow> string" where
  "mentions (CREATE_TABLE t cols keys rowid fks) = t"
| "mentions (CREATE_INDEX unique t k) = t"

definition declared :: "migration \<Rightarrow> sql_db" where
  "declared m = snd (executescript (mg_script m) [])"

definition stands_alone :: "migration \<Rightarrow> bool" where
  "stands_alone m \<longleftrightarrow> fst (executescript (mg_script m) []) = Inr () \<and>
     list_all (\<lambda>st. mentions st \<in> set (map fst (declared m))) (mg_script m) \<and> fits_int64 (mg_version m)"

lemma map_of_absent: "t \<notin> fst ` set db \<Longrightarrow> map_of (db @ d) t = map_of d t"
  by (induction db) auto

lemma change_absent: "t \<notin> fst ` set db \<Longrightarrow> change_table t f (db @ d) = db @ change_table t f d"
  by (induction db) (auto simp: change_table_def)

lemma run_ddl_frame:
  assumes "mentions st \<notin> fst ` set db"
  shows "run_ddl st (db @ d) = map_sum id (\<lambda>x. db @ x) (run_ddl st d)"
  using assms
  by (cases st) (simp_all add: create_table_def has_table_def map_of_absent change_absent del: map_of_append
      split: option.split)

lemma executescript_frame:
  assumes "fst ` set db \<inter> mentions ` set sts = {}"
  shows "executescript sts (db @ d) = (fst (executescript sts d), db @ snd (executescript sts d))"
  using assms
proof (induction sts arbitrary: d)
  case Nil
  then show ?case by simp
next
  case (Cons st sts)
  have "mentions st \<notin> fst ` set db" and rest: "fst ` set db \<inter> mentions ` set sts = {}"
    using Cons.prems by auto
  then show ?case by (simp add: run_ddl_frame Cons.IH[OF rest] split: sum.split)
qed

definition log_columns :: "sql_column list" where
  [model_defs]: "log_columns = [optional ''version'' CT_INTEGER JNull, required ''name'' CT_TEXT,
     required ''applied_at'' CT_TEXT, required ''checksum'' CT_TEXT]"

definition log_table :: "sql_table \<Rightarrow> bool" where
  "log_table tb \<longleftrightarrow> tb_columns tb = log_columns \<and> tb_keys tb = [[''version'']] \<and>
     tb_rowid tb = Some (''version'', False) \<and> tb_foreign tb = []"

lemma log_insert:
  assumes "log_table tb" and "fits_int64 (mg_version m)"
    and "JInt (mg_version m) \<notin> (\<lambda>r. cell r ''version'') ` set (tb_rows tb)"
  shows "sql_insert ''schema_migrations'' (migration_row digest clock m) ((''schema_migrations'', tb) # db) =
    Inr (change_table ''schema_migrations'' (append_row (migration_row digest clock m)) ((''schema_migrations'', tb) # db))"
proof -
  have cols: "column_names tb = [''version'', ''name'', ''applied_at'', ''checksum'']"
    using assms(1) by (simp add: log_table_def column_names_def model_defs)
  have bound: "bind_values (migration_row digest clock m) = Inr (migration_row digest clock m)"
    using assms(2) by (simp add: migration_row_def and_then_def)
  have row: "completed tb (migration_row digest clock m) = migration_row digest clock m"
    using assms(1) by (simp add: completed_def log_table_def model_defs migration_row_def Let_def)
  have "accepts db1 tb (migration_row digest clock m)" for db1
    using assms(1,3)
    by (auto simp: accepts_def log_table_def model_defs fits_column_def migration_row_def cell_def rowid_ok_def
        key_taken_def key_value_def foreign_ok_def)
  then show ?thesis
    using cols bound row by (simp add: sql_insert_def and_then_def migration_row_def)
qed

lemma run_fresh:
  assumes "list_all stands_alone ms" and "log_table tb"
    and "distinct (map fst ((''schema_migrations'', tb) # db) @ concat (map (map fst \<circ> declared) ms))"
    and "distinct (map (\<lambda>r. cell r ''version'') (tb_rows tb) @ map (JInt \<circ> mg_version) ms)"
    and "set applied \<inter> (JInt \<circ> mg_version) ` set ms = {}"
  shows "\<exists>tb'. apply_pending digest clock applied ms ((''schema_migrations'', tb) # db) =
      (Inr (map mg_name ms), (''schema_migrations'', tb') # db @ concat (map declared ms)) \<and>
     log_table tb' \<and> tb_rows tb' = tb_rows tb @ map (migration_row digest clock) ms"
  using assms
proof (induction ms arbitrary: tb db)
  case Nil
  then show ?case by simp
next
  case (Cons m ms)
  let ?db = "(''schema_migrations'', tb) # db" and ?row = "migration_row digest clock m"
  have "fst ` set ?db \<inter> mentions ` set (mg_script m) = {}"
  proof -
    have "mentions ` set (mg_script m) \<subseteq> set (map fst (declared m))"
      using Cons.prems(1) unfolding stands_alone_def list_all_iff by auto
    moreover have "set (map fst ?db) \<inter> set (map fst (declared m)) = {}"
      using Cons.prems(3) by (simp only: list.map concat.simps comp_apply distinct_append set_append) blast
    ultimately show ?thesis by (simp only: set_map) blast
  qed
  from executescript_frame[OF this, of "[]"] Cons.prems(1)
  have script: "executescript (mg_script m) ?db = (Inr (), (''schema_migrations'', tb) # db @ declared m)"
    by (simp add: stands_alone_def declared_def)
  have free: "''schema_migrations'' \<notin> fst ` set (db @ declared m)" using Cons.prems(3) by auto
  have insert: "sql_insert ''schema_migrations'' ?row ((''schema_migrations'', tb) # db @ declared m) =
      Inr ((''schema_migrations'', append_row ?row tb) # db @ declared m)"
    using log_insert[OF Cons.prems(2), of m digest clock "db @ declared m"] Cons.prems(1,4)
      change_absent[OF free, of "append_row ?row" "[]"]
    by (simp add: stands_alone_def change_table_def)
  have "\<exists>tb'. apply_pending digest clock applied ms ((''schema_migrations'', append_row ?row tb) # db @ declared m) =
      (Inr (map mg_name ms), (''schema_migrations'', tb') # (db @ declared m) @ concat (map declared ms)) \<and>
      log_table tb' \<and> tb_rows tb' = tb_rows (append_row ?row tb) @ map (migration_row digest clock) ms"
  proof (rule Cons.IH)
    show "list_all stands_alone ms" using Cons.prems(1) by simp
    show "log_table (append_row ?row tb)" using Cons.prems(2) by (simp add: log_table_def)
    show "distinct (map fst ((''schema_migrations'', append_row ?row tb) # db @ declared m) @
        concat (map (map fst \<circ> declared) ms))"
      using Cons.prems(3) by (simp add: comp_def)
    have "cell ?row ''version'' = JInt (mg_version m)" by (simp add: migration_row_def cell_def get_or_def)
    then show "distinct (map (\<lambda>r. cell r ''version'') (tb_rows (append_row ?row tb)) @ map (JInt \<circ> mg_version) ms)"
      using Cons.prems(4) by (simp add: comp_def)
    show "set applied \<inter> (JInt \<circ> mg_version) ` set ms = {}" using Cons.prems(5) by auto
  qed
  moreover have "JInt (mg_version m) \<notin> set applied" using Cons.prems(5) by auto
  ultimately show ?case by (auto simp: script insert)
qed

lemma declared_tables:
  "map (map fst \<circ> declared) MIGRATIONS =
    [[''identities'', ''config_entries'', ''audit_events''],
     [''pairing_sessions'', ''pairing_nonces'', ''trusted_devices''],
     [''device_health'', ''telemetry_events'', ''device_sequences''],
     [''policies'', ''policy_rules'', ''alerts''],
     [''transport_sessions'', ''transport_peers'', ''transport_messages'', ''transport_sequences''],
     [''screen_sessions'', ''screen_authorizations''], [''aegis_sessions''],
     [''orion_events'', ''orion_actions'', ''orion_capabilities'', ''orion_reconciliation''],
     [''atlas_backups'', ''atlas_health'', ''atlas_recovery'', ''atlas_capability_versions'', ''atlas_retention'']]"
  by code_simp

lemma migrations_stand_alone: "list_all stands_alone MIGRATIONS"
  by code_simp


lemma fresh_run:
  obtains tb where "apply_migrations digest clock MIGRATIONS [] =
      (Inr (map mg_name MIGRATIONS), (''schema_migrations'', tb) # concat (map declared MIGRATIONS))"
    and "log_table tb" and "tb_rows tb = map (migration_row digest clock) MIGRATIONS"
proof -
  let ?tb = "new_table log_columns [[''version'']] (Some (''version'', False)) []"
  have sorted: "sort_key mg_version MIGRATIONS = MIGRATIONS" by code_simp
  have versions: "map (JInt \<circ> mg_version) MIGRATIONS = map JInt [1, 2, 3, 4, 6, 7, 8, 9, 10]" by code_simp
  have init: "init_migration_table [] = [(''schema_migrations'', ?tb)]"
    by (simp add: init_migration_table_def create_table_def has_table_def log_columns_def)
  have log: "log_table ?tb" by (simp add: log_table_def new_table_def)
  have "recorded [(''schema_migrations'', ?tb)]"
    by (simp add: recorded_def column_names_def model_defs)
  then have "apply_migrations digest clock MIGRATIONS [] =
      apply_pending digest clock [] MIGRATIONS [(''schema_migrations'', ?tb)]"
    by (simp add: apply_migrations_def applied_versions_eval init sorted versions_in_def rows_of_def new_table_def)
  moreover obtain tb where "apply_pending digest clock [] MIGRATIONS [(''schema_migrations'', ?tb)] =
      (Inr (map mg_name MIGRATIONS), (''schema_migrations'', tb) # [] @ concat (map declared MIGRATIONS))"
      "log_table tb" "tb_rows tb = tb_rows ?tb @ map (migration_row digest clock) MIGRATIONS"
    using run_fresh[OF migrations_stand_alone log, of "[]" "[]" digest clock]
    unfolding declared_tables versions by (auto simp: new_table_def)
  ultimately show thesis using that by (simp add: new_table_def)
qed

text \<open>
  On an empty database the nine migrations succeed, in order; the version reported is 10 and
  the database has the tables the scripts create and the log.
\<close>

lemma fresh_schema:
  "fst (apply_migrations digest clock MIGRATIONS []) = Inr (map mg_name MIGRATIONS) \<and>
   fst (get_current_version (snd (apply_migrations digest clock MIGRATIONS []))) = Inr 10 \<and>
   map fst (snd (apply_migrations digest clock MIGRATIONS [])) =
     ''schema_migrations'' # concat (map (map fst \<circ> declared) MIGRATIONS)"
proof -
  obtain tb where run: "apply_migrations digest clock MIGRATIONS [] =
      (Inr (map mg_name MIGRATIONS), (''schema_migrations'', tb) # concat (map declared MIGRATIONS))"
    and log: "log_table tb" and rows: "tb_rows tb = map (migration_row digest clock) MIGRATIONS"
    by (rule fresh_run)
  let ?db = "(''schema_migrations'', tb) # concat (map declared MIGRATIONS)"
  have rec: "recorded ?db" using log by (simp add: recorded_def log_table_def column_names_def model_defs)
  have "map (\<lambda>r. cell r ''version'') (map (migration_row digest clock) MIGRATIONS) = map (JInt \<circ> mg_version) MIGRATIONS"
    by (simp add: migration_row_def cell_def get_or_def)
  also have "\<dots> = map JInt [1, 2, 3, 4, 6, 7, 8, 9, 10]" by code_simp
  finally have "versions_in ?db = map JInt [1, 2, 3, 4, 6, 7, 8, 9, 10]"
    by (simp add: versions_in_def rows_of_def rows)
  then show ?thesis
    using rec by (simp add: run get_current_version_def applied_versions_eval init_recorded map_concat comp_def)
qed

section \<open>A script that fails\<close>

text \<open>The wrapper's transaction does not cover the script: what ran before the failure stays.\<close>

definition older_audit :: sql_db where
  "older_audit = [(''audit_events'', new_table [optional ''id'' CT_INTEGER JNull] [[''id'']] (Some (''id'', True)) [])]"

lemma failed_script_stays:
  "fst (apply_migrations digest clock MIGRATIONS older_audit) = Inl (Core DatabaseMigrationError)"
  "map fst (snd (apply_migrations digest clock MIGRATIONS older_audit)) =
     [''audit_events'', ''schema_migrations'', ''identities'', ''config_entries'']"
  by code_simp+

theorem migrations_applied_once_witness:
  "apply_migrations (\<lambda>m. ''d'') (\<lambda>m. ''u'') MIGRATIONS (snd (apply_migrations (\<lambda>m. ''d'') (\<lambda>m. ''t'') MIGRATIONS [])) =
     (Inr [], snd (apply_migrations (\<lambda>m. ''d'') (\<lambda>m. ''t'') MIGRATIONS []))"
proof -
  obtain tb where run: "apply_migrations (\<lambda>m. ''d'') (\<lambda>m. ''t'') MIGRATIONS [] =
      (Inr (map mg_name MIGRATIONS), (''schema_migrations'', tb) # concat (map declared MIGRATIONS))"
    by (rule fresh_run)
  from migrations_applied_once[OF this] show ?thesis by (simp add: run)
qed

end
