(* ===== verification/AtlasRestore.thy ===== *)
theory AtlasRestore
  imports AtlasBackup MigrationProps
begin

text \<open>
  Restoring a backup brings back the rows that were saved: the file read is the text that was
  written, and no constraint refuses a row that the schema once held.
\<close>

section \<open>Databases that keep their schema\<close>

fun stored_value :: "json \<Rightarrow> bool" where
  "stored_value JNull = True"
| "stored_value (JInt i) = fits_int64 i"
| "stored_value (JStr s) = True"
| "stored_value v = False"

definition row_fits :: "sql_table \<Rightarrow> sql_row \<Rightarrow> bool" where
  "row_fits tb r \<longleftrightarrow> map fst r = column_names tb \<and> list_all (\<lambda>(c, v). stored_value v) r \<and>
     list_all (\<lambda>c. fits_column c (cell r (co_name c))) (tb_columns tb) \<and> rowid_ok tb r"

definition keys_distinct :: "string list list \<Rightarrow> sql_row list \<Rightarrow> bool" where
  "keys_distinct ks rows \<longleftrightarrow>
     list_all (\<lambda>k. distinct (filter (\<lambda>vs. JNull \<notin> set vs) (map (key_value k) rows))) ks"

definition table_ok :: "sql_db \<Rightarrow> sql_table \<Rightarrow> bool" where
  "table_ok db tb \<longleftrightarrow> distinct (column_names tb) \<and> tb_columns tb \<noteq> [] \<and>
     list_all (\<lambda>r. row_fits tb r \<and> foreign_ok db tb r) (tb_rows tb) \<and> keys_distinct (tb_keys tb) (tb_rows tb)"

definition db_ok :: "sql_db \<Rightarrow> bool" where
  "db_ok db \<longleftrightarrow> list_all (\<lambda>(t, tb). table_ok db tb) db"

text \<open>The references of the shipped schema, and that no column holds a private key.\<close>

definition shipped_references :: "sql_db \<Rightarrow> bool" where
  "shipped_references db \<longleftrightarrow> list_all (\<lambda>(t, tb).
     tb_foreign tb = (if t = ''policy_rules'' then [(''policy_id'', ''policies'', ''id'')] else []) \<and>
     set (BACKUP_FORBIDDEN_COLUMNS t) \<inter> set (column_names tb) = {}) db"

lemma db_ok_table: "db_ok db \<Longrightarrow> map_of db t = Some tb \<Longrightarrow> table_ok db tb"
  unfolding db_ok_def list_all_iff by (blast dest: map_of_SomeD)

lemma shipped_foreign:
  assumes "shipped_references db" and "map_of db t = Some tb"
  shows "tb_foreign tb = (if t = ''policy_rules'' then [(''policy_id'', ''policies'', ''id'')] else [])"
    and "set (BACKUP_FORBIDDEN_COLUMNS t) \<inter> set (column_names tb) = {}"
  using assms unfolding shipped_references_def list_all_iff by (force dest: map_of_SomeD)+

lemma shipped_references_bare: "shipped_references (schema_of db) = shipped_references db"
  by (simp add: shipped_references_def schema_of_def list_all_iff case_prod_unfold column_names_def)

section \<open>One row\<close>

lemma row_values:
  assumes "distinct (map fst r)"
  shows "map (\<lambda>c. (c, cell r c)) (map fst r) = r"
proof -
  have "map (\<lambda>p. (fst p, cell r (fst p))) r = map id r"
    by (rule map_cong[OF refl]) (use assms in \<open>auto simp: cell_def get_or_def\<close>)
  then show ?thesis by (simp add: comp_def)
qed

lemma cell_stored:
  assumes "list_all (\<lambda>(c, v). stored_value v) r"
  shows "stored_value (cell r c)"
proof (cases "map_of r c")
  case (Some v)
  then have "(c, v) \<in> set r" by (rule map_of_SomeD)
  then show ?thesis using assms Some by (auto simp: cell_def get_or_def list_all_iff)
qed (simp add: cell_def get_or_def)

lemma bind_stored: "stored_value v \<Longrightarrow> bind_value v = Inr v"
  by (cases v) auto

lemma bind_map:
  "(\<And>c. c \<in> set cols \<Longrightarrow> stored_value (f c)) \<Longrightarrow> bind_values (map (\<lambda>c. (c, f c)) cols) = Inr (map (\<lambda>c. (c, f c)) cols)"
  by (induction cols) (simp_all add: bind_stored and_then_def)

lemma map_of_pairs: "map_of (map (\<lambda>c. (c, f c)) cols) k = (if k \<in> set cols then Some (f k) else None)"
  by (induction cols) auto

lemma completed_row:
  assumes "row_fits tb r" and "distinct (column_names tb)" and "set cols = set (column_names tb)"
  shows "completed tb (map (\<lambda>c. (c, cell r c)) cols) = r"
proof -
  have given: "get_or (co_default c) (map (\<lambda>c. (c, cell r c)) cols) (co_name c) = cell r (co_name c)"
    if "c \<in> set (tb_columns tb)" for c
    using that assms(3) by (simp add: get_or_def map_of_pairs column_names_def)
  have rowid: "\<not> (k = co_name c \<and> cell r (co_name c) = JNull)" if "tb_rowid tb = Some (k, auto)" for k auto c
    using assms(1) that by (auto simp: row_fits_def rowid_ok_def)
  have "completed tb (map (\<lambda>c. (c, cell r c)) cols) = map (\<lambda>c. (co_name c, cell r (co_name c))) (tb_columns tb)"
    unfolding completed_def by (rule map_cong[OF refl]) (auto simp: given Let_def dest: rowid split: option.split)
  also have "\<dots> = map (\<lambda>c. (c, cell r c)) (column_names tb)"
    by (simp add: column_names_def)
  also have "\<dots> = r"
    using row_values[of r] assms(1,2) unfolding row_fits_def by metis
  finally show ?thesis .
qed

lemma keys_free:
  assumes "keys_distinct (tb_keys tb) (tb_rows tb @ r # rs)"
  shows "\<not> key_taken tb r"
  using assms by (fastforce simp: keys_distinct_def key_taken_def list_ex_iff list_all_iff)

lemma insert_row_back:
  assumes "map_of db t = Some tb" and "row_fits tb r" and "distinct (column_names tb)" and "cols \<noteq> []"
    and "set cols = set (column_names tb)" and "foreign_ok db tb r" and "keys_distinct (tb_keys tb) (tb_rows tb @ r # rs)"
  shows "sql_insert t (map (\<lambda>c. (c, cell r c)) cols) db = Inr (change_table t (append_row r) db)"
proof -
  have bound: "bind_values (map (\<lambda>c. (c, cell r c)) cols) = Inr (map (\<lambda>c. (c, cell r c)) cols)"
    using assms(2) by (intro bind_map cell_stored) (simp add: row_fits_def)
  have "accepts db tb r"
    using assms(2,6) keys_free[OF assms(7)] by (simp add: accepts_def row_fits_def)
  then show ?thesis
    using assms(1,4,5) by (simp add: sql_insert_def bound and_then_def completed_row[OF assms(2,3,5)] comp_def)
qed

section \<open>The rows of a table\<close>

definition saved_row :: "sql_row \<Rightarrow> json" where
  "saved_row r = canon (JObj r)"

lemma saved_row_cells:
  assumes "distinct (map fst r)" and "list_all (\<lambda>(c, v). stored_value v) r"
  obtains r' where "saved_row r = JObj r'" and "\<And>c. cell r' c = cell r c" and "set (map fst r') = set (map fst r)"
proof
  let ?r = "sort_key fst (map (\<lambda>(k, v). (k, canon v)) r)"
  show "saved_row r = JObj ?r" by (simp add: saved_row_def)
  show "set (map fst ?r) = set (map fst r)" by force
  have "canon v = v" if "stored_value v" for v using that by (cases v) auto
  moreover have "stored_value v" if "map_of r c = Some v" for c v
    using that assms(2) by (force simp: list_all_iff dest: map_of_SomeD)
  ultimately show "cell ?r c = cell r c" for c
    using map_of_canon[OF assms(1), of c] by (auto simp: cell_def get_or_def split: option.split)
qed

definition append_rows :: "sql_row list \<Rightarrow> sql_table \<Rightarrow> sql_table" where
  "append_rows rs tb = fold append_row rs tb"

lemma append_rows_simps [simp]:
  "append_rows [] tb = tb" "append_rows (r # rs) tb = append_rows rs (append_row r tb)"
  by (simp_all add: append_rows_def)

lemma append_rows_facts [simp]:
  "tb_rows (append_rows rs tb) = tb_rows tb @ rs" "bare (append_rows rs tb) = bare tb"
  by (induction rs arbitrary: tb) auto

lemma change_change [simp]: "change_table t g (change_table t f db) = change_table t (\<lambda>x. g (f x)) db"
  by (auto simp: change_table_def)

lemma change_id [simp]: "change_table t (\<lambda>x. x) db = db"
  by (auto simp: change_table_def intro: map_idI)

lemma foreign_change:
  assumes "list_all (\<lambda>(c, parent, p). parent \<noteq> t) (tb_foreign tb)"
  shows "foreign_ok (change_table t f db) tb r = foreign_ok db tb r"
proof -
  have "rows_of parent (change_table t f db) = rows_of parent db" if "(c, parent, p) \<in> set (tb_foreign tb)" for c parent p
    using assms that by (auto simp: list_all_iff rows_of_def split: option.split)
  then show ?thesis unfolding foreign_ok_def by (intro list_all_cong[OF refl]) auto
qed

lemma foreign_append [simp]: "foreign_ok db (append_row r tb) x = foreign_ok db tb x"
  by (simp add: foreign_ok_def)

lemma row_fits_append [simp]: "row_fits (append_row r tb) x = row_fits tb x"
  by (simp add: row_fits_def rowid_ok_def)

lemma restore_rows_back:
  assumes "map_of db t = Some tb" and "list_all (\<lambda>r. row_fits tb r \<and> foreign_ok db tb r) rs"
    and "distinct (column_names tb)" and "cols \<noteq> []" and "set cols = set (column_names tb)"
    and "keys_distinct (tb_keys tb) (tb_rows tb @ rs)"
    and "list_all (\<lambda>(c, parent, p). parent \<noteq> t) (tb_foreign tb)"
  shows "restore_rows t cols (map saved_row rs) db = Inr (change_table t (append_rows rs) db)"
  using assms
proof (induction rs arbitrary: db tb)
  case Nil
  then show ?case by (simp add: append_rows_def[abs_def])
next
  case (Cons r rs)
  have fits: "row_fits tb r" and foreign: "foreign_ok db tb r" using Cons.prems(2) by auto
  have "distinct (map fst r)" "list_all (\<lambda>(c, v). stored_value v) r"
    using fits Cons.prems(3) by (auto simp: row_fits_def)
  then obtain r' where r': "saved_row r = JObj r'" "\<And>c. cell r' c = cell r c" using saved_row_cells by blast
  let ?db = "change_table t (append_row r) db"
  have "restore_rows t cols (map saved_row (r # rs)) db = restore_rows t cols (map saved_row rs) ?db"
    using insert_row_back[OF Cons.prems(1) fits Cons.prems(3-5) foreign Cons.prems(6)]
    by (simp add: r' and_then_def)
  also have "\<dots> = Inr (change_table t (append_rows rs) ?db)"
    by (rule Cons.IH[of _ "append_row r tb"])
      (use Cons.prems in \<open>simp_all add: list_all_iff foreign_change\<close>)
  finally show ?case by simp
qed

section \<open>The tables of a backup\<close>

lemma restore_table_back:
  assumes "map_of db t = Some tb" and "table_ok db0 tb0" and "bare tb = bare tb0" and "tb_rows tb0 \<noteq> []"
    and "list_all (\<lambda>(c, parent, p). parent \<noteq> t) (tb_foreign tb)"
    and "list_all (foreign_ok (sql_delete t (\<lambda>r. True) db) tb) (tb_rows tb0)"
  shows "restore_table t (JList (map saved_row (tb_rows tb0))) db =
     Inr (change_table t (append_rows (tb_rows tb0)) (sql_delete t (\<lambda>r. True) db))"
proof -
  let ?tb = "tb\<lparr>tb_rows := []\<rparr>" and ?db = "sql_delete t (\<lambda>r. True) db"
  note same = bare_eq[OF assms(3)]
  from assms(4) obtain r rs where rows: "tb_rows tb0 = r # rs" by (cases "tb_rows tb0") auto
  have fits: "list_all (row_fits tb) (tb_rows tb0)"
    using assms(2) same by (auto simp: table_ok_def row_fits_def rowid_ok_def list_all_iff)
  have names: "distinct (column_names tb)" "column_names tb \<noteq> []"
    using assms(2) same by (auto simp: table_ok_def column_names_def)
  have "distinct (map fst r)" "list_all (\<lambda>(c, v). stored_value v) r"
    using fits names(1) by (auto simp: rows row_fits_def)
  then obtain r' where r': "saved_row r = JObj r'" "set (map fst r') = set (map fst r)"
    using saved_row_cells by blast
  have "map fst r = column_names tb" using fits by (simp add: rows row_fits_def)
  then have "set (map fst r') = set (column_names tb)" using r'(2) by metis
  then have cols: "set (map fst r') = set (column_names ?tb)" "map fst r' \<noteq> []"
    using names(2) by (simp_all add: column_names_def) force
  have "map_of ?db t = Some ?tb" using assms(1) by (simp add: map_of_delete)
  moreover have "list_all (\<lambda>x. row_fits ?tb x \<and> foreign_ok ?db ?tb x) (tb_rows tb0)"
    using fits assms(6) by (auto simp: list_all_iff row_fits_def rowid_ok_def column_names_def foreign_ok_def)
  ultimately have "restore_rows t (map fst r') (map saved_row (tb_rows tb0)) ?db =
      Inr (change_table t (append_rows (tb_rows tb0)) ?db)"
    by (rule restore_rows_back)
      (use names cols assms(2,5) same in \<open>simp_all add: column_names_def table_ok_def\<close>)
  then show ?thesis
    using assms(1) by (simp add: restore_table_def has_table_def rows r'(1) Let_def)
qed

lemma orphans_stay:
  assumes "list_all (\<lambda>(c, parent, p). parent \<noteq> t) (tb_foreign tb)"
  shows "\<not> orphaned t gone tb r"
  using assms by (auto simp: orphaned_def list_all_iff list_ex_iff)

lemma rows_of_restored:
  assumes "map_of db t = Some tb"
  shows "rows_of n (change_table t (append_rows rs) (sql_delete t (\<lambda>r. True) db)) =
     (if n = t then rs else case map_of db n of None \<Rightarrow> []
      | Some x \<Rightarrow> filter (\<lambda>r. \<not> orphaned t (tb_rows tb) x r) (tb_rows x))"
  using assms by (auto simp: rows_of_def map_of_delete option.map_comp split: option.split)

lemma restore_one:
  assumes "db_ok db0" and "shipped_references db0" and "schema_of db = schema_of db0" and "has_table t db0"
    and "t = ''policy_rules'' \<Longrightarrow> rows_of ''policies'' db = rows_of ''policies'' db0 \<or> rows_of ''policies'' db0 = []"
  shows "\<exists>db'. restore_table t (JList (map saved_row (rows_of t db0))) db = Inr db' \<and>
     schema_of db' = schema_of db0 \<and>
     rows_of t db' = (if rows_of t db0 = [] then rows_of t db else rows_of t db0) \<and>
     (\<forall>n. n \<noteq> t \<and> \<not> (n = ''policy_rules'' \<and> t = ''policies'') \<longrightarrow> rows_of n db' = rows_of n db)"
proof (cases "rows_of t db0 = []")
  case True
  then show ?thesis using assms(3) by (auto simp: restore_table_def)
next
  case False
  from assms(4) obtain tb0 where tb0: "map_of db0 t = Some tb0" by (auto simp: has_table_def)
  with same_schema[OF assms(3)[symmetric]] obtain tb where tb: "map_of db t = Some tb" "bare tb = bare tb0" by blast
  have ok: "table_ok db0 tb0" using assms(1) tb0 by (rule db_ok_table)
  have rows: "rows_of t db0 = tb_rows tb0" using tb0 by (simp add: rows_of_def)
  have foreign: "tb_foreign tb = (if t = ''policy_rules'' then [(''policy_id'', ''policies'', ''id'')] else [])"
    using shipped_foreign(1)[OF assms(2) tb0] bare_eq(4)[OF tb(2)] by simp
  let ?d = "sql_delete t (\<lambda>r. True) db"
  have "foreign_ok ?d tb r" if "r \<in> set (tb_rows tb0)" for r
  proof (cases "t = ''policy_rules''")
    case True
    have "foreign_ok db0 tb0 r" using ok that by (simp add: table_ok_def list_all_iff)
    moreover have "tb_foreign tb0 = tb_foreign tb" using bare_eq(4)[OF tb(2)] by simp
    moreover have "rows_of ''policies'' ?d = rows_of ''policies'' db"
    proof (cases "map_of db ''policies''")
      case (Some x)
      obtain x0 where "map_of db0 ''policies'' = Some x0" "bare x0 = bare x"
        using same_schema[OF assms(3) Some] by blast
      then have "tb_foreign x = []"
        using shipped_foreign(1)[OF assms(2), of "''policies''" x0] bare_eq(4)[of x0 x] by simp
      then show ?thesis using Some True by (simp add: rows_of_def map_of_delete orphaned_def)
    qed (simp add: rows_of_def map_of_delete)
    ultimately show ?thesis using assms(5)[OF True] True foreign by (auto simp: foreign_ok_def)
  next
    case False
    then show ?thesis using foreign by (simp add: foreign_ok_def)
  qed
  moreover have "list_all (\<lambda>(c, parent, p). parent \<noteq> t) (tb_foreign tb)" using foreign by simp
  ultimately have "restore_table t (JList (map saved_row (tb_rows tb0))) db =
      Inr (change_table t (append_rows (tb_rows tb0)) ?d)"
    using False rows by (intro restore_table_back[OF tb(1) ok tb(2)]) (simp_all add: list_all_iff)
  moreover have "rows_of n (change_table t (append_rows (tb_rows tb0)) ?d) = rows_of n db"
    if "n \<noteq> t" "\<not> (n = ''policy_rules'' \<and> t = ''policies'')" for n
  proof (cases "map_of db n")
    case (Some x)
    obtain x0 where "map_of db0 n = Some x0" "bare x0 = bare x" using same_schema[OF assms(3) Some] by blast
    then have "list_all (\<lambda>(c, parent, p). parent \<noteq> t) (tb_foreign x)"
      using shipped_foreign(1)[OF assms(2), of n x0] bare_eq(4)[of x0 x] that by auto
    then show ?thesis
      using that(1) Some by (simp add: rows_of_restored[OF tb(1)] orphans_stay) (simp add: rows_of_def)
  qed (use that in \<open>simp add: rows_of_restored[OF tb(1)] rows_of_def map_of_delete\<close>)
  ultimately show ?thesis
    using False rows assms(3) by (auto simp: rows_of_restored[OF tb(1)])
qed

lemma restore_tables_back:
  assumes "db_ok db0" and "shipped_references db0" and "schema_of db = schema_of db0"
    and "sorted ts" and "distinct ts" and "set ts \<subseteq> set BACKUP_ALLOWED_TABLES" and "list_all (\<lambda>t. has_table t db0) ts"
    and "''policies'' \<in> set ts \<or> rows_of ''policies'' db = rows_of ''policies'' db0 \<or> rows_of ''policies'' db0 = []"
  shows "\<exists>db'. restore_tables (map (\<lambda>t. (t, JList (map saved_row (rows_of t db0)))) ts) db = Inr db' \<and>
     schema_of db' = schema_of db0 \<and>
     (\<forall>n. n \<in> set ts \<and> rows_of n db0 \<noteq> [] \<longrightarrow> rows_of n db' = rows_of n db0) \<and>
     (\<forall>n. (n \<notin> set ts \<or> rows_of n db0 = []) \<and> (n = ''policy_rules'' \<longrightarrow> ''policies'' \<notin> set ts) \<longrightarrow>
        rows_of n db' = rows_of n db)"
  using assms(3-)
proof (induction ts arbitrary: db)
  case Nil
  then show ?case by simp
next
  case (Cons t ts)
  have order: "t = ''policy_rules'' \<Longrightarrow> ''policies'' \<notin> set ts"
  proof
    assume "t = ''policy_rules''" "''policies'' \<in> set ts"
    then have "''policy_rules'' \<le> ''policies''" using Cons.prems(2) by auto
    then show False by (simp add: list_le_def list_less_def lexordp_def less_char_def)
  qed
  have "t = ''policy_rules'' \<Longrightarrow> rows_of ''policies'' db = rows_of ''policies'' db0 \<or> rows_of ''policies'' db0 = []"
    using Cons.prems(6) order by auto
  from restore_one[OF assms(1,2) Cons.prems(1) _ this] Cons.prems(5) obtain db1 where
      one: "restore_table t (JList (map saved_row (rows_of t db0))) db = Inr db1" "schema_of db1 = schema_of db0"
      "rows_of t db1 = (if rows_of t db0 = [] then rows_of t db else rows_of t db0)"
      "\<forall>n. n \<noteq> t \<and> \<not> (n = ''policy_rules'' \<and> t = ''policies'') \<longrightarrow> rows_of n db1 = rows_of n db"
    by auto
  have "''policies'' \<in> set ts \<or> rows_of ''policies'' db1 = rows_of ''policies'' db0 \<or> rows_of ''policies'' db0 = []"
    using Cons.prems(6) one(3,4) by (cases "t = ''policies''") auto
  from Cons.IH[OF one(2) _ _ _ _ this] Cons.prems obtain db2 where
      rest: "restore_tables (map (\<lambda>t. (t, JList (map saved_row (rows_of t db0)))) ts) db1 = Inr db2"
      "schema_of db2 = schema_of db0"
      "\<forall>n. n \<in> set ts \<and> rows_of n db0 \<noteq> [] \<longrightarrow> rows_of n db2 = rows_of n db0"
      "\<forall>n. (n \<notin> set ts \<or> rows_of n db0 = []) \<and> (n = ''policy_rules'' \<longrightarrow> ''policies'' \<notin> set ts) \<longrightarrow>
         rows_of n db2 = rows_of n db1"
    by auto
  have run: "restore_tables (map (\<lambda>t. (t, JList (map saved_row (rows_of t db0)))) (t # ts)) db = Inr db2"
    using Cons.prems(4) one(1) rest(1) by (simp add: and_then_def)
  have "rows_of t db2 = rows_of t db1" using rest(4) order Cons.prems(3) by auto
  then have "rows_of n db2 = rows_of n db0" if "n \<in> set (t # ts)" "rows_of n db0 \<noteq> []" for n
    using that one(3) rest(3) by auto
  moreover have "rows_of n db2 = rows_of n db"
    if "n \<notin> set (t # ts) \<or> rows_of n db0 = []" "n = ''policy_rules'' \<longrightarrow> ''policies'' \<notin> set (t # ts)" for n
    using that one(3,4) rest(4) by (cases "n = t") auto
  ultimately show ?case using run rest(2) by blast
qed

end
