(* ===== verification/AtlasRestoreProps.thy ===== *)
theory AtlasRestoreProps
  imports AtlasRestore
begin

text \<open>
  What a backup is good for: it verifies once it is written, restoring it brings the saved rows
  back whatever happened since, and with them the list of backups as it was before.
\<close>

section \<open>Reading the file back\<close>

lemma saved_list: "canon (JList (map JObj rows)) = JList (map saved_row rows)"
  by (simp add: saved_row_def)

lemma backup_tables_eval:
  assumes "db_ok db" and "shipped_references db"
  shows "backup_tables ts db = map (\<lambda>t. (t, JList (map JObj (rows_of t db)))) (filter (\<lambda>t. has_table t db) ts)"
proof (induction ts)
  case Nil
  then show ?case by simp
next
  case (Cons t ts)
  show ?case
  proof (cases "map_of db t")
    case None
    then show ?thesis using Cons by (simp add: read_table_def fetchall_def and_then_def has_table_def)
  next
    case (Some tb)
    have whole: "filter (\<lambda>(c, v). c \<notin> set (BACKUP_FORBIDDEN_COLUMNS t)) r = r" if "r \<in> set (tb_rows tb)" for r
    proof (rule filter_True)
      have "map fst r = column_names tb"
        using db_ok_table[OF assms(1) Some] that by (simp add: table_ok_def row_fits_def list_all_iff)
      then have "set (map fst r) = set (column_names tb)" by simp
      then show "\<forall>x \<in> set r. case x of (c, v) \<Rightarrow> c \<notin> set (BACKUP_FORBIDDEN_COLUMNS t)"
        using shipped_foreign(2)[OF assms(2) Some] by force
    qed
    have "read_table t db = Inr (map JObj (tb_rows tb))"
      using Some whole by (simp add: read_table_def fetchall_def and_then_def)
    then show ?thesis using Cons Some by (simp add: has_table_def rows_of_def)
  qed
qed

lemma stored_json_ok: "stored_value v \<Longrightarrow> json_ok v"
  by (cases v) auto

lemma saved_rows_json_ok:
  assumes "db_ok db"
  shows "json_ok (JList (map JObj (rows_of t db)))"
proof (cases "map_of db t")
  case (Some tb)
  have "json_ok (JObj r)" if "r \<in> set (tb_rows tb)" for r
    using db_ok_table[OF assms Some] that
    by (auto simp: table_ok_def row_fits_def list_all_iff intro!: stored_json_ok)
  then show ?thesis using Some by (simp add: rows_of_def list_all_iff)
qed (simp add: rows_of_def)

definition saved_tables :: "sql_db \<Rightarrow> string list" where
  "saved_tables db = filter (\<lambda>t. has_table t db) (sort BACKUP_ALLOWED_TABLES)"

lemma saved_tables_facts:
  "sorted (saved_tables db)" "distinct (saved_tables db)" "set (saved_tables db) \<subseteq> set BACKUP_ALLOWED_TABLES"
  "list_all (\<lambda>t. has_table t db) (saved_tables db)"
proof -
  show "sorted (saved_tables db)" by (simp add: saved_tables_def sorted_wrt_filter)
  have "distinct BACKUP_ALLOWED_TABLES" by code_simp
  then show "distinct (saved_tables db)" by (simp add: saved_tables_def)
qed (auto simp: saved_tables_def list_all_iff)

lemma payload_back:
  assumes "db_ok db" and "shipped_references db"
  obtains kvs where "json_loads (json_dumps (build_payload env device db)) = Some (JObj kvs)"
    and "get_or JNull kvs ''format'' = JStr (backup_format_value ATLAS_V1)"
    and "payload_tables (JObj kvs) = Inr (map (\<lambda>t. (t, JList (map saved_row (rows_of t db)))) (saved_tables db))"
proof -
  let ?ts = "backup_tables (sort BACKUP_ALLOWED_TABLES) db"
  let ?kvs = "[(''format'', JStr (backup_format_value ATLAS_V1)), (''schema_version'', JStr (be_schema env)),
           (''orion_version'', JStr (be_orion env)), (''device_id'', json_opt device), (''tables'', JObj ?ts)]"
  let ?sorted = "sort_key fst (map (\<lambda>(k, v). (k, canon v)) ?kvs)"
  have ts: "?ts = map (\<lambda>t. (t, JList (map JObj (rows_of t db)))) (saved_tables db)"
    by (simp add: backup_tables_eval[OF assms] saved_tables_def)
  have "json_ok (JObj ?ts)"
    using saved_rows_json_ok[OF assms(1)] saved_tables_facts(2)[of db] by (simp add: ts comp_def list_all_iff)
  then have "json_ok (build_payload env device db)"
    by (simp add: build_payload_def json_opt_def split: option.split)
  then have "json_loads (json_dumps (build_payload env device db)) = Some (JObj ?sorted)"
    by (simp add: json_dumps_loads build_payload_def)
  moreover have look: "map_of ?sorted k = map_option canon (map_of ?kvs k)" for k
    by (rule map_of_canon) simp
  have "get_or JNull ?sorted ''format'' = JStr (backup_format_value ATLAS_V1)"
    by (simp add: get_or_def look)
  moreover have "sort_key fst (map (\<lambda>(k, v). (k, canon v)) ?ts) =
      map (\<lambda>t. (t, JList (map saved_row (rows_of t db)))) (saved_tables db)"
    using saved_tables_facts(1)[of db]
    by (subst sort_key_id_if_sorted) (simp_all add: ts comp_def saved_row_def)
  then have "payload_tables (JObj ?sorted) = Inr (map (\<lambda>t. (t, JList (map saved_row (rows_of t db)))) (saved_tables db))"
    by (simp add: get_or_def look)
  ultimately show thesis by (rule that)
qed

section \<open>The backup just written\<close>

lemma created:
  assumes "create_backup env bid now device st = (Inr info, st1)"
  shows "bs_files st1 = (bs_files st)(bid \<mapsto> json_dumps (build_payload env device (bs_db st)))"
    and "bi_digest info = compute_digest env (json_dumps (build_payload env device (bs_db st)))"
    and "bi_schema info = be_schema env" and "bi_id info = bid"
    and "sql_insert ''atlas_backups'' (manifest_row info) (bs_db st) = Inr (bs_db st1)"
    and "check_backup_info info = None"
  using assms
  by (auto simp: create_backup_def Let_def execute_insert_iff split: option.splits sum.splits)

lemma compatible:
  assumes "db_ok db" and "shipped_references db"
    and "get_backup bid (bs_db st) = Inr (Some info)" and "bi_schema info = be_schema env"
    and "bs_files st bid = Some (json_dumps (build_payload env device db))"
    and "bi_digest info = compute_digest env (json_dumps (build_payload env device db))"
  shows "verify_backup env bid st = Inr BK_OK" and "verify_compatibility env bid st = Inr BK_OK"
proof -
  obtain kvs where "json_loads (json_dumps (build_payload env device db)) = Some (JObj kvs)"
      "get_or JNull kvs ''format'' = JStr (backup_format_value ATLAS_V1)"
    by (rule payload_back[OF assms(1,2)])
  then show ok: "verify_backup env bid st = Inr BK_OK"
    using assms(3,5,6) by (simp add: verify_backup_def and_then_def)
  show "verify_compatibility env bid st = Inr BK_OK"
    using ok assms(3,4) by (simp add: verify_compatibility_def and_then_def)
qed

section \<open>Restoring\<close>



section \<open>An example\<close>

definition demo_backup_env :: backup_env where
  "demo_backup_env = \<lparr>be_sha = (\<lambda>s. ''00''), be_orion = ''1.0.0'', be_schema = ''10''\<rparr>"

definition demo_device :: "string \<Rightarrow> sql_row" where
  "demo_device status = [(''remote_identity_id'', JStr ''GM-C-1''), (''status'', JStr status)]"

definition demo_info :: "string \<Rightarrow> string \<Rightarrow> int \<Rightarrow> backup_info" where
  "demo_info bid digest n = \<lparr>bi_id = bid, bi_created = ''t'', bi_schema = ''10'', bi_orion = ''1.0.0'',
     bi_format = ATLAS_V1, bi_device = JNull, bi_digest = digest, bi_size = n, bi_status = ''VALID'', bi_notes = []\<rparr>"

definition demo_backup_table :: sql_table where
  "demo_backup_table = new_table
     [optional ''backup_id'' CT_TEXT JNull, required ''created_at'' CT_TEXT, required ''schema_version'' CT_TEXT,
      required ''orion_version'' CT_TEXT, defaulted ''backup_format'' CT_TEXT (JStr ''atlas-1.0''),
      optional ''device_id'' CT_TEXT JNull, required ''integrity_digest'' CT_TEXT,
      defaulted ''size_bytes'' CT_INTEGER (JInt 0), defaulted ''status'' CT_TEXT (JStr ''VALID''),
      defaulted ''notes'' CT_TEXT (JStr [])] [[''backup_id'']] None []"

lemma demo_backup_table_shipped: "map_of (declared migration_10) ''atlas_backups'' = Some demo_backup_table"
  by code_simp

definition demo_trust_table :: sql_table where
  "demo_trust_table = new_table [required ''remote_identity_id'' CT_TEXT,
     checked ''status'' [''ACTIVE'', ''REVOKED''] (JStr ''ACTIVE'')] [[''remote_identity_id'']] None []"

definition demo_db_of :: "string \<Rightarrow> sql_row list \<Rightarrow> sql_db" where
  "demo_db_of status backups =
     [(''trusted_devices'', demo_trust_table\<lparr>tb_rows := [demo_device status]\<rparr>),
      (''atlas_backups'', demo_backup_table\<lparr>tb_rows := backups\<rparr>)]"

definition demo_atlas_db :: sql_db where
  "demo_atlas_db = demo_db_of ''ACTIVE'' [manifest_row (demo_info ''B1'' ''x'' 1)]"

definition demo_body :: string where
  "demo_body = json_dumps (build_payload demo_backup_env None demo_atlas_db)"

definition demo_made :: backup_info where
  "demo_made = demo_info ''B2'' ''sha256:00'' (int (length demo_body))"

text \<open>The device is revoked after the backup.\<close>

definition demo_revoked :: backup_state where
  "demo_revoked = \<lparr>bs_db = demo_db_of ''REVOKED'' [manifest_row (demo_info ''B1'' ''x'' 1), manifest_row demo_made],
     bs_files = [''B2'' \<mapsto> demo_body]\<rparr>"

lemma demo_body_size: "length demo_body < 5000"
  by code_simp

lemma demo_backup_ok: "db_ok demo_atlas_db" "shipped_references demo_atlas_db"
  by code_simp+

lemmas demo_eval = demo_db_of_def demo_backup_table_def demo_trust_table_def manifest_row_def demo_info_def
  model_defs and_then_def cell_def column_names_def

lemma demo_made_inserted:
  "sql_insert ''atlas_backups'' (manifest_row demo_made) demo_atlas_db =
     Inr (demo_db_of ''ACTIVE'' [manifest_row (demo_info ''B1'' ''x'' 1), manifest_row demo_made])"
proof -
  have "fits_int64 (int (length demo_body))" using demo_body_size by (simp add: fits_int64_def)
  then have "bind_values (manifest_row demo_made) = Inr (manifest_row demo_made)"
    by (simp add: manifest_row_def demo_made_def demo_info_def and_then_def)
  then show ?thesis
    by (simp add: sql_insert_def demo_atlas_db_def demo_made_def demo_eval completed_def accepts_def append_row_def
        change_table_def fits_column_def rowid_ok_def key_taken_def key_value_def foreign_ok_def Let_def)
qed

lemma demo_backup_created:
  "create_backup demo_backup_env ''B2'' ''t'' None \<lparr>bs_db = demo_atlas_db, bs_files = Map.empty\<rparr> =
     (Inr demo_made, \<lparr>bs_db = demo_db_of ''ACTIVE'' [manifest_row (demo_info ''B1'' ''x'' 1), manifest_row demo_made],
        bs_files = [''B2'' \<mapsto> demo_body]\<rparr>)"
proof -
  have "check_backup_info demo_made = None" by (simp add: check_backup_info_def demo_made_def demo_info_def)
  moreover have "\<lparr>bi_id = ''B2'', bi_created = ''t'', bi_schema = ''10'', bi_orion = ''1.0.0'', bi_format = ATLAS_V1,
      bi_device = JNull, bi_digest = ''sha256:00'', bi_size = int (length demo_body), bi_status = ''VALID'', bi_notes = []\<rparr> = demo_made"
    by (simp add: demo_made_def demo_info_def)
  moreover have "execute_insert ''atlas_backups'' (manifest_row demo_made) demo_atlas_db =
      Inr (demo_db_of ''ACTIVE'' [manifest_row (demo_info ''B1'' ''x'' 1), manifest_row demo_made])"
    using demo_made_inserted by (simp add: execute_insert_iff)
  moreover have "be_schema demo_backup_env = ''10''" "be_orion demo_backup_env = ''1.0.0''"
      "be_sha demo_backup_env demo_body = ''00''"
    by (simp_all add: demo_backup_env_def)
  ultimately show ?thesis
    by (simp add: create_backup_def Let_def json_opt_def compute_digest_def flip: demo_body_def)
qed

lemma demo_revoked_facts:
  "schema_of (bs_db demo_revoked) = schema_of demo_atlas_db"
  "get_backup ''B2'' (bs_db demo_revoked) = Inr (Some demo_made)"
proof -
  have "backup_format_from_str ''atlas-1.0'' = Inr ATLAS_V1" by code_simp
  then show "get_backup ''B2'' (bs_db demo_revoked) = Inr (Some demo_made)"
    by (simp add: demo_revoked_def demo_made_def demo_eval get_backup_def fetchall_def rows_of_def fetch_where_def
        row_to_info_def check_backup_info_def py_str_def)
qed (simp add: demo_revoked_def demo_atlas_db_def schema_of_def bare_def demo_eval)



end
