(* ===== verification/AtlasUpkeep.thy ===== *)
theory AtlasUpkeep
  imports AtlasModels Sql
begin

text \<open>
  \<^verbatim>\<open>guardianmesh/atlas/recovery.py\<close> and \<^verbatim>\<open>retention.py\<close>: marking what has elapsed as
  expired, and deleting what is older than its table is kept for.

  The identifier and the time of a new record are the pair \<open>rid\<close>, and \<open>now\<close> is an argument.
  \<open>cutoff days\<close> is the text of \<open>now\<close> less that many days, or the
  \<^verbatim>\<open>OverflowError\<close> of the subtraction.
\<close>

section \<open>Reading a time\<close>

text \<open>\<^verbatim>\<open>fromisoformat\<close> of a value; what is not a text raises like a text it cannot parse.\<close>

fun value_time :: "(string \<Rightarrow> stamp) \<Rightarrow> json \<Rightarrow> stamp" where
  "value_time rd (JStr s) = rd s"
| "value_time rd v = Blank"

text \<open>\<^verbatim>\<open>exp < now\<close>; \<open>None\<close> when the time cannot be read.  Comparing a naive time raises.\<close>

definition elapsed :: "(string \<Rightarrow> stamp) \<Rightarrow> int \<Rightarrow> json \<Rightarrow> gm_error + bool option" where
  "elapsed rd now v =
     (case value_time rd v of
        Aware t \<Rightarrow> Inr (Some (t < now))
      | Naive t \<Rightarrow> Inl (Builtin PyTypeError)
      | _ \<Rightarrow> Inr None)"

text \<open>\<^verbatim>\<open>column = ?\<close>, which is never true of NULL.\<close>

definition sql_eq :: "json \<Rightarrow> json \<Rightarrow> bool" where
  [model_defs]: "sql_eq a b \<longleftrightarrow> a \<noteq> JNull \<and> a = b"

section \<open>Recovery\<close>

definition recovery_row :: "recovery_record \<Rightarrow> sql_row" where
  "recovery_row r =
     [(''recovery_id'', JStr (rv_id r)), (''device_id'', json_opt (rv_device r)),
      (''started_at'', JStr (rv_started r)), (''completed_at'', json_opt (rv_completed r)),
      (''operation'', JStr (rv_operation r)), (''status'', JStr (rv_status r)),
      (''actions_taken'', JInt (rv_actions r)), (''notes'', JStr (rv_notes r))]"

definition record_recovery ::
  "string \<times> string \<Rightarrow> string \<Rightarrow> nat \<Rightarrow> string \<Rightarrow> sql_db \<Rightarrow> (sql_db, recovery_record) outcome" where
  "record_recovery rid operation n notes db =
     (let rec = \<lparr>rv_id = fst rid, rv_operation = operation, rv_started = snd rid, rv_completed = None,
                 rv_device = None, rv_status = ''SUCCEEDED'', rv_actions = int n, rv_notes = notes\<rparr>
      in case check_recovery rec of
           Some e \<Rightarrow> raises e db
         | None \<Rightarrow>
            (case execute_insert ''atlas_recovery'' (recovery_row rec) db of
               Inl e \<Rightarrow> raises e db
             | Inr db1 \<Rightarrow> returns rec db1))"

text \<open>Each action is read again before it is decided on; one that cannot be read is passed over.\<close>

fun expire_actions :: "calendar \<Rightarrow> int \<Rightarrow> sql_row list \<Rightarrow> sql_db \<Rightarrow> nat \<Rightarrow> (sql_db, nat) outcome" where
  "expire_actions cal now [] db n = returns n db"
| "expire_actions cal now (r # rs) db n =
     (case fetchall ''orion_actions'' [''action_id'', ''expires_at''] db of
        Inl e \<Rightarrow> expire_actions cal now rs db n
      | Inr rows \<Rightarrow>
         (case fetch_where (\<lambda>x. sql_eq (cell x ''action_id'') (cell r ''action_id'')) rows of
            None \<Rightarrow> expire_actions cal now rs db n
          | Some row \<Rightarrow>
             (case elapsed (read_iso cal) now (cell row ''expires_at'') of
                Inl e \<Rightarrow> raises e db
              | Inr past \<Rightarrow>
                  if past \<noteq> Some True then expire_actions cal now rs db n
                  else case execute_update ''orion_actions'' [''action_id'']
                         (\<lambda>x. sql_eq (cell x ''action_id'') (cell r ''action_id''))
                         [(''status'', JStr ''EXPIRED''), (''updated_at'', JStr (write_iso cal now))] db of
                    Inl e \<Rightarrow> raises e db
                  | Inr db1 \<Rightarrow> expire_actions cal now rs db1 (Suc n))))"

definition recover_orion_actions ::
  "calendar \<Rightarrow> int \<Rightarrow> string \<times> string \<Rightarrow> sql_db \<Rightarrow> (sql_db, recovery_record) outcome" where
  "recover_orion_actions cal now rid db =
     (case fetchall ''orion_actions'' [''action_id'', ''status''] db of
        Inl e \<Rightarrow> raises (Atlas AtlasRecoveryError) db
      | Inr rows \<Rightarrow>
         (case expire_actions cal now (filter (\<lambda>r. cell r ''status'' \<in> {JStr ''PENDING'', JStr ''RUNNING''}) rows) db 0 of
            (Inl e, db1) \<Rightarrow> (Inl e, db1)
          | (Inr n, db1) \<Rightarrow> record_recovery rid ''recover_orion_actions'' n
              (''Expired '' @ int_str (int n) @ '' PENDING/RUNNING actions.'') db1))"

text \<open>The two loops over rows read once: \<open>key\<close> names the row in table \<open>t\<close>, \<open>column\<close> becomes EXPIRED.\<close>

fun expire_listed ::
  "calendar \<Rightarrow> int \<Rightarrow> string \<Rightarrow> string \<Rightarrow> string \<Rightarrow> sql_row list \<Rightarrow> sql_db \<Rightarrow> nat \<Rightarrow> (sql_db, nat) outcome" where
  "expire_listed cal now t key column [] db n = returns n db"
| "expire_listed cal now t key column (r # rs) db n =
     (case elapsed (read_iso cal) now (cell r ''expires_at'') of
        Inl e \<Rightarrow> raises e db
      | Inr past \<Rightarrow>
          if past \<noteq> Some True then expire_listed cal now t key column rs db n
          else case execute_update t [key] (\<lambda>x. sql_eq (cell x key) (cell r key)) [(column, JStr ''EXPIRED'')] db of
            Inl e \<Rightarrow> raises e db
          | Inr db1 \<Rightarrow> expire_listed cal now t key column rs db1 (Suc n))"

definition recover_screen_authorizations ::
  "calendar \<Rightarrow> int \<Rightarrow> string \<times> string \<Rightarrow> sql_db \<Rightarrow> (sql_db, recovery_record) outcome" where
  "recover_screen_authorizations cal now rid db =
     (case fetchall ''screen_authorizations'' [''authorization_id'', ''expires_at'', ''decision''] db of
        Inl e \<Rightarrow> raises (Atlas AtlasRecoveryError) db
      | Inr rows \<Rightarrow>
         (case expire_listed cal now ''screen_authorizations'' ''authorization_id'' ''decision''
                 (filter (\<lambda>r. cell r ''decision'' = JStr ''APPROVED'') rows) db 0 of
            (Inl e, db1) \<Rightarrow> (Inl e, db1)
          | (Inr n, db1) \<Rightarrow> record_recovery rid ''recover_screen_authorizations'' n
              (''Expired '' @ int_str (int n) @ '' screen authorizations.'') db1))"

definition recover_aegis_sessions ::
  "calendar \<Rightarrow> int \<Rightarrow> string \<times> string \<Rightarrow> sql_db \<Rightarrow> (sql_db, recovery_record) outcome" where
  "recover_aegis_sessions cal now rid db =
     (case fetchall ''aegis_sessions'' [''aegis_session_id'', ''expires_at'', ''state''] db of
        Inl e \<Rightarrow> raises (Atlas AtlasRecoveryError) db
      | Inr rows \<Rightarrow>
         (case expire_listed cal now ''aegis_sessions'' ''aegis_session_id'' ''state''
                 (filter (\<lambda>r. cell r ''state'' \<in> {JStr ''INITIALIZED'', JStr ''CONSENT_GRANTED'', JStr ''CAPTURING''}) rows)
                 db 0 of
            (Inl e, db1) \<Rightarrow> (Inl e, db1)
          | (Inr n, db1) \<Rightarrow> record_recovery rid ''recover_aegis_sessions'' n
              (''Expired '' @ int_str (int n) @ '' Aegis sessions.'') db1))"

text \<open>Each of the three reads the clock on its own.\<close>

type_synonym recovery_times = "(int \<times> string \<times> string) \<times> (int \<times> string \<times> string) \<times> int \<times> string \<times> string"

definition recover_all :: "calendar \<Rightarrow> recovery_times \<Rightarrow> sql_db \<Rightarrow> (sql_db, recovery_record list) outcome" where
  "recover_all cal = (\<lambda>((now1, rid1), (now2, rid2), now3, rid3) db.
     (case recover_orion_actions cal now1 rid1 db of
        (Inl e, db1) \<Rightarrow> (Inl e, db1)
      | (Inr a, db1) \<Rightarrow>
     (case recover_screen_authorizations cal now2 rid2 db1 of
        (Inl e, db2) \<Rightarrow> (Inl e, db2)
      | (Inr b, db2) \<Rightarrow>
     (case recover_aegis_sessions cal now3 rid3 db2 of
        (Inl e, db3) \<Rightarrow> (Inl e, db3)
      | (Inr c, db3) \<Rightarrow> returns [a, b, c] db3))))"

section \<open>Retention\<close>

definition DEFAULT_RETENTION_DAYS :: "(string \<times> int) list" where
  "DEFAULT_RETENTION_DAYS = [(''audit_events'', 365), (''telemetry_events'', 180), (''transport_messages'', 30),
     (''orion_events'', 90), (''orion_actions'', 90), (''orion_reconciliation'', 365), (''atlas_health'', 90),
     (''atlas_recovery'', 365), (''atlas_capability_versions'', 365)]"

definition row_to_policy :: "sql_row \<Rightarrow> gm_error + retention_policy" where
  "row_to_policy r =
     and_then (int_of_json (cell r ''retention_days'')) (\<lambda>days.
     and_then (int_of_json (get_or (JInt 1) r ''enabled'')) (\<lambda>on.
       let p = \<lparr>rp_id = py_str (cell r ''retention_id''), rp_table = py_str (cell r ''target_table''), rp_days = days,
                rp_enabled = (on \<noteq> 0), rp_updated = py_str (get_or (JStr []) r ''updated_at''),
                rp_notes = py_str (get_or (JStr []) r ''notes'')\<rparr>
       in case check_retention p of Some e \<Rightarrow> Inl e | None \<Rightarrow> Inr p))"

fun rows_to_policies :: "sql_row list \<Rightarrow> gm_error + retention_policy list" where
  "rows_to_policies [] = Inr []"
| "rows_to_policies (r # rs) =
     and_then (row_to_policy r) (\<lambda>p. and_then (rows_to_policies rs) (\<lambda>ps. Inr (p # ps)))"

definition list_retention_policies :: "sql_db \<Rightarrow> gm_error + retention_policy list" where
  "list_retention_policies db =
     and_then (fetchall ''atlas_retention'' [''target_table''] db) (\<lambda>rows.
       rows_to_policies (sort_key (\<lambda>r. py_str (cell r ''target_table'')) rows))"

definition retention_row :: "retention_policy \<Rightarrow> sql_row" where
  "retention_row p =
     [(''retention_id'', JStr (rp_id p)), (''target_table'', JStr (rp_table p)),
      (''retention_days'', JInt (rp_days p)), (''enabled'', JInt 1), (''updated_at'', JStr (rp_updated p)),
      (''notes'', JStr (rp_notes p))]"

fun create_defaults ::
  "string \<Rightarrow> (string \<Rightarrow> string) \<Rightarrow> string list \<Rightarrow> (string \<times> int) list \<Rightarrow> sql_db \<Rightarrow> (sql_db, retention_policy list) outcome" where
  "create_defaults now_text draw existing [] db = returns [] db"
| "create_defaults now_text draw existing ((t, days) # ds) db =
     (if t \<in> set existing then create_defaults now_text draw existing ds db
      else let p = \<lparr>rp_id = draw t, rp_table = t, rp_days = days, rp_enabled = True, rp_updated = now_text,
                    rp_notes = ''Default Atlas retention policy''\<rparr>
        in case check_retention p of
             Some e \<Rightarrow> raises e db
           | None \<Rightarrow>
              (case execute_insert ''atlas_retention'' (retention_row p) db of
                 Inl e \<Rightarrow> raises e db
               | Inr db1 \<Rightarrow>
                  (case create_defaults now_text draw existing ds db1 of
                     (Inl e, db2) \<Rightarrow> (Inl e, db2)
                   | (Inr ps, db2) \<Rightarrow> returns (p # ps) db2)))"

definition ensure_defaults ::
  "string \<Rightarrow> (string \<Rightarrow> string) \<Rightarrow> sql_db \<Rightarrow> (sql_db, retention_policy list) outcome" where
  "ensure_defaults now_text draw db =
     (case list_retention_policies db of
        Inl e \<Rightarrow> raises e db
      | Inr ps \<Rightarrow> create_defaults now_text draw (map rp_table ps) (sort_key fst DEFAULT_RETENTION_DAYS) db)"

text \<open>The first of the columns under which some row is older; a column the table has not got is passed over.\<close>

definition retention_columns :: "string list" where
  "retention_columns = [''created_at'', ''timestamp'', ''started_at'', ''captured_at'']"

fun choose_column :: "string list \<Rightarrow> string \<Rightarrow> string \<Rightarrow> sql_db \<Rightarrow> string option \<times> nat" where
  "choose_column [] t limit_text db = (None, 0)"
| "choose_column (c # cs) t limit_text db =
     (case fetchall t [c] db of
        Inl e \<Rightarrow> choose_column cs t limit_text db
      | Inr rows \<Rightarrow>
          let n = length (filter (\<lambda>r. sql_less (cell r c) limit_text) rows) in
          if 0 < n then (Some c, n) else choose_column cs t limit_text db)"

record table_plan =
  tp_days :: int
  tp_column :: "string option"
  tp_rows :: nat
  tp_applied :: bool

definition apply_policy :: "bool \<Rightarrow> string \<Rightarrow> retention_policy \<Rightarrow> sql_db \<Rightarrow> table_plan \<times> sql_db" where
  "apply_policy dry limit_text p db =
     (let (column, n) = choose_column retention_columns (rp_table p) limit_text db;
          plan = \<lparr>tp_days = rp_days p, tp_column = column, tp_rows = n, tp_applied = False\<rparr>
      in case column of
           Some c \<Rightarrow> if dry then (plan, db)
             else (plan\<lparr>tp_applied := True\<rparr>, sql_delete (rp_table p) (\<lambda>r. sql_less (cell r c) limit_text) db)
         | None \<Rightarrow> (plan, db))"

fun apply_policies ::
  "bool \<Rightarrow> (int \<Rightarrow> gm_error + string) \<Rightarrow> retention_policy list \<Rightarrow> (string \<times> table_plan) list \<Rightarrow> sql_db \<Rightarrow>
   (sql_db, (string \<times> table_plan) list) outcome" where
  "apply_policies dry cutoff [] plans db = returns plans db"
| "apply_policies dry cutoff (p # ps) plans db =
     (if \<not> rp_enabled p then apply_policies dry cutoff ps plans db
      else case cutoff (rp_days p) of
        Inl e \<Rightarrow> raises e db
      | Inr limit_text \<Rightarrow>
          let (plan, db1) = apply_policy dry limit_text p db
          in apply_policies dry cutoff ps (assoc_put (rp_table p) plan plans) db1)"

definition apply_retention ::
  "bool \<Rightarrow> (int \<Rightarrow> gm_error + string) \<Rightarrow> sql_db \<Rightarrow> (sql_db, (string \<times> table_plan) list) outcome" where
  "apply_retention dry cutoff db =
     (case list_retention_policies db of
        Inl e \<Rightarrow> raises e db
      | Inr ps \<Rightarrow> apply_policies dry cutoff ps [] db)"

end
