(* ===== verification/AtlasChecks.thy ===== *)
theory AtlasChecks
  imports AtlasUpkeep Migrations
begin

text \<open>
  The checks of Atlas: \<^verbatim>\<open>lifecycle.py\<close>, \<^verbatim>\<open>integrity.py\<close>, \<^verbatim>\<open>compatibility.py\<close>,
  \<^verbatim>\<open>release.py\<close>, \<^verbatim>\<open>health.py\<close>, \<^verbatim>\<open>observability.py\<close>, \<^verbatim>\<open>metrics.py\<close> and
  \<^verbatim>\<open>diagnostics.py\<close> of \<^verbatim>\<open>guardianmesh/atlas\<close>.

  A check is its name, its subsystem and whether it holds; the wording of its reason is left out.
  What \<^verbatim>\<open>PRAGMA integrity_check\<close> answers, the version of the package and the permissions the
  Android manifest declares (\<open>None\<close>: there is no manifest) are arguments, and so is \<open>now\<close>,
  the same for all checks of a run.
\<close>

section \<open>Lifecycle\<close>

text \<open>A table whose query fails fails the check.\<close>

definition on_rows ::
  "string \<Rightarrow> string \<Rightarrow> string \<Rightarrow> string list \<Rightarrow> sql_db \<Rightarrow> (sql_row list \<Rightarrow> gm_error + bool) \<Rightarrow> gm_error + diagnostic_check" where
  "on_rows name sub t cols db good =
     (case fetchall t cols db of
        Inl e \<Rightarrow> Inr (diagnostic name sub False)
      | Inr rows \<Rightarrow> and_then (good rows) (\<lambda>ok. Inr (diagnostic name sub ok)))"

definition readable_value :: "(string \<Rightarrow> stamp) \<Rightarrow> json \<Rightarrow> bool" where
  "readable_value rd v \<longleftrightarrow> (case value_time rd v of Aware t \<Rightarrow> True | Naive t \<Rightarrow> True | _ \<Rightarrow> False)"

definition check_no_expired_active_identity :: "calendar \<Rightarrow> sql_db \<Rightarrow> gm_error + diagnostic_check" where
  "check_no_expired_active_identity cal db =
     on_rows ''no_expired_active_identity'' ''LINK'' ''identities'' [''id'', ''label'', ''created_at'', ''is_active''] db
       (\<lambda>rows. Inr (list_all (\<lambda>r. readable_value (read_iso cal) (cell r ''created_at''))
          (filter (\<lambda>r. cell r ''is_active'' = JInt 1) rows)))"

text \<open>The loop over the devices puts nothing on its list.\<close>

definition check_no_revoked_device_in_active :: "sql_db \<Rightarrow> gm_error + diagnostic_check" where
  "check_no_revoked_device_in_active db =
     on_rows ''no_revoked_device_in_active'' ''LINK'' ''trusted_devices'' [''remote_identity_id'', ''status''] db
       (\<lambda>rows. Inr True)"

text \<open>Whether no row has a time that cannot be read or one that has elapsed in the state that may not; a naive time raises.\<close>

fun none_stale ::
  "calendar \<Rightarrow> int \<Rightarrow> string \<Rightarrow> string \<Rightarrow> sql_row list \<Rightarrow> gm_error + bool" where
  "none_stale cal now column state [] = Inr True"
| "none_stale cal now column state (r # rs) =
     and_then (elapsed (read_iso cal) now (cell r ''expires_at'')) (\<lambda>past.
     and_then (none_stale cal now column state rs) (\<lambda>rest.
       Inr (rest \<and> past \<noteq> None \<and> \<not> (past = Some True \<and> cell r column = JStr state))))"

definition check_no_expired_transport_sessions :: "calendar \<Rightarrow> int \<Rightarrow> sql_db \<Rightarrow> gm_error + diagnostic_check" where
  "check_no_expired_transport_sessions cal now db =
     on_rows ''no_expired_transport_sessions'' ''NEXUS'' ''transport_sessions'' [''session_id'', ''expires_at'', ''state''] db
       (none_stale cal now ''state'' ''CONNECTED'')"

definition check_no_orphaned_screen_authorizations ::
  "calendar \<Rightarrow> int \<Rightarrow> sql_db \<Rightarrow> gm_error + diagnostic_check" where
  "check_no_orphaned_screen_authorizations cal now db =
     on_rows ''no_orphaned_screen_authorizations'' ''VISTA'' ''screen_authorizations''
       [''authorization_id'', ''session_id'', ''decision'', ''approved_at'', ''denied_at'', ''expires_at''] db
       (none_stale cal now ''decision'' ''APPROVED'')"

definition check_no_expired_orion_actions :: "calendar \<Rightarrow> int \<Rightarrow> sql_db \<Rightarrow> gm_error + diagnostic_check" where
  "check_no_expired_orion_actions cal now db =
     on_rows ''no_expired_orion_actions'' ''ORION'' ''orion_actions'' [''action_id'', ''status'', ''expires_at''] db
       (none_stale cal now ''status'' ''PENDING'')"

text \<open>\<^verbatim>\<open>MAX\<close> of each column over the rows of a device, of numbers, is negative when all that is not NULL is.\<close>

definition all_negative :: "string \<Rightarrow> sql_row list \<Rightarrow> bool" where
  "all_negative c rows \<longleftrightarrow>
     (let vs = filter (\<lambda>v. v \<noteq> JNull) (map (\<lambda>r. cell r c) rows)
      in vs \<noteq> [] \<and> list_all (\<lambda>v. case v of JInt i \<Rightarrow> i < 0 | _ \<Rightarrow> False) vs)"

definition check_no_stale_sequences :: "sql_db \<Rightarrow> gm_error + diagnostic_check" where
  "check_no_stale_sequences db =
     on_rows ''no_stale_sequences'' ''NEXUS'' ''transport_sequences''
       [''device_id'', ''last_inbound_sequence'', ''last_outbound_sequence''] db
       (\<lambda>rows. Inr (list_all (\<lambda>r. let own = filter (\<lambda>x. cell x ''device_id'' = cell r ''device_id'') rows in
          \<not> all_negative ''last_inbound_sequence'' own \<and> \<not> all_negative ''last_outbound_sequence'' own) rows))"

fun run_checks :: "(gm_error + diagnostic_check) list \<Rightarrow> gm_error + diagnostic_check list" where
  "run_checks [] = Inr []"
| "run_checks (c # cs) = and_then c (\<lambda>x. and_then (run_checks cs) (\<lambda>xs. Inr (x # xs)))"

definition lifecycle_run_all :: "calendar \<Rightarrow> int \<Rightarrow> sql_db \<Rightarrow> gm_error + diagnostic_check list" where
  "lifecycle_run_all cal now db = run_checks
     [check_no_expired_active_identity cal db, check_no_revoked_device_in_active db,
      check_no_expired_transport_sessions cal now db, check_no_orphaned_screen_authorizations cal now db,
      check_no_expired_orion_actions cal now db, check_no_stale_sequences db]"

section \<open>Integrity\<close>

definition REQUIRED_TABLES :: "string list" where
  "REQUIRED_TABLES = [''identities'', ''audit_events'', ''pairing_sessions'', ''trusted_devices'', ''device_health'',
     ''telemetry_events'', ''policies'', ''alerts'', ''transport_sessions'', ''transport_peers'',
     ''screen_sessions'', ''screen_authorizations'', ''aegis_sessions'', ''orion_events'', ''orion_actions'',
     ''orion_capabilities'', ''orion_reconciliation'', ''atlas_backups'', ''atlas_health'', ''atlas_recovery'',
     ''atlas_capability_versions'', ''atlas_retention'']"

definition FORBIDDEN_TABLE_COLUMNS :: "string \<Rightarrow> string list" where
  "FORBIDDEN_TABLE_COLUMNS t =
     (if t \<in> {''orion_events'', ''orion_actions''} then [''frame'', ''screenshot'', ''keylog'', ''command'', ''shell'']
      else if t \<in> {''orion_capabilities'', ''orion_reconciliation''}
      then [''frame'', ''screenshot'', ''keylog'', ''command'']
      else if t = ''atlas_backups'' then [''private_key'', ''password'', ''secret'', ''frame'', ''keylog'']
      else if t \<in> {''atlas_health'', ''atlas_recovery'', ''atlas_capability_versions'', ''atlas_retention''}
      then [''private_key'', ''password'', ''secret''] else [])"

definition check_required_tables :: "sql_db \<Rightarrow> diagnostic_check" where
  "check_required_tables db =
     diagnostic ''required_tables'' ''GENESIS'' (list_all (\<lambda>t. t \<in> set (map fst db)) REQUIRED_TABLES)"

text \<open>Reading the version creates the log of migrations when there is none.\<close>

definition version_at_least :: "string \<Rightarrow> string \<Rightarrow> sql_db \<Rightarrow> diagnostic_check \<times> sql_db" where
  "version_at_least name sub db =
     (case get_current_version db of
        (Inl e, db1) \<Rightarrow> (diagnostic name sub False, db1)
      | (Inr v, db1) \<Rightarrow> (diagnostic name sub (\<not> v < 10), db1))"

definition check_migration_state :: "sql_db \<Rightarrow> diagnostic_check \<times> sql_db" where
  "check_migration_state db = version_at_least ''migration_state'' ''GENESIS'' db"

definition check_foreign_keys :: "sql_db \<Rightarrow> diagnostic_check" where
  "check_foreign_keys db =
     diagnostic ''foreign_keys'' ''GENESIS'' (list_all (\<lambda>(t, tb). list_all (foreign_ok db tb) (tb_rows tb)) db)"

definition check_forbidden_columns :: "sql_db \<Rightarrow> diagnostic_check" where
  "check_forbidden_columns db =
     diagnostic ''forbidden_columns'' ''ATLAS''
       (list_all (\<lambda>(t, tb). list_all (\<lambda>c. c \<notin> set (column_names tb)) (FORBIDDEN_TABLE_COLUMNS t)) db)"

definition check_countable :: "string \<Rightarrow> string \<Rightarrow> sql_db \<Rightarrow> diagnostic_check" where
  "check_countable name t db = diagnostic name ''GENESIS'' (has_table t db)"

definition redaction_forbidden :: "string list" where
  "redaction_forbidden = [''private_key'', ''password'', ''secret'', ''frame'', ''screenshot'', ''keylog'', ''command'',
     ''shell'', ''private_key_pem'', ''session_key'', ''otp'']"

text \<open>The keys of the first five hundred details, at the top level only.\<close>

definition leaks :: "json \<Rightarrow> bool" where
  "leaks details =
     (case (case details of JStr s \<Rightarrow> json_loads s | v \<Rightarrow> Some v) of
        Some (JObj kvs) \<Rightarrow> list_ex (\<lambda>(k, v). py_lower k \<in> set redaction_forbidden) kvs
      | _ \<Rightarrow> False)"

definition check_audit_redaction :: "sql_db \<Rightarrow> diagnostic_check" where
  "check_audit_redaction db =
     (case fetchall ''audit_events'' [''details''] db of
        Inl e \<Rightarrow> diagnostic ''audit_redaction'' ''ATLAS'' False
      | Inr rows \<Rightarrow> diagnostic ''audit_redaction'' ''ATLAS''
          (list_all (\<lambda>r. \<not> leaks (cell r ''details'')) (take 500 rows)))"

definition integrity_run_all :: "bool \<Rightarrow> sql_db \<Rightarrow> diagnostic_check list \<times> sql_db" where
  "integrity_run_all sound db =
     (let (migration, db1) = check_migration_state db in
      ([diagnostic ''sqlite_integrity'' ''GENESIS'' sound, check_required_tables db, migration,
        check_foreign_keys db1, check_forbidden_columns db1, check_countable ''audit_presence'' ''audit_events'' db1,
        check_audit_redaction db1, check_countable ''identity_presence'' ''identities'' db1], db1))"

section \<open>Compatibility\<close>

definition check_schema_version :: "sql_db \<Rightarrow> bool \<times> sql_db" where
  "check_schema_version db =
     (case get_current_version db of (Inl e, db1) \<Rightarrow> (False, db1) | (Inr v, db1) \<Rightarrow> (\<not> v > 10, db1))"

definition check_migration_chain :: "sql_db \<Rightarrow> bool" where
  "check_migration_chain db =
     (case fetchall ''schema_migrations'' [''version'', ''name'', ''applied_at''] db of
        Inl e \<Rightarrow> False
      | Inr rows \<Rightarrow> set (map (\<lambda>r. cell r ''version'') rows) = set (map (JInt \<circ> mg_version) MIGRATIONS))"

definition check_expected_tables :: "sql_db \<Rightarrow> bool" where
  "check_expected_tables db \<longleftrightarrow>
     list_all (\<lambda>t. t \<in> set (map fst db)) [''schema_migrations'', ''identities'', ''config_entries'', ''audit_events'']"

definition compatibility_run_all :: "sql_db \<Rightarrow> (string \<times> bool) list \<times> sql_db" where
  "compatibility_run_all db =
     (let (version, db1) = check_schema_version db in
      ([(''schema_version'', version), (''migration_chain'', check_migration_chain db1),
        (''expected_tables'', check_expected_tables db1)], db1))"

section \<open>Release\<close>

definition AEGIS_FORBIDDEN_PERMISSIONS :: "string list" where
  "AEGIS_FORBIDDEN_PERMISSIONS = map (\<lambda>p. ''android.permission.'' @ p)
     [''RECORD_AUDIO'', ''CAMERA'', ''ACCESS_FINE_LOCATION'', ''ACCESS_COARSE_LOCATION'',
      ''ACCESS_BACKGROUND_LOCATION'', ''READ_CONTACTS'', ''WRITE_CONTACTS'', ''READ_SMS'',
      ''SEND_SMS'', ''RECEIVE_SMS'', ''READ_CALL_LOG'', ''WRITE_CALL_LOG'', ''READ_EXTERNAL_STORAGE'',
      ''WRITE_EXTERNAL_STORAGE'', ''MANAGE_EXTERNAL_STORAGE'', ''BIND_ACCESSIBILITY_SERVICE'',
      ''SYSTEM_ALERT_WINDOW'', ''QUERY_ALL_PACKAGES'', ''INTERNET'', ''ACCESS_NETWORK_STATE'',
      ''USB_PERMISSION'', ''BLUETOOTH'', ''BLUETOOTH_ADMIN'', ''BLUETOOTH_CONNECT'',
      ''BLUETOOTH_SCAN'']"

definition check_version_consistency :: "string \<Rightarrow> sql_db \<Rightarrow> diagnostic_check" where
  "check_version_consistency runtime db =
     diagnostic ''release_version'' ''ATLAS''
       (case fetchall ''config_entries'' [''key'', ''value''] db of
          Inl e \<Rightarrow> False
        | Inr rows \<Rightarrow>
           (case fetch_where (\<lambda>r. cell r ''key'' = JStr ''version'') rows of
              None \<Rightarrow> True
            | Some r \<Rightarrow> py_str (cell r ''value'') = runtime))"

definition check_release_migration :: "sql_db \<Rightarrow> diagnostic_check \<times> sql_db" where
  "check_release_migration db = version_at_least ''release_migration'' ''ATLAS'' db"

text \<open>The names are looked up before they are tested, so none is ever missing.\<close>

definition check_audit_event_classes :: diagnostic_check where
  "check_audit_event_classes = diagnostic ''release_audit_classes'' ''ATLAS'' True"

definition check_aegis_manifest_permissions :: "string list option \<Rightarrow> diagnostic_check" where
  "check_aegis_manifest_permissions manifest =
     diagnostic ''release_aegis_manifest'' ''AEGIS''
       (case manifest of None \<Rightarrow> True
        | Some ps \<Rightarrow> list_all (\<lambda>p. p \<notin> set AEGIS_FORBIDDEN_PERMISSIONS) ps)"

definition basic_checks :: "string \<Rightarrow> sql_db \<Rightarrow> diagnostic_check list \<times> sql_db" where
  "basic_checks runtime db =
     (let (migration, db1) = check_release_migration db
      in ([check_version_consistency runtime db, migration, check_audit_event_classes], db1))"

definition deep_checks :: "string \<Rightarrow> string list option \<Rightarrow> sql_db \<Rightarrow> diagnostic_check list \<times> sql_db" where
  "deep_checks runtime manifest db =
     (let (basic, db1) = basic_checks runtime db in (basic @ [check_aegis_manifest_permissions manifest], db1))"

section \<open>Diagnostics\<close>

definition run_diagnostics ::
  "calendar \<Rightarrow> int \<Rightarrow> bool \<Rightarrow> string \<Rightarrow> sql_db \<Rightarrow> (sql_db, diagnostic_check list) outcome" where
  "run_diagnostics cal now sound runtime db =
     (let (integrity, db1) = integrity_run_all sound db in
      case lifecycle_run_all cal now db1 of
        Inl e \<Rightarrow> raises e db1
      | Inr life \<Rightarrow>
          let (basic, db2) = basic_checks runtime db1 in returns (integrity @ life @ basic) db2)"

definition run_full_diagnostics ::
  "calendar \<Rightarrow> int \<Rightarrow> bool \<Rightarrow> string \<Rightarrow> string list option \<Rightarrow> sql_db \<Rightarrow> (sql_db, diagnostic_check list) outcome" where
  "run_full_diagnostics cal now sound runtime manifest db =
     (case run_diagnostics cal now sound runtime db of
        (Inl e, db1) \<Rightarrow> (Inl e, db1)
      | (Inr checks, db1) \<Rightarrow>
          let (deep, db2) = deep_checks runtime manifest db1 in returns (checks @ deep) db2)"

section \<open>Health\<close>

fun SUBSYSTEM_TABLES :: "subsystem \<Rightarrow> string list" where
  "SUBSYSTEM_TABLES SUB_GENESIS = [''identities'', ''config_entries'', ''audit_events'']"
| "SUBSYSTEM_TABLES SUB_LINK = [''pairing_sessions'', ''trusted_devices'']"
| "SUBSYSTEM_TABLES SUB_PULSE = [''device_health'', ''telemetry_events'']"
| "SUBSYSTEM_TABLES SUB_SENTINEL = [''policies'', ''alerts'']"
| "SUBSYSTEM_TABLES SUB_CONSOLE = [''config_entries'']"
| "SUBSYSTEM_TABLES SUB_NEXUS = [''transport_sessions'', ''transport_peers'', ''transport_messages'']"
| "SUBSYSTEM_TABLES SUB_VISTA = [''screen_sessions'', ''screen_authorizations'']"
| "SUBSYSTEM_TABLES SUB_AEGIS = [''aegis_sessions'']"
| "SUBSYSTEM_TABLES SUB_ORION =
     [''orion_events'', ''orion_actions'', ''orion_capabilities'', ''orion_reconciliation'']"
| "SUBSYSTEM_TABLES SUB_ATLAS =
     [''atlas_backups'', ''atlas_health'', ''atlas_recovery'', ''atlas_capability_versions'', ''atlas_retention'']"

record health_entry =
  he_status :: atlas_health_status
  he_summary :: string
  he_remediation :: string

definition check_subsystem :: "subsystem \<Rightarrow> sql_db \<Rightarrow> health_entry" where
  "check_subsystem sub db =
     (case filter (\<lambda>t. t \<notin> set (map fst db)) (SUBSYSTEM_TABLES sub) of
        [] \<Rightarrow> \<lparr>he_status = AH_OK,
               he_summary = ''OK ('' @ int_str (int (length (SUBSYSTEM_TABLES sub))) @ '' tables present)'',
               he_remediation = []\<rparr>
      | missing \<Rightarrow> \<lparr>he_status = AH_FAILED, he_summary = ''Missing tables: '' @ py_repr (JList (map JStr missing)),
               he_remediation = ''Run migrations to create the '' @ subsystem_value sub @ '' tables.''\<rparr>)"

definition check_all_subsystems :: "sql_db \<Rightarrow> (string \<times> health_entry) list" where
  "check_all_subsystems db = map (\<lambda>sub. (subsystem_value sub, check_subsystem sub db)) all_subsystems"

text \<open>One row per subsystem; a row that is refused is passed over.\<close>

fun write_health ::
  "string \<Rightarrow> (string \<Rightarrow> string) \<Rightarrow> (string \<times> health_entry) list \<Rightarrow> sql_db \<Rightarrow> nat \<times> sql_db" where
  "write_health now_text draw [] db = (0, db)"
| "write_health now_text draw ((sub, h) # hs) db =
     (case execute_insert ''atlas_health''
         [(''health_id'', JStr (draw sub)), (''subsystem'', JStr sub),
          (''status'', JStr (atlas_health_value (he_status h))), (''timestamp'', JStr now_text),
          (''summary'', JStr (he_summary h)), (''remediation'', JStr (he_remediation h)),
          (''schema_version'', JStr ''1.0'')] db of
        Inl e \<Rightarrow> write_health now_text draw hs db
      | Inr db1 \<Rightarrow> (let (n, db2) = write_health now_text draw hs db1 in (Suc n, db2)))"

definition record_health ::
  "string \<Rightarrow> (string \<Rightarrow> string) \<Rightarrow> sql_db \<Rightarrow> ((string \<times> health_entry) list \<times> nat) \<times> sql_db" where
  "record_health now_text draw db =
     (let snapshot = check_all_subsystems db; (n, db1) = write_health now_text draw snapshot db
      in ((snapshot, n), db1))"

definition latest_health :: "int \<Rightarrow> sql_db \<Rightarrow> sql_row list" where
  "latest_health n db =
     (case fetchall ''atlas_health'' [''timestamp''] db of
        Inl e \<Rightarrow> []
      | Inr rows \<Rightarrow> sql_limit n (sort_desc (\<lambda>r. py_str (cell r ''timestamp'')) rows))"

section \<open>Observability\<close>

definition safe_count :: "sql_db \<Rightarrow> string \<Rightarrow> json" where
  "safe_count db t = JInt (int (length (rows_of t db)))"

text \<open>The groups come in the order in which they first occur.\<close>

definition safe_grouped_count :: "sql_db \<Rightarrow> string \<Rightarrow> string \<Rightarrow> json" where
  "safe_grouped_count db t c =
     (case fetchall t [c] db of
        Inl e \<Rightarrow> JObj []
      | Inr rows \<Rightarrow> JObj (py_dict (map (\<lambda>k. (py_str k, JInt (int (length (filter (\<lambda>r. cell r c = k) rows)))))
          (remdups (map (\<lambda>r. cell r c) rows)))))"

definition collect_metrics :: "string \<Rightarrow> sql_db \<Rightarrow> json" where
  "collect_metrics now_text db = JObj
     [(''generated_at'', JStr now_text),
      (''genesis'', JObj [(''identity_count'', safe_count db ''identities''),
        (''audit_event_count'', safe_count db ''audit_events'')]),
      (''link'', JObj [(''trusted_device_count'', safe_count db ''trusted_devices''),
        (''trusted_device_by_status'', safe_grouped_count db ''trusted_devices'' ''status'')]),
      (''pulse'', JObj [(''device_health_count'', safe_count db ''device_health'')]),
      (''sentinel'', JObj [(''policy_count'', safe_count db ''policies''), (''alert_count'', safe_count db ''alerts''),
        (''alert_by_status'', safe_grouped_count db ''alerts'' ''status'')]),
      (''nexus'', JObj [(''transport_session_count'', safe_count db ''transport_sessions''),
        (''transport_session_by_state'', safe_grouped_count db ''transport_sessions'' ''state''),
        (''transport_peer_count'', safe_count db ''transport_peers'')]),
      (''vista'', JObj [(''screen_session_count'', safe_count db ''screen_sessions''),
        (''screen_authorization_count'', safe_count db ''screen_authorizations'')]),
      (''aegis'', JObj [(''aegis_session_count'', safe_count db ''aegis_sessions''),
        (''aegis_session_by_state'', safe_grouped_count db ''aegis_sessions'' ''state'')]),
      (''orion'', JObj [(''event_count'', safe_count db ''orion_events''), (''action_count'', safe_count db ''orion_actions''),
        (''action_by_status'', safe_grouped_count db ''orion_actions'' ''status''),
        (''capability_count'', safe_count db ''orion_capabilities''),
        (''reconciliation_count'', safe_count db ''orion_reconciliation'')]),
      (''atlas'', JObj [(''backup_count'', safe_count db ''atlas_backups''), (''health_count'', safe_count db ''atlas_health''),
        (''recovery_count'', safe_count db ''atlas_recovery''),
        (''capability_version_count'', safe_count db ''atlas_capability_versions'')])]"

text \<open>The summary of \<^verbatim>\<open>AtlasMetrics.collect\<close>: the subsystems that failed, the degraded ones, how many there are.\<close>

definition metrics_summary :: "sql_db \<Rightarrow> string list \<times> string list \<times> nat" where
  "metrics_summary db =
     (let health = check_all_subsystems db in
      (map fst (filter (\<lambda>(n, h). he_status h = AH_FAILED) health),
       map fst (filter (\<lambda>(n, h). he_status h = AH_DEGRADED \<or> he_status h = AH_WARNING) health), length health))"

end
