(* ===== verification/AtlasUpkeepProps.thy ===== *)
theory AtlasUpkeepProps
  imports AtlasChecks AtlasRestore
begin

text \<open>
  What recovery and retention do to a database: exactly the elapsed records become EXPIRED, after
  which the lifecycle checks pass, and exactly the rows a dry run announces are deleted.
\<close>

section \<open>Marking rows\<close>

definition past :: "calendar \<Rightarrow> int \<Rightarrow> sql_row \<Rightarrow> bool" where
  "past cal now r \<longleftrightarrow> elapsed (read_iso cal) now (cell r ''expires_at'') = Inr (Some True)"

definition mark :: "string \<Rightarrow> json list \<Rightarrow> sql_row \<Rightarrow> sql_row list \<Rightarrow> sql_row list" where
  "mark key ids new rows = map (\<lambda>r. if cell r key \<in> set ids then set_cells new r else r) rows"

lemma mark_Nil [simp]: "mark key [] new rows = rows"
  by (simp add: mark_def)

lemma cell_set_cells: "cell (set_cells new r) c = (case map_of r c of None \<Rightarrow> JNull | Some v \<Rightarrow> get_or v new c)"
proof -
  have "map_of (set_cells new r) c = map_option (\<lambda>v. get_or v new c) (map_of r c)"
    unfolding set_cells_def by (rule map_of_map_pairs)
  then show ?thesis by (simp add: cell_def get_or_def split: option.split)
qed

lemma cell_unset: "c \<notin> fst ` set new \<Longrightarrow> cell (set_cells new r) c = cell r c"
proof -
  assume "c \<notin> fst ` set new"
  then have "get_or v new c = v" for v by (simp add: get_or_def map_of_eq_None_iff[THEN iffD2])
  then show ?thesis by (simp only: cell_set_cells) (simp add: cell_def get_or_def)
qed

lemma set_cells_twice: "set_cells new (set_cells new r) = set_cells new r"
  by (auto simp: set_cells_def get_or_def split: option.split)

lemma mark_mark:
  assumes "key \<notin> fst ` set new"
  shows "mark key ids new (mark key ks new rows) = mark key (ks @ ids) new rows"
  using assms by (auto simp: mark_def cell_unset set_cells_twice)

lemma update_one:
  "k \<noteq> JNull \<Longrightarrow> update_where (\<lambda>x. sql_eq (cell x key) k) (set_cells new) rows = mark key [k] new rows"
  by (auto simp: update_where_def mark_def sql_eq_def)

lemma updated:
  assumes "execute_update t [key] (\<lambda>x. sql_eq (cell x key) k) new db = Inr db1" and "k \<noteq> JNull"
    and "bind_values new = Inr new"
  shows "db1 = change_table t (\<lambda>x. x\<lparr>tb_rows := mark key [k] new (tb_rows x)\<rparr>) db"
  using assms(1,3)
  by (auto simp: execute_update_def storage_error_def sql_update_def and_then_def update_one[OF assms(2)]
      split: option.splits sum.splits if_splits)

lemma expire_listed_result:
  assumes "expire_listed cal now t key column rs db n = (Inr m, db')" and "key \<noteq> column"
    and "list_all (\<lambda>r. cell r key \<noteq> JNull) rs"
  shows "db' = change_table t (\<lambda>x. x\<lparr>tb_rows := mark key (map (\<lambda>r. cell r key) (filter (past cal now) rs))
       [(column, JStr ''EXPIRED'')] (tb_rows x)\<rparr>) db \<and> m = n + length (filter (past cal now) rs)"
  using assms(1,3)
proof (induction rs arbitrary: db n)
  case Nil
  then show ?case by simp
next
  case (Cons r rs)
  show ?case
  proof (cases "past cal now r")
    case True
    with Cons.prems(1) obtain db1 where one: "execute_update t [key] (\<lambda>x. sql_eq (cell x key) (cell r key))
        [(column, JStr ''EXPIRED'')] db = Inr db1" "expire_listed cal now t key column rs db1 (Suc n) = (Inr m, db')"
      by (auto simp: past_def split: sum.splits)
    have "db1 = change_table t (\<lambda>x. x\<lparr>tb_rows := mark key [cell r key] [(column, JStr ''EXPIRED'')] (tb_rows x)\<rparr>) db"
      by (rule updated[OF one(1)]) (use Cons.prems(2) in \<open>simp_all add: and_then_def\<close>)
    then show ?thesis
      using Cons.IH[OF one(2)] Cons.prems(2) True assms(2) by (simp add: mark_mark)
  next
    case False
    then show ?thesis using Cons.IH[of db n] Cons.prems by (auto simp: past_def split: sum.splits if_splits)
  qed
qed

section \<open>The actions, read again\<close>

definition same_times :: "string \<Rightarrow> sql_row list \<Rightarrow> sql_row list \<Rightarrow> bool" where
  "same_times key rows rows' \<longleftrightarrow>
     map (\<lambda>r. (cell r key, cell r ''expires_at'')) rows' = map (\<lambda>r. (cell r key, cell r ''expires_at'')) rows"

lemma same_times_mark:
  assumes "same_times key rows rows'" and "{key, ''expires_at''} \<inter> fst ` set new = {}"
  shows "same_times key rows (mark key ids new rows')"
proof -
  have "map (\<lambda>r. (cell r key, cell r ''expires_at'')) (mark key ids new rows') =
      map (\<lambda>r. (cell r key, cell r ''expires_at'')) rows'"
    unfolding mark_def map_map by (rule map_cong[OF refl]) (use assms(2) in \<open>simp add: cell_unset\<close>)
  then show ?thesis using assms(1) by (simp add: same_times_def)
qed

lemma fetch_again:
  assumes "same_times key rows rows'" and "r \<in> set rows" and "distinct (map (\<lambda>r. cell r key) rows)"
    and "cell r key \<noteq> JNull"
  obtains row where "fetch_where (\<lambda>x. sql_eq (cell x key) (cell r key)) rows' = Some row"
    and "cell row ''expires_at'' = cell r ''expires_at''"
proof -
  have pairs: "map (\<lambda>r. (cell r key, cell r ''expires_at'')) rows' = map (\<lambda>r. (cell r key, cell r ''expires_at'')) rows"
    using assms(1) by (simp add: same_times_def)
  have "(cell r key, cell r ''expires_at'') \<in> set (map (\<lambda>r. (cell r key, cell r ''expires_at'')) rows')"
    unfolding pairs using assms(2) by auto
  then obtain r' where "r' \<in> set rows'" "cell r' key = cell r key" by auto
  then obtain row where row: "fetch_where (\<lambda>x. sql_eq (cell x key) (cell r key)) rows' = Some row"
    using assms(4) by (cases "fetch_where (\<lambda>x. sql_eq (cell x key) (cell r key)) rows'")
      (auto simp: fetch_where_None sql_eq_def)
  then have "row \<in> set rows'" "cell row key = cell r key" by (auto dest: fetch_where_Some simp: sql_eq_def)
  then have "(cell r key, cell row ''expires_at'') \<in> set (map (\<lambda>r. (cell r key, cell r ''expires_at'')) rows')"
    by (auto intro!: image_eqI[of _ _ row])
  then obtain r2 where "r2 \<in> set rows" "cell r2 key = cell r key" "cell r2 ''expires_at'' = cell row ''expires_at''"
    unfolding pairs by auto
  then have "cell row ''expires_at'' = cell r ''expires_at''"
    using assms(2,3) by (metis distinct_map inj_onD)
  with row show thesis by (rule that)
qed

definition recoverable :: "string \<Rightarrow> string \<Rightarrow> sql_db \<Rightarrow> bool" where
  "recoverable t key db \<longleftrightarrow> (case map_of db t of None \<Rightarrow> False
     | Some tb \<Rightarrow> {key, ''expires_at''} \<subseteq> set (column_names tb) \<and>
         JNull \<notin> set (map (\<lambda>r. cell r key) (tb_rows tb)) \<and> distinct (map (\<lambda>r. cell r key) (tb_rows tb)))"

abbreviation expired_action :: "calendar \<Rightarrow> int \<Rightarrow> sql_row" where
  "expired_action cal now \<equiv> [(''status'', JStr ''EXPIRED''), (''updated_at'', JStr (write_iso cal now))]"

lemma expire_actions_result:
  assumes "expire_actions cal now rs db n = (Inr m, db')" and "set rs \<subseteq> set rows"
    and "map_of db ''orion_actions'' = Some tb" and "{''action_id'', ''expires_at''} \<subseteq> set (column_names tb)"
    and "same_times ''action_id'' rows (tb_rows tb)"
    and "distinct (map (\<lambda>r. cell r ''action_id'') rows)" and "JNull \<notin> set (map (\<lambda>r. cell r ''action_id'') rows)"
  shows "db' = change_table ''orion_actions'' (\<lambda>x. x\<lparr>tb_rows := mark ''action_id''
       (map (\<lambda>r. cell r ''action_id'') (filter (past cal now) rs)) (expired_action cal now) (tb_rows x)\<rparr>) db \<and>
     m = n + length (filter (past cal now) rs)"
  using assms(1-5)
proof (induction rs arbitrary: db n tb)
  case Nil
  then show ?case by simp
next
  case (Cons r rs)
  have r: "r \<in> set rows" "cell r ''action_id'' \<noteq> JNull" using Cons.prems(2) assms(7) by force+
  obtain row where row: "fetch_where (\<lambda>x. sql_eq (cell x ''action_id'') (cell r ''action_id'')) (tb_rows tb) = Some row"
      "cell row ''expires_at'' = cell r ''expires_at''"
    by (rule fetch_again[OF Cons.prems(5) r(1) assms(6) r(2)])
  have rows: "fetchall ''orion_actions'' [''action_id'', ''expires_at''] db = Inr (tb_rows tb)"
    using Cons.prems(3,4) by (simp add: fetchall_def)
  show ?case
  proof (cases "past cal now r")
    case True
    with Cons.prems(1) row rows obtain db1 where one:
        "execute_update ''orion_actions'' [''action_id''] (\<lambda>x. sql_eq (cell x ''action_id'') (cell r ''action_id''))
           (expired_action cal now) db = Inr db1" "expire_actions cal now rs db1 (Suc n) = (Inr m, db')"
      by (auto simp: past_def split: sum.splits)
    have db1: "db1 = change_table ''orion_actions'' (\<lambda>x. x\<lparr>tb_rows :=
        mark ''action_id'' [cell r ''action_id''] (expired_action cal now) (tb_rows x)\<rparr>) db"
      by (rule updated[OF one(1) r(2)]) (simp add: and_then_def)
    let ?tb = "tb\<lparr>tb_rows := mark ''action_id'' [cell r ''action_id''] (expired_action cal now) (tb_rows tb)\<rparr>"
    have "same_times ''action_id'' rows (tb_rows ?tb)"
      using same_times_mark[OF Cons.prems(5), of "expired_action cal now"] by simp
    then show ?thesis
      using Cons.IH[OF one(2), of ?tb] Cons.prems(2-4) True by (simp add: db1 column_names_def mark_mark)
  next
    case False
    then have "expire_actions cal now rs db n = (Inr m, db')"
      using Cons.prems(1) row rows by (auto simp: past_def split: sum.splits if_splits)
    then show ?thesis using Cons.IH[of db n tb] Cons.prems(2-5) False by simp
  qed
qed

lemma mark_selected:
  assumes "distinct (map (\<lambda>r. cell r key) rows)"
  shows "mark key (map (\<lambda>r. cell r key) (filter (\<lambda>r. sel r \<and> p r) rows)) new rows =
    map (\<lambda>r. if sel r \<and> p r then set_cells new r else r) rows"
  unfolding mark_def
proof (rule map_cong[OF refl])
  fix r assume "r \<in> set rows"
  then have "cell r key \<in> set (map (\<lambda>r. cell r key) (filter (\<lambda>r. sel r \<and> p r) rows)) \<longleftrightarrow> sel r \<and> p r"
    using assms by (auto simp: distinct_map inj_on_def)
  then show "(if cell r key \<in> set (map (\<lambda>r. cell r key) (filter (\<lambda>r. sel r \<and> p r) rows)) then set_cells new r else r) =
    (if sel r \<and> p r then set_cells new r else r)" by simp
qed

section \<open>Recovery\<close>

lemma recorded_recovery:
  assumes "record_recovery rid operation n notes db = (Inr rec, db')"
  shows "rv_actions rec = int n \<and> schema_of db' = schema_of db \<and>
    (\<forall>t. t \<noteq> ''atlas_recovery'' \<longrightarrow> map_of db' t = map_of db t)"
proof -
  from assms have one: "execute_insert ''atlas_recovery'' (recovery_row rec) db = Inr db'" and n: "rv_actions rec = int n"
    by (auto simp: record_recovery_def Let_def split: option.splits sum.splits)
  then obtain r where "\<forall>t. t \<noteq> ''atlas_recovery'' \<longrightarrow> map_of db' t = map_of db t"
    unfolding execute_insert_iff by (blast elim: sql_insert_rows)
  with n sql_insert_schema[OF one[unfolded execute_insert_iff]] show ?thesis by simp
qed

definition overdue :: "calendar \<Rightarrow> int \<Rightarrow> string \<Rightarrow> string list \<Rightarrow> sql_row \<Rightarrow> bool" where
  "overdue cal now column states r \<longleftrightarrow> cell r column \<in> set (map JStr states) \<and> past cal now r"

text \<open>What one recovery did: the overdue rows of its table are expired, the log has a line, the rest is the same.\<close>

definition recovered ::
  "string \<Rightarrow> (sql_row \<Rightarrow> bool) \<Rightarrow> sql_row \<Rightarrow> sql_db \<Rightarrow> sql_db \<Rightarrow> recovery_record \<Rightarrow> bool" where
  "recovered t p new db db' rec \<longleftrightarrow>
     rows_of t db' = map (\<lambda>r. if p r then set_cells new r else r) (rows_of t db) \<and>
     rv_actions rec = int (length (filter p (rows_of t db))) \<and> schema_of db' = schema_of db \<and>
     (\<forall>n. n \<noteq> t \<and> n \<noteq> ''atlas_recovery'' \<longrightarrow> map_of db' n = map_of db n)"

lemma listed_recovered:
  assumes "expire_listed cal now t key column (filter sel (rows_of t db)) db 0 = (Inr n, db1)"
    and "record_recovery rid operation n notes db1 = (Inr rec, db')"
    and "recoverable t key db" and "key \<noteq> column" and "t \<noteq> ''atlas_recovery''"
  shows "recovered t (\<lambda>r. sel r \<and> past cal now r) [(column, JStr ''EXPIRED'')] db db' rec"
proof -
  from assms(3) obtain tb where tb: "map_of db t = Some tb" "JNull \<notin> set (map (\<lambda>r. cell r key) (tb_rows tb))"
      "distinct (map (\<lambda>r. cell r key) (tb_rows tb))"
    by (auto simp: recoverable_def split: option.splits)
  then have rows: "rows_of t db = tb_rows tb" by (simp add: rows_of_def)
  have "list_all (\<lambda>r. cell r key \<noteq> JNull) (filter sel (rows_of t db))"
    using tb(2) rows by (force simp: list_all_iff)
  from expire_listed_result[OF assms(1,4) this] recorded_recovery[OF assms(2)] show ?thesis
    using assms(5) mark_selected[OF tb(3)] tb(1)
    by (auto simp: recovered_def rows_of_def option.map_ident)
qed

lemma recover_screen_result:
  assumes "recover_screen_authorizations cal now rid db = (Inr rec, db')"
    and "recoverable ''screen_authorizations'' ''authorization_id'' db"
  shows "recovered ''screen_authorizations'' (overdue cal now ''decision'' [''APPROVED'']) [(''decision'', JStr ''EXPIRED'')] db db' rec"
proof -
  from assms obtain n db1 where "expire_listed cal now ''screen_authorizations'' ''authorization_id'' ''decision''
        (filter (\<lambda>r. cell r ''decision'' = JStr ''APPROVED'') (rows_of ''screen_authorizations'' db)) db 0 = (Inr n, db1)"
      "record_recovery rid ''recover_screen_authorizations'' n
        (''Expired '' @ int_str (int n) @ '' screen authorizations.'') db1 = (Inr rec, db')"
    by (auto simp: recover_screen_authorizations_def fetchall_def rows_of_def split: option.splits if_splits prod.splits sum.splits)
  from listed_recovered[OF this assms(2)] show ?thesis by (simp add: overdue_def[abs_def])
qed

lemma recover_aegis_result:
  assumes "recover_aegis_sessions cal now rid db = (Inr rec, db')"
    and "recoverable ''aegis_sessions'' ''aegis_session_id'' db"
  shows "recovered ''aegis_sessions'' (overdue cal now ''state'' [''INITIALIZED'', ''CONSENT_GRANTED'', ''CAPTURING''])
    [(''state'', JStr ''EXPIRED'')] db db' rec"
proof -
  from assms obtain n db1 where "expire_listed cal now ''aegis_sessions'' ''aegis_session_id'' ''state''
        (filter (\<lambda>r. cell r ''state'' \<in> {JStr ''INITIALIZED'', JStr ''CONSENT_GRANTED'', JStr ''CAPTURING''})
          (rows_of ''aegis_sessions'' db)) db 0 = (Inr n, db1)"
      "record_recovery rid ''recover_aegis_sessions'' n
        (''Expired '' @ int_str (int n) @ '' Aegis sessions.'') db1 = (Inr rec, db')"
    by (auto simp: recover_aegis_sessions_def fetchall_def rows_of_def split: option.splits if_splits prod.splits sum.splits)
  from listed_recovered[OF this assms(2)] show ?thesis by (simp add: overdue_def[abs_def])
qed

lemma recover_orion_result:
  assumes "recover_orion_actions cal now rid db = (Inr rec, db')"
    and "recoverable ''orion_actions'' ''action_id'' db"
  shows "recovered ''orion_actions'' (overdue cal now ''status'' [''PENDING'', ''RUNNING'']) (expired_action cal now) db db' rec"
proof -
  from assms(2) obtain tb where tb: "map_of db ''orion_actions'' = Some tb"
      "{''action_id'', ''expires_at''} \<subseteq> set (column_names tb)"
      "JNull \<notin> set (map (\<lambda>r. cell r ''action_id'') (tb_rows tb))" "distinct (map (\<lambda>r. cell r ''action_id'') (tb_rows tb))"
    by (auto simp: recoverable_def split: option.splits)
  let ?sel = "\<lambda>r. cell r ''status'' \<in> {JStr ''PENDING'', JStr ''RUNNING''}"
  from assms(1) tb obtain n db1 where run: "expire_actions cal now (filter ?sel (tb_rows tb)) db 0 = (Inr n, db1)"
      "record_recovery rid ''recover_orion_actions'' n
        (''Expired '' @ int_str (int n) @ '' PENDING/RUNNING actions.'') db1 = (Inr rec, db')"
    by (auto simp: recover_orion_actions_def fetchall_def split: if_splits prod.splits sum.splits)
  have "set (filter ?sel (tb_rows tb)) \<subseteq> set (tb_rows tb)" by auto
  moreover have "same_times ''action_id'' (tb_rows tb) (tb_rows tb)" by (simp add: same_times_def)
  ultimately show ?thesis
    using expire_actions_result[OF run(1) _ tb(1,2) _ tb(4,3)] recorded_recovery[OF run(2)] mark_selected[OF tb(4)] tb(1)
    by (auto simp: recovered_def rows_of_def overdue_def[abs_def] option.map_ident)
qed

lemma recovered_facts:
  assumes "recovered t p new db db' rec"
  shows "rows_of t db' = map (\<lambda>r. if p r then set_cells new r else r) (rows_of t db)"
    and "rv_actions rec = int (length (filter p (rows_of t db)))"
    and "n \<noteq> t \<Longrightarrow> n \<noteq> ''atlas_recovery'' \<Longrightarrow> map_of db' n = map_of db n"
    and "n \<noteq> t \<Longrightarrow> n \<noteq> ''atlas_recovery'' \<Longrightarrow> rows_of n db' = rows_of n db"
    and "schema_of db' = schema_of db"
  using assms by (simp_all add: recovered_def rows_of_def)

lemma recoverable_same: "map_of db' t = map_of db t \<Longrightarrow> recoverable t key db' = recoverable t key db"
  by (simp add: recoverable_def)


end
