(* ===== verification/AtlasClaims.thy ===== *)
theory AtlasClaims
  imports AtlasUpkeepProps
begin

text \<open>
  After a recovery the lifecycle checks pass; a retention run deletes what its dry run announced.
\<close>

section \<open>Recovery and the checks\<close>

definition timed :: "calendar \<Rightarrow> sql_row \<Rightarrow> bool" where
  "timed cal r \<longleftrightarrow> (case value_time (read_iso cal) (cell r ''expires_at'') of Aware t \<Rightarrow> True | _ \<Rightarrow> False)"

lemma timed_elapsed:
  assumes "timed cal r"
  shows "elapsed (read_iso cal) now (cell r ''expires_at'') = Inr (Some (past cal now r))"
  using assms by (auto simp: timed_def elapsed_def past_def split: stamp.splits)

lemma none_stale_timed:
  "list_all (timed cal) rows \<Longrightarrow> none_stale cal now column state rows =
     Inr (list_all (\<lambda>r. \<not> (past cal now r \<and> cell r column = JStr state)) rows)"
  by (induction rows) (auto simp: timed_elapsed and_then_def)

lemma cell_set_or_absent:
  assumes "map_of new c = Some v"
  shows "cell (set_cells new r) c \<in> {JNull, v}"
  using assms by (simp add: cell_set_cells get_or_def split: option.split)

lemma overdue_gone:
  assumes "recovered t (overdue cal now column states) new db db' rec" and "state \<in> set states"
    and "map_of new column = Some (JStr ''EXPIRED'')" and "state \<noteq> ''EXPIRED''" and "''expires_at'' \<notin> fst ` set new"
    and "list_all (timed cal) (rows_of t db)" and "fetchall t cols db = Inr x"
  shows "on_rows name sub t cols db' (none_stale cal now column state) = Inr (diagnostic name sub True)"
proof -
  let ?f = "\<lambda>r. if overdue cal now column states r then set_cells new r else r"
  note facts = recovered_facts[OF assms(1)]
  have same: "cell (?f r) ''expires_at'' = cell r ''expires_at''" for r
    using assms(5) by (simp add: cell_unset)
  then have "timed cal (?f r) = timed cal r" "past cal now (?f r) = past cal now r" for r
    by (simp_all add: timed_def past_def)
  moreover have "\<not> (past cal now r \<and> cell (?f r) column = JStr state)" for r
    using cell_set_or_absent[OF assms(3), of r] assms(2,4) by (auto simp: overdue_def)
  ultimately have "list_all (timed cal) (rows_of t db') \<and>
      list_all (\<lambda>r. \<not> (past cal now r \<and> cell r column = JStr state)) (rows_of t db')"
    using assms(6) unfolding facts(1) list.pred_map comp_def by (auto simp: list_all_iff)
  moreover have "fetchall t cols db' = Inr (rows_of t db')"
    by (rule fetchall_schema[OF facts(5)[symmetric] assms(7)])
  ultimately show ?thesis by (simp add: on_rows_def none_stale_timed and_then_def)
qed

lemma on_rows_same: "map_of db' t = map_of db t \<Longrightarrow> on_rows name sub t cols db' good = on_rows name sub t cols db good"
  by (simp add: on_rows_def fetchall_def)

text \<open>
  C37: When all deadlines can be read, a recovery that succeeds leaves a database on which the two
  lifecycle checks it is meant for pass: no action is PENDING past its deadline and no
  authorization is APPROVED past its own.
\<close>

theorem recovery_clears_checks:
  assumes "recover_all cal ((t1, id1), (t2, id2), t3, id3) db = (Inr recs, db')"
    and "recoverable ''orion_actions'' ''action_id'' db"
    and "recoverable ''screen_authorizations'' ''authorization_id'' db"
    and "recoverable ''aegis_sessions'' ''aegis_session_id'' db"
    and "list_all (timed cal) (rows_of ''orion_actions'' db)"
    and "list_all (timed cal) (rows_of ''screen_authorizations'' db)"
    and "fetchall ''orion_actions'' [''action_id'', ''status'', ''expires_at''] db = Inr actions"
    and "fetchall ''screen_authorizations''
      [''authorization_id'', ''session_id'', ''decision'', ''approved_at'', ''denied_at'', ''expires_at''] db = Inr decisions"
  shows "check_no_expired_orion_actions cal t1 db' = Inr (diagnostic ''no_expired_orion_actions'' ''ORION'' True) \<and>
    check_no_orphaned_screen_authorizations cal t2 db' =
      Inr (diagnostic ''no_orphaned_screen_authorizations'' ''VISTA'' True)"
proof -
  from assms(1) obtain a b c db1 db2 where
      1: "recover_orion_actions cal t1 id1 db = (Inr a, db1)" and
      2: "recover_screen_authorizations cal t2 id2 db1 = (Inr b, db2)" and
      3: "recover_aegis_sessions cal t3 id3 db2 = (Inr c, db')"
    by (auto simp: recover_all_def split: prod.splits sum.splits)
  note first = recover_orion_result[OF 1 assms(2)]
  note r1 = recovered_facts[OF first]
  have screen: "map_of db1 ''screen_authorizations'' = map_of db ''screen_authorizations''" by (rule r1(3)) simp_all
  have "recoverable ''screen_authorizations'' ''authorization_id'' db1"
    using assms(3) recoverable_same[OF screen] by simp
  note second = recover_screen_result[OF 2 this]
  note r2 = recovered_facts[OF second]
  have "recoverable ''aegis_sessions'' ''aegis_session_id'' db2"
    using assms(4) recoverable_same[OF r1(3)[of "''aegis_sessions''"]] recoverable_same[OF r2(3)[of "''aegis_sessions''"]]
    by simp
  note r3 = recovered_facts[OF recover_aegis_result[OF 3 this]]
  have "check_no_expired_orion_actions cal t1 db1 = Inr (diagnostic ''no_expired_orion_actions'' ''ORION'' True)"
    unfolding check_no_expired_orion_actions_def
    by (rule overdue_gone[OF first _ _ _ _ assms(5,7)]) simp_all
  moreover have "map_of db' ''orion_actions'' = map_of db1 ''orion_actions''"
    using r2(3)[of "''orion_actions''"] r3(3)[of "''orion_actions''"] by simp
  then have "check_no_expired_orion_actions cal t1 db' = check_no_expired_orion_actions cal t1 db1"
    unfolding check_no_expired_orion_actions_def by (rule on_rows_same)
  moreover have "check_no_orphaned_screen_authorizations cal t2 db2 =
      Inr (diagnostic ''no_orphaned_screen_authorizations'' ''VISTA'' True)"
    unfolding check_no_orphaned_screen_authorizations_def
  proof (rule overdue_gone[OF second])
    show "list_all (timed cal) (rows_of ''screen_authorizations'' db1)"
      using assms(6) screen by (simp add: rows_of_def)
    show "fetchall ''screen_authorizations''
        [''authorization_id'', ''session_id'', ''decision'', ''approved_at'', ''denied_at'', ''expires_at''] db1 = Inr decisions"
      using assms(8) screen by (simp add: fetchall_def)
  qed simp_all
  moreover have "map_of db' ''screen_authorizations'' = map_of db2 ''screen_authorizations''" by (rule r3(3)) simp_all
  then have "check_no_orphaned_screen_authorizations cal t2 db' = check_no_orphaned_screen_authorizations cal t2 db2"
    unfolding check_no_orphaned_screen_authorizations_def by (rule on_rows_same)
  ultimately show ?thesis by simp
qed

section \<open>Retention\<close>

text \<open>No row refers to a table that a policy empties.\<close>

definition unreferenced :: "string \<Rightarrow> sql_db \<Rightarrow> bool" where
  "unreferenced t db \<longleftrightarrow> list_all (\<lambda>(n, tb). list_all (\<lambda>(c, parent, p). parent \<noteq> t) (tb_foreign tb)) db"

lemma delete_elsewhere:
  assumes "unreferenced t db" and "n \<noteq> t"
  shows "map_of (sql_delete t p db) n = map_of db n"
proof (cases "map_of db n")
  case (Some tb)
  then have "(n, tb) \<in> set db" by (rule map_of_SomeD)
  then have "\<not> orphaned t gone tb r" for gone r
    using assms(1) by (intro orphans_stay) (auto simp: unreferenced_def list_all_iff)
  then show ?thesis using Some assms(2) by (simp add: map_of_delete)
qed (simp add: map_of_delete)

lemma unreferenced_schema:
  assumes "schema_of db' = schema_of db"
  shows "unreferenced t db' = unreferenced t db"
proof -
  have bare: "unreferenced t x = unreferenced t (schema_of x)" for x
    by (simp add: unreferenced_def schema_of_def list_all_iff case_prod_unfold)
  show ?thesis using bare[of db'] bare[of db] assms by simp
qed

lemma choose_column_same:
  "map_of db' t = map_of db t \<Longrightarrow> choose_column cs t limit_text db' = choose_column cs t limit_text db"
  by (induction cs) (auto simp: fetchall_def Let_def split: option.split)

lemma choose_column_Some:
  "choose_column cs t limit_text db = (Some c, n) \<Longrightarrow> n = length (filter (\<lambda>r. sql_less (cell r c) limit_text) (rows_of t db))"
  by (induction cs) (auto simp: Let_def dest: fetchall_rows split: sum.splits if_splits)

lemma choose_column_None: "choose_column cs t limit_text db = (None, n) \<Longrightarrow> n = 0"
  by (induction cs) (auto simp: Let_def split: sum.splits if_splits)

definition announced :: "table_plan \<Rightarrow> table_plan" where
  "announced p = p\<lparr>tp_applied := False\<rparr>"

lemma apply_policy_real:
  assumes "apply_policy False limit_text p db1 = (plan, db2)" and "map_of db1 (rp_table p) = map_of db (rp_table p)"
    and "unreferenced (rp_table p) db1"
  shows "apply_policy True limit_text p db = (announced plan, db)"
    and "length (rows_of (rp_table p) db) = length (rows_of (rp_table p) db2) + tp_rows plan"
    and "n \<noteq> rp_table p \<Longrightarrow> map_of db2 n = map_of db1 n" and "schema_of db2 = schema_of db1"
proof -
  obtain col k where choice: "choose_column retention_columns (rp_table p) limit_text db1 = (col, k)" by fastforce
  then have choice': "choose_column retention_columns (rp_table p) limit_text db = (col, k)"
    using choose_column_same[OF assms(2)] by metis
  show "apply_policy True limit_text p db = (announced plan, db)"
    using assms(1) by (auto simp: apply_policy_def choice choice' announced_def Let_def split: option.splits)
  show "n \<noteq> rp_table p \<Longrightarrow> map_of db2 n = map_of db1 n" "schema_of db2 = schema_of db1"
    using assms(1) delete_elsewhere[OF assms(3)] by (auto simp: apply_policy_def choice Let_def split: option.splits)
  have same: "rows_of (rp_table p) db1 = rows_of (rp_table p) db" using assms(2) by (simp add: rows_of_def)
  show "length (rows_of (rp_table p) db) = length (rows_of (rp_table p) db2) + tp_rows plan"
  proof (cases col)
    case None
    then show ?thesis using assms(1) choice choose_column_None same by (auto simp: apply_policy_def Let_def)
  next
    case (Some c)
    then have "rows_of (rp_table p) db2 = filter (\<lambda>r. \<not> sql_less (cell r c) limit_text) (rows_of (rp_table p) db1)"
      using assms(1) choice by (auto simp: apply_policy_def Let_def rows_of_def map_of_delete split: option.split)
    moreover have "tp_rows plan = length (filter (\<lambda>r. sql_less (cell r c) limit_text) (rows_of (rp_table p) db1))"
      using assms(1) choice choose_column_Some Some by (auto simp: apply_policy_def Let_def)
    ultimately show ?thesis
      using sum_length_filter_compl[of "\<lambda>r. sql_less (cell r c) limit_text" "rows_of (rp_table p) db1"] same by simp
  qed
qed

lemma apply_policies_real:
  assumes "apply_policies False cutoff ps plans db1 = (Inr plans', db2)"
    and "distinct (map fst plans @ map rp_table ps)"
    and "\<forall>p \<in> set ps. map_of db1 (rp_table p) = map_of db (rp_table p) \<and> unreferenced (rp_table p) db1"
  shows "apply_policies True cutoff ps (map (apsnd announced) plans) db = (Inr (map (apsnd announced) plans'), db) \<and>
    (\<exists>new. plans' = plans @ new \<and> set (map fst new) \<subseteq> set (map rp_table ps) \<and>
       list_all (\<lambda>(t, p). length (rows_of t db) = length (rows_of t db2) + tp_rows p) new \<and>
       (\<forall>t. t \<notin> set (map fst new) \<longrightarrow> map_of db2 t = map_of db1 t))"
  using assms
proof (induction ps arbitrary: plans db1)
  case Nil
  then show ?case by simp
next
  case (Cons p ps)
  show ?case
  proof (cases "rp_enabled p")
    case False
    then have "apply_policies False cutoff ps plans db1 = (Inr plans', db2)" using Cons.prems(1) by simp
    then obtain new where "apply_policies True cutoff ps (map (apsnd announced) plans) db =
          (Inr (map (apsnd announced) plans'), db)" "plans' = plans @ new" "set (map fst new) \<subseteq> set (map rp_table ps)"
        "list_all (\<lambda>(t, p). length (rows_of t db) = length (rows_of t db2) + tp_rows p) new"
        "\<forall>t. t \<notin> set (map fst new) \<longrightarrow> map_of db2 t = map_of db1 t"
      using Cons.IH[of plans db1] Cons.prems(2,3) by auto
    then show ?thesis using False by (intro conjI exI[of _ new]) auto
  next
    case True
    with Cons.prems(1) obtain limit_text where limit: "cutoff (rp_days p) = Inr limit_text"
      by (auto split: sum.splits)
    obtain plan db3 where one: "apply_policy False limit_text p db1 = (plan, db3)" by fastforce
    note facts = apply_policy_real[OF one, of db]
    have known: "map_of db1 (rp_table p) = map_of db (rp_table p)" "unreferenced (rp_table p) db1"
      using Cons.prems(3) by auto
    let ?plans = "plans @ [(rp_table p, plan)]"
    have put: "assoc_put (rp_table p) plan plans = ?plans" using Cons.prems(2) by (intro assoc_put_new) auto
    have put': "assoc_put (rp_table p) (announced plan) (map (apsnd announced) plans) = map (apsnd announced) ?plans"
    proof -
      have "rp_table p \<notin> fst ` set plans" using Cons.prems(2) by auto
      then have "rp_table p \<notin> fst ` set (map (apsnd announced) plans)" by force
      then show ?thesis by (simp add: assoc_put_new)
    qed
    have run: "apply_policies False cutoff ps ?plans db3 = (Inr plans', db2)"
      using Cons.prems(1) True limit one put by simp
    have "map_of db3 (rp_table q) = map_of db (rp_table q) \<and> unreferenced (rp_table q) db3" if "q \<in> set ps" for q
    proof -
      have "rp_table p \<notin> rp_table ` set ps" using Cons.prems(2) by simp
      then have "rp_table q \<noteq> rp_table p" using that by (metis image_eqI)
      then show ?thesis
        using facts(3,4)[OF known] Cons.prems(3) that unreferenced_schema[of db3 db1] by simp
    qed
    moreover have "distinct (map fst ?plans @ map rp_table ps)" using Cons.prems(2) by auto
    ultimately obtain new where rest: "apply_policies True cutoff ps (map (apsnd announced) ?plans) db =
          (Inr (map (apsnd announced) plans'), db)" "plans' = ?plans @ new" "set (map fst new) \<subseteq> set (map rp_table ps)"
        "list_all (\<lambda>(t, p). length (rows_of t db) = length (rows_of t db2) + tp_rows p) new"
        "\<forall>t. t \<notin> set (map fst new) \<longrightarrow> map_of db2 t = map_of db3 t"
      using Cons.IH[OF run] by blast
    have "apply_policies True cutoff (p # ps) (map (apsnd announced) plans) db = (Inr (map (apsnd announced) plans'), db)"
      using True limit facts(1)[OF known] put' rest(1) by simp
    moreover have "rp_table p \<notin> set (map fst new)" using rest(3) Cons.prems(2) by auto
    then have "rows_of (rp_table p) db2 = rows_of (rp_table p) db3" using rest(5) by (simp add: rows_of_def)
    then have "list_all (\<lambda>(t, p). length (rows_of t db) = length (rows_of t db2) + tp_rows p) ((rp_table p, plan) # new)"
      using rest(4) facts(2)[OF known] by simp
    ultimately show ?thesis
      using rest(2,3,5) facts(3)[OF known] by (intro conjI exI[of _ "(rp_table p, plan) # new"]) auto
  qed
qed

text \<open>
  C38: A dry run of the retention deletes nothing and announces what the run then does: the same
  columns and numbers, each table losing exactly the number of rows announced and no other table
  losing any, as long as the policies are of different tables and none is of one that is referenced.
\<close>

theorem retention_as_announced:
  assumes "list_retention_policies db = Inr ps" and "distinct (map rp_table ps)"
    and "list_all (\<lambda>p. unreferenced (rp_table p) db) ps"
    and "apply_retention False cutoff db = (Inr plans, db')"
  shows "apply_retention True cutoff db = (Inr (map (apsnd announced) plans), db) \<and>
    list_all (\<lambda>(t, p). length (rows_of t db) = length (rows_of t db') + tp_rows p) plans \<and>
    (\<forall>t. t \<notin> set (map fst plans) \<longrightarrow> rows_of t db' = rows_of t db)"
proof -
  have "apply_policies False cutoff ps [] db = (Inr plans, db')"
    using assms(1,4) by (simp add: apply_retention_def)
  from apply_policies_real[OF this, of db] assms(2,3) show ?thesis
    using assms(1) by (auto simp: apply_retention_def list_all_iff rows_of_def)
qed

section \<open>An example\<close>

definition demo_table :: "string list \<Rightarrow> string list list \<Rightarrow> sql_table" where
  "demo_table cols rows = (new_table (map (\<lambda>c. optional c CT_TEXT JNull) cols) [] None [])
     \<lparr>tb_rows := map (\<lambda>vs. zip cols (map JStr vs)) rows\<rparr>"

definition demo_upkeep_db :: sql_db where
  "demo_upkeep_db =
     [(''orion_actions'', demo_table [''action_id'', ''status'', ''expires_at'', ''updated_at'']
         [[''A1'', ''PENDING'', ''past'', ''t''], [''A2'', ''PENDING'', ''later'', ''t'']]),
      (''screen_authorizations'', demo_table [''authorization_id'', ''session_id'', ''decision'', ''approved_at'', ''denied_at'', ''expires_at'']
         [[''S1'', ''V1'', ''APPROVED'', ''t'', [], ''past''], [''S2'', ''V2'', ''REVOKED'', ''t'', [], ''past'']]),
      (''aegis_sessions'', demo_table [''aegis_session_id'', ''state'', ''expires_at''] [[''G1'', ''CAPTURING'', ''past'']]),
      (''atlas_recovery'', demo_table [''recovery_id'', ''device_id'', ''started_at'', ''completed_at'', ''operation'', ''status'',
         ''actions_taken'', ''notes''] [])]"

definition demo_clock :: calendar where
  "demo_clock = \<lparr>read_iso = (\<lambda>s. if s = ''past'' then Aware 1 else Aware 100), write_iso = (\<lambda>t. ''t'')\<rparr>"

definition demo_recovery :: "(sql_db, recovery_record list) outcome" where
  "demo_recovery = recover_all demo_clock ((50, ''R1'', ''t''), (50, ''R2'', ''t''), 50, ''R3'', ''t'') demo_upkeep_db"

lemma demo_recovery_run:
  "recover_all demo_clock ((50, ''R1'', ''t''), (50, ''R2'', ''t''), 50, ''R3'', ''t'') demo_upkeep_db =
     (Inr (projr (fst demo_recovery)), snd demo_recovery)"
proof -
  have "succeeded demo_recovery" by code_simp
  then show ?thesis by (cases demo_recovery; cases "fst demo_recovery") (auto simp: demo_recovery_def succeeded_def)
qed

lemma demo_recoverable:
  "recoverable ''orion_actions'' ''action_id'' demo_upkeep_db"
  "recoverable ''screen_authorizations'' ''authorization_id'' demo_upkeep_db"
  "recoverable ''aegis_sessions'' ''aegis_session_id'' demo_upkeep_db"
  by code_simp+


theorem recovery_clears_checks_witness:
  "check_no_expired_orion_actions demo_clock 50 demo_upkeep_db = Inr (diagnostic ''no_expired_orion_actions'' ''ORION'' False) \<and>
   check_no_expired_orion_actions demo_clock 50 (snd demo_recovery) = Inr (diagnostic ''no_expired_orion_actions'' ''ORION'' True)"
proof -
  have timed: "list_all (timed demo_clock) (rows_of ''orion_actions'' demo_upkeep_db)"
    "list_all (timed demo_clock) (rows_of ''screen_authorizations'' demo_upkeep_db)" by code_simp+
  have "fetchall ''orion_actions'' [''action_id'', ''status'', ''expires_at''] demo_upkeep_db =
      Inr (rows_of ''orion_actions'' demo_upkeep_db)" by code_simp
  moreover have "fetchall ''screen_authorizations''
      [''authorization_id'', ''session_id'', ''decision'', ''approved_at'', ''denied_at'', ''expires_at''] demo_upkeep_db =
      Inr (rows_of ''screen_authorizations'' demo_upkeep_db)" by code_simp
  moreover have "check_no_expired_orion_actions demo_clock 50 demo_upkeep_db =
      Inr (diagnostic ''no_expired_orion_actions'' ''ORION'' False)" by code_simp
  ultimately show ?thesis
    using recovery_clears_checks[OF demo_recovery_run demo_recoverable timed] by blast
qed

definition demo_retention_db :: sql_db where
  "demo_retention_db =
     [(''atlas_retention'', (demo_table [''retention_id'', ''target_table'', ''retention_days'', ''enabled''] [])
         \<lparr>tb_rows := [[(''retention_id'', JStr ''P1''), (''target_table'', JStr ''orion_events''),
            (''retention_days'', JInt 90), (''enabled'', JInt 1)]]\<rparr>),
      (''orion_events'', demo_table [''event_id'', ''created_at''] [[''E1'', ''a''], [''E2'', ''c'']])]"

theorem retention_as_announced_witness:
  "apply_retention True (\<lambda>days. Inr ''b'') demo_retention_db =
     (Inr [(''orion_events'', \<lparr>tp_days = 90, tp_column = Some ''created_at'', tp_rows = 1, tp_applied = False\<rparr>)], demo_retention_db)"
proof -
  let ?ps = "[\<lparr>rp_id = ''P1'', rp_table = ''orion_events'', rp_days = 90, rp_enabled = True, rp_updated = [], rp_notes = []\<rparr>]"
  let ?plan = "\<lparr>tp_days = 90, tp_column = Some ''created_at'', tp_rows = 1, tp_applied = True\<rparr>"
  have ps: "list_retention_policies demo_retention_db = Inr ?ps" by code_simp
  have "fst (apply_retention False (\<lambda>days. Inr ''b'') demo_retention_db) = Inr [(''orion_events'', ?plan)]" by code_simp
  then have run: "apply_retention False (\<lambda>days. Inr ''b'') demo_retention_db =
      (Inr [(''orion_events'', ?plan)], snd (apply_retention False (\<lambda>days. Inr ''b'') demo_retention_db))"
    by (simp add: prod_eq_iff)
  have "list_all (\<lambda>p. unreferenced (rp_table p) demo_retention_db) ?ps" by code_simp
  from retention_as_announced[OF ps _ this run] show ?thesis by (simp add: announced_def)
qed

end
