(* ===== verification/AtlasController.thy ===== *)
theory AtlasController
  imports AtlasRestoreProps AtlasClaims
begin

text \<open>
  \<^verbatim>\<open>guardianmesh/atlas/controller.py\<close>: the operations over a backup directory that may not be
  configured (\<open>dir\<close>); and what the checks say of a new installation.
\<close>

section \<open>The controller\<close>

definition controller_backup ::
  "bool \<Rightarrow> backup_env \<Rightarrow> string \<Rightarrow> string \<Rightarrow> string option \<Rightarrow> backup_state \<Rightarrow> (backup_state, json) outcome" where
  "controller_backup dir env bid created device st =
     (if \<not> dir then raises (Builtin PyRuntimeError) st
      else case create_backup env bid created device st of
        (Inl e, st1) \<Rightarrow> (Inl e, st1)
      | (Inr info, st1) \<Rightarrow> returns (backup_info_to_dict info) st1)"

definition controller_list_backups :: "bool \<Rightarrow> sql_db \<Rightarrow> gm_error + json list" where
  "controller_list_backups dir db =
     (if \<not> dir then Inr [] else and_then (list_backups db) (\<lambda>bs. Inr (map backup_info_to_dict bs)))"

text \<open>\<open>None\<close> is the answer that there is no directory.\<close>

definition controller_verify_backup ::
  "bool \<Rightarrow> backup_env \<Rightarrow> string \<Rightarrow> backup_state \<Rightarrow> gm_error + backup_check option" where
  "controller_verify_backup dir env bid st =
     (if \<not> dir then Inr None else and_then (verify_backup env bid st) (\<lambda>c. Inr (Some c)))"

definition controller_restore ::
  "bool \<Rightarrow> backup_env \<Rightarrow> string \<Rightarrow> bool \<Rightarrow> backup_state \<Rightarrow> (backup_state, restore_plan) outcome" where
  "controller_restore dir env bid dry st =
     (if \<not> dir then raises (Builtin PyRuntimeError) st else restore_backup env bid dry st)"

definition controller_recover :: "calendar \<Rightarrow> recovery_times \<Rightarrow> sql_db \<Rightarrow> (sql_db, json list) outcome" where
  "controller_recover cal ts db =
     (case recover_all cal ts db of
        (Inl e, db1) \<Rightarrow> (Inl e, db1)
      | (Inr rs, db1) \<Rightarrow> returns (map recovery_to_dict rs) db1)"

section \<open>Restoring as the rest of the checks see it\<close>

lemma dry_restore_writes_nothing: "snd (restore_backup env bid True st) = st"
  by (simp add: restore_backup_def split: sum.split option.split)

lemma failed_restore_writes_nothing:
  "fst (restore_backup env bid dry st) = Inl e \<Longrightarrow> snd (restore_backup env bid dry st) = st"
  by (auto simp: restore_backup_def split: sum.splits option.splits if_splits)

text \<open>A device that is revoked is never reported, nor any other.\<close>

lemma revoked_check_vacuous:
  "fetchall ''trusted_devices'' [''remote_identity_id'', ''status''] db = Inr rows \<Longrightarrow>
   check_no_revoked_device_in_active db = Inr (diagnostic ''no_revoked_device_in_active'' ''LINK'' True)"
  by (simp add: check_no_revoked_device_in_active_def on_rows_def and_then_def)

text \<open>The check of the migration state writes to a database without a log.\<close>

lemma version_check_writes:
  "\<not> has_table ''schema_migrations'' db \<Longrightarrow> has_table ''schema_migrations'' (snd (check_migration_state db))"
  by (auto simp: check_migration_state_def version_at_least_def get_current_version_def get_applied_versions_def
      init_migration_table_def has_table_def map_of_create Let_def split: sum.split option.split)

section \<open>A new installation\<close>

lemma declared_columns: "dg_ok (check_forbidden_columns (concat (map declared MIGRATIONS)))"
  by code_simp

lemma declared_shipped: "shipped_references (concat (map declared MIGRATIONS))"
  by code_simp

lemma fresh_tables:
  "set (map fst ((''schema_migrations'', tb) # concat (map declared MIGRATIONS))) =
     insert ''schema_migrations'' (set (concat (map (map fst \<circ> declared) MIGRATIONS)))"
  by (simp add: image_UN)

lemma fresh_health:
  assumes "db = (''schema_migrations'', tb) # concat (map declared MIGRATIONS)"
  shows "metrics_summary db = ([], [], 10)" and "dg_ok (check_required_tables db)" and "check_expected_tables db"
proof -
  note tables = fresh_tables[of tb, folded assms]
  have "list_all (\<lambda>t. t \<in> set (map fst db)) REQUIRED_TABLES"
    unfolding tables declared_tables REQUIRED_TABLES_def by simp
  then show "dg_ok (check_required_tables db)"
    by (simp only: check_required_tables_def diagnostic_def diagnostic_check.simps)
  show "check_expected_tables db"
    unfolding check_expected_tables_def tables declared_tables by simp
  have "list_all (\<lambda>t. t \<in> set (map fst db)) (concat (map SUBSYSTEM_TABLES all_subsystems))"
    unfolding tables declared_tables all_subsystems_def by simp
  then have healthy: "filter (\<lambda>t. t \<notin> set (map fst db)) (SUBSYSTEM_TABLES sub) = []" if "sub \<in> set all_subsystems" for sub
    using that by (auto simp: filter_empty_conv list_all_iff)
  have "map (he_status \<circ> (\<lambda>sub. check_subsystem sub db)) all_subsystems = map (\<lambda>sub. AH_OK) all_subsystems"
    by (rule map_cong[OF refl]) (simp only: comp_apply check_subsystem_def healthy list.case health_entry.simps)
  then have "list_all (\<lambda>(n, h). he_status h = AH_OK) (check_all_subsystems db)"
    by (simp add: check_all_subsystems_def list_all_iff)
  then show "metrics_summary db = ([], [], 10)"
    by (auto simp: metrics_summary_def Let_def filter_empty_conv list_all_iff)
      (simp add: check_all_subsystems_def all_subsystems_def)
qed


end
